(* ===== verification/Go_Base.thy ===== *)
theory Go_Base
  imports Main
    "HOL-Library.AList"
    "HOL-Library.Char_ord"
    "HOL-Library.List_Lexorder"
    "HOL-Library.Sublist"
    "HOL-Library.Multiset"
    "HOL-Library.Monad_Syntax"
begin

text \<open>
  What the components share: the parts of Go and of its standard library that the sources use
  (package strings, maps, sorting, decimal numbers, time) and the generic lemmas on association
  lists that carry the component proofs.

  \<^item> A Go string or byte slice is a \<^typ>\<open>string\<close>, a list of bytes; \<open>len\<close> is \<^const>\<open>length\<close>. Strings are
    ordered bytewise (theories Char_ord and List_Lexorder), as Go's \<open><\<close> and \<open>sort.Strings\<close> do.
  \<^item> A Go map is an association list with distinct keys. The order of the list stands for the order
    in which \<open>range\<close> visits the map, which Go leaves open: a theorem about every such list holds for
    every visiting order. Lookup is \<^const>\<open>map_of\<close>, assignment \<^const>\<open>AList.update\<close>, \<open>delete\<close> is
    \<^const>\<open>AList.delete\<close>.
  \<^item> \<open>sort.Slice\<close> is not stable; elements whose order it leaves open come from a map here, so the stable
    \<^const>\<open>sort_key\<close> reaches each possible outcome through some visiting order.
  \<^item> A time is the number of nanoseconds since the Unix epoch; \<open>time.Time{}\<close> is \<open>zero_time\<close>.
  \<^item> A call that returns \<open>(value, error)\<close> is a value of a sum type, with \<^const>\<open>Inl\<close> for the error.
\<close>

section \<open>Collections of facts\<close>

named_theorems go_str \<open>evaluation of the strings functions\<close>
named_theorems go_map \<open>lookups in updated maps\<close>
named_theorems inv_intros \<open>preservation of component invariants\<close>

section \<open>Types\<close>

type_synonym time = int
type_synonym duration = int
type_synonym ('k, 'v) gomap = "('k \<times> 'v) list"

definition zero_time :: time where
  "zero_time = - 62135596800 * 1000000000"

definition second :: duration where "second = 1000000000"
definition minute :: duration where "minute = 60 * second"
definition hour :: duration where "hour = 60 * minute"

text \<open>The dynamically typed values of \<open>map[string]any\<close>. A number decoded from JSON is a
  \<open>float64\<close>, which the program never computes with: \<open>AFloat\<close> carries its text. \<open>ARaw\<close> is a value of
  another Go type (a struct or a typed slice), which the type switches of the program send to their
  default branch; it carries the JSON text that \<open>encoding/json\<close> gives for it.\<close>

datatype goany =
    ANil
  | ABool bool
  | AInt int
  | AFloat string
  | AStr string
  | AArr "goany list"
  | AMap "(string \<times> goany) list"
  | ARaw string

section \<open>Package strings\<close>

definition HasPrefix :: "string \<Rightarrow> string \<Rightarrow> bool" where
  "HasPrefix s p = prefix p s"

definition HasSuffix :: "string \<Rightarrow> string \<Rightarrow> bool" where
  "HasSuffix s p = suffix p s"

definition TrimPrefix :: "string \<Rightarrow> string \<Rightarrow> string" where
  "TrimPrefix s p = (if prefix p s then drop (length p) s else s)"

definition TrimSuffix :: "string \<Rightarrow> string \<Rightarrow> string" where
  "TrimSuffix s p = (if suffix p s then take (length s - length p) s else s)"

text \<open>The character sets of the program are ASCII, so runes and bytes agree.\<close>

definition ContainsAny :: "string \<Rightarrow> string \<Rightarrow> bool" where
  "ContainsAny s chars = list_ex (\<lambda>c. c \<in> set chars) s"

fun Contains :: "string \<Rightarrow> string \<Rightarrow> bool" where
  "Contains [] sub = (sub = [])"
| "Contains (c # s) sub = (prefix sub (c # s) \<or> Contains s sub)"

definition ReplaceChar :: "char \<Rightarrow> char \<Rightarrow> string \<Rightarrow> string" where
  "ReplaceChar a b s = map (\<lambda>c. if c = a then b else c) s"

text \<open>\<open>strings.Cut\<close> and \<open>strings.Split\<close> with a separator of one byte.\<close>

fun CutChar :: "char \<Rightarrow> string \<Rightarrow> (string \<times> string) option" where
  "CutChar sep [] = None"
| "CutChar sep (c # s) =
     (if c = sep then Some ([], s)
      else map_option (\<lambda>(a, b). (c # a, b)) (CutChar sep s))"

fun SplitChar :: "char \<Rightarrow> string \<Rightarrow> string list" where
  "SplitChar sep [] = [[]]"
| "SplitChar sep (c # s) =
     (if c = sep then [] # SplitChar sep s
      else (case SplitChar sep s of [] \<Rightarrow> [[c]] | p # ps \<Rightarrow> (c # p) # ps))"

text \<open>\<open>strings.TrimSpace\<close> removes the runes of \<open>unicode.IsSpace\<close>. \<open>space_at\<close> is the number of bytes of
  the white-space rune a byte sequence starts with, and 0 if it starts with none; the reversed
  patterns of \<open>space_end\<close> do the same at the end.\<close>

definition byte :: "nat \<Rightarrow> char" where
  "byte n = char_of n"

definition ascii_space :: "char \<Rightarrow> bool" where
  "ascii_space c = (c \<in> {byte 9, byte 10, byte 11, byte 12, byte 13, CHR '' ''})"

definition space2 :: "char \<Rightarrow> char \<Rightarrow> bool" where
  "space2 a b = (a = byte 194 \<and> b \<in> {byte 133, byte 160})"

definition space3 :: "char \<Rightarrow> char \<Rightarrow> char \<Rightarrow> bool" where
  "space3 a b c =
     ((a = byte 225 \<and> b = byte 154 \<and> c = byte 128)
      \<or> (a = byte 226 \<and> b = byte 128 \<and>
         (128 \<le> (of_char c :: nat) \<and> (of_char c :: nat) \<le> 138
          \<or> c \<in> {byte 168, byte 169, byte 175}))
      \<or> (a = byte 226 \<and> b = byte 129 \<and> c = byte 159)
      \<or> (a = byte 227 \<and> b = byte 128 \<and> c = byte 128))"

fun trim_left :: "string \<Rightarrow> string" where
  "trim_left (a # b # c # s) =
     (if ascii_space a then trim_left (b # c # s)
      else if space2 a b then trim_left (c # s)
      else if space3 a b c then trim_left s
      else a # b # c # s)"
| "trim_left [a, b] =
     (if ascii_space a then trim_left [b] else if space2 a b then [] else [a, b])"
| "trim_left [a] = (if ascii_space a then [] else [a])"
| "trim_left [] = []"

fun trim_right_rev :: "string \<Rightarrow> string" where
  "trim_right_rev (a # b # c # s) =
     (if ascii_space a then trim_right_rev (b # c # s)
      else if space2 b a then trim_right_rev (c # s)
      else if space3 c b a then trim_right_rev s
      else a # b # c # s)"
| "trim_right_rev [a, b] =
     (if ascii_space a then trim_right_rev [b] else if space2 b a then [] else [a, b])"
| "trim_right_rev [a] = (if ascii_space a then [] else [a])"
| "trim_right_rev [] = []"

definition TrimSpace :: "string \<Rightarrow> string" where
  "TrimSpace s = rev (trim_right_rev (rev (trim_left s)))"

text \<open>\<open>strings.Trim\<close> with an ASCII cutset.\<close>

definition Trim :: "string \<Rightarrow> string \<Rightarrow> string" where
  "Trim s cutset =
     rev (dropWhile (\<lambda>c. c \<in> set cutset) (rev (dropWhile (\<lambda>c. c \<in> set cutset) s)))"

text \<open>\<open>strings.ToLower\<close> on the ASCII letters and on the two other runes whose lower case is ASCII
  (U+0130 and U+212A). Go maps the remaining letters among themselves, never to ASCII; the program
  compares every lowered string with ASCII text only, for which they play no role.\<close>

definition lower_char :: "char \<Rightarrow> char" where
  "lower_char c =
     (if 65 \<le> (of_char c :: nat) \<and> (of_char c :: nat) \<le> 90 then char_of ((of_char c :: nat) + 32) else c)"

definition upper_char :: "char \<Rightarrow> char" where
  "upper_char c =
     (if 97 \<le> (of_char c :: nat) \<and> (of_char c :: nat) \<le> 122 then char_of ((of_char c :: nat) - 32) else c)"

fun ToLower :: "string \<Rightarrow> string" where
  "ToLower (a # b # c # s) =
     (if a = byte 226 \<and> b = byte 132 \<and> c = byte 170 then CHR ''k'' # ToLower s
      else if a = byte 196 \<and> b = byte 176 then CHR ''i'' # ToLower (c # s)
      else lower_char a # ToLower (b # c # s))"
| "ToLower [a, b] =
     (if a = byte 196 \<and> b = byte 176 then ''i'' else [lower_char a, lower_char b])"
| "ToLower [a] = [lower_char a]"
| "ToLower [] = []"

definition ToUpper :: "string \<Rightarrow> string" where
  "ToUpper s = map upper_char s"

text \<open>\<open>strings.EqualFold\<close> where one side is ASCII text without the letters k and s (the two that fold
  with non-ASCII runes).\<close>

definition EqualFold :: "string \<Rightarrow> string \<Rightarrow> bool" where
  "EqualFold s t = (map lower_char s = map lower_char t)"

section \<open>Decimal and hexadecimal numbers\<close>

definition digit :: "nat \<Rightarrow> char" where
  "digit n = char_of (if n < 10 then 48 + n else 87 + n)"

fun FormatNat :: "nat \<Rightarrow> string" where
  "FormatNat n = (if n < 10 then [digit n] else FormatNat (n div 10) @ [digit (n mod 10)])"

declare FormatNat.simps [simp del]

definition FormatInt :: "int \<Rightarrow> string" where
  "FormatInt i = (if i < 0 then CHR ''-'' # FormatNat (nat (- i)) else FormatNat (nat i))"

text \<open>\<open>fmt\<close>'s verb \<open>%020d\<close> for a non-negative number.\<close>

definition pad_left :: "nat \<Rightarrow> char \<Rightarrow> string \<Rightarrow> string" where
  "pad_left n c s = replicate (n - length s) c @ s"

text \<open>\<open>fmt.Sprintf("%020d")\<close>\<close>

definition twenty_digits :: "int \<Rightarrow> string" where
  "twenty_digits n = (if n < 0 then CHR ''-'' # pad_left 19 (CHR ''0'') (FormatNat (nat (- n)))
                      else pad_left 20 (CHR ''0'') (FormatNat (nat n)))"

definition hex_byte :: "char \<Rightarrow> string" where
  "hex_byte c = [digit ((of_char c :: nat) div 16), digit ((of_char c :: nat) mod 16)]"

definition EncodeToString :: "string \<Rightarrow> string" where
  "EncodeToString s = concat (map hex_byte s)"

text \<open>\<open>strconv.Quote\<close> and \<open>%q\<close> of text whose bytes above 127 form printable runes.\<close>

definition quote_char :: "char \<Rightarrow> string" where
  "quote_char c =
     (let n = (of_char c :: nat) in
      if n = 34 \<or> n = 92 then [CHR 0x5C, c]
      else if n = 7 then [CHR 0x5C, CHR ''a''] else if n = 8 then [CHR 0x5C, CHR ''b'']
      else if n = 9 then [CHR 0x5C, CHR ''t''] else if n = 10 then [CHR 0x5C, CHR ''n'']
      else if n = 11 then [CHR 0x5C, CHR ''v''] else if n = 12 then [CHR 0x5C, CHR ''f'']
      else if n = 13 then [CHR 0x5C, CHR ''r'']
      else if n < 32 \<or> n = 127 then [CHR 0x5C, CHR ''x''] @ hex_byte c
      else [c])"

definition Quote :: "string \<Rightarrow> string" where
  "Quote s = [CHR 0x22] @ concat (map quote_char s) @ [CHR 0x22]"

definition hex_digit :: "char \<Rightarrow> bool" where
  "hex_digit c = (let n = (of_char c :: nat) in
     (48 \<le> n \<and> n \<le> 57) \<or> (97 \<le> n \<and> n \<le> 102) \<or> (65 \<le> n \<and> n \<le> 70))"

text \<open>\<open>validSHA256\<close> of the detectors and the checks of the baseline and manifest readers: 64 lower-case
  hexadecimal digits.\<close>

definition lower_sha256 :: "string \<Rightarrow> bool" where
  "lower_sha256 s = (length s = 64 \<and> list_all hex_digit s \<and> s = ToLower s)"

definition dec_digit :: "char \<Rightarrow> bool" where
  "dec_digit c = (let n = (of_char c :: nat) in 48 \<le> n \<and> n \<le> 57)"

definition digit_value :: "char \<Rightarrow> nat" where
  "digit_value c = (let n = (of_char c :: nat) in
     if 48 \<le> n \<and> n \<le> 57 then n - 48 else if 97 \<le> n \<and> n \<le> 102 then n - 87
     else if 65 \<le> n \<and> n \<le> 70 then n - 55 else 16)"

definition number_value :: "nat \<Rightarrow> string \<Rightarrow> nat" where
  "number_value base s = foldl (\<lambda>v c. v * base + digit_value c) 0 s"

text \<open>\<open>strconv.ParseUint\<close> for the bases 10 and 16: an error on an empty string, on a digit outside
  the base and on a value of more than \<open>bits\<close> bits.\<close>

definition ParseUint :: "string \<Rightarrow> nat \<Rightarrow> nat \<Rightarrow> nat option" where
  "ParseUint s base bits =
     (if s \<noteq> [] \<and> list_all (\<lambda>c. digit_value c < base) s \<and> number_value base s < 2 ^ bits
      then Some (number_value base s) else None)"

text \<open>Signed 64-bit arithmetic (\<open>int\<close> and \<open>int64\<close>): the two's complement value of an integer.\<close>

definition wrap64 :: "int \<Rightarrow> int" where
  "wrap64 x = (x + 2 ^ 63) mod 2 ^ 64 - 2 ^ 63"

lemma wrap64_id [simp]: "- (2 ^ 63) \<le> x \<Longrightarrow> x < 2 ^ 63 \<Longrightarrow> wrap64 x = x"
  by (simp add: wrap64_def)

lemma wrap64_range: "- (2 ^ 63) \<le> wrap64 x \<and> wrap64 x < 2 ^ 63"
proof -
  have "0 \<le> (x + 2 ^ 63) mod 2 ^ 64" and "(x + 2 ^ 63) mod 2 ^ 64 < (2 ^ 64 :: int)"
    by simp_all
  then show ?thesis by (simp add: wrap64_def)
qed

text \<open>The white space of JSON: what a \<open>json.Decoder\<close> may leave before the end of its input.\<close>

definition json_blank :: "char \<Rightarrow> bool" where
  "json_blank c \<longleftrightarrow> c \<in> {CHR '' '', byte 9, byte 10, byte 13}"

section \<open>Association lists as maps\<close>

abbreviation keys :: "('k, 'v) gomap \<Rightarrow> 'k list" where
  "keys m \<equiv> map fst m"

lemma map_of_update [go_map, simp]: "map_of (AList.update k v m) = (map_of m)(k \<mapsto> v)"
  by (rule update_conv')

lemma map_of_delete [go_map, simp]: "map_of (AList.delete k m) = (map_of m)(k := None)"
  by (rule delete_conv')

lemma distinct_keys_update [inv_intros, simp]:
  "distinct (keys m) \<Longrightarrow> distinct (keys (AList.update k v m))"
  by (rule distinct_update)

lemma distinct_keys_delete [inv_intros, simp]:
  "distinct (keys m) \<Longrightarrow> distinct (keys (AList.delete k m))"
  by (rule distinct_delete)

lemma keys_update_old: "map_of m k \<noteq> None \<Longrightarrow> keys (AList.update k v m) = keys m"
  by (induction m) auto

lemma update_new [go_map]: "map_of m k = None \<Longrightarrow> AList.update k v m = m @ [(k, v)]"
  by (induction m) (auto split: if_splits)

lemma length_update:
  "length (AList.update k v m) = (if map_of m k = None then Suc (length m) else length m)"
  by (induction m) auto

lemma length_delete_le: "length (AList.delete k m) \<le> length m"
  by (simp add: AList.delete_eq)

lemma length_delete_less: "map_of m k \<noteq> None \<Longrightarrow> length (AList.delete k m) < length m"
  by (induction m) (auto simp: less_Suc_eq_le length_delete_le split: if_splits)

lemma mem_update_cases:
  "(a, b) \<in> set (AList.update k v m) \<Longrightarrow> (a, b) = (k, v) \<or> (a, b) \<in> set m"
  by (induction m) (auto split: if_splits)

lemma mem_delete: "(a, b) \<in> set (AList.delete k m) \<longleftrightarrow> (a, b) \<in> set m \<and> a \<noteq> k"
  by (auto simp: AList.delete_eq)

lemma map_of_SomeI: "distinct (keys m) \<Longrightarrow> (k, v) \<in> set m \<Longrightarrow> map_of m k = Some v"
  by simp

lemma map_of_mem: "distinct (keys m) \<Longrightarrow> map_of m k = Some v \<longleftrightarrow> (k, v) \<in> set m"
  by (auto dest: map_of_SomeD)

lemma keys_mem: "k \<in> set (keys m) \<longleftrightarrow> map_of m k \<noteq> None"
  by (simp add: map_of_eq_None_iff)

lemma find_mem: "List.find P xs = Some x \<Longrightarrow> x \<in> set xs \<and> P x"
  by (induction xs) (auto split: if_splits)

section \<open>Sorting\<close>

definition sort_desc :: "('a \<Rightarrow> int) \<Rightarrow> 'a list \<Rightarrow> 'a list" where
  "sort_desc f xs = sort_key (\<lambda>x. - f x) xs"

lemma sort_desc_mset [simp]: "mset (sort_desc f xs) = mset xs"
  by (simp add: sort_desc_def)

lemma sort_desc_set [simp]: "set (sort_desc f xs) = set xs"
  by (simp add: sort_desc_def)

lemma sort_desc_length [simp]: "length (sort_desc f xs) = length xs"
  by (simp add: sort_desc_def)

lemma sort_desc_sorted: "sorted_wrt (\<lambda>a b. f b \<le> f a) (sort_desc f xs)"
proof -
  have "sorted (map (\<lambda>x. - f x) (sort_desc f xs))"
    by (simp add: sort_desc_def)
  then show ?thesis
    by (simp add: sorted_map)
qed

lemma sorted_wrt_take: "sorted_wrt P xs \<Longrightarrow> sorted_wrt P (take n xs)"
  by (metis append_take_drop_id sorted_wrt_append)

section \<open>Strings\<close>

lemmas strings_defs = HasPrefix_def HasSuffix_def TrimPrefix_def TrimSuffix_def ContainsAny_def
  ReplaceChar_def TrimSpace_def Trim_def ToUpper_def EqualFold_def byte_def ascii_space_def
  space2_def space3_def lower_char_def upper_char_def

lemmas number_defs = FormatNat.simps FormatInt_def digit_def pad_left_def hex_byte_def
  EncodeToString_def ParseUint_def number_value_def digit_value_def

lemma byte_less: "(of_char c :: nat) < 256"
  by (cases c) (auto simp: of_char_def horner_sum_simps split: bool.splits)

lemma length_EncodeToString [simp]: "length (EncodeToString s) = 2 * length s"
  by (induction s) (auto simp: EncodeToString_def hex_byte_def)

lemma of_char_digit: "n < 16 \<Longrightarrow> (of_char (digit n) :: nat) = (if n < 10 then 48 + n else 87 + n)"
  by (simp add: digit_def)

lemma set_EncodeToString: "c \<in> set (EncodeToString s) \<Longrightarrow> \<exists>n < 16. c = digit n"
proof -
  assume "c \<in> set (EncodeToString s)"
  then obtain b where "c = digit ((of_char b :: nat) div 16) \<or> c = digit ((of_char b :: nat) mod 16)"
    by (auto simp: EncodeToString_def hex_byte_def)
  moreover have "(of_char b :: nat) div 16 < 16" "(of_char b :: nat) mod 16 < 16"
    using byte_less [of b] by (simp_all add: less_mult_imp_div_less)
  ultimately show ?thesis by blast
qed

lemma ToLower_plain:
  "\<forall>c \<in> set s. (of_char c :: nat) < 65 \<or> 90 < (of_char c :: nat) \<and> (of_char c :: nat) < 128 \<Longrightarrow> ToLower s = s"
  by (induction s rule: ToLower.induct) (auto simp: lower_char_def byte_def)

lemma lower_sha256_hash: "length d = 32 \<Longrightarrow> lower_sha256 (EncodeToString d)"
  unfolding lower_sha256_def
proof (intro conjI)
  show "list_all hex_digit (EncodeToString d)"
    unfolding list_all_iff
  proof
    fix c
    assume "c \<in> set (EncodeToString d)"
    then obtain n where "n < 16" "c = digit n" using set_EncodeToString by blast
    then show "hex_digit c" by (simp add: hex_digit_def of_char_digit)
  qed
  show "EncodeToString d = ToLower (EncodeToString d)"
  proof (rule ToLower_plain [symmetric], rule ballI)
    fix c
    assume "c \<in> set (EncodeToString d)"
    then obtain n where "n < 16" "c = digit n" using set_EncodeToString by blast
    then show "(of_char c :: nat) < 65 \<or> 90 < (of_char c :: nat) \<and> (of_char c :: nat) < 128" by (simp add: of_char_digit)
  qed
qed simp

text \<open>A text whose first and last bytes are visible ASCII has nothing to trim.\<close>

definition visible :: "char \<Rightarrow> bool" where
  "visible c \<longleftrightarrow> 33 \<le> (of_char c :: nat) \<and> (of_char c :: nat) < 127"

lemma visible_no_space:
  "visible c \<Longrightarrow> \<not> ascii_space c" "visible c \<Longrightarrow> \<not> space2 c x" "visible c \<Longrightarrow> \<not> space3 c x y"
  "visible c \<Longrightarrow> \<not> space2 x c" "visible c \<Longrightarrow> \<not> space3 x y c"
  by (auto simp: visible_def ascii_space_def space2_def space3_def byte_def)

lemma trim_left_visible: "visible c \<Longrightarrow> trim_left (c # s) = c # s"
  by (cases "c # s" rule: trim_left.cases) (simp_all add: visible_no_space)

lemma trim_right_rev_visible: "visible c \<Longrightarrow> trim_right_rev (c # s) = c # s"
  by (cases "c # s" rule: trim_right_rev.cases) (simp_all add: visible_no_space)

lemma TrimSpace_visible: "s \<noteq> [] \<Longrightarrow> visible (hd s) \<Longrightarrow> visible (last s) \<Longrightarrow> TrimSpace s = s"
proof -
  assume "s \<noteq> []" and "visible (hd s)" and "visible (last s)"
  then have "trim_left s = s" by (cases s) (simp_all add: trim_left_visible)
  moreover have "trim_right_rev (rev s) = rev s"
    using \<open>s \<noteq> []\<close> \<open>visible (last s)\<close>
    by (cases "rev s") (auto simp: trim_right_rev_visible last_rev [of "rev s", simplified])
  ultimately show ?thesis by (simp add: TrimSpace_def)
qed

lemma CutChar_append: "sep \<notin> set a \<Longrightarrow> CutChar sep (a @ sep # b) = Some (a, b)"
  by (induction a) auto

end
