(* ===== verification/Go_Path.thy ===== *)
theory Go_Path
  imports Go_Base
begin

text \<open>
  The lexical path functions of the packages \<open>path\<close> and \<open>path/filepath\<close> (on Linux, where the two
  agree), over the elements between slashes, and the two path helpers of the installer
  (\<open>rootPath\<close> and \<open>withinRoot\<close> of internal/installer/inspect.go), which keep every write of an
  installation below its root.
\<close>

section \<open>Elements of a path\<close>

abbreviation slash :: char where "slash \<equiv> CHR ''/''"

fun join :: "char \<Rightarrow> string list \<Rightarrow> string" where
  "join sep [] = []"
| "join sep [x] = x"
| "join sep (x # y # ys) = x @ sep # join sep (y # ys)"

definition IsAbs :: "string \<Rightarrow> bool" where
  "IsAbs p = HasPrefix p ''/''"

fun clean_step :: "bool \<Rightarrow> string list \<Rightarrow> string \<Rightarrow> string list" where
  "clean_step rooted out e =
     (if e = [] \<or> e = ''.'' then out
      else if e = ''..'' then
        (case out of
           [] \<Rightarrow> if rooted then [] else [''..'']
         | x # xs \<Rightarrow> if x = ''..'' then ''..'' # out else xs)
      else e # out)"

definition clean_elems :: "bool \<Rightarrow> string list \<Rightarrow> string list" where
  "clean_elems rooted es = rev (foldl (clean_step rooted) [] es)"

definition elems :: "string \<Rightarrow> string list" where
  "elems p = clean_elems (IsAbs p) (SplitChar slash p)"

definition Clean :: "string \<Rightarrow> string" where
  "Clean p =
     (if IsAbs p then slash # join slash (elems p)
      else if elems p = [] then ''.'' else join slash (elems p))"

definition JoinPath :: "string list \<Rightarrow> string" where
  "JoinPath ps =
     (case filter (\<lambda>p. p \<noteq> []) ps of [] \<Rightarrow> [] | qs \<Rightarrow> Clean (join slash qs))"

fun strip_common :: "string list \<Rightarrow> string list \<Rightarrow> string list \<times> string list" where
  "strip_common (b # bs) (t # ts) = (if b = t then strip_common bs ts else (b # bs, t # ts))"
| "strip_common bs ts = (bs, ts)"

text \<open>\<open>filepath.Rel\<close>: an error when only one of the two is absolute, or when an element \<open>..\<close> of the base
  would have to be undone.\<close>

definition Rel :: "string \<Rightarrow> string \<Rightarrow> string option" where
  "Rel base targ =
     (if Clean targ = Clean base then Some ''.''
      else if IsAbs base \<noteq> IsAbs targ then None
      else
        let ts = (if Clean targ = ''.'' then [''.''] else elems targ);
            (bs', ts') = strip_common (elems base) ts
        in if ts' \<noteq> [] \<and> bs' \<noteq> [] \<and> hd bs' = ''..'' then None
           else Some (join slash (replicate (length bs') ''..'' @ ts')))"

fun BasePath :: "string \<Rightarrow> string" where
  "BasePath p =
     (if p = [] then ''.''
      else case rev (dropWhile (\<lambda>c. c = slash) (rev p)) of
             [] \<Rightarrow> ''/''
           | q \<Rightarrow> rev (takeWhile (\<lambda>c. c \<noteq> slash) (rev q)))"

section \<open>Paths of the installer\<close>

definition rootPath :: "string \<Rightarrow> string \<Rightarrow> string" where
  "rootPath root unixPath = JoinPath [root, TrimPrefix unixPath ''/'']"

definition withinRoot :: "string \<Rightarrow> string \<Rightarrow> bool" where
  "withinRoot root p =
     (case Rel root p of
        None \<Rightarrow> False
      | Some relative \<Rightarrow> relative \<noteq> ''..'' \<and> \<not> HasPrefix relative ''../'')"

section \<open>Cleaning\<close>

text \<open>What the elements of a cleaned path look like: no empty or dot element, no slash inside, and
  \<open>..\<close> only at the start of a relative path.\<close>

definition name_elem :: "string \<Rightarrow> bool" where
  "name_elem e \<longleftrightarrow> e \<noteq> [] \<and> e \<noteq> ''.'' \<and> e \<noteq> ''..'' \<and> slash \<notin> set e"

definition clean_form :: "bool \<Rightarrow> string list \<Rightarrow> bool" where
  "clean_form rooted es \<longleftrightarrow>
     (\<exists>n ns. es = replicate n ''..'' @ ns \<and> list_all name_elem ns \<and> (rooted \<longrightarrow> n = 0))"

lemma SplitChar_no_sep: "e \<in> set (SplitChar sep s) \<Longrightarrow> sep \<notin> set e"
  by (induction s arbitrary: e) (auto split: if_splits list.splits)

lemma SplitChar_nonempty [simp]: "SplitChar sep s \<noteq> []"
  by (induction s) (auto split: list.splits)

lemma SplitChar_append_sep:
  "sep \<notin> set x \<Longrightarrow> SplitChar sep (x @ sep # s) = x # SplitChar sep s"
  by (induction x) auto

lemma SplitChar_single: "sep \<notin> set x \<Longrightarrow> SplitChar sep x = [x]"
  by (induction x) auto

lemma SplitChar_join:
  "es \<noteq> [] \<Longrightarrow> \<forall>e \<in> set es. sep \<notin> set e \<Longrightarrow> SplitChar sep (join sep es) = es"
  by (induction sep es rule: join.induct) (auto simp: SplitChar_single SplitChar_append_sep)

lemma replicate_last_conv: "n \<noteq> 0 \<Longrightarrow> replicate n x = replicate (n - 1) x @ [x]"
  by (metis Suc_diff_1 neq0_conv replicate_Suc replicate_append_same)

lemma clean_form_rev_step:
  assumes "clean_form rooted (rev out)" and "slash \<notin> set e"
  shows "clean_form rooted (rev (clean_step rooted out e))"
proof -
  from assms(1) obtain n ns where
    out: "rev out = replicate n ''..'' @ ns" and ns: "list_all name_elem ns" and r: "rooted \<longrightarrow> n = 0"
    by (auto simp: clean_form_def)
  consider (skip) "e = [] \<or> e = ''.''" | (up) "e = ''..''" | (name) "name_elem e"
    using assms(2) by (auto simp: name_elem_def)
  then show ?thesis
  proof cases
    case skip
    then show ?thesis using assms(1) by auto
  next
    case name
    then have "rev (clean_step rooted out e) = replicate n ''..'' @ (ns @ [e])"
      using out by (auto simp: name_elem_def)
    moreover have "list_all name_elem (ns @ [e])" using ns name by simp
    ultimately show ?thesis using r unfolding clean_form_def by blast
  next
    case up
    show ?thesis
    proof (cases ns rule: rev_cases)
      case Nil
      then have o: "out = replicate n ''..''" using out
        by (metis append_Nil2 rev_replicate rev_rev_ident)
      show ?thesis
      proof (cases n)
        case 0
        then show ?thesis using up o r
          by (auto simp: clean_form_def intro: exI [of _ "Suc 0"])
      next
        case (Suc m)
        then have "rev (clean_step rooted out e) = replicate (Suc n) ''..'' @ []"
          using up o by (simp add: replicate_append_same)
        then show ?thesis using r Suc unfolding clean_form_def by (metis list.pred_inject(1) nat.distinct(1))
      qed
    next
      case (snoc ms m)
      then have "out = m # rev (replicate n ''..'' @ ms)" and "m \<noteq> ''..''"
        using out ns by (auto simp: name_elem_def rev_swap)
      then have "rev (clean_step rooted out e) = replicate n ''..'' @ ms"
        using up by simp
      moreover have "list_all name_elem ms" using ns snoc by simp
      ultimately show ?thesis using r unfolding clean_form_def by blast
    qed
  qed
qed

lemma clean_form_clean_elems:
  assumes "\<forall>e \<in> set es. slash \<notin> set e"
  shows "clean_form rooted (clean_elems rooted es)"
proof -
  have "clean_form rooted (rev out) \<Longrightarrow> clean_form rooted (rev (foldl (clean_step rooted) out es))" for out
    using assms by (induction es arbitrary: out) (auto intro!: clean_form_rev_step simp del: clean_step.simps)
  from this [of "[]"] show ?thesis
    by (simp add: clean_elems_def clean_form_def)
qed

lemma elems_clean_form: "clean_form (IsAbs p) (elems p)"
  unfolding elems_def by (rule clean_form_clean_elems) (auto dest: SplitChar_no_sep)

lemma clean_elems_fixed:
  assumes "clean_form rooted es"
  shows "clean_elems rooted es = es"
proof -
  obtain n ns where es: "es = replicate n ''..'' @ ns" and ns: "list_all name_elem ns"
    and r: "rooted \<longrightarrow> n = 0"
    using assms by (auto simp: clean_form_def)
  have names: "foldl (clean_step rooted) out ns = rev ns @ out" for out
    using ns by (induction ns arbitrary: out) (auto simp: name_elem_def)
  have ups: "foldl (clean_step rooted) (replicate k ''..'') (replicate n ''..'')
      = replicate (n + k) ''..''" if "\<not> rooted \<or> n = 0" for k
    using that
  proof (induction n arbitrary: k)
    case (Suc n)
    have "clean_step rooted (replicate k ''..'') ''..'' = replicate (Suc k) ''..''"
      using Suc.prems by (cases k) auto
    then show ?case using Suc.IH [of "Suc k"] Suc.prems
      by (simp del: clean_step.simps add: replicate_app_Cons_same)
  qed simp
  show ?thesis
    using ups [of 0] r names es by (auto simp: clean_elems_def)
qed

lemma clean_form_cases:
  assumes "clean_form rooted es" and "e \<in> set es"
  shows "e = ''..'' \<or> name_elem e"
proof -
  from assms(1) obtain n ns where "es = replicate n ''..'' @ ns" and "list_all name_elem ns"
    unfolding clean_form_def by blast
  with assms(2) show ?thesis
    by (auto simp: list_all_iff dest: in_set_replicate [THEN iffD1])
qed

lemma clean_form_no_slash: "clean_form rooted es \<Longrightarrow> e \<in> set es \<Longrightarrow> slash \<notin> set e"
  by (drule (1) clean_form_cases) (auto simp: name_elem_def)

lemma clean_form_nonempty: "clean_form rooted es \<Longrightarrow> e \<in> set es \<Longrightarrow> e \<noteq> []"
  by (drule (1) clean_form_cases) (auto simp: name_elem_def)

lemma IsAbs_Cons [simp]: "IsAbs (c # s) = (c = slash)"
  by (auto simp: IsAbs_def HasPrefix_def)

lemma IsAbs_Nil [simp]: "\<not> IsAbs []"
  by (simp add: IsAbs_def HasPrefix_def)

lemma IsAbs_append: "x \<noteq> [] \<Longrightarrow> IsAbs (x @ y) = IsAbs x"
  by (cases x) auto

lemma IsAbs_join:
  "es \<noteq> [] \<Longrightarrow> hd es \<noteq> [] \<Longrightarrow> IsAbs (join slash es) = IsAbs (hd es)"
  by (induction slash es rule: join.induct) (auto simp: IsAbs_append)

lemma IsAbs_no_slash: "slash \<notin> set e \<Longrightarrow> \<not> IsAbs e"
  by (cases e) auto

lemma IsAbs_Clean [simp]: "IsAbs (Clean p) = IsAbs p"
proof (cases "IsAbs p \<or> elems p = []")
  case True
  then show ?thesis by (auto simp: Clean_def)
next
  case False
  then have "hd (elems p) \<in> set (elems p)" by simp
  with elems_clean_form [of p] have "hd (elems p) \<noteq> []" "slash \<notin> set (hd (elems p))"
    using clean_form_no_slash clean_form_nonempty by blast+
  then show ?thesis using False
    by (simp add: Clean_def IsAbs_join IsAbs_no_slash)
qed

lemma elems_Clean [simp]: "elems (Clean p) = elems p"
proof -
  let ?e = "elems p"
  have form: "clean_form (IsAbs p) ?e" by (rule elems_clean_form)
  then have split: "?e \<noteq> [] \<Longrightarrow> SplitChar slash (join slash ?e) = ?e"
    by (auto intro!: SplitChar_join dest: clean_form_no_slash)
  have "clean_elems (IsAbs p) (SplitChar slash (Clean p)) = ?e"
  proof (cases "?e = []")
    case True
    then show ?thesis by (auto simp: Clean_def clean_elems_def)
  next
    case False
    then have "clean_elems (IsAbs p) (SplitChar slash (Clean p)) = clean_elems (IsAbs p) ?e"
      using split by (auto simp: Clean_def clean_elems_def)
    then show ?thesis using clean_elems_fixed [OF form] by simp
  qed
  then show ?thesis by (simp add: elems_def)
qed

lemma Clean_idem [simp]: "Clean (Clean p) = Clean p"
  by (simp add: Clean_def [of "Clean p"]) (simp add: Clean_def)


section \<open>Staying below a root\<close>

lemma strip_common_eq:
  "strip_common bs ts = (bs', ts') \<Longrightarrow>
     \<exists>cs. bs = cs @ bs' \<and> ts = cs @ ts' \<and> (bs' = [] \<or> ts' = [] \<or> hd bs' \<noteq> hd ts')"
proof (induction bs ts rule: strip_common.induct)
  case (1 b bs t ts)
  show ?case
  proof (cases "b = t")
    case True
    with 1 obtain cs where "bs = cs @ bs'" "ts = cs @ ts'" "bs' = [] \<or> ts' = [] \<or> hd bs' \<noteq> hd ts'"
      by auto
    with True show ?thesis by (intro exI [of _ "b # cs"]) simp
  next
    case False
    with 1 show ?thesis by auto
  qed
qed auto

lemma hd_SplitChar_dotdot:
  "s = ''..'' \<or> prefix ''../'' s \<Longrightarrow> hd (SplitChar slash s) = ''..''"
  by (auto simp: prefix_def)

lemma join_dotdot:
  "es \<noteq> [] \<Longrightarrow> hd es = ''..'' \<Longrightarrow> join slash es = ''..'' \<or> prefix ''../'' (join slash es)"
  by (induction slash es rule: join.induct) auto

lemma join_names_dotdot:
  assumes "list_all name_elem es" and "es \<noteq> []"
  shows "join slash es \<noteq> ''..'' \<and> \<not> prefix ''../'' (join slash es)"
proof -
  have "SplitChar slash (join slash es) = es"
    using assms by (intro SplitChar_join) (auto simp: name_elem_def list_all_iff)
  moreover have "hd es \<noteq> ''..''"
    using assms by (cases es) (auto simp: name_elem_def)
  ultimately show ?thesis using hd_SplitChar_dotdot by metis
qed

lemma elems_abs_names: "IsAbs p \<Longrightarrow> list_all name_elem (elems p)"
  using elems_clean_form [of p] by (auto simp: clean_form_def)

lemma Clean_abs_eq: "IsAbs p \<Longrightarrow> IsAbs q \<Longrightarrow> elems p = elems q \<Longrightarrow> Clean p = Clean q"
  by (simp add: Clean_def)

lemma elems_Clean_eq: "Clean p = Clean q \<Longrightarrow> elems p = elems q"
  by (metis elems_Clean)

lemma withinRoot_iff:
  assumes "IsAbs root" and "IsAbs p"
  shows "withinRoot root p \<longleftrightarrow> prefix (elems root) (elems p)"
proof (cases "Clean p = Clean root")
  case True
  then show ?thesis by (auto simp: withinRoot_def Rel_def HasPrefix_def dest: elems_Clean_eq)
next
  case False
  obtain bs' ts' where sc: "strip_common (elems root) (elems p) = (bs', ts')" by fastforce
  then obtain cs where cs: "elems root = cs @ bs'" "elems p = cs @ ts'"
    and hd: "bs' = [] \<or> ts' = [] \<or> hd bs' \<noteq> hd ts'"
    using strip_common_eq by blast
  have names: "list_all name_elem bs'" "list_all name_elem ts'"
    using elems_abs_names [OF assms(1)] elems_abs_names [OF assms(2)] cs by auto
  have ne: "elems p \<noteq> elems root"
    using False Clean_abs_eq assms by metis
  have nd: "Clean p \<noteq> ''.''" using assms(2) by (simp add: Clean_def)
  have hdb: "bs' \<noteq> [] \<Longrightarrow> hd bs' \<noteq> ''..''" using names(1) by (cases bs') (auto simp: name_elem_def)
  have rel: "Rel root p = Some (join slash (replicate (length bs') ''..'' @ ts'))"
    using False assms nd hdb sc by (auto simp: Rel_def Let_def)
  show ?thesis
  proof (cases bs')
    case Nil
    then have "ts' \<noteq> []" using ne cs by auto
    then show ?thesis
      using rel Nil cs join_names_dotdot [OF names(2)] by (simp add: withinRoot_def HasPrefix_def)
  next
    case (Cons b bs)
    have "\<not> prefix (elems root) (elems p)"
      using Cons hd cs by (cases ts') auto
    moreover have "\<not> withinRoot root p"
      using rel Cons join_dotdot [of "replicate (length bs') ''..'' @ ts'"]
      by (auto simp: withinRoot_def HasPrefix_def)
    ultimately show ?thesis by simp
  qed
qed

lemma IsAbs_rootPath:
  assumes "IsAbs root"
  shows "IsAbs (rootPath root p)"
proof -
  have "root \<noteq> []" using assms by auto
  then show ?thesis using assms
    by (cases "TrimPrefix p ''/'' = []") (auto simp: rootPath_def JoinPath_def IsAbs_append)
qed

lemma Clean_rootPath: "IsAbs root \<Longrightarrow> Clean (rootPath root p) = rootPath root p"
  by (auto simp: rootPath_def JoinPath_def split: list.splits)

lemma withinRoot_rootPath:
  "IsAbs root \<Longrightarrow> withinRoot root (rootPath root p) \<longleftrightarrow> prefix (elems root) (elems (rootPath root p))"
  by (simp add: withinRoot_iff IsAbs_rootPath)

section \<open>A name below a directory\<close>

lemma SplitChar_append: "SplitChar sep (x @ sep # s) = SplitChar sep x @ SplitChar sep s"
  by (induction x) (auto split: list.splits)

lemma clean_step_name: "name_elem n \<Longrightarrow> clean_step rooted out n = n # out"
  by (simp add: name_elem_def)

lemma elems_append_name:
  "d \<noteq> [] \<Longrightarrow> name_elem n \<Longrightarrow> elems (d @ slash # n) = elems d @ [n]"
  using clean_step_name [of n "IsAbs d"]
  by (simp add: elems_def clean_elems_def SplitChar_append SplitChar_single IsAbs_append name_elem_def
      del: clean_step.simps)

lemma join_snoc: "join sep (es @ [n]) = (if es = [] then n else join sep es @ sep # n)"
  by (induction sep es rule: join.induct) auto

lemma elems_name: "name_elem n \<Longrightarrow> elems n = [n]"
  using IsAbs_no_slash [of n]
  by (simp add: elems_def clean_elems_def SplitChar_single name_elem_def)

lemma Clean_name: "name_elem n \<Longrightarrow> Clean n = n"
  using IsAbs_no_slash [of n] by (simp add: Clean_def elems_name name_elem_def)

lemma JoinPath_name:
  assumes "name_elem n"
  shows "JoinPath [d, n] =
     (if d = [] then n
      else (if IsAbs d then [slash] else []) @ (if elems d = [] then n else join slash (elems d) @ slash # n))"
proof -
  have "n \<noteq> []" using assms by (simp add: name_elem_def)
  then show ?thesis
    using assms elems_append_name [OF _ assms, of d]
    by (simp add: JoinPath_def Clean_name) (simp add: Clean_def IsAbs_append join_snoc)
qed

lemma JoinPath_name_suffix: "name_elem n \<Longrightarrow> \<exists>a. JoinPath [d, n] = a @ n"
  by (auto simp: JoinPath_name)

lemma JoinPath_abs_name:
  "name_elem n \<Longrightarrow> IsAbs d \<Longrightarrow> Clean d = d \<Longrightarrow> d \<noteq> ''/'' \<Longrightarrow> JoinPath [d, n] = d @ slash # n"
  by (cases d) (auto simp: JoinPath_name Clean_def split: if_splits)

lemma JoinPath_clean: "JoinPath [d, n] \<noteq> [] \<Longrightarrow> Clean (JoinPath [d, n]) = JoinPath [d, n]"
  by (auto simp: JoinPath_def split: list.splits)

lemma JoinPath_sub:
  assumes "name_elem n" and "Clean d = d" and "d \<noteq> ''/''" and "d \<noteq> ''.''" and "d \<noteq> []"
  shows "JoinPath [d, n] = d @ slash # n"
proof (cases "IsAbs d")
  case True
  then show ?thesis using JoinPath_abs_name assms by blast
next
  case False
  then have "elems d \<noteq> []" "join slash (elems d) = d"
    using assms(2,4) by (auto simp: Clean_def split: if_splits)
  then show ?thesis using False assms(1,5) by (simp add: JoinPath_name)
qed

text \<open>A directory of a fixed name and the files in it.\<close>

lemma JoinPath_in_subdir:
  assumes "name_elem sub" and "name_elem n"
  shows "JoinPath [JoinPath [d, sub], n] = JoinPath [d, sub] @ slash # n"
proof -
  obtain a where a: "JoinPath [d, sub] = a @ sub" using JoinPath_name_suffix [OF assms(1)] by blast
  have sub: "sub \<noteq> []" "slash \<notin> set sub" "sub \<noteq> ''.''" using assms(1) by (auto simp: name_elem_def)
  have ne: "JoinPath [d, sub] \<noteq> []" using a sub(1) by simp
  have "JoinPath [d, sub] \<noteq> ''/''"
    using a sub(1,2) by (metis append_is_Nil_conv butlast_append butlast.simps(2) last_appendR last.simps last_in_set)
  moreover have "JoinPath [d, sub] \<noteq> ''.''"
    using a sub(1,3) by (cases a) (auto simp: append_eq_Cons_conv)
  ultimately show ?thesis using JoinPath_sub [OF assms(2) JoinPath_clean [OF ne] _ _ ne] by blast
qed

lemma BasePath_name:
  assumes "name_elem n"
  shows "BasePath n = n"
proof -
  have n: "n \<noteq> []" "slash \<notin> set n" using assms by (auto simp: name_elem_def)
  then have d: "dropWhile (\<lambda>c. c = slash) (rev n) = rev n"
    by (cases "rev n") auto
  moreover have "takeWhile (\<lambda>c. c \<noteq> slash) (rev n) = rev n" using n(2) by (simp add: takeWhile_eq_all_conv) auto
  ultimately show ?thesis using n(1) by (cases n) auto
qed

lemma Clean_trailing_slash: "d \<noteq> [] \<Longrightarrow> Clean (d @ [slash]) = Clean d"
  by (simp add: Clean_def elems_def clean_elems_def SplitChar_append IsAbs_append)

lemma digit_no_slash: "n < 16 \<Longrightarrow> digit n \<noteq> slash"
proof -
  assume "n < 16"
  then have "of_char (digit n) = (if n < 10 then 48 + n else 87 + n)" by (simp add: digit_def)
  then have "of_char (digit n) \<noteq> (of_char slash :: nat)" by simp
  then show ?thesis by auto
qed

lemma FormatNat_no_slash: "slash \<notin> set (FormatNat n)"
proof (induction n rule: FormatNat.induct)
  case (1 n)
  show ?case
  proof (cases "n < 10")
    case True
    then show ?thesis using digit_no_slash [of n] by (subst FormatNat.simps) auto
  next
    case False
    have "n mod 10 < 10" by simp
    then have "digit (n mod 10) \<noteq> slash" by (intro digit_no_slash) linarith
    then show ?thesis using 1 False by (subst FormatNat.simps) auto
  qed
qed

lemma twenty_digits_no_slash: "slash \<notin> set (twenty_digits n)"
  using FormatNat_no_slash by (auto simp: twenty_digits_def pad_left_def)

lemma EncodeToString_no_slash: "slash \<notin> set (EncodeToString s)"
proof -
  have "slash \<notin> set (hex_byte c)" for c
    using digit_no_slash [of "of_char c div 16"] digit_no_slash [of "of_char c mod 16"] byte_less [of c]
    by (auto simp: hex_byte_def less_mult_imp_div_less)
  then show ?thesis by (auto simp: EncodeToString_def)
qed

section \<open>Paths below a root\<close>

lemma foldl_clean_names:
  "list_all name_elem es \<Longrightarrow> foldl (clean_step rooted) out es = rev es @ out"
  by (induction es arbitrary: out) (simp_all add: clean_step_name del: clean_step.simps)

lemma elems_append_names:
  assumes "d \<noteq> []" and "list_all name_elem (SplitChar slash s)"
  shows "elems (d @ slash # s) = elems d @ SplitChar slash s"
  using assms by (simp add: elems_def clean_elems_def SplitChar_append foldl_clean_names IsAbs_append)

lemma elems_rootPath:
  assumes "root \<noteq> []" and "list_all name_elem (SplitChar slash s)"
  shows "elems (rootPath root (slash # s)) = elems root @ SplitChar slash s"
proof -
  have "s \<noteq> []" using assms(2) by (auto simp: name_elem_def)
  then show ?thesis
    using elems_append_names [OF assms] assms(1) by (simp add: rootPath_def TrimPrefix_def JoinPath_def)
qed

end
