(* ===== verification/Go_Files.thy ===== *)
theory Go_Files
  imports Go_Path
begin

text \<open>
  The part of package \<open>os\<close> that the program uses, as an explicit state: the nodes of a file system by
  path, the faults that the next system calls meet, and the bytes that \<open>crypto/rand\<close> and
  \<open>os.CreateTemp\<close> draw, and the working directory. A theorem about every world holds for every failure, every partial write and
  a crash of the process at any call.

  \<^item> \<open>Fail err n\<close> makes one call fail; a write stores the first \<open>n\<close> bytes before it does.
  \<^item> \<open>Crash n\<close> ends the process in that call: it stays at the head of the list, so every later call
    of the run, the deferred clean-up included, fails and changes nothing.
  \<^item> Only the last element of a path may be a symbolic link.
\<close>

datatype os_error = OsNotExist | OsExist | OsOther string

datatype node =
    NFile nat string
  | NDir nat
  | NLink string
  | NSpecial

datatype fault = Pass | Fail string nat | Crash nat

record world =
  w_files :: "(string, node) gomap"
  w_faults :: "fault list"
  w_rand :: "string list"
  w_cwd :: string

type_synonym ('e, 'a) io = "world \<Rightarrow> ('e + 'a) \<times> world"

abbreviation node_at :: "world \<Rightarrow> string \<Rightarrow> node option" where
  "node_at w p \<equiv> map_of (w_files w) p"

section \<open>Sequencing\<close>

definition io_return :: "'a \<Rightarrow> ('e, 'a) io" where
  "io_return x w = (Inr x, w)"

definition io_fail :: "'e \<Rightarrow> ('e, 'a) io" where
  "io_fail e w = (Inl e, w)"

definition io_bind :: "('e, 'a) io \<Rightarrow> ('a \<Rightarrow> ('e, 'b) io) \<Rightarrow> ('e, 'b) io" where
  "io_bind m f w = (case m w of (Inl e, w') \<Rightarrow> (Inl e, w') | (Inr x, w') \<Rightarrow> f x w')"

abbreviation io_then :: "('e, 'a) io \<Rightarrow> ('e, 'b) io \<Rightarrow> ('e, 'b) io" where
  "io_then m k \<equiv> io_bind m (\<lambda>_. k)"

text \<open>\<open>io_try m f\<close> hands the outcome of \<open>m\<close>, error or value, to \<open>f\<close>; \<open>io_wrap\<close> turns an operating-system error
  into the error a function returns.\<close>

definition io_try :: "('e, 'a) io \<Rightarrow> ('e + 'a \<Rightarrow> ('f, 'b) io) \<Rightarrow> ('f, 'b) io" where
  "io_try m f w = (case m w of (r, w') \<Rightarrow> f r w')"

definition io_wrap :: "('e \<Rightarrow> 'f) \<Rightarrow> ('e, 'a) io \<Rightarrow> ('f, 'a) io" where
  "io_wrap f m w = (case m w of (Inl e, w') \<Rightarrow> (Inl (f e), w') | (Inr x, w') \<Rightarrow> (Inr x, w'))"

text \<open>A deferred call that runs when the body has failed; its own error is dropped.\<close>

definition io_cleanup :: "('e, 'a) io \<Rightarrow> ('f, 'b) io \<Rightarrow> ('e, 'a) io" where
  "io_cleanup m c w =
     (case m w of (Inl e, w') \<Rightarrow> (Inl e, snd (c w')) | (Inr x, w') \<Rightarrow> (Inr x, w'))"

lemmas io_defs = io_return_def io_fail_def io_bind_def io_try_def io_wrap_def io_cleanup_def

fun os_text :: "os_error \<Rightarrow> string" where
  "os_text OsNotExist = ''file does not exist''"
| "os_text OsExist = ''file already exists''"
| "os_text (OsOther e) = e"

text \<open>\<open>fmt.Errorf\<close> with a label before the error of a system call.\<close>

abbreviation os_label :: "string \<Rightarrow> (os_error, 'a) io \<Rightarrow> (string, 'a) io" where
  "os_label label m \<equiv> io_wrap (\<lambda>e. label @ os_text e) m"

section \<open>System calls\<close>

fun next_fault :: "world \<Rightarrow> (string \<times> nat) option \<times> world" where
  "next_fault w =
     (case w_faults w of
        [] \<Rightarrow> (None, w)
      | Pass # fs \<Rightarrow> (None, w\<lparr>w_faults := fs\<rparr>)
      | Fail e n # fs \<Rightarrow> (Some (e, n), w\<lparr>w_faults := fs\<rparr>)
      | Crash n # fs \<Rightarrow> (Some (''process ended'', n), w\<lparr>w_faults := Crash 0 # fs\<rparr>))"

definition sys :: "(os_error, 'a) io \<Rightarrow> (os_error, 'a) io" where
  "sys call w =
     (case next_fault w of
        (Some (e, _), w') \<Rightarrow> (Inl (OsOther e), w')
      | (None, w') \<Rightarrow> call w')"

fun resolve :: "nat \<Rightarrow> world \<Rightarrow> string \<Rightarrow> (string \<times> node) option" where
  "resolve 0 w p = None"
| "resolve (Suc hops) w p =
     (case node_at w p of
        None \<Rightarrow> None
      | Some (NLink target) \<Rightarrow> resolve hops w target
      | Some x \<Rightarrow> Some (p, x))"

text \<open>Linux follows at most 40 links.\<close>

definition follow :: "world \<Rightarrow> string \<Rightarrow> (string \<times> node) option" where
  "follow w p = resolve 41 w p"

fun is_dir :: "node option \<Rightarrow> bool" where
  "is_dir (Some (NDir _)) = True"
| "is_dir _ = False"

definition dir_at :: "world \<Rightarrow> string \<Rightarrow> bool" where
  "dir_at w p = is_dir (map_option snd (follow w p))"

definition DirPath :: "string \<Rightarrow> string" where
  "DirPath p = Clean (rev (dropWhile (\<lambda>c. c \<noteq> slash) (rev p)))"

lemma DirPath_sub: "slash \<notin> set n \<Longrightarrow> DirPath (d @ slash # n) = Clean (d @ [slash])"
proof -
  assume "slash \<notin> set n"
  then have "dropWhile (\<lambda>c. c \<noteq> slash) (rev n @ slash # rev d) = slash # rev d"
    by (subst dropWhile_append2) auto
  then show ?thesis by (simp add: DirPath_def)
qed

definition AbsPath :: "string \<Rightarrow> (os_error, string) io" where
  "AbsPath p w = (if IsAbs p then (Inr (Clean p), w) else (Inr (JoinPath [w_cwd w, p]), w))"

definition Lstat :: "string \<Rightarrow> (os_error, node) io" where
  "Lstat p = sys (\<lambda>w. (case node_at w p of None \<Rightarrow> Inl OsNotExist | Some x \<Rightarrow> Inr x, w))"

definition Stat :: "string \<Rightarrow> (os_error, node) io" where
  "Stat p = sys (\<lambda>w. (case follow w p of None \<Rightarrow> Inl OsNotExist | Some (_, x) \<Rightarrow> Inr x, w))"

definition ReadFile :: "string \<Rightarrow> (os_error, string) io" where
  "ReadFile p = sys (\<lambda>w.
     (case follow w p of
        None \<Rightarrow> Inl OsNotExist
      | Some (_, NFile _ content) \<Rightarrow> Inr content
      | Some _ \<Rightarrow> Inl (OsOther ''not a regular file''), w))"

fun dir_name :: "string \<Rightarrow> string \<Rightarrow> string option" where
  "dir_name dir p =
     (let base = (if dir = ''/'' then dir else dir @ ''/'')
      in if prefix base p \<and> drop (length base) p \<noteq> [] \<and> slash \<notin> set (drop (length base) p)
         then Some (drop (length base) p) else None)"

definition ReadDir :: "string \<Rightarrow> (os_error, (string \<times> node) list) io" where
  "ReadDir dir = sys (\<lambda>w.
     (if dir_at w dir
      then Inr (List.map_filter (\<lambda>(p, x). map_option (\<lambda>name. (name, x)) (dir_name dir p)) (w_files w))
      else Inl OsNotExist, w))"

text \<open>\<open>os.OpenFile\<close> with \<open>O_WRONLY|O_CREATE|O_EXCL\<close>.\<close>

definition OpenExcl :: "string \<Rightarrow> nat \<Rightarrow> (os_error, unit) io" where
  "OpenExcl p mode = sys (\<lambda>w.
     if node_at w p \<noteq> None then (Inl OsExist, w)
     else if \<not> dir_at w (DirPath p) then (Inl OsNotExist, w)
     else (Inr (), w\<lparr>w_files := AList.update p (NFile mode []) (w_files w)\<rparr>))"

definition append_file :: "string \<Rightarrow> string \<Rightarrow> world \<Rightarrow> world" where
  "append_file p bytes w =
     (case node_at w p of
        Some (NFile mode content) \<Rightarrow>
          w\<lparr>w_files := AList.update p (NFile mode (content @ bytes)) (w_files w)\<rparr>
      | _ \<Rightarrow> w)"

definition WriteTo :: "string \<Rightarrow> string \<Rightarrow> (os_error, unit) io" where
  "WriteTo p bytes w =
     (case next_fault w of
        (Some (e, n), w') \<Rightarrow> (Inl (OsOther e), append_file p (take n bytes) w')
      | (None, w') \<Rightarrow> (Inr (), append_file p bytes w'))"

text \<open>\<open>Sync\<close> and \<open>Close\<close> may fail and leave the contents alone.\<close>

definition SyncClose :: "(os_error, unit) io" where
  "SyncClose = sys (\<lambda>w. (Inr (), w))"

definition ChmodFile :: "string \<Rightarrow> nat \<Rightarrow> (os_error, unit) io" where
  "ChmodFile p mode = sys (\<lambda>w.
     case node_at w p of
       Some (NFile _ content) \<Rightarrow>
         (Inr (), w\<lparr>w_files := AList.update p (NFile mode content) (w_files w)\<rparr>)
     | Some (NDir _) \<Rightarrow> (Inr (), w\<lparr>w_files := AList.update p (NDir mode) (w_files w)\<rparr>)
     | Some _ \<Rightarrow> (Inr (), w)
     | None \<Rightarrow> (Inl OsNotExist, w))"

definition Rename :: "string \<Rightarrow> string \<Rightarrow> (os_error, unit) io" where
  "Rename old new = sys (\<lambda>w.
     case node_at w old of
       None \<Rightarrow> (Inl OsNotExist, w)
     | Some x \<Rightarrow>
         if is_dir (node_at w new) then (Inl OsExist, w)
         else if \<not> dir_at w (DirPath new) then (Inl OsNotExist, w)
         else (Inr (), w\<lparr>w_files := AList.update new x (AList.delete old (w_files w))\<rparr>))"

definition Remove :: "string \<Rightarrow> (os_error, unit) io" where
  "Remove p = sys (\<lambda>w.
     if node_at w p = None then (Inl OsNotExist, w)
     else if is_dir (node_at w p) \<and> list_ex (\<lambda>(q, _). dir_name p q \<noteq> None) (w_files w)
     then (Inl (OsOther ''directory not empty''), w)
     else (Inr (), w\<lparr>w_files := AList.delete p (w_files w)\<rparr>))"

text \<open>\<open>os.MkdirAll\<close>: the directories from the top down, the existing ones left alone.\<close>

definition make_dir :: "nat \<Rightarrow> string \<Rightarrow> (os_error, unit) io" where
  "make_dir mode p w =
     (if dir_at w p then (Inr (), w)
      else if node_at w p \<noteq> None then (Inl (OsOther ''not a directory''), w)
      else (Inr (), w\<lparr>w_files := AList.update p (NDir mode) (w_files w)\<rparr>))"

definition dir_chain :: "string \<Rightarrow> string list" where
  "dir_chain p =
     (if IsAbs p then map (\<lambda>es. slash # join slash es) (prefixes (elems p))
      else map (join slash) (tl (prefixes (elems p))))"

fun make_dirs :: "nat \<Rightarrow> string list \<Rightarrow> (os_error, unit) io" where
  "make_dirs mode [] = io_return ()"
| "make_dirs mode (p # ps) = io_then (make_dir mode p) (make_dirs mode ps)"

definition MkdirAll :: "string \<Rightarrow> nat \<Rightarrow> (os_error, unit) io" where
  "MkdirAll p mode = sys (make_dirs mode (dir_chain p))"

text \<open>\<open>crypto/rand.Read\<close> of \<open>n\<close> bytes, and \<open>os.CreateTemp\<close>, which draws names until one is free.\<close>

definition rand_Read :: "nat \<Rightarrow> (os_error, string) io" where
  "rand_Read n = sys (\<lambda>w.
     case w_rand w of
       [] \<Rightarrow> (Inr (replicate n (byte 0)), w)
     | s # ss \<Rightarrow> (Inr (take n (s @ replicate n (byte 0))), w\<lparr>w_rand := ss\<rparr>))"

fun draw_name :: "world \<Rightarrow> string \<Rightarrow> string \<Rightarrow> string list \<Rightarrow> (string \<times> string list) option" where
  "draw_name w before after [] = None"
| "draw_name w before after (s # ss) =
     (if node_at w (before @ EncodeToString s @ after) = None
      then Some (before @ EncodeToString s @ after, ss)
      else draw_name w before after ss)"

definition CreateTemp :: "string \<Rightarrow> string \<Rightarrow> string \<Rightarrow> (os_error, string) io" where
  "CreateTemp dir pre suf = sys (\<lambda>w.
     if \<not> dir_at w dir then (Inl OsNotExist, w)
     else case draw_name w (dir @ ''/'' @ pre) suf (w_rand w) of
            None \<Rightarrow> (Inl OsExist, w)
          | Some (p, ss) \<Rightarrow>
              (Inr p, w\<lparr>w_rand := ss, w_files := AList.update p (NFile 384 []) (w_files w)\<rparr>))"

section \<open>The two ways in which the program writes a file\<close>

text \<open>A temporary file in the same directory, then a rename over the target: the tail that
  \<open>writeAtomic\<close> (mtls.go, transaction.go), \<open>SavePolicy\<close> and the detectors' \<open>save\<close> functions share. The deferred
  function closes the file and, unless the rename was reached, removes it.\<close>

definition replace_via_temp ::
  "string \<Rightarrow> string \<Rightarrow> string \<Rightarrow> string \<Rightarrow> string \<Rightarrow> nat \<Rightarrow> (os_error, unit) io" where
  "replace_via_temp dir pre suf path content mode =
     io_bind (CreateTemp dir pre suf) (\<lambda>tmp.
       io_cleanup
         (io_then (ChmodFile tmp mode)
         (io_then (WriteTo tmp content)
         (io_then SyncClose
         (io_then SyncClose
           (Rename tmp path)))))
         (io_try SyncClose (\<lambda>_. Remove tmp)))"

text \<open>An exclusive creation followed by a write, removed again on failure: \<open>writeNew\<close> (mtls.go),
  \<open>SaveCredentials\<close>, \<open>Enqueue\<close>, \<open>copyExclusive\<close>.\<close>

definition create_exclusive :: "string \<Rightarrow> string \<Rightarrow> nat \<Rightarrow> (os_error, unit) io" where
  "create_exclusive path content mode =
     io_then (OpenExcl path mode)
       (io_cleanup
         (io_then (WriteTo path content)
         (io_then SyncClose
           SyncClose))
         (io_try SyncClose (\<lambda>_. Remove path)))"

text \<open>\<open>info.Mode().IsRegular()\<close> on the result of \<open>Lstat\<close> (a symbolic link is not regular) and \<open>info.Size()\<close>.\<close>

fun is_regular :: "node \<Rightarrow> bool" where
  "is_regular (NFile _ _) = True"
| "is_regular _ = False"

fun node_size :: "node \<Rightarrow> nat" where
  "node_size (NFile _ content) = length content"
| "node_size _ = 0"

fun node_perm :: "node \<Rightarrow> nat" where
  "node_perm (NFile mode _) = mode"
| "node_perm (NDir mode) = mode"
| "node_perm _ = 511"

section \<open>Which paths an operation may change\<close>

definition touches :: "(string \<Rightarrow> bool) \<Rightarrow> ('e, 'a) io \<Rightarrow> bool" where
  "touches T m \<longleftrightarrow> (\<forall>w q. \<not> T q \<longrightarrow> node_at (snd (m w)) q = node_at w q)"

lemma touchesD: "touches T m \<Longrightarrow> \<not> T q \<Longrightarrow> m w = (r, w') \<Longrightarrow> node_at w' q = node_at w q"
  unfolding touches_def by (metis snd_conv)

lemma touches_mono: "touches S m \<Longrightarrow> (\<And>q. S q \<Longrightarrow> T q) \<Longrightarrow> touches T m"
  unfolding touches_def by blast

lemma touches_return [intro]: "touches T (io_return x)"
  by (simp add: touches_def io_return_def)

lemma touches_fail [intro]: "touches T (io_fail e)"
  by (simp add: touches_def io_fail_def)

lemma touches_bind [intro]:
  "touches T m \<Longrightarrow> (\<And>x. touches T (f x)) \<Longrightarrow> touches T (io_bind m f)"
  unfolding touches_def by (auto simp: io_bind_def split: prod.splits sum.splits) (metis snd_conv)+

lemma touches_try [intro]:
  "touches T m \<Longrightarrow> (\<And>r. touches T (f r)) \<Longrightarrow> touches T (io_try m f)"
  unfolding touches_def by (auto simp: io_try_def split: prod.splits) (metis snd_conv)

lemma touches_wrap [intro]: "touches T m \<Longrightarrow> touches T (io_wrap f m)"
  unfolding touches_def by (auto simp: io_wrap_def split: prod.splits sum.splits) (metis snd_conv)+

lemma touches_cleanup [intro]: "touches T m \<Longrightarrow> touches T c \<Longrightarrow> touches T (io_cleanup m c)"
  unfolding touches_def by (auto simp: io_cleanup_def split: prod.splits sum.splits) (metis snd_conv)+

lemma next_fault_files: "next_fault w = (r, w') \<Longrightarrow> w_files w' = w_files w"
  by (auto split: list.splits fault.splits)

lemma next_fault_rand: "next_fault w = (r, w') \<Longrightarrow> w_rand w' = w_rand w"
  by (auto split: list.splits fault.splits)

lemma next_fault_none: "w_faults w = [] \<Longrightarrow> next_fault w = (None, w)"
  by simp

declare next_fault.simps [simp del] dir_name.simps [simp del]

lemma touches_sys: "touches T m \<Longrightarrow> touches T (sys m)"
  unfolding touches_def sys_def
  by (auto split: prod.splits option.splits dest!: next_fault_files)

lemma sys_Inr: "sys m w = (Inr x, w') \<Longrightarrow> \<exists>v. w_files v = w_files w \<and> w_rand v = w_rand w \<and> m v = (Inr x, w')"
  by (auto simp: sys_def split: prod.splits option.splits dest: next_fault_files next_fault_rand)

lemma sys_no_fault: "w_faults w = [] \<Longrightarrow> sys m w = m w"
  by (simp add: sys_def next_fault_none)

lemma touches_calls [intro]:
  "touches T (Lstat p)" "touches T (Stat p)" "touches T (ReadFile p)" "touches T (ReadDir p)"
  "touches T SyncClose" "touches T (rand_Read n)"
  unfolding Lstat_def Stat_def ReadFile_def ReadDir_def SyncClose_def rand_Read_def
  by (rule touches_sys, simp add: touches_def split: list.splits)+

lemma touches_AbsPath [intro]: "touches T (AbsPath p)"
  by (simp add: touches_def AbsPath_def)

lemma touches_OpenExcl: "touches (\<lambda>q. q = p) (OpenExcl p mode)"
  unfolding OpenExcl_def by (rule touches_sys) (simp add: touches_def)

lemma append_file_other: "q \<noteq> p \<Longrightarrow> node_at (append_file p bytes w) q = node_at w q"
  by (simp add: append_file_def split: option.splits node.splits)

lemma touches_WriteTo: "touches (\<lambda>q. q = p) (WriteTo p bytes)"
  unfolding touches_def WriteTo_def
  by (auto split: prod.splits option.splits simp: append_file_other dest: next_fault_files)

lemma touches_ChmodFile: "touches (\<lambda>q. q = p) (ChmodFile p mode)"
  unfolding ChmodFile_def by (rule touches_sys) (simp add: touches_def split: option.splits node.splits)

lemma touches_Rename: "touches (\<lambda>q. q = old \<or> q = new) (Rename old new)"
  unfolding Rename_def by (rule touches_sys) (simp add: touches_def split: option.splits)

lemma touches_Remove: "touches (\<lambda>q. q = p) (Remove p)"
  unfolding Remove_def by (rule touches_sys) (simp add: touches_def)

lemma Rename_Inl: "Rename old new w = (Inl e, w') \<Longrightarrow> w_files w' = w_files w"
  by (auto simp: Rename_def sys_def split: prod.splits option.splits if_splits dest: next_fault_files)

lemma Rename_Inr:
  "Rename old new w = (Inr u, w') \<Longrightarrow> node_at w' new = node_at w old \<and> node_at w old \<noteq> None"
  unfolding Rename_def by (drule sys_Inr) (auto split: option.splits if_splits)

lemma ChmodFile_Inr:
  "ChmodFile p mode w = (Inr u, w') \<Longrightarrow> node_at w p = Some (NFile m c) \<Longrightarrow>
     node_at w' p = Some (NFile mode c)"
  unfolding ChmodFile_def by (drule sys_Inr) auto

lemma WriteTo_Inr:
  "WriteTo p bytes w = (Inr u, w') \<Longrightarrow> node_at w p = Some (NFile m c) \<Longrightarrow>
     node_at w' p = Some (NFile m (c @ bytes))"
  unfolding WriteTo_def
  by (auto split: prod.splits option.splits simp: append_file_def dest!: next_fault_files)

lemma SyncClose_files: "SyncClose w = (r, w') \<Longrightarrow> w_files w' = w_files w"
  by (auto simp: SyncClose_def sys_def split: prod.splits option.splits dest: next_fault_files)

lemma OpenExcl_Inr:
  "OpenExcl p mode w = (Inr u, w') \<Longrightarrow> node_at w p = None \<and> node_at w' p = Some (NFile mode [])"
  unfolding OpenExcl_def by (drule sys_Inr) (auto split: if_splits)

lemma OpenExcl_Inl: "OpenExcl p mode w = (Inl e, w') \<Longrightarrow> w_files w' = w_files w"
  by (auto simp: OpenExcl_def sys_def split: prod.splits option.splits if_splits dest: next_fault_files)

section \<open>Temporary names\<close>

definition temp_name :: "string \<Rightarrow> string \<Rightarrow> string \<Rightarrow> string \<Rightarrow> bool" where
  "temp_name dir pre suf q \<longleftrightarrow> (\<exists>s. q = dir @ ''/'' @ pre @ EncodeToString s @ suf)"

lemma draw_name_Some:
  "draw_name w a b ss = Some (p, rs) \<Longrightarrow> node_at w p = None \<and> (\<exists>s. p = a @ EncodeToString s @ b)"
  by (induction ss) (auto split: if_splits)

lemma CreateTemp_Inr:
  "CreateTemp dir pre suf w = (Inr p, w') \<Longrightarrow>
     temp_name dir pre suf p \<and> node_at w p = None \<and> node_at w' p = Some (NFile 384 [])"
  unfolding CreateTemp_def
  by (drule sys_Inr) (auto simp: temp_name_def split: if_splits option.splits dest!: draw_name_Some)

lemma CreateTemp_Inl: "CreateTemp dir pre suf w = (Inl e, w') \<Longrightarrow> w_files w' = w_files w"
  by (auto simp: CreateTemp_def sys_def split: prod.splits option.splits if_splits dest: next_fault_files)

lemma touches_CreateTemp: "touches (temp_name dir pre suf) (CreateTemp dir pre suf)"
  unfolding CreateTemp_def
  by (rule touches_sys)
    (auto simp: touches_def temp_name_def split: option.splits dest!: draw_name_Some)

lemma CreateTemp_other:
  assumes "CreateTemp dir pre suf w = (Inr p, w')" and "q \<noteq> p"
  shows "node_at w' q = node_at w q"
  using sys_Inr [OF assms(1) [unfolded CreateTemp_def]] assms(2) by (auto split: if_splits option.splits)

section \<open>What the two writers guarantee\<close>

lemma io_bind_Inr: "io_bind m f w = (Inr y, w') \<longleftrightarrow> (\<exists>x v. m w = (Inr x, v) \<and> f x v = (Inr y, w'))"
  by (auto simp: io_bind_def split: prod.splits sum.splits)

lemma io_bind_Inl:
  "io_bind m f w = (Inl e, w') \<longleftrightarrow>
     m w = (Inl e, w') \<or> (\<exists>x v. m w = (Inr x, v) \<and> f x v = (Inl e, w'))"
  by (auto simp: io_bind_def split: prod.splits sum.splits)

lemma io_cleanup_Inr: "io_cleanup m c w = (Inr y, w') \<longleftrightarrow> m w = (Inr y, w')"
  by (auto simp: io_cleanup_def split: prod.splits sum.splits)

lemma io_cleanup_Inl:
  "io_cleanup m c w = (Inl e, w') \<longleftrightarrow> (\<exists>v. m w = (Inl e, v) \<and> w' = snd (c v))"
  by (auto simp: io_cleanup_def split: prod.splits sum.splits)

lemmas io_results = io_bind_Inr io_bind_Inl io_cleanup_Inr io_cleanup_Inl

text \<open>The replacement is atomic under every fault and crash: a reported success leaves the whole new
  file, a failure leaves the old one (or its absence), and no other path changes but temporary names.\<close>

lemma replace_via_temp_Inr:
  assumes "replace_via_temp dir pre suf path content mode w = (Inr u, w')"
  shows "node_at w' path = Some (NFile mode content)"
proof -
  from assms obtain tmp a b c d e where steps:
      "CreateTemp dir pre suf w = (Inr tmp, a)" "ChmodFile tmp mode a = (Inr (), b)"
      "WriteTo tmp content b = (Inr (), c)" "SyncClose c = (Inr (), d)" "SyncClose d = (Inr (), e)"
      "Rename tmp path e = (Inr u, w')"
    by (auto simp: replace_via_temp_def io_results)
  have "node_at c tmp = Some (NFile mode content)"
    using WriteTo_Inr [OF steps(3) ChmodFile_Inr [OF steps(2)]] CreateTemp_Inr [OF steps(1)] by simp
  then show ?thesis
    using Rename_Inr [OF steps(6)] SyncClose_files [OF steps(4)] SyncClose_files [OF steps(5)] by simp
qed

lemma temp_body_Inl:
  assumes "io_then (ChmodFile tmp mode) (io_then (WriteTo tmp content) (io_then SyncClose
             (io_then SyncClose (Rename tmp path)))) w = (Inl e, w')" and "q \<noteq> tmp"
  shows "node_at w' q = node_at w q"
proof -
  let ?first = "io_then (ChmodFile tmp mode) (io_then (WriteTo tmp content) (io_then SyncClose SyncClose))"
  have t: "touches (\<lambda>q. q = tmp) ?first"
    by (intro touches_bind touches_ChmodFile touches_WriteTo touches_calls)
  from assms(1) consider "?first w = (Inl e, w')"
    | v where "?first w = (Inr (), v)" "Rename tmp path v = (Inl e, w')"
    by (auto simp: io_results)
  then show ?thesis
  proof cases
    case 1
    then show ?thesis using touchesD [OF t] assms(2) by blast
  next
    case 2
    then show ?thesis using touchesD [OF t _ 2(1), of q] Rename_Inl [OF 2(2)] assms(2) by simp
  qed
qed

lemma replace_via_temp_Inl:
  assumes "replace_via_temp dir pre suf path content mode w = (Inl e, w')"
    and "\<not> temp_name dir pre suf q"
  shows "node_at w' q = node_at w q"
proof -
  from assms(1) consider "CreateTemp dir pre suf w = (Inl e, w')"
    | tmp v u where "CreateTemp dir pre suf w = (Inr tmp, v)"
      "io_then (ChmodFile tmp mode) (io_then (WriteTo tmp content) (io_then SyncClose
             (io_then SyncClose (Rename tmp path)))) v = (Inl e, u)"
      "w' = snd (io_try SyncClose (\<lambda>_. Remove tmp) u)"
    by (auto simp: replace_via_temp_def io_bind_Inl [where m = "CreateTemp dir pre suf"] io_cleanup_Inl)
  then show ?thesis
  proof cases
    case 1
    then show ?thesis using CreateTemp_Inl by metis
  next
    case 2
    then have "q \<noteq> tmp" using CreateTemp_Inr assms(2) by blast
    have "touches (\<lambda>q. q = tmp) (io_try SyncClose (\<lambda>_. Remove tmp))"
      by (intro touches_try touches_calls touches_Remove)
    then have "node_at w' q = node_at u q"
      using 2(3) \<open>q \<noteq> tmp\<close> by (simp add: touches_def)
    also have "\<dots> = node_at v q" using temp_body_Inl [OF 2(2) \<open>q \<noteq> tmp\<close>] .
    also have "\<dots> = node_at w q" using touchesD [OF touches_CreateTemp assms(2) 2(1)] .
    finally show ?thesis .
  qed
qed

lemma touches_replace_via_temp:
  "touches (\<lambda>q. q = path \<or> temp_name dir pre suf q) (replace_via_temp dir pre suf path content mode)"
proof -
  have "node_at w' q = node_at w q"
    if "replace_via_temp dir pre suf path content mode w = (r, w')"
      and "q \<noteq> path" and nt: "\<not> temp_name dir pre suf q" for w q r w'
  proof (cases r)
    case (Inl e)
    then show ?thesis using replace_via_temp_Inl that by blast
  next
    case (Inr u)
    with that(1) obtain tmp v where tmp: "CreateTemp dir pre suf w = (Inr tmp, v)"
      and rest: "io_then (ChmodFile tmp mode) (io_then (WriteTo tmp content) (io_then SyncClose
             (io_then SyncClose (Rename tmp path)))) v = (Inr u, w')"
      by (auto simp: replace_via_temp_def io_bind_Inr [where m = "CreateTemp dir pre suf"] io_cleanup_Inr)
    have t: "touches (\<lambda>q. q = tmp \<or> q = path) (io_then (ChmodFile tmp mode) (io_then (WriteTo tmp content)
            (io_then SyncClose (io_then SyncClose (Rename tmp path)))))"
      by (intro touches_bind touches_calls(5) touches_Rename touches_mono [OF touches_ChmodFile]
          touches_mono [OF touches_WriteTo]) simp_all
    have "\<not> (q = tmp \<or> q = path)" using that(2) CreateTemp_Inr [OF tmp] nt by blast
    then have "node_at w' q = node_at v q" by (rule touchesD [OF t _ rest])
    then show ?thesis using touchesD [OF touches_CreateTemp nt tmp] by simp
  qed
  then show ?thesis unfolding touches_def by (simp add: prod_eq_iff)
qed

lemma create_exclusive_Inr:
  assumes "create_exclusive path content mode w = (Inr u, w')"
  shows "node_at w path = None \<and> node_at w' path = Some (NFile mode content)"
proof -
  from assms obtain a b c where steps:
      "OpenExcl path mode w = (Inr (), a)" "WriteTo path content a = (Inr (), b)"
      "SyncClose b = (Inr (), c)" "SyncClose c = (Inr u, w')"
    by (auto simp: create_exclusive_def io_results)
  have "node_at b path = Some (NFile mode content)"
    using WriteTo_Inr [OF steps(2)] OpenExcl_Inr [OF steps(1)] by simp
  then show ?thesis
    using OpenExcl_Inr [OF steps(1)] SyncClose_files [OF steps(3)] SyncClose_files [OF steps(4)] by simp
qed

lemma touches_create_exclusive: "touches (\<lambda>q. q = path) (create_exclusive path content mode)"
  unfolding create_exclusive_def
  by (intro touches_bind touches_cleanup touches_try touches_calls touches_OpenExcl touches_WriteTo
      touches_Remove)

text \<open>An existing file is never overwritten by an exclusive creation.\<close>

lemma create_exclusive_existing:
  assumes "node_at w path \<noteq> None"
  shows "(\<exists>e. fst (create_exclusive path content mode w) = Inl e)
         \<and> node_at (snd (create_exclusive path content mode w)) path = node_at w path"
proof (cases "OpenExcl path mode w")
  case (Pair r v)
  then show ?thesis
  proof (cases r)
    case (Inl e)
    then show ?thesis using Pair OpenExcl_Inl [of path mode w e v]
      by (simp add: create_exclusive_def io_bind_def)
  next
    case (Inr u)
    then show ?thesis using Pair OpenExcl_Inr [of path mode w u v] assms by simp
  qed
qed

section \<open>Reading\<close>

lemma Lstat_Inr: "Lstat p w = (Inr x, w') \<Longrightarrow> node_at w p = Some x \<and> w_files w' = w_files w"
  unfolding Lstat_def by (drule sys_Inr) (auto split: option.splits)

lemma follow_file: "node_at w p = Some (NFile m c) \<Longrightarrow> follow w p = Some (p, NFile m c)"
  by (simp add: follow_def eval_nat_numeral)

lemma follow_files: "w_files v = w_files w \<Longrightarrow> follow v p = follow w p"
proof -
  assume "w_files v = w_files w"
  then have "resolve k v x = resolve k w x" for k x
    by (induction k arbitrary: x) (auto split: option.splits node.splits)
  then show ?thesis by (simp add: follow_def)
qed

lemma dir_at_files: "w_files v = w_files w \<Longrightarrow> dir_at v p = dir_at w p"
  by (simp add: dir_at_def follow_files [of v w])

lemma ReadFile_Inr:
  "ReadFile p w = (Inr s, w') \<Longrightarrow> \<exists>q m. follow w p = Some (q, NFile m s) \<and> w_files w' = w_files w"
proof -
  assume "ReadFile p w = (Inr s, w')"
  then obtain v where v: "w_files v = w_files w" "w_files w' = w_files v"
      "\<exists>q m. follow v p = Some (q, NFile m s)"
    unfolding ReadFile_def by - (drule sys_Inr, auto split: option.splits node.splits)
  then show ?thesis using follow_files [OF v(1)] by simp
qed

lemma reads_files:
  "Lstat p w = (r, w') \<Longrightarrow> w_files w' = w_files w"
  "Stat p w = (r, w') \<Longrightarrow> w_files w' = w_files w"
  "ReadFile p w = (r2, w') \<Longrightarrow> w_files w' = w_files w"
  "ReadDir p w = (r3, w') \<Longrightarrow> w_files w' = w_files w"
  "rand_Read n w = (r4, w') \<Longrightarrow> w_files w' = w_files w"
  unfolding Lstat_def Stat_def ReadFile_def ReadDir_def rand_Read_def sys_def
  by (auto split: prod.splits option.splits list.splits dest: next_fault_files)

lemma dir_name_iff:
  assumes "d \<noteq> ''/''"
  shows "dir_name d p = Some n \<longleftrightarrow> p = d @ slash # n \<and> n \<noteq> [] \<and> slash \<notin> set n"
  using assms by (auto simp: dir_name.simps Let_def prefix_def)

lemma ReadDir_Inr:
  assumes "ReadDir dir w = (Inr items, w')"
  shows "items = List.map_filter (\<lambda>(p, x). map_option (\<lambda>name. (name, x)) (dir_name dir p)) (w_files w)"
    and "dir_at w dir"
proof -
  obtain v where v: "w_files v = w_files w"
      "(if dir_at v dir then Inr (List.map_filter (\<lambda>(p, x). map_option (\<lambda>name. (name, x)) (dir_name dir p)) (w_files v))
        else Inl OsNotExist, v) = (Inr items, w')"
    using sys_Inr [OF assms [unfolded ReadDir_def]] by blast
  then show "items = List.map_filter (\<lambda>(p, x). map_option (\<lambda>name. (name, x)) (dir_name dir p)) (w_files w)"
    and "dir_at w dir"
    using dir_at_files [OF v(1)] by (auto split: if_splits)
qed

lemma ReadDir_children:
  assumes "ReadDir dir w = (Inr items, w')"
  shows "(name, item) \<in> set items \<longleftrightarrow> (\<exists>p. (p, item) \<in> set (w_files w) \<and> dir_name dir p = Some name)"
  using ReadDir_Inr(1) [OF assms] by (force simp: List.map_filter_def)

lemma children_distinct:
  assumes "d \<noteq> ''/''" and "distinct (keys xs)"
  shows "distinct (map fst (List.map_filter (\<lambda>(p, x). map_option (\<lambda>name. (name, x)) (dir_name d p)) xs))"
  using assms(2)
proof (induction xs)
  case (Cons a xs)
  let ?g = "\<lambda>(p, x). map_option (\<lambda>name. (name, x)) (dir_name d p)"
  obtain p x where a: "a = (p, x)" by fastforce
  have "n \<notin> set (map fst (List.map_filter ?g xs))" if "dir_name d p = Some n" for n
  proof
    assume "n \<in> set (map fst (List.map_filter ?g xs))"
    then obtain p' x' where "(p', x') \<in> set xs" "dir_name d p' = Some n"
      by (force simp: List.map_filter_def)
    then have "p' = p" using that dir_name_iff [OF assms(1)] by metis
    then show False using Cons.prems \<open>(p', x') \<in> set xs\<close> a by force
  qed
  then show ?case using Cons a by (auto simp: map_filter_simps split: option.splits)
qed (simp add: map_filter_simps)

lemma io_wrap_Inl: "io_wrap f m w = (Inl e, w') \<longleftrightarrow> (\<exists>d. m w = (Inl d, w') \<and> e = f d)"
  by (auto simp: io_wrap_def split: prod.splits sum.splits)

lemma io_wrap_Inr: "io_wrap f m w = (Inr x, w') \<longleftrightarrow> m w = (Inr x, w')"
  by (auto simp: io_wrap_def split: prod.splits sum.splits)

lemma io_fail_iff [simp]: "io_fail e w = (r, w') \<longleftrightarrow> r = Inl e \<and> w' = w"
  by (auto simp: io_fail_def)

lemma io_return_iff [simp]: "io_return x w = (r, w') \<longleftrightarrow> r = Inr x \<and> w' = w"
  by (auto simp: io_return_def)

text \<open>The early returns: \<open>if err != nil { return err }\<close> and \<open>if cond { return err }\<close>.\<close>

lemma io_check_Inr:
  "(case x of Inl e \<Rightarrow> io_fail (g e) | Inr y \<Rightarrow> f y) w = (Inr r, w') \<longleftrightarrow>
     (\<exists>y. x = Inr y \<and> f y w = (Inr r, w'))"
  "(if b then io_fail err else m) w = (Inr r, w') \<longleftrightarrow> \<not> b \<and> m w = (Inr r, w')"
  by (cases x) auto

lemma io_check_Inl:
  "(case x of Inl e \<Rightarrow> io_fail (g e) | Inr y \<Rightarrow> f y) w = (Inl r, w') \<longleftrightarrow>
     (\<exists>e. x = Inl e \<and> r = g e \<and> w' = w) \<or> (\<exists>y. x = Inr y \<and> f y w = (Inl r, w'))"
  "(if b then io_fail err else m) w = (Inl r, w') \<longleftrightarrow>
     b \<and> r = err \<and> w' = w \<or> \<not> b \<and> m w = (Inl r, w')"
  by (cases x) auto

lemmas io_outcomes = io_results io_wrap_Inl io_wrap_Inr io_check_Inr io_check_Inl

text \<open>A fixed name whose last character is not that of the temporary suffix is no temporary name.\<close>

lemma not_temp_name:
  assumes "name_elem n" and "suf \<noteq> []" and "last n \<noteq> last suf"
  shows "\<not> temp_name dir pre suf (JoinPath [d, n])"
proof
  assume "temp_name dir pre suf (JoinPath [d, n])"
  then obtain a s where "a @ n = (dir @ ''/'' @ pre @ EncodeToString s) @ suf"
    using JoinPath_name_suffix [OF assms(1), of d] by (auto simp: temp_name_def)
  then have "last (a @ n) = last ((dir @ ''/'' @ pre @ EncodeToString s) @ suf)" by (rule arg_cong)
  then show False using assms by (simp add: name_elem_def)
qed

section \<open>Which errors\<close>

lemma WriteTo_Inl: "WriteTo p b w = (Inl e, w') \<Longrightarrow> \<exists>t. e = OsOther t"
  by (auto simp: WriteTo_def split: prod.splits option.splits)

lemma SyncClose_Inl: "SyncClose w = (Inl e, w') \<Longrightarrow> \<exists>t. e = OsOther t"
  by (auto simp: SyncClose_def sys_def split: prod.splits option.splits)

lemma OpenExcl_taken: "OpenExcl p m w = (Inl OsExist, w') \<Longrightarrow> node_at w p \<noteq> None"
  by (auto simp: OpenExcl_def sys_def split: prod.splits option.splits if_splits dest!: next_fault_files)

lemma create_exclusive_taken:
  "create_exclusive p c m w = (Inl OsExist, w') \<Longrightarrow> node_at w p \<noteq> None"
  by (auto simp: create_exclusive_def io_outcomes dest: WriteTo_Inl SyncClose_Inl OpenExcl_taken)

lemma rand_Read_length: "rand_Read n w = (Inr s, w') \<Longrightarrow> length s = n"
proof -
  assume "rand_Read n w = (Inr s, w')"
  then obtain v where "(case w_rand v of [] \<Rightarrow> (Inr (replicate n (byte 0)), v)
      | x # xs \<Rightarrow> (Inr (take n (x @ replicate n (byte 0))), v\<lparr>w_rand := xs\<rparr>)) = (Inr s :: os_error + string, w')"
    unfolding rand_Read_def by (blast dest: sys_Inr)
  then show ?thesis by (cases "w_rand v") auto
qed

lemma rand_Read_no_fault:
  "w_faults w = [] \<Longrightarrow>
     \<exists>s v. rand_Read n w = (Inr s, v) \<and> length s = n \<and> w_files v = w_files w \<and> w_faults v = []"
  by (auto simp: rand_Read_def sys_no_fault split: list.splits)

section \<open>Well-formed worlds\<close>

definition w_ok :: "world \<Rightarrow> bool" where
  "w_ok w \<longleftrightarrow> distinct (keys (w_files w))"

definition keeps_ok :: "('e, 'a) io \<Rightarrow> bool" where
  "keeps_ok m \<longleftrightarrow> (\<forall>w. w_ok w \<longrightarrow> w_ok (snd (m w)))"

lemma keeps_okD: "keeps_ok m \<Longrightarrow> w_ok w \<Longrightarrow> m w = (r, w') \<Longrightarrow> w_ok w'"
  unfolding keeps_ok_def by (metis snd_conv)

lemma keeps_ok_return [intro]: "keeps_ok (io_return x)"
  by (simp add: keeps_ok_def io_return_def)

lemma keeps_ok_fail [intro]: "keeps_ok (io_fail e)"
  by (simp add: keeps_ok_def io_fail_def)

lemma keeps_ok_bind [intro]: "keeps_ok m \<Longrightarrow> (\<And>x. keeps_ok (f x)) \<Longrightarrow> keeps_ok (io_bind m f)"
  unfolding keeps_ok_def by (auto simp: io_bind_def split: prod.splits sum.splits)

lemma keeps_ok_try [intro]: "keeps_ok m \<Longrightarrow> (\<And>r. keeps_ok (f r)) \<Longrightarrow> keeps_ok (io_try m f)"
  unfolding keeps_ok_def by (auto simp: io_try_def split: prod.splits)

lemma keeps_ok_wrap [intro]: "keeps_ok m \<Longrightarrow> keeps_ok (io_wrap f m)"
  unfolding keeps_ok_def by (auto simp: io_wrap_def split: prod.splits sum.splits)

lemma keeps_ok_cleanup [intro]: "keeps_ok m \<Longrightarrow> keeps_ok c \<Longrightarrow> keeps_ok (io_cleanup m c)"
  unfolding keeps_ok_def by (auto simp: io_cleanup_def split: prod.splits sum.splits)

lemma w_ok_files: "w_files w' = w_files w \<Longrightarrow> w_ok w' = w_ok w"
  by (simp add: w_ok_def)

lemma keeps_ok_sys: "keeps_ok m \<Longrightarrow> keeps_ok (sys m)"
  unfolding keeps_ok_def sys_def
  by (auto split: prod.splits option.splits dest!: next_fault_files w_ok_files)

lemma keeps_ok_calls [intro]:
  "keeps_ok (Lstat p)" "keeps_ok (Stat p)" "keeps_ok (ReadFile p)" "keeps_ok (ReadDir p)"
  "keeps_ok SyncClose" "keeps_ok (rand_Read n)" "keeps_ok (OpenExcl p m)" "keeps_ok (Remove p)"
  "keeps_ok (Rename p q)" "keeps_ok (ChmodFile p m)" "keeps_ok (CreateTemp p pre suf)" "keeps_ok (AbsPath p)"
  unfolding Lstat_def Stat_def ReadFile_def ReadDir_def SyncClose_def rand_Read_def OpenExcl_def Remove_def
    Rename_def ChmodFile_def CreateTemp_def AbsPath_def
  by (rule keeps_ok_sys, simp add: keeps_ok_def w_ok_def split: list.splits option.splits node.splits)+
    (simp add: keeps_ok_def w_ok_def)

lemma keeps_ok_WriteTo [intro]: "keeps_ok (WriteTo p b)"
  unfolding keeps_ok_def WriteTo_def append_file_def
  by (auto simp: w_ok_def split: prod.splits option.splits node.splits dest!: next_fault_files)

lemma keeps_ok_make_dirs: "keeps_ok (make_dirs mode ps)"
  by (induction ps) (auto simp: make_dir_def keeps_ok_def w_ok_def io_bind_def io_return_def)

lemma keeps_ok_MkdirAll [intro]: "keeps_ok (MkdirAll p mode)"
  unfolding MkdirAll_def by (rule keeps_ok_sys [OF keeps_ok_make_dirs])

lemma keeps_ok_writers [intro]:
  "keeps_ok (replace_via_temp dir pre suf p c m)" "keeps_ok (create_exclusive p c m)"
  unfolding replace_via_temp_def create_exclusive_def
  by (intro keeps_ok_bind keeps_ok_cleanup keeps_ok_try keeps_ok_calls keeps_ok_WriteTo)+

section \<open>Calls that meet no fault\<close>

lemma OpenExcl_no_fault:
  "w_faults w = [] \<Longrightarrow> node_at w p = None \<Longrightarrow> dir_at w (DirPath p) \<Longrightarrow>
     OpenExcl p m w = (Inr (), w\<lparr>w_files := AList.update p (NFile m []) (w_files w)\<rparr>)"
  by (simp add: OpenExcl_def sys_no_fault)

lemma WriteTo_no_fault: "w_faults w = [] \<Longrightarrow> \<exists>v. WriteTo p c w = (Inr (), v) \<and> w_faults v = []"
  by (auto simp: WriteTo_def next_fault_none append_file_def split: option.splits node.splits)

lemma SyncClose_no_fault: "w_faults w = [] \<Longrightarrow> SyncClose w = (Inr (), w)"
  by (simp add: SyncClose_def sys_no_fault)

lemma create_exclusive_no_fault:
  assumes "w_faults w = []" and "node_at w p = None" and "dir_at w (DirPath p)"
  shows "\<exists>w'. create_exclusive p c m w = (Inr (), w')"
proof -
  let ?v = "w\<lparr>w_files := AList.update p (NFile m []) (w_files w)\<rparr>"
  obtain u where "WriteTo p c ?v = (Inr (), u)" "w_faults u = []"
    using WriteTo_no_fault [of ?v] assms(1) by auto
  then show ?thesis
    using OpenExcl_no_fault [OF assms] by (simp add: create_exclusive_def io_outcomes SyncClose_no_fault)
qed

lemma ReadDir_no_fault:
  "w_faults w = [] \<Longrightarrow> dir_at w d \<Longrightarrow> \<exists>es. ReadDir d w = (Inr es, w)"
  by (simp add: ReadDir_def sys_no_fault)

section \<open>Creating a directory leaves the files in it alone\<close>

lemma touches_make_dirs: "touches (\<lambda>q. q \<in> set ps) (make_dirs mode ps)"
proof (induction ps)
  case (Cons p ps)
  have "touches (\<lambda>q. q = p) (make_dir mode p)" by (simp add: touches_def make_dir_def)
  then show ?case using Cons.IH by (auto intro!: touches_bind intro: touches_mono)
qed (simp add: touches_return)

lemma touches_MkdirAll: "touches (\<lambda>q. q \<in> set (dir_chain p)) (MkdirAll p mode)"
  unfolding MkdirAll_def by (rule touches_sys [OF touches_make_dirs])

lemma join_append_length: "length (join sep es) \<le> length (join sep (es @ fs))"
proof (induction sep es rule: join.induct)
  case (2 sep x)
  then show ?case by (cases fs) auto
qed auto

lemma JoinPath_not_in_chain:
  assumes "name_elem n" and "d \<noteq> []"
  shows "JoinPath [d, n] \<notin> set (dir_chain d)"
proof -
  have "n \<noteq> []" using assms(1) by (simp add: name_elem_def)
  have short: "length (join slash es) \<le> length (join slash (elems d))" if "prefix es (elems d)" for es
    using that join_append_length [of slash es] by (auto simp: prefix_def)
  have "length q < length (JoinPath [d, n])" if q: "q \<in> set (dir_chain d)" for q
  proof (cases "IsAbs d")
    case True
    then obtain es where "q = slash # join slash es" "prefix es (elems d)"
      using q by (auto simp: dir_chain_def)
    then show ?thesis
      using short [of es] True assms \<open>n \<noteq> []\<close> by (auto simp: JoinPath_name)
  next
    case False
    then obtain es where es: "q = join slash es" "es \<in> set (tl (prefixes (elems d)))"
      using q by (auto simp: dir_chain_def)
    have "elems d \<noteq> []" using es(2) by auto
    moreover have "prefix es (elems d)" using es(2) by (metis in_set_prefixes list.set_sel(2) tl_Nil)
    ultimately show ?thesis
      using short [of es] False assms es(1) by (auto simp: JoinPath_name)
  qed
  then show ?thesis by blast
qed

lemma elems_JoinPath: "name_elem n \<Longrightarrow> d \<noteq> [] \<Longrightarrow> elems (JoinPath [d, n]) = elems d @ [n]"
  using elems_append_name [of d n] by (simp add: JoinPath_def name_elem_def)

lemma JoinPath_not_dir: "name_elem n \<Longrightarrow> d \<noteq> [] \<Longrightarrow> JoinPath [d, n] \<noteq> d"
  using elems_JoinPath [of n d] by (metis append_self_conv list.distinct(1))

end
