(* ===== verification/Ident.thy ===== *)
theory Ident
  imports Go_Files
begin

text \<open>
  internal/id/random.go: identifiers made of a prefix and the unpadded URL-safe base64 text of random
  bytes (\<open>base64.RawURLEncoding\<close>). The lemmas give what the callers rely on: the length, the alphabet
  (no character that the identifier checks of the other packages refuse) and that different bytes
  give different identifiers.
\<close>

definition url_alphabet :: string where
  "url_alphabet = ''ABCDEFGHIJKLMNOPQRSTUVWXYZabcdefghijklmnopqrstuvwxyz0123456789-_''"

definition url_char :: "nat \<Rightarrow> char" where
  "url_char i = url_alphabet ! (i mod 64)"

fun RawURLEncoding :: "string \<Rightarrow> string" where
  "RawURLEncoding (a # b # c # s) =
     (let n = (of_char a * 256 + of_char b) * 256 + of_char c :: nat
      in url_char (n div 262144) # url_char (n div 4096) # url_char (n div 64) # url_char n
         # RawURLEncoding s)"
| "RawURLEncoding [a, b] =
     (let n = (of_char a * 256 + of_char b) * 256 :: nat
      in [url_char (n div 262144), url_char (n div 4096), url_char (n div 64)])"
| "RawURLEncoding [a] =
     (let n = of_char a * 65536 :: nat in [url_char (n div 262144), url_char (n div 4096)])"
| "RawURLEncoding [] = []"

text \<open>\<open>read n\<close> is the outcome of filling a buffer of \<open>n\<close> bytes from \<open>crypto/rand\<close>.\<close>

definition Random :: "(nat \<Rightarrow> 'e + string) \<Rightarrow> string \<Rightarrow> nat \<Rightarrow> 'e + string" where
  "Random read pre sz =
     (case read sz of Inl e \<Rightarrow> Inl e | Inr buffer \<Rightarrow> Inr (pre @ RawURLEncoding buffer))"

text \<open>The same with the random bytes of a \<^typ>\<open>world\<close>.\<close>

definition RandomIO :: "string \<Rightarrow> nat \<Rightarrow> (os_error, string) io" where
  "RandomIO pre sz =
     io_try (rand_Read sz) (\<lambda>r w. (Random (\<lambda>_. r) pre sz, w))"

section \<open>Alphabet and length\<close>

definition url_safe :: "char \<Rightarrow> bool" where
  "url_safe c \<longleftrightarrow> c \<in> set url_alphabet"

lemma length_url_alphabet: "length url_alphabet = 64"
  by (simp add: url_alphabet_def)

lemma distinct_url_alphabet: "distinct url_alphabet"
  by (simp add: url_alphabet_def)

lemma url_char_safe [simp]: "url_safe (url_char i)"
  by (simp add: url_safe_def url_char_def length_url_alphabet)

lemma url_char_inj: "url_char i = url_char j \<longleftrightarrow> i mod 64 = j mod 64"
  using nth_eq_iff_index_eq [OF distinct_url_alphabet, of "i mod 64" "j mod 64"]
  by (simp add: url_char_def length_url_alphabet)

lemma url_safe_visible: "url_safe c \<Longrightarrow> visible c"
proof -
  have "list_all visible url_alphabet" by code_simp
  then show "url_safe c \<Longrightarrow> visible c" by (simp add: url_safe_def list_all_iff)
qed

lemma RawURLEncoding_safe: "list_all url_safe (RawURLEncoding s)"
  by (induction s rule: RawURLEncoding.induct) (simp_all add: Let_def)

lemma length_RawURLEncoding: "length (RawURLEncoding s) = (4 * length s + 2) div 3"
  by (induction s rule: RawURLEncoding.induct) (simp_all add: Let_def)

lemma Random_length:
  "Random read pre sz = Inr s \<Longrightarrow> (\<And>b. read sz = Inr b \<Longrightarrow> length b = sz) \<Longrightarrow>
     length s = length pre + (4 * sz + 2) div 3"
  by (auto simp: Random_def length_RawURLEncoding split: sum.splits)

lemma Random_prefix: "Random read pre sz = Inr s \<Longrightarrow> \<exists>t. s = pre @ t \<and> list_all url_safe t"
  by (auto simp: Random_def RawURLEncoding_safe split: sum.splits)

text \<open>An identifier with a visible prefix and eighteen random bytes is one that the validation accepts.\<close>

lemma random_id_valid:
  assumes "length buffer = 18" and "pre \<noteq> []" and "visible (hd pre)" and "length pre \<le> 100"
  shows "TrimSpace (pre @ RawURLEncoding buffer) \<noteq> []" and "length (pre @ RawURLEncoding buffer) \<le> 128"
proof -
  have nonempty: "RawURLEncoding buffer \<noteq> []" using length_RawURLEncoding [of buffer] assms(1) by auto
  then have "url_safe (last (RawURLEncoding buffer))" using RawURLEncoding_safe [of buffer] by (simp add: list_all_iff)
  from url_safe_visible [OF this] have "TrimSpace (pre @ RawURLEncoding buffer) = pre @ RawURLEncoding buffer"
    using nonempty assms(2,3) by (intro TrimSpace_visible) simp_all
  then show "TrimSpace (pre @ RawURLEncoding buffer) \<noteq> []" using assms(2) by simp
  show "length (pre @ RawURLEncoding buffer) \<le> 128" using assms(1,4) by (simp add: length_RawURLEncoding)
qed

section \<open>Different bytes, different identifiers\<close>

lemma div_mod_inj:
  fixes n m d :: nat
  shows "n div d = m div d \<Longrightarrow> n mod d = m mod d \<Longrightarrow> n = m"
  by (metis div_mult_mod_eq)

lemma sextets_inj:
  fixes n m :: nat
  assumes "n < 16777216" and "m < 16777216"
    and "n div 262144 mod 64 = m div 262144 mod 64" and "n div 4096 mod 64 = m div 4096 mod 64"
    and "n div 64 mod 64 = m div 64 mod 64" and "n mod 64 = m mod 64"
  shows "n = m"
proof -
  have "n div 262144 = m div 262144"
    using assms(1-3) by (simp add: less_mult_imp_div_less)
  then have "n div 4096 div 64 = m div 4096 div 64" by (simp add: div_mult2_eq [symmetric])
  then have "n div 4096 = m div 4096" using assms(4) by (rule div_mod_inj)
  then have "n div 64 div 64 = m div 64 div 64" by (simp add: div_mult2_eq [symmetric])
  then have "n div 64 = m div 64" using assms(5) by (rule div_mod_inj)
  then show ?thesis using assms(6) by (rule div_mod_inj)
qed

lemma base256_inj:
  fixes a b x y :: nat
  assumes "b < 256" and "y < 256" and "a * 256 + b = x * 256 + y"
  shows "a = x \<and> b = y"
proof -
  have "(a * 256 + b) mod 256 = (x * 256 + y) mod 256" using assms(3) by simp
  then have "b = y" using assms(1,2) by simp
  then show ?thesis using assms(3) by simp
qed

lemma three_bytes_inj:
  fixes a b c x y z :: nat
  assumes "b < 256" "c < 256" "y < 256" "z < 256"
    and "(a * 256 + b) * 256 + c = (x * 256 + y) * 256 + z"
  shows "a = x \<and> b = y \<and> c = z"
  using base256_inj [OF assms(2,4,5)] base256_inj [OF assms(1,3), of a x] by simp

lemma three_bytes_less:
  "((of_char a * 256 + of_char b) * 256 + of_char c :: nat) < 16777216"
  unfolding add_mult_distrib using byte_less [of a] byte_less [of b] byte_less [of c] by linarith

lemma of_char_inj: "(of_char a :: nat) = of_char b \<longleftrightarrow> a = b"
  by (rule of_char_eq_iff)

lemma RawURLEncoding_inj: "RawURLEncoding s = RawURLEncoding t \<Longrightarrow> length s = length t \<Longrightarrow> s = t"
proof (induction s arbitrary: t rule: RawURLEncoding.induct)
  case (1 a b c s)
  then obtain x y z t' where t: "t = x # y # z # t'"
    by (cases t rule: RawURLEncoding.cases) auto
  let ?n = "(of_char a * 256 + of_char b) * 256 + of_char c :: nat"
  let ?m = "(of_char x * 256 + of_char y) * 256 + of_char z :: nat"
  have small: "?n < 16777216" "?m < 16777216"
    by (rule three_bytes_less)+
  have "?n = ?m"
    by (rule sextets_inj [OF small]) (use 1(2) in \<open>simp_all add: t Let_def url_char_inj\<close>)
  then have "(of_char a :: nat) = of_char x \<and> (of_char b :: nat) = of_char y \<and> (of_char c :: nat) = of_char z"
    by (intro three_bytes_inj byte_less)
  moreover have "s = t'" using 1 by (simp add: t Let_def)
  ultimately show ?case by (simp add: t)
next
  case (2 a b)
  then obtain x y where t: "t = [x, y]" by (cases t rule: RawURLEncoding.cases) auto
  let ?n = "(of_char a * 256 + of_char b) * 256 :: nat"
  let ?m = "(of_char x * 256 + of_char y) * 256 :: nat"
  have small: "?n < 16777216" "?m < 16777216"
    using three_bytes_less [of a b "byte 0"] three_bytes_less [of x y "byte 0"] by (simp_all add: byte_def)
  have "?n = ?m"
    by (rule sextets_inj [OF small]) (use 2(1) in \<open>simp_all add: t Let_def url_char_inj mod_mult_right_eq\<close>)
  then have "(of_char a :: nat) = of_char x \<and> (of_char b :: nat) = of_char y \<and> 0 = (0 :: nat)"
    by (intro three_bytes_inj byte_less) simp_all
  then show ?case by (simp add: t)
next
  case (3 a)
  then obtain x where t: "t = [x]" by (cases t rule: RawURLEncoding.cases) auto
  have "of_char a * 65536 = (of_char x * 65536 :: nat)"
    by (rule sextets_inj)
      (use 3(1) byte_less [of a] byte_less [of x] in \<open>simp_all add: t Let_def url_char_inj\<close>)
  then show ?case by (simp add: t)
qed simp

lemma Random_inj:
  "Random (\<lambda>_. Inr b) pre sz = Random (\<lambda>_. Inr c) pre sz \<Longrightarrow> length b = length c \<Longrightarrow> b = c"
  by (simp add: Random_def RawURLEncoding_inj)

end
