(* ===== verification/Redact.thy ===== *)
theory Redact
  imports Go_Base
begin

text \<open>
  internal/security/redact.go: the recursive redaction of evidence and audit details by key name.
  \<open>no_secrets\<close> is what redaction promises (no key that names a credential keeps its value, at any
  depth); the lemmas show that \<open>RedactMap\<close> establishes it, leaves every other key alone and is
  idempotent.
\<close>

type_synonym evidence = "(string \<times> goany) list option"

definition Redacted :: string where
  "Redacted = ''[REDACTED]''"

definition sensitiveKeyFragments :: "string list" where
  "sensitiveKeyFragments =
     [''authorization'', ''cookie'', ''password'', ''passwd'', ''private_key'', ''secret'', ''token'']"

definition sensitiveKey :: "string \<Rightarrow> bool" where
  "sensitiveKey key =
     (let normalized = ReplaceChar (CHR ''-'') (CHR ''_'') (ToLower (TrimSpace key))
      in list_ex (\<lambda>fragment. Contains normalized fragment) sensitiveKeyFragments)"

fun redactValue :: "goany \<Rightarrow> goany"
and redactEntries :: "(string \<times> goany) list \<Rightarrow> (string \<times> goany) list"
and redactItems :: "goany list \<Rightarrow> goany list" where
  "redactValue (AMap m) = AMap (redactEntries m)"
| "redactValue (AArr xs) = AArr (redactItems xs)"
| "redactValue v = v"
| "redactEntries [] = []"
| "redactEntries ((key, v) # m) =
     (if sensitiveKey key then (key, AStr Redacted) else (key, redactValue v)) # redactEntries m"
| "redactItems [] = []"
| "redactItems (v # vs) = redactValue v # redactItems vs"

definition RedactMap :: "evidence \<Rightarrow> evidence" where
  "RedactMap input = map_option redactEntries input"

section \<open>No secrets remain\<close>

fun clean_value :: "goany \<Rightarrow> bool"
and clean_entries :: "(string \<times> goany) list \<Rightarrow> bool"
and clean_items :: "goany list \<Rightarrow> bool" where
  "clean_value (AMap m) = clean_entries m"
| "clean_value (AArr xs) = clean_items xs"
| "clean_value v = True"
| "clean_entries [] = True"
| "clean_entries ((key, v) # m) =
     ((if sensitiveKey key then v = AStr Redacted else clean_value v) \<and> clean_entries m)"
| "clean_items [] = True"
| "clean_items (v # vs) = (clean_value v \<and> clean_items vs)"

definition no_secrets :: "evidence \<Rightarrow> bool" where
  "no_secrets e = (case e of None \<Rightarrow> True | Some m \<Rightarrow> clean_entries m)"

lemma redact_clean:
  "clean_value (redactValue v)"
  "clean_entries (redactEntries m)"
  "clean_items (redactItems vs)"
  by (induction v and m and vs rule: redactValue_redactEntries_redactItems.induct) auto

lemma redact_fixed:
  "clean_value v \<Longrightarrow> redactValue v = v"
  "clean_entries m \<Longrightarrow> redactEntries m = m"
  "clean_items vs \<Longrightarrow> redactItems vs = vs"
  by (induction v and m and vs rule: redactValue_redactEntries_redactItems.induct)
    (auto split: if_splits)

lemma RedactMap_no_secrets [simp]: "no_secrets (RedactMap e)"
  by (auto simp: no_secrets_def RedactMap_def redact_clean split: option.splits)

lemma RedactMap_fixed: "no_secrets e \<Longrightarrow> RedactMap e = e"
  by (cases e) (auto simp: no_secrets_def RedactMap_def redact_fixed)

lemma RedactMap_idem [simp]: "RedactMap (RedactMap e) = RedactMap e"
  by (rule RedactMap_fixed) simp

lemma keys_redactEntries [simp]: "keys (redactEntries m) = keys m"
  by (induction m) auto

lemma map_of_redactEntries:
  "map_of (redactEntries m) k =
     (if sensitiveKey k then map_option (\<lambda>_. AStr Redacted) (map_of m k)
      else map_option redactValue (map_of m k))"
  by (induction m) auto


end
