(* ===== verification/Domain.thy ===== *)
theory Domain
  imports Go_Path Redact
begin

text \<open>
  internal/domain: the records that travel between the Agent, the Gateway and the control plane
  (model.go) and the checks every component applies to them before it acts on them (validate.go).
  An error is the text that Go's \<open>error\<close> value carries; \<^const>\<open>None\<close> is \<open>nil\<close>. The JSON encoder is a
  parameter (\<open>marshal\<close>) where its output length matters.
\<close>

type_synonym error = string
type_synonym Severity = string

definition SeverityInfo :: Severity where "SeverityInfo = ''info''"
definition SeverityLow :: Severity where "SeverityLow = ''low''"
definition SeverityMedium :: Severity where "SeverityMedium = ''medium''"
definition SeverityHigh :: Severity where "SeverityHigh = ''high''"
definition SeverityCritical :: Severity where "SeverityCritical = ''critical''"

lemmas severity_defs =
  SeverityInfo_def SeverityLow_def SeverityMedium_def SeverityHigh_def SeverityCritical_def

definition Severity_Valid :: "Severity \<Rightarrow> bool" where
  "Severity_Valid s =
     (s \<in> {SeverityInfo, SeverityLow, SeverityMedium, SeverityHigh, SeverityCritical})"

record Agent =
  agent_ID :: string
  agent_MachineID :: string
  agent_Hostname :: string
  agent_Version :: string
  agent_Platform :: string
  agent_Architecture :: string
  agent_CredentialHash :: string
  agent_RegisteredAt :: time
  agent_LastSeenAt :: time

record Heartbeat =
  hb_AgentVersion :: string
  hb_QueueDepth :: int
  hb_SentAt :: time

record Event =
  event_ID :: string
  event_AgentID :: string
  event_Kind :: string
  event_Severity :: Severity
  event_Summary :: string
  event_OccurredAt :: time
  event_ReceivedAt :: time
  event_Evidence :: evidence

record AlertFilter =
  filter_Severity :: Severity
  filter_Limit :: int

record Policy =
  policy_ID :: string
  policy_AgentID :: string
  policy_Revision :: int
  policy_FileIntegrityEnabled :: bool
  policy_FileWatchPaths :: "string list"
  policy_SSHAuthEnabled :: bool
  policy_SSHThreshold :: int
  policy_SSHWindowSeconds :: int
  policy_RuntimeWatchEnabled :: bool
  policy_UpdatedAt :: time

record AuditLog =
  audit_ID :: string
  audit_Actor :: string
  audit_Action :: string
  audit_Resource :: string
  audit_OccurredAt :: time
  audit_Details :: evidence

section \<open>Validation\<close>

definition maxEvidenceBytes :: nat where
  "maxEvidenceBytes = 65536"

abbreviation control_chars :: string where
  "control_chars \<equiv> [byte 13, byte 10, byte 0]"

fun check_fields :: "(string \<times> string \<times> nat) list \<Rightarrow> error option" where
  "check_fields [] = None"
| "check_fields ((name, v, mx) # rest) =
     (if TrimSpace v = [] then Some (name @ '' is required'')
      else if mx < length v then Some (name @ '' exceeds '' @ FormatNat mx @ '' bytes'')
      else if ContainsAny v control_chars then Some (name @ '' contains control characters'')
      else check_fields rest)"

definition ValidateRegistration ::
  "string \<Rightarrow> string \<Rightarrow> string \<Rightarrow> string \<Rightarrow> string \<Rightarrow> error option" where
  "ValidateRegistration machineID hostname version platform architecture =
     check_fields
       [(''machine_id'', machineID, 128), (''hostname'', hostname, 255), (''version'', version, 64),
        (''platform'', platform, 32), (''architecture'', architecture, 32)]"

text \<open>The path condition shared by \<open>ValidatePolicy\<close> and the control plane's \<open>validatePolicyRequest\<close>.\<close>

definition bad_watch_path :: "string \<Rightarrow> bool" where
  "bad_watch_path item =
     (length item = 0 \<or> 512 < length item \<or> \<not> HasPrefix item ''/'' \<or> Clean item \<noteq> item
      \<or> ContainsAny item control_chars)"

fun watch_paths_ok :: "string list \<Rightarrow> string list \<Rightarrow> bool" where
  "watch_paths_ok seen [] = True"
| "watch_paths_ok seen (item # items) =
     (if bad_watch_path item \<or> item \<in> set seen then False
      else watch_paths_ok (item # seen) items)"

definition ssh_range_bad :: "int \<Rightarrow> int \<Rightarrow> bool" where
  "ssh_range_bad threshold window = (threshold < 2 \<or> 100 < threshold \<or> window < 10 \<or> 86400 < window)"

definition ValidatePolicy :: "Policy \<Rightarrow> error option" where
  "ValidatePolicy p =
     (if TrimSpace (policy_ID p) = [] \<or> 64 < length (policy_ID p)
         \<or> TrimSpace (policy_AgentID p) = [] \<or> 64 < length (policy_AgentID p)
         \<or> policy_Revision p < 1 \<or> policy_UpdatedAt p = zero_time
      then Some ''policy identity, revision, and update time are required''
      else if 64 < length (policy_FileWatchPaths p) then
        Some ''policy has too many file watch paths''
      else if \<not> watch_paths_ok [] (policy_FileWatchPaths p) then
        Some ''policy contains an invalid or duplicate file watch path''
      else if ssh_range_bad (policy_SSHThreshold p) (policy_SSHWindowSeconds p) then
        Some ''policy SSH threshold or window is outside the safe range''
      else None)"

definition ValidateEvent :: "(evidence \<Rightarrow> error + string) \<Rightarrow> Event \<Rightarrow> time \<Rightarrow> error option" where
  "ValidateEvent marshal e now =
     (if TrimSpace (event_ID e) = [] \<or> 128 < length (event_ID e) then
        Some ''event id is required and must not exceed 128 bytes''
      else if TrimSpace (event_Kind e) = [] \<or> 128 < length (event_Kind e) then
        Some ''event kind is required and must not exceed 128 bytes''
      else if \<not> Severity_Valid (event_Severity e) then Some ''event severity is invalid''
      else if TrimSpace (event_Summary e) = [] \<or> 2048 < length (event_Summary e) then
        Some ''event summary is required and must not exceed 2048 bytes''
      else if event_OccurredAt e = zero_time then Some ''occurred_at is required''
      else if now + 5 * minute < event_OccurredAt e then
        Some ''occurred_at is too far in the future''
      else case marshal (event_Evidence e) of
             Inl err \<Rightarrow> Some (''encode evidence: '' @ err)
           | Inr encoded \<Rightarrow>
               if maxEvidenceBytes < length encoded then
                 Some (''evidence exceeds '' @ FormatNat maxEvidenceBytes @ '' bytes'')
               else None)"

section \<open>What a validated value satisfies\<close>

text \<open>The well-formedness that \<open>ValidatePolicy\<close> checks, stated without its order of tests.\<close>

definition wf_policy :: "Policy \<Rightarrow> bool" where
  "wf_policy p \<longleftrightarrow>
     TrimSpace (policy_ID p) \<noteq> [] \<and> length (policy_ID p) \<le> 64
     \<and> TrimSpace (policy_AgentID p) \<noteq> [] \<and> length (policy_AgentID p) \<le> 64
     \<and> 1 \<le> policy_Revision p \<and> policy_UpdatedAt p \<noteq> zero_time
     \<and> length (policy_FileWatchPaths p) \<le> 64
     \<and> distinct (policy_FileWatchPaths p)
     \<and> list_all (\<lambda>q. \<not> bad_watch_path q) (policy_FileWatchPaths p)
     \<and> 2 \<le> policy_SSHThreshold p \<and> policy_SSHThreshold p \<le> 100
     \<and> 10 \<le> policy_SSHWindowSeconds p \<and> policy_SSHWindowSeconds p \<le> 86400"

lemma watch_paths_ok_iff:
  "watch_paths_ok seen items \<longleftrightarrow>
     distinct items \<and> set items \<inter> set seen = {} \<and> list_all (\<lambda>q. \<not> bad_watch_path q) items"
  by (induction items arbitrary: seen) auto

lemma ValidatePolicy_iff: "ValidatePolicy p = None \<longleftrightarrow> wf_policy p"
  by (auto simp: ValidatePolicy_def wf_policy_def watch_paths_ok_iff ssh_range_bad_def)

lemma good_watch_path_abs: "\<not> bad_watch_path q \<Longrightarrow> IsAbs q \<and> Clean q = q"
  by (auto simp: bad_watch_path_def IsAbs_def)

lemma wf_policy_sorted_paths:
  "wf_policy p \<Longrightarrow> wf_policy (p\<lparr>policy_FileWatchPaths := sort (policy_FileWatchPaths p)\<rparr>)"
  by (simp add: wf_policy_def list_all_iff)

lemma ValidateEvent_None:
  "ValidateEvent marshal e now = None \<longleftrightarrow>
     TrimSpace (event_ID e) \<noteq> [] \<and> length (event_ID e) \<le> 128
     \<and> TrimSpace (event_Kind e) \<noteq> [] \<and> length (event_Kind e) \<le> 128
     \<and> Severity_Valid (event_Severity e)
     \<and> TrimSpace (event_Summary e) \<noteq> [] \<and> length (event_Summary e) \<le> 2048
     \<and> event_OccurredAt e \<noteq> zero_time \<and> event_OccurredAt e \<le> now + 5 * minute
     \<and> (\<exists>enc. marshal (event_Evidence e) = Inr enc \<and> length enc \<le> maxEvidenceBytes)"
  by (auto simp: ValidateEvent_def split: sum.splits)

lemma check_fields_None:
  "check_fields fs = None \<longleftrightarrow>
     list_all (\<lambda>(n, v, mx). TrimSpace v \<noteq> [] \<and> length v \<le> mx \<and> \<not> ContainsAny v control_chars) fs"
  by (induction fs rule: check_fields.induct) auto

end
