(* ===== verification/Mtls.thy ===== *)
theory Mtls
  imports Ident Domain
begin

text \<open>
  internal/mtls/mtls.go: the Agent certificate authority (issuing, loading, creating the CA) and the
  Agent's side of it (key, request, checking and storing an issued certificate). X.509, PEM and the
  signature scheme are the fields of \<open>x509_lib\<close>; \<open>x509_ok\<close> states the documented behaviour that the
  theorems rely on. \<open>HTTPClientWithCertificate\<close> and \<open>CertPool\<close> only configure \<open>net/http\<close>.
\<close>

unbundle bit_operations_syntax

datatype PublicKey = Ed25519PublicKey string | OtherPublicKey string
datatype PrivateKey = Ed25519PrivateKey string | OtherPrivateKey string

record Certificate =
  cert_SerialNumber :: nat
  cert_CommonName :: string
  cert_NotBefore :: time
  cert_NotAfter :: time
  cert_KeyUsage :: nat
  cert_ExtKeyUsage :: "nat list"
  cert_URIs :: "string list"
  cert_IsCA :: bool
  cert_PublicKey :: PublicKey

record CertificateRequest =
  csr_CommonName :: string
  csr_PublicKey :: PublicKey

record x509_lib =
  pem_Decode :: "string \<Rightarrow> (string \<times> string \<times> string) option"
  pem_EncodeToMemory :: "string \<Rightarrow> string \<Rightarrow> string"
  x509_ParseCertificate :: "string \<Rightarrow> Certificate option"
  x509_ParseCertificateRequest :: "string \<Rightarrow> CertificateRequest option"
  x509_CheckSignature :: "string \<Rightarrow> bool"
  x509_CreateCertificate :: "Certificate \<Rightarrow> Certificate \<Rightarrow> PublicKey \<Rightarrow> PrivateKey \<Rightarrow> error + string"
  x509_CreateCertificateRequest :: "string \<Rightarrow> PrivateKey \<Rightarrow> error + string"
  x509_ParsePKCS8PrivateKey :: "string \<Rightarrow> PrivateKey option"
  x509_MarshalPKCS8PrivateKey :: "PrivateKey \<Rightarrow> error + string"
  x509_MarshalPKIXPublicKey :: "PublicKey \<Rightarrow> error + string"
  x509_Verify :: "Certificate \<Rightarrow> Certificate \<Rightarrow> time \<Rightarrow> bool"
  ed25519_GenerateKey :: "string \<Rightarrow> PrivateKey"
  ed25519_Public :: "PrivateKey \<Rightarrow> PublicKey"
  tls_X509KeyPair :: "string \<Rightarrow> string \<Rightarrow> error + string list"
  time_AddDate :: "time \<Rightarrow> int \<Rightarrow> int \<Rightarrow> int \<Rightarrow> time"

record Issuer =
  issuer_certificate :: Certificate
  issuer_privateKey :: PrivateKey
  issuer_encodedCert :: string

definition caCertificateFilename :: string where "caCertificateFilename = ''agent-ca-cert.pem''"
definition caPrivateKeyFilename :: string where "caPrivateKeyFilename = ''agent-ca-key.pem''"
definition clientPrivateFilename :: string where "clientPrivateFilename = ''agent-client-key.pem''"
definition clientCertFilename :: string where "clientCertFilename = ''agent-client-cert.pem''"
definition clientLifetime :: duration where "clientLifetime = 30 * 24 * hour"

definition KeyUsageDigitalSignature :: nat where "KeyUsageDigitalSignature = 1"
definition KeyUsageCertSign :: nat where "KeyUsageCertSign = 32"
definition KeyUsageCRLSign :: nat where "KeyUsageCRLSign = 64"
definition ExtKeyUsageClientAuth :: nat where "ExtKeyUsageClientAuth = 2"

section \<open>Identities\<close>

definition validIdentifier :: "string \<Rightarrow> nat \<Rightarrow> bool" where
  "validIdentifier v limit =
     (TrimSpace v \<noteq> [] \<and> length v \<le> limit
      \<and> \<not> ContainsAny v [byte 0, byte 13, byte 10, CHR ''/'', CHR '' ''])"

definition hasClientAuth :: "Certificate \<Rightarrow> bool" where
  "hasClientAuth certificate = list_ex (\<lambda>usage. usage = ExtKeyUsageClientAuth) (cert_ExtKeyUsage certificate)"

definition MatchesAgent :: "Certificate \<Rightarrow> string \<Rightarrow> bool" where
  "MatchesAgent certificate agentID =
     (if \<not> validIdentifier agentID 128 \<or> cert_CommonName certificate \<noteq> agentID
         \<or> \<not> hasClientAuth certificate
      then False
      else list_ex (\<lambda>identity. identity = ''spiffe://my-safe/agent/'' @ agentID) (cert_URIs certificate))"

text \<open>\<open>url.URL.String()\<close> for a URL with a scheme, a host and an absolute path: the path is escaped byte by
  byte, except the unreserved characters and those that a path may hold.\<close>

definition path_plain :: "char \<Rightarrow> bool" where
  "path_plain c = (let n = (of_char c :: nat) in
     (48 \<le> n \<and> n \<le> 57) \<or> (65 \<le> n \<and> n \<le> 90) \<or> (97 \<le> n \<and> n \<le> 122)
     \<or> c \<in> set ''-_.~$&+,/:;=@'')"

definition upper_hex :: "nat \<Rightarrow> char" where
  "upper_hex n = char_of (if n < 10 then 48 + n else 55 + n)"

definition escapePath :: "string \<Rightarrow> string" where
  "escapePath s = concat (map (\<lambda>c. if path_plain c then [c]
     else [CHR ''%'', upper_hex ((of_char c :: nat) div 16), upper_hex ((of_char c :: nat) mod 16)]) s)"

definition URL_String :: "string \<Rightarrow> string \<Rightarrow> string \<Rightarrow> string" where
  "URL_String scheme host path = scheme @ ''://'' @ host @ escapePath path"

section \<open>Parsing\<close>

definition parseCSR :: "x509_lib \<Rightarrow> string \<Rightarrow> error + CertificateRequest" where
  "parseCSR lib encoded =
     (case pem_Decode lib encoded of
        None \<Rightarrow> Inl ''Agent CSR must contain exactly one PEM certificate request''
      | Some (type, bytes, rest) \<Rightarrow>
          if type \<noteq> ''CERTIFICATE REQUEST'' \<or> TrimSpace rest \<noteq> []
          then Inl ''Agent CSR must contain exactly one PEM certificate request''
          else case x509_ParseCertificateRequest lib bytes of
                 None \<Rightarrow> Inl ''Agent CSR is invalid or has a bad signature''
               | Some request \<Rightarrow>
                   if \<not> x509_CheckSignature lib bytes
                   then Inl ''Agent CSR is invalid or has a bad signature'' else Inr request)"

definition parseCertificatePEM :: "x509_lib \<Rightarrow> string \<Rightarrow> error + Certificate" where
  "parseCertificatePEM lib encoded =
     (case pem_Decode lib encoded of
        None \<Rightarrow> Inl ''certificate file must contain exactly one PEM certificate''
      | Some (type, bytes, rest) \<Rightarrow>
          if type \<noteq> ''CERTIFICATE'' \<or> TrimSpace rest \<noteq> []
          then Inl ''certificate file must contain exactly one PEM certificate''
          else case x509_ParseCertificate lib bytes of
                 None \<Rightarrow> Inl ''parse certificate''
               | Some certificate \<Rightarrow> Inr certificate)"

definition parseEd25519PrivateKey :: "x509_lib \<Rightarrow> string \<Rightarrow> error + PrivateKey" where
  "parseEd25519PrivateKey lib encoded =
     (case pem_Decode lib encoded of
        None \<Rightarrow> Inl ''private key file must contain exactly one PKCS#8 PEM key''
      | Some (type, bytes, rest) \<Rightarrow>
          if type \<noteq> ''PRIVATE KEY'' \<or> TrimSpace rest \<noteq> []
          then Inl ''private key file must contain exactly one PKCS#8 PEM key''
          else case x509_ParsePKCS8PrivateKey lib bytes of
                 None \<Rightarrow> Inl ''parse private key''
               | Some (OtherPrivateKey _) \<Rightarrow> Inl ''private key must be Ed25519''
               | Some (Ed25519PrivateKey key) \<Rightarrow>
                   if length key \<noteq> 64 then Inl ''private key must be Ed25519''
                   else Inr (Ed25519PrivateKey key))"

definition publicKeysEqual :: "x509_lib \<Rightarrow> PublicKey \<Rightarrow> PublicKey \<Rightarrow> bool" where
  "publicKeysEqual lib left right =
     (case (x509_MarshalPKIXPublicKey lib left, x509_MarshalPKIXPublicKey lib right) of
        (Inr leftDER, Inr rightDER) \<Rightarrow> leftDER = rightDER
      | _ \<Rightarrow> False)"

text \<open>\<open>rand.Int\<close> below \<open>2 ^ 128\<close> reads 16 bytes, most significant first.\<close>

definition randomSerial :: "(nat \<Rightarrow> 'e + string) \<Rightarrow> 'e + nat" where
  "randomSerial read =
     (case read 16 of
        Inl e \<Rightarrow> Inl e
      | Inr bytes \<Rightarrow>
          let serial = foldl (\<lambda>v c. v * 256 + of_char c) 0 bytes
          in Inr (if serial = 0 then 1 else serial))"

section \<open>Issuing\<close>

definition agent_template :: "nat \<Rightarrow> string \<Rightarrow> time \<Rightarrow> Certificate" where
  "agent_template serial agentID now =
     \<lparr>cert_SerialNumber = serial, cert_CommonName = agentID,
      cert_NotBefore = now - 5 * minute, cert_NotAfter = now + clientLifetime,
      cert_KeyUsage = KeyUsageDigitalSignature, cert_ExtKeyUsage = [ExtKeyUsageClientAuth],
      cert_URIs = [URL_String ''spiffe'' ''my-safe'' (''/agent/'' @ agentID)],
      cert_IsCA = False, cert_PublicKey = OtherPublicKey []\<rparr>"

definition Issue ::
  "x509_lib \<Rightarrow> Issuer \<Rightarrow> (nat \<Rightarrow> error + string) \<Rightarrow> string \<Rightarrow> string \<Rightarrow> string \<Rightarrow> time \<Rightarrow> error + string" where
  "Issue lib issuer read csrPEM agentID machineID now =
     (if \<not> validIdentifier agentID 128 \<or> \<not> validIdentifier machineID 128
      then Inl ''Agent and machine identifiers are required''
      else case parseCSR lib csrPEM of
        Inl e \<Rightarrow> Inl e
      | Inr csr \<Rightarrow>
          if csr_CommonName csr \<noteq> machineID
          then Inl ''CSR common name does not match machine identity''
          else case csr_PublicKey csr of
            OtherPublicKey _ \<Rightarrow> Inl ''Agent CSR must use an Ed25519 key''
          | Ed25519PublicKey _ \<Rightarrow>
              (case randomSerial read of
                 Inl e \<Rightarrow> Inl e
               | Inr serial \<Rightarrow>
                   (case x509_CreateCertificate lib (agent_template serial agentID now)
                           (issuer_certificate issuer) (csr_PublicKey csr) (issuer_privateKey issuer) of
                      Inl e \<Rightarrow> Inl (''sign Agent certificate: '' @ e)
                    | Inr der \<Rightarrow> Inr (pem_EncodeToMemory lib ''CERTIFICATE'' der))))"

definition CertificatePEM :: "Issuer \<Rightarrow> string" where
  "CertificatePEM issuer = issuer_encodedCert issuer"

section \<open>Files\<close>

definition regularFileExists :: "string \<Rightarrow> (error, bool) io" where
  "regularFileExists path =
     io_try (Lstat path) (\<lambda>r. io_return (case r of Inl _ \<Rightarrow> False | Inr info \<Rightarrow> is_regular info))"

definition readRegular :: "string \<Rightarrow> nat \<Rightarrow> (error, string) io" where
  "readRegular path limit =
     io_bind (io_wrap os_text (Lstat path)) (\<lambda>info.
       if \<not> is_regular info \<or> node_size info \<le> 0 \<or> limit < node_size info
       then io_fail ''file must be a small regular file''
       else io_wrap os_text (ReadFile path))"

definition mtls_ensurePrivateDirectory :: "string \<Rightarrow> (error, unit) io" where
  "mtls_ensurePrivateDirectory path =
     io_then (io_wrap os_text (MkdirAll path 448))
       (io_bind (io_wrap os_text (Lstat path)) (\<lambda>info.
          if \<not> is_dir (Some info) then io_fail ''mTLS state directory must be a real directory''
          else io_wrap os_text (ChmodFile path 448)))"

definition writeNew :: "string \<Rightarrow> string \<Rightarrow> nat \<Rightarrow> (os_error, unit) io" where
  "writeNew path content mode = create_exclusive path content mode"

definition mtls_writeAtomic :: "string \<Rightarrow> string \<Rightarrow> nat \<Rightarrow> (os_error, unit) io" where
  "mtls_writeAtomic path content mode =
     replace_via_temp (DirPath path) ''.mtls-'' ''.tmp'' path content mode"

section \<open>The certificate authority\<close>

definition ca_template :: "x509_lib \<Rightarrow> nat \<Rightarrow> time \<Rightarrow> Certificate" where
  "ca_template lib serial now =
     \<lparr>cert_SerialNumber = serial, cert_CommonName = ''My Safe Agent CA'',
      cert_NotBefore = now - 5 * minute, cert_NotAfter = time_AddDate lib now 10 0 0,
      cert_KeyUsage = KeyUsageDigitalSignature OR KeyUsageCertSign OR KeyUsageCRLSign,
      cert_ExtKeyUsage = [], cert_URIs = [], cert_IsCA = True, cert_PublicKey = OtherPublicKey []\<rparr>"

definition generateCA :: "x509_lib \<Rightarrow> string \<Rightarrow> string \<Rightarrow> time \<Rightarrow> (error, unit) io" where
  "generateCA lib certPath keyPath now =
     io_bind (io_wrap os_text (rand_Read 32)) (\<lambda>seed.
     io_bind (io_wrap os_text (rand_Read 16)) (\<lambda>bytes.
       let privateKey = ed25519_GenerateKey lib seed;
           publicKey = ed25519_Public lib privateKey
       in case randomSerial (\<lambda>_. Inr bytes :: error + string) of
         Inl e \<Rightarrow> io_fail e
       | Inr serial \<Rightarrow>
           (case x509_CreateCertificate lib (ca_template lib serial now) (ca_template lib serial now)
                   publicKey privateKey of
              Inl e \<Rightarrow> io_fail e
            | Inr der \<Rightarrow>
                (case x509_MarshalPKCS8PrivateKey lib privateKey of
                   Inl e \<Rightarrow> io_fail e
                 | Inr privateDER \<Rightarrow>
                     io_then (io_wrap os_text
                       (writeNew keyPath (pem_EncodeToMemory lib ''PRIVATE KEY'' privateDER) 384))
                     (io_wrap os_text
                       (io_cleanup (writeNew certPath (pem_EncodeToMemory lib ''CERTIFICATE'' der) 420)
                          (Remove keyPath)))))))"

definition LoadIssuer :: "x509_lib \<Rightarrow> string \<Rightarrow> string \<Rightarrow> time \<Rightarrow> (error, Issuer) io" where
  "LoadIssuer lib certPath keyPath now =
     io_bind (io_wrap (\<lambda>e. ''read Agent CA certificate: '' @ e) (readRegular certPath 1048576)) (\<lambda>certPEM.
     io_bind (io_wrap (\<lambda>e. ''read Agent CA private key: '' @ e) (readRegular keyPath 1048576)) (\<lambda>keyPEM.
       case parseCertificatePEM lib certPEM of
         Inl e \<Rightarrow> io_fail e
       | Inr certificate \<Rightarrow>
           (case parseEd25519PrivateKey lib keyPEM of
              Inl e \<Rightarrow> io_fail e
            | Inr privateKey \<Rightarrow>
                if \<not> cert_IsCA certificate \<or> cert_KeyUsage certificate AND KeyUsageCertSign = 0
                   \<or> now < cert_NotBefore certificate \<or> \<not> now < cert_NotAfter certificate
                then io_fail ''Agent CA certificate is not a currently valid signing CA''
                else if \<not> publicKeysEqual lib (cert_PublicKey certificate) (ed25519_Public lib privateKey)
                then io_fail ''Agent CA certificate does not match its private key''
                else io_return \<lparr>issuer_certificate = certificate, issuer_privateKey = privateKey,
                                issuer_encodedCert = certPEM\<rparr>)))"

definition LoadOrCreateIssuer :: "x509_lib \<Rightarrow> string \<Rightarrow> time \<Rightarrow> (error, Issuer) io" where
  "LoadOrCreateIssuer lib directory now =
     (if TrimSpace directory = [] then io_fail ''Agent CA directory is required''
      else io_bind (io_wrap os_text (AbsPath directory)) (\<lambda>directory.
        io_then (mtls_ensurePrivateDirectory directory)
          (let certPath = JoinPath [directory, caCertificateFilename];
               keyPath = JoinPath [directory, caPrivateKeyFilename]
           in io_bind (regularFileExists certPath) (\<lambda>certExists.
              io_bind (regularFileExists keyPath) (\<lambda>keyExists.
                if certExists \<noteq> keyExists
                then io_fail ''Agent CA certificate and private key must exist together''
                else if \<not> certExists
                then io_then (generateCA lib certPath keyPath now) (LoadIssuer lib certPath keyPath now)
                else LoadIssuer lib certPath keyPath now)))))"

section \<open>The Agent's certificate\<close>

text \<open>\<open>loadOrCreateClientKey\<close> calls itself when the exclusive creation finds the name taken. The recursion
  is bounded by \<open>depth\<close>; \<^const>\<open>None\<close> says that the code is still recursing at that depth.\<close>

fun loadOrCreateClientKey :: "x509_lib \<Rightarrow> nat \<Rightarrow> string \<Rightarrow> world \<Rightarrow> (error + PrivateKey) option \<times> world" where
  "loadOrCreateClientKey lib 0 path w = (None, w)"
| "loadOrCreateClientKey lib (Suc depth) path w =
     (case regularFileExists path w of
        (Inr True, w) \<Rightarrow>
          (case readRegular path 1048576 w of
             (Inl e, w) \<Rightarrow> (Some (Inl e), w)
           | (Inr encoded, w) \<Rightarrow> (Some (parseEd25519PrivateKey lib encoded), w))
      | (_, w) \<Rightarrow>
          (case rand_Read 32 w of
             (Inl e, w) \<Rightarrow> (Some (Inl (os_text e)), w)
           | (Inr seed, w) \<Rightarrow>
               (case x509_MarshalPKCS8PrivateKey lib (ed25519_GenerateKey lib seed) of
                  Inl e \<Rightarrow> (Some (Inl e), w)
                | Inr der \<Rightarrow>
                    (case writeNew path (pem_EncodeToMemory lib ''PRIVATE KEY'' der) 384 w of
                       (Inl OsExist, w) \<Rightarrow> loadOrCreateClientKey lib depth path w
                     | (Inl e, w) \<Rightarrow> (Some (Inl (os_text e)), w)
                     | (Inr _, w) \<Rightarrow> (Some (Inr (ed25519_GenerateKey lib seed)), w)))))"

text \<open>The depth that \<open>EnsureClientCSR\<close> allows: one recursive call is all that a name taken by a regular file
  needs. Where the recursion would go on, the process dies of stack exhaustion, an error here.\<close>

definition EnsureClientCSR :: "x509_lib \<Rightarrow> string \<Rightarrow> string \<Rightarrow> (error, string) io" where
  "EnsureClientCSR lib stateDir machineID =
     (if \<not> validIdentifier machineID 128 then io_fail ''machine identity is invalid''
      else io_then (mtls_ensurePrivateDirectory stateDir)
        (\<lambda>w. case loadOrCreateClientKey lib 2 (JoinPath [stateDir, clientPrivateFilename]) w of
           (None, w) \<Rightarrow> (Inl ''stack overflow'', w)
         | (Some (Inl e), w) \<Rightarrow> (Inl e, w)
         | (Some (Inr privateKey), w) \<Rightarrow>
             (case x509_CreateCertificateRequest lib machineID privateKey of
                Inl e \<Rightarrow> (Inl (''create Agent CSR: '' @ e), w)
              | Inr der \<Rightarrow> (Inr (pem_EncodeToMemory lib ''CERTIFICATE REQUEST'' der), w))))"

definition SaveClientCertificate ::
  "x509_lib \<Rightarrow> string \<Rightarrow> string \<Rightarrow> string \<Rightarrow> time \<Rightarrow> (error, unit) io" where
  "SaveClientCertificate lib stateDir agentID certificatePEM now =
     (if \<not> validIdentifier agentID 128 then io_fail ''Agent identity is invalid''
      else case parseCertificatePEM lib certificatePEM of
        Inl e \<Rightarrow> io_fail e
      | Inr certificate \<Rightarrow>
          if \<not> MatchesAgent certificate agentID \<or> now < cert_NotBefore certificate
             \<or> \<not> now < cert_NotAfter certificate \<or> \<not> hasClientAuth certificate
          then io_fail ''issued Agent certificate has invalid identity, lifetime, or usage''
          else io_bind (readRegular (JoinPath [stateDir, clientPrivateFilename]) 1048576) (\<lambda>keyPEM.
            case parseEd25519PrivateKey lib keyPEM of
              Inl e \<Rightarrow> io_fail e
            | Inr privateKey \<Rightarrow>
                if \<not> publicKeysEqual lib (cert_PublicKey certificate) (ed25519_Public lib privateKey)
                then io_fail ''issued Agent certificate does not match the local private key''
                else io_wrap os_text
                  (mtls_writeAtomic (JoinPath [stateDir, clientCertFilename]) certificatePEM 384)))"

definition SaveIssuedClientCertificate ::
  "x509_lib \<Rightarrow> string \<Rightarrow> string \<Rightarrow> string \<Rightarrow> string \<Rightarrow> time \<Rightarrow> (error, unit) io" where
  "SaveIssuedClientCertificate lib stateDir agentID certificatePEM caPEM now =
     (case parseCertificatePEM lib certificatePEM of
        Inl e \<Rightarrow> io_fail e
      | Inr certificate \<Rightarrow>
          (case parseCertificatePEM lib caPEM of
             Inl _ \<Rightarrow> io_fail ''issued Agent CA certificate is invalid''
           | Inr caCertificate \<Rightarrow>
               if \<not> cert_IsCA caCertificate then io_fail ''issued Agent CA certificate is invalid''
               else if \<not> x509_Verify lib certificate caCertificate now
               then io_fail ''issued Agent certificate does not verify against the returned Agent CA''
               else SaveClientCertificate lib stateDir agentID certificatePEM now))"

text \<open>\<^const>\<open>None\<close> for \<open>false, nil\<close>: no certificate has been stored.\<close>

definition LoadClientCertificate :: "x509_lib \<Rightarrow> string \<Rightarrow> time \<Rightarrow> (error, Certificate option) io" where
  "LoadClientCertificate lib stateDir now =
     (let certPath = JoinPath [stateDir, clientCertFilename];
          keyPath = JoinPath [stateDir, clientPrivateFilename]
      in io_bind (regularFileExists certPath) (\<lambda>exists.
        if \<not> exists then io_return None
        else io_bind (io_wrap (\<lambda>e. ''load Agent mTLS identity: '' @ os_text e) (ReadFile certPath)) (\<lambda>certPEM.
             io_bind (io_wrap (\<lambda>e. ''load Agent mTLS identity: '' @ os_text e) (ReadFile keyPath)) (\<lambda>keyPEM.
               case tls_X509KeyPair lib certPEM keyPEM of
                 Inl e \<Rightarrow> io_fail (''load Agent mTLS identity: '' @ e)
               | Inr [] \<Rightarrow> io_fail ''Agent mTLS certificate chain is empty''
               | Inr (der # _) \<Rightarrow>
                   (case x509_ParseCertificate lib der of
                      None \<Rightarrow> io_fail ''parse certificate''
                    | Some leaf \<Rightarrow>
                        if now < cert_NotBefore leaf \<or> \<not> now < cert_NotAfter leaf \<or> \<not> hasClientAuth leaf
                        then io_fail ''Agent mTLS certificate is expired or has invalid usage''
                        else io_return (Some leaf))))))"

section \<open>What the library promises\<close>

text \<open>X.509 times have a resolution of one second. A signed certificate, parsed again, has the fields of
  its template and the key it was signed for; a PEM block decodes to what was encoded.\<close>

definition trunc_second :: "time \<Rightarrow> time" where
  "trunc_second t = t div second * second"

definition as_signed :: "Certificate \<Rightarrow> PublicKey \<Rightarrow> Certificate" where
  "as_signed tpl pub = tpl\<lparr>cert_NotBefore := trunc_second (cert_NotBefore tpl),
     cert_NotAfter := trunc_second (cert_NotAfter tpl), cert_PublicKey := pub\<rparr>"

definition x509_ok :: "x509_lib \<Rightarrow> bool" where
  "x509_ok lib \<longleftrightarrow>
     (\<forall>der. pem_Decode lib (pem_EncodeToMemory lib ''CERTIFICATE'' der) = Some (''CERTIFICATE'', der, []))
     \<and> (\<forall>tpl parent pub priv der. x509_CreateCertificate lib tpl parent pub priv = Inr der
          \<longrightarrow> x509_ParseCertificate lib der = Some (as_signed tpl pub))"

lemma trunc_second_le: "trunc_second t \<le> t"
proof -
  have "0 \<le> t mod second" by (simp add: second_def)
  then show ?thesis by (simp add: trunc_second_def minus_mod_eq_div_mult [symmetric])
qed

lemma trunc_second_gt: "t - second < trunc_second t"
proof -
  have "t mod second < second" by (simp add: second_def)
  then show ?thesis by (simp add: trunc_second_def minus_mod_eq_div_mult [symmetric])
qed

section \<open>Identities and certificates\<close>

lemma TrimSpace_Nil [simp]: "TrimSpace [] = []"
  by (simp add: TrimSpace_def)

lemma MatchesAgent_unique: "MatchesAgent c a \<Longrightarrow> MatchesAgent c b \<Longrightarrow> a = b"
  by (auto simp: MatchesAgent_def split: if_splits)

lemma escapePath_append: "escapePath (x @ y) = escapePath x @ escapePath y"
  by (simp add: escapePath_def)

lemma escapePath_plain: "list_all path_plain s \<Longrightarrow> escapePath s = s"
  by (induction s) (auto simp: escapePath_def)

lemma url_safe_plain: "url_safe c \<Longrightarrow> path_plain c"
proof -
  have "list_all path_plain url_alphabet" by code_simp
  then show "url_safe c \<Longrightarrow> path_plain c" by (simp add: url_safe_def list_all_iff)
qed

lemma agent_uri:
  assumes "list_all url_safe agentID"
  shows "URL_String ''spiffe'' ''my-safe'' (''/agent/'' @ agentID) = ''spiffe://my-safe/agent/'' @ agentID"
proof -
  have "list_all path_plain agentID" using assms url_safe_plain by (simp add: list_all_iff)
  moreover have "list_all path_plain ''/agent/''" by code_simp
  ultimately have plain: "list_all path_plain (''/agent/'' @ agentID)"
    by (simp only: list_all_append simp_thms)
  show ?thesis unfolding URL_String_def escapePath_plain [OF plain] by simp
qed

lemma Issue_Inr:
  assumes "Issue lib issuer read csrPEM agentID machineID now = Inr pem"
  shows "\<exists>csr serial der. validIdentifier agentID 128 \<and> validIdentifier machineID 128
      \<and> parseCSR lib csrPEM = Inr csr \<and> csr_CommonName csr = machineID
      \<and> (\<exists>k. csr_PublicKey csr = Ed25519PublicKey k)
      \<and> x509_CreateCertificate lib (agent_template serial agentID now) (issuer_certificate issuer)
          (csr_PublicKey csr) (issuer_privateKey issuer) = Inr der
      \<and> pem = pem_EncodeToMemory lib ''CERTIFICATE'' der"
  using assms by (auto simp: Issue_def split: if_splits sum.splits PublicKey.splits)

text \<open>C19: the certificate that \<open>Issue\<close> returns passes the checks of both sides. It parses, it is bound
  to the key of the request, it is no CA, \<open>MatchesAgent\<close> accepts it for the identifier it was issued
  for, and it is within its lifetime from five minutes before until thirty days after the issuing
  time (less the second that X.509 truncates); the request it answers names the machine.\<close>

theorem issued_certificate_accepted:
  assumes "x509_ok lib" and "list_all url_safe agentID"
    and "Issue lib issuer read csrPEM agentID machineID now = Inr pem"
    and "now - 5 * minute \<le> t" and "t < now + clientLifetime - second"
  shows "\<exists>csr cert. parseCSR lib csrPEM = Inr csr \<and> csr_CommonName csr = machineID
           \<and> parseCertificatePEM lib pem = Inr cert \<and> MatchesAgent cert agentID
           \<and> cert_PublicKey cert = csr_PublicKey csr \<and> \<not> cert_IsCA cert
           \<and> cert_NotBefore cert \<le> t \<and> t < cert_NotAfter cert"
proof -
  from Issue_Inr [OF assms(3)] obtain csr serial der where
    i: "validIdentifier agentID 128" "parseCSR lib csrPEM = Inr csr" "csr_CommonName csr = machineID"
      "x509_CreateCertificate lib (agent_template serial agentID now) (issuer_certificate issuer)
         (csr_PublicKey csr) (issuer_privateKey issuer) = Inr der"
      "pem = pem_EncodeToMemory lib ''CERTIFICATE'' der" by blast
  let ?c = "as_signed (agent_template serial agentID now) (csr_PublicKey csr)"
  have "parseCertificatePEM lib pem = Inr ?c"
    using assms(1) i(4,5) by (simp add: x509_ok_def parseCertificatePEM_def)
  moreover have "MatchesAgent ?c agentID"
    using i(1) agent_uri [OF assms(2)]
    by (simp add: MatchesAgent_def as_signed_def agent_template_def hasClientAuth_def)
  moreover have "cert_NotBefore ?c \<le> t" "t < cert_NotAfter ?c"
    using trunc_second_le [of "now - 5 * minute"] trunc_second_gt [of "now + clientLifetime"] assms(4,5)
    by (simp_all add: as_signed_def agent_template_def)
  ultimately show ?thesis
    using i(2,3) by (intro exI [of _ csr] exI [of _ ?c]) (simp add: as_signed_def agent_template_def)
qed

section \<open>Storing a certificate\<close>

lemma clientCert_not_temp: "\<not> temp_name dir ''.mtls-'' ''.tmp'' (JoinPath [d, clientCertFilename])"
  by (rule not_temp_name) (simp_all add: name_elem_def clientCertFilename_def)

lemma touches_readRegular [intro]: "touches T (readRegular p n)"
  unfolding readRegular_def by (intro touches_bind touches_wrap touches_calls) (simp add: touches_fail touches_wrap touches_calls)

lemma readRegular_Inr:
  assumes "readRegular p n w = (Inr s, w')"
  shows "\<exists>m. node_at w p = Some (NFile m s)"
proof -
  from assms obtain info v where "Lstat p w = (Inr info, v)" "is_regular info" "ReadFile p v = (Inr s, w')"
    by (auto simp: readRegular_def io_outcomes split: if_splits)
  moreover from this obtain m c where "node_at v p = Some (NFile m c)"
    using Lstat_Inr [of p w info v] by (cases info) auto
  ultimately show ?thesis
    using Lstat_Inr [of p w info v] ReadFile_Inr [of p v s w'] by (auto simp: follow_file)
qed

text \<open>A certificate is stored only after every check, and atomically. Whatever system call fails and
  wherever the process ends, an error leaves the certificate file as it was; success means that
  the file holds exactly the given bytes, that they are a certificate of this Agent, valid now, and
  that its public key is that of the stored private key.\<close>

theorem SaveClientCertificate_effect:
  "case SaveClientCertificate lib stateDir agentID pem now w of
     (Inl _, w') \<Rightarrow>
       node_at w' (JoinPath [stateDir, clientCertFilename])
         = node_at w (JoinPath [stateDir, clientCertFilename])
   | (Inr _, w') \<Rightarrow>
       node_at w' (JoinPath [stateDir, clientCertFilename]) = Some (NFile 384 pem)
       \<and> (\<exists>cert key keyPEM mode. parseCertificatePEM lib pem = Inr cert \<and> MatchesAgent cert agentID
            \<and> cert_NotBefore cert \<le> now \<and> now < cert_NotAfter cert
            \<and> node_at w (JoinPath [stateDir, clientPrivateFilename]) = Some (NFile mode keyPEM)
            \<and> parseEd25519PrivateKey lib keyPEM = Inr key
            \<and> publicKeysEqual lib (cert_PublicKey cert) (ed25519_Public lib key))"
proof (cases "SaveClientCertificate lib stateDir agentID pem now w")
  case (Pair r w')
  let ?path = "JoinPath [stateDir, clientCertFilename]"
  show ?thesis
  proof (cases r)
    case (Inl e)
    then have fail: "SaveClientCertificate lib stateDir agentID pem now w = (Inl e, w')"
      using Pair by simp
    consider "w' = w" | v where "w_files v = w_files w"
        "\<exists>d. mtls_writeAtomic ?path pem 384 v = (Inl d, w')" | "w_files w' = w_files w"
      using fail
      by (auto simp: SaveClientCertificate_def io_outcomes readRegular_def dest!: reads_files)
    then have "node_at w' ?path = node_at w ?path"
    proof cases
      case 2
      then show ?thesis
        using replace_via_temp_Inl [OF _ clientCert_not_temp] unfolding mtls_writeAtomic_def by metis
    qed simp_all
    then show ?thesis using Pair Inl by simp
  next
    case (Inr u)
    then obtain cert keyPEM key v where s:
        "parseCertificatePEM lib pem = Inr cert" "MatchesAgent cert agentID"
        "cert_NotBefore cert \<le> now" "now < cert_NotAfter cert"
        "readRegular (JoinPath [stateDir, clientPrivateFilename]) 1048576 w = (Inr keyPEM, v)"
        "parseEd25519PrivateKey lib keyPEM = Inr key"
        "publicKeysEqual lib (cert_PublicKey cert) (ed25519_Public lib key)"
        "mtls_writeAtomic ?path pem 384 v = (Inr u, w')"
      using Pair by (auto simp: SaveClientCertificate_def io_outcomes)
    have "node_at w' ?path = Some (NFile 384 pem)"
      using s(8) unfolding mtls_writeAtomic_def by (rule replace_via_temp_Inr)
    then show ?thesis using Pair Inr s readRegular_Inr [OF s(5)] by auto
  qed
qed

section \<open>The Agent's key\<close>

lemma regularFileExists_no_fault:
  "w_faults w = [] \<Longrightarrow>
     regularFileExists p w = (Inr (case node_at w p of None \<Rightarrow> False | Some x \<Rightarrow> is_regular x), w)"
  by (simp add: regularFileExists_def io_try_def Lstat_def sys_no_fault io_return_def split: option.splits)

lemma writeNew_taken:
  "w_faults w = [] \<Longrightarrow> node_at w p \<noteq> None \<Longrightarrow> writeNew p c m w = (Inl OsExist, w)"
  by (auto simp: writeNew_def create_exclusive_def io_bind_def OpenExcl_def sys_no_fault)

text \<open>Opening the Agent's key ends whenever nothing but a regular file bears its name: one unfolding
  of the recursion decides the result, whether the key is read, created or refused.\<close>

theorem loadOrCreateClientKey_returns:
  assumes "w_faults w = []" and "\<And>x. node_at w path = Some x \<Longrightarrow> is_regular x"
  shows "\<exists>r. fst (loadOrCreateClientKey lib (Suc depth) path w) = Some r"
proof (cases "node_at w path")
  case None
  obtain s v where v: "rand_Read 32 w = (Inr s, v)" "w_files v = w_files w"
    using rand_Read_no_fault [OF assms(1)] by blast
  have "fst (writeNew path c m v) \<noteq> Inl OsExist" for c m
  proof
    assume "fst (writeNew path c m v) = Inl OsExist"
    then have "node_at v path \<noteq> None"
      unfolding writeNew_def by (metis create_exclusive_taken prod.collapse)
    then show False using None v(2) by simp
  qed
  then show ?thesis
    using assms(1) None v(1)
    by (simp add: regularFileExists_no_fault split: prod.splits sum.splits os_error.splits)
      (metis fst_conv)
next
  case (Some x)
  then show ?thesis
    using assms by (simp add: regularFileExists_no_fault split: prod.splits sum.splits)
qed

text \<open>a symbolic link, a directory or a device in the place of the key makes the function call itself
  without end: the exclusive creation reports that the name is taken and the next call does not see a
  regular file there. No recursion depth is enough.\<close>

theorem loadOrCreateClientKey_diverges:
  assumes "w_faults w = []" and "node_at w path = Some x" and "\<not> is_regular x"
    and "\<And>seed. \<exists>der. x509_MarshalPKCS8PrivateKey lib (ed25519_GenerateKey lib seed) = Inr der"
  shows "fst (loadOrCreateClientKey lib depth path w) = None"
  using assms(1,2)
proof (induction depth arbitrary: w)
  case (Suc depth)
  obtain s v where v: "rand_Read 32 w = (Inr s, v)" "w_files v = w_files w" "w_faults v = []"
    using rand_Read_no_fault [OF Suc.prems(1)] by blast
  obtain der where der: "x509_MarshalPKCS8PrivateKey lib (ed25519_GenerateKey lib s) = Inr der"
    using assms(4) by blast
  have "writeNew path c m v = (Inl OsExist, v)" for c m
    using v Suc.prems(2) by (intro writeNew_taken) simp_all
  moreover have "fst (loadOrCreateClientKey lib depth path v) = None"
    using v Suc.prems(2) by (intro Suc.IH) simp_all
  ultimately show ?case
    using Suc.prems assms(3) v(1) der by (simp add: regularFileExists_no_fault)
qed simp

section \<open>Instances\<close>

text \<open>A library instance with one request and one signable certificate.\<close>

definition sample_lib :: x509_lib where
  "sample_lib =
     \<lparr>pem_Decode = (\<lambda>s. case s of [] \<Rightarrow> None
        | c # d \<Rightarrow> if c = CHR ''C'' then Some (''CERTIFICATE'', d, [])
                   else if c = CHR ''R'' then Some (''CERTIFICATE REQUEST'', d, []) else None),
      pem_EncodeToMemory = (\<lambda>type d. (if type = ''CERTIFICATE'' then CHR ''C'' else CHR ''R'') # d),
      x509_ParseCertificate = (\<lambda>d. if d = ''D''
        then Some (as_signed (agent_template 1 ''agt_A'' 0) (Ed25519PublicKey ''k'')) else None),
      x509_ParseCertificateRequest = (\<lambda>_. Some \<lparr>csr_CommonName = ''mch_A'',
        csr_PublicKey = Ed25519PublicKey ''k''\<rparr>),
      x509_CheckSignature = (\<lambda>_. True),
      x509_CreateCertificate = (\<lambda>tpl parent pub priv.
        if tpl = agent_template 1 ''agt_A'' 0 \<and> pub = Ed25519PublicKey ''k'' then Inr ''D''
        else Inl ''unsupported''),
      x509_CreateCertificateRequest = (\<lambda>_ _. Inr []),
      x509_ParsePKCS8PrivateKey = (\<lambda>d. Some (Ed25519PrivateKey d)),
      x509_MarshalPKCS8PrivateKey = (\<lambda>k. case k of Ed25519PrivateKey d \<Rightarrow> Inr d | OtherPrivateKey d \<Rightarrow> Inr d),
      x509_MarshalPKIXPublicKey = (\<lambda>k. case k of Ed25519PublicKey d \<Rightarrow> Inr d | OtherPublicKey d \<Rightarrow> Inr d),
      x509_Verify = (\<lambda>_ _ _. True),
      ed25519_GenerateKey = Ed25519PrivateKey,
      ed25519_Public = (\<lambda>k. case k of Ed25519PrivateKey d \<Rightarrow> Ed25519PublicKey d
        | OtherPrivateKey d \<Rightarrow> OtherPublicKey d),
      tls_X509KeyPair = (\<lambda>c k. Inr [tl c]),
      time_AddDate = (\<lambda>t y m d. t + y * 365 * 24 * hour)\<rparr>"

definition sample_issuer :: Issuer where
  "sample_issuer = \<lparr>issuer_certificate = ca_template sample_lib 1 0,
     issuer_privateKey = Ed25519PrivateKey ''c'', issuer_encodedCert = ''Cca''\<rparr>"

lemma sample_lib_ok: "x509_ok sample_lib"
  by (auto simp: x509_ok_def sample_lib_def split: if_splits)

lemma sample_issue:
  "Issue sample_lib sample_issuer (\<lambda>_. Inr [byte 1]) ''R'' ''agt_A'' ''mch_A'' 0 = Inr ''CD''"
  by code_simp

theorem issued_certificate_accepted_witness:
  "\<exists>csr cert. parseCSR sample_lib ''R'' = Inr csr \<and> csr_CommonName csr = ''mch_A''
     \<and> parseCertificatePEM sample_lib ''CD'' = Inr cert \<and> MatchesAgent cert ''agt_A''
     \<and> cert_PublicKey cert = csr_PublicKey csr \<and> \<not> cert_IsCA cert
     \<and> cert_NotBefore cert \<le> 0 \<and> 0 < cert_NotAfter cert"
  by (rule issued_certificate_accepted [OF sample_lib_ok _ sample_issue])
    (code_simp, simp_all add: minute_def second_def clientLifetime_def hour_def)

definition sample_world :: "node option \<Rightarrow> world" where
  "sample_world x = \<lparr>w_files = (case x of None \<Rightarrow> [] | Some x \<Rightarrow> [(''/k'', x)]) @ [(''/'', NDir 493)],
     w_faults = [], w_rand = [], w_cwd = ''/''\<rparr>"

theorem loadOrCreateClientKey_returns_witness:
  "\<exists>r. fst (loadOrCreateClientKey sample_lib (Suc 0) ''/k'' (sample_world None)) = Some r"
  by (rule loadOrCreateClientKey_returns) (simp_all add: sample_world_def)

theorem loadOrCreateClientKey_diverges_witness:
  "fst (loadOrCreateClientKey sample_lib 7 ''/k'' (sample_world (Some (NLink ''/missing'')))) = None"
  by (rule loadOrCreateClientKey_diverges [where x = "NLink ''/missing''"])
    (simp_all add: sample_world_def sample_lib_def)

end
