(* ===== verification/Store_Spec.thy ===== *)
theory Store_Spec
  imports Domain
begin

text \<open>
  The contract of internal/store/store.go: what the control plane relies on when it calls a
  \<open>Store\<close>, whichever implementation is behind it. \<open>repo\<close> is the abstract state (one map per table),
  the \<open>repo_\<close> functions are the abstract operations, and the locale \<open>store_impl\<close> says that an
  implementation simulates them. The lemmas of the locale are what a client gets from the contract
  alone: delivery of events is idempotent, policies change only through a revision check, each
  change with its audit entry, and a failed operation changes nothing.
\<close>

datatype store_error = ErrNotFound | ErrConflict | ErrOther error

text \<open>The interface itself: one function per method, over the state of the implementation. A method that
  changes the state returns the new one with its result; \<^const>\<open>Inl\<close> leaves the state as it was.\<close>

record 's Store =
  st_CreateAgent :: "'s \<Rightarrow> Agent \<Rightarrow> store_error + 's"
  st_AgentByID :: "'s \<Rightarrow> string \<Rightarrow> store_error + Agent"
  st_AgentByMachineID :: "'s \<Rightarrow> string \<Rightarrow> store_error + Agent"
  st_UpdateHeartbeat :: "'s \<Rightarrow> string \<Rightarrow> Heartbeat \<Rightarrow> store_error + 's"
  st_ListAgents :: "'s \<Rightarrow> int \<Rightarrow> store_error + Agent list"
  st_SaveEvents :: "'s \<Rightarrow> Event list \<Rightarrow> store_error + nat \<times> 's"
  st_ListAlerts :: "'s \<Rightarrow> AlertFilter \<Rightarrow> store_error + Event list"
  st_PolicyForAgent :: "'s \<Rightarrow> string \<Rightarrow> store_error + Policy"
  st_SavePolicyAndAudit :: "'s \<Rightarrow> Policy \<Rightarrow> int \<Rightarrow> AuditLog \<Rightarrow> store_error + 's"
  st_ListAuditLogs :: "'s \<Rightarrow> int \<Rightarrow> store_error + AuditLog list"

record repo =
  repo_agents :: "string \<rightharpoonup> Agent"
  repo_events :: "string \<rightharpoonup> Event"
  repo_policies :: "string \<rightharpoonup> Policy"
  repo_audits :: "string \<rightharpoonup> AuditLog"

definition repo_inv :: "repo \<Rightarrow> bool" where
  "repo_inv r \<longleftrightarrow>
     (\<forall>k a. repo_agents r k = Some a \<longrightarrow> agent_ID a = k)
     \<and> (\<forall>k l a b. repo_agents r k = Some a \<longrightarrow> repo_agents r l = Some b
          \<longrightarrow> agent_MachineID a = agent_MachineID b \<longrightarrow> k = l)
     \<and> (\<forall>k e. repo_events r k = Some e \<longrightarrow> event_ID e = k)
     \<and> (\<forall>k p. repo_policies r k = Some p \<longrightarrow> policy_AgentID p = k)
     \<and> (\<forall>k a. repo_audits r k = Some a \<longrightarrow> audit_ID a = k)"

lemma repo_invI:
  assumes "\<And>k a. repo_agents r k = Some a \<Longrightarrow> agent_ID a = k"
    and "\<And>k l a b. repo_agents r k = Some a \<Longrightarrow> repo_agents r l = Some b \<Longrightarrow>
           agent_MachineID a = agent_MachineID b \<Longrightarrow> k = l"
    and "\<And>k e. repo_events r k = Some e \<Longrightarrow> event_ID e = k"
    and "\<And>k p. repo_policies r k = Some p \<Longrightarrow> policy_AgentID p = k"
    and "\<And>k a. repo_audits r k = Some a \<Longrightarrow> audit_ID a = k"
  shows "repo_inv r"
  using assms unfolding repo_inv_def by blast

lemma repo_invD:
  assumes "repo_inv r"
  shows "repo_agents r k = Some a \<Longrightarrow> agent_ID a = k"
    and "repo_agents r k = Some a \<Longrightarrow> repo_agents r l = Some b \<Longrightarrow>
           agent_MachineID a = agent_MachineID b \<Longrightarrow> k = l"
    and "repo_events r k = Some e \<Longrightarrow> event_ID e = k"
    and "repo_policies r k = Some p \<Longrightarrow> policy_AgentID p = k"
    and "repo_audits r k = Some au \<Longrightarrow> audit_ID au = k"
  using assms unfolding repo_inv_def by blast+

section \<open>Abstract operations\<close>

definition repo_create_agent :: "repo \<Rightarrow> Agent \<Rightarrow> store_error + repo" where
  "repo_create_agent r a =
     (if agent_ID a \<in> dom (repo_agents r)
         \<or> (\<exists>b \<in> ran (repo_agents r). agent_MachineID b = agent_MachineID a)
      then Inl ErrConflict
      else Inr (r\<lparr>repo_agents := (repo_agents r)(agent_ID a \<mapsto> a)\<rparr>))"

definition repo_heartbeat :: "repo \<Rightarrow> string \<Rightarrow> Heartbeat \<Rightarrow> store_error + repo" where
  "repo_heartbeat r aid hb =
     (case repo_agents r aid of
        None \<Rightarrow> Inl ErrNotFound
      | Some a \<Rightarrow>
          Inr (r\<lparr>repo_agents := (repo_agents r)(aid \<mapsto>
            a\<lparr>agent_LastSeenAt := hb_SentAt hb,
              agent_Version := (if hb_AgentVersion hb \<noteq> [] then hb_AgentVersion hb
                                else agent_Version a)\<rparr>)\<rparr>))"

fun add_events :: "(string \<rightharpoonup> Event) \<Rightarrow> Event list \<Rightarrow> nat \<times> (string \<rightharpoonup> Event)" where
  "add_events m [] = (0, m)"
| "add_events m (e # es) =
     (if event_ID e \<in> dom m then add_events m es
      else map_prod Suc id (add_events (m(event_ID e \<mapsto> e)) es))"

definition repo_save_events :: "repo \<Rightarrow> Event list \<Rightarrow> nat \<times> repo" where
  "repo_save_events r es =
     map_prod id (\<lambda>m. r\<lparr>repo_events := m\<rparr>) (add_events (repo_events r) es)"

definition repo_save_policy ::
  "repo \<Rightarrow> Policy \<Rightarrow> int \<Rightarrow> AuditLog \<Rightarrow> store_error + repo" where
  "repo_save_policy r p expected audit =
     (let current = repo_policies r (policy_AgentID p) in
      if (current = None \<and> expected \<noteq> 0)
         \<or> (current \<noteq> None \<and> policy_Revision (the current) \<noteq> expected)
         \<or> policy_Revision p \<noteq> wrap64 (expected + 1)
         \<or> audit_ID audit \<in> dom (repo_audits r)
      then Inl ErrConflict
      else Inr (r\<lparr>repo_policies := (repo_policies r)(policy_AgentID p \<mapsto> p),
                  repo_audits := (repo_audits r)(audit_ID audit \<mapsto> audit)\<rparr>))"

text \<open>A bounded listing: the newest \<open>n\<close> entries of a table, newest first.\<close>

definition newest_first :: "('a \<Rightarrow> time) \<Rightarrow> nat \<Rightarrow> 'a set \<Rightarrow> 'a list \<Rightarrow> bool" where
  "newest_first at n A xs \<longleftrightarrow>
     distinct xs \<and> set xs \<subseteq> A \<and> length xs = min n (card A)
     \<and> sorted_wrt (\<lambda>x y. at y \<le> at x) xs
     \<and> (\<forall>a \<in> A - set xs. \<forall>x \<in> set xs. at a \<le> at x)"

definition normalizeLimit :: "int \<Rightarrow> nat" where
  "normalizeLimit limit = (if limit \<le> 0 then 100 else if 500 < limit then 500 else nat limit)"

lemma normalizeLimit_bounds: "1 \<le> normalizeLimit limit \<and> normalizeLimit limit \<le> 500"
  by (auto simp: normalizeLimit_def)

section \<open>The abstract event table\<close>

lemma add_events_dom: "dom (snd (add_events m es)) = dom m \<union> event_ID ` set es"
  by (induction es arbitrary: m) (auto simp: insert_absorb)

lemma add_events_keeps: "m k = Some e \<Longrightarrow> snd (add_events m es) k = Some e"
proof (induction es arbitrary: m)
  case (Cons x es)
  have "event_ID x \<notin> dom m \<Longrightarrow> (m(event_ID x \<mapsto> x)) k = Some e" using Cons.prems by auto
  then show ?case using Cons.IH Cons.prems by (simp del: fun_upd_apply)
qed simp

lemma add_events_new: "snd (add_events m es) k = Some e \<Longrightarrow> m k = Some e \<or> (m k = None \<and> e \<in> set es)"
proof (induction es arbitrary: m)
  case (Cons x es)
  show ?case
  proof (cases "event_ID x \<in> dom m")
    case True
    then show ?thesis using Cons by auto
  next
    case False
    then have "snd (add_events (m(event_ID x \<mapsto> x)) es) k = Some e" using Cons.prems by simp
    from Cons.IH [OF this] show ?thesis using False by (auto split: if_splits)
  qed
qed simp

lemma add_events_seen: "event_ID ` set es \<subseteq> dom m \<Longrightarrow> add_events m es = (0, m)"
  by (induction es) auto

lemma add_events_append:
  "add_events m (es @ fs) =
     (fst (add_events m es) + fst (add_events (snd (add_events m es)) fs),
      snd (add_events (snd (add_events m es)) fs))"
  by (induction es arbitrary: m) (auto simp: map_prod_def split_beta)

lemma add_events_count:
  "finite (dom m) \<Longrightarrow> fst (add_events m es) = card (event_ID ` set es - dom m)"
proof (induction es arbitrary: m)
  case (Cons e es)
  show ?case
  proof (cases "event_ID e \<in> dom m")
    case True
    then have "event_ID ` set (e # es) - dom m = event_ID ` set es - dom m" by auto
    then show ?thesis using Cons True by simp
  next
    case False
    let ?m = "m(event_ID e \<mapsto> e)"
    have "fst (add_events ?m es) = card (event_ID ` set es - dom ?m)"
      by (rule Cons.IH) (simp add: Cons.prems del: fun_upd_apply)
    moreover have "event_ID ` set (e # es) - dom m = insert (event_ID e) (event_ID ` set es - dom ?m)"
      using False by auto
    moreover have "event_ID e \<notin> event_ID ` set es - dom ?m" by auto
    ultimately show ?thesis using False by (simp del: dom_fun_upd)
  qed
qed simp

lemma add_events_inv:
  "(\<And>k e. m k = Some e \<Longrightarrow> event_ID e = k) \<Longrightarrow> snd (add_events m es) k = Some e \<Longrightarrow> event_ID e = k"
proof (induction es arbitrary: m)
  case (Cons x es)
  show ?case
  proof (cases "event_ID x \<in> dom m")
    case True
    then show ?thesis using Cons by auto
  next
    case False
    show ?thesis
    proof (rule Cons.IH [of "m(event_ID x \<mapsto> x)"])
      show "event_ID e' = k'" if "(m(event_ID x \<mapsto> x)) k' = Some e'" for k' e'
        using that Cons.prems(1) by (auto split: if_splits)
      show "snd (add_events (m(event_ID x \<mapsto> x)) es) k = Some e"
        using False Cons.prems(2) by simp
    qed
  qed
qed simp

section \<open>Every abstract operation keeps the invariant\<close>

lemma repo_inv_update_agent:
  assumes inv: "repo_inv r" and "agent_ID b = k"
    and other: "\<And>l c. repo_agents r l = Some c \<Longrightarrow> agent_MachineID c = agent_MachineID b \<Longrightarrow> l = k"
  shows "repo_inv (r\<lparr>repo_agents := (repo_agents r)(k \<mapsto> b)\<rparr>)"
proof (rule repo_invI)
  fix l c
  assume "repo_agents (r\<lparr>repo_agents := (repo_agents r)(k \<mapsto> b)\<rparr>) l = Some c"
  then show "agent_ID c = l"
    using assms(2) repo_invD(1) [OF inv, of l c] by (auto split: if_splits)
next
  fix l l' c d
  assume c: "repo_agents (r\<lparr>repo_agents := (repo_agents r)(k \<mapsto> b)\<rparr>) l = Some c"
    and d: "repo_agents (r\<lparr>repo_agents := (repo_agents r)(k \<mapsto> b)\<rparr>) l' = Some d"
    and m: "agent_MachineID c = agent_MachineID d"
  have cs: "l = k \<and> c = b \<or> l \<noteq> k \<and> repo_agents r l = Some c" using c by (simp split: if_splits)
  have ds: "l' = k \<and> d = b \<or> l' \<noteq> k \<and> repo_agents r l' = Some d" using d by (simp split: if_splits)
  from cs ds m show "l = l'" using other repo_invD(2) [OF inv] by metis
next
  fix l e
  assume "repo_events (r\<lparr>repo_agents := (repo_agents r)(k \<mapsto> b)\<rparr>) l = Some e"
  then show "event_ID e = l" using repo_invD(3) [OF inv, of l e] by simp
next
  fix l p
  assume "repo_policies (r\<lparr>repo_agents := (repo_agents r)(k \<mapsto> b)\<rparr>) l = Some p"
  then show "policy_AgentID p = l" using repo_invD(4) [OF inv, of l p] by simp
next
  fix l au
  assume "repo_audits (r\<lparr>repo_agents := (repo_agents r)(k \<mapsto> b)\<rparr>) l = Some au"
  then show "audit_ID au = l" using repo_invD(5) [OF inv, of l au] by simp
qed

lemma repo_inv_create [inv_intros]:
  assumes "repo_inv r" and "repo_create_agent r a = Inr r'"
  shows "repo_inv r'"
proof -
  have r': "r' = r\<lparr>repo_agents := (repo_agents r)(agent_ID a \<mapsto> a)\<rparr>"
    and fresh: "\<And>k b. repo_agents r k = Some b \<Longrightarrow> agent_MachineID b \<noteq> agent_MachineID a"
    using assms(2) by (auto simp: repo_create_agent_def ran_def split: if_splits)
  show ?thesis unfolding r'
    by (rule repo_inv_update_agent) (use assms(1) fresh in auto)
qed

lemma repo_inv_heartbeat [inv_intros]:
  assumes "repo_inv r" and "repo_heartbeat r aid hb = Inr r'"
  shows "repo_inv r'"
proof -
  obtain a where a: "repo_agents r aid = Some a"
    using assms(2) by (auto simp: repo_heartbeat_def split: option.splits)
  obtain b where b: "r' = r\<lparr>repo_agents := (repo_agents r)(aid \<mapsto> b)\<rparr>"
      "agent_ID b = agent_ID a" "agent_MachineID b = agent_MachineID a"
    using assms(2) a by (auto simp: repo_heartbeat_def)
  show ?thesis unfolding b(1)
  proof (rule repo_inv_update_agent [OF assms(1)])
    show "agent_ID b = aid" using b(2) repo_invD(1) [OF assms(1) a] by simp
    show "l = aid" if "repo_agents r l = Some c" "agent_MachineID c = agent_MachineID b" for l c
      using repo_invD(2) [OF assms(1) that(1) a] that(2) b(3) by simp
  qed
qed

lemma repo_inv_save_events [inv_intros]:
  assumes "repo_inv r"
  shows "repo_inv (snd (repo_save_events r es))"
proof (rule repo_invI)
  fix k e
  assume "repo_events (snd (repo_save_events r es)) k = Some e"
  then show "event_ID e = k"
    using add_events_inv [of "repo_events r" es k e] repo_invD(3) [OF assms]
    by (simp add: repo_save_events_def)
qed (use repo_invD [OF assms] in \<open>simp_all add: repo_save_events_def\<close>)

lemma repo_inv_save_policy [inv_intros]:
  assumes "repo_inv r" and "repo_save_policy r p n a = Inr r'"
  shows "repo_inv r'"
proof -
  have r': "r' = r\<lparr>repo_policies := (repo_policies r)(policy_AgentID p \<mapsto> p),
                  repo_audits := (repo_audits r)(audit_ID a \<mapsto> a)\<rparr>"
    using assms(2) by (auto simp: repo_save_policy_def Let_def split: if_splits)
  show ?thesis
    by (rule repo_invI) (use repo_invD [OF assms(1)] in \<open>auto simp: r' split: if_splits\<close>)
qed

lemma repo_save_events_iff:
  "repo_save_events r es = (n, r') \<longleftrightarrow>
     n = fst (add_events (repo_events r) es)
     \<and> r' = r\<lparr>repo_events := snd (add_events (repo_events r) es)\<rparr>"
  by (auto simp: repo_save_events_def map_prod_def split_beta)

lemma repo_create_agent_lookup:
  "repo_create_agent r a = Inr r' \<Longrightarrow> repo_agents r' (agent_ID a) = Some a"
  unfolding repo_create_agent_def by (simp split: if_splits) (drule sym, simp)

section \<open>The contract\<close>

text \<open>An operation may fail for reasons of its own (\<^const>\<open>ErrOther\<close>: the database is down); otherwise it
  returns what the abstract operation returns.\<close>

definition sim :: "('a \<Rightarrow> 'b) \<Rightarrow> store_error + 'a \<Rightarrow> store_error + 'b \<Rightarrow> bool" where
  "sim f x y \<longleftrightarrow> (\<exists>e. x = Inl (ErrOther e)) \<or> map_sum id f x = y"

lemma sim_Inr: "sim f (Inr x) y \<longleftrightarrow> y = Inr (f x)"
  by (auto simp: sim_def)

lemma sim_conflict: "sim f x (Inl err) \<Longrightarrow> x = Inl err \<or> (\<exists>e. x = Inl (ErrOther e))"
  by (cases x) (auto simp: sim_def)

locale store_impl =
  fixes ops :: "'s Store"
    and invar :: "'s \<Rightarrow> bool"
    and abs :: "'s \<Rightarrow> repo"
  assumes abs_inv: "invar s \<Longrightarrow> repo_inv (abs s)"
    and abs_finite: "invar s \<Longrightarrow> finite (dom (repo_events (abs s)))"
    and create_sim: "invar s \<Longrightarrow> sim abs (st_CreateAgent ops s a) (repo_create_agent (abs s) a)"
    and create_invar: "invar s \<Longrightarrow> st_CreateAgent ops s a = Inr s' \<Longrightarrow> invar s'"
    and by_id_sim: "invar s \<Longrightarrow> sim id (st_AgentByID ops s aid)
      (case repo_agents (abs s) aid of None \<Rightarrow> Inl ErrNotFound | Some a \<Rightarrow> Inr a)"
    and by_machine_found: "invar s \<Longrightarrow> st_AgentByMachineID ops s mid = Inr a \<Longrightarrow>
      a \<in> ran (repo_agents (abs s)) \<and> agent_MachineID a = mid"
    and by_machine_missing: "invar s \<Longrightarrow> st_AgentByMachineID ops s mid = Inl ErrNotFound \<Longrightarrow>
      a \<in> ran (repo_agents (abs s)) \<Longrightarrow> agent_MachineID a \<noteq> mid"
    and by_machine_error: "invar s \<Longrightarrow> st_AgentByMachineID ops s mid \<noteq> Inl ErrConflict"
    and heartbeat_sim: "invar s \<Longrightarrow>
      sim abs (st_UpdateHeartbeat ops s aid hb) (repo_heartbeat (abs s) aid hb)"
    and heartbeat_invar: "invar s \<Longrightarrow> st_UpdateHeartbeat ops s aid hb = Inr s' \<Longrightarrow> invar s'"
    and list_agents_spec: "invar s \<Longrightarrow> st_ListAgents ops s limit = Inr agents \<Longrightarrow>
      newest_first agent_RegisteredAt (normalizeLimit limit)
        ((\<lambda>a. a\<lparr>agent_CredentialHash := []\<rparr>) ` ran (repo_agents (abs s))) agents"
    and save_events_sim: "invar s \<Longrightarrow>
      sim (map_prod id abs) (st_SaveEvents ops s es) (Inr (repo_save_events (abs s) es))"
    and save_events_invar: "invar s \<Longrightarrow> st_SaveEvents ops s es = Inr (n, s') \<Longrightarrow> invar s'"
    and list_alerts_spec: "invar s \<Longrightarrow> st_ListAlerts ops s f = Inr alerts \<Longrightarrow>
      newest_first event_ReceivedAt (normalizeLimit (filter_Limit f))
        {e \<in> ran (repo_events (abs s)). filter_Severity f = [] \<or> event_Severity e = filter_Severity f}
        alerts"
    and policy_sim: "invar s \<Longrightarrow> sim id (st_PolicyForAgent ops s aid)
      (case repo_policies (abs s) aid of None \<Rightarrow> Inl ErrNotFound | Some p \<Rightarrow> Inr p)"
    and save_policy_sim: "invar s \<Longrightarrow>
      sim abs (st_SavePolicyAndAudit ops s p expected au) (repo_save_policy (abs s) p expected au)"
    and save_policy_invar: "invar s \<Longrightarrow> st_SavePolicyAndAudit ops s p expected au = Inr s' \<Longrightarrow> invar s'"
    and list_audits_spec: "invar s \<Longrightarrow> st_ListAuditLogs ops s limit = Inr logs \<Longrightarrow>
      newest_first audit_OccurredAt (normalizeLimit limit) (ran (repo_audits (abs s))) logs"
begin

lemma create_ok:
  "invar s \<Longrightarrow> st_CreateAgent ops s a = Inr s' \<Longrightarrow> repo_create_agent (abs s) a = Inr (abs s')"
  using create_sim [of s a] by (simp add: sim_Inr)

lemma heartbeat_ok:
  "invar s \<Longrightarrow> st_UpdateHeartbeat ops s aid hb = Inr s' \<Longrightarrow> repo_heartbeat (abs s) aid hb = Inr (abs s')"
  using heartbeat_sim [of s aid hb] by (simp add: sim_Inr)

lemma save_events_ok:
  "invar s \<Longrightarrow> st_SaveEvents ops s es = Inr (n, s') \<Longrightarrow> repo_save_events (abs s) es = (n, abs s')"
  using save_events_sim [of s es] by (simp add: sim_Inr)

lemma save_policy_ok:
  "invar s \<Longrightarrow> st_SavePolicyAndAudit ops s p expected au = Inr s' \<Longrightarrow>
     repo_save_policy (abs s) p expected au = Inr (abs s')"
  using save_policy_sim [of s p expected au] by (simp add: sim_Inr)

lemma by_id_ok: "invar s \<Longrightarrow> st_AgentByID ops s aid = Inr a \<Longrightarrow> repo_agents (abs s) aid = Some a"
  using by_id_sim [of s aid] by (simp add: sim_Inr split: option.splits)

lemma policy_ok:
  "invar s \<Longrightarrow> st_PolicyForAgent ops s aid = Inr p \<Longrightarrow> repo_policies (abs s) aid = Some p"
  using policy_sim [of s aid] by (simp add: sim_Inr split: option.splits)

text \<open>Sending a batch again, whole or in part, inserts nothing and changes nothing.\<close>

lemma resend_nothing_new:
  assumes "invar s" and "set fs \<subseteq> set es" and "st_SaveEvents ops s es = Inr (n, s')"
    and "st_SaveEvents ops s' fs = Inr (k, s'')"
  shows "k = 0 \<and> abs s'' = abs s'"
proof -
  have i: "invar s'" using assms save_events_invar by blast
  have a: "repo_events (abs s') = snd (add_events (repo_events (abs s)) es)"
    using save_events_ok [OF assms(1,3)] by (simp add: repo_save_events_iff)
  have "event_ID ` set fs \<subseteq> dom (repo_events (abs s'))"
    using assms(2) by (auto simp: a add_events_dom)
  then have "add_events (repo_events (abs s')) fs = (0, repo_events (abs s'))"
    by (rule add_events_seen)
  then show ?thesis
    using save_events_ok [OF i assms(4)] by (simp add: repo_save_events_iff)
qed

text \<open>The reported number is the number of identifiers that were not stored before.\<close>

lemma inserted_count:
  assumes "invar s" and "st_SaveEvents ops s es = Inr (n, s')"
  shows "n = card (event_ID ` set es - dom (repo_events (abs s)))"
  using save_events_ok [OF assms] add_events_count [OF abs_finite [OF assms(1)], of es]
  by (simp add: repo_save_events_iff)

text \<open>A policy is written exactly when the caller knew the current revision; the new revision and its
  audit entry appear together, and nothing else changes.\<close>

lemma save_policy_effect:
  assumes "invar s" and "st_SavePolicyAndAudit ops s p expected au = Inr s'"
  shows "abs s' = (abs s)\<lparr>repo_policies := (repo_policies (abs s))(policy_AgentID p \<mapsto> p),
           repo_audits := (repo_audits (abs s))(audit_ID au \<mapsto> au)\<rparr>
         \<and> policy_Revision p = wrap64 (expected + 1)
         \<and> (case repo_policies (abs s) (policy_AgentID p) of
              None \<Rightarrow> expected = 0 | Some q \<Rightarrow> policy_Revision q = expected)
         \<and> audit_ID au \<notin> dom (repo_audits (abs s))"
  using save_policy_ok [OF assms]
  by (auto simp: repo_save_policy_def Let_def split: if_splits option.splits)

text \<open>Of two writers that read the same revision, the second is refused.\<close>

lemma lost_update_refused:
  assumes "invar s" and "st_SavePolicyAndAudit ops s p expected au = Inr s'"
    and "policy_AgentID q = policy_AgentID p" and "- (2 ^ 63) \<le> expected" and "expected < 2 ^ 63"
  shows "st_SavePolicyAndAudit ops s' q expected au' \<noteq> Inr s''"
proof
  assume again: "st_SavePolicyAndAudit ops s' q expected au' = Inr s''"
  have i: "invar s'" using save_policy_invar assms by blast
  have "repo_policies (abs s') (policy_AgentID q) = Some p" "policy_Revision p = wrap64 (expected + 1)"
    using save_policy_effect [OF assms(1,2)] assms(3) by simp_all
  moreover have "wrap64 (expected + 1) \<noteq> expected"
    using assms(4,5) by (cases "expected = 2 ^ 63 - 1") (simp_all add: wrap64_def)
  ultimately show False using save_policy_effect [OF i again] by simp
qed

text \<open>A machine has at most one Agent: after a registration another one for the machine is refused.\<close>

lemma second_registration_refused:
  assumes "invar s" and "st_CreateAgent ops s a = Inr s'"
    and "agent_MachineID b = agent_MachineID a"
  shows "st_CreateAgent ops s' b \<noteq> Inr s''"
proof
  assume again: "st_CreateAgent ops s' b = Inr s''"
  have i: "invar s'" using create_invar assms by blast
  have "a \<in> ran (repo_agents (abs s'))"
    using repo_create_agent_lookup [OF create_ok [OF assms(1,2)]] by (rule ranI)
  then show False
    using create_ok [OF i again] assms(3) by (auto simp: repo_create_agent_def split: if_splits)
qed

lemma registered_found:
  assumes "invar s" and "st_CreateAgent ops s a = Inr s'" and "st_AgentByID ops s' (agent_ID a) = Inr b"
  shows "b = a"
  using repo_create_agent_lookup [OF create_ok [OF assms(1,2)]]
    by_id_ok [OF create_invar [OF assms(1,2)] assms(3)] by simp

end

end
