(* ===== verification/Store_Memory.thy ===== *)
theory Store_Memory
  imports Store_Spec
begin

text \<open>
  internal/store/memory.go: the in-process store, "development store and contract-test oracle".
  Its state is five maps, one of them an index from machine to Agent. Each operation runs under the
  store's mutex, so it is one step on the state. The deep copies the code makes (\<open>cloneMap\<close>,
  \<open>append([]byte(nil), ...)\<close>) are values here; \<open>cloneMap\<close> is kept as the code's recursion.
  The interpretation \<open>memory\<close> shows that this state implements the contract of theory Store_Spec.
\<close>

record Memory =
  mem_agents :: "(string, Agent) gomap"
  mem_agentByMachine :: "(string, string) gomap"
  mem_events :: "(string, Event) gomap"
  mem_policies :: "(string, Policy) gomap"
  mem_audits :: "(string, AuditLog) gomap"

definition NewMemory :: Memory where
  "NewMemory = \<lparr>mem_agents = [], mem_agentByMachine = [], mem_events = [], mem_policies = [],
                mem_audits = []\<rparr>"

definition zero_Agent :: Agent where
  "zero_Agent = \<lparr>agent_ID = [], agent_MachineID = [], agent_Hostname = [], agent_Version = [],
     agent_Platform = [], agent_Architecture = [], agent_CredentialHash = [],
     agent_RegisteredAt = zero_time, agent_LastSeenAt = zero_time\<rparr>"

section \<open>Copies\<close>

fun cloneValue :: "goany \<Rightarrow> goany"
and cloneEntries :: "(string \<times> goany) list \<Rightarrow> (string \<times> goany) list"
and cloneItems :: "goany list \<Rightarrow> goany list" where
  "cloneValue (AMap m) = AMap (cloneEntries m)"
| "cloneValue (AArr xs) = AArr (cloneItems xs)"
| "cloneValue v = v"
| "cloneEntries [] = []"
| "cloneEntries ((k, v) # m) = (k, cloneValue v) # cloneEntries m"
| "cloneItems [] = []"
| "cloneItems (v # vs) = cloneValue v # cloneItems vs"

definition cloneMap :: "evidence \<Rightarrow> evidence" where
  "cloneMap input = map_option cloneEntries input"

lemma clone_id:
  "cloneValue v = v" "cloneEntries m = m" "cloneItems vs = vs"
  by (induction v and m and vs rule: cloneValue_cloneEntries_cloneItems.induct) auto

lemma cloneMap_id [simp]: "cloneMap e = e"
  by (cases e) (simp_all add: cloneMap_def clone_id)

section \<open>Operations\<close>

definition CreateAgent :: "Memory \<Rightarrow> Agent \<Rightarrow> store_error + Memory" where
  "CreateAgent m agent =
     (if map_of (mem_agents m) (agent_ID agent) \<noteq> None then Inl ErrConflict
      else if map_of (mem_agentByMachine m) (agent_MachineID agent) \<noteq> None then Inl ErrConflict
      else Inr (m\<lparr>mem_agents := AList.update (agent_ID agent) agent (mem_agents m),
                  mem_agentByMachine :=
                    AList.update (agent_MachineID agent) (agent_ID agent) (mem_agentByMachine m)\<rparr>))"

definition AgentByID :: "Memory \<Rightarrow> string \<Rightarrow> store_error + Agent" where
  "AgentByID m aid =
     (case map_of (mem_agents m) aid of None \<Rightarrow> Inl ErrNotFound | Some agent \<Rightarrow> Inr agent)"

definition AgentByMachineID :: "Memory \<Rightarrow> string \<Rightarrow> store_error + Agent" where
  "AgentByMachineID m machineID =
     (case map_of (mem_agentByMachine m) machineID of
        None \<Rightarrow> Inl ErrNotFound
      | Some aid \<Rightarrow>
          Inr (case map_of (mem_agents m) aid of None \<Rightarrow> zero_Agent | Some agent \<Rightarrow> agent))"

definition UpdateHeartbeat :: "Memory \<Rightarrow> string \<Rightarrow> Heartbeat \<Rightarrow> store_error + Memory" where
  "UpdateHeartbeat m aid heartbeat =
     (case map_of (mem_agents m) aid of
        None \<Rightarrow> Inl ErrNotFound
      | Some agent \<Rightarrow>
          let seen = agent\<lparr>agent_LastSeenAt := hb_SentAt heartbeat\<rparr>;
              versioned = (if hb_AgentVersion heartbeat \<noteq> []
                           then seen\<lparr>agent_Version := hb_AgentVersion heartbeat\<rparr> else seen)
          in Inr (m\<lparr>mem_agents := AList.update aid versioned (mem_agents m)\<rparr>))"

definition ListAgents :: "Memory \<Rightarrow> int \<Rightarrow> Agent list" where
  "ListAgents m limit =
     take (normalizeLimit limit)
       (sort_desc agent_RegisteredAt
          (map (\<lambda>(_, agent). agent\<lparr>agent_CredentialHash := []\<rparr>) (mem_agents m)))"

fun SaveEvents_loop :: "(string, Event) gomap \<Rightarrow> nat \<Rightarrow> Event list \<Rightarrow> nat \<times> (string, Event) gomap" where
  "SaveEvents_loop stored inserted [] = (inserted, stored)"
| "SaveEvents_loop stored inserted (event # events) =
     (if map_of stored (event_ID event) \<noteq> None then SaveEvents_loop stored inserted events
      else SaveEvents_loop
             (AList.update (event_ID event)
                (event\<lparr>event_Evidence := cloneMap (event_Evidence event)\<rparr>) stored)
             (inserted + 1) events)"

definition SaveEvents :: "Memory \<Rightarrow> Event list \<Rightarrow> nat \<times> Memory" where
  "SaveEvents m events =
     (let (inserted, stored) = SaveEvents_loop (mem_events m) 0 events
      in (inserted, m\<lparr>mem_events := stored\<rparr>))"

definition ListAlerts :: "Memory \<Rightarrow> AlertFilter \<Rightarrow> Event list" where
  "ListAlerts m f =
     take (normalizeLimit (filter_Limit f))
       (sort_desc event_ReceivedAt
          (map (\<lambda>(_, event). event\<lparr>event_Evidence := cloneMap (event_Evidence event)\<rparr>)
             (filter (\<lambda>(_, event). \<not> (filter_Severity f \<noteq> [] \<and> event_Severity event \<noteq> filter_Severity f))
                (mem_events m))))"

definition PolicyForAgent :: "Memory \<Rightarrow> string \<Rightarrow> store_error + Policy" where
  "PolicyForAgent m agentID =
     (case map_of (mem_policies m) agentID of None \<Rightarrow> Inl ErrNotFound | Some policy \<Rightarrow> Inr policy)"

definition SavePolicyAndAudit :: "Memory \<Rightarrow> Policy \<Rightarrow> int \<Rightarrow> AuditLog \<Rightarrow> store_error + Memory" where
  "SavePolicyAndAudit m policy expectedRevision audit =
     (let current = map_of (mem_policies m) (policy_AgentID policy); exists = current \<noteq> None in
      if (\<not> exists \<and> expectedRevision \<noteq> 0)
         \<or> (exists \<and> policy_Revision (the current) \<noteq> expectedRevision)
         \<or> policy_Revision policy \<noteq> wrap64 (expectedRevision + 1)
      then Inl ErrConflict
      else if map_of (mem_audits m) (audit_ID audit) \<noteq> None then Inl ErrConflict
      else Inr (m\<lparr>mem_policies := AList.update (policy_AgentID policy) policy (mem_policies m),
                  mem_audits := AList.update (audit_ID audit)
                    (audit\<lparr>audit_Details := cloneMap (audit_Details audit)\<rparr>) (mem_audits m)\<rparr>))"

definition ListAuditLogs :: "Memory \<Rightarrow> int \<Rightarrow> AuditLog list" where
  "ListAuditLogs m limit =
     take (normalizeLimit limit)
       (sort_desc audit_OccurredAt
          (map (\<lambda>(_, audit). audit\<lparr>audit_Details := cloneMap (audit_Details audit)\<rparr>) (mem_audits m)))"

section \<open>Invariant and abstraction\<close>

definition mem_inv :: "Memory \<Rightarrow> bool" where
  "mem_inv m \<longleftrightarrow>
     distinct (keys (mem_agents m)) \<and> distinct (keys (mem_agentByMachine m))
     \<and> distinct (keys (mem_events m)) \<and> distinct (keys (mem_policies m))
     \<and> distinct (keys (mem_audits m))
     \<and> list_all (\<lambda>(k, a). agent_ID a = k
          \<and> map_of (mem_agentByMachine m) (agent_MachineID a) = Some k) (mem_agents m)
     \<and> list_all (\<lambda>(mid, k). case map_of (mem_agents m) k of
          None \<Rightarrow> False | Some a \<Rightarrow> agent_MachineID a = mid) (mem_agentByMachine m)
     \<and> list_all (\<lambda>(k, e). event_ID e = k) (mem_events m)
     \<and> list_all (\<lambda>(k, p). policy_AgentID p = k) (mem_policies m)
     \<and> list_all (\<lambda>(k, a). audit_ID a = k) (mem_audits m)"

definition mem_abs :: "Memory \<Rightarrow> repo" where
  "mem_abs m = \<lparr>repo_agents = map_of (mem_agents m), repo_events = map_of (mem_events m),
                repo_policies = map_of (mem_policies m), repo_audits = map_of (mem_audits m)\<rparr>"

lemma mem_abs_sel [simp]:
  "repo_agents (mem_abs m) = map_of (mem_agents m)"
  "repo_events (mem_abs m) = map_of (mem_events m)"
  "repo_policies (mem_abs m) = map_of (mem_policies m)"
  "repo_audits (mem_abs m) = map_of (mem_audits m)"
  by (simp_all add: mem_abs_def)

lemma mem_inv_NewMemory [inv_intros, simp]: "mem_inv NewMemory"
  by (simp add: mem_inv_def NewMemory_def)

text \<open>A table whose values carry their own key, updated at that key.\<close>

lemma keyed_update:
  "list_all (\<lambda>(k, x). f x = k) m \<Longrightarrow> f v = k \<Longrightarrow> list_all (\<lambda>(k, x). f x = k) (AList.update k v m)"
  unfolding list_all_iff by (auto dest!: mem_update_cases)

lemma keyed_lookup: "list_all (\<lambda>(k, x). P k x) m \<Longrightarrow> map_of m k = Some x \<Longrightarrow> P k x"
  by (auto simp: list_all_iff dest!: map_of_SomeD)

lemma mem_index:
  assumes "mem_inv m"
  shows "map_of (mem_agentByMachine m) mid = Some k \<longleftrightarrow>
           (\<exists>a. map_of (mem_agents m) k = Some a \<and> agent_MachineID a = mid)"
proof
  assume "map_of (mem_agentByMachine m) mid = Some k"
  with assms show "\<exists>a. map_of (mem_agents m) k = Some a \<and> agent_MachineID a = mid"
    unfolding mem_inv_def by (auto dest!: keyed_lookup [where m = "mem_agentByMachine m"] split: option.splits)
next
  assume "\<exists>a. map_of (mem_agents m) k = Some a \<and> agent_MachineID a = mid"
  with assms show "map_of (mem_agentByMachine m) mid = Some k"
    unfolding mem_inv_def by (auto dest!: keyed_lookup [where m = "mem_agents m"])
qed

lemma mem_agent_key: "mem_inv m \<Longrightarrow> map_of (mem_agents m) k = Some a \<Longrightarrow> agent_ID a = k"
  unfolding mem_inv_def by (auto dest!: keyed_lookup [where m = "mem_agents m"])

lemma mem_repo_inv:
  assumes "mem_inv m"
  shows "repo_inv (mem_abs m)"
proof (rule repo_invI)
  fix k l a b
  assume "repo_agents (mem_abs m) k = Some a" and "repo_agents (mem_abs m) l = Some b"
    and "agent_MachineID a = agent_MachineID b"
  then have "map_of (mem_agentByMachine m) (agent_MachineID a) = Some k"
    and "map_of (mem_agentByMachine m) (agent_MachineID a) = Some l"
    using mem_index [OF assms] by auto
  then show "k = l" by simp
qed (use assms in \<open>auto simp: mem_inv_def dest!: keyed_lookup mem_agent_key [OF assms]\<close>)

section \<open>The operations keep the invariant\<close>

lemma CreateAgent_inv [inv_intros]:
  assumes "mem_inv m" and "CreateAgent m a = Inr m'"
  shows "mem_inv m'"
proof -
  have fresh: "map_of (mem_agents m) (agent_ID a) = None"
      "map_of (mem_agentByMachine m) (agent_MachineID a) = None"
    and m': "mem_agents m' = mem_agents m @ [(agent_ID a, a)]"
      "mem_agentByMachine m' = mem_agentByMachine m @ [(agent_MachineID a, agent_ID a)]"
      "mem_events m' = mem_events m" "mem_policies m' = mem_policies m" "mem_audits m' = mem_audits m"
    using assms(2) by (auto simp: CreateAgent_def update_new split: if_splits)
  have "map_of (mem_agentByMachine m') (agent_MachineID b) = Some k"
    if "(k, b) \<in> set (mem_agents m)" for k b
  proof -
    have "map_of (mem_agents m) k = Some b" using that assms(1) by (simp add: mem_inv_def)
    then have "map_of (mem_agentByMachine m) (agent_MachineID b) = Some k"
      using mem_index [OF assms(1)] by blast
    then show ?thesis by (simp add: m' map_add_def)
  qed
  moreover have "agent_ID b = k" if "(k, b) \<in> set (mem_agents m)" for k b
    using that assms(1) mem_agent_key [OF assms(1)] by (simp add: mem_inv_def)
  ultimately have "list_all (\<lambda>(k, b). agent_ID b = k
      \<and> map_of (mem_agentByMachine m') (agent_MachineID b) = Some k) (mem_agents m')"
    using fresh by (auto simp: m'(1) list_all_iff) (simp add: m' map_add_def)
  moreover have "list_all (\<lambda>(mid, k). case map_of (mem_agents m') k of
      None \<Rightarrow> False | Some b \<Rightarrow> agent_MachineID b = mid) (mem_agentByMachine m')"
    using assms(1) fresh
    by (fastforce simp: m' list_all_iff mem_inv_def map_add_def split: option.splits)
  moreover have "distinct (keys (mem_agents m'))" "distinct (keys (mem_agentByMachine m'))"
    using assms(1) fresh by (auto simp: m' mem_inv_def map_of_eq_None_iff)
  ultimately show ?thesis using assms(1) by (simp add: mem_inv_def m')
qed

lemma mem_update_agent_inv:
  assumes inv: "mem_inv m" and a: "map_of (mem_agents m) k = Some a"
    and b: "agent_ID b = agent_ID a" "agent_MachineID b = agent_MachineID a"
  shows "mem_inv (m\<lparr>mem_agents := AList.update k b (mem_agents m)\<rparr>)"
proof -
  have k: "agent_ID a = k" using mem_agent_key [OF inv a] .
  have "map_of (mem_agentByMachine m) (agent_MachineID a) = Some k"
    using mem_index [OF inv] a by blast
  then have "list_all (\<lambda>(k, a). agent_ID a = k
      \<and> map_of (mem_agentByMachine m) (agent_MachineID a) = Some k) (AList.update k b (mem_agents m))"
    using inv b k unfolding list_all_iff mem_inv_def by (auto dest!: mem_update_cases)
  moreover have "list_all (\<lambda>(mid, l). case map_of (AList.update k b (mem_agents m)) l of
      None \<Rightarrow> False | Some a \<Rightarrow> agent_MachineID a = mid) (mem_agentByMachine m)"
    using inv a b unfolding list_all_iff mem_inv_def by (auto split: option.splits)
  ultimately show ?thesis using inv by (simp add: mem_inv_def)
qed

lemma UpdateHeartbeat_inv [inv_intros]:
  assumes "mem_inv m" and "UpdateHeartbeat m aid hb = Inr m'"
  shows "mem_inv m'"
proof -
  obtain a where a: "map_of (mem_agents m) aid = Some a"
    using assms(2) by (auto simp: UpdateHeartbeat_def split: option.splits)
  obtain b where "m' = m\<lparr>mem_agents := AList.update aid b (mem_agents m)\<rparr>"
      "agent_ID b = agent_ID a" "agent_MachineID b = agent_MachineID a"
    using assms(2) a by (auto simp: UpdateHeartbeat_def Let_def split: if_splits)
  then show ?thesis using mem_update_agent_inv [OF assms(1) a] by simp
qed

lemma SaveEvents_loop_inv:
  "distinct (keys s) \<Longrightarrow> list_all (\<lambda>(k, e). event_ID e = k) s \<Longrightarrow>
     distinct (keys (snd (SaveEvents_loop s n es)))
     \<and> list_all (\<lambda>(k, e). event_ID e = k) (snd (SaveEvents_loop s n es))"
  by (induction s n es rule: SaveEvents_loop.induct) (auto intro: keyed_update)

lemma SaveEvents_inv [inv_intros]: "mem_inv m \<Longrightarrow> mem_inv (snd (SaveEvents m es))"
  using SaveEvents_loop_inv [of "mem_events m" 0 es]
  by (auto simp: mem_inv_def SaveEvents_def split: prod.splits)

lemma SavePolicyAndAudit_inv [inv_intros]:
  "mem_inv m \<Longrightarrow> SavePolicyAndAudit m p n a = Inr m' \<Longrightarrow> mem_inv m'"
  by (auto simp: mem_inv_def SavePolicyAndAudit_def Let_def intro!: keyed_update split: if_splits)

lemma SavePolicyAndAudit_agents: "SavePolicyAndAudit m p n a = Inr m' \<Longrightarrow> mem_agents m' = mem_agents m"
  by (auto simp: SavePolicyAndAudit_def Let_def split: if_splits)

section \<open>The operations simulate the contract\<close>

lemma SaveEvents_loop_sim:
  "map_prod id map_of (SaveEvents_loop s n es) =
     map_prod (\<lambda>k. n + k) id (add_events (map_of s) es)"
  by (induction s n es rule: SaveEvents_loop.induct)
    (auto simp: domIff map_prod_def split_beta simp del: fun_upd_apply)

lemma newest_first_take_sort:
  assumes "distinct xs" and "set xs = A"
  shows "newest_first f n A (take n (sort_desc f xs))"
proof -
  let ?s = "sort_desc f xs"
  have d: "distinct ?s" using assms(1) by (simp add: sort_desc_def)
  have sorted: "sorted_wrt (\<lambda>x y. f y \<le> f x) ?s" by (rule sort_desc_sorted)
  have "f a \<le> f x" if "a \<in> A - set (take n ?s)" "x \<in> set (take n ?s)" for a x
  proof -
    have "a \<in> set (drop n ?s)"
      using that(1) assms(2) by (metis Diff_iff Un_iff append_take_drop_id set_append sort_desc_set)
    then show ?thesis
      using sorted that(2) by (metis append_take_drop_id sorted_wrt_append)
  qed
  moreover have "length ?s = card A" using assms by (metis distinct_card sort_desc_length)
  ultimately show ?thesis
    using d sorted assms(2) unfolding newest_first_def
    by (auto simp: sorted_wrt_take min_def dest: in_set_takeD)
qed

text \<open>Two entries of a table that carries its keys are equal when their keys are.\<close>

lemma distinct_values:
  assumes "distinct (keys m)" and "list_all (\<lambda>(k, x). f x = k) m"
    and "\<And>x. f (g x) = f x"
  shows "distinct (map (\<lambda>(_, x). g x) m)"
proof -
  have "map f (map (\<lambda>(_, x). g x) m) = keys m"
    using assms(2,3) by (induction m) auto
  then show ?thesis using assms(1) by (metis distinct_map)
qed

lemma ran_map_of_distinct: "distinct (keys m) \<Longrightarrow> ran (map_of m) = snd ` set m"
  by (rule ran_distinct)

definition memory_store :: "Memory Store" where
  "memory_store =
     \<lparr>st_CreateAgent = CreateAgent, st_AgentByID = AgentByID, st_AgentByMachineID = AgentByMachineID,
      st_UpdateHeartbeat = UpdateHeartbeat, st_ListAgents = (\<lambda>m limit. Inr (ListAgents m limit)),
      st_SaveEvents = (\<lambda>m events. Inr (SaveEvents m events)),
      st_ListAlerts = (\<lambda>m f. Inr (ListAlerts m f)), st_PolicyForAgent = PolicyForAgent,
      st_SavePolicyAndAudit = SavePolicyAndAudit,
      st_ListAuditLogs = (\<lambda>m limit. Inr (ListAuditLogs m limit))\<rparr>"

lemma memory_store_sel [simp]:
  "st_CreateAgent memory_store = CreateAgent"
  "st_AgentByID memory_store = AgentByID"
  "st_AgentByMachineID memory_store = AgentByMachineID"
  "st_UpdateHeartbeat memory_store = UpdateHeartbeat"
  "st_ListAgents memory_store m limit = Inr (ListAgents m limit)"
  "st_SaveEvents memory_store m es = Inr (SaveEvents m es)"
  "st_ListAlerts memory_store m f = Inr (ListAlerts m f)"
  "st_PolicyForAgent memory_store = PolicyForAgent"
  "st_SavePolicyAndAudit memory_store = SavePolicyAndAudit"
  "st_ListAuditLogs memory_store m limit = Inr (ListAuditLogs m limit)"
  by (simp_all add: memory_store_def)

lemma CreateAgent_sim:
  assumes "mem_inv m"
  shows "map_sum id mem_abs (CreateAgent m a) = repo_create_agent (mem_abs m) a"
proof -
  have "map_of (mem_agentByMachine m) (agent_MachineID a) \<noteq> None \<longleftrightarrow>
      (\<exists>b \<in> ran (map_of (mem_agents m)). agent_MachineID b = agent_MachineID a)"
    using mem_index [OF assms] by (auto simp: ran_def)
  then show ?thesis
    by (auto simp: CreateAgent_def repo_create_agent_def mem_abs_def domIff)
qed

lemma AgentByMachineID_Inr:
  assumes "mem_inv m"
  shows "AgentByMachineID m mid = Inr a \<longleftrightarrow> a \<in> ran (map_of (mem_agents m)) \<and> agent_MachineID a = mid"
proof
  assume "AgentByMachineID m mid = Inr a"
  then obtain k where "map_of (mem_agentByMachine m) mid = Some k"
      "a = (case map_of (mem_agents m) k of None \<Rightarrow> zero_Agent | Some agent \<Rightarrow> agent)"
    by (auto simp: AgentByMachineID_def split: option.splits)
  then show "a \<in> ran (map_of (mem_agents m)) \<and> agent_MachineID a = mid"
    using mem_index [OF assms, of mid k] by (auto intro: ranI)
next
  assume "a \<in> ran (map_of (mem_agents m)) \<and> agent_MachineID a = mid"
  then obtain k where k: "map_of (mem_agents m) k = Some a" and "agent_MachineID a = mid"
    by (auto simp: ran_def)
  then have "map_of (mem_agentByMachine m) mid = Some k"
    using mem_index [OF assms, of mid k] by blast
  then show "AgentByMachineID m mid = Inr a" by (simp add: AgentByMachineID_def k)
qed

lemma UpdateHeartbeat_sim:
  "map_sum id mem_abs (UpdateHeartbeat m aid hb) = repo_heartbeat (mem_abs m) aid hb"
  by (auto simp: UpdateHeartbeat_def repo_heartbeat_def mem_abs_def Let_def split: option.splits)

lemma SaveEvents_sim: "map_prod id mem_abs (SaveEvents m es) = repo_save_events (mem_abs m) es"
  using SaveEvents_loop_sim [of "mem_events m" 0 es]
  by (auto simp: SaveEvents_def repo_save_events_def mem_abs_def map_prod_def split_beta prod_eq_iff)

lemma SavePolicyAndAudit_sim:
  "map_sum id mem_abs (SavePolicyAndAudit m p n au) = repo_save_policy (mem_abs m) p n au"
  by (auto simp: SavePolicyAndAudit_def repo_save_policy_def mem_abs_def Let_def domIff)

lemma ListAgents_newest:
  assumes "mem_inv m"
  shows "newest_first agent_RegisteredAt (normalizeLimit limit)
      ((\<lambda>a. a\<lparr>agent_CredentialHash := []\<rparr>) ` ran (map_of (mem_agents m))) (ListAgents m limit)"
proof -
  have "distinct (keys (mem_agents m))" "list_all (\<lambda>(k, a). agent_ID a = k) (mem_agents m)"
    using assms by (auto simp: mem_inv_def list_all_iff)
  then show ?thesis unfolding ListAgents_def
    by (intro newest_first_take_sort distinct_values [where f = agent_ID])
      (force simp: ran_map_of_distinct)+
qed

lemma ListAlerts_newest:
  assumes "mem_inv m"
  shows "newest_first event_ReceivedAt (normalizeLimit (filter_Limit f))
      {e \<in> ran (map_of (mem_events m)). filter_Severity f = [] \<or> event_Severity e = filter_Severity f}
      (ListAlerts m f)"
proof -
  let ?es = "filter (\<lambda>(_, event). \<not> (filter_Severity f \<noteq> [] \<and> event_Severity event \<noteq> filter_Severity f))
              (mem_events m)"
  have "distinct (keys ?es)" "list_all (\<lambda>(k, e). event_ID e = k) ?es"
    using assms by (auto simp: mem_inv_def list_all_iff distinct_map_filter)
  moreover have "distinct (keys (mem_events m))" using assms by (simp add: mem_inv_def)
  ultimately show ?thesis unfolding ListAlerts_def
    by (intro newest_first_take_sort distinct_values [where f = event_ID])
      (force simp: ran_map_of_distinct)+
qed

lemma ListAuditLogs_newest:
  assumes "mem_inv m"
  shows "newest_first audit_OccurredAt (normalizeLimit limit) (ran (map_of (mem_audits m)))
      (ListAuditLogs m limit)"
proof -
  have "distinct (keys (mem_audits m))" "list_all (\<lambda>(k, a). audit_ID a = k) (mem_audits m)"
    using assms by (auto simp: mem_inv_def)
  then show ?thesis unfolding ListAuditLogs_def
    by (intro newest_first_take_sort distinct_values [where f = audit_ID])
      (force simp: ran_map_of_distinct)+
qed

interpretation memory: store_impl memory_store mem_inv mem_abs
proof unfold_locales
  fix m :: Memory
  assume inv: "mem_inv m"
  show "repo_inv (mem_abs m)" by (rule mem_repo_inv [OF inv])
  show "finite (dom (repo_events (mem_abs m)))" by (simp add: finite_dom_map_of)
  show "sim mem_abs (st_CreateAgent memory_store m a) (repo_create_agent (mem_abs m) a)" for a
    by (simp add: sim_def CreateAgent_sim [OF inv])
  show "sim id (st_AgentByID memory_store m aid)
      (case repo_agents (mem_abs m) aid of None \<Rightarrow> Inl ErrNotFound | Some a \<Rightarrow> Inr a)" for aid
    by (auto simp: sim_def AgentByID_def split: option.splits)
  show "a \<in> ran (repo_agents (mem_abs m)) \<and> agent_MachineID a = mid"
    if "st_AgentByMachineID memory_store m mid = Inr a" for mid a
    using that AgentByMachineID_Inr [OF inv] by simp
  show "agent_MachineID a \<noteq> mid"
    if "st_AgentByMachineID memory_store m mid = Inl ErrNotFound" "a \<in> ran (repo_agents (mem_abs m))"
    for mid a
    using that AgentByMachineID_Inr [OF inv, of mid a] by auto
  show "st_AgentByMachineID memory_store m mid \<noteq> Inl ErrConflict" for mid
    by (simp add: AgentByMachineID_def split: option.splits)
  show "sim mem_abs (st_UpdateHeartbeat memory_store m aid hb) (repo_heartbeat (mem_abs m) aid hb)"
    for aid hb by (simp add: sim_def UpdateHeartbeat_sim)
  show "sim (map_prod id mem_abs) (st_SaveEvents memory_store m es)
      (Inr (repo_save_events (mem_abs m) es))" for es
    by (simp add: sim_Inr SaveEvents_sim)
  show "sim id (st_PolicyForAgent memory_store m aid)
      (case repo_policies (mem_abs m) aid of None \<Rightarrow> Inl ErrNotFound | Some p \<Rightarrow> Inr p)" for aid
    by (auto simp: sim_def PolicyForAgent_def split: option.splits)
  show "sim mem_abs (st_SavePolicyAndAudit memory_store m p expected au)
      (repo_save_policy (mem_abs m) p expected au)" for p expected au
    by (simp add: sim_def SavePolicyAndAudit_sim)
  show "mem_inv m'" if "st_SaveEvents memory_store m es = Inr (n, m')" for es n m'
    using SaveEvents_inv [OF inv, of es] that by simp
qed (auto simp: ListAgents_newest ListAlerts_newest ListAuditLogs_newest intro: inv_intros)

section \<open>Properties of the store\<close>

text \<open>C30: delivery of events is idempotent. Sending a batch again, whole or in part, after it was stored
  inserts nothing and leaves every table as it is.\<close>

theorem resend_is_idempotent:
  assumes "mem_inv m" and "set fs \<subseteq> set es"
  shows "fst (SaveEvents (snd (SaveEvents m es)) fs) = 0
         \<and> mem_abs (snd (SaveEvents (snd (SaveEvents m es)) fs)) = mem_abs (snd (SaveEvents m es))"
  by (rule memory.resend_nothing_new [OF assms, of "fst (SaveEvents m es)"]) simp_all

text \<open>a listing of alerts holds the newest events of the requested severity, newest first, without
  repetition, and never more than 500: it leaves out an event only if it is not newer than any event
  it shows.\<close>

theorem ListAlerts_newest_first:
  assumes "mem_inv m"
  shows "newest_first event_ReceivedAt (normalizeLimit (filter_Limit f))
           {e \<in> ran (map_of (mem_events m)). filter_Severity f = [] \<or> event_Severity e = filter_Severity f}
           (ListAlerts m f)
         \<and> length (ListAlerts m f) \<le> 500"
proof -
  have "length (ListAlerts m f) \<le> normalizeLimit (filter_Limit f)" by (simp add: ListAlerts_def)
  then show ?thesis using ListAlerts_newest [OF assms] normalizeLimit_bounds le_trans by blast
qed

section \<open>Instances\<close>

definition stored_event :: "string \<Rightarrow> time \<Rightarrow> Event" where
  "stored_event eid t = \<lparr>event_ID = eid, event_AgentID = ''a'', event_Kind = ''k'', event_Severity = ''low'',
     event_Summary = ''s'', event_OccurredAt = t, event_ReceivedAt = t, event_Evidence = None\<rparr>"

theorem resend_is_idempotent_witness:
  "fst (SaveEvents NewMemory [stored_event ''x'' 1, stored_event ''y'' 2]) = 2
   \<and> fst (SaveEvents (snd (SaveEvents NewMemory [stored_event ''x'' 1, stored_event ''y'' 2]))
        [stored_event ''y'' 2]) = 0"
  using resend_is_idempotent [OF mem_inv_NewMemory, of "[stored_event ''y'' 2]"
      "[stored_event ''x'' 1, stored_event ''y'' 2]"]
  by (simp add: SaveEvents_def NewMemory_def stored_event_def)

theorem ListAlerts_newest_first_witness:
  "newest_first event_ReceivedAt 100
     (ran (map_of (mem_events (snd (SaveEvents NewMemory [stored_event ''x'' 1, stored_event ''y'' 2])))))
     (ListAlerts (snd (SaveEvents NewMemory [stored_event ''x'' 1, stored_event ''y'' 2]))
        \<lparr>filter_Severity = [], filter_Limit = 0\<rparr>)"
  using ListAlerts_newest_first [OF SaveEvents_inv [OF mem_inv_NewMemory],
      of "\<lparr>filter_Severity = [], filter_Limit = 0\<rparr>" "[stored_event ''x'' 1, stored_event ''y'' 2]"]
  by (simp add: normalizeLimit_def)

end
