(* ===== verification/Control.thy ===== *)
theory Control
  imports Mtls Store_Memory
begin

text \<open>
  internal/control: the HTTP API of the control plane (server.go) and its middleware (middleware.go).
  A handler is a function of the server, the clock and random bytes of the request, the request and
  the state of the store; it returns its response and the new state of the store. A nil dereference
  is the outcome \<open>Panic\<close>, which the middleware turns into a 500. The JSON decoder, SHA-256 and X.509 are
  the fields of \<open>control_lib\<close>; a decoder returns the value and the bytes after it, as
  \<open>json.Decoder\<close> does.
\<close>

definition defaultMaxBodyBytes :: int where "defaultMaxBodyBytes = 1048576"
definition maxEventBatch :: nat where "maxEventBatch = 100"

record registrationRequest =
  reg_MachineID :: string
  reg_Hostname :: string
  reg_Version :: string
  reg_Platform :: string
  reg_Architecture :: string
  reg_ClientCSR :: string

record registrationResponse =
  rr_AgentID :: string
  rr_Credential :: string
  rr_ClientCertificate :: string
  rr_ClientCACertificate :: string

record heartbeatRequest =
  hr_AgentVersion :: string
  hr_QueueDepth :: int

record policyRequest =
  pr_ExpectedRevision :: int
  pr_FileIntegrityEnabled :: "bool option"
  pr_FileWatchPaths :: "string list option"
  pr_SSHAuthEnabled :: "bool option"
  pr_SSHThreshold :: int
  pr_SSHWindowSeconds :: int
  pr_RuntimeWatchEnabled :: "bool option"

record TLSState =
  tls_VerifiedChains :: nat
  tls_PeerCertificates :: "Certificate list"

record Request =
  rq_Method :: string
  rq_Segments :: "string list"
  rq_Authorization :: string
  rq_Body :: string
  rq_limit :: string
  rq_severity :: string
  rq_TLS :: "TLSState option"

record request_env =
  env_now :: time
  env_read :: "nat \<Rightarrow> nat \<Rightarrow> error + string"

record control_lib =
  cl_sha256 :: "string \<Rightarrow> string"
  cl_x509 :: x509_lib
  cl_marshal :: "evidence \<Rightarrow> error + string"
  cl_registration :: "string \<Rightarrow> (registrationRequest \<times> string) option"
  cl_certificate :: "string \<Rightarrow> (string \<times> string) option"
  cl_heartbeat :: "string \<Rightarrow> (heartbeatRequest \<times> string) option"
  cl_events :: "string \<Rightarrow> (Event list \<times> string) option"
  cl_policy :: "string \<Rightarrow> (policyRequest \<times> string) option"

record 's Server =
  srv_store :: "'s Store"
  srv_bootstrapToken :: string
  srv_adminToken :: string
  srv_maxBodyBytes :: int
  srv_agentIssuer :: "Issuer option"
  srv_requireAgentMTLS :: bool

record 's Config =
  conf_Store :: "'s Store option"
  conf_BootstrapToken :: string
  conf_AdminToken :: string
  conf_MaxBodyBytes :: int
  conf_AgentIssuer :: "Issuer option"
  conf_RequireAgentMTLS :: bool

datatype resp_body =
    NoBody
  | Problem error
  | StatusText string
  | Registration registrationResponse
  | Accepted nat int
  | AgentList "Agent list"
  | AlertList "Event list"
  | PolicyBody Policy
  | AuditList "AuditLog list"

datatype outcome = Respond nat resp_body | Panic

record Response =
  resp_Status :: nat
  resp_Body :: resp_body
  resp_Headers :: "(string \<times> string) list"

section \<open>The server\<close>

definition New :: "'s Config \<Rightarrow> error + 's Server" where
  "New config =
     (case conf_Store config of
        None \<Rightarrow> Inl ''store is required''
      | Some store \<Rightarrow>
          if length (conf_BootstrapToken config) < 16
          then Inl ''bootstrap token must contain at least 16 bytes''
          else if length (conf_AdminToken config) < 16
          then Inl ''admin token must contain at least 16 bytes''
          else if conf_RequireAgentMTLS config \<and> conf_AgentIssuer config = None
          then Inl ''required Agent mTLS needs an Agent certificate issuer''
          else Inr \<lparr>srv_store = store, srv_bootstrapToken = conf_BootstrapToken config,
                    srv_adminToken = conf_AdminToken config,
                    srv_maxBodyBytes = (if conf_MaxBodyBytes config \<le> 0 then defaultMaxBodyBytes
                                        else conf_MaxBodyBytes config),
                    srv_agentIssuer = conf_AgentIssuer config,
                    srv_requireAgentMTLS = conf_RequireAgentMTLS config\<rparr>)"

definition writeProblem :: "nat \<Rightarrow> error \<Rightarrow> outcome" where
  "writeProblem status detail = Respond status (Problem detail)"

definition internalError :: outcome where
  "internalError = writeProblem 500 ''internal server error''"

definition unauthorized :: outcome where
  "unauthorized = writeProblem 401 ''unauthorized''"

section \<open>Authorization\<close>

definition bearerToken :: "Request \<Rightarrow> string option" where
  "bearerToken rq =
     (case CutChar (CHR '' '') (TrimSpace (rq_Authorization rq)) of
        None \<Rightarrow> None
      | Some (scheme, token) \<Rightarrow>
          if \<not> EqualFold scheme ''Bearer'' \<or> token = []
             \<or> ContainsAny token [CHR '' '', byte 9, byte 13, byte 10]
          then None else Some token)"

definition authorizeToken :: "control_lib \<Rightarrow> Request \<Rightarrow> string \<Rightarrow> bool" where
  "authorizeToken lib rq expected =
     (case bearerToken rq of
        None \<Rightarrow> False
      | Some provided \<Rightarrow> cl_sha256 lib provided = cl_sha256 lib expected)"

definition agentCertificateMatches :: "Request \<Rightarrow> string \<Rightarrow> bool" where
  "agentCertificateMatches rq agentID =
     (case rq_TLS rq of
        None \<Rightarrow> False
      | Some tls \<Rightarrow>
          if tls_VerifiedChains tls = 0 then False
          else case tls_PeerCertificates tls of
                 [] \<Rightarrow> False
               | leaf # _ \<Rightarrow> MatchesAgent leaf agentID)"

definition authorizeAgent :: "control_lib \<Rightarrow> 's Server \<Rightarrow> Request \<Rightarrow> string \<Rightarrow> 's \<Rightarrow> bool" where
  "authorizeAgent lib s rq agentID st =
     (if TrimSpace agentID = [] then False
      else case bearerToken rq of
        None \<Rightarrow> False
      | Some token \<Rightarrow>
          (case st_AgentByID (srv_store s) st agentID of
             Inl _ \<Rightarrow> False
           | Inr agent \<Rightarrow>
               if length (agent_CredentialHash agent) \<noteq> 32 then False
               else if cl_sha256 lib token \<noteq> agent_CredentialHash agent then False
               else if srv_requireAgentMTLS s \<and> \<not> agentCertificateMatches rq agentID then False
               else True))"

section \<open>Requests\<close>

text \<open>\<open>MaxBytesReader\<close> fails any read beyond the limit, so a longer body fails the first or the second
  \<open>Decode\<close>. The second one must find the end of the input after white space.\<close>

definition decodeJSON :: "(string \<Rightarrow> ('a \<times> string) option) \<Rightarrow> string \<Rightarrow> int \<Rightarrow> 'a option" where
  "decodeJSON decode body limit =
     (if limit < int (length body) then None
      else case decode body of
        None \<Rightarrow> None
      | Some (v, rest) \<Rightarrow> if list_all json_blank rest then Some v else None)"

definition Atoi :: "string \<Rightarrow> int option" where
  "Atoi s =
     (case s of
        [] \<Rightarrow> None
      | c # r \<Rightarrow>
          if c = CHR ''-'' then
            (case ParseUint r 10 64 of None \<Rightarrow> None
             | Some n \<Rightarrow> if n \<le> 2 ^ 63 then Some (- int n) else None)
          else
            (case ParseUint (if c = CHR ''+'' then r else s) 10 64 of None \<Rightarrow> None
             | Some n \<Rightarrow> if n < 2 ^ 63 then Some (int n) else None))"

definition queryLimit :: "Request \<Rightarrow> error + int" where
  "queryLimit rq =
     (if rq_limit rq = [] then Inr 100
      else case Atoi (rq_limit rq) of
        None \<Rightarrow> Inl ''limit must be between 1 and 500''
      | Some limit \<Rightarrow>
          if limit < 1 \<or> 500 < limit then Inl ''limit must be between 1 and 500'' else Inr limit)"

definition bounded_csr :: "string \<Rightarrow> bool" where
  "bounded_csr csr \<longleftrightarrow> \<not> (TrimSpace csr = [] \<or> 32768 < length csr)"

section \<open>Handlers\<close>

definition health :: "'s \<Rightarrow> outcome \<times> 's" where
  "health st = (Respond 200 (StatusText ''ok''), st)"

text \<open>The part of \<open>registerAgent\<close> from the creation of the record on.\<close>

definition store_registration ::
  "control_lib \<Rightarrow> 's Server \<Rightarrow> registrationRequest \<Rightarrow> time \<Rightarrow> string \<Rightarrow> string \<Rightarrow> string \<Rightarrow> 's
     \<Rightarrow> outcome \<times> 's" where
  "store_registration lib s input now agentID credential clientCertificate st =
     (let agent = \<lparr>agent_ID = agentID, agent_MachineID = reg_MachineID input,
            agent_Hostname = reg_Hostname input, agent_Version = reg_Version input,
            agent_Platform = reg_Platform input, agent_Architecture = reg_Architecture input,
            agent_CredentialHash = cl_sha256 lib credential, agent_RegisteredAt = now,
            agent_LastSeenAt = now\<rparr>;
          response = \<lparr>rr_AgentID = agentID, rr_Credential = credential, rr_ClientCertificate = [],
            rr_ClientCACertificate = []\<rparr>
      in case st_CreateAgent (srv_store s) st agent of
           Inl ErrConflict \<Rightarrow> (writeProblem 409 ''machine is already registered'', st)
         | Inl _ \<Rightarrow> (internalError, st)
         | Inr st' \<Rightarrow>
             if clientCertificate = [] then (Respond 201 (Registration response), st')
             else (case srv_agentIssuer s of
                     None \<Rightarrow> (Panic, st')
                   | Some issuer \<Rightarrow>
                       (Respond 201 (Registration (response\<lparr>rr_ClientCertificate := clientCertificate,
                          rr_ClientCACertificate := CertificatePEM issuer\<rparr>)), st')))"

definition registerAgent ::
  "control_lib \<Rightarrow> 's Server \<Rightarrow> request_env \<Rightarrow> Request \<Rightarrow> 's \<Rightarrow> outcome \<times> 's" where
  "registerAgent lib s env rq st =
     (if \<not> authorizeToken lib rq (srv_bootstrapToken s) then (unauthorized, st)
      else case decodeJSON (cl_registration lib) (rq_Body rq) (srv_maxBodyBytes s) of
        None \<Rightarrow> (writeProblem 400 ''invalid JSON request'', st)
      | Some input \<Rightarrow>
        (case ValidateRegistration (reg_MachineID input) (reg_Hostname input) (reg_Version input)
                (reg_Platform input) (reg_Architecture input) of
           Some err \<Rightarrow> (writeProblem 400 err, st)
         | None \<Rightarrow>
           (case st_AgentByMachineID (srv_store s) st (reg_MachineID input) of
              Inr _ \<Rightarrow> (writeProblem 409 ''machine is already registered'', st)
            | Inl ErrNotFound \<Rightarrow>
              (case Random (env_read env 0) ''agt_'' 18 of
                 Inl _ \<Rightarrow> (internalError, st)
               | Inr agentID \<Rightarrow>
                 (case Random (env_read env 1) ''msc_'' 32 of
                    Inl _ \<Rightarrow> (internalError, st)
                  | Inr credential \<Rightarrow>
                    (case srv_agentIssuer s of
                       None \<Rightarrow> store_registration lib s input (env_now env) agentID credential [] st
                     | Some issuer \<Rightarrow>
                       if \<not> bounded_csr (reg_ClientCSR input)
                       then (writeProblem 400 ''a bounded Agent client CSR is required'', st)
                       else case Issue (cl_x509 lib) issuer (env_read env 2) (reg_ClientCSR input) agentID
                                   (reg_MachineID input) (env_now env) of
                         Inl _ \<Rightarrow> (writeProblem 400 ''invalid Agent client CSR'', st)
                       | Inr clientCertificate \<Rightarrow>
                           store_registration lib s input (env_now env) agentID credential
                             clientCertificate st)))
            | Inl _ \<Rightarrow> (internalError, st))))"

definition renewAgentCertificate ::
  "control_lib \<Rightarrow> 's Server \<Rightarrow> request_env \<Rightarrow> Request \<Rightarrow> string \<Rightarrow> 's \<Rightarrow> outcome \<times> 's" where
  "renewAgentCertificate lib s env rq agentID st =
     (case srv_agentIssuer s of
        None \<Rightarrow> (unauthorized, st)
      | Some issuer \<Rightarrow>
          if \<not> authorizeAgent lib s rq agentID st then (unauthorized, st)
          else case decodeJSON (cl_certificate lib) (rq_Body rq) (srv_maxBodyBytes s) of
            None \<Rightarrow> (writeProblem 400 ''invalid Agent client CSR'', st)
          | Some csr \<Rightarrow>
              if \<not> bounded_csr csr then (writeProblem 400 ''invalid Agent client CSR'', st)
              else case st_AgentByID (srv_store s) st agentID of
                Inl _ \<Rightarrow> (unauthorized, st)
              | Inr agent \<Rightarrow>
                  (case Issue (cl_x509 lib) issuer (env_read env 0) csr agentID (agent_MachineID agent)
                          (env_now env) of
                     Inl _ \<Rightarrow> (writeProblem 400 ''invalid Agent client CSR'', st)
                   | Inr certificate \<Rightarrow>
                       (Respond 200 (Registration \<lparr>rr_AgentID = agentID, rr_Credential = [],
                          rr_ClientCertificate = certificate,
                          rr_ClientCACertificate = CertificatePEM issuer\<rparr>), st)))"

definition heartbeat ::
  "control_lib \<Rightarrow> 's Server \<Rightarrow> request_env \<Rightarrow> Request \<Rightarrow> string \<Rightarrow> 's \<Rightarrow> outcome \<times> 's" where
  "heartbeat lib s env rq agentID st =
     (if \<not> authorizeAgent lib s rq agentID st then (unauthorized, st)
      else case decodeJSON (cl_heartbeat lib) (rq_Body rq) (srv_maxBodyBytes s) of
        None \<Rightarrow> (writeProblem 400 ''invalid JSON request'', st)
      | Some input \<Rightarrow>
          if hr_QueueDepth input < 0 \<or> 1000000 < hr_QueueDepth input \<or> 64 < length (hr_AgentVersion input)
          then (writeProblem 400 ''invalid heartbeat'', st)
          else case st_UpdateHeartbeat (srv_store s) st agentID
                      \<lparr>hb_AgentVersion = hr_AgentVersion input, hb_QueueDepth = hr_QueueDepth input,
                       hb_SentAt = env_now env\<rparr> of
            Inl ErrNotFound \<Rightarrow> (unauthorized, st)
          | Inl _ \<Rightarrow> (internalError, st)
          | Inr st' \<Rightarrow> (Respond 200 (StatusText ''accepted''), st'))"

fun prepare_events ::
  "control_lib \<Rightarrow> string \<Rightarrow> time \<Rightarrow> nat \<Rightarrow> Event list \<Rightarrow> error + Event list" where
  "prepare_events lib agentID now index [] = Inr []"
| "prepare_events lib agentID now index (e # es) =
     (let event = e\<lparr>event_AgentID := agentID, event_ReceivedAt := now,
                    event_Evidence := RedactMap (event_Evidence e)\<rparr>
      in case ValidateEvent (cl_marshal lib) event now of
           Some err \<Rightarrow> Inl (''event '' @ FormatNat index @ '': '' @ err)
         | None \<Rightarrow> map_sum id (Cons event) (prepare_events lib agentID now (Suc index) es))"

definition ingestEvents ::
  "control_lib \<Rightarrow> 's Server \<Rightarrow> request_env \<Rightarrow> Request \<Rightarrow> string \<Rightarrow> 's \<Rightarrow> outcome \<times> 's" where
  "ingestEvents lib s env rq agentID st =
     (if \<not> authorizeAgent lib s rq agentID st then (unauthorized, st)
      else case decodeJSON (cl_events lib) (rq_Body rq) (srv_maxBodyBytes s) of
        None \<Rightarrow> (writeProblem 400 ''invalid JSON request'', st)
      | Some input \<Rightarrow>
          if length input = 0 \<or> maxEventBatch < length input
          then (writeProblem 400 (''events must contain between 1 and '' @ FormatNat maxEventBatch @ '' entries''), st)
          else case prepare_events lib agentID (env_now env) 0 input of
            Inl err \<Rightarrow> (writeProblem 400 err, st)
          | Inr events \<Rightarrow>
              (case st_SaveEvents (srv_store s) st events of
                 Inl _ \<Rightarrow> (internalError, st)
               | Inr (inserted, st') \<Rightarrow>
                   (Respond 202 (Accepted inserted (int (length events) - int inserted)), st')))"

definition listAgents :: "control_lib \<Rightarrow> 's Server \<Rightarrow> Request \<Rightarrow> 's \<Rightarrow> outcome \<times> 's" where
  "listAgents lib s rq st =
     (if \<not> authorizeToken lib rq (srv_adminToken s) then (unauthorized, st)
      else case queryLimit rq of
        Inl err \<Rightarrow> (writeProblem 400 err, st)
      | Inr limit \<Rightarrow>
          (case st_ListAgents (srv_store s) st limit of
             Inl _ \<Rightarrow> (internalError, st)
           | Inr agents \<Rightarrow> (Respond 200 (AgentList agents), st)))"

definition listAlerts :: "control_lib \<Rightarrow> 's Server \<Rightarrow> Request \<Rightarrow> 's \<Rightarrow> outcome \<times> 's" where
  "listAlerts lib s rq st =
     (if \<not> authorizeToken lib rq (srv_adminToken s) then (unauthorized, st)
      else case queryLimit rq of
        Inl err \<Rightarrow> (writeProblem 400 err, st)
      | Inr limit \<Rightarrow>
          (let severity = ToLower (rq_severity rq)
           in if severity \<noteq> [] \<and> \<not> Severity_Valid severity
              then (writeProblem 400 ''severity is invalid'', st)
              else case st_ListAlerts (srv_store s) st \<lparr>filter_Severity = severity, filter_Limit = limit\<rparr> of
                Inl _ \<Rightarrow> (internalError, st)
              | Inr alerts \<Rightarrow> (Respond 200 (AlertList alerts), st)))"

definition getAgentPolicy ::
  "control_lib \<Rightarrow> 's Server \<Rightarrow> Request \<Rightarrow> string \<Rightarrow> 's \<Rightarrow> outcome \<times> 's" where
  "getAgentPolicy lib s rq agentID st =
     (if \<not> authorizeAgent lib s rq agentID st then (unauthorized, st)
      else case st_PolicyForAgent (srv_store s) st agentID of
        Inl ErrNotFound \<Rightarrow> (writeProblem 404 ''Agent policy is not configured'', st)
      | Inl _ \<Rightarrow> (internalError, st)
      | Inr policy \<Rightarrow> (Respond 200 (PolicyBody policy), st))"

fun check_watch_paths :: "string list \<Rightarrow> string list \<Rightarrow> error option" where
  "check_watch_paths seen [] = None"
| "check_watch_paths seen (item # items) =
     (if bad_watch_path item then Some ''file_watch_paths contains an invalid absolute Linux path''
      else if item \<in> set seen then Some ''file_watch_paths contains a duplicate''
      else check_watch_paths (item # seen) items)"

definition validatePolicyRequest :: "policyRequest \<Rightarrow> error option" where
  "validatePolicyRequest input =
     (case pr_FileWatchPaths input of
        None \<Rightarrow> Some ''policy fields and a non-negative expected_revision are required''
      | Some paths \<Rightarrow>
          if pr_ExpectedRevision input < 0 \<or> pr_FileIntegrityEnabled input = None
             \<or> pr_SSHAuthEnabled input = None \<or> pr_RuntimeWatchEnabled input = None
          then Some ''policy fields and a non-negative expected_revision are required''
          else if 64 < length paths then Some ''file_watch_paths must contain at most 64 paths''
          else case check_watch_paths [] paths of
            Some err \<Rightarrow> Some err
          | None \<Rightarrow>
              if ssh_range_bad (pr_SSHThreshold input) (pr_SSHWindowSeconds input)
              then Some ''SSH threshold or window is outside the safe range''
              else None)"

text \<open>\<open>sort.Strings\<close> on a nil slice leaves nil, an empty list here.\<close>

definition policy_of_request ::
  "policyRequest \<Rightarrow> string \<Rightarrow> string \<Rightarrow> time \<Rightarrow> bool \<Rightarrow> bool \<Rightarrow> bool \<Rightarrow> Policy" where
  "policy_of_request input policyID agentID now fileIntegrity sshAuth runtimeWatch =
     \<lparr>policy_ID = policyID, policy_AgentID = agentID,
      policy_Revision = wrap64 (pr_ExpectedRevision input + 1),
      policy_FileIntegrityEnabled = fileIntegrity,
      policy_FileWatchPaths =
        (case pr_FileWatchPaths input of None \<Rightarrow> [] | Some paths \<Rightarrow> sort paths),
      policy_SSHAuthEnabled = sshAuth, policy_SSHThreshold = pr_SSHThreshold input,
      policy_SSHWindowSeconds = pr_SSHWindowSeconds input, policy_RuntimeWatchEnabled = runtimeWatch,
      policy_UpdatedAt = now\<rparr>"

definition policy_resource :: "string \<Rightarrow> string" where
  "policy_resource agentID = ''agent/'' @ agentID @ ''/policy''"

definition policy_audit :: "string \<Rightarrow> Policy \<Rightarrow> int \<Rightarrow> AuditLog" where
  "policy_audit auditID p expected =
     \<lparr>audit_ID = auditID, audit_Actor = ''admin_token'', audit_Action = ''agent.policy.updated'',
      audit_Resource = policy_resource (policy_AgentID p), audit_OccurredAt = policy_UpdatedAt p,
      audit_Details = Some
        [(''previous_revision'', AInt expected), (''new_revision'', AInt (policy_Revision p)),
         (''file_watch_path_count'', AInt (int (length (policy_FileWatchPaths p)))),
         (''file_integrity_enabled'', ABool (policy_FileIntegrityEnabled p)),
         (''ssh_auth_enabled'', ABool (policy_SSHAuthEnabled p)),
         (''runtime_watch_enabled'', ABool (policy_RuntimeWatchEnabled p))]\<rparr>"

text \<open>\<open>putAgentPolicy\<close> after the policy identifier is known.\<close>

definition store_policy ::
  "'s Server \<Rightarrow> request_env \<Rightarrow> policyRequest \<Rightarrow> string \<Rightarrow> string \<Rightarrow> 's \<Rightarrow> outcome \<times> 's" where
  "store_policy s env input policyID agentID st =
     (case (pr_FileIntegrityEnabled input, pr_SSHAuthEnabled input, pr_RuntimeWatchEnabled input) of
        (Some fileIntegrity, Some sshAuth, Some runtimeWatch) \<Rightarrow>
          (let policy = policy_of_request input policyID agentID (env_now env) fileIntegrity sshAuth
                          runtimeWatch
           in case ValidatePolicy policy of
                Some err \<Rightarrow> (writeProblem 400 err, st)
              | None \<Rightarrow>
                  (case Random (env_read env 1) ''aud_'' 18 of
                     Inl _ \<Rightarrow> (internalError, st)
                   | Inr auditID \<Rightarrow>
                       (case st_SavePolicyAndAudit (srv_store s) st policy (pr_ExpectedRevision input)
                               (policy_audit auditID policy (pr_ExpectedRevision input)) of
                          Inl ErrConflict \<Rightarrow> (writeProblem 409 ''policy revision conflict'', st)
                        | Inl _ \<Rightarrow> (internalError, st)
                        | Inr st' \<Rightarrow> (Respond 200 (PolicyBody policy), st'))))
      | _ \<Rightarrow> (Panic, st))"

definition putAgentPolicy ::
  "control_lib \<Rightarrow> 's Server \<Rightarrow> request_env \<Rightarrow> Request \<Rightarrow> string \<Rightarrow> 's \<Rightarrow> outcome \<times> 's" where
  "putAgentPolicy lib s env rq agentID st =
     (if \<not> authorizeToken lib rq (srv_adminToken s) then (unauthorized, st)
      else case st_AgentByID (srv_store s) st agentID of
        Inl _ \<Rightarrow> (writeProblem 404 ''Agent does not exist'', st)
      | Inr _ \<Rightarrow>
        (case decodeJSON (cl_policy lib) (rq_Body rq) (srv_maxBodyBytes s) of
           None \<Rightarrow> (writeProblem 400 ''invalid JSON request'', st)
         | Some input \<Rightarrow>
           (case validatePolicyRequest input of
              Some err \<Rightarrow> (writeProblem 400 err, st)
            | None \<Rightarrow>
                if pr_ExpectedRevision input = 0 then
                  (case Random (env_read env 0) ''pol_'' 18 of
                     Inl _ \<Rightarrow> (internalError, st)
                   | Inr policyID \<Rightarrow> store_policy s env input policyID agentID st)
                else
                  (case st_PolicyForAgent (srv_store s) st agentID of
                     Inl _ \<Rightarrow> (writeProblem 409 ''policy revision conflict'', st)
                   | Inr current \<Rightarrow>
                       if policy_Revision current \<noteq> pr_ExpectedRevision input
                       then (writeProblem 409 ''policy revision conflict'', st)
                       else store_policy s env input (policy_ID current) agentID st))))"

definition listAuditLogs :: "control_lib \<Rightarrow> 's Server \<Rightarrow> Request \<Rightarrow> 's \<Rightarrow> outcome \<times> 's" where
  "listAuditLogs lib s rq st =
     (if \<not> authorizeToken lib rq (srv_adminToken s) then (unauthorized, st)
      else case queryLimit rq of
        Inl err \<Rightarrow> (writeProblem 400 err, st)
      | Inr limit \<Rightarrow>
          (case st_ListAuditLogs (srv_store s) st limit of
             Inl _ \<Rightarrow> (internalError, st)
           | Inr logs \<Rightarrow>
               (Respond 200 (AuditList
                  (map (\<lambda>l. l\<lparr>audit_Details := RedactMap (audit_Details l)\<rparr>) logs)), st)))"

section \<open>Routing and middleware\<close>

text \<open>The routes that \<open>New\<close> registers, on the unescaped segments of a cleaned path. A \<open>GET\<close> pattern also
  serves \<open>HEAD\<close>; a known path with another method is 405, an unknown path 404.\<close>

datatype route =
    Health | Register | RAgents | RAlerts | RAudits
  | RHeartbeat string | REvents string | RCertificate string | GetPolicy string | PutPolicy string
  | NotFound | MethodNotAllowed

definition is_get :: "string \<Rightarrow> bool" where
  "is_get m \<longleftrightarrow> m = ''GET'' \<or> m = ''HEAD''"

definition route_of :: "string \<Rightarrow> string list \<Rightarrow> route" where
  "route_of m segs =
     (if segs = [''healthz''] then (if is_get m then Health else MethodNotAllowed)
      else if segs = [''v1'', ''agents'', ''register''] then (if m = ''POST'' then Register else MethodNotAllowed)
      else if segs = [''v1'', ''agents''] then (if is_get m then RAgents else MethodNotAllowed)
      else if segs = [''v1'', ''alerts''] then (if is_get m then RAlerts else MethodNotAllowed)
      else if segs = [''v1'', ''audit-logs''] then (if is_get m then RAudits else MethodNotAllowed)
      else case segs of
        [a, b, agentID, c] \<Rightarrow>
          if a = ''v1'' \<and> b = ''agents'' \<and> c = ''heartbeat'' then
            (if m = ''POST'' then RHeartbeat agentID else MethodNotAllowed)
          else if a = ''v1'' \<and> b = ''agents'' \<and> c = ''events'' then
            (if m = ''POST'' then REvents agentID else MethodNotAllowed)
          else if a = ''v1'' \<and> b = ''agents'' \<and> c = ''certificate'' then
            (if m = ''POST'' then RCertificate agentID else MethodNotAllowed)
          else if a = ''v1'' \<and> b = ''agents'' \<and> c = ''policy'' then
            (if is_get m then GetPolicy agentID else if m = ''PUT'' then PutPolicy agentID
             else MethodNotAllowed)
          else NotFound
      | _ \<Rightarrow> NotFound)"

definition mux ::
  "control_lib \<Rightarrow> 's Server \<Rightarrow> request_env \<Rightarrow> Request \<Rightarrow> 's \<Rightarrow> outcome \<times> 's" where
  "mux lib s env rq st =
     (case route_of (rq_Method rq) (rq_Segments rq) of
        Health \<Rightarrow> health st
      | Register \<Rightarrow> registerAgent lib s env rq st
      | RAgents \<Rightarrow> listAgents lib s rq st
      | RAlerts \<Rightarrow> listAlerts lib s rq st
      | RAudits \<Rightarrow> listAuditLogs lib s rq st
      | RHeartbeat agentID \<Rightarrow> heartbeat lib s env rq agentID st
      | REvents agentID \<Rightarrow> ingestEvents lib s env rq agentID st
      | RCertificate agentID \<Rightarrow> renewAgentCertificate lib s env rq agentID st
      | GetPolicy agentID \<Rightarrow> getAgentPolicy lib s rq agentID st
      | PutPolicy agentID \<Rightarrow> putAgentPolicy lib s env rq agentID st
      | NotFound \<Rightarrow> (Respond 404 NoBody, st)
      | MethodNotAllowed \<Rightarrow> (Respond 405 NoBody, st))"

definition middleware :: "outcome \<Rightarrow> Response" where
  "middleware result =
     (let headers = [(''Cache-Control'', ''no-store''), (''X-Content-Type-Options'', ''nosniff'')]
      in case result of
           Respond status body \<Rightarrow> \<lparr>resp_Status = status, resp_Body = body, resp_Headers = headers\<rparr>
         | Panic \<Rightarrow> \<lparr>resp_Status = 500, resp_Body = Problem ''internal server error'',
                     resp_Headers = headers\<rparr>)"

definition ServeHTTP ::
  "control_lib \<Rightarrow> 's Server \<Rightarrow> request_env \<Rightarrow> Request \<Rightarrow> 's \<Rightarrow> Response \<times> 's" where
  "ServeHTTP lib s env rq st = map_prod middleware id (mux lib s env rq st)"

lemmas handler_defs = registerAgent_def store_registration_def renewAgentCertificate_def heartbeat_def
  ingestEvents_def listAgents_def listAlerts_def getAgentPolicy_def putAgentPolicy_def store_policy_def
  listAuditLogs_def health_def

lemmas problem_defs = writeProblem_def internalError_def unauthorized_def

end
