(* ===== verification/Control_Props.thy ===== *)
theory Control_Props
  imports Control
begin

text \<open>
  What the control plane guarantees. The lemmas inside the locale \<open>store_impl\<close> use the contract of the
  store only, so they hold for every implementation of it; the theorems state them for the in-memory
  store through the interpretation \<open>memory\<close>.
\<close>

section \<open>Authentication\<close>

text \<open>A request bears a secret if its bearer token hashes like it; it bears the credential of an Agent if the
  token hashes to what the store keeps for that Agent and, where mutual TLS is demanded, the verified
  client certificate names the Agent.\<close>

definition bears_secret :: "control_lib \<Rightarrow> Request \<Rightarrow> string \<Rightarrow> bool" where
  "bears_secret lib rq secret \<longleftrightarrow>
     (\<exists>token. bearerToken rq = Some token \<and> cl_sha256 lib token = cl_sha256 lib secret)"

definition bears_agent :: "control_lib \<Rightarrow> 's Server \<Rightarrow> Request \<Rightarrow> 's \<Rightarrow> string \<Rightarrow> bool" where
  "bears_agent lib s rq st agentID \<longleftrightarrow>
     TrimSpace agentID \<noteq> []
     \<and> (\<exists>token agent. bearerToken rq = Some token \<and> st_AgentByID (srv_store s) st agentID = Inr agent
          \<and> agent_CredentialHash agent = cl_sha256 lib token \<and> length (agent_CredentialHash agent) = 32)
     \<and> (srv_requireAgentMTLS s \<longrightarrow>
          (\<exists>tls leaf chain. rq_TLS rq = Some tls \<and> 0 < tls_VerifiedChains tls
             \<and> tls_PeerCertificates tls = leaf # chain \<and> MatchesAgent leaf agentID))"

lemma authorizeToken_iff: "authorizeToken lib rq secret \<longleftrightarrow> bears_secret lib rq secret"
  by (auto simp: authorizeToken_def bears_secret_def split: option.splits)

lemma authorizeAgent_iff: "authorizeAgent lib s rq agentID st \<longleftrightarrow> bears_agent lib s rq st agentID"
  by (auto simp: authorizeAgent_def bears_agent_def agentCertificateMatches_def split: option.splits sum.splits list.splits)

text \<open>What each route demands of a request.\<close>

fun credential_ok :: "control_lib \<Rightarrow> 's Server \<Rightarrow> Request \<Rightarrow> 's \<Rightarrow> route \<Rightarrow> bool" where
  "credential_ok lib s rq st Register = bears_secret lib rq (srv_bootstrapToken s)"
| "credential_ok lib s rq st RAgents = bears_secret lib rq (srv_adminToken s)"
| "credential_ok lib s rq st RAlerts = bears_secret lib rq (srv_adminToken s)"
| "credential_ok lib s rq st RAudits = bears_secret lib rq (srv_adminToken s)"
| "credential_ok lib s rq st (PutPolicy _) = bears_secret lib rq (srv_adminToken s)"
| "credential_ok lib s rq st (RHeartbeat agentID) = bears_agent lib s rq st agentID"
| "credential_ok lib s rq st (REvents agentID) = bears_agent lib s rq st agentID"
| "credential_ok lib s rq st (RCertificate agentID) = bears_agent lib s rq st agentID"
| "credential_ok lib s rq st (GetPolicy agentID) = bears_agent lib s rq st agentID"
| "credential_ok lib s rq st _ = True"

fun writing_route :: "route \<Rightarrow> bool" where
  "writing_route Register = True"
| "writing_route (RHeartbeat _) = True"
| "writing_route (REvents _) = True"
| "writing_route (PutPolicy _) = True"
| "writing_route _ = False"

lemma reading_handlers_keep:
  "snd (listAgents lib s rq st) = st" "snd (listAlerts lib s rq st) = st"
  "snd (listAuditLogs lib s rq st) = st" "snd (getAgentPolicy lib s rq aid st) = st"
  "snd (renewAgentCertificate lib s env rq aid st) = st" "snd (health st) = st"
  by (simp_all add: handler_defs Let_def split: sum.splits option.splits store_error.splits)

lemma unauthenticated_mux:
  "\<not> credential_ok lib s rq st (route_of (rq_Method rq) (rq_Segments rq)) \<Longrightarrow>
     mux lib s env rq st = (unauthorized, st)"
  by (cases "route_of (rq_Method rq) (rq_Segments rq)")
    (simp_all add: mux_def handler_defs authorizeToken_iff authorizeAgent_iff split: option.splits)

text \<open>A request whose credential is not the one its route demands is answered with 401 and leaves
  the store untouched, whatever its body.\<close>

theorem unauthenticated_rejected:
  assumes "\<not> credential_ok lib s rq st (route_of (rq_Method rq) (rq_Segments rq))"
  shows "ServeHTTP lib s env rq st = (middleware unauthorized, st)
         \<and> resp_Status (middleware unauthorized) = 401"
  using unauthenticated_mux [OF assms] by (simp add: ServeHTTP_def middleware_def problem_defs)

lemma check_watch_paths_None: "check_watch_paths seen items = None \<longleftrightarrow> watch_paths_ok seen items"
  by (induction items arbitrary: seen) auto

lemma store_registration_no_panic:
  "clientCertificate = [] \<or> srv_agentIssuer s \<noteq> None \<Longrightarrow>
     fst (store_registration lib s input now aid cred clientCertificate st) \<noteq> Panic"
  by (auto simp: store_registration_def problem_defs Let_def split: sum.splits store_error.splits option.splits)

lemma validatePolicyRequest_fields:
  "validatePolicyRequest input = None \<Longrightarrow>
     \<exists>f p a r. pr_FileIntegrityEnabled input = Some f \<and> pr_FileWatchPaths input = Some p
       \<and> pr_SSHAuthEnabled input = Some a \<and> pr_RuntimeWatchEnabled input = Some r
       \<and> 0 \<le> pr_ExpectedRevision input \<and> length p \<le> 64 \<and> watch_paths_ok [] p"
  by (auto simp: validatePolicyRequest_def check_watch_paths_None split: option.splits if_splits)

lemma store_policy_no_panic:
  assumes "validatePolicyRequest input = None"
  shows "fst (store_policy s env input pid aid st) \<noteq> Panic"
  using validatePolicyRequest_fields [OF assms]
  by (auto simp: store_policy_def Let_def problem_defs split: option.splits sum.splits store_error.splits)

text \<open>No handler dereferences a nil pointer or indexes an empty slice: the recovery branch of the
  middleware is never taken, for any request, store and server configuration.\<close>

theorem handlers_never_panic: "fst (mux lib s env rq st) \<noteq> Panic"
proof -
  have "fst (registerAgent lib s env rq st) \<noteq> Panic"
    using store_registration_no_panic [where s = s and lib = lib]
    by (auto simp: registerAgent_def problem_defs split: option.splits sum.splits store_error.splits)
  moreover have "fst (putAgentPolicy lib s env rq aid st) \<noteq> Panic" for aid
    using store_policy_no_panic [where s = s]
    by (auto simp: putAgentPolicy_def problem_defs split: option.splits sum.splits)
  moreover have "fst (heartbeat lib s env rq aid st) \<noteq> Panic"
    "fst (ingestEvents lib s env rq aid st) \<noteq> Panic"
    "fst (renewAgentCertificate lib s env rq aid st) \<noteq> Panic"
    "fst (getAgentPolicy lib s rq aid st) \<noteq> Panic" for aid
    by (auto simp: heartbeat_def ingestEvents_def renewAgentCertificate_def getAgentPolicy_def problem_defs
        split: option.splits sum.splits store_error.splits)
  moreover have "fst (listAgents lib s rq st) \<noteq> Panic" "fst (listAlerts lib s rq st) \<noteq> Panic"
    "fst (listAuditLogs lib s rq st) \<noteq> Panic" "fst (health st) \<noteq> Panic"
    by (auto simp: listAgents_def listAlerts_def listAuditLogs_def health_def Let_def problem_defs
        split: option.splits sum.splits)
  ultimately show ?thesis by (simp add: mux_def split: route.splits)
qed

text \<open>C12: the store changes only through one of the four writing routes, with the credential of that
  route, and then the answer is a success; every refused or failed request leaves it as it was.\<close>

theorem state_change_authenticated:
  assumes "ServeHTTP lib s env rq st = (resp, st')" and "st' \<noteq> st"
  shows "writing_route (route_of (rq_Method rq) (rq_Segments rq))
         \<and> credential_ok lib s rq st (route_of (rq_Method rq) (rq_Segments rq))
         \<and> resp_Status resp \<in> {200, 201, 202}"
proof -
  let ?r = "route_of (rq_Method rq) (rq_Segments rq)"
  from assms obtain out where m: "mux lib s env rq st = (out, st')" "resp = middleware out"
    by (auto simp: ServeHTTP_def map_prod_def split: prod.splits)
  have auth: "credential_ok lib s rq st ?r"
    using unauthenticated_mux [of lib s rq st env] assms(2) m(1) by auto
  have "\<exists>body. out = Respond 201 body" if "?r = Register"
    using m(1) assms(2) that store_registration_no_panic [of _ s]
    by (auto simp: mux_def registerAgent_def store_registration_def Let_def
        split: if_splits option.splits sum.splits store_error.splits)
  moreover have "\<exists>body. out = Respond 200 body" if "?r = RHeartbeat aid" for aid
    using m(1) assms(2) that
    by (auto simp: mux_def heartbeat_def split: if_splits option.splits sum.splits store_error.splits)
  moreover have "\<exists>body. out = Respond 202 body" if "?r = REvents aid" for aid
    using m(1) assms(2) that
    by (auto simp: mux_def ingestEvents_def split: if_splits option.splits sum.splits)
  moreover have "\<exists>body. out = Respond 200 body" if "?r = PutPolicy aid" for aid
    using m(1) assms(2) that
    by (auto simp: mux_def putAgentPolicy_def store_policy_def Let_def
        split: if_splits option.splits sum.splits store_error.splits)
  moreover have "writing_route ?r"
    using m(1) assms(2) by (cases ?r) (auto simp: mux_def prod_eq_iff reading_handlers_keep)
  ultimately show ?thesis
    using auth m(2) by (cases ?r) (auto simp: middleware_def)
qed

section \<open>Ingestion of events\<close>

text \<open>What every stored event satisfies: it was validated and redacted under the identity of its sender.\<close>

definition admitted :: "control_lib \<Rightarrow> string \<Rightarrow> time \<Rightarrow> Event \<Rightarrow> bool" where
  "admitted lib agentID now e \<longleftrightarrow>
     event_AgentID e = agentID \<and> event_ReceivedAt e = now \<and> no_secrets (event_Evidence e)
     \<and> ValidateEvent (cl_marshal lib) e now = None"

lemma prepare_events_Inr:
  "prepare_events lib agentID now i es = Inr evs \<Longrightarrow>
     list_all (admitted lib agentID now) evs \<and> map event_ID evs = map event_ID es"
proof (induction es arbitrary: i evs)
  case (Cons e es)
  then obtain rest where "prepare_events lib agentID now (Suc i) es = Inr rest"
      "evs = e\<lparr>event_AgentID := agentID, event_ReceivedAt := now,
                event_Evidence := RedactMap (event_Evidence e)\<rparr> # rest"
      "ValidateEvent (cl_marshal lib) (hd evs) now = None"
    by (cases "prepare_events lib agentID now (Suc i) es")
      (auto simp: Let_def split: option.splits)
  then show ?case using Cons.IH [of "Suc i" rest] by (simp add: admitted_def)
qed simp

lemma ingestEvents_202:
  assumes "ingestEvents lib s env rq agentID st = (Respond 202 body, st')"
  shows "\<exists>input events inserted. authorizeAgent lib s rq agentID st
      \<and> decodeJSON (cl_events lib) (rq_Body rq) (srv_maxBodyBytes s) = Some input
      \<and> prepare_events lib agentID (env_now env) 0 input = Inr events
      \<and> 1 \<le> length input \<and> length input \<le> 100
      \<and> st_SaveEvents (srv_store s) st events = Inr (inserted, st')
      \<and> body = Accepted inserted (int (length events) - int inserted)"
  using assms
  by (auto simp: ingestEvents_def problem_defs maxEventBatch_def Suc_le_eq
      split: if_splits option.splits sum.splits)

context store_impl
begin

lemma ingest_effect:
  assumes "invar st" and "srv_store s = ops"
    and "ingestEvents lib s env rq agentID st = (Respond 202 (Accepted n d), st')"
  shows "\<exists>input. decodeJSON (cl_events lib) (rq_Body rq) (srv_maxBodyBytes s) = Some input
      \<and> int n + d = int (length input)
      \<and> n = card (event_ID ` set input - dom (repo_events (abs st)))
      \<and> dom (repo_events (abs st')) = dom (repo_events (abs st)) \<union> event_ID ` set input
      \<and> (\<forall>k e. repo_events (abs st) k = Some e \<longrightarrow> repo_events (abs st') k = Some e)
      \<and> (\<forall>k e. repo_events (abs st') k = Some e \<longrightarrow>
            repo_events (abs st) k = Some e \<or> admitted lib agentID (env_now env) e)
      \<and> abs st' = (abs st)\<lparr>repo_events := repo_events (abs st')\<rparr> \<and> invar st'"
proof -
  from ingestEvents_202 [OF assms(3)] obtain input events where
    i: "decodeJSON (cl_events lib) (rq_Body rq) (srv_maxBodyBytes s) = Some input"
      "prepare_events lib agentID (env_now env) 0 input = Inr events"
      "st_SaveEvents ops st events = Inr (n, st')" "d = int (length events) - int n"
    using assms(2) by auto
  have p: "list_all (admitted lib agentID (env_now env)) events" "map event_ID events = map event_ID input"
    using prepare_events_Inr [OF i(2)] by auto
  then have ids: "event_ID ` set events = event_ID ` set input" "length events = length input"
    by (metis list.set_map, metis length_map)
  have ev: "repo_events (abs st') = snd (add_events (repo_events (abs st)) events)"
    and whole: "abs st' = (abs st)\<lparr>repo_events := snd (add_events (repo_events (abs st)) events)\<rparr>"
    using save_events_ok [OF assms(1) i(3)] by (simp_all add: repo_save_events_iff)
  have n: "n = card (event_ID ` set input - dom (repo_events (abs st)))"
    using inserted_count [OF assms(1) i(3)] ids(1) by simp
  have dom: "dom (repo_events (abs st')) = dom (repo_events (abs st)) \<union> event_ID ` set input"
    using add_events_dom [of "repo_events (abs st)" events] ids(1) unfolding ev by simp
  have keep: "\<forall>k e. repo_events (abs st) k = Some e \<longrightarrow> repo_events (abs st') k = Some e"
    using add_events_keeps unfolding ev by blast
  have new: "\<forall>k e. repo_events (abs st') k = Some e \<longrightarrow>
            repo_events (abs st) k = Some e \<or> admitted lib agentID (env_now env) e"
    using add_events_new [of "repo_events (abs st)" events] p(1) unfolding ev
    by (auto simp: list_all_iff)
  show ?thesis
    using i(1,4) n dom keep new whole ev ids(2) save_events_invar [OF assms(1) i(3)]
    by (intro exI [of _ input]) simp
qed

end

text \<open>C11: a batch answered with 202 is stored as a whole. The two counts of the answer add up to the
  length of the batch, the first is the number of identifiers that were new; afterwards every
  identifier of the batch is stored, no older event has changed, and each new event carries the
  identity of the authenticated Agent and the receiving time, passed \<open>ValidateEvent\<close> and holds no
  value under a key that names a secret.\<close>

theorem ingest_stores_batch:
  assumes "mem_inv st" and "srv_store s = memory_store"
    and "ingestEvents lib s env rq agentID st = (Respond 202 (Accepted n d), st')"
  shows "\<exists>input. decodeJSON (cl_events lib) (rq_Body rq) (srv_maxBodyBytes s) = Some input
      \<and> int n + d = int (length input)
      \<and> n = card (event_ID ` set input - set (keys (mem_events st)))
      \<and> set (keys (mem_events st')) = set (keys (mem_events st)) \<union> event_ID ` set input
      \<and> (\<forall>k e. map_of (mem_events st) k = Some e \<longrightarrow> map_of (mem_events st') k = Some e)
      \<and> (\<forall>k e. map_of (mem_events st') k = Some e \<longrightarrow>
            map_of (mem_events st) k = Some e \<or> admitted lib agentID (env_now env) e)
      \<and> mem_inv st'"
  using memory.ingest_effect [OF assms] by (auto simp: dom_map_of_conv_image_fst)

section \<open>Registration\<close>

lemma registerAgent_201:
  assumes "registerAgent lib s env rq st = (Respond 201 body, st')"
  shows "\<exists>input aid cred agent r. authorizeToken lib rq (srv_bootstrapToken s)
      \<and> decodeJSON (cl_registration lib) (rq_Body rq) (srv_maxBodyBytes s) = Some input
      \<and> st_AgentByMachineID (srv_store s) st (reg_MachineID input) = Inl ErrNotFound
      \<and> Random (env_read env 0) ''agt_'' 18 = Inr aid \<and> Random (env_read env 1) ''msc_'' 32 = Inr cred
      \<and> st_CreateAgent (srv_store s) st agent = Inr st'
      \<and> agent_ID agent = aid \<and> agent_MachineID agent = reg_MachineID input
      \<and> agent_CredentialHash agent = cl_sha256 lib cred
      \<and> body = Registration r \<and> rr_AgentID r = aid \<and> rr_Credential r = cred"
proof -
  from assms obtain input aid cred cert where i: "authorizeToken lib rq (srv_bootstrapToken s)"
      "decodeJSON (cl_registration lib) (rq_Body rq) (srv_maxBodyBytes s) = Some input"
      "st_AgentByMachineID (srv_store s) st (reg_MachineID input) = Inl ErrNotFound"
      "Random (env_read env 0) ''agt_'' 18 = Inr aid" "Random (env_read env 1) ''msc_'' 32 = Inr cred"
      "store_registration lib s input (env_now env) aid cred cert st = (Respond 201 body, st')"
    by (auto simp: registerAgent_def problem_defs split: if_splits option.splits sum.splits store_error.splits)
  from i(6) show ?thesis
    using i(1-5)
    by (fastforce simp: store_registration_def Let_def problem_defs
        split: if_splits option.splits sum.splits store_error.splits)
qed

lemma visible_not_blank: "visible c \<Longrightarrow> c \<notin> {CHR '' '', byte 9, byte 13, byte 10}"
  by (auto simp: visible_def byte_def)

text \<open>The header an Agent sends with a credential is read back as that credential.\<close>

lemma bearerToken_Bearer:
  assumes "rq_Authorization rq = ''Bearer '' @ token" and "token \<noteq> []" and "list_all visible token"
  shows "bearerToken rq = Some token"
proof -
  have "visible (last token)" using assms(2,3) by (simp add: list_all_iff)
  then have "TrimSpace (''Bearer '' @ token) = ''Bearer'' @ CHR '' '' # token"
    using assms(2) by (subst TrimSpace_visible) (simp_all add: visible_def)
  moreover have "CutChar (CHR '' '') (''Bearer'' @ CHR '' '' # token) = Some (''Bearer'', token)"
    by (rule CutChar_append) simp
  moreover have "\<not> ContainsAny token [CHR '' '', byte 9, byte 13, byte 10]"
    using assms(3) visible_not_blank by (fastforce simp: ContainsAny_def list_all_iff list_ex_iff)
  ultimately show ?thesis
    unfolding bearerToken_def assms(1) using assms(2) by (simp add: EqualFold_def)
qed

lemma credential_visible:
  assumes "Random read ''msc_'' 32 = Inr cred"
  shows "cred \<noteq> [] \<and> list_all visible cred"
proof -
  obtain t where t: "cred = ''msc_'' @ t" "list_all url_safe t" using Random_prefix [OF assms] by blast
  have "list_all visible ''msc_''" by code_simp
  then show ?thesis using t url_safe_visible by (simp add: list_all_iff)
qed

lemma Random_not_blank:
  assumes "Random read pre sz = Inr s" and "pre \<noteq> []" and "list_all visible pre"
  shows "TrimSpace s \<noteq> []"
proof -
  obtain t where t: "s = pre @ t" "list_all url_safe t" using Random_prefix [OF assms(1)] by blast
  have "list_all visible s" using t assms(3) url_safe_visible by (auto simp: list_all_iff)
  moreover have "s \<noteq> []" using t(1) assms(2) by simp
  ultimately have "visible (hd s)" "visible (last s)" by (simp_all add: list_all_iff del: append_is_Nil_conv)
  then show ?thesis using \<open>s \<noteq> []\<close> by (simp add: TrimSpace_visible)
qed

text \<open>C21: the credential handed out by a successful registration authenticates: a later request that
  bears it is authorized for the new Agent (where mutual TLS is not demanded as well), and the
  identifier of the machine leads to that Agent.\<close>

theorem registration_roundtrip:
  assumes "mem_inv st" and "srv_store s = memory_store" and "\<not> srv_requireAgentMTLS s"
    and "\<And>x. length (cl_sha256 lib x) = 32"
    and "registerAgent lib s env rq st = (Respond 201 (Registration r), st')"
    and "rq_Authorization rq2 = ''Bearer '' @ rr_Credential r"
  shows "authorizeAgent lib s rq2 (rr_AgentID r) st'
         \<and> (\<exists>input. decodeJSON (cl_registration lib) (rq_Body rq) (srv_maxBodyBytes s) = Some input
              \<and> (\<exists>a. AgentByMachineID st' (reg_MachineID input) = Inr a \<and> agent_ID a = rr_AgentID r))"
proof -
  from registerAgent_201 [OF assms(5)] obtain input aid cred agent where i:
      "decodeJSON (cl_registration lib) (rq_Body rq) (srv_maxBodyBytes s) = Some input"
      "Random (env_read env 0) ''agt_'' 18 = Inr aid" "Random (env_read env 1) ''msc_'' 32 = Inr cred"
      "CreateAgent st agent = Inr st'" "agent_ID agent = aid" "agent_MachineID agent = reg_MachineID input"
      "agent_CredentialHash agent = cl_sha256 lib cred" "rr_AgentID r = aid" "rr_Credential r = cred"
    using assms(2) by auto
  have found: "AgentByID st' aid = Inr agent"
    using i(4,5) by (auto simp: CreateAgent_def AgentByID_def split: if_splits)
  have "bearerToken rq2 = Some cred"
    using bearerToken_Bearer assms(6) i(9) credential_visible [OF i(3)] by metis
  then have "authorizeAgent lib s rq2 aid st'"
    using Random_not_blank [OF i(2)] found i(7) assms(2,3,4) by (simp add: authorizeAgent_def visible_def)
  moreover have "AgentByMachineID st' (reg_MachineID input) = Inr agent"
    using i(4,5,6) by (auto simp: CreateAgent_def AgentByMachineID_def split: if_splits)
  ultimately show ?thesis using i by auto
qed

context store_impl
begin

lemma registration_unique:
  assumes "invar st" and "srv_store s = ops"
    and "registerAgent lib s env rq st = (Respond 201 b, st')"
    and "registerAgent lib s env2 rq2 st' = (Respond 201 b2, st'')"
    and "decodeJSON (cl_registration lib) (rq_Body rq) (srv_maxBodyBytes s) = Some i1"
    and "decodeJSON (cl_registration lib) (rq_Body rq2) (srv_maxBodyBytes s) = Some i2"
  shows "reg_MachineID i1 \<noteq> reg_MachineID i2"
proof
  assume same: "reg_MachineID i1 = reg_MachineID i2"
  obtain a where a: "st_CreateAgent ops st a = Inr st'" "agent_MachineID a = reg_MachineID i1"
    using registerAgent_201 [OF assms(3)] assms(2,5) by auto
  obtain a2 where a2: "st_CreateAgent ops st' a2 = Inr st''" "agent_MachineID a2 = reg_MachineID i2"
    using registerAgent_201 [OF assms(4)] assms(2,6) by auto
  show False using second_registration_refused [OF assms(1) a(1), of a2 st''] a a2 same by simp
qed

end

text \<open>two successful registrations in a row are for two different machines, whoever sends them.\<close>

theorem one_agent_per_machine:
  assumes "mem_inv st" and "srv_store s = memory_store"
    and "registerAgent lib s env rq st = (Respond 201 b, st')"
    and "registerAgent lib s env2 rq2 st' = (Respond 201 b2, st'')"
    and "decodeJSON (cl_registration lib) (rq_Body rq) (srv_maxBodyBytes s) = Some i1"
    and "decodeJSON (cl_registration lib) (rq_Body rq2) (srv_maxBodyBytes s) = Some i2"
  shows "reg_MachineID i1 \<noteq> reg_MachineID i2"
  using memory.registration_unique [OF assms] .

section \<open>Policies\<close>

lemma store_policy_200:
  assumes "store_policy s env input pid aid st = (Respond 200 body, st')"
  shows "\<exists>p auditID. body = PolicyBody p \<and> wf_policy p \<and> policy_AgentID p = aid \<and> policy_ID p = pid
      \<and> policy_Revision p = wrap64 (pr_ExpectedRevision input + 1) \<and> sorted (policy_FileWatchPaths p)
      \<and> st_SavePolicyAndAudit (srv_store s) st p (pr_ExpectedRevision input)
          (policy_audit auditID p (pr_ExpectedRevision input)) = Inr st'"
proof -
  from assms obtain f a r p auditID where i:
      "p = policy_of_request input pid aid (env_now env) f a r" "ValidatePolicy p = None"
      "st_SavePolicyAndAudit (srv_store s) st p (pr_ExpectedRevision input)
          (policy_audit auditID p (pr_ExpectedRevision input)) = Inr st'" "body = PolicyBody p"
    by (auto simp: store_policy_def Let_def problem_defs
        split: option.splits sum.splits store_error.splits)
  then have "wf_policy p" by (simp add: ValidatePolicy_iff)
  moreover have "sorted (policy_FileWatchPaths p)"
    using i(1) by (simp add: policy_of_request_def split: option.splits)
  ultimately show ?thesis using i by (auto simp: policy_of_request_def)
qed

lemma putAgentPolicy_200:
  assumes "putAgentPolicy lib s env rq aid st = (Respond 200 body, st')"
  shows "\<exists>input p auditID agent.
      decodeJSON (cl_policy lib) (rq_Body rq) (srv_maxBodyBytes s) = Some input
      \<and> 0 \<le> pr_ExpectedRevision input \<and> st_AgentByID (srv_store s) st aid = Inr agent
      \<and> body = PolicyBody p \<and> wf_policy p \<and> policy_AgentID p = aid
      \<and> policy_Revision p = wrap64 (pr_ExpectedRevision input + 1) \<and> sorted (policy_FileWatchPaths p)
      \<and> st_SavePolicyAndAudit (srv_store s) st p (pr_ExpectedRevision input)
          (policy_audit auditID p (pr_ExpectedRevision input)) = Inr st'"
proof -
  from assms obtain input pid agent where i:
      "decodeJSON (cl_policy lib) (rq_Body rq) (srv_maxBodyBytes s) = Some input"
      "st_AgentByID (srv_store s) st aid = Inr agent" "validatePolicyRequest input = None"
      "store_policy s env input pid aid st = (Respond 200 body, st')"
    by (auto simp: putAgentPolicy_def problem_defs split: if_splits option.splits sum.splits)
  show ?thesis using i(1,2) validatePolicyRequest_fields [OF i(3)] store_policy_200 [OF i(4)] by blast
qed

context store_impl
begin

lemma put_policy_lost_update:
  assumes "invar st" and "srv_store s = ops"
    and "putAgentPolicy lib s env rq aid st = (Respond 200 body, st')"
    and "putAgentPolicy lib s env2 rq2 aid st' = (Respond 200 body2, st'')"
    and "decodeJSON (cl_policy lib) (rq_Body rq) (srv_maxBodyBytes s) = Some i1"
    and "decodeJSON (cl_policy lib) (rq_Body rq2) (srv_maxBodyBytes s) = Some i2"
    and "pr_ExpectedRevision i1 < 2 ^ 63"
  shows "pr_ExpectedRevision i1 \<noteq> pr_ExpectedRevision i2"
proof
  assume same: "pr_ExpectedRevision i1 = pr_ExpectedRevision i2"
  obtain p au where p: "st_SavePolicyAndAudit ops st p (pr_ExpectedRevision i1) au = Inr st'"
      "policy_AgentID p = aid" "0 \<le> pr_ExpectedRevision i1"
    using putAgentPolicy_200 [OF assms(3)] assms(2,5) by auto
  obtain q au2 where q: "st_SavePolicyAndAudit ops st' q (pr_ExpectedRevision i1) au2 = Inr st''"
      "policy_AgentID q = aid"
    using putAgentPolicy_200 [OF assms(4)] assms(2,6) same by auto
  show False using lost_update_refused [OF assms(1) p(1), of q au2 st''] p(2,3) q assms(7) by simp
qed

end


text \<open>A policy that was accepted is the one the Agent reads, and its audit entry was stored with it.\<close>

theorem policy_put_then_get:
  assumes "mem_inv st" and "srv_store s = memory_store"
    and "putAgentPolicy lib s env rq aid st = (Respond 200 body, st')"
    and "authorizeAgent lib s rq2 aid st'"
  shows "getAgentPolicy lib s rq2 aid st' = (Respond 200 body, st')
         \<and> (\<exists>p k a. body = PolicyBody p \<and> wf_policy p \<and> map_of (mem_policies st') aid = Some p
              \<and> map_of (mem_audits st) k = None \<and> map_of (mem_audits st') k = Some a
              \<and> audit_Resource a = policy_resource aid \<and> audit_OccurredAt a = policy_UpdatedAt p)"
proof -
  from putAgentPolicy_200 [OF assms(3), unfolded assms(2)]
  obtain input :: policyRequest and p auditID where p: "body = PolicyBody p" "wf_policy p"
      "policy_AgentID p = aid" and
      save: "st_SavePolicyAndAudit memory_store st p (pr_ExpectedRevision input)
          (policy_audit auditID p (pr_ExpectedRevision input)) = Inr st'"
    by blast
  from memory.save_policy_effect [OF assms(1) save] p(3) have
    "map_of (mem_policies st') aid = Some p"
    "map_of (mem_audits st') auditID = Some (policy_audit auditID p (pr_ExpectedRevision input))"
    "map_of (mem_audits st) auditID = None"
    by (auto simp: mem_abs_def policy_audit_def)
  then show ?thesis
    using p assms(2,4) by (auto simp: getAgentPolicy_def PolicyForAgent_def policy_audit_def)
qed

section \<open>Every reachable state\<close>

definition policy_audits :: "repo \<Rightarrow> string \<Rightarrow> string set" where
  "policy_audits r aid = {k. \<exists>a. repo_audits r k = Some a \<and> audit_Resource a = policy_resource aid}"

text \<open>The revision of an Agent's policy is the number of audit entries about it: every change was audited,
  once. Policies and events belong to registered Agents and satisfy what was checked on entry.\<close>

definition repo_good :: "repo \<Rightarrow> bool" where
  "repo_good r \<longleftrightarrow>
     finite (dom (repo_audits r))
     \<and> (\<forall>aid p. repo_policies r aid = Some p \<longrightarrow> wf_policy p \<and> sorted (policy_FileWatchPaths p)
          \<and> policy_Revision p < 2 ^ 63 \<and> aid \<in> dom (repo_agents r))
     \<and> (\<forall>k e. repo_events r k = Some e \<longrightarrow> no_secrets (event_Evidence e)
          \<and> Severity_Valid (event_Severity e) \<and> event_AgentID e \<in> dom (repo_agents r))
     \<and> (\<forall>aid. int (card (policy_audits r aid)) =
          (case repo_policies r aid of None \<Rightarrow> 0 | Some p \<Rightarrow> policy_Revision p))"

lemma repo_good_agents:
  "repo_good r \<Longrightarrow> dom (repo_agents r) \<subseteq> dom m \<Longrightarrow> repo_good (r\<lparr>repo_agents := m\<rparr>)"
  unfolding repo_good_def policy_audits_def by simp blast

lemma policy_resource_inj: "policy_resource a = policy_resource b \<longleftrightarrow> a = b"
  by (simp add: policy_resource_def)

lemma repo_good_events:
  assumes "repo_good r" and "\<And>k e. m k = Some e \<Longrightarrow> repo_events r k = Some e
      \<or> no_secrets (event_Evidence e) \<and> Severity_Valid (event_Severity e)
        \<and> event_AgentID e \<in> dom (repo_agents r)"
  shows "repo_good (r\<lparr>repo_events := m\<rparr>)"
  using assms unfolding repo_good_def policy_audits_def by simp blast

lemma wrap64_succ:
  assumes "0 \<le> n" and "n < 2 ^ 63" and "1 \<le> wrap64 (n + 1)"
  shows "wrap64 (n + 1) = n + 1"
  using assms by (cases "n = 2 ^ 63 - 1") (simp_all add: wrap64_def)

lemma repo_good_save_policy:
  assumes good: "repo_good r" and wf: "wf_policy p" "sorted (policy_FileWatchPaths p)"
    and rev: "policy_Revision p = wrap64 (n + 1)"
    and cur: "case repo_policies r (policy_AgentID p) of None \<Rightarrow> n = 0 | Some q \<Rightarrow> policy_Revision q = n"
    and agent: "policy_AgentID p \<in> dom (repo_agents r)"
    and fresh: "k \<notin> dom (repo_audits r)" and au: "audit_Resource au = policy_resource (policy_AgentID p)"
  shows "repo_good (r\<lparr>repo_policies := (repo_policies r)(policy_AgentID p \<mapsto> p),
                      repo_audits := (repo_audits r)(k \<mapsto> au)\<rparr>)" (is "repo_good ?r")
proof -
  let ?aid = "policy_AgentID p"
  have fin: "finite (dom (repo_audits r))" using good by (simp add: repo_good_def)
  have n: "int (card (policy_audits r ?aid)) = n"
    using good cur unfolding repo_good_def by (auto split: option.splits)
  have pos: "0 \<le> n" using n by linarith
  have bound: "n < 2 ^ 63"
    using cur good unfolding repo_good_def by (auto split: option.splits)
  have succ: "policy_Revision p = n + 1"
    using wrap64_succ [OF pos bound] rev wf(1) by (simp add: wf_policy_def)
  have other: "policy_audits ?r aid = policy_audits r aid" if "aid \<noteq> ?aid" for aid
    using that fresh au by (auto simp: policy_audits_def policy_resource_inj)
  have "policy_audits ?r ?aid = insert k (policy_audits r ?aid)" "k \<notin> policy_audits r ?aid"
    using fresh au by (auto simp: policy_audits_def)
  moreover have "finite (policy_audits r ?aid)"
    by (rule finite_subset [OF _ fin]) (auto simp: policy_audits_def)
  ultimately have card: "int (card (policy_audits ?r ?aid)) = policy_Revision p" using n succ by simp
  have "int (card (policy_audits ?r aid)) =
      (case repo_policies ?r aid of None \<Rightarrow> 0 | Some q \<Rightarrow> policy_Revision q)" for aid
    using card other [of aid] good unfolding repo_good_def by (cases "aid = ?aid") simp_all
  moreover have "policy_Revision p < 2 ^ 63" using rev wrap64_range [of "n + 1"] by simp
  ultimately show ?thesis
    using good wf agent fin unfolding repo_good_def by simp
qed

text \<open>The states the control plane can be in: any sequence of requests, with any clock and random bytes.\<close>

inductive reachable :: "control_lib \<Rightarrow> 's Server \<Rightarrow> 's \<Rightarrow> 's \<Rightarrow> bool" for lib s st0 where
  reachable_start: "reachable lib s st0 st0"
| reachable_request: "reachable lib s st0 st \<Longrightarrow> reachable lib s st0 (snd (ServeHTTP lib s env rq st))"

context store_impl
begin

lemma authorized_agent_exists:
  assumes "invar st" and "srv_store s = ops" and "authorizeAgent lib s rq aid st"
  shows "aid \<in> dom (repo_agents (abs st))"
  using assms by_id_ok [OF assms(1), of aid]
  by (auto simp: authorizeAgent_def split: if_splits option.splits sum.splits)

lemma register_good:
  assumes "invar st" and "srv_store s = ops" and "repo_good (abs st)"
  shows "invar (snd (registerAgent lib s env rq st)) \<and> repo_good (abs (snd (registerAgent lib s env rq st)))"
proof -
  obtain out st' where m: "registerAgent lib s env rq st = (out, st')" by fastforce
  consider "st' = st" | a where "st_CreateAgent ops st a = Inr st'"
    using m assms(2)
    by (auto simp: registerAgent_def store_registration_def Let_def
        split: if_splits option.splits sum.splits store_error.splits)
  then show ?thesis
  proof cases
    case 2
    then have "repo_create_agent (abs st) a = Inr (abs st')" by (rule create_ok [OF assms(1)])
    then have "abs st' = (abs st)\<lparr>repo_agents := (repo_agents (abs st))(agent_ID a \<mapsto> a)\<rparr>"
      by (auto simp: repo_create_agent_def split: if_splits)
    then show ?thesis
      using m create_invar [OF assms(1) 2] repo_good_agents [OF assms(3)] by (simp add: subset_insertI)
  qed (use m assms in auto)
qed

lemma heartbeat_good:
  assumes "invar st" and "srv_store s = ops" and "repo_good (abs st)"
  shows "invar (snd (heartbeat lib s env rq aid st)) \<and> repo_good (abs (snd (heartbeat lib s env rq aid st)))"
proof -
  obtain out st' where m: "heartbeat lib s env rq aid st = (out, st')" by fastforce
  consider "st' = st" | hb where "st_UpdateHeartbeat ops st aid hb = Inr st'"
    using m assms(2)
    by (auto simp: heartbeat_def split: if_splits option.splits sum.splits store_error.splits)
  then show ?thesis
  proof cases
    case 2
    then have "repo_heartbeat (abs st) aid hb = Inr (abs st')" by (rule heartbeat_ok [OF assms(1)])
    then obtain b where "(abs st)\<lparr>repo_agents := (repo_agents (abs st))(aid \<mapsto> b)\<rparr> = abs st'"
      by (auto simp: repo_heartbeat_def split: option.splits)
    note this [symmetric]
    then show ?thesis
      using m heartbeat_invar [OF assms(1) 2] repo_good_agents [OF assms(3)] by (simp add: subset_insertI)
  qed (use m assms in auto)
qed

lemma ingest_good:
  assumes "invar st" and "srv_store s = ops" and "repo_good (abs st)"
  shows "invar (snd (ingestEvents lib s env rq aid st))
         \<and> repo_good (abs (snd (ingestEvents lib s env rq aid st)))"
proof -
  obtain out st' where m: "ingestEvents lib s env rq aid st = (out, st')" by fastforce
  consider "st' = st" | n d where "out = Respond 202 (Accepted n d)"
      "authorizeAgent lib s rq aid st"
    using m by (auto simp: ingestEvents_def split: if_splits option.splits sum.splits)
  then show ?thesis
  proof cases
    case 2
    from ingest_effect [OF assms(1,2) m [unfolded 2(1)]] have
      new: "\<And>k e. repo_events (abs st') k = Some e \<Longrightarrow>
            repo_events (abs st) k = Some e \<or> admitted lib aid (env_now env) e"
      and "abs st' = (abs st)\<lparr>repo_events := repo_events (abs st')\<rparr>" and inv: "invar st'"
      by blast+
    have "repo_good ((abs st)\<lparr>repo_events := repo_events (abs st')\<rparr>)"
      by (rule repo_good_events [OF assms(3)])
        (use new authorized_agent_exists [OF assms(1,2) 2(2)] in
          \<open>auto simp: admitted_def ValidateEvent_None\<close>)
    then show ?thesis
      using m inv \<open>abs st' = (abs st)\<lparr>repo_events := repo_events (abs st')\<rparr>\<close> by simp
  qed (use m assms in auto)
qed

lemma put_policy_good:
  assumes "invar st" and "srv_store s = ops" and "repo_good (abs st)"
  shows "invar (snd (putAgentPolicy lib s env rq aid st))
         \<and> repo_good (abs (snd (putAgentPolicy lib s env rq aid st)))"
proof -
  obtain out st' where m: "putAgentPolicy lib s env rq aid st = (out, st')" by fastforce
  consider "st' = st" | body where "out = Respond 200 body"
    using m by (auto simp: putAgentPolicy_def store_policy_def Let_def
        split: if_splits option.splits sum.splits store_error.splits)
  then show ?thesis
  proof cases
    case 2
    from putAgentPolicy_200 [OF m [unfolded 2], unfolded assms(2)]
    obtain input :: policyRequest and p auditID agent where p: "st_AgentByID ops st aid = Inr agent"
        "wf_policy p" "policy_AgentID p = aid" "policy_Revision p = wrap64 (pr_ExpectedRevision input + 1)"
        "sorted (policy_FileWatchPaths p)"
        "st_SavePolicyAndAudit ops st p (pr_ExpectedRevision input)
           (policy_audit auditID p (pr_ExpectedRevision input)) = Inr st'"
      by blast
    note eff = save_policy_effect [OF assms(1) p(6)]
    have agent: "policy_AgentID p \<in> dom (repo_agents (abs st))"
      using by_id_ok [OF assms(1) p(1)] p(3) by auto
    have "repo_good (abs st')"
      unfolding eff [THEN conjunct1]
      by (rule repo_good_save_policy [OF assms(3) p(2,5,4) _ agent]) (use eff in \<open>simp_all add: policy_audit_def\<close>)
    then show ?thesis using m save_policy_invar [OF assms(1) p(6)] by simp
  qed (use m assms in auto)
qed

lemma ServeHTTP_good:
  assumes "invar st" and "srv_store s = ops" and "repo_good (abs st)"
  shows "invar (snd (ServeHTTP lib s env rq st)) \<and> repo_good (abs (snd (ServeHTTP lib s env rq st)))"
  using assms register_good [OF assms] heartbeat_good [OF assms] ingest_good [OF assms]
    put_policy_good [OF assms]
  by (simp add: ServeHTTP_def mux_def reading_handlers_keep split: route.splits)

lemma reachable_good:
  assumes "reachable lib s st0 st" and "srv_store s = ops" and "invar st0" and "repo_good (abs st0)"
  shows "invar st \<and> repo_good (abs st)"
  using assms(1) by induction (use assms(2-4) ServeHTTP_good in auto)

end


end
