(* ===== verification/Control_Witness.thy ===== *)
theory Control_Witness
  imports Control_Props
begin

text \<open>
  A small run of the control plane on the in-memory store: one Agent registers, sends an event and
  receives a policy. The theorems of theory Control_Props are applied to its states.
\<close>

definition sample_control :: control_lib where
  "sample_control =
     \<lparr>cl_sha256 = (\<lambda>_. replicate 32 (CHR ''h'')), cl_x509 = sample_lib,
      cl_marshal = (\<lambda>_. Inr ''{}''),
      cl_registration = (\<lambda>body. Some (\<lparr>reg_MachineID = body, reg_Hostname = ''h'', reg_Version = ''1'',
        reg_Platform = ''linux'', reg_Architecture = ''amd64'', reg_ClientCSR = []\<rparr>, [])),
      cl_certificate = (\<lambda>body. Some (body, [])),
      cl_heartbeat = (\<lambda>body. Some (\<lparr>hr_AgentVersion = body, hr_QueueDepth = 0\<rparr>, [])),
      cl_events = (\<lambda>body. Some ([\<lparr>event_ID = body, event_AgentID = [], event_Kind = ''k'',
        event_Severity = ''low'', event_Summary = ''s'', event_OccurredAt = 5, event_ReceivedAt = 0,
        event_Evidence = Some [(''token'', AStr ''x'')]\<rparr>], [])),
      cl_policy = (\<lambda>body. Some (\<lparr>pr_ExpectedRevision = 0, pr_FileIntegrityEnabled = Some True,
        pr_FileWatchPaths = Some [''/etc''], pr_SSHAuthEnabled = Some True, pr_SSHThreshold = 5,
        pr_SSHWindowSeconds = 60, pr_RuntimeWatchEnabled = Some True\<rparr>, []))\<rparr>"

definition sample_server :: "Memory Server" where
  "sample_server = \<lparr>srv_store = memory_store, srv_bootstrapToken = ''bootstrap-token-1'',
     srv_adminToken = ''admin-token-12345'', srv_maxBodyBytes = 1048576, srv_agentIssuer = None,
     srv_requireAgentMTLS = False\<rparr>"

definition sample_env :: "nat \<Rightarrow> request_env" where
  "sample_env n = \<lparr>env_now = 10, env_read = (\<lambda>k sz. Inr (replicate sz (byte (k + n))))\<rparr>"

definition sample_request :: "string \<Rightarrow> string list \<Rightarrow> string \<Rightarrow> string \<Rightarrow> Request" where
  "sample_request m segs token body = \<lparr>rq_Method = m, rq_Segments = segs,
     rq_Authorization = ''Bearer '' @ token, rq_Body = body, rq_limit = [], rq_severity = [], rq_TLS = None\<rparr>"

definition sample_register :: "string \<Rightarrow> Request" where
  "sample_register = sample_request ''POST'' [''v1'', ''agents'', ''register''] ''bootstrap-token-1''"

definition sample_agentID :: string where
  "sample_agentID = ''agt_'' @ RawURLEncoding (replicate 18 (byte 0))"

definition sample_credential :: string where
  "sample_credential = ''msc_'' @ RawURLEncoding (replicate 32 (byte 1))"

definition sample_events :: Request where
  "sample_events = sample_request ''POST'' [''v1'', ''agents'', sample_agentID, ''events''] sample_credential ''evt_1''"

definition sample_put :: Request where
  "sample_put = sample_request ''PUT'' [''v1'', ''agents'', sample_agentID, ''policy''] ''admin-token-12345'' []"

definition sample_get :: Request where
  "sample_get = sample_request ''GET'' [''v1'', ''agents'', sample_agentID, ''policy''] sample_credential []"

definition registered_state :: Memory where
  "registered_state = snd (registerAgent sample_control sample_server (sample_env 0) (sample_register ''m1'') NewMemory)"

definition ingested_state :: Memory where
  "ingested_state = snd (ingestEvents sample_control sample_server (sample_env 0) sample_events sample_agentID registered_state)"

definition policy_state :: Memory where
  "policy_state = snd (putAgentPolicy sample_control sample_server (sample_env 0) sample_put sample_agentID registered_state)"

definition sample_reg_response :: registrationResponse where
  "sample_reg_response = \<lparr>rr_AgentID = sample_agentID, rr_Credential = sample_credential,
     rr_ClientCertificate = [], rr_ClientCACertificate = []\<rparr>"

lemma sample_server_sel [simp]:
  "srv_store sample_server = memory_store" "srv_agentIssuer sample_server = None"
  "srv_requireAgentMTLS sample_server = False" "srv_maxBodyBytes sample_server = 1048576"
  by (simp_all add: sample_server_def)

lemma sample_request_sel [simp]:
  "rq_Method (sample_request m segs token body) = m"
  "rq_Segments (sample_request m segs token body) = segs"
  "rq_Authorization (sample_request m segs token body) = ''Bearer '' @ token"
  "rq_Body (sample_request m segs token body) = body"
  by (simp_all add: sample_request_def)

lemma sample_bodies [simp]:
  "rq_Body (sample_register body) = body" "rq_Body sample_put = []" "rq_Body sample_events = ''evt_1''"
  "rq_Authorization sample_get = ''Bearer '' @ sample_credential"
  by (simp_all add: sample_register_def sample_put_def sample_events_def sample_get_def)

lemma sample_env_now [simp]: "env_now (sample_env n) = 10"
  by (simp add: sample_env_def)

lemma sample_sha256 [simp]: "cl_sha256 sample_control x = replicate 32 (CHR ''h'')"
  by (simp add: sample_control_def)

lemma sample_bearer:
  "token \<noteq> [] \<Longrightarrow> list_all visible token \<Longrightarrow> bearerToken (sample_request m segs token body) = Some token"
  by (rule bearerToken_Bearer) simp_all

lemma sample_ids:
  "Random (env_read (sample_env 0) 0) ''agt_'' 18 = Inr sample_agentID"
  "Random (env_read (sample_env 0) (Suc 0)) ''msc_'' 32 = Inr sample_credential"
  by (simp_all add: Random_def sample_env_def sample_agentID_def sample_credential_def)

lemma sample_tokens [simp]:
  "bearerToken (sample_register body) = Some ''bootstrap-token-1''"
  "bearerToken sample_put = Some ''admin-token-12345''"
  "bearerToken sample_events = Some sample_credential" "bearerToken sample_get = Some sample_credential"
  unfolding sample_register_def sample_put_def sample_events_def sample_get_def
  using credential_visible [OF sample_ids(2)]
  by (simp_all add: sample_bearer visible_def)

lemma sample_registration_valid: "ValidateRegistration ''m1'' ''h'' ''1'' ''linux'' ''amd64'' = None"
  by code_simp

lemma sample_decode_registration:
  "decodeJSON (cl_registration sample_control) ''m1'' 1048576 = Some \<lparr>reg_MachineID = ''m1'',
     reg_Hostname = ''h'', reg_Version = ''1'', reg_Platform = ''linux'', reg_Architecture = ''amd64'',
     reg_ClientCSR = []\<rparr>"
  by (simp add: decodeJSON_def sample_control_def)

lemma sample_registers:
  "registerAgent sample_control sample_server (sample_env 0) (sample_register ''m1'') NewMemory
     = (Respond 201 (Registration sample_reg_response), registered_state)"
proof -
  have "AgentByMachineID NewMemory ''m1'' = Inl ErrNotFound" by (simp add: AgentByMachineID_def NewMemory_def)
  moreover have "fst (store_registration sample_control sample_server \<lparr>reg_MachineID = ''m1'',
     reg_Hostname = ''h'', reg_Version = ''1'', reg_Platform = ''linux'', reg_Architecture = ''amd64'',
     reg_ClientCSR = []\<rparr> 10 sample_agentID sample_credential [] NewMemory)
       = Respond 201 (Registration sample_reg_response)"
    by (simp add: store_registration_def sample_reg_response_def CreateAgent_def NewMemory_def)
  ultimately show ?thesis
    by (simp add: registered_state_def prod_eq_iff registerAgent_def authorizeToken_def sample_ids
        sample_registration_valid sample_decode_registration)
qed

definition sample_agent :: Agent where
  "sample_agent = \<lparr>agent_ID = sample_agentID, agent_MachineID = ''m1'', agent_Hostname = ''h'',
     agent_Version = ''1'', agent_Platform = ''linux'', agent_Architecture = ''amd64'',
     agent_CredentialHash = replicate 32 (CHR ''h''), agent_RegisteredAt = 10, agent_LastSeenAt = 10\<rparr>"

lemma registered_state_eq:
  "registered_state = \<lparr>mem_agents = [(sample_agentID, sample_agent)],
     mem_agentByMachine = [(''m1'', sample_agentID)], mem_events = [], mem_policies = [], mem_audits = []\<rparr>"
proof -
  have "AgentByMachineID NewMemory ''m1'' = Inl ErrNotFound" by (simp add: AgentByMachineID_def NewMemory_def)
  then show ?thesis
    by (simp add: registered_state_def registerAgent_def authorizeToken_def sample_ids
        sample_registration_valid sample_decode_registration store_registration_def CreateAgent_def
        NewMemory_def sample_agent_def)
qed

lemma registered_inv: "mem_inv registered_state"
  by (simp add: mem_inv_def registered_state_eq sample_agent_def)

lemma registered_agent: "AgentByID registered_state sample_agentID = Inr sample_agent"
  by (simp add: AgentByID_def registered_state_eq)

lemma sample_agentID_ok: "TrimSpace sample_agentID \<noteq> []" "length sample_agentID = 28"
  using Random_not_blank [OF sample_ids(1)]
  by (simp_all add: visible_def sample_agentID_def length_RawURLEncoding)

lemma sample_authorized:
  "authorizeAgent sample_control sample_server sample_events sample_agentID registered_state"
  "authorizeAgent sample_control sample_server sample_get sample_agentID registered_state"
  using sample_agentID_ok(1) by (simp_all add: authorizeAgent_def registered_agent sample_agent_def)

lemma sample_texts: "TrimSpace ''evt_1'' \<noteq> []" "TrimSpace ''k'' \<noteq> []" "TrimSpace ''s'' \<noteq> []"
  by code_simp+

definition sample_event :: Event where
  "sample_event = \<lparr>event_ID = ''evt_1'', event_AgentID = [], event_Kind = ''k'',
     event_Severity = ''low'', event_Summary = ''s'', event_OccurredAt = 5, event_ReceivedAt = 0,
     event_Evidence = Some [(''token'', AStr ''x'')]\<rparr>"

lemma sample_decode_events:
  "decodeJSON (cl_events sample_control) ''evt_1'' 1048576 = Some [sample_event]"
  by (simp add: decodeJSON_def sample_control_def sample_event_def)

lemma sample_prepared:
  "\<exists>e. prepare_events sample_control sample_agentID 10 0 [sample_event] = Inr [e] \<and> event_ID e = ''evt_1''"
  by (simp add: sample_event_def ValidateEvent_def Severity_Valid_def severity_defs sample_texts minute_def
      second_def zero_time_def) (simp add: sample_control_def maxEvidenceBytes_def)

lemma sample_ingests:
  "ingestEvents sample_control sample_server (sample_env 0) sample_events sample_agentID registered_state
     = (Respond 202 (Accepted 1 0), ingested_state)"
proof -
  obtain e where "prepare_events sample_control sample_agentID 10 0 [sample_event] = Inr [e]"
      "event_ID e = ''evt_1''" using sample_prepared by blast
  then have "fst (ingestEvents sample_control sample_server (sample_env 0) sample_events sample_agentID
     registered_state) = Respond 202 (Accepted 1 0)"
    by (simp add: ingestEvents_def sample_authorized sample_decode_events maxEventBatch_def SaveEvents_def
        registered_state_eq [THEN arg_cong [of _ _ mem_events]] del: prepare_events.simps)
  then show ?thesis by (simp add: ingested_state_def prod_eq_iff)
qed

lemma sample_watch_path: "\<not> bad_watch_path ''/etc''"
  by code_simp

definition sample_policy_request :: policyRequest where
  "sample_policy_request = \<lparr>pr_ExpectedRevision = 0, pr_FileIntegrityEnabled = Some True,
     pr_FileWatchPaths = Some [''/etc''], pr_SSHAuthEnabled = Some True, pr_SSHThreshold = 5,
     pr_SSHWindowSeconds = 60, pr_RuntimeWatchEnabled = Some True\<rparr>"

lemma sample_decode_policy:
  "decodeJSON (cl_policy sample_control) [] 1048576 = Some sample_policy_request"
  by (simp add: decodeJSON_def sample_control_def sample_policy_request_def)

lemma sample_policy_valid: "validatePolicyRequest sample_policy_request = None"
  using sample_watch_path by (simp add: validatePolicyRequest_def sample_policy_request_def ssh_range_bad_def)

definition sample_policyID :: string where
  "sample_policyID = ''pol_'' @ RawURLEncoding (replicate 18 (byte 0))"

definition sample_policy :: Policy where
  "sample_policy = policy_of_request sample_policy_request sample_policyID sample_agentID 10 True True True"

lemma sample_policyID: "Random (env_read (sample_env 0) 0) ''pol_'' 18 = Inr sample_policyID"
  by (simp add: Random_def sample_env_def sample_policyID_def)

lemma sample_policy_wf: "ValidatePolicy sample_policy = None"
  using Random_not_blank [OF sample_policyID] sample_agentID_ok sample_watch_path
  by (simp add: ValidatePolicy_def sample_policy_def policy_of_request_def sample_policy_request_def
      ssh_range_bad_def visible_def zero_time_def) (simp add: sample_policyID_def length_RawURLEncoding)

lemma sample_puts:
  "putAgentPolicy sample_control sample_server (sample_env 0) sample_put sample_agentID registered_state
     = (Respond 200 (PolicyBody sample_policy), policy_state)"
proof -
  obtain auditID where "Random (env_read (sample_env 0) (Suc 0)) ''aud_'' 18 = Inr auditID"
    by (simp add: Random_def sample_env_def)
  moreover have "pr_ExpectedRevision sample_policy_request = 0" by (simp add: sample_policy_request_def)
  moreover have "policy_Revision sample_policy = 1"
    by (simp add: sample_policy_def policy_of_request_def sample_policy_request_def)
  ultimately have "fst (store_policy sample_server (sample_env 0) sample_policy_request sample_policyID
     sample_agentID registered_state) = Respond 200 (PolicyBody sample_policy)"
    using sample_policy_wf
    by (simp add: store_policy_def SavePolicyAndAudit_def registered_state_eq sample_policy_def
        sample_policy_request_def Let_def)
  then have "fst (putAgentPolicy sample_control sample_server (sample_env 0) sample_put sample_agentID
     registered_state) = Respond 200 (PolicyBody sample_policy)"
    using \<open>pr_ExpectedRevision sample_policy_request = 0\<close>
    by (simp add: putAgentPolicy_def authorizeToken_def registered_agent sample_decode_policy
        sample_policy_valid sample_policyID)
  then show ?thesis by (simp add: policy_state_def prod_eq_iff)
qed

section \<open>The theorems on this run\<close>

theorem unauthenticated_rejected_witness:
  "ServeHTTP sample_control sample_server (sample_env 0) sample_events NewMemory
     = (middleware unauthorized, NewMemory) \<and> resp_Status (middleware unauthorized) = 401"
proof (rule unauthenticated_rejected)
  have "AgentByID NewMemory sample_agentID = Inl ErrNotFound" by (simp add: AgentByID_def NewMemory_def)
  then show "\<not> credential_ok sample_control sample_server sample_events NewMemory
      (route_of (rq_Method sample_events) (rq_Segments sample_events))"
    by (simp add: sample_events_def route_of_def bears_agent_def split: option.splits)
qed

lemma sample_register_serve:
  "ServeHTTP sample_control sample_server (sample_env 0) (sample_register ''m1'') NewMemory
     = (middleware (Respond 201 (Registration sample_reg_response)), registered_state)"
proof -
  have "route_of (rq_Method (sample_register ''m1'')) (rq_Segments (sample_register ''m1'')) = Register"
    by (simp add: sample_register_def route_of_def)
  then show ?thesis by (simp add: ServeHTTP_def mux_def sample_registers)
qed

theorem state_change_authenticated_witness:
  "writing_route Register \<and> resp_Status (middleware (Respond 201 (Registration sample_reg_response))) \<in> {200, 201, 202}
     \<and> registered_state \<noteq> NewMemory"
proof -
  have "registered_state \<noteq> NewMemory" by (simp add: registered_state_eq NewMemory_def)
  then show ?thesis using state_change_authenticated [OF sample_register_serve] by simp
qed

theorem ingest_stores_batch_witness:
  "\<exists>input. decodeJSON (cl_events sample_control) (rq_Body sample_events) 1048576 = Some input
      \<and> int 1 + 0 = int (length input) \<and> ''evt_1'' \<in> set (keys (mem_events ingested_state))
      \<and> mem_inv ingested_state"
  using ingest_stores_batch [OF registered_inv _ sample_ingests]
  by (auto simp: sample_decode_events sample_event_def)

theorem registration_roundtrip_witness:
  "authorizeAgent sample_control sample_server sample_get sample_agentID registered_state"
  using registration_roundtrip [OF mem_inv_NewMemory _ _ _ sample_registers, of sample_get]
  by (simp add: sample_reg_response_def)

theorem policy_put_then_get_witness:
  "getAgentPolicy sample_control sample_server sample_get sample_agentID policy_state
     = (Respond 200 (PolicyBody sample_policy), policy_state)"
proof -
  have "mem_agents policy_state = mem_agents registered_state"
    using putAgentPolicy_200 [OF sample_puts] by (auto dest: SavePolicyAndAudit_agents)
  then have "AgentByID policy_state sample_agentID = Inr sample_agent"
    using registered_agent by (simp add: AgentByID_def)
  then have "authorizeAgent sample_control sample_server sample_get sample_agentID policy_state"
    using sample_agentID_ok(1) by (simp add: authorizeAgent_def sample_agent_def)
  then show ?thesis using policy_put_then_get [OF registered_inv _ sample_puts] by simp
qed



definition second_state :: Memory where
  "second_state = snd (registerAgent sample_control sample_server (sample_env 5) (sample_register ''m2'') registered_state)"

definition second_agentID :: string where
  "second_agentID = ''agt_'' @ RawURLEncoding (replicate 18 (byte 5))"

lemma second_agentID_new: "second_agentID \<noteq> sample_agentID"
proof
  assume "second_agentID = sample_agentID"
  then have "RawURLEncoding (replicate 18 (byte 5)) = RawURLEncoding (replicate 18 (byte 0))"
    by (simp add: second_agentID_def sample_agentID_def)
  from RawURLEncoding_inj [OF this] have "replicate 18 (byte 5) = replicate 18 (byte 0)" by simp
  then show False by (simp add: byte_def)
qed

lemma second_registers:
  "\<exists>b. registerAgent sample_control sample_server (sample_env 5) (sample_register ''m2'') registered_state
     = (Respond 201 b, second_state)"
proof -
  let ?input = "\<lparr>reg_MachineID = ''m2'', reg_Hostname = ''h'', reg_Version = ''1'',
     reg_Platform = ''linux'', reg_Architecture = ''amd64'', reg_ClientCSR = []\<rparr>"
  have "AgentByMachineID registered_state ''m2'' = Inl ErrNotFound"
    by (simp add: AgentByMachineID_def registered_state_eq)
  moreover have "\<exists>b. fst (store_registration sample_control sample_server ?input 10 second_agentID c []
      registered_state) = Respond 201 b" for c
    using second_agentID_new by (simp add: store_registration_def CreateAgent_def registered_state_eq)
  moreover have "Random (env_read (sample_env 5) 0) ''agt_'' 18 = Inr second_agentID"
    by (simp add: Random_def sample_env_def second_agentID_def)
  moreover have "\<exists>c. Random (env_read (sample_env 5) (Suc 0)) ''msc_'' 32 = Inr c"
    by (simp add: Random_def sample_env_def)
  moreover have "ValidateRegistration ''m2'' ''h'' ''1'' ''linux'' ''amd64'' = None" by code_simp
  moreover have "decodeJSON (cl_registration sample_control) ''m2'' 1048576 = Some ?input"
    by (simp add: decodeJSON_def sample_control_def)
  ultimately show ?thesis
    by (auto simp: second_state_def prod_eq_iff registerAgent_def authorizeToken_def)
qed

theorem one_agent_per_machine_witness:
  "reg_MachineID (the (decodeJSON (cl_registration sample_control) ''m1'' 1048576))
     \<noteq> reg_MachineID (the (decodeJSON (cl_registration sample_control) ''m2'' 1048576))"
proof -
  obtain b where "registerAgent sample_control sample_server (sample_env 5) (sample_register ''m2'')
      registered_state = (Respond 201 b, second_state)" using second_registers by blast
  moreover have "decodeJSON (cl_registration sample_control) x 1048576
      = Some (the (decodeJSON (cl_registration sample_control) x 1048576))" if "length x < 5" for x
    using that by (simp add: decodeJSON_def sample_control_def)
  ultimately show ?thesis
    using one_agent_per_machine [OF mem_inv_NewMemory _ sample_registers] by simp
qed

end
