(* ===== verification/Queue.thy ===== *)
theory Queue
  imports Ident Domain
begin

text \<open>
  internal/agent/queue.go: the Agent's encrypted spool. Every event is one file of the directory
  \<open>queue\<close>, sealed with the key in \<open>queue.key\<close> and named by the time at which it was queued. AES-GCM
  and the JSON codec of events are the fields of \<open>queue_lib\<close>; \<open>queue_lib_ok\<close> states their documented
  behaviour. The mutex makes each operation one step. The clock is an argument of \<open>Enqueue\<close>.
\<close>

record queue_lib =
  ql_NonceSize :: nat
  ql_Seal :: "string \<Rightarrow> string \<Rightarrow> string \<Rightarrow> string"
  ql_Open :: "string \<Rightarrow> string \<Rightarrow> string \<Rightarrow> string option"
  ql_marshal :: "Event \<Rightarrow> error + string"
  ql_unmarshal :: "string \<Rightarrow> error + Event"

record EncryptedQueue =
  q_dir :: string
  q_key :: string

record QueueBatch =
  qb_Events :: "Event list"
  qb_files :: "string list"

definition queueKeyFilename :: string where "queueKeyFilename = ''queue.key''"
definition queueDirectory :: string where "queueDirectory = ''queue''"
definition queueFileSuffix :: string where "queueFileSuffix = ''.event''"
definition maxQueueFileSize :: nat where "maxQueueFileSize = 1048576"
definition maxQueueEntries :: nat where "maxQueueEntries = 10000"

section \<open>Opening\<close>

definition ensurePrivateDirectory :: "string \<Rightarrow> (error, unit) io" where
  "ensurePrivateDirectory path =
     (if TrimSpace path = [] then io_fail ''state directory is required''
      else io_then (io_wrap (\<lambda>e. ''create state directory: '' @ os_text e) (MkdirAll path 448))
             (io_wrap (\<lambda>e. ''set state directory permissions: '' @ os_text e) (ChmodFile path 448)))"

definition labelled :: "string \<Rightarrow> string \<Rightarrow> (os_error, 'a) io \<Rightarrow> (error, 'a) io" where
  "labelled verb what m = io_wrap (\<lambda>e. verb @ '' '' @ what @ '': '' @ os_text e) m"

text \<open>An exclusive creation whose steps report which of them failed (\<open>Enqueue\<close>, \<open>SaveCredentials\<close>); the
  file is removed again unless every step succeeded.\<close>

definition create_labelled :: "string \<Rightarrow> string \<Rightarrow> string \<Rightarrow> nat \<Rightarrow> (error, unit) io" where
  "create_labelled what path content mode =
     io_then (labelled ''create'' what (OpenExcl path mode))
       (io_cleanup
         (io_then (labelled ''write'' what (WriteTo path content))
         (io_then (labelled ''sync'' what SyncClose)
           (labelled ''close'' what SyncClose)))
         (io_try SyncClose (\<lambda>_. Remove path)))"

text \<open>The write of a fresh key or identity file: here a failing \<open>Close\<close> leaves the file in place.\<close>

definition write_fresh :: "string \<Rightarrow> string \<Rightarrow> string \<Rightarrow> (error, unit) io" where
  "write_fresh what path content =
     io_then (io_cleanup (io_then (labelled ''write'' what (WriteTo path content))
                                  (labelled ''sync'' what SyncClose))
                (io_try SyncClose (\<lambda>_. Remove path)))
             (labelled ''close'' what SyncClose)"

text \<open>The function calls itself when the exclusive creation finds the name taken; \<^const>\<open>None\<close> says that it is
  still recursing at that depth.\<close>

fun loadOrCreateQueueKey :: "nat \<Rightarrow> string \<Rightarrow> world \<Rightarrow> (error + string) option \<times> world" where
  "loadOrCreateQueueKey 0 path w = (None, w)"
| "loadOrCreateQueueKey (Suc depth) path w =
     (case ReadFile path w of
        (Inr key, w) \<Rightarrow>
          (Some (if length key \<noteq> 32 then Inl ''queue key has invalid length'' else Inr key), w)
      | (Inl OsNotExist, w) \<Rightarrow>
          (case rand_Read 32 w of
             (Inl e, w) \<Rightarrow> (Some (Inl (''generate queue key: '' @ os_text e)), w)
           | (Inr key, w) \<Rightarrow>
               (case OpenExcl path 384 w of
                  (Inl OsExist, w) \<Rightarrow> loadOrCreateQueueKey depth path w
                | (Inl e, w) \<Rightarrow> (Some (Inl (''create queue key: '' @ os_text e)), w)
                | (Inr _, w) \<Rightarrow>
                    (case write_fresh ''queue key'' path key w of
                       (Inl e, w) \<Rightarrow> (Some (Inl e), w)
                     | (Inr _, w) \<Rightarrow> (Some (Inr key), w))))
      | (Inl e, w) \<Rightarrow> (Some (Inl (''read queue key: '' @ os_text e)), w))"

definition OpenEncryptedQueue :: "string \<Rightarrow> (error, EncryptedQueue) io" where
  "OpenEncryptedQueue stateDir =
     io_then (ensurePrivateDirectory stateDir)
       (\<lambda>w. case loadOrCreateQueueKey 2 (JoinPath [stateDir, queueKeyFilename]) w of
          (None, w) \<Rightarrow> (Inl ''stack overflow'', w)
        | (Some (Inl e), w) \<Rightarrow> (Inl e, w)
        | (Some (Inr key), w) \<Rightarrow>
            io_then (ensurePrivateDirectory (JoinPath [stateDir, queueDirectory]))
              (io_return \<lparr>q_dir = JoinPath [stateDir, queueDirectory], q_key = key\<rparr>) w)"

section \<open>Operations\<close>

definition queueFiles :: "string \<Rightarrow> (error, string list) io" where
  "queueFiles directory =
     io_bind (io_wrap (\<lambda>e. ''read queue directory: '' @ os_text e) (ReadDir directory)) (\<lambda>entries.
       io_return (sort (map fst
         (filter (\<lambda>(name, x). is_regular x \<and> HasSuffix name queueFileSuffix) entries))))"

definition event_filename :: "time \<Rightarrow> string \<Rightarrow> string" where
  "event_filename now salt =
     twenty_digits (wrap64 now) @ ''-'' @ EncodeToString salt @ queueFileSuffix"

definition Enqueue :: "queue_lib \<Rightarrow> EncryptedQueue \<Rightarrow> time \<Rightarrow> Event \<Rightarrow> (error, unit) io" where
  "Enqueue lib queue now event =
     io_bind (queueFiles (q_dir queue)) (\<lambda>files.
       if maxQueueEntries \<le> length files
       then io_fail (''encrypted queue reached its '' @ FormatNat maxQueueEntries @ '' event safety limit'')
       else case ql_marshal lib event of
         Inl e \<Rightarrow> io_fail (''encode queued event: '' @ e)
       | Inr plaintext \<Rightarrow>
           io_bind (io_wrap (\<lambda>e. ''generate queue nonce: '' @ os_text e) (rand_Read (ql_NonceSize lib))) (\<lambda>nonce.
           io_bind (io_wrap (\<lambda>e. ''generate queue filename: '' @ os_text e) (rand_Read 8)) (\<lambda>salt.
             create_labelled ''queued event'' (JoinPath [q_dir queue, event_filename now salt])
               (nonce @ ql_Seal lib (q_key queue) nonce plaintext) 384)))"

definition read_entry :: "queue_lib \<Rightarrow> EncryptedQueue \<Rightarrow> string \<Rightarrow> (error, Event) io" where
  "read_entry lib queue filename =
     (let path = JoinPath [q_dir queue, filename]
      in io_bind (io_wrap (\<lambda>e. ''stat queued event: '' @ os_text e) (Stat path)) (\<lambda>info.
        if node_size info \<le> ql_NonceSize lib \<or> maxQueueFileSize < node_size info
        then io_fail (''queued event '' @ Quote filename @ '' has invalid size'')
        else io_bind (io_wrap (\<lambda>e. ''read queued event: '' @ os_text e) (ReadFile path)) (\<lambda>payload.
          case ql_Open lib (q_key queue) (take (ql_NonceSize lib) payload) (drop (ql_NonceSize lib) payload) of
            None \<Rightarrow> io_fail (''authenticate queued event '' @ Quote filename)
          | Some plaintext \<Rightarrow>
              (case ql_unmarshal lib plaintext of
                 Inl e \<Rightarrow> io_fail (''decode queued event '' @ Quote filename @ '': '' @ e)
               | Inr event \<Rightarrow> io_return event))))"

fun read_entries :: "queue_lib \<Rightarrow> EncryptedQueue \<Rightarrow> string list \<Rightarrow> (error, Event list) io" where
  "read_entries lib queue [] = io_return []"
| "read_entries lib queue (f # fs) =
     io_bind (read_entry lib queue f) (\<lambda>event.
     io_bind (read_entries lib queue fs) (\<lambda>events. io_return (event # events)))"

definition Peek :: "queue_lib \<Rightarrow> EncryptedQueue \<Rightarrow> int \<Rightarrow> (error, QueueBatch) io" where
  "Peek lib queue limit =
     (if limit \<le> 0 \<or> 100 < limit then io_fail ''queue batch limit must be between 1 and 100''
      else io_bind (queueFiles (q_dir queue)) (\<lambda>files.
        let batch = (if limit < int (length files) then take (nat limit) files else files)
        in io_bind (read_entries lib queue batch) (\<lambda>events.
             io_return \<lparr>qb_Events = events, qb_files = batch\<rparr>)))"

fun ack_files :: "EncryptedQueue \<Rightarrow> string list \<Rightarrow> (error, unit) io" where
  "ack_files queue [] = io_return ()"
| "ack_files queue (filename # fs) =
     (if BasePath filename \<noteq> filename \<or> \<not> HasSuffix filename queueFileSuffix
      then io_fail ''queue batch contains an invalid filename''
      else io_try (Remove (JoinPath [q_dir queue, filename])) (\<lambda>r.
        case r of
          Inl OsNotExist \<Rightarrow> ack_files queue fs
        | Inl e \<Rightarrow> io_fail (''acknowledge queued event: '' @ os_text e)
        | Inr _ \<Rightarrow> ack_files queue fs))"

definition Ack :: "EncryptedQueue \<Rightarrow> QueueBatch \<Rightarrow> (error, unit) io" where
  "Ack queue batch =
     (if length (qb_Events batch) \<noteq> length (qb_files batch) then io_fail ''queue batch is invalid''
      else ack_files queue (qb_files batch))"

definition Len :: "EncryptedQueue \<Rightarrow> (error, nat) io" where
  "Len queue = io_bind (queueFiles (q_dir queue)) (\<lambda>files. io_return (length files))"

section \<open>The contents of the spool\<close>

definition queue_ok :: "EncryptedQueue \<Rightarrow> bool" where
  "queue_ok q \<longleftrightarrow> (\<exists>stateDir. q_dir q = JoinPath [stateDir, queueDirectory])"

definition spool_name :: "string \<Rightarrow> bool" where
  "spool_name n \<longleftrightarrow> slash \<notin> set n \<and> HasSuffix n queueFileSuffix"

text \<open>The sealed payload under each file name.\<close>

definition spool :: "EncryptedQueue \<Rightarrow> world \<Rightarrow> string \<rightharpoonup> string" where
  "spool q w n =
     (if spool_name n
      then (case node_at w (q_dir q @ slash # n) of Some (NFile _ payload) \<Rightarrow> Some payload | _ \<Rightarrow> None)
      else None)"

lemma queue_dir_name: "name_elem queueDirectory"
  by (simp add: name_elem_def queueDirectory_def)

lemma spool_name_elem: "spool_name n \<Longrightarrow> name_elem n"
  by (auto simp: spool_name_def name_elem_def HasSuffix_def queueFileSuffix_def suffix_def
      append_eq_Cons_conv)

lemma queue_path: "queue_ok q \<Longrightarrow> name_elem n \<Longrightarrow> JoinPath [q_dir q, n] = q_dir q @ slash # n"
  unfolding queue_ok_def using JoinPath_in_subdir [OF queue_dir_name] by auto

lemma queue_dir_not_root: "queue_ok q \<Longrightarrow> q_dir q \<noteq> ''/''"
proof
  assume "queue_ok q" and "q_dir q = ''/''"
  then obtain s where "JoinPath [s, queueDirectory] = ''/''" by (auto simp: queue_ok_def)
  moreover obtain a where "JoinPath [s, queueDirectory] = a @ queueDirectory"
    using JoinPath_name_suffix [OF queue_dir_name] by blast
  ultimately show False by (auto simp: queueDirectory_def append_eq_Cons_conv)
qed

definition spool_names :: "EncryptedQueue \<Rightarrow> world \<Rightarrow> string list" where
  "spool_names q w = sort (map fst (filter (\<lambda>(name, x). is_regular x \<and> HasSuffix name queueFileSuffix)
     (List.map_filter (\<lambda>(p, x). map_option (\<lambda>name. (name, x)) (dir_name (q_dir q) p)) (w_files w))))"

lemma queueFiles_Inr:
  "queueFiles (q_dir q) w = (Inr fs, w') \<Longrightarrow> w_files w' = w_files w \<and> fs = spool_names q w"
proof -
  assume "queueFiles (q_dir q) w = (Inr fs, w')"
  then obtain es where "ReadDir (q_dir q) w = (Inr es, w')" and
      fs: "fs = sort (map fst (filter (\<lambda>(name, x). is_regular x \<and> HasSuffix name queueFileSuffix) es))"
    by (auto simp: queueFiles_def io_outcomes)
  then have "w_files w' = w_files w
      \<and> es = List.map_filter (\<lambda>(p, x). map_option (\<lambda>name. (name, x)) (dir_name (q_dir q) p)) (w_files w)"
    unfolding ReadDir_def by - (drule sys_Inr, auto split: if_splits)
  then show ?thesis using fs by (simp add: spool_names_def)
qed

lemma queueFiles_files: "queueFiles d w = (r, w') \<Longrightarrow> w_files w' = w_files w"
  by (auto simp: queueFiles_def io_bind_def io_wrap_def io_return_def split: prod.splits sum.splits
      dest: reads_files)

lemma spool_Some:
  "spool q w n = Some c \<longleftrightarrow> spool_name n \<and> (\<exists>m. node_at w (q_dir q @ slash # n) = Some (NFile m c))"
  by (auto simp: spool_def split: option.splits node.splits)

lemma spool_names_set:
  assumes "queue_ok q" and "w_ok w"
  shows "set (spool_names q w) = dom (spool q w)"
proof -
  have "n \<in> set (spool_names q w) \<longleftrightarrow>
      (\<exists>p x. (p, x) \<in> set (w_files w) \<and> dir_name (q_dir q) p = Some n \<and> is_regular x
         \<and> HasSuffix n queueFileSuffix)" for n
    by (force simp: spool_names_def map_filter_def)
  moreover have "(p, x) \<in> set (w_files w) \<longleftrightarrow> node_at w p = Some x" for p x
    using map_of_mem assms(2) by (simp add: w_ok_def)
  moreover have "is_regular x \<longleftrightarrow> (\<exists>m c. x = NFile m c)" for x by (cases x) auto
  moreover have "HasSuffix n queueFileSuffix \<Longrightarrow> n \<noteq> []" for n
    by (auto simp: HasSuffix_def queueFileSuffix_def)
  ultimately have "n \<in> set (spool_names q w) \<longleftrightarrow> (\<exists>c. spool q w n = Some c)" for n
    by (auto simp: spool_Some dir_name_iff [OF queue_dir_not_root [OF assms(1)]] spool_name_def)
  then show ?thesis by auto
qed

lemma spool_names_sorted: "sorted (spool_names q w)"
  by (simp add: spool_names_def)

lemma spool_names_distinct: "queue_ok q \<Longrightarrow> w_ok w \<Longrightarrow> distinct (spool_names q w)"
  using children_distinct [OF queue_dir_not_root, of q "w_files w"] by (simp add: spool_names_def w_ok_def distinct_map_filter)

section \<open>What the operations do to it\<close>

lemma create_labelled_Inr:
  "create_labelled what p c m w = (Inr u, w') \<longleftrightarrow> create_exclusive p c m w = (Inr u, w')"
  by (simp add: create_labelled_def create_exclusive_def labelled_def io_outcomes)

lemma create_labelled_snd: "snd (create_labelled what p c m w) = snd (create_exclusive p c m w)"
  by (simp add: create_labelled_def create_exclusive_def labelled_def io_bind_def io_cleanup_def io_wrap_def
      split: prod.splits sum.splits)

lemma touches_create_labelled: "touches (\<lambda>q. q = p) (create_labelled what p c m)"
  using touches_create_exclusive [of p c m] by (simp add: touches_def create_labelled_snd)

lemma keeps_ok_create_labelled: "keeps_ok (create_labelled what p c m)"
  using keeps_ok_writers(2) [of p c m] by (simp add: keeps_ok_def create_labelled_snd)

lemma spool_cong:
  "(\<And>n. spool_name n \<Longrightarrow> node_at w' (q_dir q @ slash # n) = node_at w (q_dir q @ slash # n)) \<Longrightarrow>
     spool q w' = spool q w"
  by (rule ext) (simp add: spool_def)

lemma spool_files: "w_files w' = w_files w \<Longrightarrow> spool q w' = spool q w"
  by (rule spool_cong) simp

lemma event_filename_spool: "spool_name (event_filename now salt)"
  using twenty_digits_no_slash EncodeToString_no_slash
  by (auto simp: spool_name_def event_filename_def HasSuffix_def queueFileSuffix_def suffix_def)

lemma Enqueue_cases:
  assumes "Enqueue lib q now e w = (r, w')"
  obtains "w_files w' = w_files w" "\<exists>err. r = Inl err"
  | v nonce salt plain where "w_files v = w_files w" "ql_marshal lib e = Inr plain"
      "length (spool_names q w) < maxQueueEntries \<and> length nonce = ql_NonceSize lib"
      "create_labelled ''queued event'' (JoinPath [q_dir q, event_filename now salt])
         (nonce @ ql_Seal lib (q_key q) nonce plain) 384 v = (r, w')"
proof (cases "queueFiles (q_dir q) w")
  case (Pair r1 w1)
  then have f1: "w_files w1 = w_files w" by (rule queueFiles_files)
  show ?thesis
  proof (cases r1)
    case (Inl err)
    then show ?thesis using assms Pair f1 by (intro that(1)) (auto simp: Enqueue_def io_bind_def)
  next
    case (Inr fs)
    have fs: "fs = spool_names q w" using queueFiles_Inr Pair Inr by blast
    show ?thesis
    proof (cases "maxQueueEntries \<le> length fs \<or> (\<exists>err. ql_marshal lib e = Inl err)")
      case True
      then show ?thesis
        using assms Pair Inr f1 that(1)
        by (auto simp: Enqueue_def io_bind_def io_fail_def split: if_splits)
    next
      case False
      then obtain plain where plain: "ql_marshal lib e = Inr plain" by (cases "ql_marshal lib e") auto
      let ?n = "io_wrap (\<lambda>e. ''generate queue nonce: '' @ os_text e) (rand_Read (ql_NonceSize lib))"
      let ?s = "io_wrap (\<lambda>e. ''generate queue filename: '' @ os_text e) (rand_Read 8)"
      have read: "w_files b = w_files a" if "io_wrap f (rand_Read k) a = (x, b)" for f k a b x
        using that reads_files(5) by (auto simp: io_wrap_def split: prod.splits sum.splits)
      have run: "io_bind ?n (\<lambda>nonce. io_bind ?s (\<lambda>salt.
           create_labelled ''queued event'' (JoinPath [q_dir q, event_filename now salt])
               (nonce @ ql_Seal lib (q_key q) nonce plain) 384)) w1 = (r, w')"
        using assms Pair Inr False plain by (simp add: Enqueue_def io_bind_def)
      obtain r2 w2 where n: "?n w1 = (r2, w2)" by fastforce
      show ?thesis
      proof (cases r2)
        case (Inl err)
        then show ?thesis using run n f1 read [OF n] by (intro that(1)) (auto simp: io_bind_def)
      next
        case nonce: (Inr nonce)
        obtain r3 w3 where s: "?s w2 = (r3, w3)" by fastforce
        show ?thesis
        proof (cases r3)
          case (Inl err)
          then show ?thesis
            using run n nonce s f1 read [OF n] read [OF s] by (intro that(1)) (auto simp: io_bind_def)
        next
          case (Inr salt)
          have "length nonce = ql_NonceSize lib"
            using n nonce rand_Read_length by (auto simp: io_wrap_Inr)
          then show ?thesis
            using Inr run n nonce s f1 read [OF n] read [OF s] False plain fs
            by (intro that(2) [of w3 plain nonce salt]) (auto simp: io_bind_def)
        qed
      qed
    qed
  qed
qed

lemma spool_create:
  assumes "queue_ok q" and "spool_name n"
    and "create_labelled what (JoinPath [q_dir q, n]) c m v = (r, w')"
  shows "(case r of Inl _ \<Rightarrow> (\<forall>k x. spool q v k = Some x \<longrightarrow> spool q w' k = Some x)
           | Inr _ \<Rightarrow> spool q v n = None \<and> spool q w' = (spool q v)(n \<mapsto> c))"
proof -
  let ?p = "q_dir q @ slash # n"
  have p: "JoinPath [q_dir q, n] = ?p" using queue_path [OF assms(1) spool_name_elem [OF assms(2)]] .
  have other: "node_at w' (q_dir q @ slash # k) = node_at v (q_dir q @ slash # k)" if "k \<noteq> n" for k
    using touchesD [OF touches_create_labelled _ assms(3), of "q_dir q @ slash # k"] that p by simp
  have same: "node_at w' ?p = node_at v ?p" if "node_at v ?p \<noteq> None"
    using create_exclusive_existing [OF that, of c m] create_labelled_snd [of what ?p c m v] assms(3) p
    by simp
  show ?thesis
  proof (cases r)
    case (Inl e)
    have "spool q w' k = Some x" if "spool q v k = Some x" for k x
      using that other [of k] same by (cases "k = n") (auto simp: spool_Some)
    then show ?thesis using Inl by simp
  next
    case (Inr u)
    then have "create_exclusive ?p c m v = (Inr u, w')"
      using assms(3) p create_labelled_Inr [of what ?p c m v u w'] by simp
    then have "node_at v ?p = None \<and> node_at w' ?p = Some (NFile m c)"
      by (rule create_exclusive_Inr)
    then have "spool q v n = None" "spool q w' n = Some c"
      using assms(2) by (simp_all add: spool_def)
    moreover have "spool q w' k = spool q v k" if "k \<noteq> n" for k
      using other [OF that] by (simp add: spool_def)
    ultimately show ?thesis using Inr by auto
  qed
qed

lemma Enqueue_keeps:
  assumes "queue_ok q" and "spool q w n = Some c"
  shows "spool q (snd (Enqueue lib q now e w)) n = Some c"
proof -
  obtain r w' where m: "Enqueue lib q now e w = (r, w')" by fastforce
  from m show ?thesis
  proof (cases rule: Enqueue_cases)
    case 1
    then show ?thesis using m assms(2) spool_files [OF 1(1)] by simp
  next
    case (2 v plain nonce salt)
    from spool_create [OF assms(1) event_filename_spool 2(4)] show ?thesis
      using m assms(2) spool_files [OF 2(1)] by (cases r) auto
  qed
qed

lemma Enqueue_adds:
  assumes "queue_ok q" and "Enqueue lib q now e w = (Inr u, w')"
  shows "\<exists>salt nonce plain. spool q w (event_filename now salt) = None \<and> ql_marshal lib e = Inr plain
      \<and> length (spool_names q w) < maxQueueEntries \<and> length nonce = ql_NonceSize lib
      \<and> spool q w' = (spool q w)(event_filename now salt \<mapsto> nonce @ ql_Seal lib (q_key q) nonce plain)"
  using assms(2)
proof (cases rule: Enqueue_cases)
  case (2 v plain nonce salt)
  from spool_create [OF assms(1) event_filename_spool 2(4)] show ?thesis
    using spool_files [OF 2(1)] 2(2,3) by auto
qed auto

lemma keeps_ok_queueFiles: "keeps_ok (queueFiles d)"
  unfolding queueFiles_def by (intro keeps_ok_bind keeps_ok_wrap keeps_ok_calls keeps_ok_return)

lemma keeps_ok_Enqueue: "keeps_ok (Enqueue lib q now e)"
  unfolding Enqueue_def
  by (intro keeps_ok_bind keeps_ok_queueFiles)
    (auto intro!: keeps_ok_bind keeps_ok_wrap keeps_ok_calls keeps_ok_fail keeps_ok_create_labelled
      split: sum.splits)

text \<open>The event that a file holds, if it has a valid size, authenticates and decodes.\<close>

definition decode_payload :: "queue_lib \<Rightarrow> string \<Rightarrow> string \<Rightarrow> Event option" where
  "decode_payload lib key payload =
     (if length payload \<le> ql_NonceSize lib \<or> maxQueueFileSize < length payload then None
      else case ql_Open lib key (take (ql_NonceSize lib) payload) (drop (ql_NonceSize lib) payload) of
        None \<Rightarrow> None
      | Some plaintext \<Rightarrow> (case ql_unmarshal lib plaintext of Inl _ \<Rightarrow> None | Inr event \<Rightarrow> Some event))"

definition entry :: "queue_lib \<Rightarrow> EncryptedQueue \<Rightarrow> world \<Rightarrow> string \<Rightarrow> Event option" where
  "entry lib q w n = Option.bind (spool q w n) (decode_payload lib (q_key q))"

lemma Stat_Inr: "Stat p w = (Inr x, w') \<Longrightarrow> \<exists>p'. follow w p = Some (p', x)"
  unfolding Stat_def
proof (drule sys_Inr)
  assume "\<exists>v. w_files v = w_files w \<and> w_rand v = w_rand w
      \<and> (case follow v p of None \<Rightarrow> Inl OsNotExist | Some (_, x) \<Rightarrow> Inr x, v) = (Inr x, w')"
  then obtain v where v: "w_files v = w_files w" "\<exists>p'. follow v p = Some (p', x)"
    by (auto split: option.splits)
  have "resolve n v q = resolve n w q" for n q
    using v(1) by (induction n arbitrary: q) (auto split: option.splits node.splits)
  then show ?thesis using v(2) by (simp add: follow_def)
qed

lemma read_entry_files: "read_entry lib q n w = (r, w') \<Longrightarrow> w_files w' = w_files w"
  by (auto simp: read_entry_def Let_def io_bind_def io_wrap_def io_fail_def io_return_def
      split: prod.splits sum.splits if_splits option.splits dest!: reads_files)

lemma read_entry_Inr:
  assumes "queue_ok q" and "spool q w n = Some c" and "read_entry lib q n w = (Inr e, w')"
  shows "entry lib q w n = Some e"
proof -
  let ?p = "q_dir q @ slash # n"
  obtain m where n: "spool_name n" "node_at w ?p = Some (NFile m c)" using assms(2) by (auto simp: spool_Some)
  have p: "JoinPath [q_dir q, n] = ?p" using queue_path [OF assms(1) spool_name_elem [OF n(1)]] .
  from assms(3) obtain info v payload plain where r: "Stat ?p w = (Inr info, v)"
      "\<not> (node_size info \<le> ql_NonceSize lib \<or> maxQueueFileSize < node_size info)"
      "ReadFile ?p v = (Inr payload, w')"
      "ql_Open lib (q_key q) (take (ql_NonceSize lib) payload) (drop (ql_NonceSize lib) payload) = Some plain"
      "ql_unmarshal lib plain = Inr e"
    by (auto simp: read_entry_def Let_def p io_outcomes split: option.splits sum.splits)
  have "info = NFile m c" using Stat_Inr [OF r(1)] follow_file [OF n(2)] by auto
  moreover have "node_at v ?p = Some (NFile m c)" using reads_files(2) [OF r(1)] n(2) by simp
  then have "payload = c" using ReadFile_Inr [OF r(3)] follow_file by fastforce
  ultimately show ?thesis using r assms(2) by (simp add: entry_def decode_payload_def)
qed

lemma read_entries_files: "read_entries lib q fs w = (r, w') \<Longrightarrow> w_files w' = w_files w"
proof (induction fs arbitrary: w r w')
  case (Cons f fs)
  obtain r1 w1 where 1: "read_entry lib q f w = (r1, w1)" by fastforce
  obtain r2 w2 where 2: "read_entries lib q fs w1 = (r2, w2)" by fastforce
  show ?case
    using Cons.prems 1 2 Cons.IH [OF 2] read_entry_files [OF 1]
    by (auto simp: io_bind_def io_return_def split: sum.splits)
qed (simp add: io_return_def)

lemma read_entries_Inr:
  assumes "queue_ok q"
  shows "read_entries lib q fs w = (Inr es, w') \<Longrightarrow> set fs \<subseteq> dom (spool q w) \<Longrightarrow>
     map (entry lib q w) fs = map Some es"
proof (induction fs arbitrary: es w)
  case (Cons f fs)
  from Cons.prems(1) obtain e v es' where r: "read_entry lib q f w = (Inr e, v)"
      "read_entries lib q fs v = (Inr es', w')" "es = e # es'"
    by (auto simp: io_outcomes)
  have s: "spool q v = spool q w" using spool_files [OF read_entry_files [OF r(1)]] .
  then have "entry lib q v = entry lib q w" by (simp add: entry_def fun_eq_iff)
  then have "map (entry lib q w) fs = map Some es'" using Cons.IH [OF r(2)] Cons.prems(2) s by simp
  moreover obtain c where "spool q w f = Some c" using Cons.prems(2) by auto
  ultimately show ?case using read_entry_Inr [OF assms _ r(1)] r(3) by simp
qed simp

lemma Peek_Inr:
  assumes "queue_ok q" and "w_ok w" and "Peek lib q k w = (Inr b, w')"
  shows "w_files w' = w_files w \<and> qb_files b = take (nat k) (spool_names q w)
         \<and> map (entry lib q w) (qb_files b) = map Some (qb_Events b) \<and> 0 < k"
proof -
  from assms(3) obtain fs v es where p: "0 < k" "queueFiles (q_dir q) w = (Inr fs, v)"
      "read_entries lib q (take (nat k) fs) v = (Inr es, w')"
      "b = \<lparr>qb_Events = es, qb_files = take (nat k) fs\<rparr>"
    by (auto simp: Peek_def io_outcomes Let_def split: if_splits)
  have f: "w_files v = w_files w" "fs = spool_names q w" using queueFiles_Inr [OF p(2)] by auto
  have "set (take (nat k) fs) \<subseteq> dom (spool q v)"
    using spool_names_set [OF assms(1,2)] f(2) spool_files [OF f(1), of q] set_take_subset by force
  then have "map (entry lib q v) (take (nat k) fs) = map Some es"
    by (rule read_entries_Inr [OF assms(1) p(3)])
  moreover have "entry lib q v = entry lib q w"
    using spool_files [OF f(1), of q] by (simp add: entry_def fun_eq_iff)
  ultimately show ?thesis using p f read_entries_files [OF p(3)] by simp
qed

lemma Peek_files: "Peek lib q k w = (r, w') \<Longrightarrow> w_files w' = w_files w"
proof -
  assume p: "Peek lib q k w = (r, w')"
  obtain r1 w1 where 1: "queueFiles (q_dir q) w = (r1, w1)" by fastforce
  have "w_files w' = w_files w1" if "r1 = Inr fs" "\<not> (k \<le> 0 \<or> 100 < k)" for fs
  proof -
    obtain r2 w2 where 2: "read_entries lib q (if k < int (length fs) then take (nat k) fs else fs) w1 = (r2, w2)"
      by fastforce
    show ?thesis
      using p 1 2 that read_entries_files [OF 2]
      by (auto simp: Peek_def io_bind_def io_return_def Let_def split: sum.splits)
  qed
  then show ?thesis
    using p 1 queueFiles_files [OF 1]
    by (cases r1) (auto simp: Peek_def io_bind_def io_fail_def split: if_splits)
qed

lemma BasePath_no_slash: "BasePath n = n \<Longrightarrow> HasSuffix n queueFileSuffix \<Longrightarrow> spool_name n"
proof -
  assume b: "BasePath n = n" and suf: "HasSuffix n queueFileSuffix"
  then have n: "n \<noteq> []" "n \<noteq> ''/''"
    by (auto simp: HasSuffix_def queueFileSuffix_def suffix_def append_eq_Cons_conv)
  let ?q = "rev (dropWhile (\<lambda>c. c = slash) (rev n))"
  have "?q = [] \<or> n = rev (takeWhile (\<lambda>c. c \<noteq> slash) (rev ?q))"
    using b n(1) by (auto split: list.splits)
  moreover have "?q \<noteq> []"
  proof
    assume q: "?q = []"
    have "BasePath n = ''/''" unfolding BasePath.simps [of n] q using n(1) by simp
    then show False using b n(2) by simp
  qed
  ultimately have "n = rev (takeWhile (\<lambda>c. c \<noteq> slash) (rev ?q))" by blast
  then have "slash \<notin> set n" by (metis set_rev set_takeWhileD)
  then show ?thesis using suf by (simp add: spool_name_def)
qed

lemma Remove_gone: "Remove p w = (r, w') \<Longrightarrow> r = Inr () \<or> r = Inl OsNotExist \<Longrightarrow> node_at w' p = None"
  by (auto simp: Remove_def sys_def split: prod.splits option.splits if_splits dest!: next_fault_files)

lemma ack_files_spool:
  assumes "queue_ok q"
  shows "ack_files q fs w = (r, w') \<Longrightarrow>
     (\<forall>n. n \<notin> set fs \<longrightarrow> spool q w' n = spool q w n) \<and> (\<forall>n. spool q w n = None \<longrightarrow> spool q w' n = None)
     \<and> (r = Inr () \<longrightarrow> (\<forall>n \<in> set fs. spool q w' n = None))"
proof (induction fs arbitrary: w)
  case Nil
  then show ?case by (simp add: io_return_def)
next
  case (Cons f fs)
  show ?case
  proof (cases "BasePath f \<noteq> f \<or> \<not> HasSuffix f queueFileSuffix")
    case True
    then show ?thesis using Cons.prems by (auto simp: io_fail_def simp del: BasePath.simps)
  next
    case False
    then have f: "spool_name f" using BasePath_no_slash by blast
    let ?p = "q_dir q @ slash # f"
    have p: "JoinPath [q_dir q, f] = ?p" using queue_path [OF assms spool_name_elem [OF f]] .
    obtain r1 v where rm: "Remove ?p w = (r1, v)" by fastforce
    have other: "spool q v n = spool q w n" if "n \<noteq> f" for n
      using touchesD [OF touches_Remove _ rm, of "q_dir q @ slash # n"] that by (simp add: spool_def)
    show ?thesis
    proof (cases "r1 = Inr () \<or> r1 = Inl OsNotExist")
      case True
      then have rest: "ack_files q fs v = (r, w')"
        using Cons.prems False rm p by (auto simp: io_try_def simp del: BasePath.simps)
      have "spool q v f = None" using Remove_gone [OF rm True] f by (simp add: spool_def)
      then show ?thesis using Cons.IH [OF rest] other by (metis list.set_intros(1) list.set_intros(2) set_ConsD)
    next
      case err: False
      then obtain e where e: "r1 = Inl e" "e \<noteq> OsNotExist" by (cases r1) auto
      then have "r = Inl (''acknowledge queued event: '' @ os_text e)" "w' = v"
        using Cons.prems False rm p by (auto simp: io_try_def io_fail_def simp del: BasePath.simps split: os_error.splits)
      moreover have "w_files v = w_files w"
        using rm e by (auto simp: Remove_def sys_def split: prod.splits option.splits if_splits dest: next_fault_files)
      ultimately show ?thesis using spool_files [of v w q] by simp
    qed
  qed
qed

end
