(* ===== verification/Agent_State.thy ===== *)
theory Agent_State
  imports Queue
begin

text \<open>
  The files of the Agent's state directory besides the spool: its identity (internal/agent/identity.go)
  and the last accepted policy (internal/agent/policy.go). The JSON codecs are the fields of \<open>state_lib\<close>.
\<close>

record Identity =
  id_MachineID :: string
  id_AgentID :: string
  id_Credential :: string

record state_lib =
  sl_marshal_identity :: "Identity \<Rightarrow> error + string"
  sl_unmarshal_identity :: "Identity \<Rightarrow> string \<Rightarrow> error + Identity"
  sl_marshal_policy :: "Policy \<Rightarrow> error + string"
  sl_decode_policy :: "string \<Rightarrow> (Policy \<times> string) option"

definition machineIDFilename :: string where "machineIDFilename = ''machine.id''"
definition credentialFilename :: string where "credentialFilename = ''credentials.json''"
definition policyFilename :: string where "policyFilename = ''policy.json''"
definition maxPolicyBytes :: nat where "maxPolicyBytes = 262144"

section \<open>Identity\<close>

definition Registered :: "Identity \<Rightarrow> bool" where
  "Registered identity \<longleftrightarrow> id_AgentID identity \<noteq> [] \<and> id_Credential identity \<noteq> []"

fun loadOrCreateMachineID :: "nat \<Rightarrow> string \<Rightarrow> world \<Rightarrow> (error + string) option \<times> world" where
  "loadOrCreateMachineID 0 path w = (None, w)"
| "loadOrCreateMachineID (Suc depth) path w =
     (case ReadFile path w of
        (Inr encoded, w) \<Rightarrow>
          (let machineID = TrimSpace encoded
           in (Some (if machineID = [] \<or> 128 < length machineID then Inl ''local machine id is invalid''
                     else Inr machineID), w))
      | (Inl OsNotExist, w) \<Rightarrow>
          (case RandomIO ''mch_'' 18 w of
             (Inl e, w) \<Rightarrow> (Some (Inl (''generate machine id: '' @ os_text e)), w)
           | (Inr machineID, w) \<Rightarrow>
               (case OpenExcl path 384 w of
                  (Inl OsExist, w) \<Rightarrow> loadOrCreateMachineID depth path w
                | (Inl e, w) \<Rightarrow> (Some (Inl (''create machine id: '' @ os_text e)), w)
                | (Inr _, w) \<Rightarrow>
                    (case write_fresh ''machine id'' path (machineID @ [byte 10]) w of
                       (Inl e, w) \<Rightarrow> (Some (Inl e), w)
                     | (Inr _, w) \<Rightarrow> (Some (Inr machineID), w))))
      | (Inl e, w) \<Rightarrow> (Some (Inl (''read machine id: '' @ os_text e)), w))"

definition LoadIdentity :: "state_lib \<Rightarrow> string \<Rightarrow> (error, Identity) io" where
  "LoadIdentity lib stateDir =
     io_then (ensurePrivateDirectory stateDir)
       (\<lambda>w. case loadOrCreateMachineID 2 (JoinPath [stateDir, machineIDFilename]) w of
          (None, w) \<Rightarrow> (Inl ''stack overflow'', w)
        | (Some (Inl e), w) \<Rightarrow> (Inl e, w)
        | (Some (Inr machineID), w) \<Rightarrow>
            (let identity = \<lparr>id_MachineID = machineID, id_AgentID = [], id_Credential = []\<rparr>
             in case ReadFile (JoinPath [stateDir, credentialFilename]) w of
                  (Inl OsNotExist, w) \<Rightarrow> (Inr identity, w)
                | (Inl e, w) \<Rightarrow> (Inl (''read credentials: '' @ os_text e), w)
                | (Inr encoded, w) \<Rightarrow>
                    (case sl_unmarshal_identity lib identity encoded of
                       Inl e \<Rightarrow> (Inl (''decode credentials: '' @ e), w)
                     | Inr loaded \<Rightarrow>
                         if id_MachineID loaded \<noteq> machineID \<or> \<not> Registered loaded
                         then (Inl ''credentials do not match the local machine identity'', w)
                         else (Inr loaded, w))))"

definition SaveCredentials :: "state_lib \<Rightarrow> string \<Rightarrow> Identity \<Rightarrow> (error, unit) io" where
  "SaveCredentials lib stateDir identity =
     (if TrimSpace (id_MachineID identity) = [] \<or> \<not> Registered identity
      then io_fail ''complete identity is required''
      else case sl_marshal_identity lib identity of
        Inl e \<Rightarrow> io_fail (''encode credentials: '' @ e)
      | Inr encoded \<Rightarrow>
          create_labelled ''credentials'' (JoinPath [stateDir, credentialFilename]) encoded 384)"

section \<open>Policy\<close>

text \<open>\<^const>\<open>None\<close> for \<open>false, nil\<close>: no policy has been stored.\<close>

definition parse_policy :: "state_lib \<Rightarrow> string \<Rightarrow> string \<Rightarrow> error \<Rightarrow> error + Policy" where
  "parse_policy lib encoded agentID mismatch =
     (case sl_decode_policy lib encoded of
        None \<Rightarrow> Inl ''decode Agent policy''
      | Some (policy, rest) \<Rightarrow>
          if \<not> list_all json_blank rest then Inl ''Agent policy contains trailing JSON''
          else if policy_AgentID policy \<noteq> agentID then Inl mismatch
          else case ValidatePolicy policy of Some err \<Rightarrow> Inl err | None \<Rightarrow> Inr policy)"

definition LoadPolicy :: "state_lib \<Rightarrow> string \<Rightarrow> string \<Rightarrow> (error, Policy option) io" where
  "LoadPolicy lib stateDir agentID =
     (let path = JoinPath [stateDir, policyFilename]
      in io_try (Lstat path) (\<lambda>r.
        case r of
          Inl OsNotExist \<Rightarrow> io_return None
        | Inl e \<Rightarrow> io_fail (os_text e)
        | Inr info \<Rightarrow>
            if \<not> is_regular info \<or> node_size info \<le> 0 \<or> maxPolicyBytes < node_size info
            then io_fail ''Agent policy file must be a small regular file''
            else io_bind (io_wrap os_text (ReadFile path)) (\<lambda>encoded.
              case parse_policy lib encoded agentID ''persisted policy targets a different Agent'' of
                Inl e \<Rightarrow> io_fail e
              | Inr policy \<Rightarrow> io_return (Some policy))))"

definition SavePolicy :: "state_lib \<Rightarrow> string \<Rightarrow> Policy \<Rightarrow> (error, unit) io" where
  "SavePolicy lib stateDir policy =
     (case ValidatePolicy policy of
        Some err \<Rightarrow> io_fail err
      | None \<Rightarrow>
          io_then (ensurePrivateDirectory stateDir)
            (case sl_marshal_policy lib policy of
               Inl e \<Rightarrow> io_fail e
             | Inr json \<Rightarrow>
                 (let encoded = json @ [byte 10]
                  in if maxPolicyBytes < length encoded then io_fail ''Agent policy exceeds size limit''
                     else io_wrap os_text (replace_via_temp stateDir ''.policy-'' ''.tmp''
                            (JoinPath [stateDir, policyFilename]) encoded 384))))"

section \<open>The stored policy\<close>

lemma policy_not_temp: "\<not> temp_name dir ''.policy-'' ''.tmp'' (JoinPath [d, policyFilename])"
  by (rule not_temp_name) (simp_all add: name_elem_def policyFilename_def)

text \<open>What the policy file holds, when it is a regular file of a valid size.\<close>

definition stored_policy :: "state_lib \<Rightarrow> string \<Rightarrow> string \<Rightarrow> world \<Rightarrow> Policy option" where
  "stored_policy lib stateDir agentID w =
     (case node_at w (JoinPath [stateDir, policyFilename]) of
        Some (NFile _ encoded) \<Rightarrow>
          if encoded = [] \<or> maxPolicyBytes < length encoded then None
          else (case parse_policy lib encoded agentID [] of Inl _ \<Rightarrow> None | Inr policy \<Rightarrow> Some policy)
      | _ \<Rightarrow> None)"

lemma parse_policy_Inr: "parse_policy lib enc aid m = Inr p \<longleftrightarrow> parse_policy lib enc aid m' = Inr p"
  by (simp add: parse_policy_def split: option.splits prod.splits)

lemma parse_policy_wf: "parse_policy lib enc aid m = Inr p \<Longrightarrow> wf_policy p \<and> policy_AgentID p = aid"
  by (auto simp: parse_policy_def ValidatePolicy_iff [symmetric] split: option.splits if_splits)

lemma LoadPolicy_Inr:
  assumes "LoadPolicy lib stateDir agentID w = (Inr p, w')"
  shows "w_files w' = w_files w
         \<and> (case p of None \<Rightarrow> node_at w (JoinPath [stateDir, policyFilename]) = None
            | Some policy \<Rightarrow> stored_policy lib stateDir agentID w = Some policy)"
proof -
  let ?path = "JoinPath [stateDir, policyFilename]"
  obtain r v where l: "Lstat ?path w = (r, v)" by fastforce
  have v: "w_files v = w_files w" using reads_files(1) [OF l] .
  show ?thesis
  proof (cases r)
    case (Inl e)
    then have "p = None" "e = OsNotExist" "w' = v"
      using assms l by (auto simp: LoadPolicy_def Let_def io_try_def split: os_error.splits)
    moreover have "node_at w ?path = None"
      using l Inl \<open>e = OsNotExist\<close>
      by (auto simp: Lstat_def sys_def split: prod.splits option.splits dest!: next_fault_files)
    ultimately show ?thesis using v by simp
  next
    case (Inr info)
    then have run: "\<not> (\<not> is_regular info \<or> node_size info \<le> 0 \<or> maxPolicyBytes < node_size info)"
      and "\<exists>enc policy. ReadFile ?path v = (Inr enc, w') \<and> p = Some policy
          \<and> parse_policy lib enc agentID ''persisted policy targets a different Agent'' = Inr policy"
      using assms l
      by (auto simp: LoadPolicy_def Let_def io_try_def io_outcomes split: if_splits)
    then obtain enc policy where enc: "ReadFile ?path v = (Inr enc, w')" "p = Some policy"
        "parse_policy lib enc agentID ''persisted policy targets a different Agent'' = Inr policy"
      by blast
    obtain m c where info: "info = NFile m c" using run by (cases info) auto
    then have node: "node_at v ?path = Some (NFile m c)" using Lstat_Inr l Inr v by fastforce
    then have "enc = c" using ReadFile_Inr [OF enc(1)] follow_file by fastforce
    then have "stored_policy lib stateDir agentID w = Some policy"
      using node v run info enc(3) parse_policy_Inr [THEN iffD1, OF enc(3), of "[]"]
      by (auto simp: stored_policy_def)
    then show ?thesis using enc reads_files(3) [OF enc(1)] v by simp
  qed
qed

lemma touches_ensurePrivateDirectory:
  assumes "name_elem n"
  shows "touches (\<lambda>q. q \<noteq> JoinPath [d, n]) (ensurePrivateDirectory d)"
proof (cases "TrimSpace d = []")
  case False
  then have d: "d \<noteq> []" by (auto simp: TrimSpace_def)
  have "touches (\<lambda>q. q \<noteq> JoinPath [d, n]) (MkdirAll d 448)"
    by (rule touches_mono [OF touches_MkdirAll]) (use JoinPath_not_in_chain [OF assms d] in auto)
  moreover have "touches (\<lambda>q. q \<noteq> JoinPath [d, n]) (ChmodFile d 448)"
    by (rule touches_mono [OF touches_ChmodFile]) (use JoinPath_not_dir [OF assms d] in auto)
  ultimately show ?thesis
    using False unfolding ensurePrivateDirectory_def by (simp add: touches_bind touches_wrap)
qed (simp add: ensurePrivateDirectory_def touches_fail)

lemma policy_name: "name_elem policyFilename"
  by (simp add: name_elem_def policyFilename_def)

text \<open>Either the policy file is untouched or it holds the new policy, whatever fails.\<close>

lemma SavePolicy_effect:
  assumes "SavePolicy lib stateDir policy w = (r, w')"
  shows "case r of
      Inl _ \<Rightarrow> node_at w' (JoinPath [stateDir, policyFilename]) = node_at w (JoinPath [stateDir, policyFilename])
    | Inr _ \<Rightarrow> wf_policy policy \<and> (\<exists>json. sl_marshal_policy lib policy = Inr json
         \<and> length json < maxPolicyBytes
         \<and> node_at w' (JoinPath [stateDir, policyFilename]) = Some (NFile 384 (json @ [byte 10])))"
proof (cases "ValidatePolicy policy")
  case (Some err)
  then show ?thesis using assms by (auto simp: SavePolicy_def)
next
  case None
  let ?path = "JoinPath [stateDir, policyFilename]"
  obtain r1 v where e: "ensurePrivateDirectory stateDir w = (r1, v)" by fastforce
  have v: "node_at v ?path = node_at w ?path"
    using touchesD [OF touches_ensurePrivateDirectory [OF policy_name] _ e, of ?path] by simp
  show ?thesis
  proof (cases r)
    case (Inl err)
    then consider "w' = v" | json where "\<exists>d. replace_via_temp stateDir ''.policy-'' ''.tmp'' ?path json 384 v = (Inl d, w')"
      using assms None e
      by (auto simp: SavePolicy_def io_outcomes Let_def split: sum.splits if_splits)
    then have "node_at w' ?path = node_at w ?path"
    proof cases
      case 2
      then show ?thesis using replace_via_temp_Inl [OF _ policy_not_temp] v by fastforce
    qed (use v in simp)
    then show ?thesis using Inl by simp
  next
    case (Inr u)
    then obtain json where "sl_marshal_policy lib policy = Inr json" "length json < maxPolicyBytes"
        "replace_via_temp stateDir ''.policy-'' ''.tmp'' ?path (json @ [byte 10]) 384 v = (Inr u, w')"
      using assms None e
      by (auto simp: SavePolicy_def io_outcomes Let_def not_less Suc_le_eq split: sum.splits if_splits)
    then show ?thesis using Inr None replace_via_temp_Inr by (auto simp: ValidatePolicy_iff)
  qed
qed

end
