(* ===== verification/Client.thy ===== *)
theory Client
  imports Agent_State Mtls
begin

text \<open>
  internal/agent/client.go: the Agent's side of the HTTP API. The transport is an argument: a function
  from the state of the network and a request to a response or an error and the new state, so the
  same client runs against any server. The
  JSON codecs, URL parsing and the table of status texts are the fields of \<open>client_lib\<close>.
\<close>

record HttpRequest =
  http_Method :: string
  http_URL :: string
  http_Authorization :: string
  http_Content :: string
  http_Certificate :: "Certificate option"

record HttpResponse =
  http_StatusCode :: nat
  http_Body :: string

type_synonym 'n transport = "HttpRequest \<Rightarrow> 'n \<Rightarrow> (error + HttpResponse) \<times> 'n"

record URL =
  url_Scheme :: string
  url_Host :: string
  url_Hostname :: string
  url_User :: bool
  url_RawQuery :: string
  url_Fragment :: string
  url_Path :: string

record registerInput =
  ri_MachineID :: string
  ri_Hostname :: string
  ri_Version :: string
  ri_Platform :: string
  ri_Architecture :: string
  ri_ClientCSR :: string

record registerOutput =
  ro_AgentID :: string
  ro_Credential :: string
  ro_ClientCertificate :: string
  ro_ClientCACertificate :: string

record client_lib =
  nl_url_Parse :: "string \<Rightarrow> URL option"
  nl_url_String :: "URL \<Rightarrow> string"
  nl_IsLoopback :: "string \<Rightarrow> bool"
  nl_StatusText :: "nat \<Rightarrow> string"
  nl_detail :: "string \<Rightarrow> string"
  nl_register :: "registerInput \<Rightarrow> error + string"
  nl_registered :: "string \<Rightarrow> error + registerOutput"
  nl_heartbeat :: "string \<Rightarrow> nat \<Rightarrow> error + string"
  nl_events :: "Event list \<Rightarrow> error + string"
  nl_csr :: "string \<Rightarrow> error + string"

record ClientConfig =
  cc_BaseURL :: string
  cc_BootstrapToken :: string
  cc_Certificate :: "Certificate option"
  cc_AllowInsecureHTTP :: bool

record Client =
  c_baseURL :: string
  c_bootstrapToken :: string
  c_Certificate :: "Certificate option"

definition maxControlResponseBytes :: nat where "maxControlResponseBytes = 1048576"

section \<open>Configuration\<close>

definition TrimRightSlash :: "string \<Rightarrow> string" where
  "TrimRightSlash s = rev (dropWhile (\<lambda>c. c = slash) (rev s))"

text \<open>\<open>strings.EqualFold\<close> with \<open>localhost\<close>: the letter s also folds with U+017F.\<close>

fun fold_long_s :: "string \<Rightarrow> string" where
  "fold_long_s (a # b # s) =
     (if a = byte 197 \<and> b = byte 191 then CHR ''s'' # fold_long_s s else a # fold_long_s (b # s))"
| "fold_long_s s = s"

definition isLoopbackHost :: "client_lib \<Rightarrow> string \<Rightarrow> bool" where
  "isLoopbackHost lib host =
     (if EqualFold (fold_long_s host) ''localhost'' then True else nl_IsLoopback lib host)"

definition NewClient :: "client_lib \<Rightarrow> ClientConfig \<Rightarrow> error + Client" where
  "NewClient lib config =
     (case nl_url_Parse lib (TrimSpace (cc_BaseURL config)) of
        None \<Rightarrow> Inl ''control URL must be an absolute HTTP(S) URL without credentials, query, or fragment''
      | Some parsed \<Rightarrow>
          if url_Scheme parsed = [] \<or> url_Host parsed = [] \<or> url_User parsed \<or> url_RawQuery parsed \<noteq> []
             \<or> url_Fragment parsed \<noteq> []
          then Inl ''control URL must be an absolute HTTP(S) URL without credentials, query, or fragment''
          else if url_Scheme parsed \<noteq> ''https'' \<and> url_Scheme parsed \<noteq> ''http''
          then Inl ''control URL scheme must be http or https''
          else if url_Scheme parsed = ''http'' \<and> \<not> cc_AllowInsecureHTTP config
             \<and> \<not> isLoopbackHost lib (url_Hostname parsed)
          then Inl ''plain HTTP is only allowed for loopback development endpoints''
          else Inr \<lparr>c_baseURL = TrimRightSlash
                      (nl_url_String lib (parsed\<lparr>url_Path := TrimRightSlash (url_Path parsed)\<rparr>)),
                    c_bootstrapToken = cc_BootstrapToken config,
                    c_Certificate = cc_Certificate config\<rparr>)"

section \<open>Requests\<close>

text \<open>\<open>url.PathEscape\<close>: a path segment, where slash, semicolon, comma and question mark are escaped too.\<close>

definition segment_plain :: "char \<Rightarrow> bool" where
  "segment_plain c = (path_plain c \<and> c \<notin> set ''/;,?'')"

definition PathEscape :: "string \<Rightarrow> string" where
  "PathEscape s = concat (map (\<lambda>c. if segment_plain c then [c]
     else [CHR ''%'', upper_hex ((of_char c :: nat) div 16), upper_hex ((of_char c :: nat) mod 16)]) s)"

definition agent_path :: "Identity \<Rightarrow> string \<Rightarrow> string" where
  "agent_path identity operation = ''/v1/agents/'' @ PathEscape (id_AgentID identity) @ operation"

definition doJSON ::
  "client_lib \<Rightarrow> 'n transport \<Rightarrow> Client \<Rightarrow> string \<Rightarrow> string \<Rightarrow> string \<Rightarrow> error + string \<Rightarrow> 'n
     \<Rightarrow> (error + string) \<times> 'n" where
  "doJSON lib tr client m path token input net =
     (case input of
        Inl e \<Rightarrow> (Inl (''encode control request: '' @ e), net)
      | Inr encoded \<Rightarrow>
          (case tr \<lparr>http_Method = m, http_URL = c_baseURL client @ path,
                    http_Authorization = ''Bearer '' @ token, http_Content = encoded,
                    http_Certificate = c_Certificate client\<rparr> net of
             (Inl e, net) \<Rightarrow> (Inl (''send control request: '' @ e), net)
           | (Inr response, net) \<Rightarrow>
               if maxControlResponseBytes < length (http_Body response)
               then (Inl ''control response exceeds size limit'', net)
               else if http_StatusCode response < 200 \<or> 300 \<le> http_StatusCode response
               then (let detail = nl_detail lib (http_Body response)
                     in (Inl (''control response '' @ FormatNat (http_StatusCode response) @ '': ''
                           @ (if detail = [] then nl_StatusText lib (http_StatusCode response) else detail)), net))
               else (Inr (http_Body response), net)))"

definition ClientRegister ::
  "client_lib \<Rightarrow> 'n transport \<Rightarrow> Client \<Rightarrow> registerInput \<Rightarrow> 'n \<Rightarrow> (error + registerOutput) \<times> 'n" where
  "ClientRegister lib tr client input net =
     (if TrimSpace (c_bootstrapToken client) = []
      then (Inl ''bootstrap token is required for registration'', net)
      else case doJSON lib tr client ''POST'' ''/v1/agents/register'' (c_bootstrapToken client)
                  (nl_register lib input) net of
        (Inl e, net) \<Rightarrow> (Inl e, net)
      | (Inr content, net) \<Rightarrow>
          (case nl_registered lib content of
             Inl e \<Rightarrow> (Inl (''decode control response: '' @ e), net)
           | Inr output \<Rightarrow>
               if ro_AgentID output = [] \<or> ro_Credential output = []
               then (Inl ''control plane returned incomplete registration credentials'', net)
               else (Inr output, net)))"

definition ClientHeartbeat ::
  "client_lib \<Rightarrow> 'n transport \<Rightarrow> Client \<Rightarrow> Identity \<Rightarrow> string \<Rightarrow> nat \<Rightarrow> 'n \<Rightarrow> (error + unit) \<times> 'n" where
  "ClientHeartbeat lib tr client identity version queueDepth net =
     map_prod (map_sum id (\<lambda>_. ())) id
       (doJSON lib tr client ''POST'' (agent_path identity ''/heartbeat'') (id_Credential identity)
          (nl_heartbeat lib version queueDepth) net)"

definition SendEvents ::
  "client_lib \<Rightarrow> 'n transport \<Rightarrow> Client \<Rightarrow> Identity \<Rightarrow> Event list \<Rightarrow> 'n \<Rightarrow> (error + unit) \<times> 'n" where
  "SendEvents lib tr client identity events net =
     map_prod (map_sum id (\<lambda>_. ())) id
       (doJSON lib tr client ''POST'' (agent_path identity ''/events'') (id_Credential identity)
          (nl_events lib events) net)"

definition RenewCertificate ::
  "client_lib \<Rightarrow> 'n transport \<Rightarrow> Client \<Rightarrow> Identity \<Rightarrow> string \<Rightarrow> 'n \<Rightarrow> (error + registerOutput) \<times> 'n" where
  "RenewCertificate lib tr client identity clientCSR net =
     (if \<not> Registered identity \<or> TrimSpace clientCSR = []
      then (Inl ''registered Agent identity and CSR are required'', net)
      else case doJSON lib tr client ''POST'' (agent_path identity ''/certificate'') (id_Credential identity)
                  (nl_csr lib clientCSR) net of
        (Inl e, net) \<Rightarrow> (Inl e, net)
      | (Inr content, net) \<Rightarrow>
          (case nl_registered lib content of
             Inl e \<Rightarrow> (Inl (''decode control response: '' @ e), net)
           | Inr output \<Rightarrow>
               if ro_AgentID output \<noteq> id_AgentID identity \<or> ro_ClientCertificate output = []
                  \<or> ro_ClientCACertificate output = []
               then (Inl ''control plane returned incomplete renewed certificate material'', net)
               else (Inr output, net)))"

text \<open>\<^const>\<open>None\<close> for \<open>false, nil\<close>: the control plane has no policy for this Agent.\<close>

definition FetchPolicy ::
  "client_lib \<Rightarrow> state_lib \<Rightarrow> 'n transport \<Rightarrow> Client \<Rightarrow> Identity \<Rightarrow> 'n \<Rightarrow> (error + Policy option) \<times> 'n" where
  "FetchPolicy lib slib tr client identity net =
     (if \<not> Registered identity then (Inl ''registered Agent identity is required'', net)
      else case tr \<lparr>http_Method = ''GET'', http_URL = c_baseURL client @ agent_path identity ''/policy'',
                    http_Authorization = ''Bearer '' @ id_Credential identity, http_Content = [],
                    http_Certificate = c_Certificate client\<rparr> net of
        (Inl e, net) \<Rightarrow> (Inl (''fetch Agent policy: '' @ e), net)
      | (Inr response, net) \<Rightarrow>
          if maxControlResponseBytes < length (http_Body response)
          then (Inl ''control response exceeds size limit'', net)
          else if http_StatusCode response = 404 then (Inr None, net)
          else if http_StatusCode response \<noteq> 200
          then (Inl (''control response '' @ FormatNat (http_StatusCode response) @ '': ''
                  @ nl_StatusText lib (http_StatusCode response)), net)
          else (map_sum id Some (parse_policy slib (http_Body response) (id_AgentID identity)
                  ''Agent policy target does not match the authenticated Agent''), net))"

section \<open>What an answer guarantees\<close>

text \<open>the client talks in the clear only where it may. A client can be built for a plain HTTP URL only
  if insecure HTTP was allowed explicitly or the host is the local machine; a URL with credentials, a
  query or a fragment is refused altogether.\<close>

theorem NewClient_plain_http:
  assumes "NewClient lib config = Inr client"
  shows "\<exists>parsed. nl_url_Parse lib (TrimSpace (cc_BaseURL config)) = Some parsed
           \<and> (url_Scheme parsed = ''https''
              \<or> url_Scheme parsed = ''http''
                \<and> (cc_AllowInsecureHTTP config \<or> isLoopbackHost lib (url_Hostname parsed)))
           \<and> \<not> url_User parsed \<and> url_RawQuery parsed = [] \<and> url_Fragment parsed = []"
  using assms by (auto simp: NewClient_def split: option.splits if_splits)

lemma FetchPolicy_wf:
  "FetchPolicy lib slib tr client identity net = (Inr (Some p), net') \<Longrightarrow>
     wf_policy p \<and> policy_AgentID p = id_AgentID identity"
  by (auto simp: FetchPolicy_def map_sum_def split: if_splits prod.splits sum.splits dest: parse_policy_wf)

lemma doJSON_ok:
  "doJSON lib tr client m path token input net = (Inr content, net') \<Longrightarrow>
     \<exists>encoded response. input = Inr encoded \<and> tr \<lparr>http_Method = m, http_URL = c_baseURL client @ path,
          http_Authorization = ''Bearer '' @ token, http_Content = encoded,
          http_Certificate = c_Certificate client\<rparr> net = (Inr response, net')
       \<and> 200 \<le> http_StatusCode response \<and> http_StatusCode response < 300"
  by (auto simp: doJSON_def Let_def split: sum.splits prod.splits if_splits)

end
