(* ===== verification/Queue_Props.thy ===== *)
theory Queue_Props
  imports Queue
begin

text \<open>
  What the Agent's spool guarantees to its clients, the cycle and the local feed. The locale
  \<open>event_spool\<close> is the interface: nothing queued is ever lost by queueing more or by reading, an
  accepted event is there, and only an acknowledgement removes. It is interpreted on the operations of
  theory Queue. The theorems add the order of the file names, the round trip through encryption and
  the two ways in which one bad file stops the spool.
\<close>

locale event_spool =
  fixes wf :: "'q \<Rightarrow> bool"
    and pending :: "'q \<Rightarrow> world \<Rightarrow> (string \<rightharpoonup> string)"
    and enqueue :: "'l \<Rightarrow> 'q \<Rightarrow> time \<Rightarrow> Event \<Rightarrow> (error, unit) io"
    and peek :: "'l \<Rightarrow> 'q \<Rightarrow> int \<Rightarrow> (error, QueueBatch) io"
    and ack :: "'q \<Rightarrow> QueueBatch \<Rightarrow> (error, unit) io"
    and decode :: "'l \<Rightarrow> 'q \<Rightarrow> string \<Rightarrow> Event option"
  assumes pending_finite: "wf q \<Longrightarrow> w_ok w \<Longrightarrow> finite (dom (pending q w))"
    and enqueue_keeps: "wf q \<Longrightarrow> pending q w n = Some c \<Longrightarrow> pending q (snd (enqueue l q t e w)) n = Some c"
    and enqueue_adds: "wf q \<Longrightarrow> enqueue l q t e w = (Inr u, w') \<Longrightarrow>
      \<exists>n c. pending q w n = None \<and> pending q w' = (pending q w)(n \<mapsto> c)"
    and peek_same: "peek l q k w = (r, w') \<Longrightarrow> pending q w' = pending q w"
    and peek_batch: "wf q \<Longrightarrow> w_ok w \<Longrightarrow> peek l q k w = (Inr b, w') \<Longrightarrow>
      set (qb_files b) \<subseteq> dom (pending q w) \<and> distinct (qb_files b)
      \<and> length (qb_Events b) = length (qb_files b)
      \<and> length (qb_files b) = min (nat k) (card (dom (pending q w))) \<and> 0 < k"
    and peek_content: "wf q \<Longrightarrow> w_ok w \<Longrightarrow> peek l q k w = (Inr b, w') \<Longrightarrow>
      map (\<lambda>n. Option.bind (pending q w n) (decode l q)) (qb_files b) = map Some (qb_Events b)"
    and ack_others: "wf q \<Longrightarrow> n \<notin> set (qb_files b) \<Longrightarrow> pending q (snd (ack q b w)) n = pending q w n"
    and ack_done: "wf q \<Longrightarrow> ack q b w = (Inr u, w') \<Longrightarrow> n \<in> set (qb_files b) \<Longrightarrow> pending q w' n = None"
    and ops_ok: "w_ok w \<Longrightarrow> w_ok (snd (enqueue l q t e w))" "w_ok w \<Longrightarrow> w_ok (snd (peek l q k w))"
      "w_ok w \<Longrightarrow> w_ok (snd (ack q b w))"
begin

lemma ack_effect:
  assumes "wf q" and "ack q b w = (Inr u, w')"
  shows "pending q w' = (pending q w) |` (- set (qb_files b))"
proof
  fix n
  show "pending q w' n = ((pending q w) |` (- set (qb_files b))) n"
    using ack_done [OF assms, of n] ack_others [OF assms(1), of n b w] assms(2)
    by (auto simp: restrict_map_def)
qed

text \<open>Reading a batch and acknowledging it shortens the spool, unless it was empty.\<close>

lemma peek_ack_progress:
  assumes "wf q" and "w_ok w" and "peek l q k w = (Inr b, v)" and "ack q b v = (Inr u, w')"
    and "qb_Events b \<noteq> []"
  shows "card (dom (pending q w')) < card (dom (pending q w))"
proof -
  note b = peek_batch [OF assms(1-3)]
  have v: "pending q v = pending q w" using peek_same [OF assms(3)] .
  have "dom (pending q w') = dom (pending q w) - set (qb_files b)"
    unfolding ack_effect [OF assms(1,4)] v dom_restrict by blast
  moreover have "qb_files b \<noteq> []" using b assms(5) by (cases "qb_files b") auto
  then have "dom (pending q w) - set (qb_files b) \<subset> dom (pending q w)"
    using b by (cases "qb_files b") auto
  ultimately show ?thesis using pending_finite [OF assms(1,2)] by (simp add: psubset_card_mono)
qed

end

lemma spool_finite: "queue_ok q \<Longrightarrow> w_ok w \<Longrightarrow> finite (dom (spool q w))"
  using spool_names_set by (metis finite_set)

lemma keeps_ok_ack_files: "keeps_ok (ack_files q fs)"
proof (induction fs)
  case (Cons f fs)
  then show ?case
    by (auto intro!: keeps_ok_try keeps_ok_calls split: sum.splits os_error.splits simp del: BasePath.simps)
qed (simp add: keeps_ok_return)

interpretation queue: event_spool queue_ok spool Enqueue Peek Ack "\<lambda>l q. decode_payload l (q_key q)"
proof
  fix q w
  show "queue_ok q \<Longrightarrow> w_ok w \<Longrightarrow> finite (dom (spool q w))" by (rule spool_finite)
next
  fix q w n c l t e
  show "queue_ok q \<Longrightarrow> spool q w n = Some c \<Longrightarrow> spool q (snd (Enqueue l q t e w)) n = Some c"
    by (rule Enqueue_keeps)
next
  fix q l t e w u w'
  show "queue_ok q \<Longrightarrow> Enqueue l q t e w = (Inr u, w') \<Longrightarrow>
      \<exists>n c. spool q w n = None \<and> spool q w' = (spool q w)(n \<mapsto> c)"
    using Enqueue_adds by blast
next
  fix l q k w r w'
  show "Peek l q k w = (r, w') \<Longrightarrow> spool q w' = spool q w" by (rule spool_files [OF Peek_files])
next
  fix q w l k b w'
  assume a: "queue_ok q" "w_ok w" "Peek l q k w = (Inr b, w')"
  note p = Peek_Inr [OF a]
  have "length (map (entry l q w) (qb_files b)) = length (map Some (qb_Events b))"
    using p by (metis (no_types))
  then have "length (qb_Events b) = length (qb_files b)" by simp
  moreover have "length (spool_names q w) = card (dom (spool q w))"
    using distinct_card [OF spool_names_distinct [OF a(1,2)]] spool_names_set [OF a(1,2)] by simp
  ultimately show "set (qb_files b) \<subseteq> dom (spool q w) \<and> distinct (qb_files b)
      \<and> length (qb_Events b) = length (qb_files b)
      \<and> length (qb_files b) = min (nat k) (card (dom (spool q w))) \<and> 0 < k"
    using p spool_names_set [OF a(1,2)] spool_names_distinct [OF a(1,2)] set_take_subset
    by (auto simp: min.commute dest!: in_set_takeD)
next
  fix q w l k w' and b :: QueueBatch
  assume a: "queue_ok q" "w_ok w" "Peek l q k w = (Inr b, w')"
  then show "map (\<lambda>n. Option.bind (spool q w n) (decode_payload l (q_key q))) (qb_files b) = map Some (qb_Events b)"
    using Peek_Inr [OF a] unfolding entry_def by blast
next
  fix q n w and b :: QueueBatch
  assume "queue_ok q" "n \<notin> set (qb_files b)"
  then show "spool q (snd (Ack q b w)) n = spool q w n"
    using ack_files_spool [of q "qb_files b" w "fst (ack_files q (qb_files b) w)" "snd (ack_files q (qb_files b) w)"]
    by (simp add: Ack_def io_fail_def)
next
  fix q w u w' n and b :: QueueBatch
  assume "queue_ok q" "Ack q b w = (Inr u, w')" "n \<in> set (qb_files b)"
  then show "spool q w' n = None"
    using ack_files_spool [of q "qb_files b" w "Inr ()" w'] by (auto simp: Ack_def split: if_splits)
next
  fix w l q t e
  show "w_ok w \<Longrightarrow> w_ok (snd (Enqueue l q t e w))" using keeps_ok_Enqueue by (simp add: keeps_ok_def)
next
  fix w l q k
  assume "w_ok w"
  moreover have "w_files (snd (Peek l q k w)) = w_files w" by (rule Peek_files [of l q k w "fst (Peek l q k w)"]) simp
  ultimately show "w_ok (snd (Peek l q k w))" by (simp add: w_ok_def)
next
  fix w q b
  show "w_ok w \<Longrightarrow> w_ok (snd (Ack q b w))"
    using keeps_ok_ack_files by (auto simp: Ack_def keeps_ok_def io_fail_def)
qed

section \<open>Nothing is lost\<close>

text \<open>AES-GCM opens what it sealed and adds a tag of 16 bytes.\<close>

definition queue_lib_ok :: "queue_lib \<Rightarrow> bool" where
  "queue_lib_ok lib \<longleftrightarrow>
     (\<forall>k n p. length n = ql_NonceSize lib \<longrightarrow>
        ql_Open lib k n (ql_Seal lib k n p) = Some p \<and> length (ql_Seal lib k n p) = length p + 16)"

text \<open>C14: queueing never loses an event. Whatever fails and wherever the process ends inside \<open>Enqueue\<close>, every
  payload that was in the spool is still there, unchanged; and when \<open>Enqueue\<close> reports success, the
  spool holds exactly one more file.\<close>

theorem Enqueue_no_loss:
  assumes "queue_ok q"
  shows "spool q w \<subseteq>\<^sub>m spool q (snd (Enqueue lib q now e w))
         \<and> (case fst (Enqueue lib q now e w) of Inl _ \<Rightarrow> True
            | Inr _ \<Rightarrow> (\<exists>n c. spool q w n = None
                \<and> spool q (snd (Enqueue lib q now e w)) = (spool q w)(n \<mapsto> c)))"
proof (cases "Enqueue lib q now e w")
  case (Pair r w')
  have "spool q w \<subseteq>\<^sub>m spool q w'"
    using queue.enqueue_keeps [OF assms, of w _ _ lib now e] Pair by (auto simp: map_le_def dom_def)
  then show ?thesis
    using Pair queue.enqueue_adds [OF assms, of lib now e w _ w'] by (auto split: sum.splits)
qed

lemma Enqueue_adds_entry:
  assumes "queue_lib_ok lib" and "queue_ok q" and "Enqueue lib q now e w = (Inr u, w')"
    and "ql_marshal lib e = Inr plain" and "ql_unmarshal lib plain = Inr e'"
    and "ql_NonceSize lib + length plain + 16 \<le> maxQueueFileSize"
  shows "\<exists>salt. entry lib q w (event_filename now salt) = None
           \<and> entry lib q w' = (entry lib q w)(event_filename now salt \<mapsto> e')"
proof -
  from Enqueue_adds [OF assms(2,3)] obtain salt nonce where
    n: "spool q w (event_filename now salt) = None" "length nonce = ql_NonceSize lib"
      "spool q w' = (spool q w)(event_filename now salt \<mapsto> nonce @ ql_Seal lib (q_key q) nonce plain)"
    using assms(4) by auto
  have "decode_payload lib (q_key q) (nonce @ ql_Seal lib (q_key q) nonce plain) = Some e'"
    using assms(1,5,6) n(2) by (simp add: decode_payload_def queue_lib_ok_def)
  then have "entry lib q w' = (entry lib q w)(event_filename now salt \<mapsto> e')"
    unfolding entry_def n(3) by auto
  then show ?thesis using n(1) by (intro exI [of _ salt]) (simp add: entry_def)
qed

text \<open>An event that was queued is read back. After a successful \<open>Enqueue\<close> the new file opens under the
  queue's key and decodes to what the JSON codec gives for the event, and every other entry reads
  as before, provided the sealed event fits the size limit that \<open>Peek\<close> applies.\<close>

theorem Enqueue_entry_roundtrip:
  assumes "queue_lib_ok lib" and "queue_ok q" and "Enqueue lib q now e w = (Inr u, w')"
    and "ql_marshal lib e = Inr plain" and "ql_unmarshal lib plain = Inr e'"
    and "ql_NonceSize lib + length plain + 16 \<le> maxQueueFileSize"
  shows "\<exists>salt. entry lib q w (event_filename now salt) = None
           \<and> entry lib q w' = (entry lib q w)(event_filename now salt \<mapsto> e')"
  by (rule Enqueue_adds_entry [OF assms])

text \<open>C16: a batch that \<open>Peek\<close> returns is the beginning of the spool in the order of the file names, each
  event is the authenticated content of its file, and the spool is not changed by reading; a
  successful \<open>Ack\<close> of the batch then removes these files and no others.\<close>

theorem Peek_Ack_batch:
  assumes "queue_ok q" and "w_ok w" and "Peek lib q k w = (Inr b, v)" and "Ack q b v = (Inr u, w')"
  shows "qb_files b = take (nat k) (spool_names q w)
         \<and> map (entry lib q w) (qb_files b) = map Some (qb_Events b)
         \<and> spool q v = spool q w
         \<and> spool q w' = (spool q w) |` (- set (qb_files b))"
  using Peek_Inr [OF assms(1-3)] queue.ack_effect [OF assms(1,4)] queue.peek_same [OF assms(3)] by (metis (no_types))

section \<open>The order of the file names\<close>

fun dec_digits :: "nat \<Rightarrow> nat \<Rightarrow> string" where
  "dec_digits 0 n = []"
| "dec_digits (Suc k) n = dec_digits k (n div 10) @ [digit (n mod 10)]"

lemma length_dec_digits [simp]: "length (dec_digits k n) = k"
  by (induction k arbitrary: n) auto

lemma digit_0: "digit 0 = CHR ''0''"
  by code_simp

lemma dec_digits_0: "dec_digits k 0 = replicate k (CHR ''0'')"
  by (induction k) (auto simp: digit_0 replicate_append_same)

lemma pad_left_snoc: "length s \<le> k \<Longrightarrow> pad_left (Suc k) c (s @ [x]) = pad_left k c s @ [x]"
  by (simp add: pad_left_def)

lemma FormatNat_length: "n < 10 ^ Suc k \<Longrightarrow> length (FormatNat n) \<le> Suc k"
proof (induction k arbitrary: n)
  case (Suc k)
  show ?case
  proof (cases "n < 10")
    case False
    have "n div 10 < 10 ^ Suc k" using Suc.prems by (simp add: less_mult_imp_div_less)
    then show ?thesis using Suc.IH False by (subst FormatNat.simps) simp
  qed (subst FormatNat.simps, simp)
qed (subst FormatNat.simps, simp)

lemma pad_FormatNat: "n < 10 ^ Suc k \<Longrightarrow> pad_left (Suc k) (CHR ''0'') (FormatNat n) = dec_digits (Suc k) n"
proof (induction k arbitrary: n)
  case 0
  then show ?case by (subst FormatNat.simps) (simp add: pad_left_def)
next
  case (Suc k)
  show ?case
  proof (cases "n < 10")
    case True
    then have "dec_digits (Suc (Suc k)) n = replicate (Suc k) (CHR ''0'') @ [digit n]"
      using dec_digits_0 [of "Suc k"] by (simp del: replicate.simps)
    then show ?thesis using True by (subst FormatNat.simps) (simp add: pad_left_def)
  next
    case False
    have less: "n div 10 < 10 ^ Suc k" using Suc.prems by (simp add: less_mult_imp_div_less)
    have "pad_left (Suc (Suc k)) (CHR ''0'') (FormatNat n)
        = pad_left (Suc k) (CHR ''0'') (FormatNat (n div 10)) @ [digit (n mod 10)]"
      using False FormatNat_length [OF less] by (subst FormatNat.simps) (simp add: pad_left_snoc)
    then show ?thesis using Suc.IH [OF less] by simp
  qed
qed

lemma list_less_append:
  fixes xs ys :: "('a :: order) list"
  shows "length xs = length ys \<Longrightarrow> xs < ys \<Longrightarrow> xs @ u < ys @ v"
  by (induction xs ys rule: list_induct2) auto

lemma list_less_last: "a < b \<Longrightarrow> xs @ [a] < xs @ [b]" for a b :: "'a :: order"
  by (induction xs) auto

lemma digit_less: "a < b \<Longrightarrow> b < 10 \<Longrightarrow> digit a < digit b"
  by (simp add: digit_def less_char_def)

lemma dec_digits_less: "n < m \<Longrightarrow> m < 10 ^ k \<Longrightarrow> dec_digits k n < dec_digits k m"
proof (induction k arbitrary: n m)
  case (Suc k)
  have m: "m div 10 < 10 ^ k" using Suc.prems(2) by (simp add: less_mult_imp_div_less)
  show ?case
  proof (cases "n div 10 < m div 10")
    case True
    show ?thesis using list_less_append [OF _ Suc.IH [OF True m]] by simp
  next
    case False
    then have eq: "n div 10 = m div 10" using Suc.prems(1) by (meson div_le_mono less_imp_le_nat nat_less_le)
    then have "n mod 10 < m mod 10"
      using Suc.prems(1) by (metis div_mult_mod_eq nat_add_left_cancel_less)
    moreover have "m mod 10 < 10" by simp
    ultimately have "digit (n mod 10) < digit (m mod 10)" by (rule digit_less)
    then show ?thesis using eq by (simp add: list_less_last)
  qed
qed simp

text \<open>The names order the spool by time. An event queued at a later nanosecond has a later name, so
  \<open>Peek\<close>, which takes the first names, delivers older events first. (The clock is one of 64 bits,
  after 1970.)\<close>

theorem event_filename_order:
  assumes "0 \<le> t" and "t < t'" and "t' < 2 ^ 63"
  shows "event_filename t salt < event_filename t' salt'"
proof -
  have n: "nat t < nat t'" "nat t' < 10 ^ 20" using assms by (simp_all add: nat_less_iff)
  have "twenty_digits (wrap64 x) = dec_digits 20 (nat x)" if "0 \<le> x" "x < 2 ^ 63" for x
    using that pad_FormatNat [of "nat x" 19] by (simp add: twenty_digits_def)
  then have "twenty_digits (wrap64 t) = dec_digits 20 (nat t)" "twenty_digits (wrap64 t') = dec_digits 20 (nat t')"
    using assms by simp_all
  moreover have "dec_digits 20 (nat t) < dec_digits 20 (nat t')" by (rule dec_digits_less [OF n])
  ultimately show ?thesis
    unfolding event_filename_def by (simp add: list_less_append)
qed

section \<open>Queueing succeeds\<close>

lemma queue_dir_clean: "queue_ok q \<Longrightarrow> q_dir q \<noteq> [] \<and> Clean (q_dir q @ [slash]) = q_dir q"
proof -
  assume "queue_ok q"
  then obtain s where s: "q_dir q = JoinPath [s, queueDirectory]" by (auto simp: queue_ok_def)
  moreover obtain a where "JoinPath [s, queueDirectory] = a @ queueDirectory"
    using JoinPath_name_suffix [OF queue_dir_name] by blast
  ultimately have "q_dir q \<noteq> []" by (simp add: queueDirectory_def)
  then show ?thesis using JoinPath_clean [of s queueDirectory] s Clean_trailing_slash by simp
qed

lemma queueFiles_no_fault:
  assumes "w_faults w = []" and "dir_at w (q_dir q)"
  shows "queueFiles (q_dir q) w = (Inr (spool_names q w), w)"
proof -
  obtain es where "ReadDir (q_dir q) w = (Inr es, w)" using ReadDir_no_fault [OF assms] by blast
  then have "\<exists>fs. queueFiles (q_dir q) w = (Inr fs, w)" by (simp add: queueFiles_def io_outcomes)
  then show ?thesis using queueFiles_Inr by blast
qed

text \<open>If no system call fails, the queue directory exists, the spool is below its limit of 10000 files,
  the event can be encoded and the drawn name is free, then \<open>Enqueue\<close> reports success.\<close>

lemma Enqueue_succeeds:
  assumes "queue_ok q" and "w_faults w = []" and "dir_at w (q_dir q)"
    and "length (spool_names q w) < maxQueueEntries" and "ql_marshal lib e = Inr plain"
    and "\<And>salt. node_at w (q_dir q @ slash # event_filename now salt) = None"
  shows "fst (Enqueue lib q now e w) = Inr ()"
proof -
  have files: "queueFiles (q_dir q) w = (Inr (spool_names q w), w)"
    by (rule queueFiles_no_fault [OF assms(2,3)])
  obtain nonce v where v: "rand_Read (ql_NonceSize lib) w = (Inr nonce, v)" "w_files v = w_files w" "w_faults v = []"
    using rand_Read_no_fault [OF assms(2)] by blast
  obtain salt x where x: "rand_Read 8 v = (Inr salt, x)" "w_files x = w_files v" "w_faults x = []"
    using rand_Read_no_fault [OF v(3)] by blast
  let ?p = "q_dir q @ slash # event_filename now salt"
  have p: "JoinPath [q_dir q, event_filename now salt] = ?p"
    by (rule queue_path [OF assms(1) spool_name_elem [OF event_filename_spool]])
  have "slash \<notin> set (event_filename now salt)" using event_filename_spool by (simp add: spool_name_def)
  then have "dir_at x (DirPath ?p)"
    using assms(1,3) dir_at_files [of x w] v(2) x(2) queue_dir_clean by (simp add: DirPath_sub)
  then obtain w' where "create_exclusive ?p (nonce @ ql_Seal lib (q_key q) nonce plain) 384 x = (Inr (), w')"
    using create_exclusive_no_fault [OF x(3)] assms(6) v(2) x(2) by fastforce
  then have "create_labelled ''queued event'' ?p (nonce @ ql_Seal lib (q_key q) nonce plain) 384 x = (Inr (), w')"
    by (simp only: create_labelled_Inr)
  then show ?thesis
    using files assms(4,5) v(1) x(1) p by (simp add: Enqueue_def io_bind_def io_wrap_def)
qed

lemma read_entry_no_fault:
  assumes "queue_ok q" and "w_faults w = []" and "entry lib q w n = Some e"
  shows "read_entry lib q n w = (Inr e, w)"
proof -
  obtain c where c: "spool q w n = Some c" "decode_payload lib (q_key q) c = Some e"
    using assms(3) by (auto simp: entry_def bind_eq_Some_conv)
  then obtain m where n: "spool_name n" "node_at w (q_dir q @ slash # n) = Some (NFile m c)"
    by (auto simp: spool_Some)
  have p: "JoinPath [q_dir q, n] = q_dir q @ slash # n"
    by (rule queue_path [OF assms(1) spool_name_elem [OF n(1)]])
  show ?thesis
    using c(2) follow_file [OF n(2)] assms(2)
    by (simp add: read_entry_def Let_def p io_bind_def io_wrap_def Stat_def ReadFile_def sys_no_fault
        io_return_def decode_payload_def split: if_splits option.splits sum.splits)
qed

lemma read_entries_no_fault:
  assumes "queue_ok q" and "w_faults w = []"
  shows "map (entry lib q w) fs = map Some es \<Longrightarrow> read_entries lib q fs w = (Inr es, w)"
proof (induction fs arbitrary: es)
  case (Cons f fs)
  then obtain e es' where "es = e # es'" "entry lib q w f = Some e" "map (entry lib q w) fs = map Some es'"
    by (cases es) auto
  then show ?case
    using Cons.IH read_entry_no_fault [OF assms] by (simp add: io_bind_def io_return_def)
qed (simp add: io_return_def)

lemma Peek_no_fault:
  assumes "queue_ok q" and "w_faults w = []" and "dir_at w (q_dir q)" and "0 < k" and "k \<le> 100"
    and "map (entry lib q w) (take (nat k) (spool_names q w)) = map Some es"
  shows "Peek lib q k w = (Inr \<lparr>qb_Events = es, qb_files = take (nat k) (spool_names q w)\<rparr>, w)"
  using assms queueFiles_no_fault [OF assms(2,3)] read_entries_no_fault [OF assms(1,2,6)]
  by (auto simp: Peek_def io_bind_def io_return_def Let_def)

section \<open>One bad file\<close>

text \<open>A file that does not authenticate stops the spool. As long as the first file of the queue is torn,
  truncated, too large or sealed under another key, \<open>Peek\<close> fails for every batch size: it neither skips
  nor sets the file aside, so nothing behind it is delivered any more.\<close>

theorem Peek_blocked_by_bad_file:
  assumes "queue_ok q" and "w_ok w" and "spool_names q w = n # ns" and "entry lib q w n = None"
  shows "\<exists>err. fst (Peek lib q k w) = Inl err"
proof (cases "Peek lib q k w")
  case (Pair r w')
  show ?thesis
  proof (cases r)
    case (Inr b)
    then have p: "Peek lib q k w = (Inr b, w')" using Pair by simp
    have "map (entry lib q w) (take (nat k) (n # ns)) = map Some (qb_Events b)" "0 < k"
      using Peek_Inr [OF assms(1,2) p] assms(3) by (metis, metis)
    then show ?thesis using assms(4) by (cases "nat k"; cases "qb_Events b") auto
  qed (use Pair in simp)
qed

section \<open>The queue key\<close>

text \<open>Opening the queue key ends whenever its name leads to a file or is free: one unfolding of the
  recursion decides the result.\<close>

theorem loadOrCreateQueueKey_returns:
  assumes "w_faults w = []" and "node_at w path = None \<or> follow w path \<noteq> None"
  shows "\<exists>r. fst (loadOrCreateQueueKey (Suc depth) path w) = Some r"
proof (cases "follow w path")
  case None
  then have free: "node_at w path = None" using assms(2) by simp
  have "ReadFile path w = (Inl OsNotExist, w)" using None assms(1) by (simp add: ReadFile_def sys_no_fault)
  moreover obtain key v where v: "rand_Read 32 w = (Inr key, v)" "w_files v = w_files w"
    using rand_Read_no_fault [OF assms(1)] by blast
  moreover have "OpenExcl path 384 v \<noteq> (Inl OsExist, u)" for u
    using OpenExcl_taken [of path 384 v u] free v(2) by auto
  ultimately show ?thesis
    by (auto split: prod.splits sum.splits os_error.splits)
next
  case (Some x)
  obtain p y where x: "follow w path = Some (p, y)" using Some by (cases x) auto
  then show ?thesis using assms(1) by (cases y) (simp_all add: ReadFile_def sys_no_fault)
qed

text \<open>C31: a dangling symbolic link in the place of the queue key makes the function call itself without end:
  reading it reports that nothing is there, creating it that the name is taken.\<close>

theorem loadOrCreateQueueKey_diverges:
  assumes "w_faults w = []" and "node_at w path \<noteq> None" and "follow w path = None"
  shows "fst (loadOrCreateQueueKey depth path w) = None"
  using assms
proof (induction depth arbitrary: w)
  case (Suc depth)
  have r: "ReadFile path w = (Inl OsNotExist, w)" using Suc.prems by (simp add: ReadFile_def sys_no_fault)
  obtain key v where v: "rand_Read 32 w = (Inr key, v)" "w_files v = w_files w" "w_faults v = []"
    using rand_Read_no_fault [OF Suc.prems(1)] by blast
  have "resolve k v x = resolve k w x" for k x
    using v(2) by (induction k arbitrary: x) (auto split: option.splits node.splits)
  then have "follow v path = None" using Suc.prems(3) by (simp add: follow_def)
  then have "fst (loadOrCreateQueueKey depth path v) = None"
    using Suc.IH [OF v(3)] v(2) Suc.prems(2) by simp
  moreover have "OpenExcl path 384 v = (Inl OsExist, v)"
    using v Suc.prems(2) by (auto simp: OpenExcl_def sys_no_fault)
  ultimately show ?case using r v(1) by simp
qed simp

section \<open>Instances\<close>

definition sample_queue_lib :: queue_lib where
  "sample_queue_lib = \<lparr>ql_NonceSize = 12, ql_Seal = (\<lambda>k n p. p @ replicate 16 (CHR ''t'')),
     ql_Open = (\<lambda>k n c. if length c < 16 then None else Some (take (length c - 16) c)),
     ql_marshal = (\<lambda>e. Inr (event_ID e)),
     ql_unmarshal = (\<lambda>s. Inr \<lparr>event_ID = s, event_AgentID = [], event_Kind = [], event_Severity = [],
       event_Summary = [], event_OccurredAt = 0, event_ReceivedAt = 0, event_Evidence = None\<rparr>)\<rparr>"

definition sample_spool :: EncryptedQueue where
  "sample_spool = \<lparr>q_dir = ''/s/queue'', q_key = replicate 32 (CHR ''k'')\<rparr>"

definition spool_world :: "fault list \<Rightarrow> world" where
  "spool_world fs = \<lparr>w_files = [(''/s/queue'', NDir 448)], w_faults = fs, w_rand = [], w_cwd = ''/''\<rparr>"

definition spool_event :: Event where
  "spool_event = \<lparr>event_ID = ''e'', event_AgentID = [], event_Kind = [], event_Severity = [],
     event_Summary = [], event_OccurredAt = 0, event_ReceivedAt = 0, event_Evidence = None\<rparr>"

lemma sample_queue_lib_ok: "queue_lib_ok sample_queue_lib"
  by (simp add: queue_lib_ok_def sample_queue_lib_def)

lemma sample_spool_ok: "queue_ok sample_spool"
  unfolding queue_ok_def by (rule exI [of _ "''/s''"]) code_simp

lemma sample_Dir: "slash \<notin> set n \<Longrightarrow> DirPath (''/s/queue'' @ slash # n) = ''/s/queue''"
proof -
  have "Clean (''/s/queue'' @ [slash]) = ''/s/queue''" by code_simp
  then show "slash \<notin> set n \<Longrightarrow> ?thesis" using DirPath_sub [of n "''/s/queue''"] by simp
qed

lemma event_filename_plain: "slash \<notin> set (event_filename t salt)"
  using event_filename_spool by (simp add: spool_name_def)

lemma sample_path: "JoinPath [q_dir sample_spool, event_filename t salt] = ''/s/queue'' @ slash # event_filename t salt"
  using queue_path [OF sample_spool_ok spool_name_elem [OF event_filename_spool]]
  by (simp add: sample_spool_def)

lemma sample_enqueue_world:
  "dir_at (spool_world fs) (q_dir sample_spool)" "w_ok (spool_world fs)"
  "spool_names sample_spool (spool_world fs) = []"
  "node_at (spool_world fs) (q_dir sample_spool @ slash # n) = None"
  by (simp_all add: spool_world_def sample_spool_def dir_at_def follow_def eval_nat_numeral w_ok_def
      spool_names_def map_filter_simps dir_name.simps)

lemma sample_enqueue_ok:
  "fst (Enqueue sample_queue_lib sample_spool 7 spool_event (spool_world [])) = Inr ()"
  by (rule Enqueue_succeeds [OF sample_spool_ok])
    (simp_all add: sample_enqueue_world, simp_all add: spool_world_def maxQueueEntries_def sample_queue_lib_def)

theorem Enqueue_no_loss_witness:
  "spool sample_spool (spool_world []) \<subseteq>\<^sub>m
     spool sample_spool (snd (Enqueue sample_queue_lib sample_spool 7 spool_event (spool_world [Pass, Crash 0])))"
  using Enqueue_no_loss [OF sample_spool_ok, of "spool_world [Pass, Crash 0]" sample_queue_lib 7 spool_event]
    spool_files [of "spool_world []" "spool_world [Pass, Crash 0]" sample_spool]
  by (simp add: spool_world_def)

theorem Enqueue_entry_roundtrip_witness:
  "\<exists>salt. entry sample_queue_lib sample_spool (spool_world []) (event_filename 7 salt) = None
     \<and> entry sample_queue_lib sample_spool
         (snd (Enqueue sample_queue_lib sample_spool 7 spool_event (spool_world [])))
       = (entry sample_queue_lib sample_spool (spool_world []))(event_filename 7 salt \<mapsto> spool_event)"
proof (rule Enqueue_entry_roundtrip [OF sample_queue_lib_ok sample_spool_ok, where plain = "''e''"])
  show "Enqueue sample_queue_lib sample_spool 7 spool_event (spool_world [])
      = (Inr (), snd (Enqueue sample_queue_lib sample_spool 7 spool_event (spool_world [])))"
    using sample_enqueue_ok by (simp add: prod_eq_iff)
qed (simp_all add: sample_queue_lib_def spool_event_def maxQueueFileSize_def)

theorem event_filename_order_witness: "event_filename 9 ''b'' < event_filename 10 ''a''"
  by (rule event_filename_order) simp_all

text \<open>A spool with one file.\<close>

definition one_file_world :: "string \<Rightarrow> world" where
  "one_file_world payload = (spool_world [])\<lparr>w_files :=
     [(''/s/queue'', NDir 448), (''/s/queue/1.event'', NFile 384 payload)]\<rparr>"

definition good_payload :: string where
  "good_payload = replicate 12 (CHR ''n'') @ ''e'' @ replicate 16 (CHR ''t'')"

lemma one_file_facts:
  "w_ok (one_file_world p)" "spool_names sample_spool (one_file_world p) = [''1.event'']"
  "spool sample_spool (one_file_world p) ''1.event'' = Some p" "w_faults (one_file_world p) = []"
  "dir_at (one_file_world p) (q_dir sample_spool)"
  "node_at (one_file_world p) (''/s/queue'' @ slash # ''1.event'') = Some (NFile 384 p)"
  by (simp_all add: one_file_world_def spool_world_def w_ok_def spool_names_def map_filter_simps dir_name.simps
      sample_spool_def HasSuffix_def queueFileSuffix_def spool_def spool_name_def dir_at_def follow_def
      eval_nat_numeral suffix_def)

lemma one_file_path: "JoinPath [q_dir sample_spool, ''1.event''] = ''/s/queue/1.event''"
  unfolding sample_spool_def by code_simp

lemma one_file_peek:
  "Peek sample_queue_lib sample_spool 100 (one_file_world good_payload)
     = (Inr \<lparr>qb_Events = [spool_event], qb_files = [''1.event'']\<rparr>, one_file_world good_payload)"
  using Peek_no_fault [OF sample_spool_ok one_file_facts(4,5), where k = 100 and lib = sample_queue_lib
      and es = "[spool_event]"]
  by (simp add: one_file_facts(2,3) entry_def decode_payload_def good_payload_def maxQueueFileSize_def
      sample_queue_lib_def spool_event_def)

theorem Peek_Ack_batch_witness:
  "spool sample_spool (snd (Ack sample_spool \<lparr>qb_Events = [spool_event], qb_files = [''1.event'']\<rparr>
     (one_file_world good_payload))) ''1.event'' = None"
proof -
  let ?b = "\<lparr>qb_Events = [spool_event], qb_files = [''1.event'']\<rparr>"
  have "BasePath ''1.event'' = ''1.event''" by code_simp
  then have "fst (Ack sample_spool ?b (one_file_world good_payload)) = Inr ()"
    using one_file_facts(4,6)
    by (simp add: Ack_def HasSuffix_def queueFileSuffix_def suffix_def io_try_def one_file_path Remove_def
        sys_no_fault io_return_def del: BasePath.simps)
  then have "Ack sample_spool ?b (one_file_world good_payload)
      = (Inr (), snd (Ack sample_spool ?b (one_file_world good_payload)))" by (simp add: prod_eq_iff)
  from Peek_Ack_batch [OF sample_spool_ok one_file_facts(1) one_file_peek this] show ?thesis
    by (simp add: one_file_facts(2))
qed

theorem Peek_blocked_by_bad_file_witness:
  "\<exists>err. fst (Peek sample_queue_lib sample_spool 100 (one_file_world ''torn'')) = Inl err"
  by (rule Peek_blocked_by_bad_file [OF sample_spool_ok one_file_facts(1) one_file_facts(2)])
    (simp add: entry_def one_file_facts(3) decode_payload_def sample_queue_lib_def)

theorem loadOrCreateQueueKey_returns_witness:
  "\<exists>r. fst (loadOrCreateQueueKey (Suc 0) ''/s/queue.key'' (spool_world [])) = Some r"
  by (rule loadOrCreateQueueKey_returns) (simp_all add: spool_world_def)

theorem loadOrCreateQueueKey_diverges_witness:
  "fst (loadOrCreateQueueKey 9 ''/k'' ((spool_world [])\<lparr>w_files := [(''/k'', NLink ''/gone'')]\<rparr>)) = None"
  by (rule loadOrCreateQueueKey_diverges) (simp_all add: spool_world_def follow_def eval_nat_numeral)

end
