(* ===== verification/Runner.thy ===== *)
theory Runner
  imports Client Queue_Props
begin

text \<open>
  internal/agent/runner.go: one cycle of the Agent. It loads identity and policy, lets the detectors
  observe the host, queues every event, only then commits the detectors' new baselines, and only then
  talks to the control plane: registration, certificate renewal, policy, heartbeat, and the flush of
  the spool.

  A detector is its \<open>Scan\<close>, which returns events and the \<open>Commit\<close> closure. The constructors of the three
  detector packages and the host scanner are the fields of \<open>sensors\<close>; theory File_Integrity models the
  first of them. A state of the cycle is the file system and the state of the network.
\<close>

type_synonym commit = "(error, unit) io"

record detector =
  det_Scan :: "(error, Event list \<times> commit) io"

record sensors =
  sn_file :: "string \<Rightarrow> string list \<Rightarrow> error + detector"
  sn_ssh :: "string \<Rightarrow> string list \<Rightarrow> int \<Rightarrow> duration \<Rightarrow> error + detector"
  sn_runtime :: "string \<Rightarrow> string \<Rightarrow> error + detector"
  sn_scan :: "(error, Event) io"

record agent_lib =
  ag_queue :: queue_lib
  ag_state :: state_lib
  ag_x509 :: x509_lib
  ag_client :: client_lib

record AgentConfig =
  rc_StateDir :: string
  rc_ControlURL :: string
  rc_BootstrapToken :: string
  rc_AllowInsecureHTTP :: bool
  rc_Interval :: duration
  rc_DisableFileIntegrity :: bool
  rc_FileWatchPaths :: "string list option"
  rc_DisableSSHAuth :: bool
  rc_SSHAuthLogPaths :: "string list option"
  rc_SSHThreshold :: int
  rc_SSHWindow :: duration
  rc_DisableRuntimeWatch :: bool
  rc_ProcRoot :: string
  rc_DisableGatewayFeed :: bool
  rc_GatewayEventSocket :: string
  rc_CertificateRenewalWindow :: duration

text \<open>The host on which the cycle runs: \<open>h_clock k\<close> is the k-th reading of the clock.\<close>

record host =
  h_Version :: string
  h_GOARCH :: string
  h_Hostname :: "error + string"
  h_clock :: "nat \<Rightarrow> time"

section \<open>Configuration\<close>

definition fileintegrity_DefaultPaths :: "string list" where
  "fileintegrity_DefaultPaths =
     [''/etc/cron.d'', ''/etc/nginx'', ''/etc/ssh/sshd_config'', ''/etc/sudoers'', ''/etc/sudoers.d'',
      ''/etc/systemd/system'', ''/var/spool/cron'']"

definition sshauth_DefaultPaths :: "string list" where
  "sshauth_DefaultPaths = [''/var/log/auth.log'', ''/var/log/secure'']"

definition normalizeConfig :: "AgentConfig \<Rightarrow> AgentConfig" where
  "normalizeConfig config = config\<lparr>
     rc_Interval := (if rc_Interval config = 0 then minute else rc_Interval config),
     rc_CertificateRenewalWindow :=
       (if rc_CertificateRenewalWindow config = 0 then 7 * 24 * hour else rc_CertificateRenewalWindow config),
     rc_FileWatchPaths :=
       (if \<not> rc_DisableFileIntegrity config \<and> rc_FileWatchPaths config = None
        then Some fileintegrity_DefaultPaths else rc_FileWatchPaths config),
     rc_SSHAuthLogPaths :=
       (if \<not> rc_DisableSSHAuth config \<and> rc_SSHAuthLogPaths config = None
        then Some sshauth_DefaultPaths else rc_SSHAuthLogPaths config),
     rc_GatewayEventSocket :=
       (if \<not> rc_DisableGatewayFeed config \<and> rc_GatewayEventSocket config = []
        then ''/run/my-safe/gateway-events.sock'' else rc_GatewayEventSocket config)\<rparr>"

abbreviation watch_paths :: "AgentConfig \<Rightarrow> string list" where
  "watch_paths config \<equiv> case_option [] id (rc_FileWatchPaths config)"

abbreviation log_paths :: "AgentConfig \<Rightarrow> string list" where
  "log_paths config \<equiv> case_option [] id (rc_SSHAuthLogPaths config)"

definition applyPolicy :: "AgentConfig \<Rightarrow> Policy \<Rightarrow> AgentConfig" where
  "applyPolicy config policy =
     (let c1 = (if \<not> policy_FileIntegrityEnabled policy then config\<lparr>rc_DisableFileIntegrity := True\<rparr>
                else if \<not> rc_DisableFileIntegrity config \<and> 0 < length (policy_FileWatchPaths policy)
                then config\<lparr>rc_FileWatchPaths := Some (policy_FileWatchPaths policy)\<rparr>
                else config);
          c2 = (if \<not> policy_SSHAuthEnabled policy then c1\<lparr>rc_DisableSSHAuth := True\<rparr>
                else if \<not> rc_DisableSSHAuth c1
                then c1\<lparr>rc_SSHThreshold := policy_SSHThreshold policy,
                        rc_SSHWindow := policy_SSHWindowSeconds policy * second\<rparr>
                else c1)
      in if \<not> policy_RuntimeWatchEnabled policy then c2\<lparr>rc_DisableRuntimeWatch := True\<rparr> else c2)"

definition detectorErrorEvent :: "time \<Rightarrow> string \<Rightarrow> string \<Rightarrow> (error, Event) io" where
  "detectorErrorEvent now kind summary =
     io_bind (io_wrap (\<lambda>e. ''generate detector error event id: '' @ os_text e) (RandomIO ''evt_'' 18)) (\<lambda>eventID.
       io_return \<lparr>event_ID = eventID, event_AgentID = [], event_Kind = kind, event_Severity = SeverityHigh,
         event_Summary = summary, event_OccurredAt = now, event_ReceivedAt = zero_time,
         event_Evidence = Some [(''baseline_retained'', ABool True), (''read_only'', ABool True)]\<rparr>)"

section \<open>Observation\<close>

text \<open>A failed scan is reported as an event of its own and commits nothing. A commit carries the label of
  its error message.\<close>

definition scan_detector ::
  "time \<Rightarrow> string \<Rightarrow> string \<Rightarrow> string \<Rightarrow> detector option \<Rightarrow> (error, Event list \<times> (string \<times> commit) list) io" where
  "scan_detector now kind summary label d =
     (case d of
        None \<Rightarrow> io_return ([], [])
      | Some detector \<Rightarrow>
          io_try (det_Scan detector) (\<lambda>r.
            case r of
              Inl _ \<Rightarrow> io_bind (detectorErrorEvent now kind summary) (\<lambda>e. io_return ([e], []))
            | Inr (events, commit) \<Rightarrow> io_return (events, [(label, commit)])))"

definition configure :: "bool \<Rightarrow> string \<Rightarrow> error + detector \<Rightarrow> error + detector option" where
  "configure enabled label d =
     (if enabled then (case d of Inl e \<Rightarrow> Inl (label @ e) | Inr detector \<Rightarrow> Inr (Some detector))
      else Inr None)"

definition observe :: "host \<Rightarrow> sensors \<Rightarrow> AgentConfig \<Rightarrow> (error, Event list \<times> (string \<times> commit) list) io" where
  "observe host sn config =
     (case configure (\<not> rc_DisableFileIntegrity config \<and> 0 < length (watch_paths config))
             ''configure file integrity detector: '' (sn_file sn (rc_StateDir config) (watch_paths config)) of
        Inl e \<Rightarrow> io_fail e
      | Inr fileDetector \<Rightarrow>
     (case configure (\<not> rc_DisableSSHAuth config \<and> 0 < length (log_paths config))
             ''configure SSH auth detector: ''
             (sn_ssh sn (rc_StateDir config) (log_paths config) (rc_SSHThreshold config) (rc_SSHWindow config)) of
        Inl e \<Rightarrow> io_fail e
      | Inr sshDetector \<Rightarrow>
     (case configure (\<not> rc_DisableRuntimeWatch config)
             ''configure runtime detector: '' (sn_runtime sn (rc_StateDir config) (rc_ProcRoot config)) of
        Inl e \<Rightarrow> io_fail e
      | Inr runtimeDetector \<Rightarrow>
          io_bind (io_wrap (\<lambda>e. ''scan host: '' @ e) (sn_scan sn)) (\<lambda>event.
          io_bind (scan_detector (h_clock host 0) ''file.integrity.error''
                     ''File integrity detector could not read its baseline''
                     ''commit file integrity baseline: '' fileDetector) (\<lambda>(es1, cs1).
          io_bind (scan_detector (h_clock host 1) ''ssh.auth.error''
                     ''SSH authentication detector could not read its state''
                     ''commit SSH auth cursor: '' sshDetector) (\<lambda>(es2, cs2).
          io_bind (scan_detector (h_clock host 2) ''runtime.error''
                     ''Runtime process and port detector could not read its state''
                     ''commit runtime baseline: '' runtimeDetector) (\<lambda>(es3, cs3).
            io_return (event # es1 @ es2 @ es3, cs1 @ cs2 @ cs3))))))))"

fun enqueue_all :: "queue_lib \<Rightarrow> EncryptedQueue \<Rightarrow> (nat \<Rightarrow> time) \<Rightarrow> nat \<Rightarrow> Event list \<Rightarrow> (error, unit) io" where
  "enqueue_all lib q clock k [] = io_return ()"
| "enqueue_all lib q clock k (e # es) =
     io_then (io_wrap (\<lambda>err. ''queue observed event: '' @ err) (Enqueue lib q (clock k) e))
       (enqueue_all lib q clock (Suc k) es)"

fun commit_all :: "(string \<times> commit) list \<Rightarrow> (error, unit) io" where
  "commit_all [] = io_return ()"
| "commit_all ((label, c) # cs) = io_then (io_wrap (\<lambda>err. label @ err) c) (commit_all cs)"

text \<open>The middle of \<open>runCycle\<close>: every observed event is in the spool before the first baseline advances.\<close>

definition queue_then_commit ::
  "queue_lib \<Rightarrow> EncryptedQueue \<Rightarrow> (nat \<Rightarrow> time) \<Rightarrow> Event list \<Rightarrow> (string \<times> commit) list \<Rightarrow> (error, unit) io" where
  "queue_then_commit lib q clock events commits =
     io_then (enqueue_all lib q clock 10 events) (commit_all commits)"

section \<open>Talking to the control plane\<close>

type_synonym ('n, 'a) nio = "world \<times> 'n \<Rightarrow> (error + 'a) \<times> world \<times> 'n"

definition nio_bind :: "('n, 'a) nio \<Rightarrow> ('a \<Rightarrow> ('n, 'b) nio) \<Rightarrow> ('n, 'b) nio" where
  "nio_bind m f s = (case m s of (Inl e, s') \<Rightarrow> (Inl e, s') | (Inr x, s') \<Rightarrow> f x s')"

definition nio_return :: "'a \<Rightarrow> ('n, 'a) nio" where
  "nio_return x s = (Inr x, s)"

definition nio_fail :: "error \<Rightarrow> ('n, 'a) nio" where
  "nio_fail e s = (Inl e, s)"

definition on_files :: "(error, 'a) io \<Rightarrow> ('n, 'a) nio" where
  "on_files m s = (case m (fst s) of (r, w) \<Rightarrow> (r, w, snd s))"

definition on_net :: "string \<Rightarrow> ('n \<Rightarrow> (error + 'a) \<times> 'n) \<Rightarrow> ('n, 'a) nio" where
  "on_net label m s = (case m (snd s) of (r, n) \<Rightarrow> (map_sum (\<lambda>e. label @ e) id r, fst s, n))"

definition client_for :: "agent_lib \<Rightarrow> AgentConfig \<Rightarrow> Certificate option \<Rightarrow> ('n, Client) nio" where
  "client_for lib config certificate =
     (case NewClient (ag_client lib)
             \<lparr>cc_BaseURL = rc_ControlURL config, cc_BootstrapToken = rc_BootstrapToken config,
              cc_Certificate = certificate, cc_AllowInsecureHTTP = rc_AllowInsecureHTTP config\<rparr> of
        Inl e \<Rightarrow> nio_fail e
      | Inr client \<Rightarrow> nio_return client)"

text \<open>Stores issued certificate material, reads it back and builds a client that presents it.\<close>

definition adopt_certificate ::
  "agent_lib \<Rightarrow> host \<Rightarrow> AgentConfig \<Rightarrow> string \<Rightarrow> string \<Rightarrow> string \<Rightarrow> registerOutput \<Rightarrow> ('n, Client) nio" where
  "adopt_certificate lib host config saved verb agentID output =
     nio_bind (on_files (io_wrap (\<lambda>e. ''save '' @ saved @ '' mTLS certificate: '' @ e)
               (SaveIssuedClientCertificate (ag_x509 lib) (rc_StateDir config) agentID
                 (ro_ClientCertificate output) (ro_ClientCACertificate output) (h_clock host 5)))) (\<lambda>_.
     nio_bind (on_files (io_wrap (\<lambda>e. ''load '' @ verb @ '' Agent mTLS certificate'' @ byte 10 # e)
               (LoadClientCertificate (ag_x509 lib) (rc_StateDir config) (h_clock host 6)))) (\<lambda>loaded.
       case loaded of
         None \<Rightarrow> nio_fail (''load '' @ verb @ '' Agent mTLS certificate'')
       | Some certificate \<Rightarrow> client_for lib config (Some certificate)))"

definition register_agent ::
  "agent_lib \<Rightarrow> host \<Rightarrow> 'n transport \<Rightarrow> AgentConfig \<Rightarrow> Identity \<Rightarrow> Client \<Rightarrow> ('n, Identity \<times> Client) nio" where
  "register_agent lib host tr config identity client =
     nio_bind (on_files (io_wrap (\<lambda>e. ''create Agent mTLS request: '' @ e)
                 (EnsureClientCSR (ag_x509 lib) (rc_StateDir config) (id_MachineID identity)))) (\<lambda>csr.
     let hostname = (case h_Hostname host of Inl _ \<Rightarrow> ''unknown-host''
                     | Inr name \<Rightarrow> if name = [] then ''unknown-host'' else name)
     in nio_bind (on_net ''register agent: '' (ClientRegister (ag_client lib) tr client
            \<lparr>ri_MachineID = id_MachineID identity, ri_Hostname = hostname, ri_Version = h_Version host,
             ri_Platform = ''linux'', ri_Architecture = h_GOARCH host, ri_ClientCSR = csr\<rparr>)) (\<lambda>registration.
        let identity' = identity\<lparr>id_AgentID := ro_AgentID registration,
                                 id_Credential := ro_Credential registration\<rparr>;
            has_cert = ro_ClientCertificate registration \<noteq> []; has_ca = ro_ClientCACertificate registration \<noteq> []
        in nio_bind
             (if has_cert \<or> has_ca
              then (if \<not> has_cert \<or> \<not> has_ca
                    then nio_fail ''control plane returned incomplete Agent mTLS material''
                    else adopt_certificate lib host config ''Agent'' ''issued'' (id_AgentID identity') registration)
              else nio_return client) (\<lambda>client'.
           nio_bind (on_files (io_wrap (\<lambda>e. ''persist registration credentials: '' @ e)
                       (SaveCredentials (ag_state lib) (rc_StateDir config) identity'))) (\<lambda>_.
             nio_return (identity', client')))))"

definition renew_certificate ::
  "agent_lib \<Rightarrow> host \<Rightarrow> 'n transport \<Rightarrow> AgentConfig \<Rightarrow> Identity \<Rightarrow> Client \<Rightarrow> ('n, Client) nio" where
  "renew_certificate lib host tr config identity client =
     nio_bind (on_files (io_wrap (\<lambda>e. ''create Agent certificate renewal request: '' @ e)
                 (EnsureClientCSR (ag_x509 lib) (rc_StateDir config) (id_MachineID identity)))) (\<lambda>csr.
     nio_bind (on_net ''renew Agent mTLS certificate: '' (RenewCertificate (ag_client lib) tr client identity csr)) (\<lambda>renewal.
       adopt_certificate lib host config ''renewed Agent'' ''renewed'' (id_AgentID identity) renewal))"

text \<open>The local policy only moves forward: a lower revision than the stored one is refused.\<close>

definition sync_policy ::
  "agent_lib \<Rightarrow> 'n transport \<Rightarrow> AgentConfig \<Rightarrow> Identity \<Rightarrow> Client \<Rightarrow> ('n, unit) nio" where
  "sync_policy lib tr config identity client =
     nio_bind (on_net ''fetch Agent policy: '' (FetchPolicy (ag_client lib) (ag_state lib) tr client identity)) (\<lambda>remote.
       case remote of
         None \<Rightarrow> nio_return ()
       | Some remotePolicy \<Rightarrow>
           nio_bind (on_files (LoadPolicy (ag_state lib) (rc_StateDir config) (id_AgentID identity))) (\<lambda>local.
             if (case local of None \<Rightarrow> True
                 | Some localPolicy \<Rightarrow> policy_Revision localPolicy < policy_Revision remotePolicy)
             then on_files (io_wrap (\<lambda>e. ''persist Agent policy: '' @ e)
                    (SavePolicy (ag_state lib) (rc_StateDir config) remotePolicy))
             else if (case local of None \<Rightarrow> False
                      | Some localPolicy \<Rightarrow> policy_Revision remotePolicy < policy_Revision localPolicy)
             then nio_fail ''control plane returned a stale Agent policy revision''
             else nio_return ()))"

text \<open>The flush loop, bounded by \<open>fuel\<close>; \<^const>\<open>None\<close> says that it has not ended within it. The number is that of
  the events delivered so far.\<close>

fun flush_loop ::
  "(int \<Rightarrow> (error, QueueBatch) io) \<Rightarrow> (QueueBatch \<Rightarrow> (error, unit) io)
     \<Rightarrow> (Event list \<Rightarrow> 'n \<Rightarrow> (error + unit) \<times> 'n) \<Rightarrow> nat \<Rightarrow> nat \<Rightarrow> world \<times> 'n
     \<Rightarrow> (nat \<times> error option) option \<times> world \<times> 'n" where
  "flush_loop peek ack send 0 flushed s = (None, s)"
| "flush_loop peek ack send (Suc fuel) flushed (w, n) =
     (case peek 100 w of
        (Inl e, w) \<Rightarrow> (Some (flushed, Some e), w, n)
      | (Inr batch, w) \<Rightarrow>
          if length (qb_Events batch) = 0 then (Some (flushed, None), w, n)
          else (case send (qb_Events batch) n of
             (Inl e, n) \<Rightarrow> (Some (flushed, Some (''send queued events: '' @ e)), w, n)
           | (Inr _, n) \<Rightarrow>
               (case ack batch w of
                  (Inl e, w) \<Rightarrow> (Some (flushed, Some e), w, n)
                | (Inr _, w) \<Rightarrow>
                    flush_loop peek ack send fuel (flushed + length (qb_Events batch)) (w, n))))"

definition flush ::
  "agent_lib \<Rightarrow> 'n transport \<Rightarrow> Client \<Rightarrow> Identity \<Rightarrow> EncryptedQueue \<Rightarrow> nat \<Rightarrow> world \<times> 'n
     \<Rightarrow> (nat \<times> error option) option \<times> world \<times> 'n" where
  "flush lib tr client identity q fuel s =
     flush_loop (Peek (ag_queue lib) q) (Ack q) (SendEvents (ag_client lib) tr client identity) fuel 0 s"

section \<open>The cycle\<close>

text \<open>Everything between the commits and the flush.\<close>

definition connect ::
  "agent_lib \<Rightarrow> host \<Rightarrow> 'n transport \<Rightarrow> AgentConfig \<Rightarrow> Identity \<Rightarrow> EncryptedQueue \<Rightarrow> ('n, Identity \<times> Client) nio" where
  "connect lib host tr config identity q =
     nio_bind (if Registered identity
               then on_files (LoadClientCertificate (ag_x509 lib) (rc_StateDir config) (h_clock host 3))
               else nio_return None) (\<lambda>certificate.
     nio_bind (client_for lib config certificate) (\<lambda>client.
     let needsRenewal = (case certificate of None \<Rightarrow> False
           | Some leaf \<Rightarrow> cert_NotAfter leaf - h_clock host 4 \<le> rc_CertificateRenewalWindow config)
     in nio_bind (if \<not> Registered identity then register_agent lib host tr config identity client
                  else nio_return (identity, client)) (\<lambda>(identity, client).
        nio_bind (if Registered identity \<and> needsRenewal
                  then renew_certificate lib host tr config identity client
                  else nio_return client) (\<lambda>client.
        nio_bind (sync_policy lib tr config identity client) (\<lambda>_.
        nio_bind (on_files (Len q)) (\<lambda>queueDepth.
        nio_bind (on_net ''send heartbeat: '' (ClientHeartbeat (ag_client lib) tr client identity (h_Version host) queueDepth)) (\<lambda>_.
          nio_return (identity, client))))))))"

definition prepare ::
  "agent_lib \<Rightarrow> AgentConfig \<Rightarrow> (error, Identity \<times> AgentConfig \<times> EncryptedQueue) io" where
  "prepare lib config =
     (if rc_CertificateRenewalWindow config < hour \<or> 30 * 24 * hour < rc_CertificateRenewalWindow config
      then io_fail ''certificate renewal window must be between 1 hour and 30 days''
      else io_bind (io_wrap (\<lambda>e. ''load identity: '' @ e) (LoadIdentity (ag_state lib) (rc_StateDir config))) (\<lambda>identity.
        io_bind (if Registered identity
                 then io_wrap (\<lambda>e. ''load Agent policy: '' @ e)
                        (LoadPolicy (ag_state lib) (rc_StateDir config) (id_AgentID identity))
                 else io_return None) (\<lambda>policy.
        let config = (case policy of None \<Rightarrow> config | Some p \<Rightarrow> applyPolicy config p)
        in io_bind (io_wrap (\<lambda>e. ''open encrypted queue: '' @ e) (OpenEncryptedQueue (rc_StateDir config))) (\<lambda>q.
             io_return (identity, config, q)))))"

definition runCycle ::
  "agent_lib \<Rightarrow> host \<Rightarrow> sensors \<Rightarrow> 'n transport \<Rightarrow> AgentConfig \<Rightarrow> world \<times> 'n
     \<Rightarrow> (nat \<times> error option) \<times> world \<times> 'n" where
  "runCycle lib host sn tr config s =
     (case nio_bind (on_files (prepare lib config)) (\<lambda>(identity, config, q).
           nio_bind (on_files (observe host sn config)) (\<lambda>(events, commits).
           nio_bind (on_files (queue_then_commit (ag_queue lib) q (h_clock host) events commits)) (\<lambda>_.
           nio_bind (connect lib host tr config identity q) (\<lambda>(identity, client).
             nio_return (identity, client, q))))) s of
        (Inl e, s) \<Rightarrow> ((0, Some e), s)
      | (Inr (identity, client, q), s) \<Rightarrow>
          (case flush lib tr client identity q (Suc (length (w_files (fst s)))) s of
             (None, s) \<Rightarrow> ((0, Some ''flush did not end''), s)
           | (Some r, s) \<Rightarrow> (r, s)))"

definition RunOnce ::
  "agent_lib \<Rightarrow> host \<Rightarrow> sensors \<Rightarrow> 'n transport \<Rightarrow> AgentConfig \<Rightarrow> world \<times> 'n \<Rightarrow> error option \<times> world \<times> 'n" where
  "RunOnce lib host sn tr config s = map_prod snd id (runCycle lib host sn tr (normalizeConfig config) s)"

end
