(* ===== verification/Runner_Props.thy ===== *)
theory Runner_Props
  imports Runner
begin

text \<open>
  What one cycle of the Agent guarantees: a baseline advances only after every event it explains is in
  the spool; the flush ends, and an event leaves the spool only after the control plane has taken it;
  a policy from the control plane can only narrow what the Agent was configured to do, and never goes
  back.
\<close>

section \<open>Queue, then commit\<close>

text \<open>The files of the spool, as paths.\<close>

definition in_spool :: "EncryptedQueue \<Rightarrow> string \<Rightarrow> bool" where
  "in_spool q p \<longleftrightarrow> (\<exists>n. p = q_dir q @ slash # n)"

definition sealed_event :: "queue_lib \<Rightarrow> EncryptedQueue \<Rightarrow> Event \<Rightarrow> string option \<Rightarrow> bool" where
  "sealed_event lib q e payload \<longleftrightarrow>
     (\<exists>nonce plain. ql_marshal lib e = Inr plain \<and> length nonce = ql_NonceSize lib
        \<and> payload = Some (nonce @ ql_Seal lib (q_key q) nonce plain))"

lemma touches_queueFiles: "touches T (queueFiles d)"
  unfolding queueFiles_def by (intro touches_bind touches_wrap touches_return touches_calls)

lemma touches_Enqueue:
  assumes "queue_ok q"
  shows "touches (in_spool q) (Enqueue lib q now e)"
proof -
  have "touches (in_spool q) (create_labelled what (JoinPath [q_dir q, event_filename now salt]) c m)"
    for what salt c m
    by (rule touches_mono [OF touches_create_labelled])
      (simp add: in_spool_def queue_path [OF assms spool_name_elem [OF event_filename_spool]])
  then show ?thesis
    unfolding Enqueue_def
    by (intro touches_bind touches_queueFiles)
      (auto intro!: touches_bind touches_wrap touches_calls touches_fail split: sum.splits)
qed

lemma touches_enqueue_all:
  assumes "queue_ok q"
  shows "touches (in_spool q) (enqueue_all lib q clock k es)"
  by (induction es arbitrary: k) (auto intro!: touches_bind touches_wrap touches_Enqueue assms)

lemma enqueue_all_keeps:
  assumes "queue_ok q"
  shows "spool q w n = Some c \<Longrightarrow> spool q (snd (enqueue_all lib q clock k es w)) n = Some c"
proof (induction es arbitrary: k w)
  case (Cons e es)
  obtain r v where v: "Enqueue lib q (clock k) e w = (r, v)" by fastforce
  have "spool q v n = Some c" using Enqueue_keeps [OF assms Cons.prems, of lib "clock k" e] v by simp
  then show ?case using v Cons.IH by (cases r) (simp_all add: io_bind_def io_wrap_def)
qed (simp add: io_return_def)

text \<open>Every event has a file of its own, which was not there before.\<close>

lemma enqueue_all_adds:
  assumes "queue_ok q"
  shows "enqueue_all lib q clock k es w = (Inr u, w') \<Longrightarrow>
     \<exists>ns. distinct ns \<and> set ns \<inter> dom (spool q w) = {} \<and> list_all2 (\<lambda>n e. sealed_event lib q e (spool q w' n)) ns es"
proof (induction es arbitrary: k w)
  case (Cons e es)
  then obtain v where v: "Enqueue lib q (clock k) e w = (Inr (), v)"
      "enqueue_all lib q clock (Suc k) es v = (Inr u, w')"
    by (auto simp: io_outcomes)
  obtain n nonce plain where n: "spool q w n = None" "ql_marshal lib e = Inr plain"
      "length nonce = ql_NonceSize lib" "spool q v = (spool q w)(n \<mapsto> nonce @ ql_Seal lib (q_key q) nonce plain)"
    using Enqueue_adds [OF assms v(1)] by blast
  obtain ns where ns: "distinct ns" "set ns \<inter> dom (spool q v) = {}"
      "list_all2 (\<lambda>n e. sealed_event lib q e (spool q w' n)) ns es"
    using Cons.IH [OF v(2)] by blast
  have "spool q w' n = Some (nonce @ ql_Seal lib (q_key q) nonce plain)"
    using enqueue_all_keeps [OF assms, of v n _ lib clock "Suc k" es] v(2) n(4) by simp
  then have "sealed_event lib q e (spool q w' n)" using n by (auto simp: sealed_event_def)
  then show ?case using n(1,4) ns by (intro exI [of _ "n # ns"]) auto
qed (simp add: io_return_def)

text \<open>C10: no baseline advances before its events are safe. If the part of the cycle that queues the events and
  then commits the detectors' baselines changes any file outside the spool - however it ends, at
  whatever call it fails or the process dies - then before the first commit every event was in the spool
  under a new name, sealed with the queue's key, and nothing that was there had been lost.\<close>

theorem commit_after_queue:
  assumes "queue_ok q" and "\<not> in_spool q p"
    and "queue_then_commit lib q clock events commits w = (r, w')" and "node_at w' p \<noteq> node_at w p"
  shows "\<exists>v ns. commit_all commits v = (r, w') \<and> spool q w \<subseteq>\<^sub>m spool q v
           \<and> distinct ns \<and> set ns \<inter> dom (spool q w) = {}
           \<and> list_all2 (\<lambda>n e. sealed_event lib q e (spool q v n)) ns events"
proof -
  obtain r1 v where v: "enqueue_all lib q clock 10 events w = (r1, v)" by fastforce
  have same: "node_at v p = node_at w p"
    using touchesD [OF touches_enqueue_all [OF assms(1)] assms(2) v] .
  have keeps: "spool q w \<subseteq>\<^sub>m spool q v"
    using enqueue_all_keeps [OF assms(1), of w _ _ lib clock 10 events] v by (auto simp: map_le_def dom_def)
  show ?thesis
  proof (cases r1)
    case (Inl e)
    then have "w' = v" using assms(3) v by (simp add: queue_then_commit_def io_bind_def)
    then show ?thesis using same assms(4) by simp
  next
    case (Inr u)
    then have "commit_all commits v = (r, w')" using assms(3) v by (simp add: queue_then_commit_def io_bind_def)
    moreover have "enqueue_all lib q clock 10 events w = (Inr u, v)" using v Inr by simp
    ultimately show ?thesis using enqueue_all_adds [OF assms(1)] keeps by blast
  qed
qed

section \<open>The flush\<close>

context event_spool
begin

abbreviation content :: "'l \<Rightarrow> 'q \<Rightarrow> world \<Rightarrow> string \<Rightarrow> Event option" where
  "content l q w n \<equiv> Option.bind (pending q w n) (decode l q)"

lemma batch_content:
  assumes "wf q" and "w_ok w" and "peek l q k w = (Inr b, v)" and "n \<in> set (qb_files b)"
  shows "\<exists>e \<in> set (qb_Events b). content l q w n = Some e"
proof -
  have "content l q w n \<in> set (map (content l q w) (qb_files b))" using assms(4) by simp
  then show ?thesis unfolding peek_content [OF assms(1-3)] by auto
qed

text \<open>With fuel for one turn per pending file the loop ends.\<close>

lemma flush_loop_ends:
  assumes "wf q"
  shows "w_ok w \<Longrightarrow> card (dom (pending q w)) < fuel \<Longrightarrow>
     fst (flush_loop (peek l q) (ack q) send fuel k (w, n)) \<noteq> None"
proof (induction fuel arbitrary: k w n)
  case (Suc fuel)
  obtain r v where p: "peek l q 100 w = (r, v)" by fastforce
  have v: "w_ok v" using ops_ok(2) [OF Suc.prems(1), of l q 100] p by simp
  show ?case
  proof (cases r)
    case (Inr b)
    then have pb: "peek l q 100 w = (Inr b, v)" using p by simp
    obtain r2 n2 where s: "send (qb_Events b) n = (r2, n2)" by fastforce
    obtain r3 w3 where a: "ack q b v = (r3, w3)" by fastforce
    have w3: "w_ok w3" using ops_ok(3) [OF v, of q b] a by simp
    show ?thesis
    proof (cases "qb_Events b = [] \<or> isl r2 \<or> isl r3")
      case False
      then obtain u where a': "ack q b v = (Inr u, w3)" using a by (cases r3) auto
      have "card (dom (pending q w3)) < fuel"
        using peek_ack_progress [OF assms Suc.prems(1) pb a'] False Suc.prems(2) by simp
      then show ?thesis using Suc.IH [OF w3] False pb s a by (cases r2; cases r3) simp_all
    qed (use pb s a in \<open>cases r2; cases r3; simp\<close>)
  qed (use p in simp)
qed simp

text \<open>If an accepted batch is delivered and delivery is never undone, then whatever was pending is delivered
  or still pending.\<close>

lemma flush_loop_delivers:
  assumes "wf q" and acc: "\<And>es n u n'. send es n = (Inr u, n') \<Longrightarrow> set es \<subseteq> delivered n'"
    and mono: "\<And>es n. delivered n \<subseteq> delivered (snd (send es n))"
  shows "w_ok w \<Longrightarrow> flush_loop (peek l q) (ack q) send fuel k (w, n) = (res, w', n') \<Longrightarrow>
     delivered n \<subseteq> delivered n' \<and> w_ok w'
     \<and> (\<forall>f e. content l q w f = Some e \<longrightarrow> content l q w' f = Some e \<or> e \<in> delivered n')"
proof (induction fuel arbitrary: k w n)
  case (Suc fuel)
  obtain r v where p: "peek l q 100 w = (r, v)" by fastforce
  have v: "w_ok v" "pending q v = pending q w"
    using ops_ok(2) [OF Suc.prems(1), of l q 100] peek_same [OF p] p by simp_all
  show ?case
  proof (cases r)
    case (Inl e)
    then have "w' = v" "n' = n" using Suc.prems(2) p by simp_all
    then show ?thesis using v by simp
  next
    case (Inr b)
    then have pb: "peek l q 100 w = (Inr b, v)" using p by simp
    obtain r2 n2 where s: "send (qb_Events b) n = (r2, n2)" by fastforce
    have m: "delivered n \<subseteq> delivered n2" using mono [of n "qb_Events b"] s by simp
    obtain r3 w3 where a: "ack q b v = (r3, w3)" by fastforce
    have w3: "w_ok w3" using ops_ok(3) [OF v(1), of q b] a by simp
    have step: "content l q w3 f = Some e \<or> e \<in> delivered n2"
      if sent: "\<not> isl r2" and "content l q w f = Some e" for f e
    proof (cases "f \<in> set (qb_files b)")
      case True
      then have "e \<in> set (qb_Events b)" using batch_content [OF assms(1) Suc.prems(1) pb True] that(2) by auto
      then show ?thesis using acc s sent by (cases r2) auto
    next
      case False
      then show ?thesis using ack_others [OF assms(1) False, of v] a v(2) that(2) by simp
    qed
    consider "w' = v" "n' = n" | "w' = v" "n' = n2"
      | "\<not> isl r2" "w' = w3" "n' = n2"
      | k' where "\<not> isl r2" "flush_loop (peek l q) (ack q) send fuel k' (w3, n2) = (res, w', n')"
      using Suc.prems(2) pb s a by (cases r2; cases r3) (auto split: if_splits)
    then show ?thesis
    proof cases
      case 4
      then show ?thesis using Suc.IH [OF w3 4(2)] step [OF 4(1)] m by blast
    qed (use v w3 m step in auto)
  qed
qed simp

text \<open>A flush that reports no error has emptied the spool.\<close>

lemma flush_loop_empties:
  assumes "wf q"
  shows "w_ok w \<Longrightarrow> flush_loop (peek l q) (ack q) send fuel k (w, n) = (Some (m, None), w', n') \<Longrightarrow>
     dom (pending q w') = {}"
proof (induction fuel arbitrary: k w n)
  case (Suc fuel)
  obtain r v where p: "peek l q 100 w = (r, v)" by fastforce
  have v: "w_ok v" using ops_ok(2) [OF Suc.prems(1), of l q 100] p by simp
  obtain b where b: "r = Inr b" using Suc.prems(2) p by (cases r) auto
  have pb: "peek l q 100 w = (Inr b, v)" using p b by simp
  obtain r2 n2 where s: "send (qb_Events b) n = (r2, n2)" by fastforce
  obtain r3 w3 where a: "ack q b v = (r3, w3)" by fastforce
  show ?case
  proof (cases "qb_Events b = []")
    case True
    then have "card (dom (pending q w)) = 0" using peek_batch [OF assms Suc.prems(1) pb] by (auto simp: min_def split: if_splits)
    then have "dom (pending q w) = {}" using pending_finite [OF assms Suc.prems(1)] by simp
    then show ?thesis using True Suc.prems(2) pb peek_same [OF p] by simp
  next
    case False
    have w3: "w_ok w3" using ops_ok(3) [OF v, of q b] a by simp
    show ?thesis using Suc.IH [OF w3] Suc.prems(2) pb s a False by (cases r2; cases r3) auto
  qed
qed simp

end

text \<open>The spool is never larger than the file system.\<close>

lemma spool_card: "queue_ok q \<Longrightarrow> w_ok w \<Longrightarrow> card (dom (spool q w)) \<le> length (w_files w)"
proof -
  assume a: "queue_ok q" "w_ok w"
  have "card (dom (spool q w)) = length (spool_names q w)"
    using distinct_card [OF spool_names_distinct [OF a]] spool_names_set [OF a] by simp
  also have "\<dots> \<le> length (List.map_filter
      (\<lambda>(p, x). map_option (\<lambda>name. (name, x)) (dir_name (q_dir q) p)) (w_files w))"
    by (simp add: spool_names_def)
  also have "\<dots> \<le> length (w_files w)" by (simp add: List.map_filter_def)
  finally show ?thesis .
qed

text \<open>C1: the flush ends and delivers at least once. With the fuel that the cycle gives it, the loop always
  returns. Let \<open>delivered\<close> be what the other side has durably taken: an accepted \<open>SendEvents\<close> adds its
  batch and no request takes anything back. Then, wherever the flush fails or the process dies, an event
  that was readable in the spool is delivered or is still in the spool; and if the flush reports no error,
  the spool is empty.\<close>

theorem flush_delivers:
  assumes "queue_ok q" and "w_ok w"
    and "\<And>es m u m'. SendEvents (ag_client lib) tr client identity es m = (Inr u, m') \<Longrightarrow> set es \<subseteq> delivered m'"
    and "\<And>es m. delivered m \<subseteq> delivered (snd (SendEvents (ag_client lib) tr client identity es m))"
    and "flush lib tr client identity q (Suc (length (w_files w))) (w, n) = (res, w', n')"
  shows "\<exists>k err. res = Some (k, err)
           \<and> (\<forall>f e. entry (ag_queue lib) q w f = Some e \<longrightarrow>
                entry (ag_queue lib) q w' f = Some e \<or> e \<in> delivered n')
           \<and> (err = None \<longrightarrow> dom (spool q w') = {})"
proof -
  have run: "flush_loop (Peek (ag_queue lib) q) (Ack q) (SendEvents (ag_client lib) tr client identity)
      (Suc (length (w_files w))) 0 (w, n) = (res, w', n')"
    using assms(5) by (simp only: flush_def)
  have "card (dom (spool q w)) < Suc (length (w_files w))" using spool_card [OF assms(1,2)] by simp
  then have "res \<noteq> None"
    using queue.flush_loop_ends [OF assms(1,2), of "Suc (length (w_files w))" "ag_queue lib"
        "SendEvents (ag_client lib) tr client identity" 0 n] run by simp
  then obtain k err where res: "res = Some (k, err)" by (cases res) auto
  have "err = None \<longrightarrow> dom (spool q w') = {}"
    using queue.flush_loop_empties [OF assms(1,2)] run unfolding res by metis
  moreover have "\<forall>f e. entry (ag_queue lib) q w f = Some e \<longrightarrow>
      entry (ag_queue lib) q w' f = Some e \<or> e \<in> delivered n'"
    unfolding entry_def using queue.flush_loop_delivers [where delivered = delivered, OF assms(1) _ assms(4,2) run]
      assms(3) by blast
  ultimately show ?thesis using res by blast
qed

section \<open>Policies\<close>

text \<open>a policy from the control plane only narrows. A detector that the local configuration disables stays
  disabled under every policy, applying a policy twice is applying it once, and no policy changes where
  the Agent keeps its state, whom it talks to, over what and with which secret.\<close>

theorem applyPolicy_narrows:
  "let c = applyPolicy config policy in
     (\<not> rc_DisableFileIntegrity c) = (policy_FileIntegrityEnabled policy \<and> \<not> rc_DisableFileIntegrity config)
   \<and> (\<not> rc_DisableSSHAuth c) = (policy_SSHAuthEnabled policy \<and> \<not> rc_DisableSSHAuth config)
   \<and> (\<not> rc_DisableRuntimeWatch c) = (policy_RuntimeWatchEnabled policy \<and> \<not> rc_DisableRuntimeWatch config)
   \<and> rc_StateDir c = rc_StateDir config \<and> rc_ControlURL c = rc_ControlURL config
   \<and> rc_BootstrapToken c = rc_BootstrapToken config \<and> rc_AllowInsecureHTTP c = rc_AllowInsecureHTTP config
   \<and> rc_Interval c = rc_Interval config \<and> rc_SSHAuthLogPaths c = rc_SSHAuthLogPaths config
   \<and> rc_ProcRoot c = rc_ProcRoot config \<and> rc_DisableGatewayFeed c = rc_DisableGatewayFeed config
   \<and> rc_GatewayEventSocket c = rc_GatewayEventSocket config
   \<and> rc_CertificateRenewalWindow c = rc_CertificateRenewalWindow config
   \<and> applyPolicy c policy = c"
  by (simp add: applyPolicy_def Let_def)

text \<open>The codec law: the decoder reads back what the encoder wrote and leaves the line feed behind it.\<close>

definition policy_codec_ok :: "state_lib \<Rightarrow> bool" where
  "policy_codec_ok lib \<longleftrightarrow>
     (\<forall>p json. sl_marshal_policy lib p = Inr json \<longrightarrow>
        sl_decode_policy lib (json @ [byte 10]) = Some (p, [byte 10]))"

lemma SavePolicy_stored:
  assumes "policy_codec_ok lib" and "SavePolicy lib stateDir policy w = (Inr u, w')"
  shows "stored_policy lib stateDir (policy_AgentID policy) w' = Some policy"
proof -
  obtain json where j: "wf_policy policy" "sl_marshal_policy lib policy = Inr json" "length json < maxPolicyBytes"
      "node_at w' (JoinPath [stateDir, policyFilename]) = Some (NFile 384 (json @ [byte 10]))"
    using SavePolicy_effect [OF assms(2)] by auto
  have "parse_policy lib (json @ [byte 10]) (policy_AgentID policy) [] = Inr policy"
    using assms(1) j(1,2) by (simp add: parse_policy_def policy_codec_ok_def ValidatePolicy_iff [THEN iffD2] json_blank_def)
  then show ?thesis using j(3,4) by (simp add: stored_policy_def)
qed

lemma SavePolicy_failed:
  "SavePolicy lib stateDir policy w = (Inl e, w') \<Longrightarrow>
     stored_policy lib stateDir agentID w' = stored_policy lib stateDir agentID w"
  using SavePolicy_effect [of lib stateDir policy w "Inl e" w'] by (simp add: stored_policy_def)

lemma stored_policy_files:
  "w_files w' = w_files w \<Longrightarrow> stored_policy lib d a w' = stored_policy lib d a w"
  by (simp add: stored_policy_def)

lemma LoadPolicy_files: "LoadPolicy lib d a w = (r, w') \<Longrightarrow> w_files w' = w_files w"
  by (auto simp: LoadPolicy_def Let_def io_try_def io_bind_def io_wrap_def io_return_def io_fail_def
      split: prod.splits sum.splits os_error.splits if_splits dest!: reads_files)

text \<open>C18: the stored policy never goes back. Whatever the control plane answers, and wherever the step fails or
  the process dies, the policy file still holds a valid policy for this Agent whose revision is not
  lower, and at the same revision it is the same policy.\<close>

theorem sync_policy_monotone:
  assumes "policy_codec_ok (ag_state lib)"
    and "sync_policy lib tr config identity client (w, n) = (r, w', n')"
    and "stored_policy (ag_state lib) (rc_StateDir config) (id_AgentID identity) w = Some p"
  shows "\<exists>p'. stored_policy (ag_state lib) (rc_StateDir config) (id_AgentID identity) w' = Some p'
           \<and> policy_Revision p \<le> policy_Revision p'
           \<and> (policy_Revision p' = policy_Revision p \<longrightarrow> p' = p)"
proof -
  let ?stored = "stored_policy (ag_state lib) (rc_StateDir config) (id_AgentID identity)"
  obtain fr fn where f: "FetchPolicy (ag_client lib) (ag_state lib) tr client identity n = (fr, fn)" by fastforce
  obtain lr v where l: "LoadPolicy (ag_state lib) (rc_StateDir config) (id_AgentID identity) w = (lr, v)" by fastforce
  have v: "?stored v = Some p" using stored_policy_files [OF LoadPolicy_files [OF l]] assms(3) by simp
  note sync = assms(2) [unfolded sync_policy_def nio_bind_def on_net_def on_files_def]
  consider "w' = w" | "w' = v"
    | remote s where "fr = Inr (Some remote)" "lr = Inr None \<or> (\<exists>local. lr = Inr (Some local)
          \<and> policy_Revision local < policy_Revision remote)"
        "SavePolicy (ag_state lib) (rc_StateDir config) remote v = (s, w')"
    using sync f l
    by (cases fr) (auto simp: io_wrap_def nio_return_def nio_fail_def
        split: sum.splits option.splits prod.splits if_splits)
  then show ?thesis
  proof cases
    case 3
    have aid: "policy_AgentID remote = id_AgentID identity" using FetchPolicy_wf f unfolding 3(1) by metis
    have newer: "policy_Revision p < policy_Revision remote"
      using 3(2) LoadPolicy_Inr l assms(3) by (fastforce simp: stored_policy_def)
    show ?thesis
    proof (cases s)
      case (Inl e)
      then show ?thesis using SavePolicy_failed 3(3) v by fastforce
    next
      case (Inr u)
      then have "?stored w' = Some remote" using SavePolicy_stored [OF assms(1)] 3(3) aid by metis
      then show ?thesis using newer by simp
    qed
  qed (use v assms(3) in auto)
qed

section \<open>Instances\<close>

definition sample_agent_lib :: agent_lib where
  "sample_agent_lib = \<lparr>ag_queue = sample_queue_lib,
     ag_state = \<lparr>sl_marshal_identity = (\<lambda>_. Inl []), sl_unmarshal_identity = (\<lambda>i _. Inr i),
       sl_marshal_policy = (\<lambda>_. Inl []), sl_decode_policy = (\<lambda>_. None)\<rparr>,
     ag_x509 = sample_lib,
     ag_client = \<lparr>nl_url_Parse = (\<lambda>_. None), nl_url_String = (\<lambda>_. []), nl_IsLoopback = (\<lambda>_. False),
       nl_StatusText = (\<lambda>_. []), nl_detail = (\<lambda>_. []), nl_register = (\<lambda>_. Inl []), nl_registered = (\<lambda>_. Inl []),
       nl_heartbeat = (\<lambda>_ _. Inl []), nl_events = (\<lambda>es. Inr (concat (map event_ID es))), nl_csr = (\<lambda>_. Inl [])\<rparr>\<rparr>"

definition sample_client :: Client where
  "sample_client = \<lparr>c_baseURL = ''http://localhost'', c_bootstrapToken = [], c_Certificate = None\<rparr>"

definition sample_identity :: Identity where
  "sample_identity = \<lparr>id_MachineID = ''m'', id_AgentID = ''a'', id_Credential = ''c''\<rparr>"

text \<open>A server that keeps the bodies it has accepted.\<close>

definition keeping_server :: "string list transport" where
  "keeping_server req log = (Inr \<lparr>http_StatusCode = 202, http_Body = []\<rparr>, log @ [http_Content req])"

definition kept :: "string list \<Rightarrow> Event set" where
  "kept log = {e. \<exists>es. e \<in> set es \<and> concat (map event_ID es) \<in> set log}"

lemma keeping_send:
  "SendEvents (ag_client sample_agent_lib) keeping_server sample_client sample_identity es log
     = (Inr (), log @ [concat (map event_ID es)])"
  by (simp add: SendEvents_def doJSON_def keeping_server_def sample_agent_lib_def)

lemma sample_lib_queue: "ag_queue sample_agent_lib = sample_queue_lib"
  by (simp add: sample_agent_lib_def)

lemma kept_mono: "kept log \<subseteq> kept (log @ more_log)"
  by (auto simp: kept_def)

lemma kept_batch: "set es \<subseteq> kept (log @ [concat (map event_ID es)])"
  by (auto simp: kept_def)

theorem flush_delivers_witness:
  "spool_event \<in> kept (snd (snd (flush sample_agent_lib keeping_server sample_client sample_identity sample_spool 3
       (one_file_world good_payload, []))))
   \<or> entry sample_queue_lib sample_spool (fst (snd (flush sample_agent_lib keeping_server sample_client sample_identity
       sample_spool 3 (one_file_world good_payload, [])))) ''1.event'' = Some spool_event"
proof -
  let ?run = "flush sample_agent_lib keeping_server sample_client sample_identity sample_spool 3
    (one_file_world good_payload, [])"
  have "entry sample_queue_lib sample_spool (one_file_world good_payload) ''1.event'' = Some spool_event"
    by (simp add: one_file_facts(3) entry_def decode_payload_def good_payload_def maxQueueFileSize_def
        sample_queue_lib_def spool_event_def)
  moreover have "Suc (length (w_files (one_file_world good_payload))) = 3" by (simp add: one_file_world_def)
  ultimately show ?thesis
    using flush_delivers [where lib = sample_agent_lib and tr = keeping_server and delivered = kept
        and res = "fst ?run" and w' = "fst (snd ?run)" and n' = "snd (snd ?run)" and n = "[]"
        and w = "one_file_world good_payload" and client = sample_client and identity = sample_identity,
        OF sample_spool_ok one_file_facts(1)]
    by (simp add: keeping_send sample_lib_queue kept_mono kept_batch) blast
qed

definition chmod_commit :: commit where
  "chmod_commit = io_wrap os_text (ChmodFile ''/s/queue'' 511)"

lemma sample_enqueue_faults:
  "w_faults (snd (Enqueue sample_queue_lib sample_spool 7 spool_event (spool_world []))) = []"
  by code_simp

lemma sample_commit_change:
  "node_at (snd (queue_then_commit sample_queue_lib sample_spool (\<lambda>_. 7) [spool_event] [([], chmod_commit)]
     (spool_world []))) ''/s/queue'' = Some (NDir 511)"
proof -
  obtain v where v: "Enqueue sample_queue_lib sample_spool 7 spool_event (spool_world []) = (Inr (), v)"
    using sample_enqueue_ok by (metis prod.collapse)
  have "\<not> in_spool sample_spool ''/s/queue''" by (simp add: in_spool_def sample_spool_def)
  then have "node_at v ''/s/queue'' = Some (NDir 448)"
    using touchesD [OF touches_Enqueue [OF sample_spool_ok] _ v] by (simp add: spool_world_def)
  then show ?thesis
    using v sample_enqueue_faults
    by (simp add: queue_then_commit_def io_bind_def io_wrap_def io_return_def chmod_commit_def ChmodFile_def
        sys_no_fault update_conv')
qed

theorem commit_after_queue_witness:
  "\<exists>v ns. spool sample_spool (spool_world []) \<subseteq>\<^sub>m spool sample_spool v \<and> length ns = 1 \<and> distinct ns
     \<and> list_all2 (\<lambda>n e. sealed_event sample_queue_lib sample_spool e (spool sample_spool v n)) ns [spool_event]"
proof -
  let ?run = "queue_then_commit sample_queue_lib sample_spool (\<lambda>_. 7) [spool_event] [([], chmod_commit)] (spool_world [])"
  have "\<not> in_spool sample_spool ''/s/queue''" by (simp add: in_spool_def sample_spool_def)
  from commit_after_queue [OF sample_spool_ok this, where lib = sample_queue_lib and clock = "\<lambda>_. 7" and w = "spool_world []"
      and events = "[spool_event]" and commits = "[([], chmod_commit)]" and r = "fst ?run" and w' = "snd ?run"]
  have "\<exists>v ns. commit_all [([], chmod_commit)] v = (fst ?run, snd ?run)
      \<and> spool sample_spool (spool_world []) \<subseteq>\<^sub>m spool sample_spool v \<and> distinct ns
      \<and> set ns \<inter> dom (spool sample_spool (spool_world [])) = {}
      \<and> list_all2 (\<lambda>n e. sealed_event sample_queue_lib sample_spool e (spool sample_spool v n)) ns [spool_event]"
    using sample_commit_change by (simp add: spool_world_def)
  moreover have "list_all2 P ns [spool_event] \<Longrightarrow> length ns = 1" for P :: "string \<Rightarrow> Event \<Rightarrow> bool" and ns
    by (drule list_all2_lengthD) simp
  ultimately show ?thesis by blast
qed

definition sample_policy :: "int \<Rightarrow> Policy" where
  "sample_policy k = \<lparr>policy_ID = ''p'', policy_AgentID = ''a'', policy_Revision = k,
     policy_FileIntegrityEnabled = True, policy_FileWatchPaths = [''/etc''], policy_SSHAuthEnabled = True,
     policy_SSHThreshold = 5, policy_SSHWindowSeconds = 60, policy_RuntimeWatchEnabled = True,
     policy_UpdatedAt = 1\<rparr>"

text \<open>A codec for two policies, a state directory that holds the first, a server that answers with the second.\<close>

definition policy_lib :: agent_lib where
  "policy_lib = sample_agent_lib\<lparr>ag_state := (ag_state sample_agent_lib)\<lparr>
     sl_marshal_policy := (\<lambda>p. if p = sample_policy 1 then Inr ''1'' else if p = sample_policy 2 then Inr ''2'' else Inl []),
     sl_decode_policy := (\<lambda>s. case s of c # rest \<Rightarrow> Some (sample_policy (if c = CHR ''1'' then 1 else 2), rest)
                          | [] \<Rightarrow> None)\<rparr>\<rparr>"

definition policy_config :: AgentConfig where
  "policy_config = \<lparr>rc_StateDir = ''/s'', rc_ControlURL = [], rc_BootstrapToken = [], rc_AllowInsecureHTTP = False,
     rc_Interval = 0, rc_DisableFileIntegrity = False, rc_FileWatchPaths = None, rc_DisableSSHAuth = False,
     rc_SSHAuthLogPaths = None, rc_SSHThreshold = 5, rc_SSHWindow = 60, rc_DisableRuntimeWatch = False,
     rc_ProcRoot = [], rc_DisableGatewayFeed = False, rc_GatewayEventSocket = [], rc_CertificateRenewalWindow = 0\<rparr>"

definition policy_world :: world where
  "policy_world = (spool_world [Pass, Pass, Crash 0])\<lparr>w_files := [(''/s/policy.json'', NFile 384 [CHR ''1'', byte 10])]\<rparr>"

definition policy_server :: "unit transport" where
  "policy_server req net = (Inr \<lparr>http_StatusCode = 200, http_Body = ''2''\<rparr>, ())"

theorem sync_policy_monotone_witness:
  "\<exists>p'. stored_policy (ag_state policy_lib) ''/s'' ''a''
       (fst (snd (sync_policy policy_lib policy_server policy_config sample_identity sample_client (policy_world, ()))))
     = Some p' \<and> 1 \<le> policy_Revision p'"
proof -
  let ?run = "sync_policy policy_lib policy_server policy_config sample_identity sample_client (policy_world, ())"
  have codec: "policy_codec_ok (ag_state policy_lib)"
    by (auto simp: policy_codec_ok_def policy_lib_def split: if_splits)
  have stored: "stored_policy (ag_state policy_lib) ''/s'' ''a'' policy_world = Some (sample_policy 1)"
  proof -
    have path: "JoinPath [''/s'', policyFilename] = ''/s/policy.json''" by code_simp
    have "\<not> bad_watch_path ''/etc''" "TrimSpace ''p'' = ''p''" "TrimSpace ''a'' = ''a''" by code_simp+
    then have "wf_policy (sample_policy 1)" by (simp add: wf_policy_def sample_policy_def zero_time_def)
    then have "parse_policy (ag_state policy_lib) [CHR ''1'', byte 10] ''a'' [] = Inr (sample_policy 1)"
      by (simp add: parse_policy_def policy_lib_def json_blank_def ValidatePolicy_iff [THEN iffD2])
        (simp add: sample_policy_def)
    then show ?thesis by (simp add: stored_policy_def path policy_world_def maxPolicyBytes_def)
  qed
  have sel: "rc_StateDir policy_config = ''/s''" "id_AgentID sample_identity = ''a''" "policy_Revision (sample_policy 1) = 1"
    by (simp_all add: policy_config_def sample_identity_def sample_policy_def)
  have "?run = (fst ?run, fst (snd ?run), snd (snd ?run))" by (simp only: prod.collapse)
  from sync_policy_monotone [OF codec this, of "sample_policy 1"] stored show ?thesis
    unfolding sel by blast
qed

text \<open>A client for a loopback address.\<close>

definition loopback_lib :: client_lib where
  "loopback_lib = (ag_client sample_agent_lib)\<lparr>
     nl_url_Parse := (\<lambda>s. Some \<lparr>url_Scheme = ''http'', url_Host = ''localhost:8080'', url_Hostname = ''localhost'',
       url_User = False, url_RawQuery = [], url_Fragment = [], url_Path = ''/''\<rparr>),
     nl_url_String := (\<lambda>u. ''http://localhost:8080'')\<rparr>"

definition loopback_config :: ClientConfig where
  "loopback_config = \<lparr>cc_BaseURL = ''http://localhost:8080/'', cc_BootstrapToken = [], cc_Certificate = None,
     cc_AllowInsecureHTTP = False\<rparr>"

theorem NewClient_plain_http_witness:
  "isLoopbackHost loopback_lib ''localhost''"
proof -
  have "NewClient loopback_lib loopback_config = Inr \<lparr>c_baseURL = ''http://localhost:8080'', c_bootstrapToken = [],
      c_Certificate = None\<rparr>"
    by code_simp
  from NewClient_plain_http [OF this] show ?thesis by (auto simp: loopback_lib_def loopback_config_def)
qed

end
