(* ===== verification/Detector_Base.thy ===== *)
theory Detector_Base
  imports Go_Files Domain
begin

text \<open>
  What the three detectors of internal/detector share. Each keeps one JSON file below the state
  directory and reads and writes it with the same code, up to the texts of its errors: \<open>loadBaseline\<close> and
  \<open>saveBaseline\<close> (fileintegrity.go), \<open>loadState\<close> and \<open>saveState\<close> (sshauth.go, runtimewatch.go). A
  \<open>state_file\<close> holds what differs. The locale \<open>change_detector\<close> is the contract on which the Agent's
  cycle relies: observing changes nothing, and a commit changes the detector's own file or nothing.
\<close>

type_synonym commit = "(error, unit) io"

record 'v state_file =
  sf_dir :: string
  sf_name :: string
  sf_pre :: string
  sf_max :: nat
  sf_not_small :: error
  sf_trailing :: error
  sf_too_large :: error
  sf_stat_label :: string
  sf_open_label :: string
  sf_decode_label :: string
  sf_encode_label :: string
  sf_mkdir_label :: string
  sf_chmod_label :: string
  sf_create_label :: string
  sf_replace_label :: string
  sf_decode :: "string \<Rightarrow> error + 'v \<times> string"
  sf_marshal :: "'v \<Rightarrow> error + string"
  sf_validate :: "'v \<Rightarrow> error option"

definition sf_path :: "'v state_file \<Rightarrow> string" where
  "sf_path f = JoinPath [sf_dir f, sf_name f]"

text \<open>Decoding with \<open>DisallowUnknownFields\<close>, then a second \<open>Decode\<close> that must find the end of the input, then
  the validation.\<close>

definition parse_state :: "'v state_file \<Rightarrow> string \<Rightarrow> error + 'v" where
  "parse_state f encoded =
     (case sf_decode f encoded of
        Inl e \<Rightarrow> Inl (sf_decode_label f @ e)
      | Inr (val, after) \<Rightarrow>
          if \<not> list_all json_blank after then Inl (sf_trailing f)
          else case sf_validate f val of Some e \<Rightarrow> Inl e | None \<Rightarrow> Inr val)"

text \<open>\<^const>\<open>None\<close> for \<open>false, nil\<close>: no state has been stored.\<close>

definition load_state :: "'v state_file \<Rightarrow> (error, 'v option) io" where
  "load_state f =
     io_try (Lstat (sf_path f)) (\<lambda>r.
       case r of
         Inl OsNotExist \<Rightarrow> io_return None
       | Inl e \<Rightarrow> io_fail (sf_stat_label f @ os_text e)
       | Inr info \<Rightarrow>
           if \<not> is_regular info \<or> sf_max f < node_size info then io_fail (sf_not_small f)
           else io_bind (os_label (sf_open_label f) (ReadFile (sf_path f))) (\<lambda>encoded.
             case parse_state f encoded of Inl e \<Rightarrow> io_fail e | Inr val \<Rightarrow> io_return (Some val)))"

text \<open>As \<^const>\<open>replace_via_temp\<close>, with a label for the first and the last step.\<close>

definition replace_labelled ::
  "string \<Rightarrow> string \<Rightarrow> string \<Rightarrow> string \<Rightarrow> string \<Rightarrow> string \<Rightarrow> string \<Rightarrow> nat \<Rightarrow> (error, unit) io" where
  "replace_labelled create_label replace_label dir pre suf path content mode =
     io_bind (os_label create_label (CreateTemp dir pre suf)) (\<lambda>tmp.
       io_cleanup
         (io_then (os_label [] (ChmodFile tmp mode))
         (io_then (os_label [] (WriteTo tmp content))
         (io_then (os_label [] SyncClose)
         (io_then (os_label [] SyncClose)
           (os_label replace_label (Rename tmp path))))))
         (io_try SyncClose (\<lambda>_. Remove tmp)))"

definition save_state :: "'v state_file \<Rightarrow> 'v \<Rightarrow> commit" where
  "save_state f val =
     (case sf_validate f val of
        Some e \<Rightarrow> io_fail e
      | None \<Rightarrow>
          (case sf_marshal f val of
             Inl e \<Rightarrow> io_fail (sf_encode_label f @ e)
           | Inr json \<Rightarrow>
               if sf_max f < length (json @ [byte 10]) then io_fail (sf_too_large f)
               else io_then (os_label (sf_mkdir_label f) (MkdirAll (sf_dir f) 448))
                   (io_then (os_label (sf_chmod_label f) (ChmodFile (sf_dir f) 448))
                     (replace_labelled (sf_create_label f) (sf_replace_label f) (sf_dir f) (sf_pre f) ''.tmp''
                        (sf_path f) (json @ [byte 10]) 384))))"

section \<open>What loading and saving guarantee\<close>

lemma replace_labelled_Inr:
  "replace_labelled cl rl dir pre suf path content mode w = (Inr u, w') \<longleftrightarrow>
     replace_via_temp dir pre suf path content mode w = (Inr u, w')"
  by (simp add: replace_labelled_def replace_via_temp_def io_outcomes)

lemma replace_labelled_snd:
  "snd (replace_labelled cl rl dir pre suf path content mode w) = snd (replace_via_temp dir pre suf path content mode w)"
  by (simp add: replace_labelled_def replace_via_temp_def io_bind_def io_cleanup_def io_wrap_def
      split: prod.splits sum.splits)

lemma replace_labelled_Inl:
  assumes "replace_labelled cl rl dir pre suf path content mode w = (Inl e, w')" and "\<not> temp_name dir pre suf q"
  shows "node_at w' q = node_at w q"
proof -
  obtain r v where v: "replace_via_temp dir pre suf path content mode w = (r, v)" by fastforce
  have w': "w' = v" using replace_labelled_snd [of cl rl dir pre suf path content mode w] v assms(1) by simp
  show ?thesis
  proof (cases r)
    case (Inl d)
    then show ?thesis using replace_via_temp_Inl v assms(2) w' by metis
  next
    case (Inr u)
    then show ?thesis using v assms(1) replace_labelled_Inr [of cl rl dir pre suf path content mode w u v] by simp
  qed
qed

text \<open>The file names of the detectors: not temporary, and inside the directory.\<close>

definition state_file_ok :: "'v state_file \<Rightarrow> bool" where
  "state_file_ok f \<longleftrightarrow> name_elem (sf_name f) \<and> last (sf_name f) \<noteq> CHR ''p'' \<and> sf_dir f \<noteq> []"

text \<open>The paths a commit may write to: the file, its temporary names, the directory and those above it.\<close>

definition own_path :: "'v state_file \<Rightarrow> string \<Rightarrow> bool" where
  "own_path f q \<longleftrightarrow> q = sf_path f \<or> temp_name (sf_dir f) (sf_pre f) ''.tmp'' q \<or> q = sf_dir f \<or> q \<in> set (dir_chain (sf_dir f))"

lemma state_not_temp: "state_file_ok f \<Longrightarrow> \<not> temp_name dir pre ''.tmp'' (sf_path f)"
  unfolding sf_path_def by (rule not_temp_name) (auto simp: state_file_ok_def)

lemma touches_replace_labelled:
  "touches (\<lambda>q. q = path \<or> temp_name dir pre suf q) (replace_labelled cl rl dir pre suf path content mode)"
  using touches_replace_via_temp [of path dir pre suf content mode] by (simp add: touches_def replace_labelled_snd)

lemma touches_save_state: "touches (own_path f) (save_state f val)"
  unfolding save_state_def
  by (auto intro!: touches_bind touches_wrap touches_fail intro: touches_mono [OF touches_MkdirAll]
      touches_mono [OF touches_ChmodFile] touches_mono [OF touches_replace_labelled]
      simp: own_path_def split: option.splits sum.splits)

lemma load_state_files: "load_state f w = (r, w') \<Longrightarrow> w_files w' = w_files w"
  by (auto simp: load_state_def io_try_def io_bind_def io_wrap_def io_return_def io_fail_def
      split: prod.splits sum.splits os_error.splits if_splits dest!: reads_files)

lemma save_state_Inl:
  assumes "state_file_ok f" and "save_state f val w = (Inl e, w')"
  shows "node_at w' (sf_path f) = node_at w (sf_path f)"
proof -
  let ?dirs = "io_then (os_label (sf_mkdir_label f) (MkdirAll (sf_dir f) 448))
      (os_label (sf_chmod_label f) (ChmodFile (sf_dir f) 448))"
  have "sf_path f \<notin> set (dir_chain (sf_dir f))" "sf_path f \<noteq> sf_dir f"
    using assms(1) JoinPath_not_in_chain JoinPath_not_dir by (auto simp: state_file_ok_def sf_path_def)
  moreover have t: "touches (\<lambda>q. q \<in> set (dir_chain (sf_dir f)) \<or> q = sf_dir f) ?dirs"
    by (intro touches_bind touches_wrap touches_mono [OF touches_MkdirAll] touches_mono [OF touches_ChmodFile]) simp_all
  ultimately have dirs: "node_at v (sf_path f) = node_at w (sf_path f)" if "?dirs w = (r, v)" for r v
    by (intro touchesD [OF t _ that]) simp
  from assms(2) consider "w' = w" | "?dirs w = (Inl e, w')"
    | v json where "?dirs w = (Inr (), v)" "replace_labelled (sf_create_label f) (sf_replace_label f) (sf_dir f)
        (sf_pre f) ''.tmp'' (sf_path f) (json @ [byte 10]) 384 v = (Inl e, w')"
    by (auto simp: save_state_def io_outcomes split: option.splits sum.splits if_splits)
  then show ?thesis
  proof cases
    case 3
    then show ?thesis using replace_labelled_Inl [OF 3(2) state_not_temp [OF assms(1)]] dirs by simp
  qed (use dirs in auto)
qed

lemma save_state_Inr:
  assumes "save_state f val w = (Inr u, w')"
  shows "sf_validate f val = None \<and> (\<exists>json. sf_marshal f val = Inr json \<and> length json < sf_max f
           \<and> node_at w' (sf_path f) = Some (NFile 384 (json @ [byte 10])))"
  using assms
  by (auto simp: save_state_def io_outcomes replace_labelled_Inr not_less Suc_le_eq
      split: option.splits sum.splits if_splits dest!: replace_via_temp_Inr)

text \<open>What the file holds, if it can be read.\<close>

definition stored_state :: "'v state_file \<Rightarrow> world \<Rightarrow> 'v option" where
  "stored_state f w =
     (case node_at w (sf_path f) of
        Some (NFile _ encoded) \<Rightarrow>
          if sf_max f < length encoded then None
          else (case parse_state f encoded of Inl _ \<Rightarrow> None | Inr val \<Rightarrow> Some val)
      | _ \<Rightarrow> None)"

lemma load_state_Inr:
  assumes "load_state f w = (Inr v, w')"
  shows "case v of None \<Rightarrow> node_at w (sf_path f) = None | Some val \<Rightarrow> stored_state f w = Some val"
proof -
  obtain r x where l: "Lstat (sf_path f) w = (r, x)" by fastforce
  show ?thesis
  proof (cases r)
    case (Inl e)
    then have "v = None" "e = OsNotExist"
      using assms l by (auto simp: load_state_def io_try_def split: os_error.splits)
    then show ?thesis
      using l Inl by (auto simp: Lstat_def sys_def split: prod.splits option.splits dest!: next_fault_files)
  next
    case (Inr info)
    then have reg: "\<not> (\<not> is_regular info \<or> sf_max f < node_size info)"
      and "\<exists>enc val. ReadFile (sf_path f) x = (Inr enc, w') \<and> v = Some val \<and> parse_state f enc = Inr val"
      using assms l by (auto simp: load_state_def io_try_def io_outcomes split: if_splits)
    then obtain enc val where enc: "ReadFile (sf_path f) x = (Inr enc, w')" "v = Some val"
        "parse_state f enc = Inr val" by blast
    obtain m c where info: "info = NFile m c" using reg by (cases info) auto
    have node: "node_at w (sf_path f) = Some (NFile m c)" "node_at x (sf_path f) = Some (NFile m c)"
      using Lstat_Inr l Inr info reads_files(1) [OF l] by fastforce+
    have "enc = c" using ReadFile_Inr [OF enc(1)] follow_file [OF node(2)] by simp
    then show ?thesis using node(1) reg info enc(2,3) by (simp add: stored_state_def)
  qed
qed

lemma load_state_no_fault:
  assumes "w_faults w = []" and "stored_state f w = Some val"
  shows "load_state f w = (Inr (Some val), w)"
  using assms
  by (auto simp: stored_state_def load_state_def io_try_def Lstat_def sys_no_fault io_bind_def io_wrap_def
      ReadFile_def follow_file io_return_def split: option.splits node.splits if_splits sum.splits)

text \<open>The codec law of \<open>json.MarshalIndent\<close> and \<open>Decode\<close>, and with it the round trip.\<close>

definition state_codec_ok :: "'v state_file \<Rightarrow> bool" where
  "state_codec_ok f \<longleftrightarrow>
     (\<forall>v json. sf_marshal f v = Inr json \<longrightarrow> sf_decode f (json @ [byte 10]) = Inr (v, [byte 10]))"

lemma save_state_stored:
  assumes "state_codec_ok f" and "save_state f val w = (Inr u, w')"
  shows "stored_state f w' = Some val"
proof -
  obtain json where j: "sf_validate f val = None" "sf_marshal f val = Inr json" "length json < sf_max f"
      "node_at w' (sf_path f) = Some (NFile 384 (json @ [byte 10]))"
    using save_state_Inr [OF assms(2)] by blast
  have "parse_state f (json @ [byte 10]) = Inr val"
    using assms(1) j(1,2) by (simp add: parse_state_def state_codec_ok_def json_blank_def)
  then show ?thesis using j(3,4) by (simp add: stored_state_def)
qed

section \<open>The contract of a detector\<close>

locale change_detector =
  fixes scan :: "'c \<Rightarrow> (error, Event list \<times> commit) io"
    and valid :: "'c \<Rightarrow> bool"
    and owns :: "'c \<Rightarrow> string \<Rightarrow> bool"
    and state_path :: "'c \<Rightarrow> string"
  assumes scan_reads: "scan c w = (r, w') \<Longrightarrow> w_files w' = w_files w"
    and commit_owns: "scan c w = (Inr (es, k), w') \<Longrightarrow> touches (owns c) k"
    and commit_atomic: "valid c \<Longrightarrow> scan c w = (Inr (es, k), w') \<Longrightarrow> k v = (Inl e, v') \<Longrightarrow>
      node_at v' (state_path c) = node_at v (state_path c)"
begin

lemma scan_commit_touches:
  assumes "scan c w = (Inr (es, k), v)" and "k v = (r, w')" and "\<not> owns c q"
  shows "node_at w' q = node_at w q"
  using touchesD [OF commit_owns [OF assms(1)] assms(3,2)] scan_reads [OF assms(1)] by simp

end

end
