(* ===== verification/File_Integrity.thy ===== *)
theory File_Integrity
  imports Detector_Base "HOL-Library.Product_Lexorder"
begin

text \<open>
  internal/detector/fileintegrity/fileintegrity.go: the detector that compares the watched files with a
  stored baseline. \<open>Scan\<close> walks the watched paths, hashes what it finds, compares with the baseline and
  returns events and a commit; the commit stores the new baseline.

  SHA-256 and the JSON encodings are the fields of \<open>fim_lib\<close>. The context is never cancelled, and no other
  process changes the tree during a walk.
\<close>

record fim_entry =
  fe_Path :: string
  fe_SHA256 :: string
  fe_Size :: int
  fe_Mode :: nat

record baseline =
  bl_SchemaVersion :: int
  bl_Generation :: nat
  bl_CoverageHash :: string
  bl_Entries :: "(string, fim_entry) gomap option"

record scanIssue =
  si_Path :: string
  si_Reason :: string

record fim_snapshot =
  ss_entries :: "(string, fim_entry) gomap"
  ss_issues :: "scanIssue list"
  ss_limited :: bool

record fim_lib =
  fl_sha256 :: "string \<Rightarrow> string"
  fl_entry_json :: "fim_entry \<Rightarrow> string"
  fl_issues_json :: "scanIssue list \<Rightarrow> string"
  fl_event_json :: "string \<Rightarrow> nat \<Rightarrow> (string \<times> goany) list \<Rightarrow> string"
  fl_coverage_json :: "scanIssue list \<Rightarrow> bool \<Rightarrow> string"
  fl_marshal :: "baseline \<Rightarrow> error + string"
  fl_decode :: "string \<Rightarrow> error + baseline \<times> string"

record fim_Config =
  fc_StateDir :: string
  fc_Paths :: "string list"
  fc_MaxFiles :: int
  fc_MaxFileSize :: int
  fc_MaxEvents :: int

definition baselineFilename :: string where "baselineFilename = ''file-integrity-baseline.json''"
definition baselineSchemaVersion :: int where "baselineSchemaVersion = 1"
definition fim_maxIssueSamples :: nat where "fim_maxIssueSamples = 20"

section \<open>Configuration\<close>

fun fim_paths :: "string list \<Rightarrow> string list \<Rightarrow> (error, string list) io" where
  "fim_paths seen [] = io_return []"
| "fim_paths seen (raw # raws) =
     (if ContainsAny raw control_chars then io_fail ''file integrity path contains control characters''
      else io_try (AbsPath (TrimSpace raw)) (\<lambda>r.
        case r of
          Inl _ \<Rightarrow> io_fail (''invalid file integrity path '' @ Quote raw)
        | Inr p \<Rightarrow>
            if TrimSpace raw = [] then io_fail (''invalid file integrity path '' @ Quote raw)
            else (let path = Clean p in
              if path \<in> set seen then fim_paths seen raws
              else io_bind (fim_paths (path # seen) raws) (\<lambda>ps. io_return (path # ps)))))"

definition fim_New :: "fim_Config \<Rightarrow> (error, fim_Config) io" where
  "fim_New config =
     (if TrimSpace (fc_StateDir config) = [] then io_fail ''file integrity state directory is required''
      else io_bind (os_label ''resolve file integrity state directory: '' (AbsPath (fc_StateDir config))) (\<lambda>stateDir.
        let maxFiles = (if fc_MaxFiles config = 0 then 10000 else fc_MaxFiles config);
            maxFileSize = (if fc_MaxFileSize config = 0 then 67108864 else fc_MaxFileSize config);
            maxEvents = (if fc_MaxEvents config = 0 then 500 else fc_MaxEvents config)
        in if maxFiles < 1 \<or> 100000 < maxFiles
           then io_fail ''file integrity max files must be between 1 and 100000''
           else if maxFileSize < 1 \<or> 1073741824 < maxFileSize
           then io_fail ''file integrity max file size must be between 1 byte and 1 GiB''
           else if maxEvents < 1 \<or> 5000 < maxEvents
           then io_fail ''file integrity max events must be between 1 and 5000''
           else io_bind (fim_paths [] (fc_Paths config)) (\<lambda>paths.
             io_return \<lparr>fc_StateDir = stateDir, fc_Paths = sort paths, fc_MaxFiles = maxFiles,
                        fc_MaxFileSize = maxFileSize, fc_MaxEvents = maxEvents\<rparr>)))"

section \<open>Events\<close>

definition fim_simpleEvent ::
  "fim_lib \<Rightarrow> string \<Rightarrow> Severity \<Rightarrow> string \<Rightarrow> time \<Rightarrow> nat \<Rightarrow> (string \<times> goany) list \<Rightarrow> Event" where
  "fim_simpleEvent lib kind severity summary now generation evidence =
     \<lparr>event_ID = ''evt_fim_'' @ EncodeToString (take 12 (fl_sha256 lib (fl_event_json lib kind generation evidence))),
      event_AgentID = [], event_Kind = kind, event_Severity = severity, event_Summary = summary,
      event_OccurredAt = now, event_ReceivedAt = zero_time, event_Evidence = Some evidence\<rparr>"

definition fim_coverageEvent ::
  "fim_lib \<Rightarrow> time \<Rightarrow> nat \<Rightarrow> scanIssue list \<Rightarrow> bool \<Rightarrow> string \<Rightarrow> Severity \<Rightarrow> Event" where
  "fim_coverageEvent lib now generation issues limited summary severity =
     fim_simpleEvent lib ''file.integrity.coverage_limited'' severity summary now generation
       ([(''issue_count'', AInt (int (length issues))),
         (''issues'', ARaw (fl_issues_json lib (take fim_maxIssueSamples issues))),
         (''read_only'', ABool True)]
        @ (if limited then [(''scan_limited'', ABool True)] else []))"

definition hashIssues :: "fim_lib \<Rightarrow> scanIssue list \<Rightarrow> bool \<Rightarrow> string" where
  "hashIssues lib issues limited =
     (if issues = [] \<and> \<not> limited then []
      else EncodeToString (fl_sha256 lib (fl_coverage_json lib issues limited)))"

section \<open>The walk\<close>

definition add_issue :: "string \<Rightarrow> string \<Rightarrow> fim_snapshot \<Rightarrow> fim_snapshot" where
  "add_issue path reason s = s\<lparr>ss_issues := ss_issues s @ [\<lparr>si_Path = path, si_Reason = reason\<rparr>]\<rparr>"

definition add_entry :: "fim_entry \<Rightarrow> fim_snapshot \<Rightarrow> fim_snapshot" where
  "add_entry e s = s\<lparr>ss_entries := AList.update (fe_Path e) e (ss_entries s)\<rparr>"

definition hashFile :: "fim_lib \<Rightarrow> string \<Rightarrow> int \<Rightarrow> (os_error, string) io" where
  "hashFile lib path limit =
     io_bind (ReadFile path) (\<lambda>content.
       if limit < int (length content) then io_fail (OsOther ''file changed beyond configured hash limit'')
       else io_return (EncodeToString (fl_sha256 lib content)))"

text \<open>How a visit ends: \<open>nil\<close>, \<open>errFileLimit\<close>, or the fuel of the model is spent.\<close>

datatype walk_end = WalkDone | FileLimit | OutOfFuel

type_synonym walk = "fim_snapshot \<Rightarrow> world \<Rightarrow> (walk_end \<times> fim_snapshot) \<times> world"

definition captureFile :: "fim_lib \<Rightarrow> fim_Config \<Rightarrow> string \<Rightarrow> node \<Rightarrow> walk" where
  "captureFile lib config path info s w =
     (if fc_MaxFiles config \<le> int (length (ss_entries s))
      then ((FileLimit, add_issue path ''file_limit_exceeded'' s), w)
      else let val = \<lparr>fe_Path = Clean path, fe_SHA256 = [], fe_Size = int (node_size info), fe_Mode = node_perm info\<rparr>
        in if fc_MaxFileSize config < int (node_size info)
           then ((WalkDone, add_issue (fe_Path val) ''file_too_large_to_hash'' (add_entry val s)), w)
           else case hashFile lib path (fc_MaxFileSize config) w of
                  (Inl _, w) \<Rightarrow> ((WalkDone, add_issue (fe_Path val) ''unreadable'' s), w)
                | (Inr hash, w) \<Rightarrow> ((WalkDone, add_entry (val\<lparr>fe_SHA256 := hash\<rparr>) s), w))"

text \<open>The callback of \<open>filepath.WalkDir\<close> without an error: only regular files are looked at, links are not
  followed.\<close>

definition visit :: "fim_lib \<Rightarrow> fim_Config \<Rightarrow> string \<Rightarrow> node \<Rightarrow> walk" where
  "visit lib config path item s w =
     (if is_regular item
      then case Lstat path w of
             (Inl _, w) \<Rightarrow> ((WalkDone, add_issue path ''unreadable'' s), w)
           | (Inr info, w) \<Rightarrow> captureFile lib config path info s w
      else ((WalkDone, s), w))"

text \<open>\<open>filepath.WalkDir\<close> below a path: the callback first, then the entries of a directory in the order of
  their names. A directory that cannot be read is reported through the callback, which skips it.\<close>

fun walkDir :: "fim_lib \<Rightarrow> fim_Config \<Rightarrow> nat \<Rightarrow> string \<Rightarrow> node \<Rightarrow> walk"
  and walk_entries :: "fim_lib \<Rightarrow> fim_Config \<Rightarrow> nat \<Rightarrow> string \<Rightarrow> (string \<times> node) list \<Rightarrow> walk" where
  "walkDir lib config 0 path item s w = ((OutOfFuel, s), w)"
| "walkDir lib config (Suc fuel) path item s w =
     (case visit lib config path item s w of
        ((WalkDone, s), w) \<Rightarrow>
          if \<not> is_dir (Some item) then ((WalkDone, s), w)
          else (case ReadDir path w of
                  (Inl _, w) \<Rightarrow> ((WalkDone, add_issue path ''unreadable'' s), w)
                | (Inr items, w) \<Rightarrow> walk_entries lib config fuel path (sort_key fst items) s w)
      | stop \<Rightarrow> stop)"
| "walk_entries lib config fuel path [] s w = ((WalkDone, s), w)"
| "walk_entries lib config fuel path ((name, item) # items) s w =
     (case walkDir lib config fuel (JoinPath [path, name]) item s w of
        ((WalkDone, s), w) \<Rightarrow> walk_entries lib config fuel path items s w
      | stop \<Rightarrow> stop)"

text \<open>A walk cannot go deeper than the longest path of the file system is long.\<close>

definition walk_fuel :: "world \<Rightarrow> nat" where
  "walk_fuel w = Suc (Suc (foldr max (map (length \<circ> fst) (w_files w)) 0))"

definition walk_root :: "fim_lib \<Rightarrow> fim_Config \<Rightarrow> string \<Rightarrow> walk" where
  "walk_root lib config root s w =
     (case Lstat root w of
        (Inl _, w) \<Rightarrow> ((WalkDone, add_issue root ''unreadable'' s), w)
      | (Inr info, w) \<Rightarrow> walkDir lib config (walk_fuel w) root info s w)"

definition capture_root :: "fim_lib \<Rightarrow> fim_Config \<Rightarrow> string \<Rightarrow> walk" where
  "capture_root lib config root s w =
     (case Lstat root w of
        (Inl OsNotExist, w) \<Rightarrow> ((WalkDone, s), w)
      | (Inl _, w) \<Rightarrow> ((WalkDone, add_issue root ''unreadable'' s), w)
      | (Inr (NLink _), w) \<Rightarrow> ((WalkDone, add_issue root ''symlink_skipped'' s), w)
      | (Inr (NFile m c), w) \<Rightarrow> captureFile lib config root (NFile m c) s w
      | (Inr (NDir m), w) \<Rightarrow> walk_root lib config root s w
      | (Inr NSpecial, w) \<Rightarrow> ((WalkDone, add_issue root ''unsupported_file_type'' s), w))"

fun capture_roots :: "fim_lib \<Rightarrow> fim_Config \<Rightarrow> string list \<Rightarrow> walk" where
  "capture_roots lib config [] s w = ((WalkDone, s), w)"
| "capture_roots lib config (root # roots) s w =
     (case capture_root lib config root s w of
        ((WalkDone, s), w) \<Rightarrow> capture_roots lib config roots s w
      | ((FileLimit, s), w) \<Rightarrow> ((FileLimit, s\<lparr>ss_limited := True\<rparr>), w)
      | stop \<Rightarrow> stop)"

definition issue_key :: "scanIssue \<Rightarrow> string \<times> string" where
  "issue_key i = (si_Path i, si_Reason i)"

definition capture :: "fim_lib \<Rightarrow> fim_Config \<Rightarrow> (error, fim_snapshot) io" where
  "capture lib config w =
     (case capture_roots lib config (fc_Paths config) \<lparr>ss_entries = [], ss_issues = [], ss_limited = False\<rparr> w of
        ((OutOfFuel, _), w) \<Rightarrow> (Inl ''walk did not end'', w)
      | ((_, s), w) \<Rightarrow> (Inr (s\<lparr>ss_issues := sort_key issue_key (ss_issues s)\<rparr>), w))"

section \<open>Comparison\<close>

definition change_of :: "fim_entry option \<Rightarrow> fim_entry option \<Rightarrow> (string \<times> Severity) option" where
  "change_of before after =
     (case (before, after) of
        (None, None) \<Rightarrow> None
      | (None, Some _) \<Rightarrow> Some (''created'', SeverityMedium)
      | (Some _, None) \<Rightarrow> Some (''deleted'', SeverityHigh)
      | (Some b, Some a) \<Rightarrow>
          if fe_SHA256 b \<noteq> fe_SHA256 a \<or> fe_Size b \<noteq> fe_Size a
          then (if fe_Mode b \<noteq> fe_Mode a then Some (''content_and_mode_changed'', SeverityHigh)
                else Some (''content_changed'', SeverityHigh))
          else if fe_Mode b \<noteq> fe_Mode a then Some (''mode_changed'', SeverityHigh)
          else None)"

definition change_event ::
  "fim_lib \<Rightarrow> time \<Rightarrow> nat \<Rightarrow> string \<Rightarrow> fim_entry option \<Rightarrow> fim_entry option \<Rightarrow> string \<Rightarrow> Severity \<Rightarrow> Event" where
  "change_event lib now generation path before after change severity =
     fim_simpleEvent lib ''file.integrity.changed'' severity
       (''Protected file '' @ ReplaceChar (CHR ''_'') (CHR '' '') change) now generation
       ([(''path'', AStr path), (''change'', AStr change), (''read_only'', ABool True)]
        @ (case before of None \<Rightarrow> [] | Some b \<Rightarrow> [(''previous'', ARaw (fl_entry_json lib b))])
        @ (case after of None \<Rightarrow> [] | Some a \<Rightarrow> [(''current'', ARaw (fl_entry_json lib a))]))"

fun change_loop ::
  "fim_lib \<Rightarrow> fim_Config \<Rightarrow> (string, fim_entry) gomap \<Rightarrow> (string, fim_entry) gomap \<Rightarrow> time \<Rightarrow> nat
     \<Rightarrow> string list \<Rightarrow> nat \<Rightarrow> Event list \<Rightarrow> nat \<times> Event list" where
  "change_loop lib config previous current now generation [] totalChanges events = (totalChanges, events)"
| "change_loop lib config previous current now generation (path # paths) totalChanges events =
     (let before = map_of previous path; after = map_of current path
      in case change_of before after of
           None \<Rightarrow> change_loop lib config previous current now generation paths totalChanges events
         | Some (change, severity) \<Rightarrow>
             change_loop lib config previous current now generation paths (Suc totalChanges)
               (if fc_MaxEvents config \<le> int (length events) then events
                else events @ [change_event lib now generation path before after change severity]))"

definition changeEvents ::
  "fim_lib \<Rightarrow> fim_Config \<Rightarrow> (string, fim_entry) gomap \<Rightarrow> (string, fim_entry) gomap \<Rightarrow> time \<Rightarrow> nat \<Rightarrow> Event list" where
  "changeEvents lib config previous current now generation =
     (let paths = sort (keys previous @ filter (\<lambda>p. p \<notin> set (keys previous)) (keys current));
          (totalChanges, events) = change_loop lib config previous current now generation paths 0 []
      in if fc_MaxEvents config < int totalChanges
         then events @ [fim_simpleEvent lib ''file.integrity.change_overflow'' SeverityCritical
                ''File integrity changes exceeded the per-cycle event limit'' now generation
                [(''total_changes'', AInt (int totalChanges)), (''reported_changes'', AInt (fc_MaxEvents config)),
                 (''read_only'', ABool True)]]
         else events)"

definition inaccessible :: "string \<Rightarrow> scanIssue \<Rightarrow> bool" where
  "inaccessible path issue \<longleftrightarrow>
     si_Reason issue = ''unreadable''
     \<and> (path = Clean (si_Path issue) \<or> HasPrefix path (Clean (si_Path issue) @ [slash]))"

definition preserve_one ::
  "(string, fim_entry) gomap \<Rightarrow> scanIssue \<Rightarrow> (string, fim_entry) gomap \<Rightarrow> (string, fim_entry) gomap" where
  "preserve_one previous issue current =
     fold (\<lambda>(path, item) cur.
         if inaccessible path issue \<and> map_of cur path = None then AList.update path item cur else cur)
       previous current"

definition preserveInaccessible ::
  "(string, fim_entry) gomap \<Rightarrow> (string, fim_entry) gomap \<Rightarrow> scanIssue list \<Rightarrow> (string, fim_entry) gomap" where
  "preserveInaccessible previous current issues = fold (preserve_one previous) issues current"

section \<open>The baseline\<close>

fun check_entries :: "(string, fim_entry) gomap \<Rightarrow> error option" where
  "check_entries [] = None"
| "check_entries ((path, item) # items) =
     (if path \<noteq> fe_Path item \<or> \<not> IsAbs path \<or> Clean path \<noteq> path \<or> ContainsAny path control_chars
      then Some ''file integrity baseline contains an invalid path''
      else if fe_Size item < 0 \<or> 511 < fe_Mode item
      then Some ''file integrity baseline contains invalid metadata''
      else if fe_SHA256 item \<noteq> [] \<and> \<not> lower_sha256 (fe_SHA256 item)
      then Some ''file integrity baseline contains an invalid hash''
      else check_entries items)"

definition validateBaseline :: "int \<Rightarrow> baseline \<Rightarrow> error option" where
  "validateBaseline maxFiles b =
     (if bl_SchemaVersion b \<noteq> baselineSchemaVersion
      then Some (''unsupported file integrity baseline schema '' @ FormatInt (bl_SchemaVersion b))
      else if bl_Generation b = 0 then Some ''file integrity baseline generation is required''
      else case bl_Entries b of
        None \<Rightarrow> Some ''file integrity baseline has an invalid entry count''
      | Some items \<Rightarrow>
          if maxFiles < int (length items) then Some ''file integrity baseline has an invalid entry count''
          else check_entries items)"

definition fim_file :: "fim_lib \<Rightarrow> fim_Config \<Rightarrow> baseline state_file" where
  "fim_file lib config =
     \<lparr>sf_dir = JoinPath [fc_StateDir config, ''detectors''], sf_name = baselineFilename,
      sf_pre = ''.file-integrity-'', sf_max = 16777216,
      sf_not_small = ''file integrity baseline must be a small regular file'',
      sf_trailing = ''file integrity baseline contains trailing JSON'',
      sf_too_large = ''file integrity baseline exceeds size limit'',
      sf_stat_label = ''stat file integrity baseline: '', sf_open_label = ''open file integrity baseline: '',
      sf_decode_label = ''decode file integrity baseline: '', sf_encode_label = ''encode file integrity baseline: '',
      sf_mkdir_label = ''create detector state directory: '', sf_chmod_label = ''protect detector state directory: '',
      sf_create_label = ''create file integrity baseline: '', sf_replace_label = ''replace file integrity baseline: '',
      sf_decode = fl_decode lib, sf_marshal = fl_marshal lib, sf_validate = validateBaseline (fc_MaxFiles config)\<rparr>"

definition loadBaseline :: "fim_lib \<Rightarrow> fim_Config \<Rightarrow> (error, baseline option) io" where
  "loadBaseline lib config = load_state (fim_file lib config)"

definition saveBaseline :: "fim_lib \<Rightarrow> fim_Config \<Rightarrow> baseline \<Rightarrow> commit" where
  "saveBaseline lib config b = save_state (fim_file lib config) b"

section \<open>The scan\<close>

abbreviation base_entries :: "baseline option \<Rightarrow> (string, fim_entry) gomap" where
  "base_entries previous \<equiv> (case previous of None \<Rightarrow> [] | Some b \<Rightarrow> case_option [] id (bl_Entries b))"

abbreviation base_generation :: "baseline option \<Rightarrow> nat" where
  "base_generation previous \<equiv> case_option 0 bl_Generation previous"

abbreviation base_hash :: "baseline option \<Rightarrow> string" where
  "base_hash previous \<equiv> case_option [] bl_CoverageHash previous"

definition fim_coverage_change ::
  "fim_lib \<Rightarrow> time \<Rightarrow> baseline option \<Rightarrow> fim_snapshot \<Rightarrow> string \<Rightarrow> Event list" where
  "fim_coverage_change lib now previous current coverageHash =
     (if coverageHash = base_hash previous then []
      else if ss_issues current \<noteq> []
      then [fim_coverageEvent lib now (base_generation previous) (ss_issues current) False
              ''File integrity coverage is limited'' SeverityMedium]
      else if previous \<noteq> None \<and> base_hash previous \<noteq> []
      then [fim_simpleEvent lib ''file.integrity.coverage_restored'' SeverityInfo
              ''File integrity coverage was restored'' now (base_generation previous) [(''read_only'', ABool True)]]
      else [])"

text \<open>What \<open>Scan\<close> makes of a snapshot and a stored baseline: the events and the next baseline, which is
  \<^const>\<open>None\<close> when the commit does nothing.\<close>

definition fim_assess ::
  "fim_lib \<Rightarrow> fim_Config \<Rightarrow> time \<Rightarrow> fim_snapshot \<Rightarrow> baseline option \<Rightarrow> error + Event list \<times> baseline option" where
  "fim_assess lib config now current previous =
     (let coverageHash = hashIssues lib (ss_issues current) (ss_limited current)
      in if ss_limited current
         then Inr ([fim_coverageEvent lib now (base_generation previous) (ss_issues current) True
                      ''File integrity scan exceeded its configured file limit'' SeverityHigh], None)
         else
           let entries = (if previous = None then ss_entries current
                          else preserveInaccessible (base_entries previous) (ss_entries current) (ss_issues current))
           in if previous \<noteq> None \<and> base_generation previous = 2 ^ 64 - 1
              then Inl ''file integrity baseline generation is exhausted''
              else Inr
                ((if previous = None then []
                  else changeEvents lib config (base_entries previous) entries now (base_generation previous))
                 @ fim_coverage_change lib now previous current coverageHash,
                 Some \<lparr>bl_SchemaVersion = baselineSchemaVersion, bl_Generation = base_generation previous + 1,
                       bl_CoverageHash = coverageHash, bl_Entries = Some entries\<rparr>))"

definition fim_Scan :: "fim_lib \<Rightarrow> time \<Rightarrow> fim_Config \<Rightarrow> (error, Event list \<times> commit) io" where
  "fim_Scan lib now config =
     io_bind (capture lib config) (\<lambda>current.
     io_bind (loadBaseline lib config) (\<lambda>previous.
       case fim_assess lib config now current previous of
         Inl e \<Rightarrow> io_fail e
       | Inr (events, next_baseline) \<Rightarrow>
           io_return (events,
             case next_baseline of None \<Rightarrow> io_return () | Some b \<Rightarrow> saveBaseline lib config b)))"

end
