(* ===== verification/Go_Walk.thy ===== *)
theory Go_Walk
  imports Go_Files
begin

text \<open>
  Walking a directory tree: the paths of a file system in their shortest form, and \<open>filepath.WalkDir\<close> for a callback
  that never asks for less than the whole tree unless it stops the walk (\<open>fs.SkipAll\<close>). A directory that cannot be read is
  reported to the callback by its path. The walk takes fuel; \<open>WalkDir_ends\<close> shows that what \<open>WalkDir\<close> provides is enough.
\<close>

text \<open>A file system whose paths are written in their shortest form.\<close>

definition clean_path :: "string \<Rightarrow> bool" where
  "clean_path p \<longleftrightarrow> IsAbs p \<and> Clean p = p"

definition clean_world :: "world \<Rightarrow> bool" where
  "clean_world w \<longleftrightarrow> list_all (\<lambda>(p, _). clean_path p) (w_files w)"

definition longest :: "world \<Rightarrow> nat" where
  "longest w = foldr max (map (length \<circ> fst) (w_files w)) 0"

lemma longest_ge: "(p, x) \<in> set (w_files w) \<Longrightarrow> length p \<le> longest w"
proof -
  have "x \<in> set xs \<Longrightarrow> x \<le> foldr max xs 0" for x :: nat and xs by (induction xs) auto
  then show "(p, x) \<in> set (w_files w) \<Longrightarrow> ?thesis" unfolding longest_def by force
qed

lemma Clean_slash_slash: "Clean (slash # slash # s) = Clean (slash # s)"
proof -
  have "elems (slash # slash # s) = elems (slash # s)"
    by (simp add: elems_def clean_elems_def IsAbs_def HasPrefix_def)
  then show ?thesis by (simp add: Clean_def IsAbs_def HasPrefix_def)
qed

lemma dir_child:
  assumes "clean_world w" and "(p, x) \<in> set (w_files w)" and "dir_name dir p = Some name" and "dir \<noteq> []"
  shows "JoinPath [dir, name] = p \<and> length dir < length p"
proof -
  have clean: "Clean p = p" using assms(1,2) by (auto simp: clean_world_def clean_path_def list_all_iff)
  show ?thesis
  proof (cases "dir = ''/''")
    case True
    then have "p = slash # name" "name \<noteq> []" using assms(3) by (auto simp: dir_name.simps prefix_def Let_def split: if_splits)
    then show ?thesis using True clean Clean_slash_slash [of name] by (auto simp: JoinPath_def)
  next
    case False
    then have "p = dir @ slash # name" "name \<noteq> []"
      using assms(3) by (auto simp: dir_name.simps prefix_def Let_def split: if_splits)
    then show ?thesis using clean assms(4) by (simp add: JoinPath_def)
  qed
qed

section \<open>WalkDir\<close>

datatype walk_status = Walked | SkipAll | WalkNoFuel

type_synonym 's walker = "'s \<Rightarrow> world \<Rightarrow> (walk_status \<times> 's) \<times> world"

fun walk_at :: "(string \<Rightarrow> node \<Rightarrow> 's walker) \<Rightarrow> (string \<Rightarrow> 's \<Rightarrow> 's) \<Rightarrow> nat \<Rightarrow> string \<Rightarrow> node \<Rightarrow> 's walker"
  and walk_in :: "(string \<Rightarrow> node \<Rightarrow> 's walker) \<Rightarrow> (string \<Rightarrow> 's \<Rightarrow> 's) \<Rightarrow> nat \<Rightarrow> string \<Rightarrow> (string \<times> node) list \<Rightarrow> 's walker" where
  "walk_at callback failed 0 path item s w = ((WalkNoFuel, s), w)"
| "walk_at callback failed (Suc fuel) path item s w =
     (case callback path item s w of
        ((Walked, s), w) \<Rightarrow>
          if \<not> is_dir (Some item) then ((Walked, s), w)
          else (case ReadDir path w of
                  (Inl _, w) \<Rightarrow> ((Walked, failed path s), w)
                | (Inr items, w) \<Rightarrow> walk_in callback failed fuel path (sort_key fst items) s w)
      | stop \<Rightarrow> stop)"
| "walk_in callback failed fuel path [] s w = ((Walked, s), w)"
| "walk_in callback failed fuel path ((name, item) # items) s w =
     (case walk_at callback failed fuel (JoinPath [path, name]) item s w of
        ((Walked, s), w) \<Rightarrow> walk_in callback failed fuel path items s w
      | stop \<Rightarrow> stop)"

definition WalkDir :: "(string \<Rightarrow> node \<Rightarrow> 's walker) \<Rightarrow> (string \<Rightarrow> 's \<Rightarrow> 's) \<Rightarrow> string \<Rightarrow> 's walker" where
  "WalkDir callback failed root s w =
     (case Lstat root w of
        (Inl _, w) \<Rightarrow> ((Walked, failed root s), w)
      | (Inr info, w) \<Rightarrow> walk_at callback failed (Suc (Suc (longest w))) root info s w)"

text \<open>A callback that reads and does not run out of fuel itself.\<close>

definition reading :: "(string \<Rightarrow> node \<Rightarrow> 's walker) \<Rightarrow> bool" where
  "reading callback \<longleftrightarrow> (\<forall>path item s w e s' w'. callback path item s w = ((e, s'), w') \<longrightarrow>
     e \<noteq> WalkNoFuel \<and> w_files w' = w_files w)"

lemma readingD:
  "reading callback \<Longrightarrow> callback path item s w = ((e, s'), w') \<Longrightarrow> e \<noteq> WalkNoFuel \<and> w_files w' = w_files w"
  unfolding reading_def by blast

lemma walk_reads:
  "walk_at callback failed fuel path item s w = ((e, s'), w') \<Longrightarrow> reading callback \<Longrightarrow> w_files w' = w_files w"
  "walk_in callback failed fuel path items s w = ((e, s'), w') \<Longrightarrow> reading callback \<Longrightarrow> w_files w' = w_files w"
proof (induction callback failed fuel path item s w and callback failed fuel path items s w
    arbitrary: e s' w' and e s' w' rule: walk_at_walk_in.induct)
  case (2 callback failed fuel path item s w)
  obtain e1 s1 v where v: "callback path item s w = ((e1, s1), v)" by (metis prod.collapse)
  have files: "w_files v = w_files w" using readingD [OF "2.prems"(2) v] by simp
  show ?case
  proof (cases "e1 = Walked \<and> is_dir (Some item)")
    case True
    obtain r u where u: "ReadDir path v = (r, u)" by fastforce
    have files': "w_files u = w_files w" using reads_files(4) [OF u] files by simp
    show ?thesis
    proof (cases r)
      case (Inr items)
      have run: "walk_in callback failed fuel path (sort_key fst items) s1 u = ((e, s'), w')"
        using "2.prems"(1) v u True Inr by simp
      show ?thesis using "2.IH" [OF v [symmetric] refl _ _ u [symmetric] Inr run "2.prems"(2)] True files' by simp
    qed (use "2.prems"(1) v u True files' in auto)
  qed (use "2.prems"(1) v files in \<open>auto split: walk_status.splits\<close>)
next
  case (4 callback failed fuel path name item items s w)
  obtain e1 s1 v where v: "walk_at callback failed fuel (JoinPath [path, name]) item s w = ((e1, s1), v)" by (metis prod.collapse)
  have files: "w_files v = w_files w" using "4.IH"(1) [OF v "4.prems"(2)] .
  show ?case
  proof (cases "e1 = Walked")
    case True
    then have run: "walk_in callback failed fuel path items s1 v = ((e, s'), w')" using "4.prems"(1) v by simp
    show ?thesis using "4.IH"(2) [OF v [symmetric] refl True run "4.prems"(2)] files by simp
  qed (use "4.prems"(1) v files in \<open>auto split: walk_status.splits\<close>)
qed auto

lemma walk_fuel_enough:
  "walk_at callback failed fuel path item s w = ((e, s'), w') \<Longrightarrow> reading callback \<Longrightarrow> clean_world w \<Longrightarrow> path \<noteq> [] \<Longrightarrow>
     length path \<le> longest w \<Longrightarrow> longest w < length path + fuel \<Longrightarrow> e \<noteq> WalkNoFuel"
  "walk_in callback failed fuel path items s w = ((e, s'), w') \<Longrightarrow> reading callback \<Longrightarrow> clean_world w \<Longrightarrow> path \<noteq> [] \<Longrightarrow>
     longest w \<le> length path + fuel \<Longrightarrow>
     (\<forall>(name, item) \<in> set items. \<exists>p. (p, item) \<in> set (w_files w) \<and> dir_name path p = Some name) \<Longrightarrow> e \<noteq> WalkNoFuel"
proof (induction callback failed fuel path item s w and callback failed fuel path items s w
    arbitrary: e s' w' and e s' w' rule: walk_at_walk_in.induct)
  case (2 callback failed fuel path item s w)
  obtain e1 s1 v where v: "callback path item s w = ((e1, s1), v)" by (metis prod.collapse)
  have e1: "e1 \<noteq> WalkNoFuel" "w_files v = w_files w" using readingD [OF "2.prems"(2) v] by simp_all
  show ?case
  proof (cases "e1 = Walked \<and> is_dir (Some item)")
    case True
    obtain r u where u: "ReadDir path v = (r, u)" by fastforce
    have files: "w_files u = w_files w" using reads_files(4) [OF u] e1(2) by simp
    show ?thesis
    proof (cases r)
      case (Inr items)
      have run: "walk_in callback failed fuel path (sort_key fst items) s1 u = ((e, s'), w')"
        using "2.prems"(1) v u True Inr by simp
      have "\<forall>(name, item) \<in> set (sort_key fst items). \<exists>p. (p, item) \<in> set (w_files u) \<and> dir_name path p = Some name"
        using ReadDir_children u Inr e1(2) files by fastforce
      then show ?thesis
        using "2.IH" [OF v [symmetric] refl _ _ u [symmetric] Inr run "2.prems"(2)] True "2.prems"(3-6) files
        by (simp add: clean_world_def longest_def)
    qed (use "2.prems"(1) v u True in auto)
  qed (use "2.prems"(1) v e1(1) in \<open>auto split: walk_status.splits\<close>)
next
  case (4 callback failed fuel path name item items s w)
  obtain e1 s1 v where v: "walk_at callback failed fuel (JoinPath [path, name]) item s w = ((e1, s1), v)" by (metis prod.collapse)
  obtain p where p: "(p, item) \<in> set (w_files w)" "dir_name path p = Some name" using "4.prems"(6) by auto
  have child: "JoinPath [path, name] = p" "length path < length p"
    using dir_child [OF "4.prems"(3) p "4.prems"(4)] by simp_all
  have e1: "e1 \<noteq> WalkNoFuel"
    using "4.IH"(1) [OF v "4.prems"(2,3)] child longest_ge [OF p(1)] "4.prems"(5) by (cases p) auto
  have files: "w_files v = w_files w" using walk_reads(1) [OF v "4.prems"(2)] .
  show ?case
  proof (cases "e1 = Walked")
    case True
    then have run: "walk_in callback failed fuel path items s1 v = ((e, s'), w')" using "4.prems"(1) v by simp
    show ?thesis
      using "4.IH"(2) [OF v [symmetric] refl True run "4.prems"(2)] "4.prems"(3-6) files
      by (simp add: clean_world_def longest_def)
  qed (use "4.prems"(1) v e1 in \<open>auto split: walk_status.splits\<close>)
qed auto

lemma WalkDir_ends:
  assumes "WalkDir callback failed root s w = ((e, s'), w')" and "reading callback" and "clean_world w" and "root \<noteq> []"
  shows "e \<noteq> WalkNoFuel \<and> w_files w' = w_files w"
proof -
  obtain r v where l: "Lstat root w = (r, v)" by fastforce
  have v: "w_files v = w_files w" by (rule reads_files(1) [OF l])
  then have same: "clean_world v = clean_world w" "longest v = longest w" by (simp_all add: clean_world_def longest_def)
  show ?thesis
  proof (cases r)
    case (Inr info)
    then have run: "walk_at callback failed (Suc (Suc (longest v))) root info s v = ((e, s'), w')"
      using assms(1) l by (simp add: WalkDir_def)
    have "(root, info) \<in> set (w_files w)" using Lstat_Inr [of root w info v] l Inr map_of_SomeD by fastforce
    then have "length root \<le> longest v" using longest_ge same(2) by fastforce
    then have "e \<noteq> WalkNoFuel" using walk_fuel_enough(1) [OF run assms(2)] same(1) assms(3,4) by simp
    then show ?thesis using walk_reads(1) [OF run assms(2)] v by simp
  qed (use assms(1) l v in \<open>auto simp: WalkDir_def\<close>)
qed

lemma WalkDir_files:
  assumes "WalkDir callback failed root s w = ((e, s'), w')" and "reading callback"
  shows "w_files w' = w_files w"
proof -
  obtain r v where l: "Lstat root w = (r, v)" by fastforce
  have v: "w_files v = w_files w" by (rule reads_files(1) [OF l])
  show ?thesis
  proof (cases r)
    case (Inr info)
    then have "walk_at callback failed (Suc (Suc (longest v))) root info s v = ((e, s'), w')"
      using assms(1) l by (simp add: WalkDir_def)
    then show ?thesis using walk_reads(1) [OF _ assms(2)] v by metis
  qed (use assms(1) l v in \<open>auto simp: WalkDir_def\<close>)
qed

end
