(* ===== verification/File_Integrity_Props.thy ===== *)
theory File_Integrity_Props
  imports File_Integrity Go_Walk
begin

text \<open>
  What the file integrity detector guarantees: it reports exactly the changes, a commit makes the next
  scan quiet, a repeated scan repeats the same event identifiers, observing changes nothing, the walk
  ends and stays within its limits.
\<close>

section \<open>Observing changes nothing\<close>

lemma captureFile_files: "captureFile lib config path info s w = (r, w') \<Longrightarrow> w_files w' = w_files w"
  by (auto simp: captureFile_def hashFile_def io_bind_def io_return_def io_fail_def Let_def
      split: if_splits prod.splits sum.splits dest: reads_files)

lemma visit_files: "visit lib config path item s w = (r, w') \<Longrightarrow> w_files w' = w_files w"
  by (auto simp: visit_def split: if_splits prod.splits sum.splits dest!: reads_files captureFile_files)

lemma walk_files:
  "walkDir lib config fuel path item s w = (r, w') \<Longrightarrow> w_files w' = w_files w"
  "walk_entries lib config fuel path items s w = (r, w') \<Longrightarrow> w_files w' = w_files w"
proof (induction lib config fuel path item s w and lib config fuel path items s w
    arbitrary: r w' and r w' rule: walkDir_walk_entries.induct)
  case (2 lib config fuel path item s w)
  then show ?case
    by (auto split: prod.splits sum.splits walk_end.splits if_splits dest!: visit_files reads_files(4))
next
  case (4 lib config fuel path name item items s w)
  obtain e s' v where v: "walkDir lib config fuel (JoinPath [path, name]) item s w = ((e, s'), v)" by (metis prod.collapse)
  have same: "w_files v = w_files w" using "4.IH"(1) [OF v] .
  show ?case
  proof (cases e)
    case WalkDone
    then have rest: "walk_entries lib config fuel path items s' v = (r, w')" using "4.prems" v by simp
    have "w_files w' = w_files v" by (rule "4.IH"(2) [OF v [symmetric] refl WalkDone rest])
    then show ?thesis using same by simp
  qed (use "4.prems" v same in auto)
qed auto

lemma capture_root_files: "capture_root lib config root s w = (r, w') \<Longrightarrow> w_files w' = w_files w"
  by (auto simp: capture_root_def walk_root_def split: prod.splits sum.splits os_error.splits node.splits
      dest!: reads_files(1) captureFile_files walk_files(1))

lemma capture_roots_files: "capture_roots lib config roots s w = (r, w') \<Longrightarrow> w_files w' = w_files w"
proof (induction roots arbitrary: s w)
  case (Cons root roots)
  obtain e s' v where v: "capture_root lib config root s w = ((e, s'), v)" by (metis prod.collapse)
  show ?case using Cons.prems Cons.IH v capture_root_files [OF v] by (cases e) auto
qed simp

lemma capture_files: "capture lib config w = (r, w') \<Longrightarrow> w_files w' = w_files w"
  by (auto simp: capture_def split: prod.splits walk_end.splits dest!: capture_roots_files)

lemma fim_Scan_cases:
  assumes "fim_Scan lib now config w = (r, w')"
  obtains "\<exists>e. r = Inl e"
  | snap previous es nb v where "capture lib config w = (Inr snap, v)" "loadBaseline lib config v = (Inr previous, w')"
      "fim_assess lib config now snap previous = Inr (es, nb)"
      "r = Inr (es, case nb of None \<Rightarrow> io_return () | Some b \<Rightarrow> saveBaseline lib config b)"
  using assms by (cases r) (auto simp: fim_Scan_def io_outcomes)

lemma fim_Scan_files: "fim_Scan lib now config w = (r, w') \<Longrightarrow> w_files w' = w_files w"
  by (auto simp: fim_Scan_def io_bind_def loadBaseline_def io_return_def io_fail_def split: prod.splits sum.splits
      dest!: capture_files load_state_files)

definition fim_owns :: "fim_Config \<Rightarrow> string \<Rightarrow> bool" where
  "fim_owns config = own_path (fim_file undefined config)"

lemma own_path_lib: "own_path (fim_file lib config) = fim_owns config"
  unfolding fim_owns_def own_path_def by (simp add: fim_file_def sf_path_def fun_eq_iff)

lemma sf_path_lib: "sf_path (fim_file lib config) = sf_path (fim_file undefined config)"
  by (simp add: fim_file_def sf_path_def)

lemma fim_file_ok: "fc_StateDir config \<noteq> [] \<Longrightarrow> state_file_ok (fim_file lib config)"
  using JoinPath_name [of "''detectors''" "fc_StateDir config"]
  by (auto simp: state_file_ok_def fim_file_def baselineFilename_def name_elem_def)

interpretation fim: change_detector "fim_Scan lib now" "\<lambda>config. fc_StateDir config \<noteq> []" fim_owns
  "\<lambda>config. sf_path (fim_file undefined config)" for lib now
proof
  fix c w r w'
  show "fim_Scan lib now c w = (r, w') \<Longrightarrow> w_files w' = w_files w" by (rule fim_Scan_files)
next
  fix c w es k w'
  assume "fim_Scan lib now c w = (Inr (es, k), w')"
  then show "touches (fim_owns c) k"
    using touches_save_state [of "fim_file lib c"]
    by (auto elim!: fim_Scan_cases simp: saveBaseline_def own_path_lib touches_return split: option.splits)
next
  fix c w es k w' v e v'
  assume "fc_StateDir c \<noteq> []" "fim_Scan lib now c w = (Inr (es, k), w')" "k v = (Inl e, v')"
  then show "node_at v' (sf_path (fim_file undefined c)) = node_at v (sf_path (fim_file undefined c))"
    using save_state_Inl [OF fim_file_ok, of c lib] unfolding sf_path_lib [of lib, symmetric]
    by (auto elim!: fim_Scan_cases simp: saveBaseline_def split: option.splits)
qed

section \<open>Exactly the changes\<close>

text \<open>What counts as a change: presence, content (hash and size) or permissions.\<close>

definition facts :: "fim_entry \<Rightarrow> string \<times> int \<times> nat" where
  "facts e = (fe_SHA256 e, fe_Size e, fe_Mode e)"

lemma change_of_None: "change_of b a = None \<longleftrightarrow> map_option facts b = map_option facts a"
  by (auto simp: change_of_def facts_def split: option.splits)

definition reported :: "fim_lib \<Rightarrow> (string, fim_entry) gomap \<Rightarrow> (string, fim_entry) gomap \<Rightarrow> time \<Rightarrow> nat \<Rightarrow> string \<Rightarrow> Event" where
  "reported lib previous current now generation p =
     (case change_of (map_of previous p) (map_of current p) of
        Some (change, severity) \<Rightarrow>
          change_event lib now generation p (map_of previous p) (map_of current p) change severity
      | None \<Rightarrow> undefined)"

lemma change_loop_eq:
  fixes previous current
  defines "changed \<equiv> filter (\<lambda>p. change_of (map_of previous p) (map_of current p) \<noteq> None)"
  shows "0 \<le> fc_MaxEvents config \<Longrightarrow>
     change_loop lib config previous current now generation paths n es
       = (n + length (changed paths),
          es @ take (nat (fc_MaxEvents config - int (length es))) (map (reported lib previous current now generation) (changed paths)))"
proof (induction paths arbitrary: n es)
  case (Cons p paths)
  show ?case
  proof (cases "change_of (map_of previous p) (map_of current p)")
    case None
    then show ?thesis using Cons.IH [OF Cons.prems] by (simp add: changed_def)
  next
    case (Some x)
    obtain change severity where x: "x = (change, severity)" by (cases x) auto
    have "nat (fc_MaxEvents config - int (length es)) = Suc (nat (fc_MaxEvents config - int (Suc (length es))))"
      if "\<not> fc_MaxEvents config \<le> int (length es)"
      using that by simp
    then show ?thesis using Cons.IH [OF Cons.prems] Some x by (auto simp: changed_def reported_def Let_def)
  qed
qed (simp add: changed_def)

definition overflow_event :: "fim_lib \<Rightarrow> fim_Config \<Rightarrow> time \<Rightarrow> nat \<Rightarrow> nat \<Rightarrow> Event" where
  "overflow_event lib config now generation n =
     fim_simpleEvent lib ''file.integrity.change_overflow'' SeverityCritical
       ''File integrity changes exceeded the per-cycle event limit'' now generation
       [(''total_changes'', AInt (int n)), (''reported_changes'', AInt (fc_MaxEvents config)), (''read_only'', ABool True)]"

lemma changeEvents_eq:
  assumes "0 \<le> fc_MaxEvents config"
  shows "changeEvents lib config previous current now generation
     = (let changed = filter (\<lambda>p. change_of (map_of previous p) (map_of current p) \<noteq> None)
                        (sort (keys previous @ filter (\<lambda>p. p \<notin> set (keys previous)) (keys current)))
        in map (reported lib previous current now generation) (take (nat (fc_MaxEvents config)) changed)
           @ (if fc_MaxEvents config < int (length changed)
              then [overflow_event lib config now generation (length changed)] else []))"
  using assms by (simp add: changeEvents_def change_loop_eq overflow_event_def take_map Let_def)

text \<open>C33: the detector reports exactly the changes. The events are those of the paths whose entry appeared,
  disappeared or differs in hash, size or permissions, in the order of the paths, each path once; if
  there are more of them than the limit, the first ones are reported and one further event of the
  highest severity states how many there were.\<close>

theorem changeEvents_exact:
  assumes "0 \<le> fc_MaxEvents config" and "distinct (keys previous)" and "distinct (keys current)"
  shows "\<exists>changed. sorted_wrt (<) changed
           \<and> set changed = {p. map_option facts (map_of previous p) \<noteq> map_option facts (map_of current p)}
           \<and> changeEvents lib config previous current now generation
             = map (reported lib previous current now generation) (take (nat (fc_MaxEvents config)) changed)
               @ (if fc_MaxEvents config < int (length changed)
                  then [overflow_event lib config now generation (length changed)] else [])"
proof -
  let ?paths = "sort (keys previous @ filter (\<lambda>p. p \<notin> set (keys previous)) (keys current))"
  let ?changed = "filter (\<lambda>p. change_of (map_of previous p) (map_of current p) \<noteq> None) ?paths"
  have "distinct ?paths" using assms(2,3) by auto
  then have "sorted_wrt (<) ?changed"
    using sorted_filter [of id ?paths] by (simp add: strict_sorted_iff)
  moreover have "set ?changed = {p. map_option facts (map_of previous p) \<noteq> map_option facts (map_of current p)}"
  proof -
    have "p \<in> set (keys previous) \<or> p \<in> set (keys current)"
      if "change_of (map_of previous p) (map_of current p) \<noteq> None" for p
      using that by (metis change_of_None map_of_eq_None_iff set_map)
    then show ?thesis by (auto simp: change_of_None [symmetric])
  qed
  ultimately show ?thesis
    using changeEvents_eq [OF assms(1), of lib previous current now generation] unfolding Let_def by blast
qed

section \<open>Preserved entries\<close>

lemma preserve_one_lookup:
  "map_of (preserve_one previous issue current) p
     = (case map_of current p of Some e \<Rightarrow> Some e
        | None \<Rightarrow> if inaccessible p issue then map_of previous p else None)"
proof (induction previous arbitrary: current)
  case (Cons x previous)
  obtain path item where x: "x = (path, item)" by (cases x) auto
  have "map_of (preserve_one ((path, item) # previous) issue current) p
      = map_of (preserve_one previous issue
          (if inaccessible path issue \<and> map_of current path = None then AList.update path item current else current)) p"
    by (simp add: preserve_one_def)
  then show ?case using Cons.IH x by (auto split: option.splits)
qed (simp add: preserve_one_def split: option.splits)

lemma preserve_lookup:
  "map_of (preserveInaccessible previous current issues) p
     = (case map_of current p of Some e \<Rightarrow> Some e
        | None \<Rightarrow> if \<exists>i \<in> set issues. inaccessible p i then map_of previous p else None)"
proof (induction issues arbitrary: current)
  case (Cons i issues)
  have "map_of (preserveInaccessible previous current (i # issues)) p
      = map_of (preserveInaccessible previous (preserve_one previous i current) issues) p"
    by (simp add: preserveInaccessible_def)
  then show ?case using Cons.IH preserve_one_lookup [of previous i current p] by (auto split: option.splits)
qed (simp add: preserveInaccessible_def split: option.splits)

lemma preserve_again:
  "map_of (preserveInaccessible (preserveInaccessible previous current issues) current issues)
     = map_of (preserveInaccessible previous current issues)"
  by (rule ext) (simp add: preserve_lookup split: option.splits)

lemma preserve_self: "map_of (preserveInaccessible current current issues) = map_of current"
  by (rule ext) (simp add: preserve_lookup split: option.splits)

section \<open>The walk ends within its limits\<close>

lemma captureFile_ends: "captureFile lib config path info s w = ((e, s'), w') \<Longrightarrow> e \<noteq> OutOfFuel"
  by (auto simp: captureFile_def Let_def split: if_splits prod.splits sum.splits)

lemma visit_ends: "visit lib config path item s w = ((e, s'), w') \<Longrightarrow> e \<noteq> OutOfFuel"
  by (auto simp: visit_def split: if_splits prod.splits sum.splits dest: captureFile_ends)

lemma walk_ends:
  "walkDir lib config fuel path item s w = ((e, s'), w') \<Longrightarrow> clean_world w \<Longrightarrow> path \<noteq> [] \<Longrightarrow>
     length path \<le> longest w \<Longrightarrow> longest w < length path + fuel \<Longrightarrow> e \<noteq> OutOfFuel"
  "walk_entries lib config fuel path items s w = ((e, s'), w') \<Longrightarrow> clean_world w \<Longrightarrow> path \<noteq> [] \<Longrightarrow>
     longest w \<le> length path + fuel \<Longrightarrow>
     (\<forall>(name, item) \<in> set items. \<exists>p. (p, item) \<in> set (w_files w) \<and> dir_name path p = Some name) \<Longrightarrow> e \<noteq> OutOfFuel"
proof (induction lib config fuel path item s w and lib config fuel path items s w
    arbitrary: e s' w' and e s' w' rule: walkDir_walk_entries.induct)
  case (2 lib config fuel path item s w)
  obtain e1 s1 v where v: "visit lib config path item s w = ((e1, s1), v)" by (metis prod.collapse)
  have e1: "e1 \<noteq> OutOfFuel" using visit_ends [OF v] .
  have files: "w_files v = w_files w" using visit_files [OF v] .
  show ?case
  proof (cases "e1 = WalkDone \<and> is_dir (Some item)")
    case True
    obtain r u where u: "ReadDir path v = (r, u)" by fastforce
    have files': "w_files u = w_files w" using reads_files(4) [OF u] files by simp
    show ?thesis
    proof (cases r)
      case (Inr items)
      have run: "walk_entries lib config fuel path (sort_key fst items) s1 u = ((e, s'), w')"
        using "2.prems"(1) v u True Inr by simp
      have "\<forall>(name, item) \<in> set (sort_key fst items). \<exists>p. (p, item) \<in> set (w_files u) \<and> dir_name path p = Some name"
        using ReadDir_children u Inr files files' by fastforce
      then show ?thesis
        using "2.IH" [OF v [symmetric] refl _ _ u [symmetric] Inr run] True "2.prems"(2-5) files'
        by (simp add: clean_world_def longest_def)
    qed (use "2.prems"(1) v u True in auto)
  qed (use "2.prems"(1) v e1 in \<open>auto split: walk_end.splits\<close>)
next
  case (4 lib config fuel path name item items s w)
  obtain e1 s1 v where v: "walkDir lib config fuel (JoinPath [path, name]) item s w = ((e1, s1), v)" by (metis prod.collapse)
  obtain p where p: "(p, item) \<in> set (w_files w)" "dir_name path p = Some name" using "4.prems"(5) by auto
  have child: "JoinPath [path, name] = p" "length path < length p"
    using dir_child [OF "4.prems"(2) p "4.prems"(3)] by simp_all
  have e1: "e1 \<noteq> OutOfFuel"
    using "4.IH"(1) [OF v "4.prems"(2)] child longest_ge [OF p(1)] "4.prems"(4) by (cases p) auto
  have files: "w_files v = w_files w" using walk_files(1) [OF v] .
  show ?case
  proof (cases "e1 = WalkDone")
    case True
    then have run: "walk_entries lib config fuel path items s1 v = ((e, s'), w')" using "4.prems"(1) v by simp
    show ?thesis
      using "4.IH"(2) [OF v [symmetric] refl True run] "4.prems"(2-5) files
      by (simp add: clean_world_def longest_def)
  qed (use "4.prems"(1) v e1 in \<open>auto split: walk_end.splits\<close>)
qed auto

lemma capture_root_ends:
  assumes "capture_root lib config root s w = ((e, s'), w')" and "clean_world w" and "clean_path root"
  shows "e \<noteq> OutOfFuel"
proof -
  have root: "root \<noteq> []" using assms(3) by (auto simp: clean_path_def IsAbs_def HasPrefix_def)
  have walk: "e \<noteq> OutOfFuel" if "walkDir lib config (walk_fuel v) root info s v = ((e, s'), w')"
      "w_files v = w_files w" "node_at w root = Some info" for v info
  proof (rule walk_ends(1) [OF that(1) _ root])
    show "clean_world v" using assms(2) that(2) by (simp add: clean_world_def)
    show "length root \<le> longest v" using longest_ge [of root info w] map_of_SomeD [OF that(3)] that(2) by (simp add: longest_def)
    show "longest v < length root + walk_fuel v" by (simp add: walk_fuel_def longest_def)
  qed
  obtain r v where l: "Lstat root w = (r, v)" by fastforce
  have files: "w_files v = w_files w" using reads_files(1) [OF l] .
  show ?thesis
  proof (cases "\<exists>m. r = Inr (NDir m)")
    case True
    obtain r2 u where l2: "Lstat root v = (r2, u)" by fastforce
    have files2: "w_files u = w_files w" using reads_files(1) [OF l2] files by simp
    show ?thesis
    proof (cases r2)
      case (Inr info)
      then have "walkDir lib config (walk_fuel u) root info s u = ((e, s'), w')" "node_at w root = Some info"
        using assms(1) l True l2 Lstat_Inr [of root v info u] files
        by (auto simp: capture_root_def walk_root_def)
      then show ?thesis using walk files2 by blast
    qed (use assms(1) l True l2 in \<open>auto simp: capture_root_def walk_root_def\<close>)
  next
    case False
    then show ?thesis
      using assms(1) l by (auto simp: capture_root_def split: sum.splits os_error.splits node.splits dest: captureFile_ends)
  qed
qed

lemma capture_roots_end:
  assumes "capture_roots lib config roots s w = ((e, s'), w')" and "clean_world w" and "list_all clean_path roots"
  shows "e \<noteq> OutOfFuel"
  using assms
proof (induction roots arbitrary: s w)
  case (Cons root roots)
  obtain e1 s1 v where v: "capture_root lib config root s w = ((e1, s1), v)" by (metis prod.collapse)
  have "e1 \<noteq> OutOfFuel" using capture_root_ends [OF v Cons.prems(2)] Cons.prems(3) by simp
  moreover have "clean_world v" using Cons.prems(2) capture_root_files [OF v] by (simp add: clean_world_def)
  ultimately show ?case using Cons.IH [of s1 v] Cons.prems(1,3) v by (cases e1) auto
qed simp

section \<open>The number of entries\<close>

definition within :: "fim_Config \<Rightarrow> fim_snapshot \<Rightarrow> bool" where
  "within config s \<longleftrightarrow> int (length (ss_entries s)) \<le> fc_MaxFiles config \<and> distinct (keys (ss_entries s))"

lemma within_issue [simp]: "within config (add_issue p r s) = within config s"
  by (simp add: within_def add_issue_def)

lemma within_entry: "within config s \<Longrightarrow> int (length (ss_entries s)) < fc_MaxFiles config \<Longrightarrow> within config (add_entry e s)"
  using length_update [of "fe_Path e" e "ss_entries s"]
  by (auto simp: within_def add_entry_def distinct_keys_update)

lemma captureFile_within:
  "captureFile lib config path info s w = ((e, s'), w') \<Longrightarrow> within config s \<Longrightarrow> within config s'"
  by (auto simp: captureFile_def Let_def within_entry split: if_splits prod.splits sum.splits)

lemma visit_within: "visit lib config path item s w = ((e, s'), w') \<Longrightarrow> within config s \<Longrightarrow> within config s'"
  by (auto simp: visit_def split: if_splits prod.splits sum.splits dest: captureFile_within)

lemma walk_within:
  "walkDir lib config fuel path item s w = ((e, s'), w') \<Longrightarrow> within config s \<Longrightarrow> within config s'"
  "walk_entries lib config fuel path items s w = ((e, s'), w') \<Longrightarrow> within config s \<Longrightarrow> within config s'"
proof (induction lib config fuel path item s w and lib config fuel path items s w
    arbitrary: e s' w' and e s' w' rule: walkDir_walk_entries.induct)
  case (2 lib config fuel path item s w)
  obtain e1 s1 v where v: "visit lib config path item s w = ((e1, s1), v)" by (metis prod.collapse)
  have s1: "within config s1" using visit_within [OF v "2.prems"(2)] .
  obtain r u where u: "ReadDir path v = (r, u)" by fastforce
  show ?case
  proof (cases "e1 = WalkDone \<and> is_dir (Some item) \<and> \<not> isl r")
    case True
    then obtain items where Inr: "r = Inr items" by (cases r) auto
    have run: "walk_entries lib config fuel path (sort_key fst items) s1 u = ((e, s'), w')"
      using "2.prems"(1) v u True Inr by simp
    show ?thesis using "2.IH" [OF v [symmetric] refl _ _ u [symmetric] Inr run s1] True by simp
  next
    case False
    then show ?thesis using "2.prems"(1) v u s1 by (cases r; cases e1) (auto split: if_splits)
  qed
next
  case (4 lib config fuel path name item items s w)
  obtain e1 s1 v where v: "walkDir lib config fuel (JoinPath [path, name]) item s w = ((e1, s1), v)" by (metis prod.collapse)
  have s1: "within config s1" using "4.IH"(1) [OF v "4.prems"(2)] .
  show ?case
  proof (cases "e1 = WalkDone")
    case True
    then have run: "walk_entries lib config fuel path items s1 v = ((e, s'), w')" using "4.prems"(1) v by simp
    show ?thesis using "4.IH"(2) [OF v [symmetric] refl True run s1] .
  qed (use "4.prems"(1) v s1 in \<open>auto split: walk_end.splits\<close>)
qed auto

lemma capture_roots_within:
  "capture_roots lib config roots s w = ((e, s'), w') \<Longrightarrow> within config s \<Longrightarrow> within config s'"
proof (induction roots arbitrary: s w)
  case (Cons root roots)
  obtain e1 s1 v where v: "capture_root lib config root s w = ((e1, s1), v)" by (metis prod.collapse)
  have "within config s1"
    using v Cons.prems(2)
    by (auto simp: capture_root_def walk_root_def split: prod.splits sum.splits os_error.splits node.splits
        dest: captureFile_within walk_within(1))
  then show ?case using Cons.IH [of s1 v] Cons.prems(1) v by (cases e1) (auto simp: within_def)
qed simp

text \<open>C35: every scan ends, within its limits. On any file system whose paths are in their shortest form,
  for any watched roots in that form and whatever calls fail on the way, walking the roots returns a
  snapshot; it holds at most the configured number of files, each path once.\<close>

theorem capture_total_bounded:
  assumes "clean_world w" and "list_all clean_path (fc_Paths config)" and "0 \<le> fc_MaxFiles config"
  shows "\<exists>snap. fst (capture lib config w) = Inr snap
           \<and> int (length (ss_entries snap)) \<le> fc_MaxFiles config \<and> distinct (keys (ss_entries snap))"
proof -
  let ?start = "\<lparr>ss_entries = [], ss_issues = [], ss_limited = False\<rparr> :: fim_snapshot"
  obtain e s v where run: "capture_roots lib config (fc_Paths config) ?start w = ((e, s), v)" by (metis prod.collapse)
  have "e \<noteq> OutOfFuel" using capture_roots_end [OF run assms(1,2)] .
  moreover have "within config s" using capture_roots_within [OF run] assms(3) by (simp add: within_def)
  ultimately show ?thesis using run by (cases e) (auto simp: capture_def within_def)
qed

section \<open>Commits\<close>

lemma no_changes:
  assumes "0 \<le> fc_MaxEvents config" and "map_of previous = map_of current"
  shows "changeEvents lib config previous current now generation = []"
proof -
  have "change_of (map_of previous p) (map_of current p) = None" for p
    unfolding change_of_None assms(2) by simp
  then show ?thesis using changeEvents_eq [OF assms(1)] assms(1) by (simp add: Let_def)
qed

lemma fim_assess_quiet:
  assumes "0 \<le> fc_MaxEvents config" and "fim_assess lib config now snap previous = Inr (es, Some b)"
    and "bl_Generation b < 2 ^ 64 - 1"
  shows "\<exists>nb. fim_assess lib config now' snap (Some b) = Inr ([], nb)"
proof -
  let ?entries = "if previous = None then ss_entries snap
    else preserveInaccessible (base_entries previous) (ss_entries snap) (ss_issues snap)"
  have b: "bl_CoverageHash b = hashIssues lib (ss_issues snap) False" "bl_Entries b = Some ?entries" "\<not> ss_limited snap"
    using assms(2) by (auto simp: fim_assess_def Let_def split: if_splits)
  have "map_of (preserveInaccessible ?entries (ss_entries snap) (ss_issues snap)) = map_of ?entries"
    using preserve_again preserve_self by simp
  then have "changeEvents lib config ?entries (preserveInaccessible ?entries (ss_entries snap) (ss_issues snap)) now' (bl_Generation b) = []"
    using no_changes [OF assms(1)] by metis
  then show ?thesis using b assms(3) by (simp add: fim_assess_def Let_def fim_coverage_change_def)
qed


lemma reported_ID: "event_ID (reported lib previous current now generation p) = event_ID (reported lib previous current now' generation p)"
  if "change_of (map_of previous p) (map_of current p) \<noteq> None"
  using that by (auto simp: reported_def change_event_def fim_simpleEvent_def)

lemma changeEvents_IDs:
  assumes "0 \<le> fc_MaxEvents config"
  shows "map event_ID (changeEvents lib config previous current now generation)
       = map event_ID (changeEvents lib config previous current now' generation)"
proof -
  have "map event_ID (map (reported lib previous current now generation) ps)
      = map event_ID (map (reported lib previous current now' generation) ps)"
    if "set ps \<subseteq> {p. change_of (map_of previous p) (map_of current p) \<noteq> None}" for ps
    using that reported_ID by (induction ps) auto
  moreover have "set (take n (filter P xs)) \<subseteq> {x. P x}" for n P and xs :: "string list"
    by (auto dest: in_set_takeD)
  ultimately show ?thesis
    by (simp add: changeEvents_eq [OF assms] Let_def overflow_event_def fim_simpleEvent_def del: map_map)
qed

text \<open>A scan that was not committed is repeated faithfully. If the baseline has not moved and the files look
  the same, a second scan gives events with the same identifiers, in the same order, whatever the
  clock says: what the Agent queued before a failed commit is what it queues again, and the control
  plane, which keeps one event per identifier, stores it once.\<close>

theorem rescan_same_identifiers:
  assumes "0 \<le> fc_MaxEvents config"
    and "capture lib config w = (Inr snap, w1)" and "loadBaseline lib config w1 = (Inr previous, w2)"
    and "capture lib config u = (Inr snap, u1)" and "loadBaseline lib config u1 = (Inr previous, u2)"
    and "fim_Scan lib now config w = (Inr (es, k), w2)" and "fim_Scan lib now' config u = (Inr (es', k'), u2)"
  shows "map event_ID es' = map event_ID es"
proof -
  obtain nb nb' where "fim_assess lib config now snap previous = Inr (es, nb)"
      "fim_assess lib config now' snap previous = Inr (es', nb')"
    using assms(2-7) by (auto elim!: fim_Scan_cases)
  then show ?thesis
    using changeEvents_IDs [OF assms(1), of lib _ _ now _ now']
    by (auto simp: fim_assess_def fim_coverage_change_def fim_coverageEvent_def fim_simpleEvent_def Let_def
        split: if_splits)
qed

section \<open>A commit that cannot succeed\<close>

lemma capture_within:
  assumes "capture lib config w = (Inr snap, v)" and "0 \<le> fc_MaxFiles config"
  shows "within config snap"
proof -
  let ?start = "\<lparr>ss_entries = [], ss_issues = [], ss_limited = False\<rparr> :: fim_snapshot"
  obtain e s u where run: "capture_roots lib config (fc_Paths config) ?start w = ((e, s), u)" by (metis prod.collapse)
  have "within config s" using capture_roots_within [OF run] assms(2) by (simp add: within_def)
  then show ?thesis using assms(1) run by (cases e) (auto simp: capture_def within_def)
qed

lemma preserve_grows:
  assumes "distinct (keys current)" and "map_of current p = None" and "map_of previous p \<noteq> None"
    and "i \<in> set issues" and "inaccessible p i"
  shows "length current < length (preserveInaccessible previous current issues)"
proof -
  let ?all = "preserveInaccessible previous current issues"
  have "insert p (dom (map_of current)) \<subseteq> dom (map_of ?all)"
    using assms(3-5) by (auto simp: preserve_lookup split: option.splits)
  then have "card (insert p (dom (map_of current))) \<le> card (dom (map_of ?all))"
    by (intro card_mono finite_dom_map_of)
  moreover have "p \<notin> dom (map_of current)" using assms(2) by blast
  moreover have "card (dom (map_of current)) = length current"
    using distinct_card [OF assms(1)] by (simp add: dom_map_of_conv_image_fst)
  moreover have "card (dom (map_of ?all)) \<le> length ?all"
    using card_length [of "keys ?all"] by (simp add: dom_map_of_conv_image_fst)
  ultimately show ?thesis using finite_dom_map_of [of current] by simp
qed

text \<open>At the file limit one unreadable file stops the baseline. If a scan finds as many readable files as
  it may and an earlier entry has become unreadable, the entry kept for it makes the new baseline one
  too large for \<open>validateBaseline\<close>: the commit fails in every state of the file system, so the cycle of the
  Agent ends before it reaches the control plane, again and again, until the file is readable.\<close>

theorem preserved_entry_blocks_commit:
  assumes "capture lib config w = (Inr snap, v)" and "loadBaseline lib config v = (Inr (Some previous), w')"
    and "fim_Scan lib now config w = (Inr (es, k), w')"
    and "\<not> ss_limited snap" and "int (length (ss_entries snap)) = fc_MaxFiles config"
    and "map_of (ss_entries snap) p = None" and "map_of (base_entries (Some previous)) p \<noteq> None"
    and "i \<in> set (ss_issues snap)" and "inaccessible p i"
  shows "k u = (Inl ''file integrity baseline has an invalid entry count'', u)"
proof -
  have "0 \<le> fc_MaxFiles config" using assms(5) by linarith
  then have "distinct (keys (ss_entries snap))" using capture_within [OF assms(1)] by (simp add: within_def)
  from preserve_grows [OF this assms(6-9)]
  have large: "fc_MaxFiles config < int (length (preserveInaccessible (base_entries (Some previous)) (ss_entries snap) (ss_issues snap)))"
    using assms(5) by linarith
  obtain b where "k = saveBaseline lib config b" "bl_SchemaVersion b = baselineSchemaVersion" "bl_Generation b \<noteq> 0"
      "bl_Entries b = Some (preserveInaccessible (base_entries (Some previous)) (ss_entries snap) (ss_issues snap))"
    using assms(1-4) by (auto elim!: fim_Scan_cases simp: fim_assess_def Let_def split: if_splits)
  then show ?thesis
    using large by (simp add: saveBaseline_def save_state_def fim_file_def validateBaseline_def io_fail_def)
qed

section \<open>Instances\<close>

definition fim_sample_entry :: "string \<Rightarrow> string \<Rightarrow> fim_entry" where
  "fim_sample_entry p c = \<lparr>fe_Path = p, fe_SHA256 = EncodeToString (c @ replicate 31 (CHR ''h'')), fe_Size = 1, fe_Mode = 420\<rparr>"

definition fim_sample_baseline :: baseline where
  "fim_sample_baseline = \<lparr>bl_SchemaVersion = 1, bl_Generation = 1, bl_CoverageHash = [],
     bl_Entries = Some [(''/w/a'', fim_sample_entry ''/w/a'' ''x'')]\<rparr>"

definition fim_sample_lib :: fim_lib where
  "fim_sample_lib = \<lparr>fl_sha256 = (\<lambda>s. take 32 (s @ replicate 32 (CHR ''h''))), fl_entry_json = fe_SHA256,
     fl_issues_json = (\<lambda>_. []), fl_event_json = (\<lambda>kind n ev. kind), fl_coverage_json = (\<lambda>_ _. ''c''),
     fl_marshal = (\<lambda>b. if b = fim_sample_baseline then Inr ''1'' else Inl []),
     fl_decode = (\<lambda>s. case s of [] \<Rightarrow> Inl [] | c # cs \<Rightarrow> Inr (fim_sample_baseline, cs))\<rparr>"

definition fim_sample_config :: fim_Config where
  "fim_sample_config = \<lparr>fc_StateDir = ''/s'', fc_Paths = [''/w''], fc_MaxFiles = 1, fc_MaxFileSize = 9, fc_MaxEvents = 9\<rparr>"

definition fim_world :: "(string, node) gomap \<Rightarrow> fault list \<Rightarrow> world" where
  "fim_world files faults = \<lparr>w_files = (''/'', NDir 493) # (''/s'', NDir 448) # (''/w'', NDir 493) # files,
     w_faults = faults, w_rand = [''r''], w_cwd = ''/''\<rparr>"

definition fim_stored :: "(string, node) gomap" where
  "fim_stored = [(''/s/detectors/file-integrity-baseline.json'', NFile 384 [CHR ''1'', byte 10])]"

lemma fim_sample_path: "sf_path (fim_file fim_sample_lib fim_sample_config) = ''/s/detectors/file-integrity-baseline.json''"
proof -
  have "JoinPath [JoinPath [''/s'', ''detectors''], baselineFilename] = ''/s/detectors/file-integrity-baseline.json''" by code_simp
  then show ?thesis by (simp add: sf_path_def fim_file_def fim_sample_config_def)
qed

lemma fim_sample_codec: "state_codec_ok (fim_file fim_sample_lib fim_sample_config)"
  by (auto simp: state_codec_ok_def fim_file_def fim_sample_lib_def split: if_splits)

theorem changeEvents_exact_witness:
  "\<exists>changed. set changed = {p. map_option facts (map_of [(''/a'', fim_sample_entry ''/a'' ''x'')] p) \<noteq> map_option facts (map_of [] p)}
     \<and> changeEvents fim_sample_lib fim_sample_config [(''/a'', fim_sample_entry ''/a'' ''x'')] [] 5 1
       = map (reported fim_sample_lib [(''/a'', fim_sample_entry ''/a'' ''x'')] [] 5 1) (take (nat 9) changed)
         @ (if 9 < int (length changed) then [overflow_event fim_sample_lib fim_sample_config 5 1 (length changed)] else [])"
proof -
  have max: "fc_MaxEvents fim_sample_config = 9" by (simp add: fim_sample_config_def)
  have "distinct (keys [(''/a'', fim_sample_entry ''/a'' ''x'')])" "distinct (keys ([] :: (string, fim_entry) gomap))" by simp_all
  moreover have "0 \<le> fc_MaxEvents fim_sample_config" using max by simp
  ultimately show ?thesis
    using changeEvents_exact [of fim_sample_config "[(''/a'', fim_sample_entry ''/a'' ''x'')]" "[]" fim_sample_lib 5 1]
    unfolding max by blast
qed

theorem capture_total_bounded_witness:
  "\<exists>snap. fst (capture fim_sample_lib fim_sample_config (fim_world [(''/w/a'', NFile 420 ''x'')] [Pass, Fail ''io'' 0])) = Inr snap
     \<and> int (length (ss_entries snap)) \<le> fc_MaxFiles fim_sample_config \<and> distinct (keys (ss_entries snap))"
  by (rule capture_total_bounded; code_simp)

definition fim_snap :: fim_snapshot where
  "fim_snap = \<lparr>ss_entries = [(''/w/a'', fim_sample_entry ''/w/a'' ''x'')], ss_issues = [], ss_limited = False\<rparr>"

lemma fim_sample_capture:
  "capture fim_sample_lib fim_sample_config (fim_world [(''/w/a'', NFile 420 ''x'')] [])
     = (Inr fim_snap, fim_world [(''/w/a'', NFile 420 ''x'')] [])"
  by code_simp

lemma fim_sample_assess:
  "fim_assess fim_sample_lib fim_sample_config now fim_snap None = Inr ([], Some fim_sample_baseline)"
  by (simp add: fim_assess_def fim_snap_def hashIssues_def fim_coverage_change_def fim_sample_baseline_def baselineSchemaVersion_def)

lemma fim_sample_scan:
  "fim_Scan fim_sample_lib now fim_sample_config (fim_world [(''/w/a'', NFile 420 ''x'')] [])
     = (Inr ([], saveBaseline fim_sample_lib fim_sample_config fim_sample_baseline), fim_world [(''/w/a'', NFile 420 ''x'')] [])"
proof -
  have "loadBaseline fim_sample_lib fim_sample_config (fim_world [(''/w/a'', NFile 420 ''x'')] [])
      = (Inr None, fim_world [(''/w/a'', NFile 420 ''x'')] [])"
    by (simp add: loadBaseline_def load_state_def fim_sample_path io_try_def Lstat_def fim_world_def sys_no_fault io_return_def)
  then show ?thesis by (simp add: fim_Scan_def io_bind_def fim_sample_capture fim_sample_assess io_return_def)
qed

text \<open>The world after the commit.\<close>

definition fim_committed :: world where
  "fim_committed = (fim_world [(''/w/a'', NFile 420 ''x''), (''/s/detectors'', NDir 448),
     (''/s/detectors/file-integrity-baseline.json'', NFile 384 [CHR ''1'', byte 10])] [])\<lparr>w_rand := []\<rparr>"

lemma fim_sample_commit:
  "saveBaseline fim_sample_lib fim_sample_config fim_sample_baseline (fim_world [(''/w/a'', NFile 420 ''x'')] []) = (Inr (), fim_committed)"
proof -
  have valid: "validateBaseline 1 fim_sample_baseline = None" by code_simp
  have dir: "JoinPath [''/s'', ''detectors''] = ''/s/detectors''" by code_simp
  have sel: "sf_dir (fim_file fim_sample_lib fim_sample_config) = JoinPath [''/s'', ''detectors'']"
    "sf_pre (fim_file fim_sample_lib fim_sample_config) = ''.file-integrity-''"
    "sf_max (fim_file fim_sample_lib fim_sample_config) = 16777216"
    "sf_marshal (fim_file fim_sample_lib fim_sample_config) fim_sample_baseline = Inr ''1''"
    "sf_validate (fim_file fim_sample_lib fim_sample_config) = validateBaseline 1"
    by (simp_all add: fim_file_def fim_sample_config_def fim_sample_lib_def)
  have run: "io_then (os_label l1 (MkdirAll ''/s/detectors'' 448))
                   (io_then (os_label l2 (ChmodFile ''/s/detectors'' 448))
                     (replace_labelled l3 l4 ''/s/detectors'' ''.file-integrity-'' ''.tmp''
                        ''/s/detectors/file-integrity-baseline.json'' [CHR ''1'', byte 10] 384))
      (fim_world [(''/w/a'', NFile 420 ''x'')] []) = (Inr (), fim_committed)" for l1 l2 l3 l4
    by code_simp
  show ?thesis
    using run valid by (simp add: saveBaseline_def save_state_def fim_sample_path sel dir)
qed

lemma fim_capture_committed:
  "capture fim_sample_lib fim_sample_config fim_committed = (Inr fim_snap, fim_committed)"
  by code_simp

lemma fim_committed_stored: "stored_state (fim_file fim_sample_lib fim_sample_config) fim_committed = Some fim_sample_baseline"
  by (rule save_state_stored [OF fim_sample_codec]) (use fim_sample_commit in \<open>simp add: saveBaseline_def\<close>)


text \<open>A file whose content has changed since the commit.\<close>

definition fim_changed :: "fault list \<Rightarrow> world" where
  "fim_changed faults = fim_world ((''/w/a'', NFile 420 ''y'') # (''/s/detectors'', NDir 448) # fim_stored) faults"

lemma fim_changed_load:
  "loadBaseline fim_sample_lib fim_sample_config (fim_changed []) = (Inr (Some fim_sample_baseline), fim_changed [])"
proof -
  have "w_faults (fim_changed []) = []" "stored_state (fim_file fim_sample_lib fim_sample_config) (fim_changed []) = Some fim_sample_baseline"
    using fim_committed_stored
    by (simp_all add: fim_changed_def fim_world_def stored_state_def fim_sample_path fim_stored_def fim_committed_def)
  then show ?thesis using load_state_no_fault by (simp add: loadBaseline_def)
qed

definition fim_snap_changed :: fim_snapshot where
  "fim_snap_changed = fim_snap\<lparr>ss_entries := [(''/w/a'', fim_sample_entry ''/w/a'' ''y'')]\<rparr>"

lemma fim_changed_capture:
  "capture fim_sample_lib fim_sample_config (fim_changed []) = (Inr fim_snap_changed, fim_changed [])"
  by code_simp

lemma fim_changed_scan:
  "\<exists>es k. es \<noteq> [] \<and> fim_Scan fim_sample_lib now fim_sample_config (fim_changed []) = (Inr (es, k), fim_changed [])"
proof -
  have "changeEvents fim_sample_lib fim_sample_config [(''/w/a'', fim_sample_entry ''/w/a'' ''x'')]
      (preserveInaccessible [(''/w/a'', fim_sample_entry ''/w/a'' ''x'')] [(''/w/a'', fim_sample_entry ''/w/a'' ''y'')] []) now 1 \<noteq> []"
    by (simp add: changeEvents_def preserveInaccessible_def fim_sample_config_def change_of_def fim_sample_entry_def
        EncodeToString_def Let_def) code_simp
  then show ?thesis
    by (simp add: fim_Scan_def io_bind_def fim_changed_capture fim_changed_load fim_assess_def Let_def fim_snap_changed_def
        fim_snap_def fim_sample_baseline_def io_return_def)
qed

theorem rescan_same_identifiers_witness:
  "\<exists>es es' k k'. es \<noteq> [] \<and> fim_Scan fim_sample_lib 5 fim_sample_config (fim_changed []) = (Inr (es, k), fim_changed [])
     \<and> fim_Scan fim_sample_lib 6 fim_sample_config (fim_changed []) = (Inr (es', k'), fim_changed [])
     \<and> map event_ID es' = map event_ID es"
proof -
  obtain es k where 1: "es \<noteq> []" "fim_Scan fim_sample_lib 5 fim_sample_config (fim_changed []) = (Inr (es, k), fim_changed [])"
    using fim_changed_scan by blast
  obtain es' k' where 2: "fim_Scan fim_sample_lib 6 fim_sample_config (fim_changed []) = (Inr (es', k'), fim_changed [])"
    using fim_changed_scan by blast
  have "0 \<le> fc_MaxEvents fim_sample_config" by (simp add: fim_sample_config_def)
  from rescan_same_identifiers [OF this fim_changed_capture fim_changed_load fim_changed_capture fim_changed_load 1(2) 2]
  show ?thesis using 1 2 by blast
qed

text \<open>At the limit of one file: a new readable file next to the unreadable one of the baseline. The faults let
  the walk reach \<open>/w/a\<close>, fail its reading and pass everything after.\<close>

definition fim_limit_world :: "fault list \<Rightarrow> world" where
  "fim_limit_world faults = fim_world ((''/w/a'', NFile 0 ''x'') # (''/w/b'', NFile 420 ''y'') # (''/s/detectors'', NDir 448) # fim_stored) faults"

definition fim_limit_snap :: fim_snapshot where
  "fim_limit_snap = \<lparr>ss_entries = [(''/w/b'', fim_sample_entry ''/w/b'' ''y'')],
     ss_issues = [\<lparr>si_Path = ''/w/a'', si_Reason = ''unreadable''\<rparr>], ss_limited = False\<rparr>"

lemma fim_limit_capture:
  "capture fim_sample_lib fim_sample_config (fim_limit_world [Pass, Pass, Pass, Pass, Fail ''permission denied'' 0])
     = (Inr fim_limit_snap, fim_limit_world [])"
  by code_simp

lemma fim_limit_load:
  "loadBaseline fim_sample_lib fim_sample_config (fim_limit_world []) = (Inr (Some fim_sample_baseline), fim_limit_world [])"
proof -
  have "w_faults (fim_limit_world []) = []" "stored_state (fim_file fim_sample_lib fim_sample_config) (fim_limit_world []) = Some fim_sample_baseline"
    using fim_committed_stored
    by (simp_all add: fim_limit_world_def fim_world_def stored_state_def fim_sample_path fim_stored_def fim_committed_def)
  then show ?thesis using load_state_no_fault by (simp add: loadBaseline_def)
qed

theorem preserved_entry_blocks_commit_witness:
  "\<exists>es k. fst (fim_Scan fim_sample_lib 5 fim_sample_config
       (fim_limit_world [Pass, Pass, Pass, Pass, Fail ''permission denied'' 0])) = Inr (es, k)
     \<and> k (fim_limit_world []) = (Inl ''file integrity baseline has an invalid entry count'', fim_limit_world [])"
proof -
  obtain es k where scan: "fim_Scan fim_sample_lib 5 fim_sample_config
       (fim_limit_world [Pass, Pass, Pass, Pass, Fail ''permission denied'' 0]) = (Inr (es, k), fim_limit_world [])"
    by (simp add: fim_Scan_def io_bind_def fim_limit_capture fim_limit_load fim_assess_def Let_def fim_limit_snap_def
        fim_sample_baseline_def io_return_def)
  have "inaccessible ''/w/a'' \<lparr>si_Path = ''/w/a'', si_Reason = ''unreadable''\<rparr>" by code_simp
  then have "k (fim_limit_world []) = (Inl ''file integrity baseline has an invalid entry count'', fim_limit_world [])"
    by (intro preserved_entry_blocks_commit [OF fim_limit_capture fim_limit_load scan, where p = "''/w/a''"
          and i = "\<lparr>si_Path = ''/w/a'', si_Reason = ''unreadable''\<rparr>"])
      (simp_all add: fim_limit_snap_def fim_sample_config_def fim_sample_baseline_def)
  then show ?thesis using scan by (intro exI [of _ es] exI [of _ k]) simp
qed

end
