(* ===== verification/Go_Text.thy ===== *)
theory Go_Text
  imports Go_Base
begin

text \<open>
  Reading text line by line and word by word: \<open>bufio.Scanner\<close>, \<open>strings.Fields\<close>, \<open>strings.CutPrefix\<close>.
\<close>

definition CutPrefix :: "string \<Rightarrow> string \<Rightarrow> string option" where
  "CutPrefix s p = (if prefix p s then Some (drop (length p) s) else None)"

text \<open>\<open>strings.Fields\<close>: the maximal runs without white space. \<open>word\<close> is the current run, reversed.\<close>

definition flush_word :: "string \<Rightarrow> string list \<Rightarrow> string list" where
  "flush_word word words = (if word = [] then words else rev word # words)"

fun fields_from :: "string \<Rightarrow> string \<Rightarrow> string list" where
  "fields_from word (a # b # c # s) =
     (if ascii_space a then flush_word word (fields_from [] (b # c # s))
      else if space2 a b then flush_word word (fields_from [] (c # s))
      else if space3 a b c then flush_word word (fields_from [] s)
      else fields_from (a # word) (b # c # s))"
| "fields_from word [a, b] =
     (if ascii_space a then flush_word word (fields_from [] [b])
      else if space2 a b then flush_word word []
      else fields_from (a # word) [b])"
| "fields_from word [a] = (if ascii_space a then flush_word word [] else flush_word (a # word) [])"
| "fields_from word [] = flush_word word []"

definition Fields :: "string \<Rightarrow> string list" where
  "Fields s = fields_from [] s"

text \<open>The tokens of \<open>bufio.Scanner\<close> with \<open>ScanLines\<close>: the lines without their line feed and one carriage return
  before it. The first line that does not fit the buffer of \<open>maxTokenSize\<close> bytes ends the scan.\<close>

definition maxTokenSize :: nat where "maxTokenSize = 65536"

definition drop_cr :: "string \<Rightarrow> string" where
  "drop_cr line = (if line \<noteq> [] \<and> last line = byte 13 then butlast line else line)"

definition scan_lines :: "string \<Rightarrow> string list" where
  "scan_lines s =
     (let ls = SplitChar (byte 10) s; ls = (if last ls = [] then butlast ls else ls)
      in map drop_cr (takeWhile (\<lambda>l. length l < maxTokenSize) ls))"

text \<open>The scan with its maximum as an argument, and whether a line that does not fit ended it.\<close>

definition scan_lines_max :: "nat \<Rightarrow> string \<Rightarrow> string list \<times> bool" where
  "scan_lines_max most s =
     (let ls = SplitChar (byte 10) s; ls = (if last ls = [] then butlast ls else ls)
      in (map drop_cr (takeWhile (\<lambda>l. length l < most) ls), list_ex (\<lambda>l. most \<le> length l) ls))"

text \<open>The runes of a byte sequence as \<open>utf8.DecodeRune\<close> counts them: the well-formed sequences of two to four
  bytes, and every other byte by itself.\<close>

definition byte_in :: "nat \<Rightarrow> nat \<Rightarrow> char \<Rightarrow> bool" where
  "byte_in lo hi c \<longleftrightarrow> lo \<le> (of_char c :: nat) \<and> (of_char c :: nat) \<le> hi"

definition rune2 :: "char \<Rightarrow> char \<Rightarrow> bool" where
  "rune2 a b \<longleftrightarrow> byte_in 194 223 a \<and> byte_in 128 191 b"

definition rune3 :: "char \<Rightarrow> char \<Rightarrow> char \<Rightarrow> bool" where
  "rune3 a b c \<longleftrightarrow> byte_in 128 191 c
     \<and> (byte_in 224 224 a \<and> byte_in 160 191 b \<or> byte_in 237 237 a \<and> byte_in 128 159 b
        \<or> byte_in 225 239 a \<and> \<not> byte_in 237 237 a \<and> byte_in 128 191 b)"

definition rune4 :: "char \<Rightarrow> char \<Rightarrow> char \<Rightarrow> char \<Rightarrow> bool" where
  "rune4 a b c d \<longleftrightarrow> byte_in 128 191 c \<and> byte_in 128 191 d
     \<and> (byte_in 240 240 a \<and> byte_in 144 191 b \<or> byte_in 244 244 a \<and> byte_in 128 143 b
        \<or> byte_in 241 243 a \<and> byte_in 128 191 b)"

fun RuneCount :: "string \<Rightarrow> nat" where
  "RuneCount [] = 0"
| "RuneCount [a] = 1"
| "RuneCount [a, b] = (if rune2 a b then 1 else Suc (RuneCount [b]))"
| "RuneCount [a, b, c] =
     (if rune2 a b then Suc (RuneCount [c]) else if rune3 a b c then 1 else Suc (RuneCount [b, c]))"
| "RuneCount (a # b # c # d # s) =
     (if rune2 a b then Suc (RuneCount (c # d # s)) else if rune3 a b c then Suc (RuneCount (d # s))
      else if rune4 a b c d then Suc (RuneCount s) else Suc (RuneCount (b # c # d # s)))"

lemma fields_nonempty: "x \<in> set (fields_from word s) \<Longrightarrow> x \<noteq> []"
  by (induction word s rule: fields_from.induct) (auto simp: flush_word_def split: if_splits)

lemma scan_lines_no_newline: "l \<in> set (scan_lines s) \<Longrightarrow> byte 10 \<notin> set l"
proof -
  assume "l \<in> set (scan_lines s)"
  then obtain x where x: "l = drop_cr x" "x \<in> set (SplitChar (byte 10) s)"
    by (auto simp: scan_lines_def Let_def dest!: set_takeWhileD in_set_butlastD split: if_splits)
  have "\<forall>e \<in> set (SplitChar (byte 10) s). byte 10 \<notin> set e"
    by (induction s) (auto split: list.splits if_splits)
  then show ?thesis using x by (auto simp: drop_cr_def dest: in_set_butlastD split: if_splits)
qed

end
