(* ===== verification/Runtime_Watch.thy ===== *)
theory Runtime_Watch
  imports Detector_Base Go_Text "HOL-Library.Product_Lexorder"
begin

text \<open>
  internal/detector/runtimewatch/runtimewatch.go: the detector of new processes and listening sockets. It
  reads the process file system, compares with the processes, names and ports of its stored state and
  returns events and a commit that stores the next state.

  SHA-256 and the JSON encodings are the fields of \<open>rw_lib\<close>. A symbolic link under the process file
  system is a node of the modelled file system. The context is never cancelled.
\<close>

record processEntry =
  pe_Identity :: string
  pe_Name :: string
  pe_UID :: nat
  pe_Executable :: string
  pe_LastSeen :: nat

record portEntry =
  po_Key :: string
  po_Family :: string
  po_Port :: int
  po_Scope :: string
  po_Protocol :: string

record rw_state =
  rs_SchemaVersion :: int
  rs_Generation :: nat
  rs_CoverageHash :: string
  rs_Known :: "(string, processEntry) gomap option"
  rs_Names :: "(string, string) gomap option"
  rs_Ports :: "(string, portEntry) gomap option"

record rw_issue =
  ri_Area :: string
  ri_Reason :: string

record captureResult =
  cr_processes :: "(string, processEntry) gomap"
  cr_ports :: "(string, portEntry) gomap"
  cr_processComplete :: bool
  cr_familyComplete :: "(string, bool) gomap"
  cr_issues :: "rw_issue list"

record rw_lib =
  rl_sha256 :: "string \<Rightarrow> string"
  rl_issues_json :: "rw_issue list \<Rightarrow> string"
  rl_marshal :: "rw_state \<Rightarrow> error + string"
  rl_decode :: "string \<Rightarrow> error + rw_state \<times> string"

record rw_Config =
  rw_StateDir :: string
  rw_ProcRoot :: string
  rw_MaxProcesses :: int
  rw_MaxKnown :: int
  rw_MaxEvents :: int
  rw_MaxPorts :: int

definition rw_New :: "rw_Config \<Rightarrow> (error, rw_Config) io" where
  "rw_New config =
     (if TrimSpace (rw_StateDir config) = [] then io_fail ''runtime watch state directory is required''
      else io_bind (os_label ''resolve runtime watch state directory: '' (AbsPath (rw_StateDir config))) (\<lambda>stateDir.
        io_bind (os_label ''resolve proc root: ''
            (AbsPath (if rw_ProcRoot config = [] then ''/proc'' else rw_ProcRoot config))) (\<lambda>procRoot.
        let maxProcesses = (if rw_MaxProcesses config = 0 then 20000 else rw_MaxProcesses config);
            maxKnown = (if rw_MaxKnown config = 0 then 50000 else rw_MaxKnown config);
            maxEvents = (if rw_MaxEvents config = 0 then 500 else rw_MaxEvents config);
            maxPorts = (if rw_MaxPorts config = 0 then 100000 else rw_MaxPorts config)
        in if maxProcesses < 1 \<or> 200000 < maxProcesses
           then io_fail ''runtime watch max processes must be between 1 and 200000''
           else if maxKnown < maxProcesses \<or> 500000 < maxKnown
           then io_fail ''runtime watch max known processes must cover max processes and not exceed 500000''
           else if maxEvents < 1 \<or> 5000 < maxEvents
           then io_fail ''runtime watch max events must be between 1 and 5000''
           else if maxPorts < 1 \<or> 1000000 < maxPorts
           then io_fail ''runtime watch max ports must be between 1 and 1000000''
           else io_return \<lparr>rw_StateDir = stateDir, rw_ProcRoot = procRoot, rw_MaxProcesses = maxProcesses,
                           rw_MaxKnown = maxKnown, rw_MaxEvents = maxEvents, rw_MaxPorts = maxPorts\<rparr>)))"

section \<open>Events\<close>

definition runtimeEvent ::
  "rw_lib \<Rightarrow> string \<Rightarrow> Severity \<Rightarrow> string \<Rightarrow> time \<Rightarrow> nat \<Rightarrow> string \<Rightarrow> (string \<times> goany) list \<Rightarrow> Event" where
  "runtimeEvent lib kind severity summary now generation key evidence =
     \<lparr>event_ID = ''evt_run_'' @ EncodeToString (take 12 (rl_sha256 lib
         (kind @ [byte 0] @ FormatNat generation @ [byte 0] @ key))),
      event_AgentID = [], event_Kind = kind, event_Severity = severity, event_Summary = summary,
      event_OccurredAt = now, event_ReceivedAt = zero_time, event_Evidence = Some evidence\<rparr>"

definition suspiciousExecutable :: "string \<Rightarrow> bool" where
  "suspiciousExecutable path =
     (let clean = TrimSuffix path '' (deleted)''
      in if list_ex (HasPrefix clean) [''/tmp/'', ''/var/tmp/'', ''/dev/shm/''] then True
         else HasSuffix path '' (deleted)'')"

definition executable_evidence :: "processEntry \<Rightarrow> (string \<times> goany) list" where
  "executable_evidence process =
     (if pe_Executable process \<noteq> [] then [(''executable'', AStr (pe_Executable process))] else [])"

definition processEvent :: "rw_lib \<Rightarrow> processEntry \<Rightarrow> time \<Rightarrow> nat \<Rightarrow> string \<Rightarrow> Event" where
  "processEvent lib process now generation key =
     runtimeEvent lib ''runtime.process.first_seen''
       (if suspiciousExecutable (pe_Executable process) then SeverityHigh
        else if pe_UID process = 0 then SeverityMedium else SeverityLow)
       ''A previously unseen process identity is running'' now generation (key @ '':'' @ pe_Identity process)
       ([(''name'', AStr (pe_Name process)), (''uid'', AInt (int (pe_UID process))), (''read_only'', ABool True)]
        @ executable_evidence process)"

definition processDriftEvent :: "rw_lib \<Rightarrow> processEntry \<Rightarrow> string \<Rightarrow> time \<Rightarrow> nat \<Rightarrow> Event" where
  "processDriftEvent lib process previousIdentity now generation =
     runtimeEvent lib ''runtime.process.identity_changed'' SeverityHigh
       ''A process name is now backed by a different executable identity'' now generation
       (pe_Identity process @ '':'' @ previousIdentity)
       ([(''name'', AStr (pe_Name process)), (''uid'', AInt (int (pe_UID process))),
         (''previous_identity'', AStr previousIdentity), (''current_identity'', AStr (pe_Identity process)),
         (''read_only'', ABool True)]
        @ executable_evidence process)"

definition portEvent :: "rw_lib \<Rightarrow> portEntry \<Rightarrow> bool \<Rightarrow> time \<Rightarrow> nat \<Rightarrow> Event" where
  "portEvent lib port opened now generation =
     (let change = (if opened then ''opened'' else ''closed'')
      in runtimeEvent lib (if opened then ''runtime.port.opened'' else ''runtime.port.closed'')
           (if \<not> opened then SeverityInfo
            else if po_Scope port = ''wildcard'' \<or> po_Scope port = ''specific'' then SeverityHigh else SeverityMedium)
           (if opened then ''A new TCP listening socket opened'' else ''A TCP listening socket closed'')
           now generation (po_Key port @ '':'' @ change)
           [(''protocol'', AStr (po_Protocol port)), (''family'', AStr (po_Family port)), (''port'', AInt (po_Port port)),
            (''scope'', AStr (po_Scope port)), (''change'', AStr change), (''read_only'', ABool True)])"

definition appendBounded :: "Event list \<Rightarrow> int \<Rightarrow> Event \<Rightarrow> Event list" where
  "appendBounded events limit event = (if int (length events) < limit then events @ [event] else events)"

definition rw_coverageEvidence :: "rw_lib \<Rightarrow> rw_issue list \<Rightarrow> (string \<times> goany) list" where
  "rw_coverageEvidence lib issues =
     [(''issue_count'', AInt (int (length issues))), (''issues'', ARaw (rl_issues_json lib (take 20 issues))),
      (''read_only'', ABool True)]"

definition rw_hashValue :: "rw_lib \<Rightarrow> rw_issue list \<Rightarrow> string" where
  "rw_hashValue lib issues =
     (let encoded = rl_issues_json lib issues
      in if encoded = ''[]'' \<or> encoded = ''null'' then [] else EncodeToString (rl_sha256 lib encoded))"

section \<open>Reading the process file system\<close>

definition Readlink :: "string \<Rightarrow> (os_error, string) io" where
  "Readlink p = sys (\<lambda>w.
     (case node_at w p of
        None \<Rightarrow> Inl OsNotExist
      | Some (NLink targ) \<Rightarrow> Inr targ
      | Some _ \<Rightarrow> Inl (OsOther ''invalid argument''), w))"

definition validExecutable :: "string \<Rightarrow> bool" where
  "validExecutable path \<longleftrightarrow> length path \<le> 512 \<and> \<not> ContainsAny path control_chars"

definition validProcessName :: "string \<Rightarrow> bool" where
  "validProcessName name \<longleftrightarrow> name \<noteq> [] \<and> length name \<le> 128 \<and> \<not> ContainsAny name control_chars"

definition rw_numeric :: "string \<Rightarrow> bool" where
  "rw_numeric s \<longleftrightarrow> s \<noteq> [] \<and> list_all dec_digit s"

definition rw_maxStatusBytes :: nat where "rw_maxStatusBytes = 65536"
definition rw_maxSocketTableBytes :: nat where "rw_maxSocketTableBytes = 33554432"

text \<open>The loop over the lines of a status file: the last name and the last readable user identifier win.\<close>

fun status_loop :: "string list \<Rightarrow> string \<Rightarrow> nat option \<Rightarrow> string \<times> nat option" where
  "status_loop [] name uid = (name, uid)"
| "status_loop (line # ls) name uid =
     status_loop ls
       (case CutPrefix line (''Name:'' @ [byte 9]) of Some v \<Rightarrow> TrimSpace v | None \<Rightarrow> name)
       (case CutPrefix line (''Uid:'' @ [byte 9]) of
          None \<Rightarrow> uid
        | Some v \<Rightarrow>
            (case Fields v of
               [] \<Rightarrow> uid
             | f # _ \<Rightarrow> (case ParseUint f 10 32 of Some n \<Rightarrow> Some n | None \<Rightarrow> uid)))"

definition readProcess :: "rw_lib \<Rightarrow> rw_Config \<Rightarrow> string \<Rightarrow> world \<Rightarrow> processEntry option \<times> world" where
  "readProcess lib config pid w =
     (case ReadFile (JoinPath [rw_ProcRoot config, pid, ''status'']) w of
        (Inl _, w) \<Rightarrow> (None, w)
      | (Inr content, w) \<Rightarrow>
          (case status_loop (scan_lines (take rw_maxStatusBytes content)) [] None of
             (name, None) \<Rightarrow> (None, w)
           | (name, Some uid) \<Rightarrow>
               if \<not> validProcessName name then (None, w)
               else (case Readlink (JoinPath [rw_ProcRoot config, pid, ''exe'']) w of (r, w) \<Rightarrow>
                 let executable = (case r of Inr targ \<Rightarrow> if validExecutable targ then targ else [] | Inl _ \<Rightarrow> []);
                     material = (if executable = [] then ''name:'' @ name else executable);
                     identity = EncodeToString (rl_sha256 lib (FormatNat uid @ [byte 0] @ material))
                 in (Some \<lparr>pe_Identity = identity, pe_Name = name, pe_UID = uid, pe_Executable = executable,
                           pe_LastSeen = 0\<rparr>, w))))"

definition addressScope :: "string \<Rightarrow> string \<Rightarrow> string" where
  "addressScope address family =
     (if Trim address ''0'' = [] then ''wildcard''
      else if family = ''tcp4'' \<and> length address = 8 \<and> HasSuffix address ''00007F'' then ''loopback''
      else if family = ''tcp6'' \<and> (address = ''00000000000000000000000001000000''
               \<or> address = ''00000000000000000000000000000001'') then ''loopback''
      else ''specific'')"

text \<open>A line of a socket table that describes a listening socket.\<close>

definition listening_port :: "string \<Rightarrow> string \<Rightarrow> portEntry option" where
  "listening_port family line =
     (let fs = Fields line
      in if length fs < 4 \<or> fs ! 3 \<noteq> ''0A'' then None
         else case CutChar (CHR '':'') (fs ! 1) of
           None \<Rightarrow> None
         | Some (address, rawPort) \<Rightarrow>
             (case ParseUint rawPort 16 16 of
                None \<Rightarrow> None
              | Some portValue \<Rightarrow>
                  if portValue = 0 then None
                  else let address = ToUpper address;
                           key = family @ ''|'' @ address @ ''|'' @ FormatNat portValue
                       in Some \<lparr>po_Key = key, po_Family = family, po_Port = int portValue,
                                po_Scope = addressScope address family, po_Protocol = ''tcp''\<rparr>))"

fun port_loop ::
  "string \<Rightarrow> int \<Rightarrow> string list \<Rightarrow> (string, portEntry) gomap \<Rightarrow> (string, portEntry) gomap \<times> bool" where
  "port_loop family limit [] result = (result, False)"
| "port_loop family limit (line # ls) result =
     (case listening_port family line of
        None \<Rightarrow> port_loop family limit ls result
      | Some port \<Rightarrow>
          (let result = AList.update (po_Key port) port result
           in if limit \<le> int (length result) then (result, True) else port_loop family limit ls result))"

definition parseListeningPorts :: "string \<Rightarrow> string \<Rightarrow> int \<Rightarrow> (string, portEntry) gomap \<times> bool" where
  "parseListeningPorts content family limit = port_loop family limit (scan_lines content) []"

definition readLimitedFile :: "string \<Rightarrow> nat \<Rightarrow> (os_error, string) io" where
  "readLimitedFile path limit =
     io_bind (ReadFile path) (\<lambda>content.
       if limit < length content then io_fail (OsOther ''proc socket table exceeds size limit'') else io_return content)"

definition rw_add_issue :: "string \<Rightarrow> string \<Rightarrow> captureResult \<Rightarrow> captureResult" where
  "rw_add_issue area reason c = c\<lparr>cr_issues := cr_issues c @ [\<lparr>ri_Area = area, ri_Reason = reason\<rparr>]\<rparr>"

fun process_loop ::
  "rw_lib \<Rightarrow> rw_Config \<Rightarrow> (string \<times> node) list \<Rightarrow> nat \<Rightarrow> captureResult \<Rightarrow> world \<Rightarrow> captureResult \<times> world" where
  "process_loop lib config [] processCount c w = (c, w)"
| "process_loop lib config ((name, item) # items) processCount c w =
     (if \<not> is_dir (Some item) \<or> \<not> rw_numeric name then process_loop lib config items processCount c w
      else if rw_MaxProcesses config < int (Suc processCount)
      then (rw_add_issue ''processes'' ''process_limit_exceeded'' (c\<lparr>cr_processComplete := False\<rparr>), w)
      else case readProcess lib config name w of
             (None, w) \<Rightarrow> process_loop lib config items (Suc processCount) c w
           | (Some process, w) \<Rightarrow>
               process_loop lib config items (Suc processCount)
                 (c\<lparr>cr_processes := AList.update (pe_Identity process) process (cr_processes c)\<rparr>) w)"

definition capture_processes :: "rw_lib \<Rightarrow> rw_Config \<Rightarrow> captureResult \<Rightarrow> world \<Rightarrow> captureResult \<times> world" where
  "capture_processes lib config c w =
     (case ReadDir (rw_ProcRoot config) w of
        (Inl _, w) \<Rightarrow> (rw_add_issue ''processes'' ''proc_unreadable'' c, w)
      | (Inr items, w) \<Rightarrow>
          process_loop lib config (sort_key fst items) 0 (c\<lparr>cr_processComplete := True\<rparr>) w)"

definition capture_family ::
  "rw_Config \<Rightarrow> string \<Rightarrow> string \<Rightarrow> captureResult \<Rightarrow> world \<Rightarrow> captureResult \<times> world" where
  "capture_family config family path c w =
     (case readLimitedFile path rw_maxSocketTableBytes w of
        (Inl e, w) \<Rightarrow>
          if e = OsNotExist \<and> family = ''tcp6''
          then (c\<lparr>cr_familyComplete := AList.update family True (cr_familyComplete c)\<rparr>, w)
          else (rw_add_issue family ''socket_table_unreadable'' c, w)
      | (Inr content, w) \<Rightarrow>
          (case parseListeningPorts content family (rw_MaxPorts config) of (ports, limited) \<Rightarrow>
             let c = c\<lparr>cr_familyComplete := AList.update family (\<not> limited) (cr_familyComplete c)\<rparr>;
                 c = (if limited then rw_add_issue family ''socket_limit_exceeded'' c else c)
             in (c\<lparr>cr_ports := fold (\<lambda>(key, port) m. AList.update key port m) ports (cr_ports c)\<rparr>, w)))"

definition rw_capture :: "rw_lib \<Rightarrow> rw_Config \<Rightarrow> world \<Rightarrow> captureResult \<times> world" where
  "rw_capture lib config w =
     (case capture_processes lib config
             \<lparr>cr_processes = [], cr_ports = [], cr_processComplete = False, cr_familyComplete = [], cr_issues = []\<rparr> w of
        (c, w) \<Rightarrow>
          (case capture_family config ''tcp4'' (JoinPath [rw_ProcRoot config, ''net'', ''tcp'']) c w of
             (c, w) \<Rightarrow> capture_family config ''tcp6'' (JoinPath [rw_ProcRoot config, ''net'', ''tcp6'']) c w))"

section \<open>State\<close>

text \<open>A lookup in a map of processes, with the zero value for a missing key.\<close>

definition lookup_process :: "(string, processEntry) gomap \<Rightarrow> string \<Rightarrow> processEntry" where
  "lookup_process m identity =
     (case map_of m identity of
        Some process \<Rightarrow> process
      | None \<Rightarrow> \<lparr>pe_Identity = [], pe_Name = [], pe_UID = 0, pe_Executable = [], pe_LastSeen = 0\<rparr>)"

fun check_known :: "(string, processEntry) gomap \<Rightarrow> bool" where
  "check_known [] = True"
| "check_known ((identity, process) # ps) =
     (identity = pe_Identity process \<and> lower_sha256 identity \<and> validProcessName (pe_Name process)
      \<and> pe_LastSeen process \<noteq> 0 \<and> validExecutable (pe_Executable process) \<and> check_known ps)"

definition check_port :: "string \<Rightarrow> portEntry \<Rightarrow> bool" where
  "check_port key port \<longleftrightarrow>
     key = po_Key port \<and> po_Protocol port = ''tcp'' \<and> (po_Family port = ''tcp4'' \<or> po_Family port = ''tcp6'')
     \<and> 1 \<le> po_Port port \<and> po_Port port \<le> 65535
     \<and> (po_Scope port = ''wildcard'' \<or> po_Scope port = ''loopback'' \<or> po_Scope port = ''specific'')"

definition rw_validateState :: "int \<Rightarrow> rw_state \<Rightarrow> error option" where
  "rw_validateState maxKnown s =
     (if rs_SchemaVersion s \<noteq> 1 \<or> rs_Generation s = 0
      then Some ''runtime watch state has an unsupported schema or generation''
      else case (rs_Known s, rs_Names s, rs_Ports s) of
        (Some known, Some names, Some ports) \<Rightarrow>
          if maxKnown < int (length known) then Some ''runtime watch state has invalid collections''
          else if \<not> check_known known then Some ''runtime watch state has an invalid process''
          else if \<not> list_all (\<lambda>(_, identity). lower_sha256 identity
                     \<and> pe_Identity (lookup_process known identity) \<noteq> []) names
          then Some ''runtime watch state has an invalid process name index''
          else if \<not> list_all (\<lambda>(key, port). check_port key port) ports
          then Some ''runtime watch state has an invalid port''
          else None
      | _ \<Rightarrow> Some ''runtime watch state has invalid collections'')"

definition rw_file :: "rw_lib \<Rightarrow> rw_Config \<Rightarrow> rw_state state_file" where
  "rw_file lib config =
     \<lparr>sf_dir = JoinPath [rw_StateDir config, ''detectors''], sf_name = ''runtime-watch-state.json'',
      sf_pre = ''.runtime-watch-'', sf_max = 16777216,
      sf_not_small = ''runtime watch state must be a small regular file'',
      sf_trailing = ''runtime watch state contains trailing JSON'',
      sf_too_large = ''runtime watch state exceeds size limit'',
      sf_stat_label = [], sf_open_label = [], sf_decode_label = ''decode runtime watch state: '',
      sf_encode_label = [], sf_mkdir_label = [], sf_chmod_label = [], sf_create_label = [], sf_replace_label = [],
      sf_decode = rl_decode lib, sf_marshal = rl_marshal lib, sf_validate = rw_validateState (rw_MaxKnown config)\<rparr>"

definition rw_loadState :: "rw_lib \<Rightarrow> rw_Config \<Rightarrow> (error, rw_state option) io" where
  "rw_loadState lib config = load_state (rw_file lib config)"

definition rw_saveState :: "rw_lib \<Rightarrow> rw_Config \<Rightarrow> rw_state \<Rightarrow> commit" where
  "rw_saveState lib config s = save_state (rw_file lib config) s"

text \<open>\<open>pruneKnown\<close>: while there are too many, forget the inactive process seen longest ago.\<close>

fun prune_loop :: "string list \<Rightarrow> int \<Rightarrow> (string, processEntry) gomap \<Rightarrow> (string, processEntry) gomap" where
  "prune_loop [] limit known = known"
| "prune_loop (c # cs) limit known =
     (if int (length known) \<le> limit then known else prune_loop cs limit (AList.delete c known))"

definition pruneKnown ::
  "(string, processEntry) gomap \<Rightarrow> (string, processEntry) gomap \<Rightarrow> int \<Rightarrow> (string, processEntry) gomap" where
  "pruneKnown known current limit =
     (if int (length known) \<le> limit then known
      else prune_loop
        (map fst (sort_key (\<lambda>(identity, process). (pe_LastSeen process, identity))
           (filter (\<lambda>(identity, _). map_of current identity = None) known)))
        limit known)"

definition unionKeys :: "(string, portEntry) gomap \<Rightarrow> (string, portEntry) gomap \<Rightarrow> string list" where
  "unionKeys left right = sort (keys left @ filter (\<lambda>k. k \<notin> set (keys left)) (keys right))"

section \<open>The scan\<close>

definition name_key :: "processEntry \<Rightarrow> string" where
  "name_key process = FormatNat (pe_UID process) @ '':'' @ pe_Name process"

text \<open>One turn of the loop over the captured processes: events, known processes, current names.\<close>

definition note_process ::
  "rw_lib \<Rightarrow> rw_Config \<Rightarrow> time \<Rightarrow> rw_state option \<Rightarrow> nat \<Rightarrow> string \<times> processEntry
     \<Rightarrow> Event list \<times> (string, processEntry) gomap \<times> (string, string) gomap
     \<Rightarrow> Event list \<times> (string, processEntry) gomap \<times> (string, string) gomap" where
  "note_process lib config now previous nextGeneration ip acc =
     (case (ip, acc) of ((identity, process), (events, known, names)) \<Rightarrow>
        let process = process\<lparr>pe_LastSeen := nextGeneration\<rparr>;
            events = (case previous of
                None \<Rightarrow> events
              | Some p \<Rightarrow>
                  if map_of (case_option [] id (rs_Known p)) identity = None
                  then appendBounded events (rw_MaxEvents config)
                         (processEvent lib process now (rs_Generation p) ''first_seen'')
                  else events);
            known = AList.update identity process known;
            names = (case map_of names (name_key process) of
                       Some selected \<Rightarrow> if identity < selected then AList.update (name_key process) identity names else names
                     | None \<Rightarrow> AList.update (name_key process) identity names)
        in (events, known, names))"

definition drift_events ::
  "rw_lib \<Rightarrow> rw_Config \<Rightarrow> time \<Rightarrow> rw_state \<Rightarrow> captureResult \<Rightarrow> (string, string) gomap \<Rightarrow> Event list \<Rightarrow> Event list" where
  "drift_events lib config now p captured currentNames events =
     fold (\<lambda>(nameKey, identity) events.
         case map_of (case_option [] id (rs_Names p)) nameKey of
           None \<Rightarrow> events
         | Some oldIdentity \<Rightarrow>
             if oldIdentity \<noteq> [] \<and> oldIdentity \<noteq> identity
             then appendBounded events (rw_MaxEvents config)
                    (processDriftEvent lib (lookup_process (cr_processes captured) identity) oldIdentity now (rs_Generation p))
             else events)
       currentNames events"

definition kept_ports :: "captureResult \<Rightarrow> (string, portEntry) gomap \<Rightarrow> (string, portEntry) gomap" where
  "kept_ports captured previousPorts =
     fold (\<lambda>family ports.
         if map_of (cr_familyComplete captured) family = Some True then ports
         else fold (\<lambda>(key, port) m. if po_Family port = family then AList.update key port m else m) previousPorts ports)
       [''tcp4'', ''tcp6''] (cr_ports captured)"

definition port_change ::
  "rw_lib \<Rightarrow> time \<Rightarrow> nat \<Rightarrow> (string, portEntry) gomap \<Rightarrow> (string, portEntry) gomap \<Rightarrow> string \<Rightarrow> Event option" where
  "port_change lib now generation previousPorts ports key =
     (case (map_of previousPorts key, map_of ports key) of
        (None, Some after) \<Rightarrow> Some (portEvent lib after True now generation)
      | (Some before, None) \<Rightarrow> Some (portEvent lib before False now generation)
      | _ \<Rightarrow> None)"

definition port_events ::
  "rw_lib \<Rightarrow> rw_Config \<Rightarrow> time \<Rightarrow> nat \<Rightarrow> (string, portEntry) gomap \<Rightarrow> (string, portEntry) gomap \<Rightarrow> Event list \<Rightarrow> Event list" where
  "port_events lib config now generation previousPorts ports events =
     fold (\<lambda>key events.
         case port_change lib now generation previousPorts ports key of
           None \<Rightarrow> events | Some e \<Rightarrow> appendBounded events (rw_MaxEvents config) e)
       (unionKeys previousPorts ports) events"

definition rw_coverage_events ::
  "rw_lib \<Rightarrow> rw_Config \<Rightarrow> time \<Rightarrow> rw_state option \<Rightarrow> rw_issue list \<Rightarrow> string \<Rightarrow> Event list \<Rightarrow> Event list" where
  "rw_coverage_events lib config now previous issues coverageHash events =
     (let generation = case_option 0 rs_Generation previous; oldHash = case_option [] rs_CoverageHash previous
      in if coverageHash = oldHash then events
         else if issues \<noteq> []
         then appendBounded events (rw_MaxEvents config + 1)
                (runtimeEvent lib ''runtime.coverage_limited'' SeverityMedium
                   ''Runtime process or port coverage is limited'' now generation (''coverage:'' @ coverageHash)
                   (rw_coverageEvidence lib issues))
         else if previous \<noteq> None \<and> oldHash \<noteq> []
         then appendBounded events (rw_MaxEvents config + 1)
                (runtimeEvent lib ''runtime.coverage_restored'' SeverityInfo
                   ''Runtime process and port coverage was restored'' now generation ''coverage-restored''
                   [(''read_only'', ABool True)])
         else events)"

definition rw_issue_key :: "rw_issue \<Rightarrow> string \<times> string" where
  "rw_issue_key i = (ri_Area i, ri_Reason i)"

text \<open>The collections of a stored state, empty when there is none.\<close>

definition old_known :: "rw_state option \<Rightarrow> (string, processEntry) gomap" where
  "old_known previous = (case previous of None \<Rightarrow> [] | Some p \<Rightarrow> case_option [] id (rs_Known p))"

definition old_names :: "rw_state option \<Rightarrow> (string, string) gomap" where
  "old_names previous = (case previous of None \<Rightarrow> [] | Some p \<Rightarrow> case_option [] id (rs_Names p))"

definition old_ports :: "rw_state option \<Rightarrow> (string, portEntry) gomap" where
  "old_ports previous = (case previous of None \<Rightarrow> [] | Some p \<Rightarrow> case_option [] id (rs_Ports p))"

definition process_changes ::
  "rw_lib \<Rightarrow> rw_Config \<Rightarrow> time \<Rightarrow> rw_state option \<Rightarrow> captureResult
     \<Rightarrow> Event list \<times> (string, processEntry) gomap \<times> (string, string) gomap" where
  "process_changes lib config now previous captured =
     (if cr_processComplete captured
      then (case fold (note_process lib config now previous (case_option 0 rs_Generation previous + 1))
                   (cr_processes captured) ([], old_known previous, []) of
              (events, known, currentNames) \<Rightarrow>
                ((case previous of None \<Rightarrow> events
                  | Some p \<Rightarrow> drift_events lib config now p captured currentNames events),
                 pruneKnown known (cr_processes captured) (rw_MaxKnown config), currentNames))
      else ([], old_known previous, old_names previous))"

definition rw_overflow :: "rw_lib \<Rightarrow> rw_Config \<Rightarrow> time \<Rightarrow> nat \<Rightarrow> Event list \<Rightarrow> Event list" where
  "rw_overflow lib config now generation events =
     (if rw_MaxEvents config \<le> int (length events)
      then events @ [runtimeEvent lib ''runtime.change_overflow'' SeverityHigh
             ''Runtime changes reached the per-cycle event limit'' now generation ''overflow''
             [(''event_limit'', AInt (rw_MaxEvents config)), (''read_only'', ABool True)]]
      else events)"

text \<open>What \<open>Scan\<close> makes of the stored state and the capture. \<open>cloneState\<close> copies the maps, which are values here.\<close>

definition rw_assess ::
  "rw_lib \<Rightarrow> rw_Config \<Rightarrow> time \<Rightarrow> rw_state option \<Rightarrow> captureResult \<Rightarrow> Event list \<times> rw_state" where
  "rw_assess lib config now previous captured =
     (let generation = case_option 0 rs_Generation previous;
          (events, known, names) = process_changes lib config now previous captured;
          ports = kept_ports captured (old_ports previous);
          events = (case previous of None \<Rightarrow> events
                    | Some p \<Rightarrow> port_events lib config now generation (old_ports previous) ports events);
          issues = sort_key rw_issue_key (cr_issues captured);
          coverageHash = rw_hashValue lib issues;
          events = rw_coverage_events lib config now previous issues coverageHash events
      in (rw_overflow lib config now generation events,
          \<lparr>rs_SchemaVersion = (case previous of None \<Rightarrow> 1 | Some p \<Rightarrow> rs_SchemaVersion p),
           rs_Generation = generation + 1, rs_CoverageHash = coverageHash, rs_Known = Some known,
           rs_Names = Some names, rs_Ports = Some ports\<rparr>))"

definition rw_Scan :: "rw_lib \<Rightarrow> time \<Rightarrow> rw_Config \<Rightarrow> (error, Event list \<times> commit) io" where
  "rw_Scan lib now config =
     io_bind (rw_loadState lib config) (\<lambda>previous.
       if previous \<noteq> None \<and> case_option 0 rs_Generation previous = 2 ^ 64 - 1
       then io_fail ''runtime watch state generation is exhausted''
       else (\<lambda>w. case rw_capture lib config w of
          (captured, w) \<Rightarrow>
            (case rw_assess lib config now previous captured of
               (events, next_state) \<Rightarrow> (Inr (events, rw_saveState lib config next_state), w))))"

end
