(* ===== verification/Runtime_Watch_Props.thy ===== *)
theory Runtime_Watch_Props
  imports Runtime_Watch
begin

text \<open>
  What the runtime detector guarantees: observing changes nothing and a commit writes its own file only,
  every state a scan prepares passes the validation that the commit and the next load apply, old
  processes are forgotten oldest first and never while they run, and the number of events is bounded.
\<close>

section \<open>Observing changes nothing\<close>

lemma Readlink_files: "Readlink p w = (r, w') \<Longrightarrow> w_files w' = w_files w"
  by (auto simp: Readlink_def sys_def split: prod.splits option.splits node.splits dest!: next_fault_files)

lemma readProcess_files: "readProcess lib config pid w = (r, w') \<Longrightarrow> w_files w' = w_files w"
  by (auto simp: readProcess_def Let_def split: prod.splits sum.splits option.splits if_splits
      dest!: reads_files Readlink_files)

lemma process_loop_files: "process_loop lib config items n c w = (r, w') \<Longrightarrow> w_files w' = w_files w"
proof (induction items arbitrary: n c w)
  case (Cons a items)
  obtain name item where a: "a = (name, item)" by fastforce
  obtain p v where v: "readProcess lib config name w = (p, v)" by fastforce
  show ?case using Cons readProcess_files [OF v] unfolding a process_loop.simps v by (auto split: if_splits option.splits)
qed simp

lemma readLimitedFile_files: "readLimitedFile p n w = (r, w') \<Longrightarrow> w_files w' = w_files w"
  by (auto simp: readLimitedFile_def io_bind_def io_fail_def io_return_def split: prod.splits sum.splits if_splits
      dest!: reads_files)

lemma capture_family_files: "capture_family config family path c w = (r, w') \<Longrightarrow> w_files w' = w_files w"
  by (auto simp: capture_family_def Let_def split: prod.splits sum.splits if_splits dest!: readLimitedFile_files)

lemma capture_processes_files: "capture_processes lib config c w = (r, w') \<Longrightarrow> w_files w' = w_files w"
  by (auto simp: capture_processes_def split: prod.splits sum.splits dest!: reads_files(4) process_loop_files)

lemma rw_capture_files: "rw_capture lib config w = (r, w') \<Longrightarrow> w_files w' = w_files w"
  by (auto simp: rw_capture_def split: prod.splits dest!: capture_processes_files capture_family_files)

lemma rw_Scan_cases:
  assumes "rw_Scan lib now config w = (r, w')"
  obtains "\<exists>e. r = Inl e"
  | previous captured es s v where "rw_loadState lib config w = (Inr previous, v)" "rw_capture lib config v = (captured, w')"
      "rw_assess lib config now previous captured = (es, s)" "r = Inr (es, rw_saveState lib config s)"
proof (cases r)
  case (Inr y)
  then obtain previous v where l: "rw_loadState lib config w = (Inr previous, v)"
      "(if previous \<noteq> None \<and> case_option 0 rs_Generation previous = 2 ^ 64 - 1
        then io_fail ''runtime watch state generation is exhausted''
        else (\<lambda>w. case rw_capture lib config w of
          (captured, w) \<Rightarrow> (case rw_assess lib config now previous captured of
             (events, next_state) \<Rightarrow> (Inr (events, rw_saveState lib config next_state), w)))) v = (Inr y, w')"
    using assms unfolding rw_Scan_def Inr io_bind_Inr by blast
  obtain captured u where c: "rw_capture lib config v = (captured, u)" by fastforce
  obtain es s where a: "rw_assess lib config now previous captured = (es, s)" by fastforce
  show ?thesis by (rule that(2) [OF l(1) _ a]) (use l(2) c a Inr in \<open>auto split: if_splits\<close>)
qed (use that(1) in blast)

lemma rw_Scan_files: "rw_Scan lib now config w = (r, w') \<Longrightarrow> w_files w' = w_files w"
  by (auto simp: rw_Scan_def io_bind_def rw_loadState_def io_fail_def split: prod.splits sum.splits if_splits
      dest!: rw_capture_files load_state_files)

definition rw_owns :: "rw_Config \<Rightarrow> string \<Rightarrow> bool" where
  "rw_owns config = own_path (rw_file undefined config)"

lemma rw_own_path_lib: "own_path (rw_file lib config) = rw_owns config"
  unfolding rw_owns_def own_path_def by (simp add: rw_file_def sf_path_def fun_eq_iff)

lemma rw_path_lib: "sf_path (rw_file lib config) = sf_path (rw_file undefined config)"
  by (simp add: rw_file_def sf_path_def)

lemma rw_file_ok: "rw_StateDir config \<noteq> [] \<Longrightarrow> state_file_ok (rw_file lib config)"
  using JoinPath_name [of "''detectors''" "rw_StateDir config"]
  by (auto simp: state_file_ok_def rw_file_def name_elem_def)

interpretation rw: change_detector "rw_Scan lib now" "\<lambda>config. rw_StateDir config \<noteq> []" rw_owns
  "\<lambda>config. sf_path (rw_file undefined config)" for lib now
proof
  fix c w r w'
  show "rw_Scan lib now c w = (r, w') \<Longrightarrow> w_files w' = w_files w" by (rule rw_Scan_files)
next
  fix c w es k w'
  assume "rw_Scan lib now c w = (Inr (es, k), w')"
  then show "touches (rw_owns c) k"
    using touches_save_state [of "rw_file lib c"]
    by (auto elim!: rw_Scan_cases simp: rw_saveState_def rw_own_path_lib)
next
  fix c w es k w' v e v'
  assume "rw_StateDir c \<noteq> []" "rw_Scan lib now c w = (Inr (es, k), w')" "k v = (Inl e, v')"
  then show "node_at v' (sf_path (rw_file undefined c)) = node_at v (sf_path (rw_file undefined c))"
    using save_state_Inl [OF rw_file_ok, of c lib] unfolding rw_path_lib [of lib, symmetric]
    by (auto elim!: rw_Scan_cases simp: rw_saveState_def)
qed

section \<open>Forgetting processes\<close>

lemma prune_loop_eq:
  "distinct (keys known) \<Longrightarrow> distinct cs \<Longrightarrow> set cs \<subseteq> set (keys known) \<Longrightarrow> 0 \<le> limit \<Longrightarrow>
     prune_loop cs limit known = filter (\<lambda>(i, _). i \<notin> set (take (length known - nat limit) cs)) known"
proof (induction cs arbitrary: known)
  case (Cons c cs)
  show ?case
  proof (cases "int (length known) \<le> limit")
    case False
    have m: "map_of known c \<noteq> None" using Cons.prems(3) keys_mem [of c known] by simp
    have len: "length (AList.delete c known) = length known - 1"
    proof -
      have "length (keys (AList.delete c known)) = card (set (keys known) - {c})"
        using Cons.prems(1) distinct_card [OF distinct_keys_delete, of known c] by (simp add: AList.delete_keys)
      also have "\<dots> = length (keys known) - 1"
        using Cons.prems(1,3) distinct_card [OF Cons.prems(1)] by (subst card_Diff_singleton) auto
      finally show ?thesis by simp
    qed
    have "prune_loop cs limit (AList.delete c known)
        = filter (\<lambda>(i, _). i \<notin> set (take (length known - 1 - nat limit) cs)) (AList.delete c known)"
    proof -
      have "distinct (keys (AList.delete c known))" using Cons.prems(1) by (rule distinct_keys_delete)
      moreover have "set cs \<subseteq> set (keys (AList.delete c known))"
        using Cons.prems(2,3) by (auto simp: AList.delete_keys)
      ultimately show ?thesis using Cons.IH [of "AList.delete c known"] Cons.prems(2,4) len by simp
    qed
    also have "\<dots> = filter (\<lambda>(i, _). i \<notin> set (take (length known - nat limit) (c # cs))) known"
    proof -
      have "length known - nat limit = Suc (length known - 1 - nat limit)" using False Cons.prems(4) by auto
      then show ?thesis by (auto simp: AList.delete_eq filter_filter intro!: filter_cong)
    qed
    finally show ?thesis using False by simp
  qed simp
qed simp

definition forget_order :: "(string, processEntry) gomap \<Rightarrow> (string, processEntry) gomap \<Rightarrow> (string \<times> processEntry) list" where
  "forget_order known current = sort_key (\<lambda>(identity, process). (pe_LastSeen process, identity))
     (filter (\<lambda>(identity, _). map_of current identity = None) known)"

lemma forget_order_keys:
  assumes "distinct (keys known)"
  shows "distinct (map fst (forget_order known current))"
    and "set (map fst (forget_order known current)) = {i \<in> set (keys known). map_of current i = None}"
    and "set (forget_order known current) \<subseteq> set known"
proof -
  have "mset (map fst (forget_order known current)) = mset (map fst (filter (\<lambda>(i, _). map_of current i = None) known))"
    by (simp add: forget_order_def)
  moreover have "distinct (map fst (filter (\<lambda>(i, _). map_of current i = None) known))"
    using assms by (rule distinct_map_filter)
  ultimately show "distinct (map fst (forget_order known current))" by (metis mset_eq_imp_distinct_iff)
  show "set (map fst (forget_order known current)) = {i \<in> set (keys known). map_of current i = None}"
    by (force simp: forget_order_def)
  show "set (forget_order known current) \<subseteq> set known" by (auto simp: forget_order_def)
qed

lemma pruneKnown_eq:
  assumes "distinct (keys known)" and "0 \<le> limit"
  shows "pruneKnown known current limit
    = filter (\<lambda>(i, _). i \<notin> set (take (length known - nat limit) (map fst (forget_order known current)))) known"
proof (cases "int (length known) \<le> limit")
  case False
  then show ?thesis
    using prune_loop_eq [OF assms(1) forget_order_keys(1) [OF assms(1)], of current limit] forget_order_keys(2) [OF assms(1), of current] assms
    by (auto simp: pruneKnown_def forget_order_def)
qed (simp add: pruneKnown_def)


lemma kept_length:
  assumes "distinct (keys known)" and "set gone \<subseteq> set (keys known)" and "distinct gone"
  shows "length (filter (\<lambda>(i, _). i \<notin> set gone) known) = length known - length gone"
proof -
  have "distinct (keys (filter (\<lambda>(i, _). i \<notin> set gone) known))" using assms(1) by (rule distinct_map_filter)
  then have "length (filter (\<lambda>(i, _). i \<notin> set gone) known) = card (set (keys (filter (\<lambda>(i, _). i \<notin> set gone) known)))"
    using distinct_card by fastforce
  also have "set (keys (filter (\<lambda>(i, _). i \<notin> set gone) known)) = set (keys known) - set gone" by force
  also have "card \<dots> = length known - length gone"
    using assms distinct_card [of "keys known"] distinct_card [of gone] by (subst card_Diff_subset) auto
  finally show ?thesis .
qed

lemma active_count:
  assumes "distinct (keys known)" and "distinct (keys current)" and "set (keys current) \<subseteq> set (keys known)"
  shows "length (forget_order known current) = length known - length current"
proof -
  have "length (forget_order known current) = card (set (map fst (forget_order known current)))"
    using distinct_card [OF forget_order_keys(1) [OF assms(1)]] by simp
  also have "set (map fst (forget_order known current)) = set (keys known) - set (keys current)"
    unfolding forget_order_keys(2) [OF assms(1)] by (auto simp: map_of_eq_None_iff)
  also have "card \<dots> = length known - length current"
    using assms distinct_card [of "keys known"] distinct_card [of "keys current"] by (subst card_Diff_subset) auto
  finally show ?thesis .
qed

lemma pruneKnown_length:
  assumes "distinct (keys known)" and "distinct (keys current)" and "set (keys current) \<subseteq> set (keys known)"
    and "int (length current) \<le> limit"
  shows "length (pruneKnown known current limit) = min (length known) (nat limit)"
proof -
  let ?gone = "take (length known - nat limit) (map fst (forget_order known current))"
  have "length ?gone = length known - nat limit"
    using active_count [OF assms(1-3)] assms(4) by simp
  moreover have "length (pruneKnown known current limit) = length known - length ?gone"
    unfolding pruneKnown_eq [OF assms(1) order_trans [OF of_nat_0_le_iff assms(4)]]
  proof (rule kept_length [OF assms(1)])
    show "set ?gone \<subseteq> set (keys known)"
      using forget_order_keys(2) [OF assms(1), of current] by (auto dest!: in_set_takeD)
    show "distinct ?gone" using forget_order_keys(1) [OF assms(1)] by (rule distinct_take)
  qed
  ultimately show ?thesis by linarith
qed

lemma map_of_filter_keys:
  "distinct (keys m) \<Longrightarrow> map_of (filter (\<lambda>(i, _). P i) m) k = (if P k then map_of m k else None)"
  by (induction m) (auto simp: map_of_eq_None_iff split: prod.splits)

lemma map_of_pruneKnown:
  assumes "distinct (keys known)" and "0 \<le> limit"
  shows "map_of (pruneKnown known current limit) i
    = (if i \<in> set (take (length known - nat limit) (map fst (forget_order known current))) then None else map_of known i)"
  unfolding pruneKnown_eq [OF assms] using map_of_filter_keys [OF assms(1)] by simp

text \<open>What is forgotten was seen before what is kept.\<close>

lemma forget_order_first:
  assumes "distinct (keys known)" and "i \<in> set (take n (map fst (forget_order known current)))"
    and "j \<in> set (drop n (map fst (forget_order known current)))"
    and "map_of known i = Some p" and "map_of known j = Some q"
  shows "(pe_LastSeen p, i) < (pe_LastSeen q, j)"
proof -
  let ?os = "forget_order known current" and ?f = "\<lambda>(identity, process). (pe_LastSeen process, identity)"
  have sub: "set ?os \<subseteq> set known" by (rule forget_order_keys(3) [OF assms(1)])
  have "\<exists>p'. (i, p') \<in> set (take n ?os)" "\<exists>q'. (j, q') \<in> set (drop n ?os)"
    using assms(2,3) by (auto simp: take_map drop_map)
  then obtain p' q' where pq: "(i, p') \<in> set (take n ?os)" "(j, q') \<in> set (drop n ?os)" by blast
  then have "(i, p') \<in> set ?os" "(j, q') \<in> set ?os" by (auto dest: in_set_takeD in_set_dropD)
  then have "(i, p') \<in> set known" "(j, q') \<in> set known" using sub by blast+
  then have same: "p' = p" "q' = q"
    using map_of_SomeI [OF assms(1), of i p'] map_of_SomeI [OF assms(1), of j q'] assms(4,5) by simp_all
  have "sorted (map ?f (take n ?os @ drop n ?os))" by (simp add: forget_order_def)
  then have "\<forall>x \<in> set (take n ?os). \<forall>y \<in> set (drop n ?os). ?f x \<le> ?f y"
    unfolding map_append sorted_append by (simp add: image_iff)
  then have "?f (i, p') \<le> ?f (j, q')" using pq by blast
  moreover have "i \<noteq> j"
    using assms(2,3) set_take_disj_set_drop_if_distinct [OF forget_order_keys(1) [OF assms(1)] order_refl] by blast
  ultimately show ?thesis using same by (auto simp: less_eq_prod_def)
qed

text \<open>\<open>pruneKnown\<close> brings the remembered processes down to the limit, never forgets one that is running, changes
  no remembered entry, and of the processes that no longer run it forgets those seen longest ago (ties by
  identity): each forgotten one is strictly older than each kept one.\<close>

theorem pruneKnown_forgets_oldest:
  assumes "distinct (keys known)" and "distinct (keys current)" and "set (keys current) \<subseteq> set (keys known)"
    and "int (length current) \<le> limit"
  shows "length (pruneKnown known current limit) = min (length known) (nat limit)
    \<and> (\<forall>i. map_of (pruneKnown known current limit) i \<noteq> None \<longrightarrow> map_of (pruneKnown known current limit) i = map_of known i)
    \<and> (\<forall>i. map_of current i \<noteq> None \<longrightarrow> map_of (pruneKnown known current limit) i = map_of known i)
    \<and> (\<forall>i j p q. map_of known i = Some p \<and> map_of (pruneKnown known current limit) i = None
         \<and> map_of (pruneKnown known current limit) j = Some q \<and> map_of current j = None
         \<longrightarrow> (pe_LastSeen p, i) < (pe_LastSeen q, j))"
proof (intro conjI allI impI)
  note pos = order_trans [OF of_nat_0_le_iff assms(4)]
  note lookup = map_of_pruneKnown [OF assms(1) pos, of current]
  note order = forget_order_keys(2) [OF assms(1), of current]
  let ?n = "length known - nat limit" and ?os = "map fst (forget_order known current)"
  show "length (pruneKnown known current limit) = min (length known) (nat limit)" by (rule pruneKnown_length [OF assms])
  fix i
  show "map_of (pruneKnown known current limit) i = map_of known i" if "map_of (pruneKnown known current limit) i \<noteq> None"
    using that by (simp add: lookup split: if_splits)
  show "map_of (pruneKnown known current limit) i = map_of known i" if act: "map_of current i \<noteq> None"
  proof -
    have "i \<notin> set ?os" using order act by simp
    then show ?thesis unfolding lookup using in_set_takeD by metis
  qed
  fix j p q
  assume a: "map_of known i = Some p \<and> map_of (pruneKnown known current limit) i = None
         \<and> map_of (pruneKnown known current limit) j = Some q \<and> map_of current j = None"
  have i: "i \<in> set (take ?n ?os)" using a by (auto simp: lookup split: if_splits)
  have j: "j \<notin> set (take ?n ?os)" "map_of known j = Some q" using a by (auto simp: lookup split: if_splits)
  then have "j \<in> set ?os" using order a keys_mem [of j known] by simp
  then have "j \<in> set (drop ?n ?os)" using j(1) by (metis UnE append_take_drop_id set_append)
  then show "(pe_LastSeen p, i) < (pe_LastSeen q, j)" using forget_order_first [OF assms(1) i] a j(2) by blast
qed

section \<open>Every prepared state is valid\<close>

definition proc_ok :: "string \<times> processEntry \<Rightarrow> bool" where
  "proc_ok ip \<longleftrightarrow> fst ip = pe_Identity (snd ip) \<and> lower_sha256 (fst ip) \<and> validProcessName (pe_Name (snd ip))
     \<and> validExecutable (pe_Executable (snd ip))"

definition port_ok :: "string \<times> portEntry \<Rightarrow> bool" where
  "port_ok kp \<longleftrightarrow> check_port (fst kp) (snd kp)"

lemma check_known_iff: "check_known ps \<longleftrightarrow> (\<forall>ip \<in> set ps. proc_ok ip \<and> pe_LastSeen (snd ip) \<noteq> 0)"
  by (induction ps rule: check_known.induct) (auto simp: proc_ok_def)

text \<open>The hash function returns 32 bytes.\<close>

definition rw_lib_ok :: "rw_lib \<Rightarrow> bool" where
  "rw_lib_ok lib \<longleftrightarrow> (\<forall>s. length (rl_sha256 lib s) = 32)"

lemma readProcess_ok: "rw_lib_ok lib \<Longrightarrow> readProcess lib config pid w = (Some p, w') \<Longrightarrow> proc_ok (pe_Identity p, p)"
  by (auto simp: readProcess_def Let_def proc_ok_def rw_lib_ok_def lower_sha256_hash validExecutable_def ContainsAny_def
      split: prod.splits sum.splits option.splits if_splits)

definition captured_ok :: "rw_Config \<Rightarrow> captureResult \<Rightarrow> bool" where
  "captured_ok config c \<longleftrightarrow> distinct (keys (cr_processes c)) \<and> list_all proc_ok (cr_processes c)
     \<and> int (length (cr_processes c)) \<le> rw_MaxProcesses config \<and> list_all port_ok (cr_ports c)"

lemma list_all_update: "list_all P m \<Longrightarrow> P (k, v) \<Longrightarrow> list_all P (AList.update k v m)"
  by (auto simp: list_all_iff dest: mem_update_cases)

lemma list_all_fold_update:
  "list_all P xs \<Longrightarrow> list_all P m \<Longrightarrow> list_all P (fold (\<lambda>(k, v) m. AList.update k v m) xs m)"
  by (induction xs arbitrary: m) (auto intro: list_all_update)

lemma process_loop_ok:
  "rw_lib_ok lib \<Longrightarrow> captured_ok config c \<Longrightarrow> length (cr_processes c) \<le> n \<Longrightarrow>
     process_loop lib config items n c w = (r, w') \<Longrightarrow> captured_ok config r"
proof (induction items arbitrary: n c w)
  case (Cons a items)
  obtain name item where a: "a = (name, item)" by fastforce
  obtain p v where v: "readProcess lib config name w = (p, v)" by fastforce
  consider "\<not> is_dir (Some item) \<or> \<not> rw_numeric name" | "rw_MaxProcesses config < int (Suc n)" | "int (Suc n) \<le> rw_MaxProcesses config"
    by linarith
  then show ?case
  proof cases
    case 1
    then show ?thesis using Cons.IH [OF Cons.prems(1-3)] Cons.prems(4) by (simp add: a)
  next
    case 2
    then show ?thesis using Cons.IH [OF Cons.prems(1-3)] Cons.prems(2,4)
      by (auto simp: a rw_add_issue_def captured_ok_def split: if_splits)
  next
    case 3
    show ?thesis
    proof (cases p)
      case None
      then show ?thesis
        using Cons.IH [OF Cons.prems(1-3)] Cons.IH [OF Cons.prems(1,2), of "Suc n" v] Cons.prems(3,4) 3 v
        by (auto simp: a split: if_splits)
    next
      case (Some process)
      let ?c = "c\<lparr>cr_processes := AList.update (pe_Identity process) process (cr_processes c)\<rparr>"
      have "length (cr_processes ?c) \<le> Suc n" using Cons.prems(3) by (simp add: length_update)
      moreover have "captured_ok config ?c"
        using Cons.prems(2,3) 3 readProcess_ok [OF Cons.prems(1)] v Some
        by (auto simp: captured_ok_def length_update list_all_update)
      ultimately show ?thesis
        using Cons.IH [OF Cons.prems(1), of ?c "Suc n" v] Cons.IH [OF Cons.prems(1-3)] Cons.prems(4) Some v 3
        by (auto simp: a split: if_splits)
    qed
  qed
qed simp

lemma listening_port_ok:
  "family = ''tcp4'' \<or> family = ''tcp6'' \<Longrightarrow> listening_port family line = Some port \<Longrightarrow> port_ok (po_Key port, port)"
  by (auto simp: listening_port_def Let_def port_ok_def check_port_def ParseUint_def addressScope_def
      split: if_splits option.splits prod.splits)

lemma port_loop_ok:
  "family = ''tcp4'' \<or> family = ''tcp6'' \<Longrightarrow> list_all port_ok m \<Longrightarrow> list_all port_ok (fst (port_loop family limit ls m))"
proof (induction ls arbitrary: m)
  case (Cons line ls)
  show ?case
  proof (cases "listening_port family line")
    case None
    then show ?thesis using Cons.IH [OF Cons.prems] by simp
  next
    case (Some port)
    then have "list_all port_ok (AList.update (po_Key port) port m)"
      by (intro list_all_update [OF Cons.prems(2)] listening_port_ok [OF Cons.prems(1)])
    note m = this Cons.IH [OF Cons.prems(1) this]
    show ?thesis unfolding port_loop.simps Some option.case Let_def using m by (simp split: if_split)
  qed
qed simp

lemma capture_family_ok:
  assumes "family = ''tcp4'' \<or> family = ''tcp6''" and "captured_ok config c"
    and "capture_family config family path c w = (r, w')"
  shows "captured_ok config r"
proof -
  obtain x v where x: "readLimitedFile path rw_maxSocketTableBytes w = (x, v)" by fastforce
  show ?thesis
  proof (cases x)
    case (Inl e)
    then show ?thesis using assms(2,3) x by (auto simp: capture_family_def captured_ok_def rw_add_issue_def split: if_splits)
  next
    case (Inr content)
    obtain ports limited where p: "parseListeningPorts content family (rw_MaxPorts config) = (ports, limited)" by fastforce
    have "list_all port_ok ports"
      using port_loop_ok [OF assms(1), of "[]" "rw_MaxPorts config" "scan_lines content"] p by (simp add: parseListeningPorts_def)
    then show ?thesis
      using assms(2,3) x Inr p list_all_fold_update
      by (auto simp: capture_family_def captured_ok_def rw_add_issue_def Let_def split: if_splits)
  qed
qed

lemma rw_capture_ok:
  assumes "rw_lib_ok lib" and "0 \<le> rw_MaxProcesses config" and "rw_capture lib config w = (c, w')"
  shows "captured_ok config c"
proof -
  obtain c1 w1 where 1: "capture_processes lib config
      \<lparr>cr_processes = [], cr_ports = [], cr_processComplete = False, cr_familyComplete = [], cr_issues = []\<rparr> w = (c1, w1)"
    by fastforce
  obtain c2 w2 where 2: "capture_family config ''tcp4'' (JoinPath [rw_ProcRoot config, ''net'', ''tcp'']) c1 w1 = (c2, w2)"
    by fastforce
  have 3: "capture_family config ''tcp6'' (JoinPath [rw_ProcRoot config, ''net'', ''tcp6'']) c2 w2 = (c, w')"
    using assms(3) 1 2 by (simp add: rw_capture_def)
  obtain ls v where ls: "ReadDir (rw_ProcRoot config) w = (ls, v)" by fastforce
  have "captured_ok config c1"
  proof (cases ls)
    case (Inl e)
    then show ?thesis using 1 ls assms(2) by (auto simp: capture_processes_def rw_add_issue_def captured_ok_def)
  next
    case (Inr items)
    have "captured_ok config \<lparr>cr_processes = [], cr_ports = [], cr_processComplete = True, cr_familyComplete = [], cr_issues = []\<rparr>"
      using assms(2) by (simp add: captured_ok_def)
    from process_loop_ok [OF assms(1) this, of 0] show ?thesis using 1 ls Inr by (simp add: capture_processes_def)
  qed
  from capture_family_ok [OF _ this 2] have "captured_ok config c2" by simp
  from capture_family_ok [OF _ this 3] show ?thesis by simp
qed


text \<open>A stored state as \<open>validateState\<close> accepts it.\<close>

definition rw_state_ok :: "rw_Config \<Rightarrow> rw_state \<Rightarrow> bool" where
  "rw_state_ok config s \<longleftrightarrow> rs_SchemaVersion s = 1 \<and> rs_Generation s \<noteq> 0
     \<and> (\<exists>known names ports. rs_Known s = Some known \<and> rs_Names s = Some names \<and> rs_Ports s = Some ports
          \<and> int (length known) \<le> rw_MaxKnown config
          \<and> (\<forall>ip \<in> set known. proc_ok ip \<and> pe_LastSeen (snd ip) \<noteq> 0)
          \<and> (\<forall>ni \<in> set names. lower_sha256 (snd ni) \<and> pe_Identity (lookup_process known (snd ni)) \<noteq> [])
          \<and> list_all port_ok ports)"

lemma rw_validateState_iff: "rw_validateState (rw_MaxKnown config) s = None \<longleftrightarrow> rw_state_ok config s"
  by (auto simp: rw_validateState_def rw_state_ok_def check_known_iff list_all_iff port_ok_def case_prod_beta
      split: option.splits if_splits)

text \<open>The loop over the captured processes: what was known and what was captured is known, each name stands
  for a captured process, and the entries are valid.\<close>

lemma note_process_snd:
  "snd (note_process lib config now previous g (i, p) (es, known, names)) =
     (AList.update i (p\<lparr>pe_LastSeen := g\<rparr>) known,
      snd (snd (note_process lib config now previous g (i, p) (es, known, names))))"
  by (simp add: note_process_def Let_def)

lemma note_process_names:
  "ni \<in> set (snd (snd (note_process lib config now previous g (i, p) (es, known, names)))) \<Longrightarrow> ni \<in> set names \<or> snd ni = i"
  by (cases ni) (auto simp: note_process_def Let_def split: option.splits if_splits dest: mem_update_cases)

lemma note_fold:
  assumes "fold (note_process lib config now previous g) ps (es, known, names) = (es', known', names')"
    and "distinct (keys known)" and "g \<noteq> 0" and "list_all proc_ok ps"
    and "\<forall>ip \<in> set known. proc_ok ip \<and> pe_LastSeen (snd ip) \<noteq> 0"
  shows "distinct (keys known') \<and> (\<forall>ip \<in> set known'. proc_ok ip \<and> pe_LastSeen (snd ip) \<noteq> 0)
    \<and> set (keys known') = set (keys known) \<union> set (keys ps)
    \<and> snd ` set names' \<subseteq> snd ` set names \<union> set (keys ps)"
  using assms
proof (induction ps arbitrary: es known names)
  case (Cons ip ps)
  obtain i p where ip: "ip = (i, p)" by fastforce
  obtain es1 known1 names1 where n: "note_process lib config now previous g (i, p) (es, known, names) = (es1, known1, names1)"
    by (metis prod.collapse)
  have k1: "known1 = AList.update i (p\<lparr>pe_LastSeen := g\<rparr>) known"
    using note_process_snd [of lib config now previous g i p es known names] n by simp
  have names1: "snd ` set names1 \<subseteq> insert i (snd ` set names)"
    using note_process_names [of _ lib config now previous g i p es known names] n by fastforce
  have "proc_ok (i, p\<lparr>pe_LastSeen := g\<rparr>)" using Cons.prems(4) by (auto simp: ip proc_ok_def)
  then have ok1: "\<forall>ip \<in> set known1. proc_ok ip \<and> pe_LastSeen (snd ip) \<noteq> 0"
    using Cons.prems(3,5) unfolding k1 by (fastforce dest: mem_update_cases)
  have d1: "distinct (keys known1)" using Cons.prems(2) unfolding k1 by simp
  have "fold (note_process lib config now previous g) ps (es1, known1, names1) = (es', known', names')"
    using Cons.prems(1) n by (simp add: ip)
  from Cons.IH [OF this d1 Cons.prems(3) _ ok1] Cons.prems(4)
  have rest: "distinct (keys known') \<and> (\<forall>ip \<in> set known'. proc_ok ip \<and> pe_LastSeen (snd ip) \<noteq> 0)
    \<and> set (keys known') = set (keys known1) \<union> set (keys ps)
    \<and> snd ` set names' \<subseteq> snd ` set names1 \<union> set (keys ps)" by simp
  have keys1: "set (keys known1) = insert i (set (keys known))"
    unfolding k1 by (simp add: AList.dom_update)
  have "snd ` set names' \<subseteq> snd ` set names \<union> insert i (set (keys ps))" using rest names1 by blast
  then show ?case using rest keys1 unfolding ip by simp
qed simp


lemma kept_ports_ok:
  assumes "list_all port_ok (cr_ports captured)" and "list_all port_ok old"
  shows "list_all port_ok (kept_ports captured old)"
proof -
  have inner: "list_all port_ok (fold (\<lambda>(key, port) m. if po_Family port = family then AList.update key port m else m) xs m)"
    if "list_all port_ok xs" "list_all port_ok m" for family xs m
    using that
  proof (induction xs arbitrary: m)
    case (Cons kp xs)
    obtain key port where "kp = (key, port)" by fastforce
    then show ?case using Cons list_all_update [of port_ok m key port] by simp
  qed simp
  show ?thesis using assms inner [OF assms(2)] by (simp add: kept_ports_def)
qed

lemma rw_assess_snd:
  assumes "rw_assess lib config now previous captured = (es, s)"
  shows "rs_SchemaVersion s = (case previous of None \<Rightarrow> 1 | Some p \<Rightarrow> rs_SchemaVersion p)"
    and "rs_Generation s = case_option 0 rs_Generation previous + 1"
    and "rs_Ports s = Some (kept_ports captured (old_ports previous))"
    and "snd (process_changes lib config now previous captured) = (known, names) \<Longrightarrow> rs_Known s = Some known \<and> rs_Names s = Some names"
  using assms by (auto simp: rw_assess_def Let_def case_prod_beta)

text \<open>A decoded state is built from maps: no key occurs twice.\<close>

definition known_distinct :: "rw_state option \<Rightarrow> bool" where
  "known_distinct previous \<longleftrightarrow> distinct (keys (old_known previous))"

lemma rw_assess_ok:
  assumes "captured_ok config captured" and "rw_MaxProcesses config \<le> rw_MaxKnown config"
    and "\<And>p. previous = Some p \<Longrightarrow> rw_state_ok config p" and "known_distinct previous"
    and run: "rw_assess lib config now previous captured = (es, s)"
  shows "rw_state_ok config s"
proof -
  note after = rw_assess_snd [OF run]
  have old: "distinct (keys (old_known previous))" "\<forall>ip \<in> set (old_known previous). proc_ok ip \<and> pe_LastSeen (snd ip) \<noteq> 0"
    using assms(3,4) by (auto simp: known_distinct_def old_known_def rw_state_ok_def split: option.splits)
  have "list_all port_ok (old_ports previous)"
    using assms(3) by (auto simp: old_ports_def rw_state_ok_def split: option.splits)
  then have ports: "\<exists>ports. rs_Ports s = Some ports \<and> list_all port_ok ports"
    using after(3) kept_ports_ok assms(1) by (auto simp: captured_ok_def)
  have meta: "rs_SchemaVersion s = 1" "rs_Generation s \<noteq> 0"
    using after(1,2) assms(3) by (auto simp: rw_state_ok_def split: option.splits)
  show ?thesis
  proof (cases "cr_processComplete captured")
    case False
    then have same: "rs_Known s = Some (old_known previous)" "rs_Names s = Some (old_names previous)"
      using after(4) by (simp_all add: process_changes_def)
    have "0 \<le> rw_MaxKnown config" using assms(1,2) by (simp add: captured_ok_def)
    show ?thesis
    proof (cases previous)
      case None
      then show ?thesis using same old_known_def old_names_def meta ports \<open>0 \<le> rw_MaxKnown config\<close> by (simp add: rw_state_ok_def)
    next
      case (Some p)
      have "rs_Known s = rs_Known p" "rs_Names s = rs_Names p"
        using same assms(3) [OF Some] by (auto simp: Some rw_state_ok_def old_known_def old_names_def)
      then show ?thesis using assms(3) [OF Some] meta ports unfolding rw_state_ok_def by metis
    qed
  next
    case True
    obtain es' known names where f: "fold (note_process lib config now previous (case_option 0 rs_Generation previous + 1))
        (cr_processes captured) ([], old_known previous, []) = (es', known, names)" by (metis prod.collapse)
    have cap: "distinct (keys (cr_processes captured))" "list_all proc_ok (cr_processes captured)"
      "int (length (cr_processes captured)) \<le> rw_MaxKnown config" using assms(1,2) by (auto simp: captured_ok_def)
    from note_fold [OF f old(1) _ cap(2) old(2)]
    have k: "distinct (keys known)" "\<forall>ip \<in> set known. proc_ok ip \<and> pe_LastSeen (snd ip) \<noteq> 0"
      "set (keys (cr_processes captured)) \<subseteq> set (keys known)" "snd ` set names \<subseteq> set (keys (cr_processes captured))" by auto
    let ?pruned = "pruneKnown known (cr_processes captured) (rw_MaxKnown config)"
    have pos: "0 \<le> rw_MaxKnown config" using cap(3) by linarith
    have len: "int (length ?pruned) \<le> rw_MaxKnown config" using pruneKnown_length [OF k(1) cap(1) k(3) cap(3)] pos by simp
    have valid: "\<forall>ip \<in> set ?pruned. proc_ok ip \<and> pe_LastSeen (snd ip) \<noteq> 0"
      using k(2) unfolding pruneKnown_eq [OF k(1) pos] by auto
    have names: "\<forall>ni \<in> set names. lower_sha256 (snd ni) \<and> pe_Identity (lookup_process ?pruned (snd ni)) \<noteq> []"
    proof
      fix ni
      assume "ni \<in> set names"
      then have act: "snd ni \<in> set (keys (cr_processes captured))" using k(4) by blast
      then have "snd ni \<notin> set (map fst (forget_order known (cr_processes captured)))"
        using forget_order_keys(2) [OF k(1), of "cr_processes captured"] keys_mem [of "snd ni" "cr_processes captured"] by simp
      then have "map_of ?pruned (snd ni) = map_of known (snd ni)"
        using map_of_pruneKnown [OF k(1) pos] in_set_takeD by metis
      moreover have "map_of known (snd ni) \<noteq> None" using k(3) act keys_mem [of "snd ni" known] by blast
      ultimately obtain p where p: "map_of known (snd ni) = Some p" "map_of ?pruned (snd ni) = Some p" by auto
      then have "proc_ok (snd ni, p)" using k(2) map_of_SomeD by fastforce
      then show "lower_sha256 (snd ni) \<and> pe_Identity (lookup_process ?pruned (snd ni)) \<noteq> []"
        using p(2) by (auto simp: lookup_process_def proc_ok_def lower_sha256_def)
    qed
    have "snd (process_changes lib config now previous captured) = (?pruned, names)" using True f by (simp add: process_changes_def)
    then show ?thesis
      unfolding rw_state_ok_def using meta ports len valid names after(4) by blast
  qed
qed


text \<open>C38: Whatever the process file system holds, a scan never prepares a state that its own \<open>validateState\<close> rejects: the
  commit it returns stores a state whose processes, names and ports all pass the check that \<open>saveState\<close> and the next
  \<open>loadState\<close> apply, with the generation after the stored one. (\<open>New\<close> ensures the relation of the limits; a decoded
  map has distinct keys and a hash 32 bytes.)\<close>

theorem rw_Scan_prepares_valid_state:
  assumes "rw_lib_ok lib" and "0 \<le> rw_MaxProcesses config" and "rw_MaxProcesses config \<le> rw_MaxKnown config"
    and "rw_loadState lib config w = (Inr previous, v)" and "known_distinct previous"
    and "rw_Scan lib now config w = (Inr (es, k), w')"
  shows "\<exists>s. k = rw_saveState lib config s \<and> rw_validateState (rw_MaxKnown config) s = None
    \<and> rs_Generation s = (case previous of None \<Rightarrow> 1 | Some p \<Rightarrow> rs_Generation p + 1)"
proof -
  obtain captured s where s: "rw_capture lib config v = (captured, w')" "rw_assess lib config now previous captured = (es, s)"
      "k = rw_saveState lib config s"
    using assms(4,6) by (auto elim!: rw_Scan_cases)
  have "rw_state_ok config p" if "previous = Some p" for p
    using load_state_Inr [OF assms(4) [unfolded rw_loadState_def]] that
    by (auto simp: stored_state_def parse_state_def rw_file_def rw_validateState_iff [symmetric]
        split: option.splits node.splits if_splits sum.splits)
  from rw_assess_ok [OF rw_capture_ok [OF assms(1,2) s(1)] assms(3) this assms(5) s(2)]
  have "rw_validateState (rw_MaxKnown config) s = None" by (simp add: rw_validateState_iff)
  moreover have "rs_Generation s = (case previous of None \<Rightarrow> 1 | Some p \<Rightarrow> rs_Generation p + 1)"
    using rw_assess_snd(2) [OF s(2)] by (simp split: option.splits)
  ultimately show ?thesis using s(3) by blast
qed

section \<open>The number of events\<close>

lemma appendBounded_length: "int (length es) \<le> limit \<Longrightarrow> int (length (appendBounded es limit e)) \<le> limit"
  by (simp add: appendBounded_def)

lemma fold_bounded:
  assumes "\<And>x es. int (length es) \<le> limit \<Longrightarrow> int (length (f x es)) \<le> limit" and "int (length es) \<le> limit"
  shows "int (length (fold f xs es)) \<le> limit"
  using assms(2) by (induction xs arbitrary: es) (auto intro: assms(1))

lemma note_fold_bounded:
  "int (length es) \<le> rw_MaxEvents config \<Longrightarrow>
     int (length (fst (fold (note_process lib config now previous g) ps (es, known, names)))) \<le> rw_MaxEvents config"
proof (induction ps arbitrary: es known names)
  case (Cons ip ps)
  obtain i p where ip: "ip = (i, p)" by fastforce
  obtain es1 known1 names1 where n: "note_process lib config now previous g (i, p) (es, known, names) = (es1, known1, names1)"
    by (metis prod.collapse)
  have "int (length es1) \<le> rw_MaxEvents config"
    using n Cons.prems appendBounded_length by (auto simp: note_process_def Let_def split: option.splits if_splits)
  then show ?case using Cons.IH n by (simp add: ip)
qed simp

lemma port_events_bounded:
  "int (length es) \<le> rw_MaxEvents config \<Longrightarrow>
     int (length (port_events lib config now g old ports es)) \<le> rw_MaxEvents config"
  unfolding port_events_def by (rule fold_bounded) (auto intro: appendBounded_length split: option.splits)

lemma drift_events_bounded:
  "int (length es) \<le> rw_MaxEvents config \<Longrightarrow>
     int (length (drift_events lib config now p captured names es)) \<le> rw_MaxEvents config"
  unfolding drift_events_def by (rule fold_bounded) (auto intro: appendBounded_length split: option.splits)

lemma rw_coverage_events_bounded:
  "int (length es) \<le> rw_MaxEvents config \<Longrightarrow>
     int (length (rw_coverage_events lib config now previous issues h es)) \<le> rw_MaxEvents config + 1"
  using appendBounded_length [of es "rw_MaxEvents config + 1"] by (simp add: rw_coverage_events_def Let_def)

lemma process_changes_bounded:
  assumes "0 \<le> rw_MaxEvents config"
  shows "int (length (fst (process_changes lib config now previous captured))) \<le> rw_MaxEvents config"
proof -
  obtain es known names where f: "fold (note_process lib config now previous (case_option 0 rs_Generation previous + 1))
      (cr_processes captured) ([], old_known previous, []) = (es, known, names)" by (metis prod.collapse)
  have "int (length es) \<le> rw_MaxEvents config"
    using note_fold_bounded [of "[]" config lib now previous] f assms by (metis fst_conv list.size(3) of_nat_0)
  then show ?thesis using assms f drift_events_bounded by (simp add: process_changes_def split: option.split)
qed

text \<open>One scan reports at most two events more than the configured limit (the coverage notice and the overflow
  notice), and it never drops a change in silence: a result without the overflow notice has fewer events than
  the limit.\<close>

theorem rw_assess_event_bound:
  assumes "0 \<le> rw_MaxEvents config" and "rw_assess lib config now previous captured = (es, s)"
  shows "int (length es) \<le> rw_MaxEvents config + 2
    \<and> (int (length es) < rw_MaxEvents config \<or> event_Kind (last es) = ''runtime.change_overflow'')"
proof -
  let ?es0 = "fst (process_changes lib config now previous captured)" and ?g = "case_option 0 rs_Generation previous"
  let ?ports = "kept_ports captured (old_ports previous)" and ?issues = "sort_key rw_issue_key (cr_issues captured)"
  let ?es1 = "case previous of None \<Rightarrow> ?es0 | Some p \<Rightarrow> port_events lib config now ?g (old_ports previous) ?ports ?es0"
  let ?es2 = "rw_coverage_events lib config now previous ?issues (rw_hashValue lib ?issues) ?es1"
  have es: "es = rw_overflow lib config now ?g ?es2"
    using assms(2) unfolding rw_assess_def Let_def case_prod_beta by simp
  have "int (length ?es0) \<le> rw_MaxEvents config" by (rule process_changes_bounded [OF assms(1)])
  then have "int (length ?es1) \<le> rw_MaxEvents config" by (cases previous) (simp_all add: port_events_bounded)
  from rw_coverage_events_bounded [OF this]
  have "int (length ?es2) \<le> rw_MaxEvents config + 1" .
  then show ?thesis unfolding es rw_overflow_def by (auto simp: runtimeEvent_def)
qed

section \<open>Instances\<close>

definition rw_sample_process :: "string \<Rightarrow> nat \<Rightarrow> processEntry" where
  "rw_sample_process i n = \<lparr>pe_Identity = i, pe_Name = ''sshd'', pe_UID = 0, pe_Executable = [], pe_LastSeen = n\<rparr>"

definition rw_sample_known :: "(string, processEntry) gomap" where
  "rw_sample_known = [(''a'', rw_sample_process ''a'' 3), (''b'', rw_sample_process ''b'' 1), (''c'', rw_sample_process ''c'' 2)]"

theorem pruneKnown_forgets_oldest_witness:
  "pruneKnown rw_sample_known [(''a'', rw_sample_process ''a'' 3)] 2 = [(''a'', rw_sample_process ''a'' 3), (''c'', rw_sample_process ''c'' 2)]
   \<and> length (pruneKnown rw_sample_known [(''a'', rw_sample_process ''a'' 3)] 2) = min (length rw_sample_known) 2
   \<and> (pe_LastSeen (rw_sample_process ''b'' 1), ''b'') < (pe_LastSeen (rw_sample_process ''c'' 2), ''c'')"
proof -
  have run: "pruneKnown rw_sample_known [(''a'', rw_sample_process ''a'' 3)] 2 = [(''a'', rw_sample_process ''a'' 3), (''c'', rw_sample_process ''c'' 2)]"
    by code_simp
  have "distinct (keys rw_sample_known)" "distinct (keys [(''a'', rw_sample_process ''a'' 3)])"
    "set (keys [(''a'', rw_sample_process ''a'' 3)]) \<subseteq> set (keys rw_sample_known)" "int (length [(''a'', rw_sample_process ''a'' 3)]) \<le> 2"
    by (simp_all add: rw_sample_known_def)
  note oldest = pruneKnown_forgets_oldest [OF this]
  have "(pe_LastSeen (rw_sample_process ''b'' 1), ''b'') < (pe_LastSeen (rw_sample_process ''c'' 2), ''c'')"
    by (rule oldest [THEN conjunct2, THEN conjunct2, THEN conjunct2, rule_format])
      (simp add: run, simp add: rw_sample_known_def)
  then show ?thesis using run oldest by simp
qed

definition rw_sample_lib :: rw_lib where
  "rw_sample_lib = \<lparr>rl_sha256 = (\<lambda>s. take 32 (s @ replicate 32 (CHR ''h''))), rl_issues_json = (\<lambda>_. ''[]''),
     rl_marshal = (\<lambda>_. Inr ''1''), rl_decode = (\<lambda>_. Inl [])\<rparr>"

definition rw_sample_config :: rw_Config where
  "rw_sample_config = \<lparr>rw_StateDir = ''/s'', rw_ProcRoot = ''/p'', rw_MaxProcesses = 4, rw_MaxKnown = 8, rw_MaxEvents = 4, rw_MaxPorts = 9\<rparr>"

definition rw_world :: world where
  "rw_world = \<lparr>w_files = [(''/'', NDir 493), (''/p'', NDir 493), (''/p/7'', NDir 493), (''/s'', NDir 448)],
     w_faults = [], w_rand = [''r''], w_cwd = ''/''\<rparr>"

lemma rw_sample_load: "rw_loadState rw_sample_lib rw_sample_config rw_world = (Inr None, rw_world)"
proof -
  have "JoinPath [JoinPath [''/s'', ''detectors''], ''runtime-watch-state.json''] = ''/s/detectors/runtime-watch-state.json''" by code_simp
  then have "sf_path (rw_file rw_sample_lib rw_sample_config) = ''/s/detectors/runtime-watch-state.json''"
    by (simp add: sf_path_def rw_file_def rw_sample_config_def)
  then show ?thesis
    by (simp add: rw_loadState_def load_state_def io_try_def Lstat_def rw_world_def sys_no_fault io_return_def)
qed

lemma rw_sample_scan: "\<exists>es k w'. rw_Scan rw_sample_lib 5 rw_sample_config rw_world = (Inr (es, k), w')"
proof -
  obtain c v where "rw_capture rw_sample_lib rw_sample_config rw_world = (c, v)" by fastforce
  moreover obtain es s where "rw_assess rw_sample_lib rw_sample_config 5 None c = (es, s)" by fastforce
  ultimately show ?thesis by (simp add: rw_Scan_def io_bind_def rw_sample_load)
qed

theorem rw_Scan_prepares_valid_state_witness:
  "\<exists>es k w' s. rw_Scan rw_sample_lib 5 rw_sample_config rw_world = (Inr (es, k), w')
     \<and> k = rw_saveState rw_sample_lib rw_sample_config s \<and> rw_validateState 8 s = None \<and> rs_Generation s = 1"
proof -
  obtain es k w' where r: "rw_Scan rw_sample_lib 5 rw_sample_config rw_world = (Inr (es, k), w')" using rw_sample_scan by blast
  have c: "rw_MaxProcesses rw_sample_config = 4" "rw_MaxKnown rw_sample_config = 8" by (simp_all add: rw_sample_config_def)
  have "rw_lib_ok rw_sample_lib" by (simp add: rw_lib_ok_def rw_sample_lib_def min_def)
  from rw_Scan_prepares_valid_state [OF this _ _ rw_sample_load _ r]
  have "\<exists>s. k = rw_saveState rw_sample_lib rw_sample_config s \<and> rw_validateState 8 s = None \<and> rs_Generation s = 1"
    by (simp add: c known_distinct_def old_known_def)
  then show ?thesis using r by blast
qed

theorem rw_assess_event_bound_witness:
  "length (fst (rw_assess rw_sample_lib (rw_sample_config\<lparr>rw_MaxEvents := 0\<rparr>) 5 None
      \<lparr>cr_processes = [], cr_ports = [], cr_processComplete = True, cr_familyComplete = [], cr_issues = []\<rparr>)) \<le> 2"
  using rw_assess_event_bound [of "rw_sample_config\<lparr>rw_MaxEvents := 0\<rparr>" rw_sample_lib 5 None
      "\<lparr>cr_processes = [], cr_ports = [], cr_processComplete = True, cr_familyComplete = [], cr_issues = []\<rparr>"
      "fst (rw_assess rw_sample_lib (rw_sample_config\<lparr>rw_MaxEvents := 0\<rparr>) 5 None
        \<lparr>cr_processes = [], cr_ports = [], cr_processComplete = True, cr_familyComplete = [], cr_issues = []\<rparr>)"
      "snd (rw_assess rw_sample_lib (rw_sample_config\<lparr>rw_MaxEvents := 0\<rparr>) 5 None
        \<lparr>cr_processes = [], cr_ports = [], cr_processComplete = True, cr_familyComplete = [], cr_issues = []\<rparr>)"]
  by simp

end
