(* ===== verification/Ssh_Auth.thy ===== *)
theory Ssh_Auth
  imports Detector_Base Go_Text "HOL-Library.Product_Lexorder"
begin

text \<open>
  internal/detector/sshauth: the detector of SSH logins and brute-force attempts. It reads the new complete
  lines of the authentication logs from the stored offsets (or the journal when no log file is usable),
  counts failures per source address and returns events and a commit that stores the new offsets and counts.

  SHA-256, the JSON encodings and \<open>net.ParseIP\<close> (which gives the canonical text of an address) are the
  fields of \<open>ssh_lib\<close>; the journal is an argument, as it is an interface in the code, and the
  \<open>journalctl\<close> command is an argument of the implementation over systemd. The context is never cancelled.
\<close>

section \<open>Data\<close>

record JournalRecord =
  jr_Cursor :: string
  jr_Message :: string

text \<open>What a \<open>JournalSource\<close> answers during one scan.\<close>

record JournalSource =
  js_Baseline :: "error + string"
  js_ReadAfter :: "string \<Rightarrow> time \<Rightarrow> int \<Rightarrow> error + JournalRecord list \<times> bool"

record ssh_Config =
  sc_StateDir :: string
  sc_Paths :: "string list"
  sc_Journal :: "JournalSource option"
  sc_DisableJournal :: bool
  sc_Threshold :: int
  sc_Window :: duration
  sc_MaxRead :: int
  sc_MaxLines :: int

record fileCursor =
  cu_Exists :: bool
  cu_Offset :: int
  cu_PrefixBytes :: int
  cu_PrefixHash :: string

record failure =
  fa_At :: int
  fa_User :: string
  fa_InvalidUser :: bool

record ssh_state =
  st_SchemaVersion :: int
  st_Generation :: nat
  st_CoverageHash :: string
  st_Files :: "(string, fileCursor) gomap option"
  st_Failures :: "(string, failure list) gomap option"
  st_AlertedUntil :: "(string, int) gomap option"
  st_JournalInitialized :: bool
  st_JournalCursor :: string
  st_JournalSince :: int

record ssh_issue =
  is_Path :: string
  is_Reason :: string

record logLine =
  ll_path :: string
  ll_offset :: int
  ll_text :: string
  ll_key :: string

record authRecord =
  ar_success :: bool
  ar_method :: string
  ar_user :: string
  ar_invalidUser :: bool
  ar_sourceIP :: string
  ar_key :: string

record ssh_lib =
  sl_sha256 :: "string \<Rightarrow> string"
  sl_ParseIP :: "string \<Rightarrow> string option"
  sl_issues_json :: "ssh_issue list \<Rightarrow> string"
  sl_marshal :: "ssh_state \<Rightarrow> error + string"
  sl_decode :: "string \<Rightarrow> error + ssh_state \<times> string"

definition ssh_maxLineBytes :: nat where "ssh_maxLineBytes = 16384"
definition ssh_prefixLimit :: int where "ssh_prefixLimit = 4096"
definition ssh_maxFailureIPs :: nat where "ssh_maxFailureIPs = 4096"
definition ssh_maxAttemptsPerIP :: nat where "ssh_maxAttemptsPerIP = 100"

text \<open>\<open>time.Time.UnixNano\<close>: 64 bits.\<close>

definition UnixNano :: "time \<Rightarrow> int" where
  "UnixNano t = wrap64 t"

section \<open>Configuration\<close>

fun ssh_paths :: "string list \<Rightarrow> string list \<Rightarrow> (error, string list) io" where
  "ssh_paths seen [] = io_return []"
| "ssh_paths seen (raw # raws) =
     (if TrimSpace raw = [] \<or> ContainsAny raw control_chars then io_fail ''SSH auth log path is invalid''
      else io_bind (os_label ''resolve SSH auth log path: '' (AbsPath (TrimSpace raw))) (\<lambda>p.
        let path = Clean p
        in if path \<in> set seen then ssh_paths seen raws
           else io_bind (ssh_paths (path # seen) raws) (\<lambda>ps. io_return (path # ps))))"

text \<open>\<open>New\<close> on Linux. The detector's own journal is \<open>systemd\<close> unless the configuration names one.\<close>

definition ssh_New :: "JournalSource \<Rightarrow> ssh_Config \<Rightarrow> (error, ssh_Config) io" where
  "ssh_New systemd config =
     (if TrimSpace (sc_StateDir config) = [] then io_fail ''SSH auth state directory is required''
      else io_bind (os_label ''resolve SSH auth state directory: '' (AbsPath (sc_StateDir config))) (\<lambda>stateDir.
        let threshold = (if sc_Threshold config = 0 then 5 else sc_Threshold config);
            window = (if sc_Window config = 0 then 5 * minute else sc_Window config);
            maxRead = (if sc_MaxRead config = 0 then 4194304 else sc_MaxRead config);
            maxLines = (if sc_MaxLines config = 0 then 5000 else sc_MaxLines config)
        in if threshold < 2 \<or> 100 < threshold
           then io_fail ''SSH brute-force threshold must be between 2 and 100''
           else if window < 10 * second \<or> 24 * hour < window
           then io_fail ''SSH brute-force window must be between 10 seconds and 24 hours''
           else if maxRead < 4096 \<or> 67108864 < maxRead
           then io_fail ''SSH auth max read must be between 4 KiB and 64 MiB''
           else if maxLines < 1 \<or> 100000 < maxLines
           then io_fail ''SSH auth max lines must be between 1 and 100000''
           else if 16 < length (sc_Paths config) then io_fail ''SSH auth supports at most 16 log paths''
           else io_bind (ssh_paths [] (sc_Paths config)) (\<lambda>paths.
             io_return (config\<lparr>sc_StateDir := stateDir, sc_Threshold := threshold, sc_Window := window,
               sc_MaxRead := maxRead, sc_MaxLines := maxLines, sc_Paths := sort paths,
               sc_Journal := (if sc_Journal config = None \<and> \<not> sc_DisableJournal config then Some systemd
                              else sc_Journal config)\<rparr>))))"

definition ssh_DefaultPaths :: "string list" where
  "ssh_DefaultPaths = [''/var/log/auth.log'', ''/var/log/secure'']"

section \<open>Parsing a line\<close>

definition validUser :: "string \<Rightarrow> bool" where
  "validUser name \<longleftrightarrow> name \<noteq> [] \<and> length name \<le> 128
     \<and> \<not> ContainsAny name [byte 0, byte 13, byte 10, byte 9, CHR '' '']"

definition validJournalCursor :: "string \<Rightarrow> bool" where
  "validJournalCursor c \<longleftrightarrow> length c \<le> 1024 \<and> \<not> ContainsAny c control_chars"

definition normalizedIP :: "ssh_lib \<Rightarrow> string \<Rightarrow> string option" where
  "normalizedIP lib raw = sl_ParseIP lib (Trim raw ''[]'')"

definition normalizeMethod :: "string \<Rightarrow> string" where
  "normalizeMethod method = TrimSuffix method ''/pam''"

text \<open>The parts of the three regular expressions, each matched at the start of a text. The method is one of three
  words, so the alternatives exclude one another; a user and an address end at the next space, so their
  repetitions cannot give anything back.\<close>

definition match_method :: "string \<Rightarrow> (string \<times> string) option" where
  "match_method s =
     (case filter (\<lambda>m. HasPrefix s m) [''password'', ''publickey'', ''keyboard-interactive/pam'', ''keyboard-interactive''] of
        [] \<Rightarrow> None
      | m # _ \<Rightarrow> Some (m, drop (length m) s))"

definition to_space :: "string \<Rightarrow> string \<times> string" where
  "to_space s = (takeWhile (\<lambda>c. c \<noteq> CHR '' '') s, dropWhile (\<lambda>c. c \<noteq> CHR '' '') s)"

definition match_source :: "string \<Rightarrow> (string \<times> string) option" where
  "match_source s =
     (case to_space s of (user, s1) \<Rightarrow>
        if user = [] \<or> 128 < RuneCount user then None
        else case CutPrefix s1 '' from '' of
          None \<Rightarrow> None
        | Some s2 \<Rightarrow>
            (case to_space s2 of (ip, s3) \<Rightarrow>
               if ip = [] then None
               else case CutPrefix s3 '' port '' of
                 Some (d # _) \<Rightarrow> if dec_digit d then Some (user, ip) else None
               | _ \<Rightarrow> None))"

definition match_invalid :: "string \<Rightarrow> (bool \<times> string \<times> string) option" where
  "match_invalid s =
     (case Option.bind (CutPrefix s ''invalid user '') match_source of
        Some m \<Rightarrow> Some (True, m)
      | None \<Rightarrow> map_option (Pair False) (match_source s))"

definition match_failed :: "string \<Rightarrow> (string \<times> bool \<times> string \<times> string) option" where
  "match_failed s =
     Option.bind (CutPrefix s ''Failed '') (\<lambda>s1.
       Option.bind (match_method s1) (\<lambda>(method, s2).
         Option.bind (CutPrefix s2 '' for '') (\<lambda>s3. map_option (Pair method) (match_invalid s3))))"

definition match_accepted :: "string \<Rightarrow> (string \<times> string \<times> string) option" where
  "match_accepted s =
     Option.bind (CutPrefix s ''Accepted '') (\<lambda>s1.
       Option.bind (match_method s1) (\<lambda>(method, s2).
         Option.bind (CutPrefix s2 '' for '') (\<lambda>s3. map_option (Pair method) (match_source s3))))"

definition match_maximum :: "string \<Rightarrow> (bool \<times> string \<times> string) option" where
  "match_maximum s =
     Option.bind (CutPrefix s ''maximum authentication attempts exceeded for '') match_invalid"

text \<open>\<open>FindStringSubmatch\<close>: the leftmost match.\<close>

fun find_match :: "(string \<Rightarrow> 'a option) \<Rightarrow> string \<Rightarrow> 'a option" where
  "find_match f [] = f []"
| "find_match f (c # s) = (case f (c # s) of Some m \<Rightarrow> Some m | None \<Rightarrow> find_match f s)"

definition lineKey :: "ssh_lib \<Rightarrow> logLine \<Rightarrow> string" where
  "lineKey lib line =
     (if ll_key line \<noteq> [] then ll_path line @ '':'' @ ll_key line
      else ll_path line @ '':'' @ FormatInt (ll_offset line) @ '':''
             @ EncodeToString (take 8 (sl_sha256 lib (ll_text line))))"

definition auth_record :: "ssh_lib \<Rightarrow> logLine \<Rightarrow> bool \<Rightarrow> string \<Rightarrow> bool \<Rightarrow> string \<Rightarrow> string \<Rightarrow> authRecord option" where
  "auth_record lib line success method invalid user raw =
     (if \<not> validUser user then None
      else map_option (\<lambda>ip. \<lparr>ar_success = success, ar_method = method, ar_user = user, ar_invalidUser = invalid,
                             ar_sourceIP = ip, ar_key = lineKey lib line\<rparr>) (normalizedIP lib raw))"

definition parseAuthLine :: "ssh_lib \<Rightarrow> logLine \<Rightarrow> authRecord option" where
  "parseAuthLine lib line =
     (case find_match match_failed (ll_text line) of
        Some (method, invalid, user, raw) \<Rightarrow> auth_record lib line False (normalizeMethod method) invalid user raw
      | None \<Rightarrow>
          (case find_match match_accepted (ll_text line) of
             Some (method, user, raw) \<Rightarrow> auth_record lib line True (normalizeMethod method) False user raw
           | None \<Rightarrow>
               (case find_match match_maximum (ll_text line) of
                  Some (invalid, user, raw) \<Rightarrow> auth_record lib line False ''maximum_attempts'' invalid user raw
                | None \<Rightarrow> None)))"

section \<open>Reading the logs\<close>

definition zero_cursor :: fileCursor where
  "zero_cursor = \<lparr>cu_Exists = False, cu_Offset = 0, cu_PrefixBytes = 0, cu_PrefixHash = []\<rparr>"

definition hashPrefix :: "ssh_lib \<Rightarrow> string \<Rightarrow> int \<Rightarrow> (error, string) io" where
  "hashPrefix lib path n =
     (if n = 0 then io_return []
      else io_bind (os_label [] (ReadFile path)) (\<lambda>content.
        if n < 0 \<or> int (length content) < n then io_fail ''read SSH auth log prefix''
        else io_return (EncodeToString (sl_sha256 lib (take (nat n) content)))))"

text \<open>The loop over the complete lines: the lines so far, the next offset, whether a limit was reached, whether an
  overlong line was skipped.\<close>

fun line_loop ::
  "string \<Rightarrow> int \<Rightarrow> int \<Rightarrow> string list \<Rightarrow> int \<Rightarrow> logLine list \<Rightarrow> bool \<Rightarrow> bool \<Rightarrow> logLine list \<times> int \<times> bool \<times> bool" where
  "line_loop path maxLines nextOffset [] lineOffset ls limited oversized = (ls, nextOffset, limited, oversized)"
| "line_loop path maxLines nextOffset (part # parts) lineOffset ls limited oversized =
     (if ssh_maxLineBytes < length part
      then line_loop path maxLines nextOffset parts (lineOffset + int (length part + 1)) ls limited True
      else if int (length ls) < maxLines
      then line_loop path maxLines nextOffset parts (lineOffset + int (length part + 1))
             (ls @ [\<lparr>ll_path = path, ll_offset = lineOffset, ll_text = part, ll_key = []\<rparr>]) limited oversized
      else (ls, lineOffset, True, oversized))"

text \<open>What \<open>readLines\<close> makes of the bytes behind the offset, at most one more than the read limit.\<close>

definition take_lines :: "string \<Rightarrow> int \<Rightarrow> int \<Rightarrow> int \<Rightarrow> string \<Rightarrow> logLine list \<times> int \<times> bool \<times> bool" where
  "take_lines path maxRead maxLines offset bytes =
     (let limited = maxRead < int (length bytes);
          content = (if limited then take (nat maxRead) bytes else bytes)
      in if byte 10 \<notin> set content
         then (if limited then ([], offset + int (length content), True, True) else ([], offset, False, False))
         else (let complete = rev (dropWhile (\<lambda>c. c \<noteq> byte 10) (rev content))
               in line_loop path maxLines (offset + int (length complete)) (butlast (SplitChar (byte 10) complete))
                    offset [] limited False))"

definition readLines :: "ssh_Config \<Rightarrow> string \<Rightarrow> int \<Rightarrow> int \<Rightarrow> (error, logLine list \<times> int \<times> bool \<times> bool) io" where
  "readLines config path offset maxLines =
     io_bind (os_label [] (ReadFile path)) (\<lambda>file.
       if offset < 0 then io_fail ''invalid argument''
       else io_return (take_lines path (sc_MaxRead config) maxLines offset
              (take (nat (sc_MaxRead config + 1)) (drop (nat offset) file))))"

definition issue_at :: "string \<Rightarrow> string \<Rightarrow> ssh_issue" where
  "issue_at path reason = \<lparr>is_Path = path, is_Reason = reason\<rparr>"

text \<open>Where to read from, and the prefix that identifies the file: from the end when there is no state yet, from the
  start when the file is new, has shrunk or begins differently, else from the stored offset.\<close>

definition cursor_start ::
  "ssh_lib \<Rightarrow> string \<Rightarrow> fileCursor \<Rightarrow> bool \<Rightarrow> int \<Rightarrow> int \<Rightarrow> string \<Rightarrow> (error, int \<times> int \<times> string) io" where
  "cursor_start lib path previous stateExists fsize prefixBytes prefixHash =
     (if \<not> stateExists then io_return (fsize, prefixBytes, prefixHash)
      else if \<not> cu_Exists previous \<or> fsize < cu_Offset previous \<or> cu_PrefixHash previous \<noteq> prefixHash
      then io_bind (hashPrefix lib path (min fsize ssh_prefixLimit)) (\<lambda>h.
             io_return (0, min fsize ssh_prefixLimit, h))
      else io_return (cu_Offset previous, prefixBytes, prefixHash))"

definition readPath ::
  "ssh_lib \<Rightarrow> ssh_Config \<Rightarrow> string \<Rightarrow> fileCursor \<Rightarrow> bool \<Rightarrow> int \<Rightarrow> world
     \<Rightarrow> (fileCursor \<times> logLine list \<times> ssh_issue list \<times> bool) \<times> world" where
  "readPath lib config path previous stateExists maxLines w =
     (case Lstat path w of
        (Inl OsNotExist, w) \<Rightarrow> ((zero_cursor, [], [], False), w)
      | (Inl _, w) \<Rightarrow> ((previous, [], [issue_at path ''unreadable_or_unsafe''], False), w)
      | (Inr info, w) \<Rightarrow>
          if \<not> is_regular info then ((previous, [], [issue_at path ''unreadable_or_unsafe''], False), w)
          else let fsize = int (node_size info);
                   prefixBytes = (if \<not> cu_Exists previous \<or> cu_PrefixBytes previous = 0 then min fsize ssh_prefixLimit
                                  else cu_PrefixBytes previous)
               in case io_bind (hashPrefix lib path prefixBytes) (\<lambda>prefixHash.
                    io_bind (cursor_start lib path previous stateExists fsize prefixBytes prefixHash) (\<lambda>(offset, pb, ph).
                      io_bind (readLines config path offset maxLines) (\<lambda>found. io_return (pb, ph, found)))) w of
                 (Inl _, w) \<Rightarrow> ((previous, [], [issue_at path ''unreadable''], False), w)
               | (Inr (pb, ph, ls, nextOffset, limited, oversized), w) \<Rightarrow>
                   ((\<lparr>cu_Exists = True, cu_Offset = nextOffset, cu_PrefixBytes = pb, cu_PrefixHash = ph\<rparr>, ls,
                     (if limited then [issue_at path ''read_limit_reached''] else [])
                       @ (if oversized then [issue_at path ''oversized_line_skipped''] else []), True), w))"

section \<open>The journal\<close>

text \<open>What running \<open>journalctl\<close> gives: an error to open its output or to start it, or what it prints and whether it
  ends well.\<close>

type_synonym journalctl = "string list \<Rightarrow> error + string \<times> bool"

fun journal_loop ::
  "(string \<Rightarrow> JournalRecord option) \<Rightarrow> nat \<Rightarrow> string list \<Rightarrow> JournalRecord list \<Rightarrow> JournalRecord list \<times> bool" where
  "journal_loop decode maxRecords [] records = (records, False)"
| "journal_loop decode maxRecords (line # ls) records =
     (case decode line of
        None \<Rightarrow> journal_loop decode maxRecords ls records
      | Some record \<Rightarrow>
          if \<not> validJournalCursor (jr_Cursor record) then journal_loop decode maxRecords ls records
          else if maxRecords \<le> Suc (length records) then (records @ [record], True)
          else journal_loop decode maxRecords ls (records @ [record]))"

definition runJournalctl ::
  "journalctl \<Rightarrow> (string \<Rightarrow> JournalRecord option) \<Rightarrow> string list \<Rightarrow> nat \<Rightarrow> error + JournalRecord list \<times> bool" where
  "runJournalctl command decode arguments maxRecords =
     (case command arguments of
        Inl e \<Rightarrow> Inl e
      | Inr (stdout, exit_ok) \<Rightarrow>
          (case scan_lines_max 262144 stdout of (ls, too_long) \<Rightarrow>
             (case journal_loop decode maxRecords ls [] of (records, stopped) \<Rightarrow>
                if too_long \<and> \<not> stopped then Inl ''read journalctl output''
                else if \<not> exit_ok \<and> \<not> stopped then Inl ''journalctl query failed''
                else Inr (records, stopped))))"

definition SystemdJournal_Baseline :: "journalctl \<Rightarrow> (string \<Rightarrow> JournalRecord option) \<Rightarrow> error + string" where
  "SystemdJournal_Baseline command decode =
     (case runJournalctl command decode
             [''--quiet'', ''--no-pager'', ''--output=json'', ''--reverse'', ''--lines=1'', ''_COMM=sshd''] 2 of
        Inl e \<Rightarrow> Inl e
      | Inr ([], _) \<Rightarrow> Inr []
      | Inr (record # _, _) \<Rightarrow> Inr (jr_Cursor record))"

definition SystemdJournal_ReadAfter ::
  "journalctl \<Rightarrow> (string \<Rightarrow> JournalRecord option) \<Rightarrow> string \<Rightarrow> time \<Rightarrow> int \<Rightarrow> error + JournalRecord list \<times> bool" where
  "SystemdJournal_ReadAfter command decode cursor since limit =
     (if limit < 1 then Inl ''journal record limit must be positive''
      else if cursor \<noteq> [] \<and> \<not> validJournalCursor cursor then Inl ''journal cursor is invalid''
      else
        let position = (if cursor \<noteq> [] then ''--after-cursor='' @ cursor
              else ''--since=@'' @ FormatInt (since div second) @ ''.''
                     @ pad_left 6 (CHR ''0'') (FormatInt (since mod second div 1000)))
        in case runJournalctl command decode [''--quiet'', ''--no-pager'', ''--output=json'', position, ''_COMM=sshd'']
                  (nat (limit + 1)) of
             Inl e \<Rightarrow> Inl e
           | Inr (records, stopped) \<Rightarrow>
               Inr (take (nat limit) records, stopped \<or> limit < int (length records)))"

definition SystemdJournal :: "journalctl \<Rightarrow> (string \<Rightarrow> JournalRecord option) \<Rightarrow> JournalSource" where
  "SystemdJournal command decode =
     \<lparr>js_Baseline = SystemdJournal_Baseline command decode, js_ReadAfter = SystemdJournal_ReadAfter command decode\<rparr>"

fun journal_lines :: "JournalRecord list \<Rightarrow> logLine list \<Rightarrow> string \<Rightarrow> logLine list \<times> string" where
  "journal_lines [] ls cursor = (ls, cursor)"
| "journal_lines (record # records) ls cursor =
     (if \<not> validJournalCursor (jr_Cursor record) \<or> ssh_maxLineBytes < length (jr_Message record)
      then journal_lines records ls cursor
      else journal_lines records
             (ls @ [\<lparr>ll_path = ''systemd-journal'', ll_offset = 0, ll_text = jr_Message record, ll_key = jr_Cursor record\<rparr>])
             (jr_Cursor record))"

definition readJournal ::
  "JournalSource \<Rightarrow> ssh_state \<Rightarrow> ssh_state \<Rightarrow> time \<Rightarrow> int \<Rightarrow> logLine list \<times> ssh_issue list \<times> ssh_state" where
  "readJournal journal previous next_state now maxLines =
     (let restart = (\<lambda>cursor. next_state\<lparr>st_JournalInitialized := True, st_JournalCursor := cursor,
                                          st_JournalSince := UnixNano now\<rparr>)
      in if maxLines \<le> 0 then ([], [issue_at ''systemd-journal'' ''line_limit_reached''], next_state)
         else if \<not> st_JournalInitialized previous
         then (case js_Baseline journal of
                 Inl _ \<Rightarrow> ([], [issue_at ''systemd-journal'' ''unavailable''], next_state)
               | Inr cursor \<Rightarrow> ([], [], restart cursor))
         else (case js_ReadAfter journal (st_JournalCursor previous) (st_JournalSince previous) maxLines of
                 Inl _ \<Rightarrow>
                   ([], [issue_at ''systemd-journal'' ''cursor_unavailable''],
                    (case js_Baseline journal of Inl _ \<Rightarrow> next_state | Inr cursor \<Rightarrow> restart cursor))
               | Inr (records, limited) \<Rightarrow>
                   (case journal_lines records [] (st_JournalCursor next_state) of (ls, cursor) \<Rightarrow>
                      (ls, if limited then [issue_at ''systemd-journal'' ''read_limit_reached''] else [],
                       next_state\<lparr>st_JournalCursor := cursor\<rparr>))))"

section \<open>Counting failures\<close>

definition sshEvent ::
  "ssh_lib \<Rightarrow> string \<Rightarrow> Severity \<Rightarrow> string \<Rightarrow> time \<Rightarrow> nat \<Rightarrow> string \<Rightarrow> (string \<times> goany) list \<Rightarrow> Event" where
  "sshEvent lib kind severity summary now generation key evidence =
     \<lparr>event_ID = ''evt_ssh_'' @ EncodeToString (take 12 (sl_sha256 lib
         (kind @ [byte 0] @ FormatNat generation @ [byte 0] @ key))),
      event_AgentID = [], event_Kind = kind, event_Severity = severity, event_Summary = summary,
      event_OccurredAt = now, event_ReceivedAt = zero_time, event_Evidence = Some evidence\<rparr>"

abbreviation failures_of :: "ssh_state \<Rightarrow> (string, failure list) gomap" where
  "failures_of s \<equiv> case_option [] id (st_Failures s)"

abbreviation alerted_of :: "ssh_state \<Rightarrow> (string, int) gomap" where
  "alerted_of s \<equiv> case_option [] id (st_AlertedUntil s)"

abbreviation files_of :: "ssh_state \<Rightarrow> (string, fileCursor) gomap" where
  "files_of s \<equiv> case_option [] id (st_Files s)"

definition attempts_of :: "ssh_state \<Rightarrow> string \<Rightarrow> failure list" where
  "attempts_of s ip = case_option [] id (map_of (failures_of s) ip)"

definition alerted_until :: "ssh_state \<Rightarrow> string \<Rightarrow> int" where
  "alerted_until s ip = case_option 0 id (map_of (alerted_of s) ip)"

definition forget_ip :: "string \<Rightarrow> ssh_state \<Rightarrow> ssh_state" where
  "forget_ip ip s = s\<lparr>st_Failures := Some (AList.delete ip (failures_of s)),
                      st_AlertedUntil := Some (AList.delete ip (alerted_of s))\<rparr>"

text \<open>The loop of \<open>pruneOldestIP\<close>: the address whose latest failure is the oldest.\<close>

fun oldest_loop :: "(string, failure list) gomap \<Rightarrow> string \<Rightarrow> int \<Rightarrow> string" where
  "oldest_loop [] oldestIP oldest = oldestIP"
| "oldest_loop ((ip, attempts) # m) oldestIP oldest =
     (if attempts \<noteq> [] \<and> fa_At (last attempts) < oldest then oldest_loop m ip (fa_At (last attempts))
      else oldest_loop m oldestIP oldest)"

definition pruneOldestIP :: "ssh_state \<Rightarrow> ssh_state" where
  "pruneOldestIP s =
     (let oldestIP = oldest_loop (failures_of s) [] (2 ^ 63 - 1)
      in if oldestIP \<noteq> [] then forget_ip oldestIP s else s)"

definition success_event :: "ssh_lib \<Rightarrow> nat \<Rightarrow> authRecord \<Rightarrow> time \<Rightarrow> nat \<Rightarrow> Event" where
  "success_event lib preceding record now generation =
     (let suspicious = 3 \<le> preceding
      in sshEvent lib (if suspicious then ''ssh.auth.suspicious_success'' else ''ssh.auth.succeeded'')
           (if suspicious then SeverityHigh else SeverityLow)
           (if suspicious then ''SSH authentication succeeded after repeated failures'' else ''SSH authentication succeeded'')
           now generation (ar_key record)
           [(''source_ip'', AStr (ar_sourceIP record)), (''user'', AStr (ar_user record)),
            (''method'', AStr (ar_method record)), (''preceding_failures'', AInt (int preceding)),
            (''read_only'', ABool True)])"

definition bruteforce_event :: "ssh_lib \<Rightarrow> ssh_Config \<Rightarrow> failure list \<Rightarrow> authRecord \<Rightarrow> time \<Rightarrow> nat \<Rightarrow> Event" where
  "bruteforce_event lib config attempts record now generation =
     sshEvent lib ''ssh.auth.bruteforce'' SeverityHigh ''Repeated SSH authentication failures crossed the threshold''
       now generation (ar_sourceIP record @ '':'' @ ar_key record)
       [(''source_ip'', AStr (ar_sourceIP record)), (''attempts'', AInt (int (length attempts))),
        (''unique_users'', AInt (int (length (remdups (map fa_User attempts))))),
        (''invalid_user_attempts'', AInt (int (length (filter fa_InvalidUser attempts)))),
        (''window_seconds'', AInt (sc_Window config div second)), (''read_only'', ABool True)]"

text \<open>The failures of the address with the new one, the latest hundred of them.\<close>

definition add_attempt :: "ssh_state \<Rightarrow> authRecord \<Rightarrow> time \<Rightarrow> failure list" where
  "add_attempt s record now =
     (let attempts = attempts_of s (ar_sourceIP record)
            @ [\<lparr>fa_At = UnixNano now, fa_User = ar_user record, fa_InvalidUser = ar_invalidUser record\<rparr>]
      in drop (length attempts - ssh_maxAttemptsPerIP) attempts)"

definition applyRecord :: "ssh_lib \<Rightarrow> ssh_Config \<Rightarrow> ssh_state \<Rightarrow> authRecord \<Rightarrow> time \<Rightarrow> nat \<Rightarrow> Event list \<times> ssh_state" where
  "applyRecord lib config s record now generation =
     (if ar_success record
      then ([success_event lib (length (attempts_of s (ar_sourceIP record))) record now generation],
            forget_ip (ar_sourceIP record) s)
      else
        let attempts = add_attempt s record now;
            s = s\<lparr>st_Failures := Some (AList.update (ar_sourceIP record) attempts (failures_of s))\<rparr>;
            s = (if ssh_maxFailureIPs < length (failures_of s) then pruneOldestIP s else s)
        in if int (length attempts) < sc_Threshold config \<or> UnixNano now < alerted_until s (ar_sourceIP record)
           then ([], s)
           else ([bruteforce_event lib config attempts record now generation],
                 s\<lparr>st_AlertedUntil := Some (AList.update (ar_sourceIP record) (UnixNano (now + sc_Window config)) (alerted_of s))\<rparr>))"

text \<open>\<open>pruneFailures\<close>: the turn of the loop for one address.\<close>

definition prune_ip :: "time \<Rightarrow> time \<Rightarrow> string \<times> failure list \<Rightarrow> ssh_state \<Rightarrow> ssh_state" where
  "prune_ip now cutoff entry s =
     (case entry of (ip, attempts) \<Rightarrow>
        let kept = filter (\<lambda>a. UnixNano cutoff \<le> fa_At a) attempts
        in if kept = []
           then (if alerted_until s ip \<le> UnixNano now then forget_ip ip s
                 else s\<lparr>st_Failures := Some (AList.delete ip (failures_of s))\<rparr>)
           else s\<lparr>st_Failures := Some (AList.update ip kept (failures_of s))\<rparr>)"

definition pruneFailures :: "ssh_state \<Rightarrow> time \<Rightarrow> time \<Rightarrow> ssh_state" where
  "pruneFailures s now cutoff = fold (prune_ip now cutoff) (failures_of s) s"

section \<open>State\<close>

fun first_error :: "('a \<Rightarrow> error option) \<Rightarrow> 'a list \<Rightarrow> error option" where
  "first_error f [] = None"
| "first_error f (x # xs) = (case f x of Some e \<Rightarrow> Some e | None \<Rightarrow> first_error f xs)"

definition cursor_error :: "string \<times> fileCursor \<Rightarrow> error option" where
  "cursor_error entry =
     (case entry of (path, cursor) \<Rightarrow>
        if \<not> IsAbs path \<or> Clean path \<noteq> path \<or> cu_Offset cursor < 0 \<or> cu_PrefixBytes cursor < 0
           \<or> ssh_prefixLimit < cu_PrefixBytes cursor
        then Some ''SSH auth state has an invalid file cursor''
        else if cu_PrefixHash cursor \<noteq> [] \<and> \<not> lower_sha256 (cu_PrefixHash cursor)
        then Some ''SSH auth state has an invalid prefix hash''
        else None)"

definition failures_error :: "ssh_lib \<Rightarrow> string \<times> failure list \<Rightarrow> error option" where
  "failures_error lib entry =
     (case entry of (ip, attempts) \<Rightarrow>
        if sl_ParseIP lib ip = None \<or> ssh_maxAttemptsPerIP < length attempts
        then Some ''SSH auth state has invalid failure history''
        else if list_ex (\<lambda>a. fa_At a \<le> 0 \<or> \<not> validUser (fa_User a)) attempts
        then Some ''SSH auth state has an invalid failure attempt''
        else None)"

definition alerted_error :: "ssh_lib \<Rightarrow> string \<times> int \<Rightarrow> error option" where
  "alerted_error lib entry =
     (case entry of (ip, until) \<Rightarrow>
        if sl_ParseIP lib ip = None \<or> until < 0 then Some ''SSH auth state has invalid alert suppression'' else None)"

definition ssh_journal_error :: "ssh_state \<Rightarrow> error option" where
  "ssh_journal_error s =
     (if st_JournalInitialized s
      then (if st_JournalSince s \<le> 0 \<or> \<not> validJournalCursor (st_JournalCursor s)
            then Some ''SSH auth state has an invalid journal cursor'' else None)
      else (if st_JournalCursor s \<noteq> [] \<or> st_JournalSince s \<noteq> 0
            then Some ''SSH auth state has inconsistent journal state'' else None))"

definition ssh_validateState :: "ssh_lib \<Rightarrow> ssh_state \<Rightarrow> error option" where
  "ssh_validateState lib s =
     (if st_SchemaVersion s \<noteq> 1 \<or> st_Generation s = 0
      then Some ''SSH auth state has an unsupported schema or generation''
      else case (st_Files s, st_Failures s, st_AlertedUntil s) of
        (Some files, Some failures, Some alerted) \<Rightarrow>
          if 16 < length files \<or> ssh_maxFailureIPs < length failures
          then Some ''SSH auth state has invalid collections''
          else (case first_error cursor_error files of
                  Some e \<Rightarrow> Some e
                | None \<Rightarrow>
                    (case first_error (failures_error lib) failures of
                       Some e \<Rightarrow> Some e
                     | None \<Rightarrow>
                         (case first_error (alerted_error lib) alerted of
                            Some e \<Rightarrow> Some e
                          | None \<Rightarrow> ssh_journal_error s)))
      | _ \<Rightarrow> Some ''SSH auth state has invalid collections'')"

definition ssh_file :: "ssh_lib \<Rightarrow> ssh_Config \<Rightarrow> ssh_state state_file" where
  "ssh_file lib config =
     \<lparr>sf_dir = JoinPath [sc_StateDir config, ''detectors''], sf_name = ''ssh-auth-state.json'',
      sf_pre = ''.ssh-auth-'', sf_max = 4194304,
      sf_not_small = ''SSH auth state must be a small regular file'',
      sf_trailing = ''SSH auth state contains trailing JSON'',
      sf_too_large = ''SSH auth state exceeds size limit'',
      sf_stat_label = [], sf_open_label = [], sf_decode_label = ''decode SSH auth state: '',
      sf_encode_label = [], sf_mkdir_label = [], sf_chmod_label = [], sf_create_label = [], sf_replace_label = [],
      sf_decode = sl_decode lib, sf_marshal = sl_marshal lib, sf_validate = ssh_validateState lib\<rparr>"

definition ssh_loadState :: "ssh_lib \<Rightarrow> ssh_Config \<Rightarrow> (error, ssh_state option) io" where
  "ssh_loadState lib config = load_state (ssh_file lib config)"

definition ssh_saveState :: "ssh_lib \<Rightarrow> ssh_Config \<Rightarrow> ssh_state \<Rightarrow> commit" where
  "ssh_saveState lib config s = save_state (ssh_file lib config) s"

section \<open>The scan\<close>

definition ssh_coverageEvidence :: "ssh_lib \<Rightarrow> ssh_issue list \<Rightarrow> (string \<times> goany) list" where
  "ssh_coverageEvidence lib issues =
     [(''issue_count'', AInt (int (length issues))), (''issues'', ARaw (sl_issues_json lib (take 20 issues))),
      (''read_only'', ABool True)]"

definition ssh_hashValue :: "ssh_lib \<Rightarrow> ssh_issue list \<Rightarrow> string" where
  "ssh_hashValue lib issues =
     (let encoded = sl_issues_json lib issues
      in if encoded = ''[]'' \<or> encoded = ''null'' then [] else EncodeToString (sl_sha256 lib encoded))"

text \<open>The state before the first commit, with \<open>previous\<close> the zero value, and the start of the next state.\<close>

definition zero_state :: ssh_state where
  "zero_state = \<lparr>st_SchemaVersion = 0, st_Generation = 0, st_CoverageHash = [], st_Files = None, st_Failures = None,
     st_AlertedUntil = None, st_JournalInitialized = False, st_JournalCursor = [], st_JournalSince = 0\<rparr>"

definition cloneState :: "ssh_state \<Rightarrow> ssh_state" where
  "cloneState s = s\<lparr>st_Files := Some (files_of s), st_Failures := Some (failures_of s), st_AlertedUntil := Some (alerted_of s)\<rparr>"

definition next_start :: "ssh_state option \<Rightarrow> ssh_state" where
  "next_start previous =
     (case previous of
        None \<Rightarrow> (cloneState zero_state)\<lparr>st_SchemaVersion := 1, st_Generation := 1\<rparr>
      | Some p \<Rightarrow> (cloneState p)\<lparr>st_Generation := st_Generation p + 1\<rparr>)"

text \<open>The loop over the log paths: the next cursors, the lines, the issues and whether some file was usable.\<close>

fun path_loop ::
  "ssh_lib \<Rightarrow> ssh_Config \<Rightarrow> ssh_state option \<Rightarrow> string list
     \<Rightarrow> (string, fileCursor) gomap \<times> logLine list \<times> ssh_issue list \<times> bool \<Rightarrow> world
     \<Rightarrow> ((string, fileCursor) gomap \<times> logLine list \<times> ssh_issue list \<times> bool) \<times> world" where
  "path_loop lib config previous [] acc w = (acc, w)"
| "path_loop lib config previous (path # paths) (files, ls, issues, usable) w =
     (let oldCursor = case_option zero_cursor id (map_of (case_option [] files_of previous) path);
          remainingLines = sc_MaxLines config - int (length ls)
      in if remainingLines \<le> 0
         then path_loop lib config previous paths
                (AList.update path oldCursor files, ls, issues @ [issue_at path ''line_limit_reached''], usable) w
         else case readPath lib config path oldCursor (previous \<noteq> None) remainingLines w of
           ((cursor, fileLines, fileIssues, readable), w) \<Rightarrow>
             path_loop lib config previous paths
               (AList.update path cursor files, ls @ fileLines, issues @ fileIssues, usable \<or> readable) w)"

fun record_loop ::
  "ssh_lib \<Rightarrow> ssh_Config \<Rightarrow> time \<Rightarrow> nat \<Rightarrow> logLine list \<Rightarrow> Event list \<times> ssh_state \<Rightarrow> Event list \<times> ssh_state" where
  "record_loop lib config now generation [] acc = acc"
| "record_loop lib config now generation (line # ls) (events, s) =
     (case parseAuthLine lib line of
        None \<Rightarrow> record_loop lib config now generation ls (events, s)
      | Some record \<Rightarrow>
          (case applyRecord lib config s record now generation of
             (new_events, s) \<Rightarrow> record_loop lib config now generation ls (events @ new_events, s)))"

definition ssh_issue_key :: "ssh_issue \<Rightarrow> string \<times> string" where
  "ssh_issue_key i = (is_Path i, is_Reason i)"

definition ssh_coverage_events ::
  "ssh_lib \<Rightarrow> time \<Rightarrow> ssh_state option \<Rightarrow> ssh_issue list \<Rightarrow> string \<Rightarrow> Event list \<Rightarrow> Event list" where
  "ssh_coverage_events lib now previous issues coverageHash events =
     (let generation = case_option 0 st_Generation previous; oldHash = case_option [] st_CoverageHash previous
      in if coverageHash = oldHash then events
         else if issues \<noteq> []
         then events @ [sshEvent lib ''ssh.auth.coverage_limited'' SeverityMedium ''SSH authentication log coverage is limited''
                          now generation (''coverage:'' @ coverageHash) (ssh_coverageEvidence lib issues)]
         else if previous \<noteq> None \<and> oldHash \<noteq> []
         then events @ [sshEvent lib ''ssh.auth.coverage_restored'' SeverityInfo ''SSH authentication log coverage was restored''
                          now generation ''coverage-restored'' [(''read_only'', ABool True)]]
         else events)"

text \<open>The part of \<open>Scan\<close> after the files are read.\<close>

definition ssh_assess ::
  "ssh_lib \<Rightarrow> ssh_Config \<Rightarrow> time \<Rightarrow> ssh_state option \<Rightarrow> (string, fileCursor) gomap \<times> logLine list \<times> ssh_issue list \<times> bool
     \<Rightarrow> Event list \<times> ssh_state" where
  "ssh_assess lib config now previous found =
     (case found of (files, ls, issues, usable) \<Rightarrow>
        let s = (next_start previous)\<lparr>st_Files := Some files\<rparr>;
            (ls, issues, s) =
              (if usable
               then (ls, issues, s\<lparr>st_JournalInitialized := False, st_JournalCursor := [], st_JournalSince := 0\<rparr>)
               else case sc_Journal config of
                 None \<Rightarrow> (ls, issues, s)
               | Some journal \<Rightarrow>
                   (case readJournal journal (case_option zero_state id previous) s now (sc_MaxLines config - int (length ls)) of
                      (journalLines, journalIssues, s) \<Rightarrow> (ls @ journalLines, issues @ journalIssues, s)));
            s = pruneFailures s now (now - sc_Window config);
            (events, s) = record_loop lib config now (case_option 0 st_Generation previous) ls ([], s);
            issues = sort_key ssh_issue_key issues;
            coverageHash = ssh_hashValue lib issues
        in (ssh_coverage_events lib now previous issues coverageHash events, s\<lparr>st_CoverageHash := coverageHash\<rparr>))"

definition ssh_Scan :: "ssh_lib \<Rightarrow> time \<Rightarrow> ssh_Config \<Rightarrow> (error, Event list \<times> commit) io" where
  "ssh_Scan lib now config =
     io_bind (ssh_loadState lib config) (\<lambda>previous.
       if previous \<noteq> None \<and> case_option 0 st_Generation previous = 2 ^ 64 - 1
       then io_fail ''SSH auth state generation is exhausted''
       else (\<lambda>w. case path_loop lib config previous (sc_Paths config) (case_option [] files_of previous, [], [], False) w of
          (found, w) \<Rightarrow>
            (case ssh_assess lib config now previous found of
               (events, next_state) \<Rightarrow> (Inr (events, ssh_saveState lib config next_state), w))))"

end
