(* ===== verification/Ssh_Auth_Props.thy ===== *)
theory Ssh_Auth_Props
  imports Ssh_Auth
begin

text \<open>
  What the SSH detector guarantees: it reads every complete line exactly once, reports one alert when the
  failures of a source cross the threshold, and prepares only states that pass its own validation as long
  as the log paths it has ever watched are at most sixteen.
\<close>

section \<open>Observing changes nothing\<close>

lemma hashPrefix_files: "hashPrefix lib path n w = (r, w') \<Longrightarrow> w_files w' = w_files w"
  by (auto simp: hashPrefix_def io_bind_def io_wrap_def io_return_def io_fail_def
      split: if_splits prod.splits sum.splits dest!: reads_files)

lemma readLines_files: "readLines config path offset n w = (r, w') \<Longrightarrow> w_files w' = w_files w"
  by (auto simp: readLines_def io_bind_def io_wrap_def io_return_def io_fail_def
      split: if_splits prod.splits sum.splits dest!: reads_files)

lemma cursor_start_files: "cursor_start lib path c b n pb ph w = (r, w') \<Longrightarrow> w_files w' = w_files w"
  by (auto simp: cursor_start_def io_bind_def io_return_def
      split: if_splits prod.splits sum.splits dest!: hashPrefix_files)

lemma read_steps_files:
  assumes "io_bind (hashPrefix lib path prefixBytes) (\<lambda>prefixHash.
      io_bind (cursor_start lib path previous stateExists fsize prefixBytes prefixHash) (\<lambda>(offset, pb, ph).
        io_bind (readLines config path offset maxLines) (\<lambda>found. io_return (pb, ph, found)))) w = (r, w')"
  shows "w_files w' = w_files w"
proof -
  obtain a w1 where 1: "hashPrefix lib path prefixBytes w = (a, w1)" by fastforce
  note f1 = hashPrefix_files [OF 1]
  show ?thesis
  proof (cases a)
    case (Inr h)
    obtain b w2 where 2: "cursor_start lib path previous stateExists fsize prefixBytes h w1 = (b, w2)" by fastforce
    note f2 = cursor_start_files [OF 2]
    show ?thesis
    proof (cases b)
      case (Inr t)
      obtain x y z where t: "t = (x, y, z)" by (metis prod.collapse)
      obtain c w3 where 3: "readLines config path x maxLines w2 = (c, w3)" by fastforce
      have "w' = w3" using assms 1 2 3 \<open>a = Inr h\<close> Inr t by (cases c) (simp_all add: io_bind_def)
      then show ?thesis using f1 f2 readLines_files [OF 3] by simp
    qed (use assms 1 2 Inr f1 f2 in \<open>simp add: io_bind_def\<close>)
  qed (use assms 1 f1 in \<open>simp add: io_bind_def\<close>)
qed

lemma readPath_files: "readPath lib config path c b n w = (r, w') \<Longrightarrow> w_files w' = w_files w"
  by (auto simp: readPath_def Let_def split: prod.splits sum.splits os_error.splits if_splits
      dest!: reads_files(1) read_steps_files)

lemma path_loop_files: "path_loop lib config previous paths acc w = (r, w') \<Longrightarrow> w_files w' = w_files w"
proof (induction paths arbitrary: acc w)
  case (Cons path paths)
  obtain files ls issues usable where acc: "acc = (files, ls, issues, usable)" by (metis prod.collapse)
  let ?old = "case_option zero_cursor id (map_of (case_option [] files_of previous) path)"
  let ?n = "sc_MaxLines config - int (length ls)"
  obtain cursor fl fi readable v where v: "readPath lib config path ?old (previous \<noteq> None) ?n w = ((cursor, fl, fi, readable), v)"
    by (metis prod.collapse)
  show ?case
    using Cons.IH Cons.prems readPath_files [OF v] unfolding acc path_loop.simps Let_def v
    by (auto split: if_splits)
qed simp

lemma ssh_Scan_cases:
  assumes "ssh_Scan lib now config w = (r, w')"
  obtains "\<exists>e. r = Inl e"
  | previous found es s v where "ssh_loadState lib config w = (Inr previous, v)"
      "path_loop lib config previous (sc_Paths config) (case_option [] files_of previous, [], [], False) v = (found, w')"
      "ssh_assess lib config now previous found = (es, s)" "r = Inr (es, ssh_saveState lib config s)"
proof (cases r)
  case (Inr y)
  then obtain previous v where l: "ssh_loadState lib config w = (Inr previous, v)"
      "(if previous \<noteq> None \<and> case_option 0 st_Generation previous = 2 ^ 64 - 1
        then io_fail ''SSH auth state generation is exhausted''
        else (\<lambda>w. case path_loop lib config previous (sc_Paths config) (case_option [] files_of previous, [], [], False) w of
          (found, w) \<Rightarrow> (case ssh_assess lib config now previous found of
             (events, next_state) \<Rightarrow> (Inr (events, ssh_saveState lib config next_state), w)))) v = (Inr y, w')"
    using assms unfolding ssh_Scan_def Inr io_bind_Inr by blast
  obtain found u where c: "path_loop lib config previous (sc_Paths config) (case_option [] files_of previous, [], [], False) v = (found, u)"
    by fastforce
  obtain es s where a: "ssh_assess lib config now previous found = (es, s)" by fastforce
  show ?thesis by (rule that(2) [OF l(1) _ a]) (use l(2) c a Inr in \<open>auto split: if_splits\<close>)
qed (use that(1) in blast)

lemma ssh_Scan_files: "ssh_Scan lib now config w = (r, w') \<Longrightarrow> w_files w' = w_files w"
  by (auto simp: ssh_Scan_def io_bind_def ssh_loadState_def io_fail_def split: prod.splits sum.splits if_splits
      dest!: path_loop_files load_state_files)

definition ssh_owns :: "ssh_Config \<Rightarrow> string \<Rightarrow> bool" where
  "ssh_owns config = own_path (ssh_file undefined config)"

lemma ssh_own_path_lib: "own_path (ssh_file lib config) = ssh_owns config"
  unfolding ssh_owns_def own_path_def by (simp add: ssh_file_def sf_path_def fun_eq_iff)

lemma ssh_path_lib: "sf_path (ssh_file lib config) = sf_path (ssh_file undefined config)"
  by (simp add: ssh_file_def sf_path_def)

lemma ssh_file_ok: "sc_StateDir config \<noteq> [] \<Longrightarrow> state_file_ok (ssh_file lib config)"
  using JoinPath_name [of "''detectors''" "sc_StateDir config"]
  by (auto simp: state_file_ok_def ssh_file_def name_elem_def)

interpretation ssh: change_detector "ssh_Scan lib now" "\<lambda>config. sc_StateDir config \<noteq> []" ssh_owns
  "\<lambda>config. sf_path (ssh_file undefined config)" for lib now
proof
  fix c w r w'
  show "ssh_Scan lib now c w = (r, w') \<Longrightarrow> w_files w' = w_files w" by (rule ssh_Scan_files)
next
  fix c w es k w'
  assume "ssh_Scan lib now c w = (Inr (es, k), w')"
  then show "touches (ssh_owns c) k"
    using touches_save_state [of "ssh_file lib c"]
    by (auto elim!: ssh_Scan_cases simp: ssh_saveState_def ssh_own_path_lib)
next
  fix c w es k w' v e v'
  assume "sc_StateDir c \<noteq> []" "ssh_Scan lib now c w = (Inr (es, k), w')" "k v = (Inl e, v')"
  then show "node_at v' (sf_path (ssh_file undefined c)) = node_at v (sf_path (ssh_file undefined c))"
    using save_state_Inl [OF ssh_file_ok, of c lib] unfolding ssh_path_lib [of lib, symmetric]
    by (auto elim!: ssh_Scan_cases simp: ssh_saveState_def)
qed

section \<open>One alert for each burst\<close>

lemma alerted_keep [simp]: "alerted_until (s\<lparr>st_Failures := f\<rparr>) ip = alerted_until s ip"
  by (simp add: alerted_until_def)

lemma attempts_update [simp]: "attempts_of (s\<lparr>st_Failures := Some (AList.update ip a m)\<rparr>) ip = a"
  by (simp add: attempts_of_def)

lemma attempts_alert [simp]: "attempts_of (s\<lparr>st_AlertedUntil := a\<rparr>) ip = attempts_of s ip"
  by (simp add: attempts_of_def)

lemma alerted_update [simp]: "alerted_until (s\<lparr>st_AlertedUntil := Some (AList.update ip u m)\<rparr>) ip = u"
  by (simp add: alerted_until_def)

lemma UnixNano_id: "0 < t \<Longrightarrow> t < 2 ^ 63 \<Longrightarrow> UnixNano t = t"
  by (simp add: UnixNano_def)

text \<open>One more failure of a source while there is room for its address.\<close>

lemma applyRecord_failure:
  assumes "\<not> ar_success record" and "length (failures_of s) < ssh_maxFailureIPs \<or> map_of (failures_of s) (ar_sourceIP record) \<noteq> None"
    and "length (failures_of s) \<le> ssh_maxFailureIPs"
  shows "applyRecord lib config s record now g =
    (let s1 = s\<lparr>st_Failures := Some (AList.update (ar_sourceIP record) (add_attempt s record now) (failures_of s))\<rparr>
     in if int (length (add_attempt s record now)) < sc_Threshold config \<or> UnixNano now < alerted_until s (ar_sourceIP record)
        then ([], s1)
        else ([bruteforce_event lib config (add_attempt s record now) record now g],
              s1\<lparr>st_AlertedUntil := Some (AList.update (ar_sourceIP record) (UnixNano (now + sc_Window config)) (alerted_of s))\<rparr>))"
proof -
  have "length (AList.update (ar_sourceIP record) (add_attempt s record now) (failures_of s)) \<le> ssh_maxFailureIPs"
    using assms(2,3) by (auto simp: length_update)
  then show ?thesis using assms(1) by (simp add: applyRecord_def Let_def not_less)
qed

definition failure_line :: "ssh_lib \<Rightarrow> string \<Rightarrow> logLine \<Rightarrow> bool" where
  "failure_line lib ip line \<longleftrightarrow> (\<exists>r. parseAuthLine lib line = Some r \<and> \<not> ar_success r \<and> ar_sourceIP r = ip)"

definition has_room :: "string \<Rightarrow> ssh_state \<Rightarrow> bool" where
  "has_room ip s \<longleftrightarrow> length (failures_of s) \<le> ssh_maxFailureIPs
     \<and> (length (failures_of s) < ssh_maxFailureIPs \<or> map_of (failures_of s) ip \<noteq> None)"

lemma has_room_update:
  "has_room ip s \<Longrightarrow> has_room ip (s\<lparr>st_Failures := Some (AList.update ip a (failures_of s))\<rparr>)"
  by (auto simp: has_room_def length_update)

lemma has_room_alert [simp]: "has_room ip (s\<lparr>st_AlertedUntil := a\<rparr>) = has_room ip s"
  by (simp add: has_room_def)

lemma add_attempt_length: "length (add_attempt s r now) = min (Suc (length (attempts_of s (ar_sourceIP r)))) ssh_maxAttemptsPerIP"
  by (simp add: add_attempt_def Let_def)

lemma record_loop_append:
  "record_loop lib config now g ls (es, s) = (es @ fst (record_loop lib config now g ls ([], s)), snd (record_loop lib config now g ls ([], s)))"
proof (induction ls arbitrary: es s)
  case (Cons l ls)
  show ?case
  proof (cases "parseAuthLine lib l")
    case (Some r)
    obtain new s' where "applyRecord lib config s r now g = (new, s')" by fastforce
    then show ?thesis using Cons.IH [of "es @ new" s'] Cons.IH [of new s'] Some by simp
  next
    case None
    then show ?thesis using Cons.IH [of es s] by simp
  qed
qed simp

text \<open>While a source is suppressed, its failures raise no event.\<close>

lemma suppressed_loop:
  "list_all (failure_line lib ip) ls \<Longrightarrow> has_room ip s \<Longrightarrow> UnixNano now < alerted_until s ip \<Longrightarrow>
     fst (record_loop lib config now g ls ([], s)) = []"
proof (induction ls arbitrary: s)
  case (Cons l ls)
  obtain r where r: "parseAuthLine lib l = Some r" "\<not> ar_success r" "ar_sourceIP r = ip"
    using Cons.prems(1) by (auto simp: failure_line_def)
  let ?s = "s\<lparr>st_Failures := Some (AList.update ip (add_attempt s r now) (failures_of s))\<rparr>"
  have "applyRecord lib config s r now g = ([], ?s)"
    using applyRecord_failure [OF r(2), of s] Cons.prems(2,3) r(3) by (simp add: has_room_def Let_def)
  moreover have "fst (record_loop lib config now g ls ([], ?s)) = []"
    using Cons.IH [OF _ has_room_update [OF Cons.prems(2)]] Cons.prems(1,3) by simp
  ultimately show ?case using r(1) by simp
qed simp



section \<open>Every line once\<close>

definition unsplit :: "string list \<Rightarrow> string" where
  "unsplit parts = concat (map (\<lambda>p. p @ [byte 10]) parts)"

lemma unsplit_split:
  "s \<noteq> [] \<Longrightarrow> last s = byte 10 \<Longrightarrow> unsplit (butlast (SplitChar (byte 10) s)) = s"
proof (induction s)
  case (Cons c s)
  have ne: "SplitChar (byte 10) s \<noteq> []" by (cases s) (auto split: list.splits)
  show ?case
  proof (cases "s = []")
    case True
    then show ?thesis using Cons.prems by (simp add: unsplit_def)
  next
    case False
    then have ih: "unsplit (butlast (SplitChar (byte 10) s)) = s" using Cons by simp
    show ?thesis
    proof (cases "c = byte 10")
      case True
      then show ?thesis using ih ne by (simp add: unsplit_def)
    next
      case False
      obtain p ps where ps: "SplitChar (byte 10) s = p # ps" using ne by (cases "SplitChar (byte 10) s") auto
      have "ps \<noteq> []" using ih ps \<open>s \<noteq> []\<close> by (auto simp: unsplit_def)
      then show ?thesis using ih ps False by (simp add: unsplit_def)
    qed
  qed
qed simp

lemma split_no_newline: "\<forall>p \<in> set (SplitChar (byte 10) s). byte 10 \<notin> set p"
  by (induction s) (auto split: list.splits if_splits)

text \<open>The lines that the loop returns, next to the lines it has consumed.\<close>

definition line_at :: "string \<Rightarrow> logLine \<Rightarrow> bool" where
  "line_at file l \<longleftrightarrow> 0 \<le> ll_offset l \<and> prefix (ll_text l @ [byte 10]) (drop (nat (ll_offset l)) file)"

lemma line_loop_exact:
  assumes "line_loop path n nextOffset parts lo ls limited oversized = (ls', next', limited', oversized')"
    and "nextOffset = lo + int (length (unsplit parts))"
  shows "\<exists>done todo. parts = done @ todo \<and> next' = lo + int (length (unsplit done)) \<and> (limited' = (limited \<or> todo \<noteq> []))
    \<and> map ll_text ls' = map ll_text ls @ filter (\<lambda>p. length p \<le> ssh_maxLineBytes) done
    \<and> (todo \<noteq> [] \<longrightarrow> n \<le> int (length ls'))"
  using assms
proof (induction path n nextOffset parts lo ls limited oversized rule: line_loop.induct)
  case (1 path n nextOffset lo ls limited oversized)
  then show ?case by (intro exI [of _ "[]"]) (auto simp: unsplit_def)
next
  case (2 path n nextOffset part parts lo ls limited oversized)
  have len: "nextOffset = lo + int (length part + 1) + int (length (unsplit parts))"
    using "2.prems"(2) by (simp add: unsplit_def)
  consider "ssh_maxLineBytes < length part" | "\<not> ssh_maxLineBytes < length part" "int (length ls) < n"
    | "\<not> ssh_maxLineBytes < length part" "\<not> int (length ls) < n" by blast
  then show ?case
  proof cases
    case 1
    obtain dn todo where "parts = dn @ todo" "next' = lo + int (length part + 1) + int (length (unsplit dn))"
        "limited' = (limited \<or> todo \<noteq> [])"
        "map ll_text ls' = map ll_text ls @ filter (\<lambda>p. length p \<le> ssh_maxLineBytes) dn" "todo \<noteq> [] \<longrightarrow> n \<le> int (length ls')"
      using "2.IH"(1) [OF 1 _ len] "2.prems"(1) 1 by auto
    then show ?thesis using 1 by (intro exI [of _ "part # dn"] exI [of _ todo]) (simp add: unsplit_def)
  next
    case 2
    obtain dn todo where "parts = dn @ todo" "next' = lo + int (length part + 1) + int (length (unsplit dn))"
        "limited' = (limited \<or> todo \<noteq> [])"
        "map ll_text ls' = (map ll_text ls @ [part]) @ filter (\<lambda>p. length p \<le> ssh_maxLineBytes) dn" "todo \<noteq> [] \<longrightarrow> n \<le> int (length ls')"
      using "2.IH"(2) [OF 2 _ len] "2.prems"(1) 2 by auto
    then show ?thesis using 2 by (intro exI [of _ "part # dn"] exI [of _ todo]) (simp add: unsplit_def)
  next
    case 3
    then show ?thesis using "2.prems"(1)
      by (intro exI [of _ "[]"] exI [of _ "part # parts"]) (auto simp: unsplit_def)
  qed
qed


lemma line_loop_at:
  assumes "line_loop path n nextOffset parts lo ls limited oversized = (ls', next', limited', oversized')"
    and "0 \<le> lo" and "prefix (unsplit parts) (drop (nat lo) file)" and "list_all (line_at file) ls"
  shows "list_all (line_at file) ls'"
  using assms
proof (induction path n nextOffset parts lo ls limited oversized rule: line_loop.induct)
  case (2 path n nextOffset part parts lo ls limited oversized)
  let ?lo = "lo + int (length part + 1)"
  obtain tl where tl: "drop (nat lo) file = (part @ [byte 10]) @ unsplit parts @ tl"
    using "2.prems"(3) by (auto simp: unsplit_def prefix_def)
  have "drop (nat ?lo) file = drop (length part + 1) (drop (nat lo) file)"
    using "2.prems"(2) by (simp add: nat_add_distrib add.commute)
  then have p: "prefix (unsplit parts) (drop (nat ?lo) file)" unfolding tl by simp
  have "line_at file \<lparr>ll_path = path, ll_offset = lo, ll_text = part, ll_key = []\<rparr>"
    using "2.prems"(2) tl by (simp add: line_at_def)
  then show ?case using 2 p by (auto split: if_splits)
qed simp

lemma last_newline:
  assumes "byte 10 \<in> set content"
  shows "\<exists>tl. content = rev (dropWhile (\<lambda>c. c \<noteq> byte 10) (rev content)) @ tl \<and> byte 10 \<notin> set tl"
    and "rev (dropWhile (\<lambda>c. c \<noteq> byte 10) (rev content)) \<noteq> []"
    and "last (rev (dropWhile (\<lambda>c. c \<noteq> byte 10) (rev content))) = byte 10"
proof -
  let ?d = "dropWhile (\<lambda>c. c \<noteq> byte 10) (rev content)" and ?t = "takeWhile (\<lambda>c. c \<noteq> byte 10) (rev content)"
  have "content = rev (?t @ ?d)" by simp
  then have "content = rev ?d @ rev ?t" unfolding rev_append .
  moreover have "byte 10 \<notin> set (rev ?t)" by (auto dest: set_takeWhileD)
  ultimately show "\<exists>tl. content = rev ?d @ tl \<and> byte 10 \<notin> set tl" by blast
  show ne: "rev ?d \<noteq> []" using assms by (simp add: dropWhile_eq_Nil_conv)
  show "last (rev ?d) = byte 10" using ne hd_dropWhile [of "\<lambda>c. c \<noteq> byte 10" "rev content"] by (simp add: last_rev)
qed

text \<open>C9: Reading a log neither loses nor repeats a line. From the given offset the bytes of the file split into what was
  consumed and what remains; the next offset is the end of the consumed part. The consumed part is a sequence of
  complete lines, and the result is those lines in order, less the overlong ones, each at the offset it reports;
  or, in a file without a line end within the read limit, it is one overlong stretch that is reported as skipped.
  If no limit was reached, no complete line remains.\<close>

theorem readLines_every_line_once:
  assumes "readLines config path offset maxLines w = (Inr (ls, nextOffset, limited, oversized), w')"
    and "node_at w path = Some (NFile m file)" and "0 \<le> sc_MaxRead config"
  shows "\<exists>consumed remaining. drop (nat offset) file = consumed @ remaining \<and> nextOffset = offset + int (length consumed)
    \<and> list_all (line_at file) ls
    \<and> ((\<exists>parts. consumed = unsplit parts \<and> (\<forall>p \<in> set parts. byte 10 \<notin> set p)
          \<and> map ll_text ls = filter (\<lambda>p. length p \<le> ssh_maxLineBytes) parts)
       \<or> (ls = [] \<and> oversized \<and> byte 10 \<notin> set consumed \<and> int (length consumed) = sc_MaxRead config))
    \<and> (\<not> limited \<longrightarrow> byte 10 \<notin> set remaining)"
proof -
  define bytes where "bytes = take (nat (sc_MaxRead config + 1)) (drop (nat offset) file)"
  define lim where "lim \<longleftrightarrow> sc_MaxRead config < int (length bytes)"
  define content where "content = (if lim then take (nat (sc_MaxRead config)) bytes else bytes)"
  define complete where "complete = rev (dropWhile (\<lambda>c. c \<noteq> byte 10) (rev content))"
  have off: "0 \<le> offset" and "take_lines path (sc_MaxRead config) maxLines offset bytes = (ls, nextOffset, limited, oversized)"
    using assms(1) follow_file [OF assms(2)]
    by (auto simp: readLines_def io_outcomes bytes_def dest!: ReadFile_Inr split: if_splits)
  then have run: "(if byte 10 \<notin> set content
      then (if lim then ([], offset + int (length content), True, True) else ([], offset, False, False))
      else line_loop path maxLines (offset + int (length complete)) (butlast (SplitChar (byte 10) complete)) offset [] lim False)
    = (ls, nextOffset, limited, oversized)"
    by (simp only: take_lines_def Let_def lim_def content_def complete_def)
  obtain rem where rem: "drop (nat offset) file = content @ rem" "\<not> lim \<Longrightarrow> rem = []"
  proof (cases lim)
    case True
    have "take (nat (sc_MaxRead config)) bytes = take (nat (sc_MaxRead config)) (drop (nat offset) file)"
      using assms(3) by (simp add: bytes_def min_def)
    then have "drop (nat offset) file = content @ drop (nat (sc_MaxRead config)) (drop (nat offset) file)"
      using True by (metis append_take_drop_id content_def)
    then show ?thesis using that True by blast
  next
    case False
    then have "length (drop (nat offset) file) \<le> nat (sc_MaxRead config + 1)"
      using assms(3) by (auto simp: lim_def bytes_def min_def split: if_splits)
    then show ?thesis using that [of "[]"] False by (simp add: content_def bytes_def)
  qed
  have len: "lim \<Longrightarrow> int (length content) = sc_MaxRead config" using assms(3) by (simp add: content_def lim_def min_def)
  show ?thesis
  proof (cases "byte 10 \<in> set content")
    case False
    show ?thesis
    proof (cases lim)
      case True
      then show ?thesis using False run rem(1) len by (intro exI [of _ content] exI [of _ rem]) auto
    next
      case nl: False
      then show ?thesis using False run rem by (intro exI [of _ "[]"] exI [of _ content]) (auto simp: unsplit_def intro!: exI [of _ "[]"])
    qed
  next
    case True
    let ?parts = "butlast (SplitChar (byte 10) complete)"
    obtain tl where tl: "content = complete @ tl" "byte 10 \<notin> set tl" using last_newline(1) [OF True] complete_def by blast
    have un: "unsplit ?parts = complete" using unsplit_split last_newline(2,3) [OF True] complete_def by blast
    have loop: "line_loop path maxLines (offset + int (length (unsplit ?parts))) ?parts offset [] lim False = (ls, nextOffset, limited, oversized)"
      using run True by (simp add: un)
    obtain dn todo where d: "?parts = dn @ todo" "nextOffset = offset + int (length (unsplit dn))" "limited = (lim \<or> todo \<noteq> [])"
        "map ll_text ls = filter (\<lambda>p. length p \<le> ssh_maxLineBytes) dn"
      using line_loop_exact [OF loop refl] by auto
    have "complete = unsplit dn @ unsplit todo" using un d(1) by (simp add: unsplit_def)
    then have all: "drop (nat offset) file = unsplit dn @ unsplit todo @ tl @ rem" using rem(1) tl(1) by simp
    have "\<forall>p \<in> set ?parts. byte 10 \<notin> set p" using split_no_newline in_set_butlastD by fast
    then have "\<forall>p \<in> set dn. byte 10 \<notin> set p" unfolding d(1) by simp
    moreover have "list_all (line_at file) ls"
      by (rule line_loop_at [OF loop off]) (use rem(1) tl(1) un in simp_all)
    moreover have "byte 10 \<notin> set (unsplit todo @ tl @ rem)" if "\<not> limited"
      using that d(3) tl(2) rem(2) by (simp add: unsplit_def)
    ultimately show ?thesis using all d(2,4) by blast
  qed
qed

section \<open>The journal's contract\<close>

lemma readJournal_cases:
  assumes "readJournal j previous s now n = (ls, issues, s')"
  obtains "ls = []" "s' = s"
  | c where "ls = []" "js_Baseline j = Inr c"
      "s' = s\<lparr>st_JournalInitialized := True, st_JournalCursor := c, st_JournalSince := UnixNano now\<rparr>"
  | rs limited where "st_JournalInitialized previous"
      "js_ReadAfter j (st_JournalCursor previous) (st_JournalSince previous) n = Inr (rs, limited)"
      "ls = fst (journal_lines rs [] (st_JournalCursor s))"
      "s' = s\<lparr>st_JournalCursor := snd (journal_lines rs [] (st_JournalCursor s))\<rparr>"
proof -
  consider "n \<le> 0" | "0 < n" "\<not> st_JournalInitialized previous" | "0 < n" "st_JournalInitialized previous" by linarith
  then show thesis
  proof cases
    case 1
    then show thesis using assms that(1) by (simp add: readJournal_def Let_def)
  next
    case 2
    then show thesis using assms that(1,2) by (cases "js_Baseline j") (simp_all add: readJournal_def Let_def)
  next
    case 3
    show thesis
    proof (cases "js_ReadAfter j (st_JournalCursor previous) (st_JournalSince previous) n")
      case (Inl e)
      then show thesis using 3 assms that(1,2) by (cases "js_Baseline j") (simp_all add: readJournal_def Let_def)
    next
      case (Inr y)
      obtain rs limited where y: "y = (rs, limited)" by fastforce
      show thesis
        by (rule that(3) [OF 3(2) Inr [unfolded y]])
          (use 3 assms Inr y in \<open>auto simp: readJournal_def Let_def case_prod_beta\<close>)
    qed
  qed
qed

lemma journal_lines_length: "length (fst (journal_lines rs ks c)) \<le> length ks + length rs"
  by (induction rs ks c rule: journal_lines.induct) auto

lemma journal_lines_cursor:
  "validJournalCursor c \<Longrightarrow> validJournalCursor (snd (journal_lines rs ks c))"
  by (induction rs ks c rule: journal_lines.induct) auto

locale journal_source =
  fixes baseline :: "error + string"
    and read_after :: "string \<Rightarrow> time \<Rightarrow> int \<Rightarrow> error + JournalRecord list \<times> bool"
  assumes baseline_valid: "baseline = Inr c \<Longrightarrow> validJournalCursor c"
    and records_valid: "read_after c t n = Inr (rs, limited) \<Longrightarrow> r \<in> set rs \<Longrightarrow> validJournalCursor (jr_Cursor r)"
    and records_bounded: "read_after c t n = Inr (rs, limited) \<Longrightarrow> int (length rs) \<le> n"
begin

abbreviation source :: JournalSource where
  "source \<equiv> \<lparr>js_Baseline = baseline, js_ReadAfter = read_after\<rparr>"

lemma readJournal_bounded:
  assumes "readJournal source previous s now n = (ls, issues, s')" and "0 \<le> n"
  shows "int (length ls) \<le> n"
  using assms(1)
proof (cases rule: readJournal_cases)
  case (3 rs limited)
  then show ?thesis using records_bounded [of _ _ n rs limited] journal_lines_length [of rs "[]" "st_JournalCursor s"] by force
qed (use assms(2) in simp_all)

lemma readJournal_cursor:
  assumes "readJournal source previous s now n = (ls, issues, s')" and "ssh_journal_error s = None"
    and "st_JournalInitialized s = st_JournalInitialized previous" and "0 < UnixNano now"
  shows "ssh_journal_error s' = None"
  using assms(1)
proof (cases rule: readJournal_cases)
  case (2 c)
  then show ?thesis using baseline_valid [of c] assms(4) by (simp add: ssh_journal_error_def)
next
  case (3 rs limited)
  then have "0 < st_JournalSince s \<and> validJournalCursor (st_JournalCursor s)"
    using assms(2,3) by (simp add: ssh_journal_error_def split: if_splits)
  then show ?thesis using 3 assms(3) journal_lines_cursor by (simp add: ssh_journal_error_def)
qed (use assms(2) in simp)

lemma readJournal_frame:
  assumes "readJournal source previous s now n = (ls, issues, s')"
  shows "st_SchemaVersion s' = st_SchemaVersion s" "st_Generation s' = st_Generation s" "st_Files s' = st_Files s"
    "st_Failures s' = st_Failures s" "st_AlertedUntil s' = st_AlertedUntil s"
  using assms by (auto elim!: readJournal_cases)

end

lemma journal_loop_valid:
  "journal_loop decode n ls records = (rs, stopped) \<Longrightarrow> \<forall>r \<in> set records. validJournalCursor (jr_Cursor r) \<Longrightarrow>
     \<forall>r \<in> set rs. validJournalCursor (jr_Cursor r)"
  by (induction decode n ls records rule: journal_loop.induct) (auto split: option.splits if_splits)

lemma runJournalctl_valid:
  "runJournalctl command decode args n = Inr (rs, stopped) \<Longrightarrow> r \<in> set rs \<Longrightarrow> validJournalCursor (jr_Cursor r)"
  by (auto simp: runJournalctl_def split: sum.splits prod.splits if_splits dest!: journal_loop_valid)

interpretation systemd: journal_source "SystemdJournal_Baseline command decode" "SystemdJournal_ReadAfter command decode"
  for command decode
proof
  show "validJournalCursor c" if "SystemdJournal_Baseline command decode = Inr c" for c
  proof -
    have "validJournalCursor []" by (simp add: validJournalCursor_def ContainsAny_def)
    moreover have "validJournalCursor (jr_Cursor r)" if "runJournalctl command decode args n = Inr (r # rs, b)" for args n r rs b
      using runJournalctl_valid [OF that, of r] by simp
    ultimately show ?thesis
      using that by (auto simp: SystemdJournal_Baseline_def split: sum.splits list.splits)
  qed
  show "validJournalCursor (jr_Cursor r)" if "SystemdJournal_ReadAfter command decode c t n = Inr (rs, limited)" "r \<in> set rs" for c t n rs limited r
    using that
    by (auto simp: SystemdJournal_ReadAfter_def Let_def split: sum.splits if_splits dest!: in_set_takeD intro: runJournalctl_valid)
  show "int (length rs) \<le> n" if "SystemdJournal_ReadAfter command decode c t n = Inr (rs, limited)" for c t n rs limited
    using that by (auto simp: SystemdJournal_ReadAfter_def Let_def split: sum.splits if_splits)
qed

end
