(* ===== verification/Ssh_Auth_Valid.thy ===== *)
theory Ssh_Auth_Valid
  imports Ssh_Auth_Props
begin

text \<open>
  Every state the SSH detector prepares passes its own validation, as long as it has watched at most sixteen
  log paths; and what happens after that.
\<close>

section \<open>Failures and suppressions\<close>

text \<open>What is assumed of the library: hashes of 32 bytes, a canonical address parses again, and the empty text is no
  address.\<close>

definition ssh_lib_ok :: "ssh_lib \<Rightarrow> bool" where
  "ssh_lib_ok lib \<longleftrightarrow> (\<forall>s. length (sl_sha256 lib s) = 32) \<and> (\<forall>s ip. sl_ParseIP lib s = Some ip \<longrightarrow> sl_ParseIP lib ip \<noteq> None)
     \<and> sl_ParseIP lib [] = None"

definition counts_ok :: "ssh_lib \<Rightarrow> ssh_state \<Rightarrow> bool" where
  "counts_ok lib s \<longleftrightarrow> (\<exists>f a. st_Failures s = Some f \<and> st_AlertedUntil s = Some a \<and> distinct (keys f)
     \<and> length f \<le> ssh_maxFailureIPs \<and> (\<forall>e \<in> set f. failures_error lib e = None) \<and> (\<forall>e \<in> set a. alerted_error lib e = None))"

text \<open>The fields that counting leaves alone.\<close>

definition frame :: "ssh_state \<Rightarrow> int \<times> nat \<times> (string, fileCursor) gomap option \<times> bool \<times> string \<times> int" where
  "frame s = (st_SchemaVersion s, st_Generation s, st_Files s, st_JournalInitialized s, st_JournalCursor s, st_JournalSince s)"

lemma first_error_None: "first_error f xs = None \<longleftrightarrow> (\<forall>x \<in> set xs. f x = None)"
  by (induction xs) (auto split: option.splits)

lemma frame_counts [simp]: "frame (s\<lparr>st_Failures := x\<rparr>) = frame s" "frame (s\<lparr>st_AlertedUntil := y\<rparr>) = frame s"
  by (simp_all add: frame_def)

lemma deleted_mem: "e \<in> set (AList.delete k m) \<Longrightarrow> e \<in> set m"
  by (cases e) (simp add: mem_delete)

lemma deleted_length: "length m \<le> n \<Longrightarrow> length (AList.delete k m) \<le> n"
  using length_delete_le [of k m] by simp

lemma forget_ip_ok: "counts_ok lib s \<Longrightarrow> counts_ok lib (forget_ip ip s)"
  by (auto simp: counts_ok_def forget_ip_def deleted_length dest: deleted_mem)

lemma forget_ip_frame [simp]: "frame (forget_ip ip s) = frame s"
  by (simp add: frame_def forget_ip_def)

lemma forget_ip_keys: "set (keys (failures_of (forget_ip ip s))) = set (keys (failures_of s)) - {ip}"
  by (simp add: forget_ip_def AList.delete_keys)

lemma delete_failures_ok:
  "counts_ok lib s \<Longrightarrow> counts_ok lib (s\<lparr>st_Failures := Some (AList.delete ip (failures_of s))\<rparr>)"
proof -
  assume "counts_ok lib s"
  then obtain f a where f: "st_Failures s = Some f" "st_AlertedUntil s = Some a" "distinct (keys f)" "length f \<le> ssh_maxFailureIPs"
      "\<forall>e \<in> set f. failures_error lib e = None" "\<forall>e \<in> set a. alerted_error lib e = None" by (auto simp: counts_ok_def)
  have "\<forall>e \<in> set (AList.delete ip f). failures_error lib e = None" using f(5) deleted_mem [of _ ip f] by blast
  then show ?thesis using f(1-4,6) by (simp add: counts_ok_def deleted_length)
qed

lemma update_failures_ok:
  assumes "counts_ok lib s" and "failures_error lib (ip, as) = None"
    and "length (AList.update ip as (failures_of s)) \<le> ssh_maxFailureIPs"
  shows "counts_ok lib (s\<lparr>st_Failures := Some (AList.update ip as (failures_of s))\<rparr>)"
proof -
  obtain f a where f: "st_Failures s = Some f" "st_AlertedUntil s = Some a" "distinct (keys f)"
      "\<forall>e \<in> set f. failures_error lib e = None" "\<forall>e \<in> set a. alerted_error lib e = None"
    using assms(1) by (auto simp: counts_ok_def)
  have "\<forall>e \<in> set (AList.update ip as f). failures_error lib e = None"
  proof
    fix e
    assume "e \<in> set (AList.update ip as f)"
    then have "e = (ip, as) \<or> e \<in> set f" using mem_update_cases by (metis prod.collapse)
    then show "failures_error lib e = None" using assms(2) f(4) by auto
  qed
  then show ?thesis using f assms(3) by (simp add: counts_ok_def)
qed

lemma filter_failures_ok: "failures_error lib (ip, as) = None \<Longrightarrow> failures_error lib (ip, filter P as) = None"
  using le_trans [OF length_filter_le [of P as]]
  by (auto simp: failures_error_def list_ex_iff not_less split: if_splits)

lemma prune_ip_ok:
  assumes "counts_ok lib s" and "ip \<in> set (keys (failures_of s))" and "failures_error lib (ip, as) = None"
  shows "counts_ok lib (prune_ip now cutoff (ip, as) s)"
    and "set (keys (failures_of s)) - {ip} \<subseteq> set (keys (failures_of (prune_ip now cutoff (ip, as) s)))"
    and "frame (prune_ip now cutoff (ip, as) s) = frame s"
proof -
  let ?kept = "filter (\<lambda>a. UnixNano cutoff \<le> fa_At a) as"
  have "length (AList.update ip ?kept (failures_of s)) \<le> ssh_maxFailureIPs"
    using assms(1,2) keys_mem [of ip "failures_of s"] by (auto simp: length_update counts_ok_def)
  then show "counts_ok lib (prune_ip now cutoff (ip, as) s)"
    using forget_ip_ok [OF assms(1)] delete_failures_ok [OF assms(1)]
      update_failures_ok [OF assms(1) filter_failures_ok [OF assms(3)]]
    by (simp add: prune_ip_def Let_def)
  show "set (keys (failures_of s)) - {ip} \<subseteq> set (keys (failures_of (prune_ip now cutoff (ip, as) s)))"
  proof -
    obtain f where f: "st_Failures s = Some f" using assms(1) by (auto simp: counts_ok_def)
    have "set (keys (AList.delete ip f)) = set (keys f) - {ip}" by (simp add: AList.delete_keys)
    then show ?thesis unfolding prune_ip_def Let_def prod.case forget_ip_def by (auto simp: f AList.dom_update)
  qed
  show "frame (prune_ip now cutoff (ip, as) s) = frame s" by (simp add: prune_ip_def Let_def frame_def forget_ip_def)
qed

lemma prune_fold:
  assumes "counts_ok lib s" and "distinct (keys xs)" and "set (keys xs) \<subseteq> set (keys (failures_of s))"
    and "\<forall>e \<in> set xs. failures_error lib e = None"
  shows "counts_ok lib (fold (prune_ip now cutoff) xs s) \<and> frame (fold (prune_ip now cutoff) xs s) = frame s"
  using assms
proof (induction xs arbitrary: s)
  case (Cons e xs)
  obtain ip as where e: "e = (ip, as)" by fastforce
  have "ip \<in> set (keys (failures_of s))" "failures_error lib (ip, as) = None" using Cons.prems(3,4) e by simp_all
  note one = prune_ip_ok [OF Cons.prems(1) this, of now cutoff]
  have "set (keys xs) \<subseteq> set (keys (failures_of s)) - {ip}"
    using Cons.prems(2,3) unfolding e by (simp only: list.map fst_conv distinct.simps list.set) blast
  with one(2) have "set (keys xs) \<subseteq> set (keys (failures_of (prune_ip now cutoff (ip, as) s)))" by blast
  with Cons.IH [OF one(1)] Cons.prems(2,4) one(3) show ?case by (simp add: e)
qed simp

lemma pruneFailures_ok:
  assumes "counts_ok lib s"
  shows "counts_ok lib (pruneFailures s now cutoff) \<and> frame (pruneFailures s now cutoff) = frame s"
  unfolding pruneFailures_def using assms by (intro prune_fold) (auto simp: counts_ok_def)

text \<open>Dropping the oldest source makes room.\<close>

lemma oldest_loop_mem: "oldest_loop m x t \<in> insert x (set (keys m))"
  by (induction m x t rule: oldest_loop.induct) auto

lemma oldest_loop_found:
  "(ip, as) \<in> set m \<Longrightarrow> as \<noteq> [] \<Longrightarrow> fa_At (last as) < t \<Longrightarrow> oldest_loop m x t \<in> set (keys m)"
proof (induction m x t rule: oldest_loop.induct)
  case (2 ip' as' m x t)
  show ?case
  proof (cases "as' \<noteq> [] \<and> fa_At (last as') < t")
    case True
    then show ?thesis using oldest_loop_mem [of m ip' "fa_At (last as')"] by auto
  next
    case False
    then have "(ip, as) \<in> set m" using "2.prems" by auto
    then show ?thesis using "2.IH"(2) [OF False] "2.prems" False by auto
  qed
qed simp


lemma pruneOldestIP_ok:
  assumes "ssh_lib_ok lib" and "st_Failures s = Some f" and "st_AlertedUntil s = Some a" and "distinct (keys f)"
    and "length f \<le> Suc ssh_maxFailureIPs" and "\<forall>e \<in> set f. failures_error lib e = None"
    and "\<forall>e \<in> set a. alerted_error lib e = None" and "(ip, as) \<in> set f" and "as \<noteq> []" and "fa_At (last as) < 2 ^ 63 - 1"
  shows "counts_ok lib (pruneOldestIP s)"
proof -
  let ?old = "oldest_loop f [] (2 ^ 63 - 1)"
  have old: "?old \<in> set (keys f)" using oldest_loop_found [OF assms(8-10)] .
  then obtain bs where "(?old, bs) \<in> set f" by auto
  then have "sl_ParseIP lib ?old \<noteq> None" using assms(6) by (fastforce simp: failures_error_def split: if_splits)
  then have "?old \<noteq> []" using assms(1) by (auto simp: ssh_lib_ok_def)
  moreover have "map_of f ?old \<noteq> None" using old keys_mem [of ?old f] by simp
  then have "length (AList.delete ?old f) \<le> ssh_maxFailureIPs" using length_delete_less [of f ?old] assms(5) by linarith
  moreover have "\<forall>e \<in> set (AList.delete ?old f). failures_error lib e = None" using assms(6) deleted_mem [of _ ?old f] by blast
  moreover have "\<forall>e \<in> set (AList.delete ?old a). alerted_error lib e = None" using assms(7) deleted_mem [of _ ?old a] by blast
  ultimately show ?thesis
    using assms(2-4) by (simp add: counts_ok_def pruneOldestIP_def forget_ip_def Let_def)
qed

lemma pruneOldestIP_frame [simp]: "frame (pruneOldestIP s) = frame s"
  by (simp add: pruneOldestIP_def Let_def)

definition record_ok :: "ssh_lib \<Rightarrow> authRecord \<Rightarrow> bool" where
  "record_ok lib r \<longleftrightarrow> validUser (ar_user r) \<and> sl_ParseIP lib (ar_sourceIP r) \<noteq> None"

lemma parseAuthLine_ok: "ssh_lib_ok lib \<Longrightarrow> parseAuthLine lib l = Some r \<Longrightarrow> record_ok lib r"
  by (auto simp: parseAuthLine_def auth_record_def normalizedIP_def record_ok_def ssh_lib_ok_def
      split: option.splits if_splits)

text \<open>The clock of a scan: a positive number of nanoseconds, with room for the window.\<close>

definition clock_ok :: "ssh_Config \<Rightarrow> time \<Rightarrow> bool" where
  "clock_ok config now \<longleftrightarrow> 0 < now \<and> 0 < sc_Window config \<and> now + sc_Window config < 2 ^ 63"

lemma clock_nano: "clock_ok config now \<Longrightarrow> UnixNano now = now" "clock_ok config now \<Longrightarrow> UnixNano (now + sc_Window config) = now + sc_Window config"
  by (simp_all add: clock_ok_def UnixNano_id)

lemma attempts_of_ok:
  assumes "counts_ok lib s"
  shows "list_all (\<lambda>a. 0 < fa_At a \<and> validUser (fa_User a)) (attempts_of s ip)"
proof (cases "map_of (failures_of s) ip")
  case (Some as)
  then have "failures_error lib (ip, as) = None" using assms map_of_SomeD by (fastforce simp: counts_ok_def)
  then show ?thesis using Some by (auto simp: attempts_of_def failures_error_def list_ex_iff list_all_iff not_le split: if_splits)
qed (simp add: attempts_of_def)

lemma add_attempt_ok:
  assumes "counts_ok lib s" and "record_ok lib r" and "clock_ok config now"
  shows "failures_error lib (ar_sourceIP r, add_attempt s r now) = None"
    and "add_attempt s r now \<noteq> []" and "fa_At (last (add_attempt s r now)) = now"
proof -
  let ?new = "\<lparr>fa_At = now, fa_User = ar_user r, fa_InvalidUser = ar_invalidUser r\<rparr>"
  let ?all = "attempts_of s (ar_sourceIP r) @ [?new]"
  have eq: "add_attempt s r now = drop (length ?all - ssh_maxAttemptsPerIP) ?all"
    using clock_nano(1) [OF assms(3)] by (simp add: add_attempt_def Let_def)
  have "list_all (\<lambda>a. 0 < fa_At a \<and> validUser (fa_User a)) ?all"
    using attempts_of_ok [OF assms(1)] assms(2,3) by (simp add: record_ok_def clock_ok_def)
  then have "list_all (\<lambda>a. 0 < fa_At a \<and> validUser (fa_User a)) (add_attempt s r now)"
    unfolding eq list_all_iff by (meson in_set_dropD)
  moreover have "length (add_attempt s r now) \<le> ssh_maxAttemptsPerIP" using add_attempt_length [of s r now] by simp
  ultimately show "failures_error lib (ar_sourceIP r, add_attempt s r now) = None"
    using assms(2) by (auto simp: failures_error_def record_ok_def list_ex_iff list_all_iff)
  have less: "length ?all - ssh_maxAttemptsPerIP < length ?all" by (simp add: ssh_maxAttemptsPerIP_def)
  show "add_attempt s r now \<noteq> []" unfolding eq using less by simp
  show "fa_At (last (add_attempt s r now)) = now" unfolding eq last_drop [OF less] by simp
qed

lemma applyRecord_ok:
  assumes "ssh_lib_ok lib" and "counts_ok lib s" and "record_ok lib r" and "clock_ok config now"
  shows "counts_ok lib (snd (applyRecord lib config s r now g)) \<and> frame (snd (applyRecord lib config s r now g)) = frame s"
proof (cases "ar_success r")
  case True
  then show ?thesis using forget_ip_ok [OF assms(2)] by (simp add: applyRecord_def)
next
  case False
  obtain f a where f: "st_Failures s = Some f" "st_AlertedUntil s = Some a" "distinct (keys f)" "length f \<le> ssh_maxFailureIPs"
      "\<forall>e \<in> set f. failures_error lib e = None" "\<forall>e \<in> set a. alerted_error lib e = None"
    using assms(2) by (auto simp: counts_ok_def)
  note new = add_attempt_ok [OF assms(2-4)]
  let ?as = "add_attempt s r now" and ?ip = "ar_sourceIP r"
  let ?f = "AList.update ?ip ?as f"
  let ?s = "s\<lparr>st_Failures := Some ?f\<rparr>"
  let ?t = "if ssh_maxFailureIPs < length ?f then pruneOldestIP ?s else ?s"
  have mem: "\<forall>e \<in> set ?f. failures_error lib e = None"
  proof
    fix e
    assume "e \<in> set ?f"
    then have "e = (?ip, ?as) \<or> e \<in> set f" using mem_update_cases by (metis prod.collapse)
    then show "failures_error lib e = None" using new(1) f(5) by auto
  qed
  have "(?ip, ?as) \<in> set ?f" using map_of_SomeD [of ?f ?ip ?as] by simp
  moreover have "length ?f \<le> Suc ssh_maxFailureIPs" using f(4) by (simp add: length_update)
  moreover have "now < 2 ^ 63 - 1" using assms(4) by (auto simp: clock_ok_def)
  ultimately have "counts_ok lib (pruneOldestIP ?s)"
    using pruneOldestIP_ok [OF assms(1), of ?s ?f a ?ip ?as] f(2,3,6) mem new(2,3) by simp
  moreover have "counts_ok lib ?s" if "length ?f \<le> ssh_maxFailureIPs"
    using that f(2,3,6) mem by (simp add: counts_ok_def)
  ultimately have t: "counts_ok lib ?t" "frame ?t = frame s" by simp_all
  have "counts_ok lib (?t\<lparr>st_AlertedUntil := Some (AList.update ?ip (UnixNano (now + sc_Window config)) (alerted_of ?t))\<rparr>)"
  proof -
    obtain f' a' where fa: "st_Failures ?t = Some f'" "st_AlertedUntil ?t = Some a'" "distinct (keys f')" "length f' \<le> ssh_maxFailureIPs"
        "\<forall>e \<in> set f'. failures_error lib e = None" "\<forall>e \<in> set a'. alerted_error lib e = None"
      using t(1) unfolding counts_ok_def by blast
    have "\<forall>e \<in> set (AList.update ?ip (UnixNano (now + sc_Window config)) a'). alerted_error lib e = None"
    proof
      fix e
      assume "e \<in> set (AList.update ?ip (UnixNano (now + sc_Window config)) a')"
      then have "e = (?ip, UnixNano (now + sc_Window config)) \<or> e \<in> set a'" using mem_update_cases by (metis prod.collapse)
      then show "alerted_error lib e = None"
        using fa(6) assms(3,4) clock_nano(2) [OF assms(4)] by (auto simp: alerted_error_def record_ok_def clock_ok_def)
    qed
    then show ?thesis using fa unfolding counts_ok_def by simp
  qed
  moreover have "snd (applyRecord lib config s r now g) =
      (if int (length ?as) < sc_Threshold config \<or> UnixNano now < alerted_until ?t ?ip then ?t
       else ?t\<lparr>st_AlertedUntil := Some (AList.update ?ip (UnixNano (now + sc_Window config)) (alerted_of ?t))\<rparr>)"
    using False f(1) by (simp add: applyRecord_def Let_def)
  ultimately show ?thesis using t by simp
qed

lemma record_loop_ok:
  assumes "ssh_lib_ok lib" and "counts_ok lib s" and "clock_ok config now"
  shows "counts_ok lib (snd (record_loop lib config now g ls (es, s))) \<and> frame (snd (record_loop lib config now g ls (es, s))) = frame s"
  using assms(2)
proof (induction ls arbitrary: es s)
  case (Cons l ls)
  show ?case
  proof (cases "parseAuthLine lib l")
    case None
    then show ?thesis using Cons by simp
  next
    case (Some r)
    obtain new s' where a: "applyRecord lib config s r now g = (new, s')" by fastforce
    then have "counts_ok lib s'" "frame s' = frame s"
      using applyRecord_ok [OF assms(1) Cons.prems parseAuthLine_ok [OF assms(1) Some] assms(3), of g] by simp_all
    then show ?thesis using Cons.IH [of s'] Some a by simp
  qed
qed simp

section \<open>Cursors\<close>

text \<open>A hash of 32 bytes, in lower-case hexadecimal digits, passes the check of the stored hashes.\<close>

definition cursor_ok :: "fileCursor \<Rightarrow> bool" where
  "cursor_ok c \<longleftrightarrow> 0 \<le> cu_Offset c \<and> 0 \<le> cu_PrefixBytes c \<and> cu_PrefixBytes c \<le> ssh_prefixLimit
     \<and> (cu_PrefixHash c = [] \<or> lower_sha256 (cu_PrefixHash c))"

lemma cursor_error_None:
  "cursor_error (path, c) = None \<longleftrightarrow> IsAbs path \<and> Clean path = path \<and> cursor_ok c"
  by (auto simp: cursor_error_def cursor_ok_def not_less)

lemma take_lines_next:
  assumes "take_lines path mr ml off bytes = (ls, nx, l, ov)"
  shows "off \<le> nx"
proof -
  define content where "content = (if mr < int (length bytes) then take (nat mr) bytes else bytes)"
  define complete where "complete = rev (dropWhile (\<lambda>c. c \<noteq> byte 10) (rev content))"
  have run: "(if byte 10 \<notin> set content
      then (if mr < int (length bytes) then ([], off + int (length content), True, True) else ([], off, False, False))
      else line_loop path ml (off + int (length complete)) (butlast (SplitChar (byte 10) complete)) off [] (mr < int (length bytes)) False)
    = (ls, nx, l, ov)"
    using assms by (simp only: take_lines_def Let_def content_def complete_def)
  show ?thesis
  proof (cases "byte 10 \<in> set content")
    case True
    have "unsplit (butlast (SplitChar (byte 10) complete)) = complete"
      using unsplit_split last_newline(2,3) [OF True] complete_def by blast
    with run True have "line_loop path ml (off + int (length (unsplit (butlast (SplitChar (byte 10) complete)))))
        (butlast (SplitChar (byte 10) complete)) off [] (mr < int (length bytes)) False = (ls, nx, l, ov)" by simp
    from line_loop_exact [OF this refl] show ?thesis by auto
  qed (use run in \<open>auto split: if_splits\<close>)
qed

lemma readLines_next: "readLines config path off n w = (Inr (ls, nx, l, ov), w') \<Longrightarrow> 0 \<le> off \<and> off \<le> nx"
  by (auto simp: readLines_def io_outcomes split: if_splits intro: take_lines_next [OF sym])

lemma hashPrefix_hash: "ssh_lib_ok lib \<Longrightarrow> hashPrefix lib path n w = (Inr h, w') \<Longrightarrow> h = [] \<or> lower_sha256 h"
  by (auto simp: hashPrefix_def io_outcomes ssh_lib_ok_def lower_sha256_hash split: if_splits)

lemma cursor_start_ok:
  assumes "ssh_lib_ok lib" and "cursor_start lib path c ex fsize pb ph w = (Inr (off, pb', ph'), w')"
    and "0 \<le> fsize" and "0 \<le> pb" and "pb \<le> ssh_prefixLimit" and "ph = [] \<or> lower_sha256 ph"
  shows "0 \<le> pb' \<and> pb' \<le> ssh_prefixLimit \<and> (ph' = [] \<or> lower_sha256 ph')"
  using assms
  by (auto simp: cursor_start_def io_outcomes ssh_prefixLimit_def split: if_splits dest: hashPrefix_hash)

lemma readPath_ok:
  assumes "ssh_lib_ok lib" and "cursor_ok c" and "readPath lib config path c ex n w = ((c', ls, issues, readable), w')"
  shows "cursor_ok c'"
proof -
  obtain r v where l: "Lstat path w = (r, v)" by fastforce
  show ?thesis
  proof (cases r)
    case (Inl e)
    have "cursor_ok zero_cursor" by (simp add: cursor_ok_def zero_cursor_def ssh_prefixLimit_def)
    then show ?thesis using Inl l assms(2,3) by (auto simp: readPath_def split: os_error.splits)
  next
    case (Inr info)
    define fsize where "fsize = int (node_size info)"
    define pb where "pb = (if \<not> cu_Exists c \<or> cu_PrefixBytes c = 0 then min fsize ssh_prefixLimit else cu_PrefixBytes c)"
    have pb: "0 \<le> pb" "pb \<le> ssh_prefixLimit" using assms(2) by (auto simp: pb_def cursor_ok_def fsize_def ssh_prefixLimit_def)
    define steps where "steps = io_bind (hashPrefix lib path pb) (\<lambda>prefixHash.
        io_bind (cursor_start lib path c ex fsize pb prefixHash) (\<lambda>(offset, pb, ph).
          io_bind (readLines config path offset n) (\<lambda>found. io_return (pb, ph, found))))"
    have run: "(if \<not> is_regular info then ((c, [], [issue_at path ''unreadable_or_unsafe''], False), v)
      else case steps v of
                 (Inl _, w) \<Rightarrow> ((c, [], [issue_at path ''unreadable''], False), w)
               | (Inr (pb, ph, ls, nextOffset, limited, oversized), w) \<Rightarrow>
                   ((\<lparr>cu_Exists = True, cu_Offset = nextOffset, cu_PrefixBytes = pb, cu_PrefixHash = ph\<rparr>, ls,
                     (if limited then [issue_at path ''read_limit_reached''] else [])
                       @ (if oversized then [issue_at path ''oversized_line_skipped''] else []), True), w))
      = ((c', ls, issues, readable), w')"
      using assms(3) unfolding readPath_def l Inr prod.case sum.case Let_def fsize_def [symmetric] pb_def [symmetric] steps_def .
    obtain x u where x: "steps v = (x, u)" by fastforce
    show ?thesis
    proof (cases x)
      case (Inr t)
      obtain pb' ph' ls' nx lim ov where t: "t = (pb', ph', ls', nx, lim, ov)" by (metis prod.collapse)
      obtain h v1 off v2 where s: "hashPrefix lib path pb v = (Inr h, v1)" "cursor_start lib path c ex fsize pb h v1 = (Inr (off, pb', ph'), v2)"
          "readLines config path off n v2 = (Inr (ls', nx, lim, ov), u)"
        using x unfolding Inr t steps_def by (auto simp: io_outcomes)
      have "cursor_ok \<lparr>cu_Exists = True, cu_Offset = nx, cu_PrefixBytes = pb', cu_PrefixHash = ph'\<rparr>"
        using cursor_start_ok [OF assms(1) s(2) _ pb hashPrefix_hash [OF assms(1) s(1)]] readLines_next [OF s(3)]
        by (simp add: cursor_ok_def fsize_def)
      then show ?thesis using run x Inr t assms(2) by (auto split: if_splits)
    qed (use run x assms(2) in \<open>auto split: if_splits\<close>)
  qed
qed

text \<open>The cursors after the loop: one for each path known before or configured now.\<close>

lemma path_loop_ok:
  assumes "ssh_lib_ok lib" and "\<And>p. previous = Some p \<Longrightarrow> \<forall>e \<in> set (files_of p). cursor_error e = None"
    and "path_loop lib config previous paths (files, ls, issues, usable) w = ((files', ls', issues', usable'), w')"
    and "\<forall>p \<in> set paths. IsAbs p \<and> Clean p = p" and "distinct (keys files)" and "\<forall>e \<in> set files. cursor_error e = None"
  shows "distinct (keys files') \<and> (\<forall>e \<in> set files'. cursor_error e = None) \<and> set (keys files') = set (keys files) \<union> set paths"
  using assms(3-6)
proof (induction paths arbitrary: files ls issues usable w)
  case (Cons path paths)
  let ?old = "case_option zero_cursor id (map_of (case_option [] files_of previous) path)"
  have old: "cursor_ok ?old"
  proof (cases "map_of (case_option [] files_of previous) path")
    case None
    then show ?thesis by (simp add: cursor_ok_def zero_cursor_def ssh_prefixLimit_def)
  next
    case (Some c)
    then obtain p where "previous = Some p" "(path, c) \<in> set (files_of p)" by (cases previous) (auto dest: map_of_SomeD)
    then show ?thesis using assms(2) Some cursor_error_None by auto
  qed
  have step: "distinct (keys (AList.update path c files)) \<and> (\<forall>e \<in> set (AList.update path c files). cursor_error e = None)
      \<and> set (keys (AList.update path c files)) = insert path (set (keys files))" if c: "cursor_ok c" for c
  proof (intro conjI ballI)
    fix e
    assume "e \<in> set (AList.update path c files)"
    then have "e = (path, c) \<or> e \<in> set files" using mem_update_cases by (metis prod.collapse)
    then show "cursor_error e = None" using Cons.prems(2,4) c cursor_error_None by auto
  qed (use Cons.prems(3) in \<open>simp_all add: AList.dom_update\<close>)
  obtain c fl fi rd v where r: "readPath lib config path ?old (previous \<noteq> None) (sc_MaxLines config - int (length ls)) w = ((c, fl, fi, rd), v)"
    by (metis prod.collapse)
  have paths: "\<forall>p \<in> set paths. IsAbs p \<and> Clean p = p" using Cons.prems(2) by simp
  show ?case
  proof (cases "sc_MaxLines config - int (length ls) \<le> 0")
    case True
    then have "path_loop lib config previous paths
        (AList.update path ?old files, ls, issues @ [issue_at path ''line_limit_reached''], usable) w = ((files', ls', issues', usable'), w')"
      using Cons.prems(1) by (simp add: Let_def)
    from Cons.IH [OF this paths] step [OF old] show ?thesis by simp
  next
    case False
    then have "path_loop lib config previous paths (AList.update path c files, ls @ fl, issues @ fi, usable \<or> rd) v
        = ((files', ls', issues', usable'), w')"
      using Cons.prems(1) r by (simp add: Let_def)
    from Cons.IH [OF this paths] step [OF readPath_ok [OF assms(1) old r]] show ?thesis by simp
  qed
qed simp

section \<open>The prepared state\<close>

lemma ssh_validateState_iff:
  "ssh_validateState lib s = None \<longleftrightarrow> st_SchemaVersion s = 1 \<and> st_Generation s \<noteq> 0 \<and> ssh_journal_error s = None
     \<and> (\<exists>files f a. st_Files s = Some files \<and> st_Failures s = Some f \<and> st_AlertedUntil s = Some a \<and> length files \<le> 16
          \<and> length f \<le> ssh_maxFailureIPs \<and> (\<forall>e \<in> set files. cursor_error e = None)
          \<and> (\<forall>e \<in> set f. failures_error lib e = None) \<and> (\<forall>e \<in> set a. alerted_error lib e = None))"
  unfolding ssh_validateState_def
  by (auto simp: first_error_None [symmetric] not_less split: option.splits if_splits)

lemma frame_journal: "frame s' = frame s \<Longrightarrow> ssh_journal_error s' = ssh_journal_error s"
  by (simp add: frame_def ssh_journal_error_def)

text \<open>A decoded state is built from maps, and the journal keeps its contract.\<close>

definition ssh_distinct :: "ssh_state option \<Rightarrow> bool" where
  "ssh_distinct previous \<longleftrightarrow> (case previous of None \<Rightarrow> True
     | Some p \<Rightarrow> distinct (keys (files_of p)) \<and> distinct (keys (failures_of p)))"

definition journal_ok :: "ssh_Config \<Rightarrow> bool" where
  "journal_ok config \<longleftrightarrow> (case sc_Journal config of None \<Rightarrow> True
     | Some j \<Rightarrow> journal_source (js_Baseline j) (js_ReadAfter j))"

text \<open>The files known before and the files configured now.\<close>

definition watched :: "ssh_Config \<Rightarrow> ssh_state option \<Rightarrow> string set" where
  "watched config previous = set (keys (case_option [] files_of previous)) \<union> set (sc_Paths config)"

lemma next_start_ok:
  assumes "\<And>p. previous = Some p \<Longrightarrow> ssh_validateState lib p = None" and "ssh_distinct previous"
  shows "counts_ok lib (next_start previous)" "st_SchemaVersion (next_start previous) = 1"
    "st_Generation (next_start previous) = case_option 0 st_Generation previous + 1" "ssh_journal_error (next_start previous) = None"
    "st_JournalInitialized (next_start previous) = st_JournalInitialized (case_option zero_state id previous)"
proof -
  have "counts_ok lib (next_start previous) \<and> st_SchemaVersion (next_start previous) = 1 \<and> ssh_journal_error (next_start previous) = None"
  proof (cases previous)
    case None
    then show ?thesis by (simp add: counts_ok_def next_start_def cloneState_def zero_state_def ssh_journal_error_def)
  next
    case (Some p)
    then have d: "distinct (keys (failures_of p))" using assms(2) by (simp add: ssh_distinct_def)
    obtain files f a where "st_SchemaVersion p = 1" "ssh_journal_error p = None" "st_Files p = Some files" "st_Failures p = Some f"
        "st_AlertedUntil p = Some a" "length f \<le> ssh_maxFailureIPs" "\<forall>e \<in> set f. failures_error lib e = None"
        "\<forall>e \<in> set a. alerted_error lib e = None"
      using assms(1) [OF Some] unfolding ssh_validateState_iff by blast
    moreover have "ssh_journal_error (next_start (Some p)) = ssh_journal_error p"
      by (simp add: next_start_def cloneState_def ssh_journal_error_def)
    ultimately show ?thesis using d Some by (simp add: counts_ok_def next_start_def cloneState_def)
  qed
  then show "counts_ok lib (next_start previous)" "st_SchemaVersion (next_start previous) = 1" "ssh_journal_error (next_start previous) = None"
    by blast+
qed (simp_all add: next_start_def cloneState_def zero_state_def split: option.splits)

lemma with_files [simp]:
  "counts_ok lib (s\<lparr>st_Files := x\<rparr>) = counts_ok lib s" "ssh_journal_error (s\<lparr>st_Files := x\<rparr>) = ssh_journal_error s"
  by (simp_all add: counts_ok_def ssh_journal_error_def)

lemma with_coverage [simp]:
  "counts_ok lib (s\<lparr>st_CoverageHash := x\<rparr>) = counts_ok lib s" "frame (s\<lparr>st_CoverageHash := x\<rparr>) = frame s"
  by (simp_all add: counts_ok_def frame_def)

lemma ssh_assess_ok:
  assumes "ssh_lib_ok lib" and "clock_ok config now" and "journal_ok config"
    and "\<And>p. previous = Some p \<Longrightarrow> ssh_validateState lib p = None" and "ssh_distinct previous"
    and "ssh_assess lib config now previous (files, ls, issues, usable) = (es, s)"
  shows "counts_ok lib s \<and> ssh_journal_error s = None \<and> st_Files s = Some files \<and> st_SchemaVersion s = 1
    \<and> st_Generation s = case_option 0 st_Generation previous + 1"
proof -
  let ?s0 = "(next_start previous)\<lparr>st_Files := Some files\<rparr>"
  note start = next_start_ok [OF assms(4,5)]
  have s0: "counts_ok lib ?s0" "ssh_journal_error ?s0 = None"
    "st_JournalInitialized ?s0 = st_JournalInitialized (case_option zero_state id previous)"
    using start(1,4,5) by simp_all
  define mid where "mid = (if usable
               then (ls, issues, ?s0\<lparr>st_JournalInitialized := False, st_JournalCursor := [], st_JournalSince := 0\<rparr>)
               else case sc_Journal config of
                 None \<Rightarrow> (ls, issues, ?s0)
               | Some journal \<Rightarrow>
                   (case readJournal journal (case_option zero_state id previous) ?s0 now (sc_MaxLines config - int (length ls)) of
                      (journalLines, journalIssues, s) \<Rightarrow> (ls @ journalLines, issues @ journalIssues, s)))"
  obtain ls1 issues1 s1 where mid: "mid = (ls1, issues1, s1)" by (metis prod.collapse)
  have s1: "counts_ok lib s1 \<and> ssh_journal_error s1 = None \<and> st_Files s1 = Some files \<and> st_SchemaVersion s1 = 1
    \<and> st_Generation s1 = case_option 0 st_Generation previous + 1"
  proof (cases usable)
    case True
    then show ?thesis using mid mid_def s0 start(2,3) by (auto simp: counts_ok_def ssh_journal_error_def)
  next
    case False
    show ?thesis
    proof (cases "sc_Journal config")
      case None
      then show ?thesis using mid mid_def s0 start(2,3) False by auto
    next
      case (Some j)
      obtain jl ji s2 where j: "readJournal j (case_option zero_state id previous) ?s0 now (sc_MaxLines config - int (length ls)) = (jl, ji, s2)"
        by (metis prod.collapse)
      have src: "j = \<lparr>js_Baseline = js_Baseline j, js_ReadAfter = js_ReadAfter j\<rparr>" by simp
      have contract: "journal_source (js_Baseline j) (js_ReadAfter j)" using assms(3) Some by (simp add: journal_ok_def)
      have "0 < UnixNano now" using assms(2) clock_nano(1) [OF assms(2)] by (simp add: clock_ok_def)
      then have "ssh_journal_error s2 = None"
        using journal_source.readJournal_cursor [OF contract, folded src, OF j s0(2,3)] by simp
      moreover note journal_source.readJournal_frame [OF contract, folded src, OF j]
      ultimately have "ssh_journal_error s2 = None \<and> counts_ok lib s2 \<and> st_Files s2 = Some files \<and> st_SchemaVersion s2 = 1
        \<and> st_Generation s2 = case_option 0 st_Generation previous + 1"
        using s0(1) start(2,3) by (simp add: counts_ok_def)
      moreover have "s1 = s2" using mid mid_def False Some j by simp
      ultimately show ?thesis by blast
    qed
  qed
  define s2 where "s2 = pruneFailures s1 now (now - sc_Window config)"
  have s2: "counts_ok lib s2" "frame s2 = frame s1" using pruneFailures_ok [of lib s1] s1 by (simp_all add: s2_def)
  obtain es3 s3 where s3: "record_loop lib config now (case_option 0 st_Generation previous) ls1 ([], s2) = (es3, s3)" by fastforce
  have s3_ok: "counts_ok lib s3" "frame s3 = frame s2"
    using record_loop_ok [OF assms(1) s2(1) assms(2), of "case_option 0 st_Generation previous" ls1 "[]"] s3 by simp_all
  have s: "s = s3\<lparr>st_CoverageHash := ssh_hashValue lib (sort_key ssh_issue_key issues1)\<rparr>"
    using assms(6) mid [unfolded mid_def] s3 [unfolded s2_def] by (simp add: ssh_assess_def Let_def)
  then have "frame s = frame s1" using s3_ok(2) s2(2) by simp
  then show ?thesis using s1 s3_ok(1) s frame_journal [of s s1] by (simp add: frame_def)
qed


lemma ssh_Scan_state:
  assumes "ssh_lib_ok lib" and "clock_ok config now" and "journal_ok config" and "\<forall>p \<in> set (sc_Paths config). IsAbs p \<and> Clean p = p"
    and "ssh_loadState lib config w = (Inr previous, v)" and "ssh_distinct previous"
    and "ssh_Scan lib now config w = (Inr (es, k), w')"
  shows "\<exists>s files. k = ssh_saveState lib config s \<and> counts_ok lib s \<and> ssh_journal_error s = None \<and> st_SchemaVersion s = 1
    \<and> st_Generation s = case_option 0 st_Generation previous + 1 \<and> st_Files s = Some files
    \<and> (\<forall>e \<in> set files. cursor_error e = None) \<and> length files = card (watched config previous)"
proof -
  obtain found s where f: "path_loop lib config previous (sc_Paths config) (case_option [] files_of previous, [], [], False) v = (found, w')"
      "ssh_assess lib config now previous found = (es, s)" "k = ssh_saveState lib config s"
    using assms(5,7) by (auto elim!: ssh_Scan_cases)
  obtain files ls issues usable where found: "found = (files, ls, issues, usable)" by (metis prod.collapse)
  have valid: "ssh_validateState lib p = None" if "previous = Some p" for p
    using load_state_Inr [OF assms(5) [unfolded ssh_loadState_def]] that
    by (auto simp: stored_state_def parse_state_def ssh_file_def split: option.splits node.splits if_splits sum.splits)
  have old: "\<forall>e \<in> set (files_of p). cursor_error e = None" if "previous = Some p" for p
    using valid [OF that] unfolding ssh_validateState_iff by auto
  have "distinct (keys (case_option [] files_of previous))" "\<forall>e \<in> set (case_option [] files_of previous). cursor_error e = None"
    using assms(6) old by (cases previous; simp add: ssh_distinct_def)+
  from path_loop_ok [OF assms(1) old f(1) [unfolded found] assms(4) this]
  have files: "distinct (keys files)" "\<forall>e \<in> set files. cursor_error e = None" "set (keys files) = watched config previous"
    unfolding watched_def by blast+
  have "length files = card (watched config previous)" using distinct_card [OF files(1)] files(3) by simp
  moreover have "counts_ok lib s \<and> ssh_journal_error s = None \<and> st_Files s = Some files \<and> st_SchemaVersion s = 1
    \<and> st_Generation s = case_option 0 st_Generation previous + 1"
    by (rule ssh_assess_ok [OF assms(1-3) valid assms(6) f(2) [unfolded found]])
  ultimately show ?thesis using f(3) files(2) by blast
qed

text \<open>C36: Whatever the logs and the journal hold, a scan prepares a state that its own \<open>validateState\<close> accepts, with the
  generation after the stored one, provided the detector has watched at most sixteen paths in all: the bounds on
  sources and attempts, the cursors, the suppressions and the journal position all hold.\<close>

theorem ssh_Scan_prepares_valid_state:
  assumes "ssh_lib_ok lib" and "clock_ok config now" and "journal_ok config" and "\<forall>p \<in> set (sc_Paths config). IsAbs p \<and> Clean p = p"
    and "ssh_loadState lib config w = (Inr previous, v)" and "ssh_distinct previous"
    and "ssh_Scan lib now config w = (Inr (es, k), w')" and "card (watched config previous) \<le> 16"
  shows "\<exists>s. k = ssh_saveState lib config s \<and> ssh_validateState lib s = None
    \<and> st_Generation s = case_option 0 st_Generation previous + 1"
proof -
  obtain s files where "k = ssh_saveState lib config s" "counts_ok lib s" "ssh_journal_error s = None" "st_SchemaVersion s = 1"
      "st_Generation s = case_option 0 st_Generation previous + 1" "st_Files s = Some files"
      "\<forall>e \<in> set files. cursor_error e = None" "length files = card (watched config previous)"
    using ssh_Scan_state [OF assms(1-7)] by blast
  then show ?thesis using assms(8) by (auto simp: ssh_validateState_iff counts_ok_def)
qed

text \<open>The cursor of a path that is no longer configured is never dropped. Once the paths stored and the paths configured
  together are more than sixteen, which \<open>New\<close> does not exclude, every scan prepares a state with too many cursors and its
  commit fails in every state of the file system.\<close>

theorem stale_paths_block_commit:
  assumes "ssh_lib_ok lib" and "clock_ok config now" and "journal_ok config" and "\<forall>p \<in> set (sc_Paths config). IsAbs p \<and> Clean p = p"
    and "ssh_loadState lib config w = (Inr previous, v)" and "ssh_distinct previous"
    and "ssh_Scan lib now config w = (Inr (es, k), w')" and "16 < card (watched config previous)"
  shows "k u = (Inl ''SSH auth state has invalid collections'', u)"
proof -
  obtain s files where "k = ssh_saveState lib config s" "counts_ok lib s" "st_SchemaVersion s = 1"
      "st_Generation s = case_option 0 st_Generation previous + 1" "st_Files s = Some files" "length files = card (watched config previous)"
    using ssh_Scan_state [OF assms(1-7)] by blast
  then show ?thesis
    using assms(8) by (auto simp: ssh_saveState_def save_state_def ssh_file_def ssh_validateState_def counts_ok_def io_fail_def)
qed

section \<open>A log that shrank\<close>

text \<open>A log cut to less than the recorded prefix is reported as unreadable and keeps its old cursor: the hash of the old
  prefix fails before the comparison with the old offset, which was meant to restart at the beginning.\<close>

lemma shrunk_log_is_unreadable:
  assumes "w_faults w = []" and "node_at w path = Some (NFile m content)" and "cu_Exists c" and "0 < cu_PrefixBytes c"
    and "int (length content) < cu_PrefixBytes c"
  shows "readPath lib config path c ex n w = ((c, [], [issue_at path ''unreadable''], False), w)"
  using assms
  by (simp add: readPath_def Lstat_def sys_no_fault Let_def io_bind_def hashPrefix_def io_wrap_def ReadFile_def follow_file io_fail_def)

section \<open>Instances\<close>

definition ssh_sample_files :: "(string, fileCursor) gomap" where
  "ssh_sample_files = map (\<lambda>c. ([slash, c], zero_cursor)) ''abcdefghijklmnop''"

definition ssh_sample_state :: ssh_state where
  "ssh_sample_state = \<lparr>st_SchemaVersion = 1, st_Generation = 1, st_CoverageHash = [], st_Files = Some ssh_sample_files,
     st_Failures = Some [], st_AlertedUntil = Some [], st_JournalInitialized = False, st_JournalCursor = [], st_JournalSince = 0\<rparr>"

definition ssh_sample_lib :: ssh_lib where
  "ssh_sample_lib = \<lparr>sl_sha256 = (\<lambda>s. take 32 (s @ replicate 32 (CHR ''h''))), sl_ParseIP = (\<lambda>s. if s = [] then None else Some s),
     sl_issues_json = (\<lambda>_. ''[]''), sl_marshal = (\<lambda>_. Inr ''1''),
     sl_decode = (\<lambda>s. case s of [] \<Rightarrow> Inl [] | c # cs \<Rightarrow> Inr (ssh_sample_state, cs))\<rparr>"

definition ssh_sample_config :: ssh_Config where
  "ssh_sample_config = \<lparr>sc_StateDir = ''/s'', sc_Paths = [''/z''], sc_Journal = None, sc_DisableJournal = True,
     sc_Threshold = 2, sc_Window = 100, sc_MaxRead = 4096, sc_MaxLines = 9\<rparr>"

definition ssh_world :: "(string, node) gomap \<Rightarrow> world" where
  "ssh_world files = \<lparr>w_files = (''/'', NDir 493) # (''/s'', NDir 448) # files, w_faults = [], w_rand = [''r''], w_cwd = ''/''\<rparr>"

lemma ssh_sample_lib_ok: "ssh_lib_ok ssh_sample_lib"
  by (simp add: ssh_lib_ok_def ssh_sample_lib_def min_def)

lemma ssh_sample_config_ok:
  "clock_ok ssh_sample_config 5" "journal_ok ssh_sample_config" "\<forall>p \<in> set (sc_Paths ssh_sample_config). IsAbs p \<and> Clean p = p"
proof -
  have "Clean ''/z'' = ''/z''" by code_simp
  then show "\<forall>p \<in> set (sc_Paths ssh_sample_config). IsAbs p \<and> Clean p = p" by (simp add: ssh_sample_config_def)
qed (simp_all add: clock_ok_def journal_ok_def ssh_sample_config_def)

lemma ssh_sample_path: "sf_path (ssh_file ssh_sample_lib ssh_sample_config) = ''/s/detectors/ssh-auth-state.json''"
proof -
  have "JoinPath [JoinPath [''/s'', ''detectors''], ''ssh-auth-state.json''] = ''/s/detectors/ssh-auth-state.json''" by code_simp
  then show ?thesis by (simp add: sf_path_def ssh_file_def ssh_sample_config_def)
qed

lemma ssh_sample_scan:
  assumes "ssh_loadState ssh_sample_lib ssh_sample_config w = (Inr previous, v)" and "case_option 0 st_Generation previous < 9"
  shows "\<exists>es k w'. ssh_Scan ssh_sample_lib 5 ssh_sample_config w = (Inr (es, k), w')"
proof -
  obtain f u where "path_loop ssh_sample_lib ssh_sample_config previous (sc_Paths ssh_sample_config)
      (case_option [] files_of previous, [], [], False) v = (f, u)" by fastforce
  moreover obtain es s where "ssh_assess ssh_sample_lib ssh_sample_config 5 previous f = (es, s)" by fastforce
  ultimately show ?thesis using assms by (simp add: ssh_Scan_def io_bind_def)
qed

lemma ssh_sample_fresh:
  "ssh_loadState ssh_sample_lib ssh_sample_config (ssh_world [(''/z'', NFile 420 ''x'')]) = (Inr None, ssh_world [(''/z'', NFile 420 ''x'')])"
  by (simp add: ssh_loadState_def load_state_def ssh_sample_path io_try_def Lstat_def ssh_world_def sys_no_fault io_return_def)

theorem ssh_Scan_prepares_valid_state_witness:
  "\<exists>es k w' s. ssh_Scan ssh_sample_lib 5 ssh_sample_config (ssh_world [(''/z'', NFile 420 ''x'')]) = (Inr (es, k), w')
     \<and> k = ssh_saveState ssh_sample_lib ssh_sample_config s \<and> ssh_validateState ssh_sample_lib s = None \<and> st_Generation s = 1"
proof -
  obtain es k w' where r: "ssh_Scan ssh_sample_lib 5 ssh_sample_config (ssh_world [(''/z'', NFile 420 ''x'')]) = (Inr (es, k), w')"
    using ssh_sample_scan [OF ssh_sample_fresh] by auto
  have "ssh_distinct None" "card (watched ssh_sample_config None) \<le> 16"
    by (simp_all add: ssh_distinct_def watched_def ssh_sample_config_def)
  from ssh_Scan_prepares_valid_state [OF ssh_sample_lib_ok ssh_sample_config_ok ssh_sample_fresh this(1) r this(2)]
  show ?thesis using r by auto
qed

definition ssh_stored_world :: world where
  "ssh_stored_world = ssh_world [(''/s/detectors/ssh-auth-state.json'', NFile 384 [CHR ''1'', byte 10])]"

lemma ssh_sample_stored:
  "ssh_loadState ssh_sample_lib ssh_sample_config ssh_stored_world = (Inr (Some ssh_sample_state), ssh_stored_world)"
proof -
  have "list_all (\<lambda>e. cursor_error e = None) ssh_sample_files" by code_simp
  then have valid: "ssh_validateState ssh_sample_lib ssh_sample_state = None"
    by (simp add: ssh_validateState_iff ssh_sample_state_def ssh_journal_error_def list_all_iff ssh_sample_files_def)
  have "w_faults ssh_stored_world = []" by (simp add: ssh_stored_world_def ssh_world_def)
  moreover have "stored_state (ssh_file ssh_sample_lib ssh_sample_config) ssh_stored_world = Some ssh_sample_state"
  proof -
    have "sf_max (ssh_file ssh_sample_lib ssh_sample_config) = 4194304"
      "sf_decode (ssh_file ssh_sample_lib ssh_sample_config) [CHR ''1'', byte 10] = Inr (ssh_sample_state, [byte 10])"
      "sf_validate (ssh_file ssh_sample_lib ssh_sample_config) = ssh_validateState ssh_sample_lib"
      by (simp_all add: ssh_file_def ssh_sample_lib_def)
    then show ?thesis
      using valid by (simp add: stored_state_def ssh_sample_path ssh_stored_world_def ssh_world_def parse_state_def json_blank_def)
  qed
  ultimately show ?thesis by (simp add: ssh_loadState_def load_state_no_fault)
qed

theorem stale_paths_block_commit_witness:
  "\<exists>es k w'. ssh_Scan ssh_sample_lib 5 ssh_sample_config ssh_stored_world = (Inr (es, k), w')
     \<and> k ssh_stored_world = (Inl ''SSH auth state has invalid collections'', ssh_stored_world)"
proof -
  obtain es k w' where r: "ssh_Scan ssh_sample_lib 5 ssh_sample_config ssh_stored_world = (Inr (es, k), w')"
    using ssh_sample_scan [OF ssh_sample_stored] by (auto simp: ssh_sample_state_def)
  have d: "ssh_distinct (Some ssh_sample_state)" by (simp add: ssh_distinct_def ssh_sample_state_def ssh_sample_files_def)
  have "16 < card (watched ssh_sample_config (Some ssh_sample_state))"
    by (simp add: watched_def ssh_sample_config_def ssh_sample_state_def ssh_sample_files_def)
  from stale_paths_block_commit [OF ssh_sample_lib_ok ssh_sample_config_ok ssh_sample_stored d r this]
  show ?thesis using r by blast
qed

definition ssh_sample_line :: logLine where
  "ssh_sample_line = \<lparr>ll_path = ''/z'', ll_offset = 0, ll_text = ''sshd: Failed password for root from 10.0.0.1 port 22'', ll_key = []\<rparr>"

lemma ssh_sample_failure: "failure_line ssh_sample_lib ''10.0.0.1'' ssh_sample_line"
proof -
  have "(case parseAuthLine ssh_sample_lib ssh_sample_line of None \<Rightarrow> False
      | Some r \<Rightarrow> \<not> ar_success r \<and> ar_sourceIP r = ''10.0.0.1'')" by code_simp
  then show ?thesis by (auto simp: failure_line_def split: option.splits)
qed


definition ssh_log :: string where "ssh_log = ''ab'' @ [byte 10] @ ''cd'' @ [byte 10] @ ''e''"

lemma ssh_read_log:
  "readLines ssh_sample_config ''/z'' 3 9 (ssh_world [(''/z'', NFile 420 ssh_log)])
     = (Inr ([\<lparr>ll_path = ''/z'', ll_offset = 3, ll_text = ''cd'', ll_key = []\<rparr>], 6, False, False), ssh_world [(''/z'', NFile 420 ssh_log)])"
proof -
  have "CHR ''c'' \<noteq> byte 10" "CHR ''d'' \<noteq> byte 10" "CHR ''e'' \<noteq> byte 10" by code_simp+
  then show ?thesis
    by (simp add: readLines_def io_bind_def io_wrap_def ReadFile_def sys_no_fault ssh_world_def follow_file io_return_def
        ssh_sample_config_def take_lines_def ssh_log_def Let_def ssh_maxLineBytes_def)
qed

theorem readLines_every_line_once_witness:
  "\<exists>consumed remaining. drop 3 ssh_log = consumed @ remaining \<and> 6 = 3 + int (length consumed) \<and> byte 10 \<notin> set remaining"
  using readLines_every_line_once [OF ssh_read_log, of 420 ssh_log]
  by (auto simp: ssh_world_def ssh_sample_config_def)

end
