(* ===== verification/Version.thy ===== *)
theory Version
  imports Go_Files Domain "HOL-Library.Product_Lexorder"
begin

text \<open>
  internal/installer/version.go: which of two release versions is newer, and the state file of the
  installed release. The specification is the precedence of Semantic Versioning as a linear order on
  parsed versions; \<open>compareReleaseVersions\<close> computes it for versions without superfluous zeros.
\<close>

section \<open>Parsing\<close>

text \<open>The pattern \<open>^v?([0-9]+)\.([0-9]+)\.([0-9]+)(?:-([0-9A-Za-z.-]+))?$\<close> with its four groups. Each number ends
  at the first byte that is no digit, so the match is determined.\<close>

definition take_digits :: "string \<Rightarrow> (string \<times> string) option" where
  "take_digits s =
     (if takeWhile dec_digit s = [] then None else Some (takeWhile dec_digit s, dropWhile dec_digit s))"

definition expect :: "char \<Rightarrow> string \<Rightarrow> string option" where
  "expect c s = (case s of x # xs \<Rightarrow> if x = c then Some xs else None | [] \<Rightarrow> None)"

definition prerelease_char :: "char \<Rightarrow> bool" where
  "prerelease_char c \<longleftrightarrow>
     (let n = (of_char c :: nat) in dec_digit c \<or> 65 \<le> n \<and> n \<le> 90 \<or> 97 \<le> n \<and> n \<le> 122 \<or> c \<in> set ''.-'')"

definition parse_prerelease :: "string \<Rightarrow> string option" where
  "parse_prerelease s =
     (case s of
        [] \<Rightarrow> Some []
      | c # cs \<Rightarrow> if c = CHR ''-'' \<and> cs \<noteq> [] \<and> list_all prerelease_char cs then Some cs else None)"

definition FindStringSubmatch :: "string \<Rightarrow> (string \<times> string \<times> string \<times> string) option" where
  "FindStringSubmatch s =
     do {
       (a, s1) \<leftarrow> take_digits (TrimPrefix s ''v'');
       s2 \<leftarrow> expect (CHR ''.'') s1;
       (b, s3) \<leftarrow> take_digits s2;
       s4 \<leftarrow> expect (CHR ''.'') s3;
       (c, s5) \<leftarrow> take_digits s4;
       p \<leftarrow> parse_prerelease s5;
       Some (a, b, c, p)
     }"

section \<open>Comparison\<close>

text \<open>\<open>strings.Compare\<close>, and \<open>strconv.ParseUint\<close> with its error dropped: a number beyond 64 bits becomes the
  largest one.\<close>

definition Compare :: "string \<Rightarrow> string \<Rightarrow> int" where
  "Compare a b = (if a < b then -1 else if a = b then 0 else 1)"

definition uint_or_max :: "string \<Rightarrow> nat" where
  "uint_or_max s = (case ParseUint s 10 64 of Some n \<Rightarrow> n | None \<Rightarrow> 2 ^ 64 - 1)"

fun compare_parts :: "string list \<Rightarrow> string list \<Rightarrow> int" where
  "compare_parts (l # ls) (r # rs) =
     (if l = r then compare_parts ls rs
      else case (ParseUint l 10 64, ParseUint r 10 64) of
             (Some leftNumber, Some rightNumber) \<Rightarrow> if leftNumber < rightNumber then -1 else 1
           | (Some _, None) \<Rightarrow> -1
           | (None, Some _) \<Rightarrow> 1
           | (None, None) \<Rightarrow> Compare l r)"
| "compare_parts ls rs = (if length ls < length rs then -1 else 1)"

definition comparePrerelease :: "string \<Rightarrow> string \<Rightarrow> int" where
  "comparePrerelease left right =
     (if left = right then 0
      else if left = [] then 1
      else if right = [] then -1
      else compare_parts (SplitChar (CHR ''.'') left) (SplitChar (CHR ''.'') right))"

fun compare_numbers :: "string list \<Rightarrow> string list \<Rightarrow> int" where
  "compare_numbers (l # ls) (r # rs) =
     (if uint_or_max l < uint_or_max r then -1
      else if uint_or_max r < uint_or_max l then 1
      else compare_numbers ls rs)"
| "compare_numbers ls rs = 0"

definition compareReleaseVersions :: "string \<Rightarrow> string \<Rightarrow> int" where
  "compareReleaseVersions left right =
     (case (FindStringSubmatch left, FindStringSubmatch right) of
        (Some (a, b, c, p), Some (a', b', c', p')) \<Rightarrow>
          (let n = compare_numbers [a, b, c] [a', b', c'] in if n \<noteq> 0 then n else comparePrerelease p p')
      | _ \<Rightarrow> Compare left right)"

section \<open>The installed release\<close>

record installedRelease =
  ir_Version :: string
  ir_InstalledAt :: time
  ir_TransactionID :: string

definition installedReleasePath :: string where
  "installedReleasePath = ''/var/lib/my-safe/installed-release.json''"

definition valid_release :: "installedRelease \<Rightarrow> bool" where
  "valid_release state \<longleftrightarrow>
     FindStringSubmatch (ir_Version state) \<noteq> None \<and> ir_InstalledAt state \<noteq> zero_time
     \<and> TrimSpace (ir_TransactionID state) \<noteq> [] \<and> BasePath (ir_TransactionID state) = ir_TransactionID state"

definition loadInstalledRelease ::
  "(string \<Rightarrow> error + installedRelease \<times> string) \<Rightarrow> string \<Rightarrow> (error, installedRelease option) io" where
  "loadInstalledRelease decode root =
     (let path = rootPath root installedReleasePath
      in io_try (Lstat path) (\<lambda>r.
        case r of
          Inl OsNotExist \<Rightarrow> io_return None
        | Inl e \<Rightarrow> io_fail (os_text e)
        | Inr info \<Rightarrow>
            if \<not> is_regular info \<or> node_size info = 0 \<or> 4096 < node_size info
            then io_fail ''installed release state must be a small regular file''
            else io_bind (io_wrap os_text (ReadFile path)) (\<lambda>encoded.
              case decode encoded of
                Inl e \<Rightarrow> io_fail (''decode installed release state: '' @ e)
              | Inr (state, after) \<Rightarrow>
                  if \<not> list_all json_blank after then io_fail ''installed release state contains trailing JSON''
                  else if \<not> valid_release state then io_fail ''installed release state is invalid''
                  else io_return (Some state))))"

section \<open>Precedence\<close>

text \<open>An identifier of a pre-release is a number or a text; numbers are lower than texts.\<close>

datatype pre_ident = Numeric nat | Text string

instantiation pre_ident :: linorder
begin

fun less_pre_ident :: "pre_ident \<Rightarrow> pre_ident \<Rightarrow> bool" where
  "less_pre_ident (Numeric a) (Numeric b) = (a < b)"
| "less_pre_ident (Numeric _) (Text _) = True"
| "less_pre_ident (Text _) (Numeric _) = False"
| "less_pre_ident (Text a) (Text b) = (a < b)"

definition less_eq_pre_ident :: "pre_ident \<Rightarrow> pre_ident \<Rightarrow> bool" where
  "less_eq_pre_ident a b \<longleftrightarrow> a = b \<or> a < b"

instance
proof
  fix x y z :: pre_ident
  show "(x < y) = (x \<le> y \<and> \<not> y \<le> x)"
    by (cases x; cases y) (auto simp: less_eq_pre_ident_def)
  show "x \<le> x" by (simp add: less_eq_pre_ident_def)
  show "x \<le> y \<Longrightarrow> y \<le> z \<Longrightarrow> x \<le> z"
    by (cases x; cases y; cases z) (auto simp: less_eq_pre_ident_def)
  show "x \<le> y \<Longrightarrow> y \<le> x \<Longrightarrow> x = y"
    by (cases x; cases y) (auto simp: less_eq_pre_ident_def)
  show "x \<le> y \<or> y \<le> x"
    by (cases x; cases y) (auto simp: less_eq_pre_ident_def)
qed

end

definition ident_of :: "string \<Rightarrow> pre_ident" where
  "ident_of s = (case ParseUint s 10 64 of Some n \<Rightarrow> Numeric n | None \<Rightarrow> Text s)"

text \<open>The precedence of a version: its three numbers, then whether it is a release, then the identifiers of its
  pre-release, compared one after the other, where a proper beginning is lower.\<close>

definition precedence :: "string \<Rightarrow> nat list \<times> bool \<times> pre_ident list" where
  "precedence s =
     (case FindStringSubmatch s of
        Some (a, b, c, p) \<Rightarrow>
          ([number_value 10 a, number_value 10 b, number_value 10 c], p = [],
           if p = [] then [] else map ident_of (SplitChar (CHR ''.'') p))
      | None \<Rightarrow> undefined)"

definition canonical_number :: "string \<Rightarrow> bool" where
  "canonical_number s \<longleftrightarrow> s = ''0'' \<or> (s \<noteq> [] \<and> hd s \<noteq> CHR ''0'')"

text \<open>A version whose numbers fit 64 bits and whose numeric pre-release identifiers have no leading zero.\<close>

definition canonical_version :: "string \<Rightarrow> bool" where
  "canonical_version s \<longleftrightarrow>
     (case FindStringSubmatch s of
        None \<Rightarrow> False
      | Some (a, b, c, p) \<Rightarrow>
          list_all (\<lambda>x. ParseUint x 10 64 \<noteq> None) [a, b, c]
          \<and> list_all (\<lambda>x. ParseUint x 10 64 = None \<or> canonical_number x) (SplitChar (CHR ''.'') p))"

lemma number_value_snoc: "number_value b (s @ [c]) = number_value b s * b + digit_value c"
  by (simp add: number_value_def)

lemma digit_digit_value: "digit_value c < 10 \<Longrightarrow> digit (digit_value c) = c"
  by (auto simp: digit_value_def digit_def Let_def split: if_splits)

lemma zero_digit: "digit 0 = CHR ''0''"
  by code_simp

lemma number_value_pos: "s \<noteq> [] \<Longrightarrow> list_all (\<lambda>c. digit_value c < 10) s \<Longrightarrow> hd s \<noteq> CHR ''0'' \<Longrightarrow> 0 < number_value 10 s"
proof (induction s rule: rev_induct)
  case (snoc c s)
  show ?case
  proof (cases "s = []")
    case True
    have "digit_value c \<noteq> 0"
    proof
      assume "digit_value c = 0"
      then have "c = digit 0" using digit_digit_value [of c] by simp
      then have "c = CHR ''0''" by (simp only: zero_digit)
      then show False using snoc.prems True by simp
    qed
    then show ?thesis using True by (simp add: number_value_def)
  qed (use snoc in \<open>simp add: number_value_snoc\<close>)
qed simp

text \<open>A number without superfluous zeros is determined by its value.\<close>

lemma FormatNat_number_value:
  "s \<noteq> [] \<Longrightarrow> list_all (\<lambda>c. digit_value c < 10) s \<Longrightarrow> canonical_number s \<Longrightarrow> FormatNat (number_value 10 s) = s"
proof (induction s rule: rev_induct)
  case (snoc c s)
  have c: "digit_value c < 10" "digit (digit_value c) = c" using snoc.prems(2) digit_digit_value by auto
  show ?case
  proof (cases "s = []")
    case True
    then show ?thesis using c by (simp add: number_value_def FormatNat.simps [of "digit_value c"])
  next
    case False
    have hd: "hd s \<noteq> CHR ''0''" using snoc.prems(3) False by (auto simp: canonical_number_def append_eq_Cons_conv)
    then have "canonical_number s" using False by (simp add: canonical_number_def)
    then have IH: "FormatNat (number_value 10 s) = s" using snoc.IH False snoc.prems(2) by simp
    have "0 < number_value 10 s" using number_value_pos [OF False _ hd] snoc.prems(2) by simp
    then show ?thesis
      using IH c by (subst FormatNat.simps) (simp add: number_value_snoc div_add1_eq)
  qed
qed simp

lemma ParseUint_Some: "ParseUint s b n = Some v \<Longrightarrow> s \<noteq> [] \<and> list_all (\<lambda>c. digit_value c < b) s \<and> v = number_value b s"
  by (auto simp: ParseUint_def split: if_splits)

lemma ident_of_inj:
  assumes "ParseUint s 10 64 = None \<or> canonical_number s" and "ParseUint t 10 64 = None \<or> canonical_number t"
    and "ident_of s = ident_of t"
  shows "s = t"
proof (cases "ParseUint s 10 64")
  case None
  then show ?thesis using assms(3) by (auto simp: ident_of_def split: option.splits)
next
  case (Some v)
  then have t: "ParseUint t 10 64 = Some v" using assms(3) by (auto simp: ident_of_def split: option.splits)
  then have "canonical_number s" "canonical_number t" using assms(1,2) Some by auto
  then show ?thesis using ParseUint_Some [OF Some] ParseUint_Some [OF t] FormatNat_number_value by metis
qed

lemma Nil_less_map: "[] \<noteq> rs \<Longrightarrow> [] < map (f :: string \<Rightarrow> pre_ident) rs"
  by (cases rs) auto

lemma compare_parts_precedence:
  assumes "list_all (\<lambda>x. ParseUint x 10 64 = None \<or> canonical_number x) ls"
    and "list_all (\<lambda>x. ParseUint x 10 64 = None \<or> canonical_number x) rs" and "ls \<noteq> rs"
  shows "map ident_of ls \<noteq> map ident_of rs
         \<and> compare_parts ls rs = (if map ident_of ls < map ident_of rs then -1 else 1)"
  using assms
proof (induction ls rs rule: compare_parts.induct)
  case (1 l ls r rs)
  show ?case
  proof (cases "l = r")
    case True
    then show ?thesis using 1 by simp
  next
    case False
    then have neq: "ident_of l \<noteq> ident_of r" using ident_of_inj [of l r] 1(2,3) by auto
    moreover have "l \<noteq> r" by fact
    ultimately show ?thesis
      by (auto simp: ident_of_def Compare_def split: option.splits)
  qed
qed (auto simp: Nil_less_map)

lemma join_SplitChar: "join sep (SplitChar sep s) = s"
proof (induction s)
  case (Cons c s)
  obtain x xs where "SplitChar sep s = x # xs" using SplitChar_nonempty by (metis list.exhaust)
  then show ?case using Cons.IH by (cases xs) auto
qed simp

lemma comparePrerelease_precedence:
  assumes "list_all (\<lambda>x. ParseUint x 10 64 = None \<or> canonical_number x) (SplitChar (CHR ''.'') p)"
    and "list_all (\<lambda>x. ParseUint x 10 64 = None \<or> canonical_number x) (SplitChar (CHR ''.'') q)"
  defines "key \<equiv> \<lambda>p. (p = [], if p = [] then [] else map ident_of (SplitChar (CHR ''.'') p))"
  shows "comparePrerelease p q = (if key p < key q then -1 else if key p = key q then 0 else 1)"
proof (cases "p = q \<or> p = [] \<or> q = []")
  case False
  have "SplitChar (CHR ''.'') p \<noteq> SplitChar (CHR ''.'') q"
    using False join_SplitChar by metis
  then show ?thesis
    using compare_parts_precedence [OF assms(1,2)] False by (auto simp: comparePrerelease_def key_def)
qed (auto simp: comparePrerelease_def key_def)

text \<open>C39: the installer orders releases by semantic precedence. For versions whose numbers fit 64 bits and
  whose numeric pre-release identifiers carry no leading zero, \<open>compareReleaseVersions\<close> is the comparison
  of a linear order: by the three numbers, a release above its pre-releases, pre-releases identifier
  by identifier with numbers below texts and a proper beginning below what extends it.\<close>

theorem compareReleaseVersions_precedence:
  assumes "canonical_version left" and "canonical_version right"
  shows "compareReleaseVersions left right
     = (if precedence left < precedence right then -1 else if precedence left = precedence right then 0 else 1)"
proof -
  obtain a b c p where l: "FindStringSubmatch left = Some (a, b, c, p)"
    using assms(1) by (auto simp: canonical_version_def split: option.splits)
  obtain a' b' c' p' where r: "FindStringSubmatch right = Some (a', b', c', p')"
    using assms(2) by (auto simp: canonical_version_def split: option.splits)
  have uint: "uint_or_max x = number_value 10 x" if "ParseUint x 10 64 \<noteq> None" for x
    using that ParseUint_Some by (auto simp: uint_or_max_def)
  have "comparePrerelease p p' = (if (p = [], if p = [] then [] else map ident_of (SplitChar (CHR ''.'') p))
        < (p' = [], if p' = [] then [] else map ident_of (SplitChar (CHR ''.'') p')) then -1
      else if (p = [], if p = [] then [] else map ident_of (SplitChar (CHR ''.'') p))
        = (p' = [], if p' = [] then [] else map ident_of (SplitChar (CHR ''.'') p')) then 0 else 1)"
    using comparePrerelease_precedence assms l r by (simp add: canonical_version_def)
  moreover have "uint_or_max a = number_value 10 a" "uint_or_max b = number_value 10 b" "uint_or_max c = number_value 10 c"
    "uint_or_max a' = number_value 10 a'" "uint_or_max b' = number_value 10 b'" "uint_or_max c' = number_value 10 c'"
    using assms l r uint by (simp_all add: canonical_version_def)
  ultimately show ?thesis
    using l r by (auto simp: compareReleaseVersions_def precedence_def Let_def)
qed

lemma small_numbers:
  "ParseUint ''0'' 10 64 = Some 0" "ParseUint ''1'' 10 64 = Some 1" "ParseUint ''2'' 10 64 = Some 2"
  "ParseUint ''3'' 10 64 = Some 3" "ParseUint ''01'' 10 64 = Some 1" "ParseUint ''rc'' 10 64 = None"
  by (simp_all add: ParseUint_def number_value_def digit_value_def)

lemma sample_versions:
  "FindStringSubmatch ''1.0.0-01'' = Some (''1'', ''0'', ''0'', ''01'')"
  "FindStringSubmatch ''1.0.0-1'' = Some (''1'', ''0'', ''0'', ''1'')"
  "FindStringSubmatch ''v1.2.3-rc.2'' = Some (''1'', ''2'', ''3'', ''rc.2'')"
  "FindStringSubmatch ''1.2.3'' = Some (''1'', ''2'', ''3'', [])"
  by code_simp+

text \<open>With leading zeros the comparison is no order. The pre-releases \<open>01\<close> and \<open>1\<close> are different texts with
  the same number, and each is reported as newer than the other.\<close>

theorem compareReleaseVersions_not_antisymmetric:
  "compareReleaseVersions ''1.0.0-01'' ''1.0.0-1'' = 1 \<and> compareReleaseVersions ''1.0.0-1'' ''1.0.0-01'' = 1"
  by (simp add: compareReleaseVersions_def sample_versions comparePrerelease_def small_numbers Let_def)

theorem compareReleaseVersions_precedence_witness:
  "compareReleaseVersions ''v1.2.3-rc.2'' ''1.2.3'' = -1"
proof -
  have "canonical_version ''v1.2.3-rc.2''" "canonical_version ''1.2.3''"
    by (simp_all add: canonical_version_def sample_versions small_numbers canonical_number_def ParseUint_def [of "[]"])
  moreover have "precedence ''v1.2.3-rc.2'' < precedence ''1.2.3''"
    by (simp add: precedence_def sample_versions)
  ultimately show ?thesis using compareReleaseVersions_precedence by simp
qed

end
