(* ===== verification/Transaction.thy ===== *)
theory Transaction
  imports Ident Version
begin

text \<open>
  internal/installer/transaction.go and the rollback of internal/installer/apply.go: the journalled file
  transaction of the installer. Every file is backed up and recorded in the journal before it is replaced;
  a rollback walks the recorded changes backwards.

  SHA-256 and the JSON encodings are the fields of \<open>tx_lib\<close>; the commands an \<open>ApplyRunner\<close> runs are an argument
  that gives the outcome of each command. A file mode is its permission bits.
\<close>

section \<open>Data\<close>

record FileChange =
  ch_Path :: string
  ch_BackupPath :: string
  ch_Existed :: bool
  ch_OldMode :: nat
  ch_NewSHA256 :: string

record ServiceChange =
  sv_Name :: string
  sv_WasEnabled :: bool
  sv_WasActive :: bool

record TransactionRecord =
  tr_ID :: string
  tr_Version :: string
  tr_CreatedAt :: time
  tr_Status :: string
  tr_Changes :: "FileChange list"
  tr_CreatedUsers :: "string list"
  tr_CreatedGroups :: "string list"
  tr_Services :: "ServiceChange list"
  tr_NginxChanged :: bool

record fileTransaction =
  ft_root :: string
  ft_record :: TransactionRecord
  ft_journalPath :: string
  ft_backupRoot :: string

record tx_lib =
  tl_sha256 :: "string \<Rightarrow> string"
  tl_marshal :: "TransactionRecord \<Rightarrow> error + string"
  tl_decode :: "string \<Rightarrow> error + TransactionRecord"

text \<open>The outcome of a command: its error, if it fails.\<close>

type_synonym ApplyRunner = "string list \<Rightarrow> error option"

definition transactionDirectory :: string where
  "transactionDirectory = ''/var/lib/my-safe-installer/transactions''"

definition backupDirectory :: string where
  "backupDirectory = ''/var/lib/my-safe-installer/backups/''"

section \<open>Files\<close>

text \<open>\<open>replaceFile\<close> is a rename on Unix.\<close>

definition tx_writeAtomic :: "string \<Rightarrow> string \<Rightarrow> nat \<Rightarrow> (os_error, unit) io" where
  "tx_writeAtomic path content mode =
     io_then (MkdirAll (DirPath path) 493)
       (replace_via_temp (DirPath path) ''.mysafe-'' [] path content mode)"

definition copyExclusive :: "string \<Rightarrow> string \<Rightarrow> nat \<Rightarrow> (os_error, unit) io" where
  "copyExclusive source destination mode =
     io_bind (ReadFile source) (\<lambda>content. create_exclusive destination content mode)"

definition hashBytes :: "tx_lib \<Rightarrow> string \<Rightarrow> string" where
  "hashBytes lib content = EncodeToString (tl_sha256 lib content)"

section \<open>The transaction\<close>

definition tx_jsonMarshal :: "tx_lib \<Rightarrow> TransactionRecord \<Rightarrow> error + string" where
  "tx_jsonMarshal lib record = (case tl_marshal lib record of Inl e \<Rightarrow> Inl e | Inr json \<Rightarrow> Inr (json @ [byte 10]))"

definition persist :: "tx_lib \<Rightarrow> fileTransaction \<Rightarrow> (error, unit) io" where
  "persist lib ft =
     (case tx_jsonMarshal lib (ft_record ft) of
        Inl e \<Rightarrow> io_fail (''encode transaction journal: '' @ e)
      | Inr encoded \<Rightarrow> os_label ''persist transaction journal: '' (tx_writeAtomic (ft_journalPath ft) encoded 384))"

definition beginTransaction :: "tx_lib \<Rightarrow> string \<Rightarrow> string \<Rightarrow> time \<Rightarrow> (error, fileTransaction) io" where
  "beginTransaction lib root version now =
     io_bind (os_label ''generate transaction id: '' (RandomIO [] 8)) (\<lambda>randomID.
       let ident = twenty_digits (wrap64 now) @ ''_'' @ randomID;
           journalDirectory = rootPath root transactionDirectory;
           ft = \<lparr>ft_root = root,
                 ft_record = \<lparr>tr_ID = ident, tr_Version = version, tr_CreatedAt = now, tr_Status = ''applying'',
                              tr_Changes = [], tr_CreatedUsers = [], tr_CreatedGroups = [], tr_Services = [],
                              tr_NginxChanged = False\<rparr>,
                 ft_journalPath = JoinPath [journalDirectory, ident @ ''.json''],
                 ft_backupRoot = rootPath root (backupDirectory @ ident)\<rparr>
       in io_then (os_label ''create transaction directory: '' (MkdirAll journalDirectory 448))
         (io_then (os_label ''create transaction backup directory: '' (MkdirAll (ft_backupRoot ft) 448))
         (io_then (persist lib ft)
           (io_return ft))))"

text \<open>A method of the transaction gives its error, the transaction it leaves in memory, and the world.\<close>

type_synonym tx_step = "world \<Rightarrow> (error + unit) \<times> fileTransaction \<times> world"

definition with_record :: "(TransactionRecord \<Rightarrow> TransactionRecord) \<Rightarrow> fileTransaction \<Rightarrow> fileTransaction" where
  "with_record f ft = ft\<lparr>ft_record := f (ft_record ft)\<rparr>"

definition record_and_persist :: "tx_lib \<Rightarrow> (TransactionRecord \<Rightarrow> TransactionRecord) \<Rightarrow> fileTransaction \<Rightarrow> tx_step" where
  "record_and_persist lib f ft w = (case persist lib (with_record f ft) w of (r, w') \<Rightarrow> (r, with_record f ft, w'))"

definition RecordCreatedUser :: "tx_lib \<Rightarrow> string \<Rightarrow> fileTransaction \<Rightarrow> tx_step" where
  "RecordCreatedUser lib name = record_and_persist lib (\<lambda>r. r\<lparr>tr_CreatedUsers := tr_CreatedUsers r @ [name]\<rparr>)"

definition RecordCreatedGroup :: "tx_lib \<Rightarrow> string \<Rightarrow> fileTransaction \<Rightarrow> tx_step" where
  "RecordCreatedGroup lib name = record_and_persist lib (\<lambda>r. r\<lparr>tr_CreatedGroups := tr_CreatedGroups r @ [name]\<rparr>)"

definition RecordService :: "tx_lib \<Rightarrow> ServiceChange \<Rightarrow> fileTransaction \<Rightarrow> tx_step" where
  "RecordService lib change = record_and_persist lib (\<lambda>r. r\<lparr>tr_Services := tr_Services r @ [change]\<rparr>)"

definition RecordNginxChange :: "tx_lib \<Rightarrow> fileTransaction \<Rightarrow> tx_step" where
  "RecordNginxChange lib = record_and_persist lib (\<lambda>r. r\<lparr>tr_NginxChanged := True\<rparr>)"

definition tx_Commit :: "tx_lib \<Rightarrow> fileTransaction \<Rightarrow> tx_step" where
  "tx_Commit lib = record_and_persist lib (\<lambda>r. r\<lparr>tr_Status := ''complete''\<rparr>)"

text \<open>The part of \<open>InstallBytes\<close> up to the journal: the change to record, with the backup made.\<close>

definition prepare_change :: "tx_lib \<Rightarrow> fileTransaction \<Rightarrow> string \<Rightarrow> string \<Rightarrow> (error, FileChange) io" where
  "prepare_change lib ft unixPath content =
     (let targ = rootPath (ft_root ft) unixPath
      in if \<not> HasPrefix unixPath ''/'' \<or> Clean unixPath = ''/'' then io_fail (''invalid installation path '' @ Quote unixPath)
         else if \<not> withinRoot (ft_root ft) targ then io_fail (''installation path escapes root: '' @ Quote unixPath)
         else io_then (os_label (''create parent for '' @ unixPath @ '': '') (MkdirAll (DirPath targ) 493))
           (io_try (Lstat targ) (\<lambda>r.
             case r of
               Inl OsNotExist \<Rightarrow>
                 io_return \<lparr>ch_Path = unixPath, ch_BackupPath = [], ch_Existed = False, ch_OldMode = 0,
                            ch_NewSHA256 = hashBytes lib content\<rparr>
             | Inl e \<Rightarrow> io_fail (''inspect '' @ unixPath @ '': '' @ os_text e)
             | Inr info \<Rightarrow>
                 if \<not> is_regular info then io_fail (''refusing to replace non-regular path '' @ unixPath)
                 else let backupPath = backupDirectory @ tr_ID (ft_record ft) @ unixPath;
                          backup = rootPath (ft_root ft) backupPath
                      in io_then (os_label ''create backup directory: '' (MkdirAll (DirPath backup) 448))
                        (io_then (os_label (''back up '' @ unixPath @ '': '') (copyExclusive targ backup (node_perm info)))
                          (io_return \<lparr>ch_Path = unixPath, ch_BackupPath = backupPath, ch_Existed = True,
                                      ch_OldMode = node_perm info, ch_NewSHA256 = hashBytes lib content\<rparr>)))))"

definition add_change :: "FileChange \<Rightarrow> TransactionRecord \<Rightarrow> TransactionRecord" where
  "add_change change r = r\<lparr>tr_Changes := tr_Changes r @ [change]\<rparr>"

definition InstallBytes :: "tx_lib \<Rightarrow> string \<Rightarrow> string \<Rightarrow> nat \<Rightarrow> fileTransaction \<Rightarrow> tx_step" where
  "InstallBytes lib unixPath content mode ft w =
     (case prepare_change lib ft unixPath content w of
        (Inl e, w1) \<Rightarrow> (Inl e, ft, w1)
      | (Inr change, w1) \<Rightarrow>
          (case record_and_persist lib (add_change change) ft w1 of
             (Inl e, ft, w2) \<Rightarrow> (Inl e, ft, w2)
           | (Inr _, ft, w2) \<Rightarrow>
               (case os_label (''install '' @ unixPath @ '': '')
                       (tx_writeAtomic (rootPath (ft_root ft) unixPath) content mode) w2 of
                  (r, w3) \<Rightarrow> (r, ft, w3))))"

section \<open>Rollback\<close>

text \<open>One turn of the loop of \<open>rollbackChanges\<close>: the error it collects, if any.\<close>

definition rollback_change :: "string \<Rightarrow> string \<Rightarrow> FileChange \<Rightarrow> world \<Rightarrow> error list \<times> world" where
  "rollback_change root txID change w =
     (let targ = rootPath root (ch_Path change)
      in if \<not> HasPrefix (ch_Path change) ''/'' \<or> \<not> withinRoot root targ
         then ([''unsafe rollback path '' @ Quote (ch_Path change)], w)
         else if ch_Existed change
         then (let backup = rootPath root (ch_BackupPath change)
               in if \<not> HasPrefix (ch_BackupPath change) (backupDirectory @ txID @ ''/'') \<or> \<not> withinRoot root backup
                  then ([''unsafe backup path '' @ Quote (ch_BackupPath change)], w)
                  else case ReadFile backup w of
                    (Inl e, w) \<Rightarrow> ([''read backup for '' @ ch_Path change @ '': '' @ os_text e], w)
                  | (Inr content, w) \<Rightarrow>
                      (case tx_writeAtomic targ content (ch_OldMode change) w of
                         (Inl e, w) \<Rightarrow> ([''restore '' @ ch_Path change @ '': '' @ os_text e], w)
                       | (Inr _, w) \<Rightarrow> ([], w)))
         else (case Remove targ w of
                 (Inl OsNotExist, w) \<Rightarrow> ([], w)
               | (Inl e, w) \<Rightarrow> ([''remove new path '' @ ch_Path change @ '': '' @ os_text e], w)
               | (Inr _, w) \<Rightarrow> ([], w)))"

fun rollback_loop :: "string \<Rightarrow> string \<Rightarrow> FileChange list \<Rightarrow> world \<Rightarrow> error list \<times> world" where
  "rollback_loop root txID [] w = ([], w)"
| "rollback_loop root txID (change # changes) w =
     (case rollback_change root txID change w of
        (es, w) \<Rightarrow> (case rollback_loop root txID changes w of (fs, w) \<Rightarrow> (es @ fs, w)))"

text \<open>\<open>errors.Join\<close> of the collected errors is nil exactly when there is none.\<close>

definition rollbackChanges :: "string \<Rightarrow> TransactionRecord \<Rightarrow> world \<Rightarrow> error list \<times> world" where
  "rollbackChanges root record w = rollback_loop root (tr_ID record) (rev (tr_Changes record)) w"

definition tx_Rollback :: "tx_lib \<Rightarrow> fileTransaction \<Rightarrow> world \<Rightarrow> error list \<times> fileTransaction \<times> world" where
  "tx_Rollback lib ft w =
     (case rollbackChanges (ft_root ft) (ft_record ft) w of
        (es, w) \<Rightarrow>
          (case record_and_persist lib (\<lambda>r. r\<lparr>tr_Status := ''rolled_back''\<rparr>) ft w of
             (Inl e, ft, w) \<Rightarrow> (es @ [e], ft, w)
           | (Inr _, ft, w) \<Rightarrow> (es, ft, w)))"

definition loadLatestTransaction :: "tx_lib \<Rightarrow> string \<Rightarrow> (error, TransactionRecord \<times> string) io" where
  "loadLatestTransaction lib root =
     (let directory = rootPath root transactionDirectory
      in io_bind (os_label ''read transaction directory: '' (ReadDir directory)) (\<lambda>entries.
           case sort (map fst (filter (\<lambda>(name, item). is_regular item \<and> HasSuffix name ''.json'') entries)) of
             [] \<Rightarrow> io_fail ''no installation transaction exists''
           | n # ns \<Rightarrow>
               (let path = JoinPath [directory, last (n # ns)]
                in io_bind (os_label [] (ReadFile path)) (\<lambda>encoded.
                     case tl_decode lib encoded of
                       Inl e \<Rightarrow> io_fail (''decode transaction journal: '' @ e)
                     | Inr record \<Rightarrow> io_return (record, path)))))"

section \<open>Accounts, services and the rollback of an installation\<close>

definition runFixed :: "ApplyRunner \<Rightarrow> string list \<Rightarrow> error list" where
  "runFixed runner command = (case runner command of None \<Rightarrow> [] | Some e \<Rightarrow> [hd command @ '' failed: '' @ e])"

definition captureService :: "ApplyRunner \<Rightarrow> string \<Rightarrow> ServiceChange" where
  "captureService runner name =
     \<lparr>sv_Name = name, sv_WasEnabled = (runner [''systemctl'', ''is-enabled'', name] = None),
      sv_WasActive = (runner [''systemctl'', ''is-active'', name] = None)\<rparr>"

text \<open>Adding a group or a user and recording it.\<close>

definition add_account :: "ApplyRunner \<Rightarrow> string list \<Rightarrow> (fileTransaction \<Rightarrow> tx_step) \<Rightarrow> fileTransaction \<Rightarrow> tx_step" where
  "add_account runner command note ft w =
     (case runFixed runner command of e # _ \<Rightarrow> (Inl e, ft, w) | [] \<Rightarrow> note ft w)"

definition ensureAccount :: "tx_lib \<Rightarrow> ApplyRunner \<Rightarrow> string \<Rightarrow> string \<Rightarrow> fileTransaction \<Rightarrow> tx_step" where
  "ensureAccount lib runner name home ft w =
     (case (if runner [''getent'', ''group'', name] = None then (Inr (), ft, w)
            else add_account runner [''groupadd'', ''--system'', name] (RecordCreatedGroup lib name) ft w) of
        (Inl e, ft, w) \<Rightarrow> (Inl e, ft, w)
      | (Inr _, ft, w) \<Rightarrow>
          if runner [''id'', name] = None then (Inr (), ft, w)
          else add_account runner [''useradd'', ''--system'', ''--gid'', name, ''--home-dir'', home, ''--shell'',
                 ''/usr/sbin/nologin'', name] (RecordCreatedUser lib name) ft w)"

definition restart_service :: "ApplyRunner \<Rightarrow> ServiceChange \<Rightarrow> error list" where
  "restart_service runner service =
     (if sv_WasEnabled service then runFixed runner [''systemctl'', ''enable'', sv_Name service] else [])
     @ (if sv_WasActive service then runFixed runner [''systemctl'', ''start'', sv_Name service] else [])"

definition rollbackInstallation ::
  "tx_lib \<Rightarrow> string \<Rightarrow> ApplyRunner \<Rightarrow> TransactionRecord \<Rightarrow> string \<Rightarrow> world \<Rightarrow> error list \<times> world" where
  "rollbackInstallation lib root runner record journalPath w =
     (let stops = concat (map (\<lambda>s. runFixed runner [''systemctl'', ''disable'', ''--now'', sv_Name s]) (rev (tr_Services record)))
      in case rollbackChanges root record w of
        (es, w) \<Rightarrow>
          let reload = runFixed runner [''systemctl'', ''daemon-reload''];
              nginx = (if tr_NginxChanged record
                then (case runFixed runner [''nginx'', ''-t''] of
                        [] \<Rightarrow> runFixed runner [''systemctl'', ''reload'', ''nginx.service'']
                      | fs \<Rightarrow> fs)
                else []);
              starts = concat (map (restart_service runner) (tr_Services record));
              users = concat (map (\<lambda>u. runFixed runner [''userdel'', u]) (rev (tr_CreatedUsers record)));
              groups = concat (map (\<lambda>g. runFixed runner [''groupdel'', g]) (rev (tr_CreatedGroups record)));
              collected = stops @ es @ reload @ nginx @ starts @ users @ groups
          in case tx_jsonMarshal lib (record\<lparr>tr_Status := ''rolled_back''\<rparr>) of
               Inl e \<Rightarrow> (collected @ [e], w)
             | Inr encoded \<Rightarrow>
                 (case tx_writeAtomic journalPath encoded 384 w of
                    (Inl e, w) \<Rightarrow> (collected @ [os_text e], w)
                  | (Inr _, w) \<Rightarrow> (collected, w)))"

text \<open>\<open>RollbackLatest\<close>: the record it returns and the errors, none for nil.\<close>

definition RollbackLatest :: "tx_lib \<Rightarrow> string \<Rightarrow> ApplyRunner \<Rightarrow> world \<Rightarrow> (TransactionRecord option \<times> error list) \<times> world" where
  "RollbackLatest lib root runner w =
     (case AbsPath (if root = [] then ''/'' else root) w of
        (Inl e, w) \<Rightarrow> ((None, [os_text e]), w)
      | (Inr resolvedRoot, w) \<Rightarrow>
          (case loadLatestTransaction lib resolvedRoot w of
             (Inl e, w) \<Rightarrow> ((None, [e]), w)
           | (Inr (record, journalPath), w) \<Rightarrow>
               if tr_Status record \<noteq> ''complete'' \<and> tr_Status record \<noteq> ''applying''
               then ((Some record, [''latest transaction status is '' @ tr_Status record]), w)
               else (case rollbackInstallation lib resolvedRoot runner record journalPath w of
                       ([], w) \<Rightarrow> ((Some (record\<lparr>tr_Status := ''rolled_back''\<rparr>), []), w)
                     | (es, w) \<Rightarrow> ((Some record, es), w))))"

end
