(* ===== verification/Transaction_Props.thy ===== *)
theory Transaction_Props
  imports Transaction "HOL-Library.Sublist"
begin

text \<open>
  What the installer's transaction guarantees. The steps of an installation, failures, crashes and partial
  rollbacks included, are the step relation \<open>tx_run\<close>; its invariant is that the journal on disk describes
  how to undo everything that has been done to the files of the plan.
\<close>

section \<open>Files that exist are left alone\<close>

definition keeps :: "(string \<Rightarrow> bool) \<Rightarrow> ('e, 'a) io \<Rightarrow> bool" where
  "keeps K m \<longleftrightarrow> (\<forall>w q. node_at w q \<noteq> None \<longrightarrow> \<not> K q \<longrightarrow> node_at (snd (m w)) q = node_at w q)"

lemma keepsD: "keeps K m \<Longrightarrow> m w = (r, w') \<Longrightarrow> node_at w q \<noteq> None \<Longrightarrow> \<not> K q \<Longrightarrow> node_at w' q = node_at w q"
  by (metis keeps_def snd_conv)

lemma keeps_touches: "touches K m \<Longrightarrow> keeps K m"
  by (simp add: keeps_def touches_def)

lemma keeps_bind:
  assumes "keeps K m" and "\<And>x. keeps K (f x)"
  shows "keeps K (io_bind m f)"
  unfolding keeps_def
proof (intro allI impI)
  fix w q
  assume q: "node_at w q \<noteq> None" "\<not> K q"
  obtain r v where m: "m w = (r, v)" by fastforce
  have v: "node_at v q = node_at w q" by (rule keepsD [OF assms(1) m q])
  show "node_at (snd (io_bind m f w)) q = node_at w q"
  proof (cases r)
    case (Inr x)
    then show ?thesis using assms(2) [of x] m v q by (simp add: io_bind_def keeps_def)
  qed (use m v in \<open>simp add: io_bind_def\<close>)
qed

lemma keeps_make_dir: "keeps (\<lambda>_. False) (make_dir mode p)"
  by (auto simp: keeps_def make_dir_def)

lemma keeps_make_dirs: "keeps (\<lambda>_. False) (make_dirs mode ps)"
proof (induction ps)
  case Nil
  show ?case by (simp add: keeps_def io_return_def)
next
  case (Cons p ps)
  show ?case unfolding make_dirs.simps by (rule keeps_bind [OF keeps_make_dir Cons.IH])
qed

lemma keeps_sys: "keeps K m \<Longrightarrow> keeps K (sys m)"
  by (auto simp: keeps_def sys_def split: prod.splits option.splits dest!: next_fault_files)

lemma MkdirAll_keeps: "MkdirAll p mode w = (r, w') \<Longrightarrow> node_at w q \<noteq> None \<Longrightarrow> node_at w' q = node_at w q"
  unfolding MkdirAll_def by (rule keepsD [OF keeps_sys [OF keeps_make_dirs]]) simp_all

text \<open>A replacement by way of a temporary file changes no existing file but its target, and no file at all if it fails:
  the temporary name was free.\<close>

lemma replace_keeps:
  assumes "replace_via_temp dir pre suf path content mode w = (r, w')" and "node_at w q \<noteq> None"
    and "q \<noteq> path \<or> (\<exists>e. r = Inl e)"
  shows "node_at w' q = node_at w q"
proof (cases r)
  case (Inl e)
  then consider "CreateTemp dir pre suf w = (Inl e, w')"
    | tmp v u where "CreateTemp dir pre suf w = (Inr tmp, v)"
      "io_then (ChmodFile tmp mode) (io_then (WriteTo tmp content) (io_then SyncClose
             (io_then SyncClose (Rename tmp path)))) v = (Inl e, u)"
      "w' = snd (io_try SyncClose (\<lambda>_. Remove tmp) u)"
    using assms(1) by (auto simp: replace_via_temp_def io_bind_Inl [where m = "CreateTemp dir pre suf"] io_cleanup_Inl)
  then show ?thesis
  proof cases
    case 1
    then show ?thesis using CreateTemp_Inl [OF 1] by simp
  next
    case 2
    have ne: "q \<noteq> tmp" using CreateTemp_Inr [OF 2(1)] assms(2) by auto
    have "touches (\<lambda>q. q = tmp) (io_try SyncClose (\<lambda>_. Remove tmp))"
      by (intro touches_try touches_calls touches_Remove)
    then have "node_at w' q = node_at u q" using 2(3) ne by (simp add: touches_def)
    also have "\<dots> = node_at v q" using temp_body_Inl [OF 2(2) ne] .
    also have "\<dots> = node_at w q" using CreateTemp_other [OF 2(1) ne] .
    finally show ?thesis .
  qed
next
  case (Inr u)
  then have ne: "q \<noteq> path" using assms(3) by simp
  obtain tmp v where tmp: "CreateTemp dir pre suf w = (Inr tmp, v)"
    and rest: "io_then (ChmodFile tmp mode) (io_then (WriteTo tmp content) (io_then SyncClose
             (io_then SyncClose (Rename tmp path)))) v = (Inr u, w')"
    using assms(1) Inr by (auto simp: replace_via_temp_def io_bind_Inr [where m = "CreateTemp dir pre suf"] io_cleanup_Inr)
  have t: "touches (\<lambda>q. q = tmp \<or> q = path) (io_then (ChmodFile tmp mode) (io_then (WriteTo tmp content)
            (io_then SyncClose (io_then SyncClose (Rename tmp path)))))"
    by (intro touches_bind touches_calls(5) touches_Rename touches_mono [OF touches_ChmodFile]
        touches_mono [OF touches_WriteTo]) simp_all
  have "q \<noteq> tmp" using CreateTemp_Inr [OF tmp] assms(2) by auto
  then show ?thesis using touchesD [OF t _ rest, of q] ne CreateTemp_other [OF tmp, of q] by simp
qed

section \<open>The writers of the installer\<close>

text \<open>Paths that may be names of temporary files.\<close>

definition tmp_like :: "string \<Rightarrow> bool" where
  "tmp_like q \<longleftrightarrow> sublist ''/.mysafe-'' q"

lemma temp_is_tmp_like: "temp_name dir ''.mysafe-'' suf q \<Longrightarrow> tmp_like q"
  by (auto simp: temp_name_def tmp_like_def sublist_def)

lemma writeAtomic_cases:
  assumes "tx_writeAtomic path content mode w = (r, w')"
  obtains e where "MkdirAll (DirPath path) 493 w = (Inl e, w')" "r = Inl e"
  | v where "MkdirAll (DirPath path) 493 w = (Inr (), v)"
      "replace_via_temp (DirPath path) ''.mysafe-'' [] path content mode v = (r, w')"
  using assms unfolding tx_writeAtomic_def by (cases r) (auto simp: io_results)

lemma writeAtomic_Inr: "tx_writeAtomic path content mode w = (Inr u, w') \<Longrightarrow> node_at w' path = Some (NFile mode content)"
  by (erule writeAtomic_cases) (auto dest: replace_via_temp_Inr)

lemma writeAtomic_keeps:
  assumes "tx_writeAtomic path content mode w = (r, w')" and "node_at w q \<noteq> None" and "q \<noteq> path \<or> (\<exists>e. r = Inl e)"
  shows "node_at w' q = node_at w q"
  using assms(1)
proof (cases rule: writeAtomic_cases)
  case (1 e)
  then show ?thesis using MkdirAll_keeps assms(2) by blast
next
  case (2 v)
  have "node_at v q = node_at w q" using MkdirAll_keeps [OF 2(1) assms(2)] .
  then show ?thesis using replace_keeps [OF 2(2) _ assms(3)] assms(2) by simp
qed

lemma writeAtomic_other:
  assumes "tx_writeAtomic path content mode w = (r, w')" and "q \<notin> set (dir_chain (DirPath path))" and "\<not> tmp_like q"
    and "q \<noteq> path \<or> (\<exists>e. r = Inl e)"
  shows "node_at w' q = node_at w q"
  using assms(1)
proof (cases rule: writeAtomic_cases)
  case (1 e)
  then show ?thesis using touchesD [OF touches_MkdirAll] assms(2) by metis
next
  case (2 v)
  have v: "node_at v q = node_at w q" using touchesD [OF touches_MkdirAll assms(2) 2(1)] .
  have nt: "\<not> temp_name (DirPath path) ''.mysafe-'' [] q" using assms(3) temp_is_tmp_like by blast
  show ?thesis
  proof (cases r)
    case (Inl e)
    then show ?thesis using replace_via_temp_Inl [OF 2(2) [unfolded Inl] nt] v by simp
  next
    case (Inr u)
    then have "\<not> (q = path \<or> temp_name (DirPath path) ''.mysafe-'' [] q)" using assms(4) nt by simp
    then show ?thesis using touchesD [OF touches_replace_via_temp _ 2(2)] v by metis
  qed
qed

lemma copyExclusive_Inr:
  assumes "copyExclusive source destination mode w = (Inr u, w')" and "node_at w source = Some (NFile m content)"
  shows "node_at w' destination = Some (NFile mode content)"
  using assms follow_file [OF assms(2)]
  by (auto simp: copyExclusive_def io_bind_Inr dest!: ReadFile_Inr create_exclusive_Inr)

lemma copyExclusive_other:
  assumes "copyExclusive source destination mode w = (r, w')" and "q \<noteq> destination \<or> node_at w q \<noteq> None"
  shows "node_at w' q = node_at w q"
proof -
  obtain x v where x: "ReadFile source w = (x, v)" by fastforce
  have v: "w_files v = w_files w" using reads_files(3) [OF x] .
  show ?thesis
  proof (cases x)
    case (Inl e)
    then show ?thesis using assms(1) x v by (auto simp: copyExclusive_def io_bind_def)
  next
    case (Inr content)
    then have c: "create_exclusive destination content mode v = (r, w')"
      using assms(1) x by (simp add: copyExclusive_def io_bind_def)
    show ?thesis
    proof (cases "q = destination")
      case True
      then show ?thesis using create_exclusive_existing [of v destination content mode] c v assms(2) by auto
    next
      case False
      then show ?thesis using touchesD [OF touches_create_exclusive _ c, of q] v by simp
    qed
  qed
qed

section \<open>What the journal describes\<close>

definition bkp :: "string \<Rightarrow> string \<Rightarrow> string \<Rightarrow> string" where
  "bkp root txID p = rootPath root (backupDirectory @ txID @ p)"

text \<open>The paths a plan may install: their files are neither temporary, nor the journal, nor backups, nor a directory
  that an installation creates, and they differ from one another.\<close>

definition plan_ok :: "string \<Rightarrow> string \<Rightarrow> string \<Rightarrow> string list \<Rightarrow> bool" where
  "plan_ok root txID journal P \<longleftrightarrow>
     list_all (\<lambda>p. \<not> tmp_like (rootPath root p) \<and> rootPath root p \<noteq> journal \<and> bkp root txID p \<noteq> journal
       \<and> rootPath root p \<notin> set (dir_chain (DirPath journal))
       \<and> list_all (\<lambda>q. rootPath root p \<notin> set (dir_chain (DirPath (rootPath root q)))
           \<and> rootPath root p \<notin> set (dir_chain (DirPath (bkp root txID q))) \<and> rootPath root p \<noteq> bkp root txID q
           \<and> (p = q \<or> rootPath root p \<noteq> rootPath root q)) P) P"

definition change_ok :: "string \<Rightarrow> string \<Rightarrow> string list \<Rightarrow> world \<Rightarrow> world \<Rightarrow> FileChange \<Rightarrow> bool" where
  "change_ok root txID P w0 w ch \<longleftrightarrow> ch_Path ch \<in> set P
     \<and> (if ch_Existed ch
        then ch_BackupPath ch = backupDirectory @ txID @ ch_Path ch
             \<and> (\<exists>c m. node_at w0 (rootPath root (ch_Path ch)) = Some (NFile (ch_OldMode ch) c)
                    \<and> node_at w (bkp root txID (ch_Path ch)) = Some (NFile m c))
        else node_at w0 (rootPath root (ch_Path ch)) = None)"

text \<open>A record covers what happened to the files of the plan since the world \<open>w0\<close>: a file that it does not name is
  unchanged, and for each file it names it tells the old state, with the old contents in the backup.\<close>

definition covered :: "string \<Rightarrow> string \<Rightarrow> string list \<Rightarrow> world \<Rightarrow> TransactionRecord \<Rightarrow> world \<Rightarrow> bool" where
  "covered root txID P w0 rec w \<longleftrightarrow> tr_ID rec = txID \<and> (\<forall>ch \<in> set (tr_Changes rec). change_ok root txID P w0 w ch)
     \<and> (\<forall>p \<in> set P. p \<notin> ch_Path ` set (tr_Changes rec) \<longrightarrow> node_at w (rootPath root p) = node_at w0 (rootPath root p))"

definition disk_record :: "tx_lib \<Rightarrow> string \<Rightarrow> world \<Rightarrow> TransactionRecord option" where
  "disk_record lib journal w =
     (case node_at w journal of
        Some (NFile _ c) \<Rightarrow> (case tl_decode lib c of Inr r \<Rightarrow> Some r | Inl _ \<Rightarrow> None)
      | _ \<Rightarrow> None)"

definition tx_codec_ok :: "tx_lib \<Rightarrow> bool" where
  "tx_codec_ok lib \<longleftrightarrow> (\<forall>r json. tl_marshal lib r = Inr json \<longrightarrow> tl_decode lib (json @ [byte 10]) = Inr r)"

text \<open>Steps that leave the files of the plan, their backups and the journal alone.\<close>

definition calm :: "string \<Rightarrow> string \<Rightarrow> string \<Rightarrow> string list \<Rightarrow> world \<Rightarrow> world \<Rightarrow> bool" where
  "calm root txID journal P w w' \<longleftrightarrow>
     (\<forall>p \<in> set P. node_at w' (rootPath root p) = node_at w (rootPath root p)
        \<and> (node_at w (bkp root txID p) \<noteq> None \<longrightarrow> node_at w' (bkp root txID p) = node_at w (bkp root txID p)))
     \<and> (node_at w journal \<noteq> None \<longrightarrow> node_at w' journal = node_at w journal)"

lemma change_ok_keep:
  assumes "change_ok root txID P w0 w ch"
    and "\<And>p. p \<in> set P \<Longrightarrow> node_at w (bkp root txID p) \<noteq> None \<Longrightarrow> node_at w' (bkp root txID p) = node_at w (bkp root txID p)"
  shows "change_ok root txID P w0 w' ch"
  using assms(1) assms(2) [of "ch_Path ch"] by (auto simp: change_ok_def split: if_splits)

lemma calm_files: "w_files w' = w_files w \<Longrightarrow> calm root txID journal P w w'"
  by (simp add: calm_def)

lemma calm_trans: "calm root txID journal P u v \<Longrightarrow> calm root txID journal P v w \<Longrightarrow> calm root txID journal P u w"
  unfolding calm_def by metis

lemma covered_calm: "covered root txID P w0 rec w \<Longrightarrow> calm root txID journal P w w' \<Longrightarrow> covered root txID P w0 rec w'"
  unfolding covered_def calm_def change_ok_def by (metis option.distinct(1))

lemma disk_calm: "disk_record lib journal w = Some rec \<Longrightarrow> calm root txID journal P w w' \<Longrightarrow> disk_record lib journal w' = Some rec"
  by (cases "node_at w journal") (auto simp: disk_record_def calm_def)

lemma plan_paths:
  assumes "plan_ok root txID journal P" and "p \<in> set P" and "q \<in> set P"
  shows "\<not> tmp_like (rootPath root p)" "rootPath root p \<noteq> journal" "bkp root txID p \<noteq> journal"
    "rootPath root p \<notin> set (dir_chain (DirPath journal))" "rootPath root p \<notin> set (dir_chain (DirPath (rootPath root q)))"
    "rootPath root p \<notin> set (dir_chain (DirPath (bkp root txID q)))" "rootPath root p \<noteq> bkp root txID q"
    "p \<noteq> q \<Longrightarrow> rootPath root p \<noteq> rootPath root q"
  using assms by (auto simp: plan_ok_def list_all_iff)

lemma mkdir_calm:
  assumes "plan_ok root txID journal P" and "q \<in> set P" and "d = rootPath root q \<or> d = bkp root txID q \<or> d = journal"
    and "MkdirAll (DirPath d) mode w = (r, w')"
  shows "calm root txID journal P w w'"
  using touchesD [OF touches_MkdirAll _ assms(4)] MkdirAll_keeps [OF assms(4)] plan_paths(4-6) [OF assms(1) _ assms(2)] assms(3)
  unfolding calm_def by metis

lemma copy_calm:
  assumes "plan_ok root txID journal P" and "q \<in> set P" and "copyExclusive source (bkp root txID q) mode w = (r, w')"
  shows "calm root txID journal P w w'"
  using copyExclusive_other [OF assms(3)] plan_paths(7) [OF assms(1) _ assms(2)]
  unfolding calm_def by metis

lemma write_target_calm:
  assumes "plan_ok root txID journal P" and "q \<in> set P" and "tx_writeAtomic (rootPath root q) content mode w = (r, w')"
  shows "calm root txID journal (filter (\<lambda>p. p \<noteq> q) P) w w'" and "(\<exists>e. r = Inl e) \<Longrightarrow> calm root txID journal P w w'"
    and "node_at w journal \<noteq> None \<Longrightarrow> node_at w' journal = node_at w journal"
    and "p \<in> set P \<Longrightarrow> node_at w (bkp root txID p) \<noteq> None \<Longrightarrow> node_at w' (bkp root txID p) = node_at w (bkp root txID p)"
proof -
  note paths = plan_paths [OF assms(1)]
  have other: "node_at w' (rootPath root p) = node_at w (rootPath root p)" if "p \<in> set P" "p \<noteq> q \<or> (\<exists>e. r = Inl e)" for p
    using writeAtomic_other [OF assms(3), of "rootPath root p"] paths(1,5,8) [OF that(1) assms(2)] that(2) by blast
  show bak: "node_at w' (bkp root txID p) = node_at w (bkp root txID p)" if "p \<in> set P" "node_at w (bkp root txID p) \<noteq> None" for p
    using writeAtomic_keeps [OF assms(3) that(2)] paths(7) [OF assms(2) that(1)] by auto
  show jour: "node_at w' journal = node_at w journal" if "node_at w journal \<noteq> None"
    using writeAtomic_keeps [OF assms(3) that] paths(2) [OF assms(2,2)] by auto
  show "calm root txID journal (filter (\<lambda>p. p \<noteq> q) P) w w'" using other bak jour by (auto simp: calm_def)
  show "calm root txID journal P w w'" if "\<exists>e. r = Inl e" using other bak jour that by (auto simp: calm_def)
qed

section \<open>Each step keeps the journal's description\<close>

lemma prepare_cases:
  assumes "prepare_change lib ft q content w = (r, w')"
  defines "targ \<equiv> rootPath (ft_root ft) q"
  defines "backup \<equiv> bkp (ft_root ft) (tr_ID (ft_record ft)) q"
  obtains e where "r = Inl e" "w' = w"
  | e v where "r = Inl e" "MkdirAll (DirPath targ) 493 w = (Inl v, w')"
  | v e where "MkdirAll (DirPath targ) 493 w = (Inr (), v)" "w_files w' = w_files v" "r = Inl e"
  | v where "MkdirAll (DirPath targ) 493 w = (Inr (), v)" "w_files w' = w_files v" "node_at v targ = None"
      "r = Inr \<lparr>ch_Path = q, ch_BackupPath = [], ch_Existed = False, ch_OldMode = 0, ch_NewSHA256 = hashBytes lib content\<rparr>"
  | v u e d where "MkdirAll (DirPath targ) 493 w = (Inr (), v)" "w_files u = w_files v" "MkdirAll (DirPath backup) 448 u = (Inl d, w')" "r = Inl e"
  | v u x m c y where "MkdirAll (DirPath targ) 493 w = (Inr (), v)" "w_files u = w_files v" "node_at v targ = Some (NFile m c)"
      "MkdirAll (DirPath backup) 448 u = (Inr (), x)" "copyExclusive targ backup m x = (y, w')"
      "(case y of Inl _ \<Rightarrow> \<exists>e. r = Inl e
        | Inr _ \<Rightarrow> r = Inr \<lparr>ch_Path = q, ch_BackupPath = backupDirectory @ tr_ID (ft_record ft) @ q, ch_Existed = True,
            ch_OldMode = m, ch_NewSHA256 = hashBytes lib content\<rparr>)"
proof -
  define body where "body = io_try (Lstat targ) (\<lambda>r.
             case r of
               Inl OsNotExist \<Rightarrow>
                 io_return \<lparr>ch_Path = q, ch_BackupPath = [], ch_Existed = False, ch_OldMode = 0,
                            ch_NewSHA256 = hashBytes lib content\<rparr>
             | Inl e \<Rightarrow> io_fail (''inspect '' @ q @ '': '' @ os_text e)
             | Inr info \<Rightarrow>
                 if \<not> is_regular info then io_fail (''refusing to replace non-regular path '' @ q)
                 else io_then (os_label ''create backup directory: '' (MkdirAll (DirPath backup) 448))
                        (io_then (os_label (''back up '' @ q @ '': '') (copyExclusive targ backup (node_perm info)))
                          (io_return \<lparr>ch_Path = q, ch_BackupPath = backupDirectory @ tr_ID (ft_record ft) @ q, ch_Existed = True,
                                      ch_OldMode = node_perm info, ch_NewSHA256 = hashBytes lib content\<rparr>)))"
  have eq: "prepare_change lib ft q content =
    (if \<not> HasPrefix q ''/'' \<or> Clean q = ''/'' then io_fail (''invalid installation path '' @ Quote q)
         else if \<not> withinRoot (ft_root ft) targ then io_fail (''installation path escapes root: '' @ Quote q)
         else io_then (os_label (''create parent for '' @ q @ '': '') (MkdirAll (DirPath targ) 493)) body)"
    unfolding prepare_change_def Let_def body_def targ_def backup_def bkp_def ..
  consider (bad) e where "r = Inl e" "w' = w"
    | (run) "io_then (os_label (''create parent for '' @ q @ '': '') (MkdirAll (DirPath targ) 493)) body w = (r, w')"
    using assms(1) unfolding eq by (auto split: if_splits)
  then show thesis
  proof cases
    case bad
    then show thesis using that(1) by blast
  next
    case run
    obtain mk v where mk: "MkdirAll (DirPath targ) 493 w = (mk, v)" by fastforce
    show thesis
    proof (cases mk)
      case (Inl e)
      then show thesis using run mk that(2) by (auto simp: io_bind_def io_wrap_def)
    next
      case (Inr un)
      then have b: "body v = (r, w')" using run mk by (simp add: io_bind_def io_wrap_def)
      have mk': "MkdirAll (DirPath targ) 493 w = (Inr (), v)" using mk Inr by simp
      obtain l u where l: "Lstat targ v = (l, u)" by fastforce
      have u: "w_files u = w_files v" using reads_files(1) [OF l] .
      show thesis
      proof (cases l)
        case (Inl e)
        show thesis
        proof (cases "e = OsNotExist")
          case True
          then have "node_at v targ = None"
            using l Inl by (auto simp: Lstat_def sys_def split: prod.splits option.splits dest!: next_fault_files)
          then show thesis using b l Inl True u that(4) [OF mk'] by (auto simp: body_def io_try_def)
        next
          case False
          then show thesis using b l Inl u that(3) [OF mk'] by (cases e) (auto simp: body_def io_try_def)
        qed
      next
        case (Inr info)
        have info: "node_at v targ = Some info" using Lstat_Inr l Inr by blast
        show thesis
        proof (cases info)
          case (NFile m c)
          obtain b1 x where b1: "MkdirAll (DirPath backup) 448 u = (b1, x)" by fastforce
          show thesis
          proof (cases b1)
            case (Inl d)
            then show thesis using b l \<open>l = Inr info\<close> NFile b1 that(5) [OF mk' u] by (auto simp: body_def io_try_def io_bind_def io_wrap_def)
          next
            case (Inr un2)
            obtain y z where y: "copyExclusive targ backup m x = (y, z)" by fastforce
            have "w' = z" "(case y of Inl _ \<Rightarrow> \<exists>e. r = Inl e
              | Inr _ \<Rightarrow> r = Inr \<lparr>ch_Path = q, ch_BackupPath = backupDirectory @ tr_ID (ft_record ft) @ q, ch_Existed = True,
                  ch_OldMode = m, ch_NewSHA256 = hashBytes lib content\<rparr>)"
              using b l \<open>l = Inr info\<close> NFile b1 Inr y
              by (cases y; auto simp: body_def io_try_def io_bind_def io_wrap_def io_return_def)+
            then show thesis using that(6) [OF mk' u info [unfolded NFile]] b1 Inr y by simp
          qed
        qed (use b l Inr u that(3) [OF mk'] in \<open>auto simp: body_def io_try_def\<close>)
      qed
    qed
  qed
qed

lemma prepare_effect:
  assumes "plan_ok root txID journal P" and "q \<in> set P" and "ft_root ft = root" and "tr_ID (ft_record ft) = txID"
    and "prepare_change lib ft q content w = (r, w')"
  shows "calm root txID journal P w w'"
    and "r = Inr ch \<Longrightarrow> node_at w (rootPath root q) = node_at w0 (rootPath root q) \<Longrightarrow> ch_Path ch = q \<and> change_ok root txID P w0 w' ch"
proof -
  note mkdir = mkdir_calm [OF assms(1,2)]
  have same: "node_at w' (rootPath root q) = node_at w (rootPath root q)" if "calm root txID journal P w w'" for w w'
    using that assms(2) by (simp add: calm_def)
  have "calm root txID journal P w w' \<and> (r = Inr ch \<longrightarrow> node_at w (rootPath root q) = node_at w0 (rootPath root q) \<longrightarrow>
      ch_Path ch = q \<and> change_ok root txID P w0 w' ch)"
    using assms(5)
  proof (cases rule: prepare_cases)
    case (1 e)
    then show ?thesis by (simp add: calm_files)
  next
    case (2 e v)
    then show ?thesis using mkdir [of "rootPath root q"] assms(3) by simp
  next
    case (3 v e)
    then show ?thesis using calm_trans [OF mkdir [of "rootPath root q"] calm_files] assms(3) by auto
  next
    case (4 v)
    then have "calm root txID journal P w v" using mkdir [of "rootPath root q"] assms(3) by simp
    then show ?thesis using calm_trans [OF _ calm_files [OF 4(2)]] same [of w v] 4(3,4) assms(2,3) by (auto simp: change_ok_def)
  next
    case (5 v u e d)
    then have "calm root txID journal P w v" "calm root txID journal P v u" "calm root txID journal P u w'"
      using mkdir [of "rootPath root q"] mkdir [of "bkp root txID q"] calm_files assms(3,4) by simp_all
    then show ?thesis using calm_trans 5(4) by blast
  next
    case (6 v u x m c y)
    have c1: "calm root txID journal P w v" "calm root txID journal P v u" "calm root txID journal P u x"
      using 6(1,2,4) mkdir [of "rootPath root q"] mkdir [of "bkp root txID q"] calm_files assms(3,4) by simp_all
    then have wx: "calm root txID journal P w x" using calm_trans by blast
    have xw: "calm root txID journal P x w'" using copy_calm [OF assms(1,2)] 6(5) assms(3,4) by simp
    have old: "node_at w (rootPath root q) = Some (NFile m c)" using same [OF c1(1)] 6(3) assms(3) by simp
    have x: "node_at x (rootPath root q) = Some (NFile m c)" using same [OF wx] old by simp
    have "ch_Path ch = q \<and> change_ok root txID P w0 w' ch"
      if res: "r = Inr ch" and pre: "node_at w (rootPath root q) = node_at w0 (rootPath root q)"
    proof -
      obtain z where y: "y = Inr z" using 6(6) res by (cases y) auto
      have "node_at w' (bkp root txID q) = Some (NFile m c)"
        using copyExclusive_Inr [of "rootPath root q" "bkp root txID q" m x] x 6(5) y assms(3,4) by simp
      moreover have "node_at w0 (rootPath root q) = Some (NFile m c)" using pre old by simp
      ultimately show ?thesis using 6(6) y res assms(2,4) by (simp add: change_ok_def)
    qed
    then show ?thesis using calm_trans [OF wx xw] by blast
  qed
  then show "calm root txID journal P w w'"
    "r = Inr ch \<Longrightarrow> node_at w (rootPath root q) = node_at w0 (rootPath root q) \<Longrightarrow> ch_Path ch = q \<and> change_ok root txID P w0 w' ch"
    by blast+
qed


lemma persist_effect:
  assumes "plan_ok root txID journal P" and "tx_codec_ok lib" and "ft_journalPath ft = journal" and "persist lib ft w = (r, w')"
    and "covered root txID P w0 rec w" and "disk_record lib journal w = Some old"
  shows "covered root txID P w0 rec w'" and "r = Inr u \<Longrightarrow> disk_record lib journal w' = Some (ft_record ft)"
    and "r = Inl e \<Longrightarrow> disk_record lib journal w' = Some old"
proof -
  have journal: "node_at w journal \<noteq> None" using assms(6) by (auto simp: disk_record_def split: option.splits)
  have "covered root txID P w0 rec w' \<and> (\<forall>u. r = Inr u \<longrightarrow> disk_record lib journal w' = Some (ft_record ft))
      \<and> (\<forall>e. r = Inl e \<longrightarrow> disk_record lib journal w' = Some old)"
  proof (cases "tl_marshal lib (ft_record ft)")
    case (Inl e)
    then show ?thesis using assms(4-6) by (simp add: persist_def tx_jsonMarshal_def)
  next
    case (Inr json)
    then obtain r2 where wr: "tx_writeAtomic journal (json @ [byte 10]) 384 w = (r2, w')"
        "(case r2 of Inl _ \<Rightarrow> \<exists>e. r = Inl e | Inr _ \<Rightarrow> r = Inr ())"
      using assms(3,4) by (auto simp: persist_def tx_jsonMarshal_def io_wrap_def split: prod.splits sum.splits)
    have targ: "node_at w' (rootPath root p) = node_at w (rootPath root p)" if "p \<in> set P" for p
      using writeAtomic_other [OF wr(1), of "rootPath root p"] plan_paths(1,2,4) [OF assms(1) that that] by blast
    have bak: "node_at w' (bkp root txID p) = node_at w (bkp root txID p)" if "p \<in> set P" "node_at w (bkp root txID p) \<noteq> None" for p
      using writeAtomic_keeps [OF wr(1) that(2)] plan_paths(3) [OF assms(1) that(1) that(1)] by blast
    have "covered root txID P w0 rec w'"
      using assms(5) targ bak unfolding covered_def change_ok_def by (metis option.distinct(1))
    moreover have "disk_record lib journal w' = Some (ft_record ft)" if "r2 = Inr v" for v
      using writeAtomic_Inr wr(1) that assms(2) Inr by (auto simp: disk_record_def tx_codec_ok_def)
    moreover have "node_at w' journal = node_at w journal" if "r2 = Inl d" for d
      using writeAtomic_keeps [OF wr(1) journal] that by blast
    ultimately show ?thesis using wr(2) assms(6) by (cases r2) (auto simp: disk_record_def)
  qed
  then show "covered root txID P w0 rec w'" "r = Inr u \<Longrightarrow> disk_record lib journal w' = Some (ft_record ft)"
    "r = Inl e \<Longrightarrow> disk_record lib journal w' = Some old" by blast+
qed

definition tx_inv :: "tx_lib \<Rightarrow> string \<Rightarrow> string \<Rightarrow> string \<Rightarrow> string list \<Rightarrow> world \<Rightarrow> fileTransaction \<Rightarrow> world \<Rightarrow> bool" where
  "tx_inv lib root txID journal P w0 ft w \<longleftrightarrow> ft_root ft = root \<and> ft_journalPath ft = journal \<and> covered root txID P w0 (ft_record ft) w
     \<and> (\<exists>rec. disk_record lib journal w = Some rec \<and> covered root txID P w0 rec w)"

lemma tx_inv_calm: "tx_inv lib root txID journal P w0 ft w \<Longrightarrow> calm root txID journal P w w' \<Longrightarrow> tx_inv lib root txID journal P w0 ft w'"
  unfolding tx_inv_def using covered_calm disk_calm by metis

text \<open>A change of the record that leaves its changes and its identifier alone.\<close>

lemma note_effect:
  assumes "plan_ok root txID journal P" and "tx_codec_ok lib" and "tx_inv lib root txID journal P w0 ft w"
    and "covered root txID P w0 (f (ft_record ft)) w"
    and "record_and_persist lib f ft w = (r, ft', w')"
  shows "tx_inv lib root txID journal P w0 ft' w' \<and> ft_record ft' = f (ft_record ft)
    \<and> (\<forall>u. r = Inr u \<longrightarrow> disk_record lib journal w' = Some (f (ft_record ft)))"
proof -
  obtain old where inv: "ft_root ft = root" "ft_journalPath ft = journal" "disk_record lib journal w = Some old" "covered root txID P w0 old w"
    using assms(3) by (auto simp: tx_inv_def)
  have run: "persist lib (with_record f ft) w = (r, w')" "ft' = with_record f ft"
    using assms(5) by (auto simp: record_and_persist_def split: prod.splits)
  have wr: "ft_record (with_record f ft) = f (ft_record ft)" "ft_journalPath (with_record f ft) = journal" "ft_root (with_record f ft) = root"
    using inv by (simp_all add: with_record_def)
  note p = persist_effect [OF assms(1,2) wr(2) run(1) _ inv(3)]
  have "covered root txID P w0 (f (ft_record ft)) w'" "covered root txID P w0 old w'" using p(1) assms(4) inv(4) by blast+
  moreover have "disk_record lib journal w' = Some (f (ft_record ft))" if "r = Inr u" for u using p(2) [OF inv(4) that] wr(1) by simp
  moreover have "disk_record lib journal w' = Some old" if "r = Inl e" for e using p(3) [OF inv(4) that] .
  ultimately show ?thesis using wr run(2) by (cases r) (auto simp: tx_inv_def)
qed

lemma covered_add:
  assumes "covered root txID P w0 rec w" and "change_ok root txID P w0 w ch"
  shows "covered root txID P w0 (add_change ch rec) w"
  using assms by (auto simp: covered_def add_change_def)

lemma install_effect:
  assumes "plan_ok root txID journal P" and "tx_codec_ok lib" and "tx_inv lib root txID journal P w0 ft w"
    and "q \<in> set P" and "q \<notin> ch_Path ` set (tr_Changes (ft_record ft))"
    and "InstallBytes lib q content mode ft w = (r, ft', w')"
  shows "tx_inv lib root txID journal P w0 ft' w'"
proof -
  have ft: "ft_root ft = root" "tr_ID (ft_record ft) = txID" "node_at w (rootPath root q) = node_at w0 (rootPath root q)"
    using assms(3-5) by (auto simp: tx_inv_def covered_def)
  obtain pr w1 where pr: "prepare_change lib ft q content w = (pr, w1)" by fastforce
  note prep = prepare_effect [OF assms(1,4) ft(1,2) pr]
  have inv1: "tx_inv lib root txID journal P w0 ft w1" using tx_inv_calm [OF assms(3) prep(1)] .
  show ?thesis
  proof (cases pr)
    case (Inl e)
    then show ?thesis using assms(6) pr inv1 by (simp add: InstallBytes_def)
  next
    case (Inr ch)
    have ch: "ch_Path ch = q" "change_ok root txID P w0 w1 ch" using prep(2) [OF Inr ft(3)] by blast+
    obtain r2 ft2 w2 where rp: "record_and_persist lib (add_change ch) ft w1 = (r2, ft2, w2)" by (metis prod.collapse)
    have "covered root txID P w0 (add_change ch (ft_record ft)) w1"
      using covered_add ch(2) inv1 by (simp add: tx_inv_def)
    from note_effect [OF assms(1,2) inv1 this rp]
    have inv2: "tx_inv lib root txID journal P w0 ft2 w2" "ft_record ft2 = add_change ch (ft_record ft)"
      "\<And>u. r2 = Inr u \<Longrightarrow> disk_record lib journal w2 = Some (ft_record ft2)" by auto
    show ?thesis
    proof (cases r2)
      case (Inl e)
      then show ?thesis using assms(6) pr Inr rp inv2(1) by (simp add: InstallBytes_def)
    next
      case ok: (Inr u)
      have root2: "ft_root ft2 = root" using inv2(1) by (simp add: tx_inv_def)
      obtain r3 where wr: "tx_writeAtomic (rootPath root q) content mode w2 = (r3, w')" and "ft' = ft2"
        using assms(6) pr Inr rp ok root2 by (auto simp: InstallBytes_def io_wrap_def split: prod.splits sum.splits)
      note wc = write_target_calm [OF assms(1,4) wr]
      have disk2: "disk_record lib journal w2 = Some (ft_record ft2)" using inv2(3) ok .
      then have "node_at w2 journal \<noteq> None" by (auto simp: disk_record_def split: option.splits)
      then have disk3: "disk_record lib journal w' = Some (ft_record ft2)" using wc(3) disk2 by (simp add: disk_record_def)
      have cov2: "covered root txID P w0 (ft_record ft2) w2" using inv2(1) by (simp add: tx_inv_def)
      have "q \<in> ch_Path ` set (tr_Changes (ft_record ft2))" using inv2(2) ch(1) by (auto simp: add_change_def)
      then have "covered root txID P w0 (ft_record ft2) w'"
        using cov2 change_ok_keep [OF _ wc(4)] wc(1) by (auto simp: covered_def calm_def)
      then show ?thesis using disk3 inv2(1) \<open>ft' = ft2\<close> by (auto simp: tx_inv_def)
    qed
  qed
qed

section \<open>Rolling back\<close>

text \<open>A step towards the old state: the files of the plan stay or become what they were, and backups and journal stay.\<close>

definition undoes :: "string \<Rightarrow> string \<Rightarrow> string \<Rightarrow> string list \<Rightarrow> world \<Rightarrow> world \<Rightarrow> world \<Rightarrow> bool" where
  "undoes root txID journal P w0 w w' \<longleftrightarrow>
     (\<forall>p \<in> set P. (node_at w' (rootPath root p) = node_at w (rootPath root p) \<or> node_at w' (rootPath root p) = node_at w0 (rootPath root p))
        \<and> (node_at w (bkp root txID p) \<noteq> None \<longrightarrow> node_at w' (bkp root txID p) = node_at w (bkp root txID p)))
     \<and> (node_at w journal \<noteq> None \<longrightarrow> node_at w' journal = node_at w journal)"

lemma calm_undoes: "calm root txID journal P w w' \<Longrightarrow> undoes root txID journal P w0 w w'"
  by (simp add: calm_def undoes_def)

lemma undoes_trans:
  "undoes root txID journal P w0 u v \<Longrightarrow> undoes root txID journal P w0 v w \<Longrightarrow> undoes root txID journal P w0 u w"
  unfolding undoes_def by metis

lemma covered_undoes:
  assumes "covered root txID P w0 rec w" and "undoes root txID journal P w0 w w'"
  shows "covered root txID P w0 rec w'"
proof -
  have "change_ok root txID P w0 w' ch" if "ch \<in> set (tr_Changes rec)" for ch
    using change_ok_keep [of root txID P w0 w ch w'] assms that by (auto simp: covered_def undoes_def)
  then show ?thesis using assms by (auto simp: covered_def undoes_def)
qed

lemma tx_inv_undoes:
  assumes "tx_inv lib root txID journal P w0 ft w" and "undoes root txID journal P w0 w w'"
  shows "tx_inv lib root txID journal P w0 ft w'"
proof -
  obtain rec where rec: "disk_record lib journal w = Some rec" "covered root txID P w0 rec w" using assms(1) by (auto simp: tx_inv_def)
  have "disk_record lib journal w' = Some rec"
    using rec(1) assms(2) by (cases "node_at w journal") (auto simp: disk_record_def undoes_def)
  then show ?thesis using assms covered_undoes rec(2) unfolding tx_inv_def by metis
qed

lemma remove_effect:
  assumes "Remove p w = (r, w')"
  shows "q \<noteq> p \<Longrightarrow> node_at w' q = node_at w q" and "node_at w' p = node_at w p \<or> node_at w' p = None"
    and "r = Inr u \<or> r = Inl OsNotExist \<Longrightarrow> node_at w' p = None"
  using assms
  by (auto simp: Remove_def sys_def split: prod.splits option.splits if_splits dest!: next_fault_files)

lemma rollback_change_effect:
  assumes "plan_ok root txID journal P" and "change_ok root txID P w0 w ch" and "rollback_change root txID ch w = (es, w')"
  shows "undoes root txID journal P w0 w w'"
    and "es = [] \<Longrightarrow> node_at w' (rootPath root (ch_Path ch)) = node_at w0 (rootPath root (ch_Path ch))"
proof -
  let ?q = "ch_Path ch"
  let ?t = "rootPath root ?q"
  have q: "?q \<in> set P" using assms(2) by (simp add: change_ok_def)
  note paths = plan_paths [OF assms(1)]
  have "undoes root txID journal P w0 w w' \<and> (es = [] \<longrightarrow> node_at w' ?t = node_at w0 ?t)"
  proof (cases "\<not> HasPrefix ?q ''/'' \<or> \<not> withinRoot root ?t")
    case True
    then show ?thesis using assms(3) by (auto simp: rollback_change_def Let_def undoes_def)
  next
    case safe: False
    show ?thesis
    proof (cases "ch_Existed ch")
      case True
      then obtain c m where old: "ch_BackupPath ch = backupDirectory @ txID @ ?q" "node_at w0 ?t = Some (NFile (ch_OldMode ch) c)"
          "node_at w (bkp root txID ?q) = Some (NFile m c)"
        using assms(2) by (auto simp: change_ok_def)
      have b: "rootPath root (ch_BackupPath ch) = bkp root txID ?q" using old(1) by (simp add: bkp_def)
      obtain x v where x: "ReadFile (bkp root txID ?q) w = (x, v)" by fastforce
      have v: "calm root txID journal P w v" using calm_files reads_files(3) [OF x] by blast
      show ?thesis
      proof (cases x)
        case (Inl e)
        then show ?thesis using assms(3) safe True b x calm_undoes [OF v] by (auto simp: rollback_change_def Let_def undoes_def split: if_splits)
      next
        case (Inr content)
        have content: "content = c" using ReadFile_Inr [of "bkp root txID ?q" w] x Inr follow_file [OF old(3)] by auto
        obtain y u where y: "tx_writeAtomic ?t c (ch_OldMode ch) v = (y, u)" by fastforce
        note wc = write_target_calm [OF assms(1) q y]
        have w': "(es = [] \<or> w' = w \<or> (\<exists>e. y = Inl e)) \<and> (w' = u \<or> w' = w) \<and> (es = [] \<longrightarrow> w' = u \<and> (\<exists>z. y = Inr z))"
          using assms(3) safe True b x Inr content y by (auto simp: rollback_change_def Let_def split: if_splits sum.splits)
        have done_: "undoes root txID journal P w0 v u \<and> node_at u ?t = node_at w0 ?t" if "y = Inr z" for z
        proof -
          have t: "node_at u ?t = node_at w0 ?t" using writeAtomic_Inr [of ?t c "ch_OldMode ch" v z u] y that old(2) by simp
          have "node_at u (rootPath root p) = node_at v (rootPath root p) \<or> p = ?q" if "p \<in> set P" for p
            using wc(1) that by (auto simp: calm_def)
          then show ?thesis using t wc(3,4) by (auto simp: undoes_def)
        qed
        have failed: "undoes root txID journal P w0 v u" if "y = Inl z" for z using calm_undoes wc(2) that by blast
        have "undoes root txID journal P w0 v u" using done_ failed by (cases y) blast+
        then have u: "undoes root txID journal P w0 w u" by (rule undoes_trans [OF calm_undoes [OF v]])
        have "undoes root txID journal P w0 w w" by (simp add: undoes_def)
        then have "undoes root txID journal P w0 w w'" using w' u by auto
        moreover have "es = [] \<longrightarrow> node_at w' ?t = node_at w0 ?t" using w' done_ by auto
        ultimately show ?thesis by blast
      qed
    next
      case False
      then have none: "node_at w0 ?t = None" using assms(2) by (simp add: change_ok_def)
      obtain x v where x: "Remove ?t w = (x, v)" by fastforce
      note rm = remove_effect [OF x]
      have w': "w' = v" "es = [] \<longrightarrow> (\<exists>u. x = Inr u) \<or> x = Inl OsNotExist"
        using assms(3) safe False x by (auto simp: rollback_change_def Let_def split: sum.splits os_error.splits)
      have "undoes root txID journal P w0 w v"
        unfolding undoes_def using rm(1,2) none paths(2,7,8) q by metis
      then show ?thesis using w' none rm(3) by auto
    qed
  qed
  then show "undoes root txID journal P w0 w w'" "es = [] \<Longrightarrow> node_at w' ?t = node_at w0 ?t" by blast+
qed

lemma rollback_loop_effect:
  assumes "plan_ok root txID journal P" and "\<forall>ch \<in> set chs. change_ok root txID P w0 w ch" and "rollback_loop root txID chs w = (es, w')"
  shows "undoes root txID journal P w0 w w'
    \<and> (es = [] \<longrightarrow> (\<forall>ch \<in> set chs. node_at w' (rootPath root (ch_Path ch)) = node_at w0 (rootPath root (ch_Path ch))))"
  using assms(2,3)
proof (induction chs arbitrary: w es)
  case Nil
  then show ?case by (simp add: undoes_def)
next
  case (Cons ch chs)
  obtain es1 v where 1: "rollback_change root txID ch w = (es1, v)" by fastforce
  obtain es2 u where 2: "rollback_loop root txID chs v = (es2, u)" by fastforce
  have r: "es = es1 @ es2" "w' = u" using Cons.prems(2) 1 2 by auto
  note one = rollback_change_effect [OF assms(1) _ 1]
  have "change_ok root txID P w0 w ch" using Cons.prems(1) by simp
  note ch = this this [unfolded change_ok_def, THEN conjunct1]
  have "\<forall>c \<in> set chs. change_ok root txID P w0 v c"
    using change_ok_keep [of root txID P w0 w _ v] Cons.prems(1) one(1) [OF ch(1)] by (auto simp: undoes_def)
  from Cons.IH [OF this] 2 r(2)
  have rest: "undoes root txID journal P w0 v w'"
    "es2 = [] \<longrightarrow> (\<forall>c \<in> set chs. node_at w' (rootPath root (ch_Path c)) = node_at w0 (rootPath root (ch_Path c)))" by auto
  have "node_at w' (rootPath root (ch_Path ch)) = node_at w0 (rootPath root (ch_Path ch))" if "es1 = []"
    using rest(1) one(2) [OF ch(1) that] ch(2) by (auto simp: undoes_def)
  then show ?case using undoes_trans [OF one(1) [OF ch(1)] rest(1)] rest(2) r(1) by simp
qed

section \<open>The steps of an installation\<close>

text \<open>From a transaction in memory and a world: an installation of a file of the plan that is not recorded yet, whatever its
  outcome; a change of the record's other fields; a rollback, complete or not; another run of the program, with
  other faults and other random bytes; and the loss of the memory, after which the journal is loaded again.\<close>

inductive tx_run :: "tx_lib \<Rightarrow> string \<Rightarrow> string list \<Rightarrow> fileTransaction \<Rightarrow> world \<Rightarrow> fileTransaction \<Rightarrow> world \<Rightarrow> bool"
  for lib journal P ft0 w0 where
  start: "tx_run lib journal P ft0 w0 ft0 w0"
| install: "tx_run lib journal P ft0 w0 ft w \<Longrightarrow> q \<in> set P \<Longrightarrow> q \<notin> ch_Path ` set (tr_Changes (ft_record ft)) \<Longrightarrow>
     InstallBytes lib q content mode ft w = (r, ft', w') \<Longrightarrow> tx_run lib journal P ft0 w0 ft' w'"
| note_fields: "tx_run lib journal P ft0 w0 ft w \<Longrightarrow> tr_ID (f (ft_record ft)) = tr_ID (ft_record ft) \<Longrightarrow>
     tr_Changes (f (ft_record ft)) = tr_Changes (ft_record ft) \<Longrightarrow>
     record_and_persist lib f ft w = (r, ft', w') \<Longrightarrow> tx_run lib journal P ft0 w0 ft' w'"
| rollback: "tx_run lib journal P ft0 w0 ft w \<Longrightarrow> rollbackChanges (ft_root ft) (ft_record ft) w = (es, w') \<Longrightarrow>
     tx_run lib journal P ft0 w0 ft w'"
| rerun: "tx_run lib journal P ft0 w0 ft w \<Longrightarrow> w_files w' = w_files w \<Longrightarrow> tx_run lib journal P ft0 w0 ft w'"
| reload: "tx_run lib journal P ft0 w0 ft w \<Longrightarrow> disk_record lib journal w = Some rec \<Longrightarrow>
     tx_run lib journal P ft0 w0 (ft\<lparr>ft_record := rec\<rparr>) w"

text \<open>What \<open>beginTransaction\<close> establishes.\<close>

definition tx_started :: "tx_lib \<Rightarrow> fileTransaction \<Rightarrow> world \<Rightarrow> bool" where
  "tx_started lib ft w \<longleftrightarrow> tr_Changes (ft_record ft) = [] \<and> disk_record lib (ft_journalPath ft) w = Some (ft_record ft)"

lemma beginTransaction_started:
  assumes "tx_codec_ok lib" and "beginTransaction lib root version now w = (Inr ft, w')"
  shows "tx_started lib ft w' \<and> ft_root ft = root"
proof -
  obtain u v where p: "persist lib ft u = (Inr v, w')" "tr_Changes (ft_record ft) = []" "ft_root ft = root"
    using assms(2) by (auto simp: beginTransaction_def Let_def io_outcomes)
  then obtain json where "tl_marshal lib (ft_record ft) = Inr json" "tx_writeAtomic (ft_journalPath ft) (json @ [byte 10]) 384 u = (Inr v, w')"
    by (auto simp: persist_def tx_jsonMarshal_def io_outcomes split: sum.splits)
  then show ?thesis using p(2,3) assms(1) writeAtomic_Inr by (auto simp: tx_started_def disk_record_def tx_codec_ok_def)
qed

lemma tx_inv_started:
  "tx_started lib ft w \<Longrightarrow> tx_inv lib (ft_root ft) (tr_ID (ft_record ft)) (ft_journalPath ft) P w ft w"
  by (auto simp: tx_inv_def tx_started_def covered_def)

lemma tx_run_inv:
  assumes "tx_run lib (ft_journalPath ft0) P ft0 w0 ft w" and "tx_codec_ok lib" and "tx_started lib ft0 w0"
    and "plan_ok (ft_root ft0) (tr_ID (ft_record ft0)) (ft_journalPath ft0) P"
  shows "tx_inv lib (ft_root ft0) (tr_ID (ft_record ft0)) (ft_journalPath ft0) P w0 ft w"
  using assms(1)
proof (induction rule: tx_run.induct)
  case start
  show ?case by (rule tx_inv_started [OF assms(3)])
next
  case (install ft w q content mode r ft' w')
  then show ?case using install_effect [OF assms(4,2)] by blast
next
  case (note_fields ft w f r ft' w')
  have "covered (ft_root ft0) (tr_ID (ft_record ft0)) P w0 (f (ft_record ft)) w"
    using note_fields by (simp add: tx_inv_def covered_def)
  then show ?case using note_effect [OF assms(4,2)] note_fields by blast
next
  case (rollback ft w es w')
  have c: "covered (ft_root ft0) (tr_ID (ft_record ft0)) P w0 (ft_record ft) w" "ft_root ft = ft_root ft0"
    using rollback.IH by (simp_all add: tx_inv_def)
  then have "undoes (ft_root ft0) (tr_ID (ft_record ft0)) (ft_journalPath ft0) P w0 w w'"
    using rollback_loop_effect [OF assms(4), of "rev (tr_Changes (ft_record ft))" w0 w es w'] rollback.hyps(2)
    by (simp add: rollbackChanges_def covered_def)
  then show ?case using tx_inv_undoes rollback.IH by blast
next
  case (rerun ft w w')
  then show ?case using tx_inv_calm calm_files by blast
next
  case (reload ft w rec)
  then show ?case by (auto simp: tx_inv_def)
qed

text \<open>Rolling back what a record covers restores the files of the plan.\<close>

lemma covered_rollback:
  assumes "plan_ok root txID journal P" and "covered root txID P w0 rec w" and "rollbackChanges root rec w = ([], w')" and "p \<in> set P"
  shows "node_at w' (rootPath root p) = node_at w0 (rootPath root p)"
proof -
  have e: "undoes root txID journal P w0 w w'"
    "\<forall>ch \<in> set (tr_Changes rec). node_at w' (rootPath root (ch_Path ch)) = node_at w0 (rootPath root (ch_Path ch))"
    using rollback_loop_effect [OF assms(1), of "rev (tr_Changes rec)" w0 w "[]" w'] assms(2,3)
    by (simp_all add: rollbackChanges_def covered_def)
  show ?thesis
  proof (cases "p \<in> ch_Path ` set (tr_Changes rec)")
    case True
    then show ?thesis using e(2) by auto
  next
    case False
    then show ?thesis using e(1) assms(2,4) by (auto simp: undoes_def covered_def)
  qed
qed

text \<open>C5: An interrupted installation can always be undone from disk. After any sequence of installation steps, failed calls,
  crashes, partial rollbacks and restarts, the journal on disk can be decoded, and if rolling back what it describes reports no
  error, every file of the plan is again exactly what it was when the transaction began: the same contents and
  permissions, or absent.\<close>

theorem rollback_restores_plan:
  assumes "tx_codec_ok lib" and "tx_started lib ft0 w0" and "plan_ok (ft_root ft0) (tr_ID (ft_record ft0)) (ft_journalPath ft0) P"
    and "tx_run lib (ft_journalPath ft0) P ft0 w0 ft w"
  shows "\<exists>rec. disk_record lib (ft_journalPath ft0) w = Some rec
    \<and> (\<forall>w'. rollbackChanges (ft_root ft0) rec w = ([], w') \<longrightarrow>
         (\<forall>p \<in> set P. node_at w' (rootPath (ft_root ft0) p) = node_at w0 (rootPath (ft_root ft0) p)))"
proof -
  obtain rec where rec: "disk_record lib (ft_journalPath ft0) w = Some rec"
      "covered (ft_root ft0) (tr_ID (ft_record ft0)) P w0 rec w"
    using tx_run_inv [OF assms(4,1-3)] by (auto simp: tx_inv_def)
  then show ?thesis using covered_rollback [OF assms(3) rec(2)] by blast
qed

section \<open>Instances\<close>

definition tx_rec :: "string \<Rightarrow> FileChange list \<Rightarrow> TransactionRecord" where
  "tx_rec status chs = \<lparr>tr_ID = ''i'', tr_Version = ''1.0.0'', tr_CreatedAt = 0, tr_Status = status, tr_Changes = chs,
     tr_CreatedUsers = [], tr_CreatedGroups = [], tr_Services = [], tr_NginxChanged = False\<rparr>"

definition tx_sample_change :: FileChange where
  "tx_sample_change = \<lparr>ch_Path = ''/a'', ch_BackupPath = ''/var/lib/my-safe-installer/backups/i/a'', ch_Existed = True,
     ch_OldMode = 420, ch_NewSHA256 = EncodeToString ''new''\<rparr>"

definition tx_new_change :: FileChange where
  "tx_new_change = \<lparr>ch_Path = ''/b'', ch_BackupPath = [], ch_Existed = False, ch_OldMode = 0, ch_NewSHA256 = []\<rparr>"

definition tx_sample_lib :: tx_lib where
  "tx_sample_lib = \<lparr>tl_sha256 = (\<lambda>s. s),
     tl_marshal = (\<lambda>r. if r = tx_rec ''applying'' [] then Inr ''0''
       else if r = tx_rec ''applying'' [tx_sample_change] then Inr ''1''
       else if r = tx_rec ''rolled_back'' [tx_new_change] then Inr ''3'' else Inl ''no''),
     tl_decode = (\<lambda>s. if s = [CHR ''0'', byte 10] then Inr (tx_rec ''applying'' [])
       else if s = [CHR ''1'', byte 10] then Inr (tx_rec ''applying'' [tx_sample_change])
       else if s = [CHR ''2'', byte 10] then Inr (tx_rec ''applying'' [tx_new_change])
       else if s = [CHR ''3'', byte 10] then Inr (tx_rec ''rolled_back'' [tx_new_change]) else Inl [])\<rparr>"

definition tx_sample_journal :: string where
  "tx_sample_journal = ''/var/lib/my-safe-installer/transactions/i.json''"

definition tx_sample :: fileTransaction where
  "tx_sample = \<lparr>ft_root = ''/'', ft_record = tx_rec ''applying'' [], ft_journalPath = tx_sample_journal,
     ft_backupRoot = ''/var/lib/my-safe-installer/backups/i''\<rparr>"

definition tx_world :: "(string, node) gomap \<Rightarrow> string \<Rightarrow> fault list \<Rightarrow> world" where
  "tx_world files json faults = \<lparr>w_files = files @ [(''/'', NDir 493), (''/var'', NDir 493), (''/var/lib'', NDir 493),
      (''/var/lib/my-safe-installer'', NDir 448), (''/var/lib/my-safe-installer/transactions'', NDir 448),
      (tx_sample_journal, NFile 384 (json @ [byte 10]))],
     w_faults = faults, w_rand = [''r'', ''s'', ''t''], w_cwd = ''/''\<rparr>"

lemma tx_sample_codec: "tx_codec_ok tx_sample_lib"
proof -
  have "CHR ''0'' \<noteq> CHR ''1''" "tx_rec ''applying'' [] \<noteq> tx_rec ''applying'' [tx_sample_change]" by (simp_all add: tx_rec_def)
  then show ?thesis by (auto simp: tx_codec_ok_def tx_sample_lib_def split: if_splits)
qed

lemma tx_sample_started: "tx_started tx_sample_lib tx_sample (tx_world [(''/a'', NFile 420 ''old'')] ''0'' [])"
  by code_simp

lemma tx_sample_plan: "plan_ok ''/'' ''i'' tx_sample_journal [''/a'']"
  by code_simp

text \<open>The installation of \<open>/a\<close>, and the crash of the process right after it.\<close>

definition tx_after :: world where
  "tx_after = snd (snd (InstallBytes tx_sample_lib ''/a'' ''new'' 493 tx_sample (tx_world [(''/a'', NFile 420 ''old'')] ''0'' [])))"

lemma tx_sample_installed:
  "node_at tx_after ''/a'' = Some (NFile 493 ''new'') \<and> disk_record tx_sample_lib tx_sample_journal tx_after = Some (tx_rec ''applying'' [tx_sample_change])
   \<and> fst (rollbackChanges ''/'' (tx_rec ''applying'' [tx_sample_change]) tx_after) = []"
  by code_simp

theorem rollback_restores_plan_witness:
  "node_at tx_after ''/a'' = Some (NFile 493 ''new'')
   \<and> (\<exists>rec w'. disk_record tx_sample_lib tx_sample_journal tx_after = Some rec \<and> rollbackChanges ''/'' rec tx_after = ([], w')
        \<and> node_at w' ''/a'' = Some (NFile 420 ''old''))"
proof -
  let ?w0 = "tx_world [(''/a'', NFile 420 ''old'')] ''0'' []"
  obtain r ft' where i: "InstallBytes tx_sample_lib ''/a'' ''new'' 493 tx_sample ?w0 = (r, ft', tx_after)"
    unfolding tx_after_def by (metis prod.collapse)
  have j: "ft_journalPath tx_sample = tx_sample_journal" "ft_root tx_sample = ''/''" "tr_ID (ft_record tx_sample) = ''i''"
    "tr_Changes (ft_record tx_sample) = []" by (simp_all add: tx_sample_def tx_rec_def)
  have "tx_run tx_sample_lib (ft_journalPath tx_sample) [''/a''] tx_sample ?w0 ft' tx_after"
    by (rule tx_run.install [OF tx_run.start _ _ i]) (simp_all add: j)
  from rollback_restores_plan [OF tx_sample_codec tx_sample_started _ this] tx_sample_plan
  obtain rec where rec: "disk_record tx_sample_lib tx_sample_journal tx_after = Some rec"
      "\<And>w'. rollbackChanges ''/'' rec tx_after = ([], w') \<Longrightarrow> node_at w' (rootPath ''/'' ''/a'') = node_at ?w0 (rootPath ''/'' ''/a'')"
    by (auto simp: j)
  obtain w' where w': "rollbackChanges ''/'' rec tx_after = ([], w')"
    using tx_sample_installed rec(1) by (metis option.inject prod.collapse)
  have "rootPath ''/'' ''/a'' = ''/a''" by code_simp
  then have "node_at w' ''/a'' = Some (NFile 420 ''old'')" using rec(2) [OF w'] by (simp add: tx_world_def)
  then show ?thesis using tx_sample_installed rec(1) w' by blast
qed


end
