(* ===== verification/Plan.thy ===== *)
theory Plan
  imports Go_Walk Go_Text Client "HOL-Library.Product_Lexorder"
begin

text \<open>
  internal/installer/inspect.go and model.go: what the installer finds on the host, and the plan it makes from it.

  The commands of the host are a \<open>Runner\<close>: which programs exist, and the output and the error of each command.
  \<open>url.Parse\<close> is an argument. The patterns of the two regular expressions are matched by functions that scan the text
  from the left; \<open>(?i)\<close> folds the ASCII letters, U+017F (with s) and U+212A (with k).
\<close>

section \<open>Data\<close>

datatype SupportLevel = SupportStable | SupportExperimental | SupportUnsupported

record Tool =
  tool_Available :: bool
  tool_Version :: string

record ProxyCandidate =
  pc_ConfigPath :: string
  pc_Upstream :: string
  pc_Port :: int
  pc_Directive :: string

record Environment =
  env_OSID :: string
  env_OSVersion :: string
  env_OSCodename :: string
  env_Architecture :: string
  env_Support :: SupportLevel
  env_Systemd :: Tool
  env_Nginx :: Tool
  env_Docker :: Tool
  env_DockerCompose :: Tool
  env_ListeningPorts :: "int list"
  env_ProxyCandidates :: "ProxyCandidate list"
  env_Warnings :: "string list"

type_synonym GatewaySelection = string

definition GatewayAuto :: GatewaySelection where "GatewayAuto = ''auto''"
definition GatewayEnabled :: GatewaySelection where "GatewayEnabled = ''enabled''"
definition GatewayDisabled :: GatewaySelection where "GatewayDisabled = ''disabled''"

record PlanOptions =
  po_Gateway :: GatewaySelection
  po_Upstream :: string
  po_GatewayPort :: int

record Plan =
  pl_Installable :: bool
  pl_Support :: SupportLevel
  pl_Integration :: string
  pl_GatewayEnabled :: bool
  pl_GatewayListen :: string
  pl_Upstream :: string
  pl_NginxConfig :: string
  pl_NginxReplacement :: string
  pl_Steps :: "string list"
  pl_Blockers :: "string list"
  pl_Notices :: "string list"

record Inspection =
  insp_Environment :: Environment
  insp_Plan :: Plan

record Runner =
  rn_LookPath :: "string \<Rightarrow> bool"
  rn_Run :: "string list \<Rightarrow> string \<times> error option"
  rn_RunEnv :: "string list \<Rightarrow> string list \<Rightarrow> string \<times> error option"

section \<open>Matching a directive\<close>

text \<open>One character of a case-insensitive literal.\<close>

fun fold_char :: "char \<Rightarrow> string \<Rightarrow> string option" where
  "fold_char c [] = None"
| "fold_char c (x # s) =
     (if lower_char x = lower_char c then Some s
      else if lower_char c = CHR ''s'' \<and> x = byte 197 \<and> s \<noteq> [] \<and> hd s = byte 191 then Some (tl s)
      else if lower_char c = CHR ''k'' \<and> x = byte 226 \<and> take 2 s = [byte 132, byte 170] then Some (drop 2 s)
      else None)"

fun fold_literal :: "string \<Rightarrow> string \<Rightarrow> string option" where
  "fold_literal [] s = Some s"
| "fold_literal (c # cs) s = do { s' \<leftarrow> fold_char c s; fold_literal cs s' }"

text \<open>The class \<open>\s\<close> of the regular expressions and the word characters of \<open>\b\<close>.\<close>

definition re_space :: "char \<Rightarrow> bool" where
  "re_space c \<longleftrightarrow> c \<in> {byte 9, byte 10, byte 12, byte 13, CHR '' ''}"

definition re_word :: "char \<Rightarrow> bool" where
  "re_word c \<longleftrightarrow> (let n = (of_char c :: nat) in 48 \<le> n \<and> n \<le> 57 \<or> 65 \<le> n \<and> n \<le> 90 \<or> 97 \<le> n \<and> n \<le> 122 \<or> n = 95)"

definition skip_spaces :: "string \<Rightarrow> string" where
  "skip_spaces s = dropWhile re_space s"

text \<open>\<open>proxy_pass\s+\<close> at the beginning of a text, and \<open>\s*;\<close>.\<close>

definition directive_head :: "string \<Rightarrow> string option" where
  "directive_head s =
     do { s1 \<leftarrow> fold_literal ''proxy_pass'' s;
          if s1 \<noteq> [] \<and> re_space (hd s1) then Some (skip_spaces s1) else None }"

definition directive_end :: "string \<Rightarrow> string option" where
  "directive_end s = (case skip_spaces s of c # s' \<Rightarrow> if c = CHR '';'' then Some s' else None | [] \<Rightarrow> None)"

text \<open>What a match has consumed, given the text before and the text after it.\<close>

definition consumed :: "string \<Rightarrow> string \<Rightarrow> string" where
  "consumed s s' = take (length s - length s') s"

fun first_fold :: "string list \<Rightarrow> string \<Rightarrow> string option" where
  "first_fold [] s = None"
| "first_fold (p # ps) s = (case fold_literal p s of Some s' \<Rightarrow> Some s' | None \<Rightarrow> first_fold ps s)"

text \<open>\<open>literalProxyPass\<close> at the beginning of a text: the upstream, the digits of its port, and the rest.\<close>

definition match_upstream :: "string \<Rightarrow> (string \<times> string) option" where
  "match_upstream s =
     do { s1 \<leftarrow> fold_literal ''http'' s;
          s2 \<leftarrow> Some (case fold_literal ''s'' s1 of Some s' \<Rightarrow> s' | None \<Rightarrow> s1);
          s3 \<leftarrow> fold_literal ''://'' s2;
          s4 \<leftarrow> first_fold [''127.0.0.1'', ''localhost'', ''[::1]''] s3;
          s5 \<leftarrow> fold_literal '':'' s4;
          let digits = takeWhile dec_digit s5;
          if digits = [] \<or> 5 < length digits then None
          else let s6 = dropWhile dec_digit s5
               in Some (digits, if s6 \<noteq> [] \<and> hd s6 = CHR ''/''
                                then dropWhile (\<lambda>c. c \<noteq> CHR '';'' \<and> \<not> re_space c) s6 else s6) }"

definition literalProxyPass :: "string \<Rightarrow> ((string \<times> string) \<times> string) option" where
  "literalProxyPass s =
     do { s1 \<leftarrow> directive_head s;
          (digits, s2) \<leftarrow> match_upstream s1;
          s3 \<leftarrow> directive_end s2;
          Some ((consumed s1 s2, digits), s3) }"

text \<open>All matches that begin at a word boundary, from the left, without overlaps: the start, the length and the groups
  of each. \<open>before\<close> tells whether the character before the text is a word character.\<close>

function find_all :: "(string \<Rightarrow> ('a \<times> string) option) \<Rightarrow> nat \<Rightarrow> bool \<Rightarrow> string \<Rightarrow> (nat \<times> nat \<times> 'a) list" where
  "find_all matcher pos before [] = []"
| "find_all matcher pos before (c # s) =
     (case (if before then None else matcher (c # s)) of
        Some (groups, s') \<Rightarrow>
          if length s' < length (c # s)
          then (pos, length (c # s) - length s', groups)
               # find_all matcher (pos + (length (c # s) - length s')) (re_word (last (consumed (c # s) s'))) s'
          else find_all matcher (Suc pos) (re_word c) s
      | None \<Rightarrow> find_all matcher (Suc pos) (re_word c) s)"
  by pat_completeness auto
termination by (relation "measure (\<lambda>(_, _, _, s). length s)") auto

section \<open>Reading the host\<close>

fun firstNonEmpty :: "string list \<Rightarrow> string" where
  "firstNonEmpty [] = []"
| "firstNonEmpty (v # vs) = (if v \<noteq> [] then v else firstNonEmpty vs)"

definition majorMinor :: "string \<Rightarrow> string" where
  "majorMinor version =
     (case SplitChar (CHR ''.'') version of a # b # _ \<Rightarrow> a @ ''.'' @ b | _ \<Rightarrow> version)"

definition supportLevel :: "string \<Rightarrow> string \<Rightarrow> string \<Rightarrow> SupportLevel" where
  "supportLevel osID version architecture =
     (if architecture \<noteq> ''amd64'' \<and> architecture \<noteq> ''arm64'' then SupportUnsupported
      else if osID = ''ubuntu''
      then (if majorMinor version \<in> {''22.04'', ''24.04''} then SupportStable
            else if majorMinor version = ''26.04'' then SupportExperimental else SupportUnsupported)
      else if osID = ''debian''
      then (if majorMinor version \<in> {''12'', ''13''} then SupportStable else SupportUnsupported)
      else SupportUnsupported)"

definition normalizeArchitecture :: "string \<Rightarrow> string" where
  "normalizeArchitecture architecture =
     (let a = ToLower (TrimSpace architecture)
      in if a \<in> {''x86_64'', ''x64'', ''amd64''} then ''amd64''
         else if a \<in> {''aarch64'', ''arm64''} then ''arm64'' else a)"

definition os_release_line :: "string \<Rightarrow> (string, string) gomap \<Rightarrow> (string, string) gomap" where
  "os_release_line text result =
     (let line = TrimSpace text
      in if line = [] \<or> HasPrefix line ''#'' then result
         else case CutChar (CHR ''='') line of
                None \<Rightarrow> result
              | Some (key, v) \<Rightarrow> AList.update (TrimSpace key) (Trim (TrimSpace v) [CHR 0x22]) result)"

definition parseOSRelease :: "string \<Rightarrow> (string, string) gomap" where
  "parseOSRelease content = fold os_release_line (scan_lines content) []"

text \<open>The port of one line of \<open>/proc/net/tcp\<close>, if its socket listens.\<close>

definition listening_port :: "string \<Rightarrow> int option" where
  "listening_port line =
     (case Fields line of
        _ # local # _ # state # _ \<Rightarrow>
          if state \<noteq> ''0A'' then None
          else (case CutChar (CHR '':'') local of
                  None \<Rightarrow> None
                | Some (_, rawPort) \<Rightarrow>
                    (case ParseUint rawPort 16 16 of Some port \<Rightarrow> if 0 < port then Some (int port) else None | None \<Rightarrow> None))
      | _ \<Rightarrow> None)"

definition parseListeningPorts :: "string \<Rightarrow> int list" where
  "parseListeningPorts content = sort (remdups (List.map_filter listening_port (scan_lines content)))"

fun ports_of_files :: "string list \<Rightarrow> world \<Rightarrow> int list \<times> world" where
  "ports_of_files [] w = ([], w)"
| "ports_of_files (path # paths) w =
     (case ReadFile path w of
        (Inl _, w) \<Rightarrow> ports_of_files paths w
      | (Inr content, w) \<Rightarrow> (case ports_of_files paths w of (ports, w) \<Rightarrow> (parseListeningPorts content @ ports, w)))"

definition inspectListeningPorts :: "string \<Rightarrow> world \<Rightarrow> int list \<times> world" where
  "inspectListeningPorts root w =
     (case ports_of_files [rootPath root ''/proc/net/tcp'', rootPath root ''/proc/net/tcp6''] w of
        (ports, w) \<Rightarrow> (sort (remdups ports), w))"

text \<open>\<open>strings.ReplaceAll\<close> of a carriage return with a line feed by a line feed.\<close>

fun unix_lines :: "string \<Rightarrow> string" where
  "unix_lines (a # b # s) = (if a = byte 13 \<and> b = byte 10 then byte 10 # unix_lines s else a # unix_lines (b # s))"
| "unix_lines s = s"

definition firstOutputLine :: "string \<Rightarrow> string" where
  "firstOutputLine output = take 256 (firstNonEmpty (map TrimSpace (SplitChar (byte 10) (unix_lines output))))"

definition inspectTool :: "Runner \<Rightarrow> string list \<Rightarrow> Tool" where
  "inspectTool runner command =
     (if \<not> rn_LookPath runner (hd command) then \<lparr>tool_Available = False, tool_Version = []\<rparr>
      else case rn_Run runner command of
             (output, err) \<Rightarrow>
               let version = firstOutputLine output
               in \<lparr>tool_Available = (err = None \<or> version \<noteq> []), tool_Version = version\<rparr>)"

section \<open>Nginx\<close>

definition displayPath :: "string \<Rightarrow> string \<Rightarrow> string" where
  "displayPath root path = (case Rel root path of None \<Rightarrow> path | Some relative \<Rightarrow> ''/'' @ relative)"

text \<open>\<open>filepath.EvalSymlinks\<close>\<close>

definition EvalSymlinks :: "string \<Rightarrow> (os_error, string) io" where
  "EvalSymlinks p = sys (\<lambda>w. (case follow w p of None \<Rightarrow> Inl OsNotExist | Some (q, _) \<Rightarrow> Inr (Clean q), w))"

fun is_link :: "node \<Rightarrow> bool" where
  "is_link (NLink _) = True"
| "is_link _ = False"

definition readConfigFile :: "string \<Rightarrow> string \<Rightarrow> node \<Rightarrow> (error, string \<times> string) io" where
  "readConfigFile root path item =
     (if \<not> is_link item then io_bind (os_label [] (ReadFile path)) (\<lambda>content. io_return (content, path))
      else io_bind (os_label [] (EvalSymlinks path)) (\<lambda>targ.
        if \<not> withinRoot root targ then io_fail ''nginx symlink escapes inspection root''
        else io_bind (os_label [] (ReadFile targ)) (\<lambda>content. io_return (content, targ))))"

record nginx_scan =
  ns_candidates :: "ProxyCandidate list"
  ns_warnings :: "string list"
  ns_seenFiles :: nat
  ns_inspected :: "string list"

text \<open>\<open>strconv.Atoi\<close> of at most five digits.\<close>

definition Atoi :: "string \<Rightarrow> int" where
  "Atoi digits = foldl (\<lambda>v c. v * 10 + int (digit_value c)) 0 digits"

definition line_candidates :: "string \<Rightarrow> string \<Rightarrow> ProxyCandidate list" where
  "line_candidates display text =
     (let line = TrimSpace (takeWhile (\<lambda>c. c \<noteq> CHR ''#'') text)
      in List.map_filter
           (\<lambda>(start, len, upstream, digits).
              let port = Atoi digits
              in if port < 1 \<or> 65535 < port then None
                 else Some \<lparr>pc_ConfigPath = display, pc_Upstream = upstream, pc_Port = port,
                            pc_Directive = take len (drop start line)\<rparr>)
           (find_all literalProxyPass 0 False line))"

definition file_candidates :: "string \<Rightarrow> string \<Rightarrow> ProxyCandidate list" where
  "file_candidates display content = concat (map (line_candidates display) (scan_lines content))"

definition warn :: "string \<Rightarrow> nginx_scan \<Rightarrow> nginx_scan" where
  "warn text s = s\<lparr>ns_warnings := ns_warnings s @ [text]\<rparr>"

definition nginx_file :: "string \<Rightarrow> string \<Rightarrow> bool" where
  "nginx_file name display \<longleftrightarrow>
     HasSuffix (ToLower name) ''.conf'' \<or> name = ''nginx.conf'' \<or> Contains display ''/sites-enabled/''"

text \<open>The callback of the walk. The walk hands it a path; its last element is the name of the entry.\<close>

definition nginx_visit :: "string \<Rightarrow> string \<Rightarrow> node \<Rightarrow> nginx_scan walker" where
  "nginx_visit root path item s w =
     (if is_dir (Some item) then ((Walked, s), w)
      else if 1000 \<le> ns_seenFiles s then ((SkipAll, s), w)
      else if \<not> nginx_file (BasePath path) (displayPath root path) then ((Walked, s), w)
      else let s = s\<lparr>ns_seenFiles := Suc (ns_seenFiles s)\<rparr>
           in case readConfigFile root path item w of
                (Inl _, w) \<Rightarrow> ((Walked, warn (''cannot read '' @ displayPath root path) s), w)
              | (Inr (content, actual), w) \<Rightarrow>
                  let actualPath = Clean actual
                  in if actualPath \<in> set (ns_inspected s) then ((Walked, s), w)
                     else ((Walked, s\<lparr>ns_inspected := actualPath # ns_inspected s,
                                      ns_candidates := ns_candidates s
                                        @ file_candidates (displayPath root actualPath) content\<rparr>), w))"

definition inspectNginx :: "string \<Rightarrow> world \<Rightarrow> (ProxyCandidate list \<times> string list) \<times> world" where
  "inspectNginx root w =
     (case WalkDir (nginx_visit root) (\<lambda>path. warn (''cannot inspect '' @ displayPath root path))
             (rootPath root ''/etc/nginx'')
             \<lparr>ns_candidates = [], ns_warnings = [], ns_seenFiles = 0, ns_inspected = []\<rparr> w of
        ((_, s), w) \<Rightarrow>
          ((sort_key (\<lambda>c. (pc_ConfigPath c, pc_Upstream c)) (ns_candidates s), sort (ns_warnings s)), w))"

section \<open>The plan\<close>

definition validateUpstream :: "(string \<Rightarrow> URL option) \<Rightarrow> string \<Rightarrow> error option" where
  "validateUpstream parse raw =
     (case parse raw of
        None \<Rightarrow> Some ''explicit Gateway upstream must be an absolute HTTP(S) URL''
      | Some parsed \<Rightarrow>
          if url_Scheme parsed = [] \<or> url_Host parsed = []
          then Some ''explicit Gateway upstream must be an absolute HTTP(S) URL''
          else if url_Scheme parsed \<noteq> ''http'' \<and> url_Scheme parsed \<noteq> ''https''
          then Some ''explicit Gateway upstream scheme must be http or https''
          else if url_User parsed \<or> url_RawQuery parsed \<noteq> [] \<or> url_Fragment parsed \<noteq> []
          then Some ''explicit Gateway upstream must not contain credentials, query, or fragment''
          else None)"

text \<open>The ports from \<open>start\<close> to \<open>end\<close>, of which the first free one is taken.\<close>

definition firstFreePort :: "int list \<Rightarrow> int \<Rightarrow> int \<Rightarrow> int" where
  "firstFreePort used start stop =
     (case List.find (\<lambda>port. port \<notin> set used) [start..stop] of Some port \<Rightarrow> port | None \<Rightarrow> 0)"

definition gateway_port :: "Environment \<Rightarrow> PlanOptions \<Rightarrow> int" where
  "gateway_port environment options =
     (if po_GatewayPort options = 0
      then firstFreePort (env_ListeningPorts environment @ map pc_Port (env_ProxyCandidates environment)) 18081 18180
      else po_GatewayPort options)"

definition plan_blockers :: "Environment \<Rightarrow> string list" where
  "plan_blockers environment =
     (if env_Support environment = SupportUnsupported
      then [''unsupported platform '' @ env_OSID environment @ '' '' @ env_OSVersion environment @ ''/'' @ env_Architecture environment]
      else [])
     @ (if \<not> tool_Available (env_Systemd environment) then [''systemd is required for the native Agent service''] else [])"

definition base_plan :: "Environment \<Rightarrow> Plan" where
  "base_plan environment =
     \<lparr>pl_Installable = True, pl_Support = env_Support environment, pl_Integration = ''sensor'',
      pl_GatewayEnabled = False, pl_GatewayListen = [], pl_Upstream = [], pl_NginxConfig = [],
      pl_NginxReplacement = [],
      pl_Steps = [''verify signed release manifest and artifact hashes'',
        ''install Agent binary and hardened systemd unit'',
        ''register Agent with the one-time bootstrap token'',
        ''run a read-only baseline scan and verify heartbeat''],
      pl_Blockers = [],
      pl_Notices = (if env_Support environment = SupportExperimental
        then [''platform is experimental and requires explicit confirmation''] else [])\<rparr>"

text \<open>The ways in which a plan stays without the gateway: with a notice, and blocked if the gateway was demanded.\<close>

definition add_notice :: "string \<Rightarrow> Plan \<Rightarrow> Plan" where
  "add_notice text plan = plan\<lparr>pl_Notices := pl_Notices plan @ [text]\<rparr>"

definition require_gateway :: "GatewaySelection \<Rightarrow> string \<Rightarrow> Plan \<Rightarrow> Plan" where
  "require_gateway gateway blocker plan =
     (if gateway = GatewayEnabled
      then plan\<lparr>pl_Installable := False, pl_Blockers := pl_Blockers plan @ [blocker]\<rparr> else plan)"

definition gateway_plan :: "GatewaySelection \<Rightarrow> int \<Rightarrow> string \<Rightarrow> string \<Rightarrow> Plan \<Rightarrow> Plan" where
  "gateway_plan gateway port upstream nginxConfig plan =
     (if port = 0
      then require_gateway gateway ''Gateway was required but no local listen port is available''
             (add_notice ''no free Gateway port is available in 18081-18180; staying in Sensor mode'' plan)
      else let enabled = plan\<lparr>pl_GatewayEnabled := True, pl_Integration := ''nginx_gateway'',
                     pl_GatewayListen := ''127.0.0.1:'' @ FormatInt port, pl_Upstream := upstream,
                     pl_NginxConfig := nginxConfig,
                     pl_NginxReplacement := (if nginxConfig \<noteq> [] then ''http://127.0.0.1:'' @ FormatInt port else []),
                     pl_Steps := pl_Steps plan @ [''install Gateway in observe mode'',
                       ''health-check Gateway against the detected upstream'']\<rparr>
           in if nginxConfig \<noteq> []
              then enabled\<lparr>pl_Steps := pl_Steps enabled @ [''back up and hash the selected Nginx configuration'',
                       ''replace the single proxy_pass with the local Gateway'',
                       ''run nginx -t, reload, and verify the protected route'']\<rparr>
              else add_notice ''explicit upstream selected; external ingress still needs an explicit routing step'' enabled)"

definition BuildPlan :: "(string \<Rightarrow> URL option) \<Rightarrow> Environment \<Rightarrow> PlanOptions \<Rightarrow> Plan" where
  "BuildPlan parse environment options =
     (let gateway = (if po_Gateway options = [] then GatewayAuto else po_Gateway options);
          port = gateway_port environment options;
          upstream = TrimSpace (po_Upstream options)
      in if plan_blockers environment \<noteq> []
         then (base_plan environment)\<lparr>pl_Installable := False, pl_Steps := [], pl_Notices := [],
                                      pl_Blockers := plan_blockers environment\<rparr>
         else if gateway = GatewayDisabled
         then add_notice ''Gateway disabled by operator; Sensor protection remains active'' (base_plan environment)
         else if upstream \<noteq> []
         then (case validateUpstream parse upstream of
                 Some e \<Rightarrow> (base_plan environment)\<lparr>pl_Blockers := [e], pl_Installable := (gateway \<noteq> GatewayEnabled)\<rparr>
               | None \<Rightarrow> gateway_plan gateway port upstream [] (base_plan environment))
         else (case env_ProxyCandidates environment of
                 [] \<Rightarrow> require_gateway gateway ''Gateway was required but no unambiguous upstream is available''
                         (add_notice ''no unique literal loopback Nginx proxy_pass was found; staying in Sensor mode''
                            (base_plan environment))
               | [candidate] \<Rightarrow> gateway_plan gateway port (pc_Upstream candidate) (pc_ConfigPath candidate) (base_plan environment)
               | _ \<Rightarrow> require_gateway gateway ''Gateway was required but no unambiguous upstream is available''
                        (add_notice ''multiple Nginx upstreams were found; staying in Sensor mode until an upstream is selected''
                           (base_plan environment))))"

section \<open>Inspection\<close>

text \<open>\<open>goarch\<close> is \<open>runtime.GOARCH\<close>.\<close>

definition lookup_field :: "(string, string) gomap \<Rightarrow> string \<Rightarrow> string" where
  "lookup_field m k = (case map_of m k of Some v \<Rightarrow> v | None \<Rightarrow> [])"

definition describe_host :: "Runner \<Rightarrow> string \<Rightarrow> string \<Rightarrow> int list \<Rightarrow> ProxyCandidate list \<Rightarrow> string list \<Rightarrow> Environment" where
  "describe_host runner architecture osRelease ports candidates warnings =
     (let arch = normalizeArchitecture architecture;
          found = parseOSRelease osRelease;
          osID = ToLower (lookup_field found ''ID'');
          osVersion = lookup_field found ''VERSION_ID'';
          docker = inspectTool runner [''docker'', ''version'', ''--format'', ''{{.Server.Version}}'']
      in \<lparr>env_OSID = osID, env_OSVersion = osVersion,
          env_OSCodename = firstNonEmpty [lookup_field found ''VERSION_CODENAME'', lookup_field found ''UBUNTU_CODENAME''],
          env_Architecture = arch, env_Support = supportLevel osID osVersion arch,
          env_Systemd = inspectTool runner [''systemctl'', ''--version''],
          env_Nginx = inspectTool runner [''nginx'', ''-v''], env_Docker = docker,
          env_DockerCompose = (if tool_Available docker
            then inspectTool runner [''docker'', ''compose'', ''version'', ''--short'']
            else \<lparr>tool_Available = False, tool_Version = []\<rparr>),
          env_ListeningPorts = ports, env_ProxyCandidates = candidates, env_Warnings = warnings\<rparr>)"

definition Inspect ::
  "(string \<Rightarrow> URL option) \<Rightarrow> string \<Rightarrow> string \<Rightarrow> string \<Rightarrow> Runner \<Rightarrow> PlanOptions \<Rightarrow> (error, Inspection) io" where
  "Inspect parse goarch optRoot architecture runner options =
     io_bind (os_label ''resolve inspection root: '' (AbsPath (if optRoot = [] then ''/'' else optRoot))) (\<lambda>root.
       io_bind (os_label ''read /etc/os-release: '' (ReadFile (rootPath root ''/etc/os-release''))) (\<lambda>osRelease w.
         case inspectListeningPorts root w of
           (ports, w) \<Rightarrow>
             (case inspectNginx root w of
                ((candidates, warnings), w) \<Rightarrow>
                  let environment = describe_host runner (if architecture = [] then goarch else architecture)
                                      osRelease ports candidates warnings
                  in (Inr \<lparr>insp_Environment = environment, insp_Plan = BuildPlan parse environment options\<rparr>, w))))"

end
