(* ===== verification/Release_Bundle.thy ===== *)
theory Release_Bundle
  imports Mtls Version Go_Text
begin

text \<open>
  internal/releasebundle: the signed manifest of a release (manifest.go) and its Ed25519 signature (sign.go). A
  manifest lists the artifacts of a directory with their sizes and SHA-256 digests; an installer checks the signature
  over the bytes of the manifest, then the manifest, then the files it is going to use.

  SHA-256, Ed25519, PEM, the key encodings and JSON are the fields of \<open>rb_lib\<close>. The decoder gives the value and the text
  after it. Base64 is written out.
\<close>

section \<open>Data\<close>

record Artifact =
  ar_Name :: string
  ar_Component :: string
  ar_OS :: string
  ar_Arch :: string
  ar_SHA256 :: string
  ar_Size :: int
  ar_Mode :: nat
  ar_Format :: string

record Manifest =
  mf_SchemaVersion :: int
  mf_Version :: string
  mf_CreatedAt :: time
  mf_Artifacts :: "Artifact list"

record rb_lib =
  rl_sha256 :: "string \<Rightarrow> string"
  rl_marshal :: "Manifest \<Rightarrow> error + string"
  rl_decode :: "string \<Rightarrow> error + Manifest \<times> string"
  rl_pem_Decode :: "string \<Rightarrow> (string \<times> string \<times> string) option"
  rl_pem_Encode :: "string \<Rightarrow> string \<Rightarrow> string"
  rl_ParsePKCS8 :: "string \<Rightarrow> PrivateKey option"
  rl_ParsePKIX :: "string \<Rightarrow> PublicKey option"
  rl_MarshalPKCS8 :: "string \<Rightarrow> error + string"
  rl_MarshalPKIX :: "string \<Rightarrow> error + string"
  rl_GenerateKey :: "string \<Rightarrow> string \<times> string"
  rl_ed25519_Sign :: "string \<Rightarrow> string \<Rightarrow> string"
  rl_ed25519_Verify :: "string \<Rightarrow> string \<Rightarrow> string \<Rightarrow> bool"

definition SchemaVersion :: int where "SchemaVersion = 2"
definition maxArtifactSize :: int where "maxArtifactSize = 268435456"

section \<open>Names\<close>

definition versionPattern :: "string \<Rightarrow> bool" where
  "versionPattern version \<longleftrightarrow> FindStringSubmatch version \<noteq> None"

text \<open>A group of alternatives, of which none is a prefix of another.\<close>

fun one_of :: "string list \<Rightarrow> string \<Rightarrow> (string \<times> string) option" where
  "one_of [] s = None"
| "one_of (p # ps) s = (if prefix p s then Some (p, drop (length p) s) else one_of ps s)"

definition artifactComponents :: "string list" where
  "artifactComponents = [''agent'', ''control'', ''gateway'', ''installer'']"

definition artifactArchs :: "string list" where
  "artifactArchs = [''amd64'', ''arm64'']"

definition artifactPattern :: "string \<Rightarrow> (string \<times> string \<times> string) option" where
  "artifactPattern name =
     do {
       s1 \<leftarrow> CutPrefix name ''mysafe-'';
       (component, s2) \<leftarrow> one_of artifactComponents s1;
       s3 \<leftarrow> CutPrefix s2 ''-linux-'';
       (arch, ext) \<leftarrow> one_of artifactArchs s3;
       if ext = [] \<or> ext = ''.deb'' then Some (component, arch, ext) else None
     }"

text \<open>The format and the mode that the third group of the pattern determines.\<close>

definition release_format :: "string \<Rightarrow> string \<times> nat" where
  "release_format ext = (if ext = ''.deb'' then (''deb'', 420) else (''binary'', 493))"

section \<open>The manifest\<close>

definition check_artifact :: "Artifact \<Rightarrow> string list \<Rightarrow> error option" where
  "check_artifact artifact seen =
     (case artifactPattern (ar_Name artifact) of
        None \<Rightarrow> Some (''unsafe or unsupported artifact name '' @ Quote (ar_Name artifact))
      | Some (component, arch, ext) \<Rightarrow>
          if BasePath (ar_Name artifact) \<noteq> ar_Name artifact
          then Some (''unsafe or unsupported artifact name '' @ Quote (ar_Name artifact))
          else if ar_Name artifact \<in> set seen then Some (''duplicate artifact '' @ Quote (ar_Name artifact))
          else if ar_Component artifact \<noteq> component \<or> ar_OS artifact \<noteq> ''linux'' \<or> ar_Arch artifact \<noteq> arch
                  \<or> ar_Format artifact \<noteq> fst (release_format ext)
          then Some (''artifact identity does not match filename '' @ Quote (ar_Name artifact))
          else if ar_Size artifact \<le> 0 \<or> maxArtifactSize < ar_Size artifact
          then Some (''artifact '' @ Quote (ar_Name artifact) @ '' has invalid size'')
          else if ar_Mode artifact \<noteq> snd (release_format ext)
          then Some (''artifact '' @ Quote (ar_Name artifact) @ '' has an invalid release mode'')
          else if \<not> lower_sha256 (ar_SHA256 artifact)
          then Some (''artifact '' @ Quote (ar_Name artifact) @ '' has invalid SHA-256'')
          else None)"

fun check_artifacts :: "Artifact list \<Rightarrow> string list \<Rightarrow> error option" where
  "check_artifacts [] seen = None"
| "check_artifacts (artifact # artifacts) seen =
     (case check_artifact artifact seen of
        Some e \<Rightarrow> Some e
      | None \<Rightarrow> check_artifacts artifacts (ar_Name artifact # seen))"

definition Validate :: "Manifest \<Rightarrow> error option" where
  "Validate manifest =
     (if mf_SchemaVersion manifest \<noteq> SchemaVersion
      then Some (''unsupported manifest schema version '' @ FormatInt (mf_SchemaVersion manifest))
      else if \<not> versionPattern (mf_Version manifest) then Some ''manifest version is not valid SemVer''
      else if mf_CreatedAt manifest = zero_time then Some ''manifest created_at is required''
      else if mf_Artifacts manifest = [] \<or> 32 < length (mf_Artifacts manifest)
      then Some ''manifest must contain between 1 and 32 artifacts''
      else check_artifacts (mf_Artifacts manifest) [])"

definition Encode :: "rb_lib \<Rightarrow> Manifest \<Rightarrow> error + string" where
  "Encode lib manifest =
     (case Validate manifest of
        Some e \<Rightarrow> Inl e
      | None \<Rightarrow>
          (case rl_marshal lib manifest of
             Inl e \<Rightarrow> Inl (''encode release manifest: '' @ e)
           | Inr encoded \<Rightarrow> Inr (encoded @ [byte 10])))"

definition Decode :: "rb_lib \<Rightarrow> string \<Rightarrow> error + Manifest" where
  "Decode lib encoded =
     (case rl_decode lib encoded of
        Inl e \<Rightarrow> Inl (''decode release manifest: '' @ e)
      | Inr (manifest, after) \<Rightarrow>
          if \<not> list_all json_blank after then Inl ''release manifest contains trailing JSON''
          else case Validate manifest of Some e \<Rightarrow> Inl e | None \<Rightarrow> Inr manifest)"

definition SelectFormat :: "Manifest \<Rightarrow> string \<Rightarrow> string \<Rightarrow> string \<Rightarrow> string \<Rightarrow> error + Artifact" where
  "SelectFormat manifest component operatingSystem architecture format =
     (case List.find (\<lambda>a. ar_Component a = component \<and> ar_OS a = operatingSystem \<and> ar_Arch a = architecture
                        \<and> ar_Format a = format) (mf_Artifacts manifest) of
        Some artifact \<Rightarrow> Inr artifact
      | None \<Rightarrow> Inl (''release '' @ mf_Version manifest @ '' has no '' @ format @ '' '' @ component
                     @ '' artifact for '' @ operatingSystem @ ''/'' @ architecture))"

definition Select :: "Manifest \<Rightarrow> string \<Rightarrow> string \<Rightarrow> string \<Rightarrow> error + Artifact" where
  "Select manifest component operatingSystem architecture =
     SelectFormat manifest component operatingSystem architecture ''binary''"

section \<open>The files\<close>

text \<open>\<open>os.Open\<close> fails where \<open>Stat\<close> does; the copy reads at most one byte more than the limit.\<close>

definition rb_hashFile :: "rb_lib \<Rightarrow> string \<Rightarrow> (error, string \<times> int) io" where
  "rb_hashFile lib path =
     io_then (os_label (''open artifact '' @ Quote (BasePath path) @ '': '') (Stat path))
       (io_bind (os_label (''hash artifact '' @ Quote (BasePath path) @ '': '') (ReadFile path)) (\<lambda>content.
         if maxArtifactSize < int (length content)
         then io_fail (''artifact '' @ Quote (BasePath path) @ '' exceeds 256 MiB'')
         else io_return (EncodeToString (rl_sha256 lib content), int (length content))))"

definition verifyArtifact :: "rb_lib \<Rightarrow> string \<Rightarrow> Artifact \<Rightarrow> (error, unit) io" where
  "verifyArtifact lib directory artifact =
     (let path = JoinPath [directory, ar_Name artifact]
      in io_bind (os_label (''stat artifact '' @ Quote (ar_Name artifact) @ '': '') (Lstat path)) (\<lambda>info.
           if \<not> is_regular info then io_fail (''artifact '' @ Quote (ar_Name artifact) @ '' is not a regular file'')
           else io_bind (rb_hashFile lib path) (\<lambda>(digest, sz).
             if sz \<noteq> ar_Size artifact then io_fail (''artifact '' @ Quote (ar_Name artifact) @ '' size mismatch'')
             else if digest \<noteq> ar_SHA256 artifact then io_fail (''artifact '' @ Quote (ar_Name artifact) @ '' SHA-256 mismatch'')
             else io_return ())))"

fun verify_each :: "rb_lib \<Rightarrow> string \<Rightarrow> Artifact list \<Rightarrow> (error, unit) io" where
  "verify_each lib directory [] = io_return ()"
| "verify_each lib directory (artifact # artifacts) =
     io_then (verifyArtifact lib directory artifact) (verify_each lib directory artifacts)"

text \<open>\<open>os.ReadDir\<close> sorts the entries by name.\<close>

definition VerifyArtifacts :: "rb_lib \<Rightarrow> string \<Rightarrow> Manifest \<Rightarrow> (error, unit) io" where
  "VerifyArtifacts lib directory manifest =
     (case Validate manifest of
        Some e \<Rightarrow> io_fail e
      | None \<Rightarrow>
          io_then (verify_each lib directory (mf_Artifacts manifest))
            (io_bind (os_label ''read release directory: '' (ReadDir directory)) (\<lambda>entries.
              let listed = map ar_Name (mf_Artifacts manifest)
              in case List.find (\<lambda>(name, _). HasPrefix name ''mysafe-'' \<and> artifactPattern name \<noteq> None
                                   \<and> name \<notin> set listed) (sort_key fst entries) of
                   Some (name, _) \<Rightarrow> io_fail (''unlisted My Safe artifact '' @ Quote name)
                 | None \<Rightarrow> io_return ())))"

fun select_each :: "rb_lib \<Rightarrow> string \<Rightarrow> Manifest \<Rightarrow> string \<Rightarrow> string \<Rightarrow> string list \<Rightarrow> string list \<Rightarrow> (error, unit) io" where
  "select_each lib directory manifest os arch seen [] = io_return ()"
| "select_each lib directory manifest os arch seen (component # components) =
     (if component \<in> set seen then select_each lib directory manifest os arch seen components
      else case Select manifest component os arch of
             Inl e \<Rightarrow> io_fail e
           | Inr artifact \<Rightarrow>
               io_then (verifyArtifact lib directory artifact)
                 (select_each lib directory manifest os arch (component # seen) components))"

definition VerifySelection ::
  "rb_lib \<Rightarrow> string \<Rightarrow> Manifest \<Rightarrow> string \<Rightarrow> string \<Rightarrow> string list \<Rightarrow> (error, unit) io" where
  "VerifySelection lib directory manifest operatingSystem architecture components =
     (case Validate manifest of
        Some e \<Rightarrow> io_fail e
      | None \<Rightarrow>
          if components = [] then io_fail ''at least one release component must be selected''
          else select_each lib directory manifest operatingSystem architecture [] components)"

section \<open>Building a manifest\<close>

fun build_artifacts :: "rb_lib \<Rightarrow> string \<Rightarrow> (string \<times> node) list \<Rightarrow> (error, Artifact list) io" where
  "build_artifacts lib directory [] = io_return []"
| "build_artifacts lib directory ((name, item) # entries) =
     (case artifactPattern name of
        None \<Rightarrow> build_artifacts lib directory entries
      | Some (component, arch, ext) \<Rightarrow>
          if \<not> is_regular item then io_fail (''artifact '' @ Quote name @ '' must be a regular file, not a link'')
          else io_bind (rb_hashFile lib (JoinPath [directory, name])) (\<lambda>(digest, sz).
            io_bind (build_artifacts lib directory entries) (\<lambda>artifacts.
              io_return (\<lparr>ar_Name = name, ar_Component = component, ar_OS = ''linux'', ar_Arch = arch,
                          ar_SHA256 = digest, ar_Size = sz, ar_Mode = snd (release_format ext),
                          ar_Format = fst (release_format ext)\<rparr> # artifacts))))"

definition Build :: "rb_lib \<Rightarrow> string \<Rightarrow> string \<Rightarrow> time \<Rightarrow> (error, Manifest) io" where
  "Build lib directory version createdAt =
     (if \<not> versionPattern version then io_fail ''version must be SemVer, for example v0.1.0''
      else io_bind (os_label ''read release directory: '' (ReadDir directory)) (\<lambda>entries.
        io_bind (build_artifacts lib directory (sort_key fst entries)) (\<lambda>artifacts.
          let manifest = \<lparr>mf_SchemaVersion = SchemaVersion, mf_Version = version,
                          mf_CreatedAt = createdAt div second * second,
                          mf_Artifacts = sort_key ar_Name artifacts\<rparr>
          in case Validate manifest of Some e \<Rightarrow> io_fail e | None \<Rightarrow> io_return manifest)))"

section \<open>Base64\<close>

text \<open>\<open>base64.StdEncoding\<close>: the decoder drops line breaks, wants groups of four, and takes padding only in the last.\<close>

definition std_alphabet :: string where
  "std_alphabet = ''ABCDEFGHIJKLMNOPQRSTUVWXYZabcdefghijklmnopqrstuvwxyz0123456789+/''"

definition std_char :: "nat \<Rightarrow> char" where
  "std_char i = std_alphabet ! (i mod 64)"

fun StdEncode :: "string \<Rightarrow> string" where
  "StdEncode (a # b # c # s) =
     (let n = (of_char a * 256 + of_char b) * 256 + of_char c :: nat
      in std_char (n div 262144) # std_char (n div 4096) # std_char (n div 64) # std_char n # StdEncode s)"
| "StdEncode [a, b] =
     (let n = (of_char a * 256 + of_char b) * 256 :: nat
      in [std_char (n div 262144), std_char (n div 4096), std_char (n div 64), CHR ''=''])"
| "StdEncode [a] =
     (let n = of_char a * 65536 :: nat in [std_char (n div 262144), std_char (n div 4096), CHR ''='', CHR ''=''])"
| "StdEncode [] = []"

definition std_value :: "char \<Rightarrow> nat option" where
  "std_value c = map_of (zip std_alphabet [0..<64]) c"

fun decode_groups :: "string \<Rightarrow> string option" where
  "decode_groups [] = Some []"
| "decode_groups (a # b # c # d # s) =
     do {
       x \<leftarrow> std_value a;
       y \<leftarrow> std_value b;
       if c = CHR ''='' \<and> d = CHR ''='' then (if s = [] then Some [byte ((x * 64 + y) div 16)] else None)
       else do {
         z \<leftarrow> std_value c;
         if d = CHR ''='' then
           (if s = [] then Some [byte ((x * 64 + y) div 16), byte (((x * 64 + y) * 64 + z) div 4)] else None)
         else do {
           u \<leftarrow> std_value d;
           let n = ((x * 64 + y) * 64 + z) * 64 + u;
           rest \<leftarrow> decode_groups s;
           Some (byte (n div 65536) # byte (n div 256) # byte n # rest)
         }
       }
     }"
| "decode_groups _ = None"

definition StdDecode :: "string \<Rightarrow> string option" where
  "StdDecode s = decode_groups (filter (\<lambda>c. c \<noteq> byte 10 \<and> c \<noteq> byte 13) s)"

section \<open>Keys and signatures\<close>

definition SignatureSize :: nat where "SignatureSize = 64"

definition rb_Sign :: "rb_lib \<Rightarrow> string \<Rightarrow> string \<Rightarrow> string" where
  "rb_Sign lib encodedManifest privateKey = StdEncode (rl_ed25519_Sign lib privateKey encodedManifest) @ [byte 10]"

definition VerifySignature :: "rb_lib \<Rightarrow> string \<Rightarrow> string \<Rightarrow> string \<Rightarrow> error option" where
  "VerifySignature lib encodedManifest encodedSignature publicKey =
     (case StdDecode (TrimSpace encodedSignature) of
        None \<Rightarrow> Some ''decode manifest signature''
      | Some signature \<Rightarrow>
          if length signature \<noteq> SignatureSize \<or> \<not> rl_ed25519_Verify lib publicKey encodedManifest signature
          then Some ''release manifest signature is invalid'' else None)"

definition PublicKeyFingerprint :: "rb_lib \<Rightarrow> string \<Rightarrow> string" where
  "PublicKeyFingerprint lib publicKey = ''SHA256:'' @ EncodeToString (rl_sha256 lib publicKey)"

definition ParsePublicKey :: "rb_lib \<Rightarrow> string \<Rightarrow> error + string" where
  "ParsePublicKey lib encoded =
     (case rl_pem_Decode lib encoded of
        None \<Rightarrow> Inl ''public key must contain one PKIX PEM block''
      | Some (type, bytes, rest) \<Rightarrow>
          if type \<noteq> ''PUBLIC KEY'' \<or> TrimSpace rest \<noteq> [] then Inl ''public key must contain one PKIX PEM block''
          else case rl_ParsePKIX lib bytes of
                 None \<Rightarrow> Inl ''parse public key''
               | Some (OtherPublicKey _) \<Rightarrow> Inl ''public key is not Ed25519''
               | Some (Ed25519PublicKey key) \<Rightarrow> Inr key)"

definition LoadPublicKey :: "rb_lib \<Rightarrow> string \<Rightarrow> (error, string) io" where
  "LoadPublicKey lib path =
     io_bind (os_label ''read public key: '' (ReadFile path)) (\<lambda>encoded.
       case ParsePublicKey lib encoded of Inl e \<Rightarrow> io_fail e | Inr key \<Rightarrow> io_return key)"

definition LoadPrivateKey :: "rb_lib \<Rightarrow> string \<Rightarrow> (error, string) io" where
  "LoadPrivateKey lib path =
     io_bind (os_label ''read private key: '' (ReadFile path)) (\<lambda>encoded.
       case rl_pem_Decode lib encoded of
         None \<Rightarrow> io_fail ''private key must contain one PKCS#8 PEM block''
       | Some (type, bytes, rest) \<Rightarrow>
           if type \<noteq> ''PRIVATE KEY'' \<or> TrimSpace rest \<noteq> []
           then io_fail ''private key must contain one PKCS#8 PEM block''
           else case rl_ParsePKCS8 lib bytes of
                  None \<Rightarrow> io_fail ''parse private key''
                | Some (OtherPrivateKey _) \<Rightarrow> io_fail ''private key is not Ed25519''
                | Some (Ed25519PrivateKey key) \<Rightarrow> io_return key)"

definition writeExclusive :: "string \<Rightarrow> string \<Rightarrow> nat \<Rightarrow> (error, unit) io" where
  "writeExclusive path content mode =
     io_then (os_label (''create '' @ Quote path @ '': '') (OpenExcl path mode))
       (io_cleanup
         (io_then (os_label (''write '' @ Quote path @ '': '') (WriteTo path content))
         (io_then (os_label (''sync '' @ Quote path @ '': '') SyncClose)
           (os_label (''close '' @ Quote path @ '': '') SyncClose)))
         (io_try SyncClose (\<lambda>_. Remove path)))"

definition GenerateKeyFiles :: "rb_lib \<Rightarrow> string \<Rightarrow> string \<Rightarrow> (error, string) io" where
  "GenerateKeyFiles lib privatePath publicPath =
     io_bind (os_label ''generate Ed25519 key: '' (rand_Read 32)) (\<lambda>seed.
       let (publicKey, privateKey) = rl_GenerateKey lib seed
       in case rl_MarshalPKCS8 lib privateKey of
            Inl e \<Rightarrow> io_fail (''encode private key: '' @ e)
          | Inr privateDER \<Rightarrow>
              (case rl_MarshalPKIX lib publicKey of
                 Inl e \<Rightarrow> io_fail (''encode public key: '' @ e)
               | Inr publicDER \<Rightarrow>
                   io_then (writeExclusive privatePath (rl_pem_Encode lib ''PRIVATE KEY'' privateDER) 384)
                   (io_then
                     (io_cleanup (writeExclusive publicPath (rl_pem_Encode lib ''PUBLIC KEY'' publicDER) 420)
                       (Remove privatePath))
                     (io_return (PublicKeyFingerprint lib publicKey)))))"

end
