(* ===== verification/Apply.thy ===== *)
theory Apply
  imports Plan Release_Bundle Transaction
begin

text \<open>
  internal/installer/apply.go and nginx.go: installing a release. \<open>Apply\<close> verifies the signed release, inspects the host,
  and then runs the steps of the installation inside a journalled transaction; the first step that fails makes it
  roll back. internal/installassets hands out the embedded files.

  The libraries of the components are the fields of \<open>apply_lib\<close>, with the embedded files, the clock (one reading per call
  of \<open>Now\<close>), the architecture and the user of the process. A \<open>Runner\<close> gives the outcome of each command. The answers of
  the gateway's health endpoint until the deadline are an argument.
\<close>

section \<open>Data\<close>

record ApplyOptions =
  ao_Root :: string
  ao_BundleDirectory :: string
  ao_ManifestPath :: string
  ao_SignaturePath :: string
  ao_ExpectedVersion :: string
  ao_ControlURL :: string
  ao_BootstrapTokenFile :: string
  ao_Gateway :: GatewaySelection
  ao_Upstream :: string
  ao_GatewayPort :: int
  ao_Architecture :: string
  ao_AllowExperimental :: bool
  ao_AllowDowngrade :: bool
  ao_DryRun :: bool
  ao_SkipRegistration :: bool
  ao_SkipHealthCheck :: bool
  ao_PublicKey :: string

record ApplyResult =
  rs_Inspection :: "Inspection option"
  rs_Version :: string
  rs_TransactionID :: string
  rs_Status :: string

datatype apply_outcome = ApplyOK | ApplyErrors "error list" | ApplyPanic

record apply_lib =
  al_tx :: tx_lib
  al_rb :: rb_lib
  al_net :: client_lib
  al_assets :: "string \<Rightarrow> error + string"
  al_marshal :: "installedRelease \<Rightarrow> error + string"
  al_decode :: "string \<Rightarrow> error + installedRelease \<times> string"
  al_Now :: "nat \<Rightarrow> time"
  al_GOARCH :: string
  al_euid :: int

definition AgentUnit :: "apply_lib \<Rightarrow> error + string" where
  "AgentUnit lib = al_assets lib ''systemd/my-safe-agent.service''"

definition GatewayUnit :: "apply_lib \<Rightarrow> error + string" where
  "GatewayUnit lib = al_assets lib ''systemd/my-safe-gateway.service''"

definition ReleasePublicKey :: "apply_lib \<Rightarrow> error + string" where
  "ReleasePublicKey lib = al_assets lib ''release-public-key.pem''"

definition hasRootPrivileges :: "apply_lib \<Rightarrow> bool" where
  "hasRootPrivileges lib \<longleftrightarrow> al_euid lib = 0"

section \<open>Before the transaction\<close>

text \<open>\<open>filepath.Abs\<close> in a working directory.\<close>

definition abs_in :: "string \<Rightarrow> string \<Rightarrow> string" where
  "abs_in cwd p = (if IsAbs p then Clean p else JoinPath [cwd, p])"

definition samePath :: "string \<Rightarrow> string \<Rightarrow> string \<Rightarrow> bool" where
  "samePath cwd left right \<longleftrightarrow> abs_in cwd left = abs_in cwd right"

definition normalizeApplyOptions :: "apply_lib \<Rightarrow> string \<Rightarrow> ApplyOptions \<Rightarrow> ApplyOptions" where
  "normalizeApplyOptions lib cwd options =
     (let bundle = abs_in cwd (if ao_BundleDirectory options = [] then ''.'' else ao_BundleDirectory options)
      in options\<lparr>
           ao_Root := abs_in cwd (if ao_Root options = [] then ''/'' else ao_Root options),
           ao_BundleDirectory := bundle,
           ao_ManifestPath := (if ao_ManifestPath options = [] then JoinPath [bundle, ''release-manifest.json'']
                               else ao_ManifestPath options),
           ao_SignaturePath := (if ao_SignaturePath options = [] then JoinPath [bundle, ''release-manifest.sig'']
                                else ao_SignaturePath options),
           ao_Architecture := (if ao_Architecture options = [] then al_GOARCH lib else ao_Architecture options),
           ao_Gateway := (if ao_Gateway options = [] then GatewayAuto else ao_Gateway options)\<rparr>)"

definition release_key :: "apply_lib \<Rightarrow> ApplyOptions \<Rightarrow> error + string" where
  "release_key lib options =
     (if ao_PublicKey options \<noteq> [] then Inr (ao_PublicKey options)
      else case ReleasePublicKey lib of Inl e \<Rightarrow> Inl e | Inr encoded \<Rightarrow> ParsePublicKey (al_rb lib) encoded)"

definition verifyRelease :: "apply_lib \<Rightarrow> ApplyOptions \<Rightarrow> (error, string \<times> string \<times> string \<times> Manifest) io" where
  "verifyRelease lib options =
     io_bind (os_label ''read release manifest: '' (ReadFile (ao_ManifestPath options))) (\<lambda>manifestBytes.
       io_bind (os_label ''read release signature: '' (ReadFile (ao_SignaturePath options))) (\<lambda>signature.
         case release_key lib options of
           Inl e \<Rightarrow> io_fail e
         | Inr publicKey \<Rightarrow>
             (case VerifySignature (al_rb lib) manifestBytes signature publicKey of
                Some e \<Rightarrow> io_fail e
              | None \<Rightarrow>
                  (case Decode (al_rb lib) manifestBytes of
                     Inl e \<Rightarrow> io_fail e
                   | Inr manifest \<Rightarrow> io_return (manifestBytes, signature, publicKey, manifest)))))"

definition loopbackHost :: "client_lib \<Rightarrow> string \<Rightarrow> bool" where
  "loopbackHost lib host = (if EqualFold (fold_long_s host) ''localhost'' then True else nl_IsLoopback lib host)"

definition validateControlURL :: "client_lib \<Rightarrow> string \<Rightarrow> error option" where
  "validateControlURL lib raw =
     (case nl_url_Parse lib (TrimSpace raw) of
        None \<Rightarrow> Some ''control URL must be an absolute HTTP(S) URL''
      | Some parsed \<Rightarrow>
          if url_Scheme parsed = [] \<or> url_Host parsed = [] then Some ''control URL must be an absolute HTTP(S) URL''
          else if url_Scheme parsed \<noteq> ''https'' \<and> url_Scheme parsed \<noteq> ''http''
          then Some ''control URL scheme must be http or https''
          else if url_User parsed \<or> url_RawQuery parsed \<noteq> [] \<or> url_Fragment parsed \<noteq> []
                  \<or> ContainsAny raw [byte 13, byte 10, byte 0]
          then Some ''control URL must not contain credentials, query, fragment, or control characters''
          else if url_Scheme parsed = ''http'' \<and> \<not> loopbackHost lib (url_Hostname parsed)
          then Some ''plain HTTP control URL is only allowed on loopback''
          else None)"

definition readBootstrapToken :: "string \<Rightarrow> (error, string) io" where
  "readBootstrapToken path =
     (if path = [] then io_fail ''bootstrap token file is required''
      else io_bind (os_label ''stat bootstrap token file: '' (Stat path)) (\<lambda>info.
        if \<not> is_regular info \<or> 4096 < node_size info
        then io_fail ''bootstrap token file must be a regular file no larger than 4 KiB''
        else io_bind (os_label ''read bootstrap token file: '' (ReadFile path)) (\<lambda>encoded.
          let token = TrimSpace encoded
          in if length token < 16 \<or> ContainsAny token [byte 13, byte 10, byte 0]
             then io_fail ''bootstrap token must be one line containing at least 16 bytes''
             else io_return token)))"

text \<open>The first part of \<open>Apply\<close>: the release, the installed version, and the inspection.\<close>

definition apply_verify :: "apply_lib \<Rightarrow> Runner \<Rightarrow> ApplyOptions \<Rightarrow> (error, string \<times> Manifest \<times> Inspection) io" where
  "apply_verify lib runner options =
     io_bind (verifyRelease lib options) (\<lambda>(_, _, publicKey, manifest).
       if ao_ExpectedVersion options \<noteq> [] \<and> mf_Version manifest \<noteq> ao_ExpectedVersion options
       then io_fail (''signed release version '' @ Quote (mf_Version manifest) @ '' does not match requested version ''
                       @ Quote (ao_ExpectedVersion options))
       else io_bind (loadInstalledRelease (al_decode lib) (ao_Root options)) (\<lambda>installed.
         if (case installed of
               Some state \<Rightarrow> compareReleaseVersions (mf_Version manifest) (ir_Version state) < 0
             | None \<Rightarrow> False) \<and> \<not> ao_AllowDowngrade options
         then io_fail (''refusing downgrade from '' @ ir_Version (the installed) @ '' to '' @ mf_Version manifest
                         @ '' without -allow-downgrade'')
         else io_bind (Inspect (nl_url_Parse (al_net lib)) (al_GOARCH lib) (ao_Root options) (ao_Architecture options) runner
                  \<lparr>po_Gateway = ao_Gateway options, po_Upstream = ao_Upstream options,
                   po_GatewayPort = ao_GatewayPort options\<rparr>) (\<lambda>inspection.
           io_return (publicKey, manifest, inspection))))"

text \<open>The checks that follow with the plan at hand: the bootstrap token for the installation, or \<^const>\<open>None\<close> for a dry run.\<close>

definition apply_checks :: "apply_lib \<Rightarrow> ApplyOptions \<Rightarrow> Manifest \<Rightarrow> Inspection \<Rightarrow> (error, string option) io" where
  "apply_checks lib options manifest inspection =
     (if \<not> pl_Installable (insp_Plan inspection) then io_fail ''installation plan is blocked''
      else if env_Support (insp_Environment inspection) = SupportExperimental \<and> \<not> ao_AllowExperimental options
      then io_fail ''experimental platform requires -allow-experimental''
      else io_then
        (VerifySelection (al_rb lib) (ao_BundleDirectory options) manifest ''linux''
           (env_Architecture (insp_Environment inspection))
           (''agent'' # (if pl_GatewayEnabled (insp_Plan inspection) then [''gateway''] else [])))
        (case validateControlURL (al_net lib) (ao_ControlURL options) of
           Some e \<Rightarrow> io_fail e
         | None \<Rightarrow>
             if ao_DryRun options then io_return None
             else (\<lambda>w. if samePath (w_cwd w) (ao_Root options) ''/'' \<and> \<not> hasRootPrivileges lib
                       then io_fail ''installation into / requires root privileges'' w
                       else if ao_SkipRegistration options then io_return (Some []) w
                       else io_bind (readBootstrapToken (ao_BootstrapTokenFile options)) (\<lambda>token. io_return (Some token)) w)))"

section \<open>Steps of the installation\<close>

datatype tx_stop = Failed error | Panicked

type_synonym 'a tx = "fileTransaction \<Rightarrow> world \<Rightarrow> (tx_stop + 'a) \<times> fileTransaction \<times> world"

definition tx_return :: "'a \<Rightarrow> 'a tx" where
  "tx_return x ft w = (Inr x, ft, w)"

definition tx_bind :: "'a tx \<Rightarrow> ('a \<Rightarrow> 'b tx) \<Rightarrow> 'b tx" where
  "tx_bind m k ft w = (case m ft w of (Inl e, ft, w) \<Rightarrow> (Inl e, ft, w) | (Inr x, ft, w) \<Rightarrow> k x ft w)"

abbreviation tx_then :: "'a tx \<Rightarrow> 'b tx \<Rightarrow> 'b tx" where
  "tx_then m k \<equiv> tx_bind m (\<lambda>_. k)"

definition tx_io :: "(error, 'a) io \<Rightarrow> 'a tx" where
  "tx_io m ft w = (case m w of (Inl e, w) \<Rightarrow> (Inl (Failed e), ft, w) | (Inr x, w) \<Rightarrow> (Inr x, ft, w))"

definition tx_of :: "error + 'a \<Rightarrow> 'a tx" where
  "tx_of r = tx_io (\<lambda>w. (r, w))"

definition tx_run_step :: "(fileTransaction \<Rightarrow> tx_step) \<Rightarrow> unit tx" where
  "tx_run_step step ft w = (case step ft w of (Inl e, ft, w) \<Rightarrow> (Inl (Failed e), ft, w) | (Inr u, ft, w) \<Rightarrow> (Inr u, ft, w))"

definition tx_command :: "ApplyRunner \<Rightarrow> string list \<Rightarrow> unit tx" where
  "tx_command runner command =
     tx_of (case runFixed runner command of [] \<Rightarrow> Inr () | e # _ \<Rightarrow> Inl e)"

definition tx_when :: "bool \<Rightarrow> unit tx \<Rightarrow> unit tx" where
  "tx_when b m = (if b then m else tx_return ())"

fun tx_each :: "unit tx list \<Rightarrow> unit tx" where
  "tx_each [] = tx_return ()"
| "tx_each (m # ms) = tx_then m (tx_each ms)"

definition apply_runner :: "Runner \<Rightarrow> ApplyRunner" where
  "apply_runner runner command = snd (rn_Run runner command)"

definition ensureDirectory :: "string \<Rightarrow> string \<Rightarrow> nat \<Rightarrow> (error, unit) io" where
  "ensureDirectory root unixPath mode =
     (let path = rootPath root unixPath
      in if \<not> withinRoot root path then io_fail (''directory escapes root: '' @ unixPath)
         else io_then (os_label (''create '' @ unixPath @ '': '') (MkdirAll path mode))
           (os_label (''chmod '' @ unixPath @ '': '') (ChmodFile path mode)))"

definition agentEnvironment :: "string \<Rightarrow> string" where
  "agentEnvironment controlURL =
     ''MYSAFE_CONTROL_URL='' @ Quote controlURL
     @ [byte 10] @ ''MYSAFE_STATE_DIR=/var/lib/my-safe''
     @ [byte 10] @ ''MYSAFE_GATEWAY_EVENT_SOCKET=/run/my-safe/gateway-events.sock'' @ [byte 10]"

definition gatewayEnvironment :: "Plan \<Rightarrow> string" where
  "gatewayEnvironment plan =
     ''MYSAFE_GATEWAY_ADDRESS='' @ Quote (pl_GatewayListen plan)
     @ [byte 10] @ ''MYSAFE_GATEWAY_UPSTREAM='' @ Quote (pl_Upstream plan)
     @ [byte 10] @ ''MYSAFE_GATEWAY_MODE=observe''
     @ [byte 10] @ ''MYSAFE_GATEWAY_FAILURE_POLICY=fail_open''
     @ [byte 10] @ ''MYSAFE_GATEWAY_EVENT_SOCKET=/run/my-safe/gateway-events.sock''
     @ [byte 10] @ ''MYSAFE_GATEWAY_STATE_DIR=/var/lib/my-safe-gateway'' @ [byte 10]"

text \<open>One poll per element: whether the endpoint answered 200. The deadline ends the list.\<close>

fun waitForGateway :: "bool list \<Rightarrow> error option" where
  "waitForGateway [] = Some ''Gateway health check timed out''"
| "waitForGateway (ok # polls) = (if ok then None else waitForGateway polls)"

section \<open>Nginx\<close>

fun valid_utf8 :: "string \<Rightarrow> bool" where
  "valid_utf8 [] = True"
| "valid_utf8 [a] = byte_in 0 127 a"
| "valid_utf8 [a, b] = (if byte_in 0 127 a then valid_utf8 [b] else rune2 a b)"
| "valid_utf8 [a, b, c] =
     (if byte_in 0 127 a then valid_utf8 [b, c] else if rune2 a b then valid_utf8 [c] else rune3 a b c)"
| "valid_utf8 (a # b # c # d # s) =
     (if byte_in 0 127 a then valid_utf8 (b # c # d # s) else if rune2 a b then valid_utf8 (c # d # s)
      else if rune3 a b c then valid_utf8 (d # s) else rune4 a b c d \<and> valid_utf8 s)"

text \<open>The pattern that \<open>applyNginxGateway\<close> compiles; \<open>MustCompile\<close> panics on a pattern that is not UTF-8.\<close>

definition proxy_pattern :: "string \<Rightarrow> string \<Rightarrow> (unit \<times> string) option" where
  "proxy_pattern upstream s =
     do { s1 \<leftarrow> directive_head s; s2 \<leftarrow> fold_literal upstream s1; s3 \<leftarrow> directive_end s2; Some ((), s3) }"

definition replace_directive :: "string \<Rightarrow> nat \<Rightarrow> nat \<Rightarrow> string \<Rightarrow> string" where
  "replace_directive content start len replacement =
     take start content @ ''proxy_pass '' @ replacement @ '';'' @ drop (start + len) content"

definition nginx_read :: "string \<Rightarrow> Plan \<Rightarrow> (error, node \<times> string) io" where
  "nginx_read root plan =
     (let path = rootPath root (pl_NginxConfig plan)
      in if \<not> withinRoot root path then io_fail ''Nginx configuration escapes installation root''
         else io_bind (os_label ''stat Nginx configuration: '' (Lstat path)) (\<lambda>info.
           if \<not> is_regular info then io_fail ''selected Nginx configuration is not a regular file''
           else io_bind (os_label ''read Nginx configuration: '' (ReadFile path)) (\<lambda>content. io_return (info, content))))"

definition labelled_command :: "string \<Rightarrow> ApplyRunner \<Rightarrow> string list \<Rightarrow> unit tx" where
  "labelled_command label runner command =
     tx_of (case runFixed runner command of [] \<Rightarrow> Inr () | e # _ \<Rightarrow> Inl (label @ e))"

text \<open>The configuration is rewritten if the directive occurs exactly once.\<close>

definition nginx_rewrite :: "tx_lib \<Rightarrow> ApplyRunner \<Rightarrow> Plan \<Rightarrow> node \<Rightarrow> string \<Rightarrow> unit tx" where
  "nginx_rewrite lib runner plan info content =
     (if \<not> valid_utf8 (pl_Upstream plan) then (\<lambda>ft w. (Inl Panicked, ft, w))
      else case find_all (proxy_pattern (pl_Upstream plan)) 0 False content of
        [(start, len, _)] \<Rightarrow>
          tx_each [
            tx_run_step (RecordNginxChange lib),
            tx_run_step (InstallBytes lib (pl_NginxConfig plan)
              (replace_directive content start len (pl_NginxReplacement plan)) (node_perm info)),
            labelled_command ''validate Nginx Gateway integration: '' runner [''nginx'', ''-t''],
            labelled_command ''reload Nginx Gateway integration: '' runner [''systemctl'', ''reload'', ''nginx.service'']]
      | matches \<Rightarrow>
          tx_of (Inl (''Nginx source changed since inspection: expected one proxy_pass, found ''
                        @ FormatNat (length matches))))"

definition applyNginxGateway :: "tx_lib \<Rightarrow> string \<Rightarrow> ApplyRunner \<Rightarrow> Plan \<Rightarrow> unit tx" where
  "applyNginxGateway lib root runner plan =
     (if pl_NginxConfig plan = [] \<or> pl_Upstream plan = [] \<or> pl_NginxReplacement plan = [] then tx_return ()
      else tx_bind (tx_io (nginx_read root plan)) (\<lambda>(info, content). nginx_rewrite lib runner plan info content))"

section \<open>The installation\<close>

definition read_artifact :: "apply_lib \<Rightarrow> ApplyOptions \<Rightarrow> Manifest \<Rightarrow> string \<Rightarrow> string \<Rightarrow> (error, string) io" where
  "read_artifact lib options manifest component arch =
     (case Select manifest component ''linux'' arch of
        Inl e \<Rightarrow> io_fail e
      | Inr artifact \<Rightarrow> os_label [] (ReadFile (JoinPath [ao_BundleDirectory options, ar_Name artifact])))"

type_synonym install_file = "string \<times> string \<times> nat"

text \<open>The public key is installed unless the caller gave another key than the embedded one.\<close>

definition pinned_key :: "apply_lib \<Rightarrow> string \<Rightarrow> error + install_file list" where
  "pinned_key lib publicKey =
     (case ReleasePublicKey lib of
        Inl e \<Rightarrow> Inl e
      | Inr publicKeyPEM \<Rightarrow>
          (case ParsePublicKey (al_rb lib) publicKeyPEM of
             Inl e \<Rightarrow> Inl e
           | Inr embeddedKey \<Rightarrow>
               Inr (if publicKey \<noteq> embeddedKey then []
                    else [(''/etc/my-safe/release-public-key.pem'', publicKeyPEM, 420)])))"

definition installed_state :: "apply_lib \<Rightarrow> Manifest \<Rightarrow> string \<Rightarrow> error + string" where
  "installed_state lib manifest txID =
     (case al_marshal lib \<lparr>ir_Version = mf_Version manifest, ir_InstalledAt = al_Now lib 1, ir_TransactionID = txID\<rparr> of
        Inl e \<Rightarrow> Inl e
      | Inr encoded \<Rightarrow> Inr (encoded @ [byte 10]))"

definition gateway_files :: "apply_lib \<Rightarrow> ApplyOptions \<Rightarrow> Manifest \<Rightarrow> Inspection \<Rightarrow> install_file list tx" where
  "gateway_files lib options manifest inspection =
     (if \<not> pl_GatewayEnabled (insp_Plan inspection) then tx_return []
      else tx_bind (tx_io (read_artifact lib options manifest ''gateway'' (env_Architecture (insp_Environment inspection)))) (\<lambda>gatewayBinary.
        tx_bind (tx_of (GatewayUnit lib)) (\<lambda>gatewayUnit.
          tx_return [(''/usr/local/bin/mysafe-gateway'', gatewayBinary, 493),
                     (''/etc/systemd/system/my-safe-gateway.service'', gatewayUnit, 420),
                     (''/etc/my-safe/gateway.env'', gatewayEnvironment (insp_Plan inspection), 416)])))"

definition collect_files :: "apply_lib \<Rightarrow> ApplyOptions \<Rightarrow> string \<Rightarrow> Manifest \<Rightarrow> Inspection \<Rightarrow> install_file list tx" where
  "collect_files lib options publicKey manifest inspection =
     tx_bind (tx_io (read_artifact lib options manifest ''agent'' (env_Architecture (insp_Environment inspection)))) (\<lambda>agentBinary.
     tx_bind (tx_of (AgentUnit lib)) (\<lambda>agentUnit.
     tx_bind (tx_of (pinned_key lib publicKey)) (\<lambda>keyFiles ft.
     tx_bind (tx_of (installed_state lib manifest (tr_ID (ft_record ft)))) (\<lambda>installedState.
     tx_bind (gateway_files lib options manifest inspection) (\<lambda>gatewayFiles.
       tx_return
         ([(''/usr/local/bin/mysafe-agent'', agentBinary, 493),
           (''/etc/systemd/system/my-safe-agent.service'', agentUnit, 420),
           (''/etc/my-safe/agent.env'', agentEnvironment (ao_ControlURL options), 416),
           (installedReleasePath, installedState, 384)]
          @ keyFiles @ gatewayFiles))) ft)))"

definition prepare_host :: "apply_lib \<Rightarrow> ApplyOptions \<Rightarrow> ApplyRunner \<Rightarrow> bool \<Rightarrow> unit tx" where
  "prepare_host lib options runner gateway =
     tx_each
       ([tx_run_step (RecordService (al_tx lib) (captureService runner ''my-safe-agent.service'')),
         tx_when gateway (tx_run_step (RecordService (al_tx lib) (captureService runner ''my-safe-gateway.service''))),
         tx_run_step (ensureAccount (al_tx lib) runner ''my-safe'' ''/var/lib/my-safe''),
         tx_when gateway (tx_run_step (ensureAccount (al_tx lib) runner ''my-safe-gateway'' ''/nonexistent'')),
         tx_io (ensureDirectory (ao_Root options) ''/etc/my-safe'' 488),
         tx_io (ensureDirectory (ao_Root options) ''/var/lib/my-safe'' 448)])"

definition register_with :: "Runner \<Rightarrow> ApplyOptions \<Rightarrow> string \<Rightarrow> unit tx" where
  "register_with runner options bootstrapToken =
     tx_of (case snd (rn_RunEnv runner
               [''MYSAFE_CONTROL_URL='' @ ao_ControlURL options,
                ''MYSAFE_STATE_DIR='' @ rootPath (ao_Root options) ''/var/lib/my-safe'',
                ''MYSAFE_BOOTSTRAP_TOKEN='' @ bootstrapToken]
               [''runuser'', ''-u'', ''my-safe'', ''--'', rootPath (ao_Root options) ''/usr/local/bin/mysafe-agent'', ''--once'']) of
              None \<Rightarrow> Inr ()
            | Some e \<Rightarrow> Inl (''register Agent: '' @ e))"

definition activate :: "apply_lib \<Rightarrow> Runner \<Rightarrow> ApplyOptions \<Rightarrow> bool list \<Rightarrow> string \<Rightarrow> Plan \<Rightarrow> unit tx" where
  "activate lib runner options polls bootstrapToken plan =
     (let run = apply_runner runner; root = ao_Root options; gateway = pl_GatewayEnabled plan
      in tx_each
           [tx_command run [''chown'', ''-R'', ''my-safe:my-safe'', rootPath root ''/var/lib/my-safe''],
            tx_command run [''chown'', ''root:my-safe'', rootPath root ''/etc/my-safe/agent.env''],
            tx_when gateway (tx_command run [''chown'', ''root:my-safe-gateway'', rootPath root ''/etc/my-safe/gateway.env'']),
            tx_command run [''systemctl'', ''daemon-reload''],
            tx_when (\<not> ao_SkipRegistration options) (register_with runner options bootstrapToken),
            tx_command run [''systemctl'', ''enable'', ''--now'', ''my-safe-agent.service''],
            tx_when gateway (tx_command run [''systemctl'', ''enable'', ''--now'', ''my-safe-gateway.service'']),
            tx_when (gateway \<and> \<not> ao_SkipHealthCheck options)
              (tx_of (case waitForGateway polls of None \<Rightarrow> Inr () | Some e \<Rightarrow> Inl e)),
            tx_when gateway (applyNginxGateway (al_tx lib) root run plan)])"

definition install_all :: "tx_lib \<Rightarrow> install_file list \<Rightarrow> unit tx" where
  "install_all lib files = tx_each (map (\<lambda>(path, content, mode). tx_run_step (InstallBytes lib path content mode)) files)"

definition installation ::
  "apply_lib \<Rightarrow> Runner \<Rightarrow> ApplyOptions \<Rightarrow> bool list \<Rightarrow> string \<Rightarrow> string \<Rightarrow> Manifest \<Rightarrow> Inspection \<Rightarrow> unit tx" where
  "installation lib runner options polls bootstrapToken publicKey manifest inspection =
     tx_then (prepare_host lib options (apply_runner runner) (pl_GatewayEnabled (insp_Plan inspection)))
     (tx_bind (collect_files lib options publicKey manifest inspection) (\<lambda>files.
      tx_then (install_all (al_tx lib) files)
     (tx_then (activate lib runner options polls bootstrapToken (insp_Plan inspection))
      (tx_run_step (tx_Commit (al_tx lib))))))"

definition empty_result :: ApplyResult where
  "empty_result = \<lparr>rs_Inspection = None, rs_Version = [], rs_TransactionID = [], rs_Status = []\<rparr>"

definition Apply :: "apply_lib \<Rightarrow> Runner \<Rightarrow> ApplyOptions \<Rightarrow> bool list \<Rightarrow> world \<Rightarrow> (ApplyResult \<times> apply_outcome) \<times> world" where
  "Apply lib runner opts polls w =
     (let options = normalizeApplyOptions lib (w_cwd w) opts
      in case apply_verify lib runner options w of
           (Inl e, w) \<Rightarrow> ((empty_result, ApplyErrors [e]), w)
         | (Inr (publicKey, manifest, inspection), w) \<Rightarrow>
             (let result = \<lparr>rs_Inspection = Some inspection, rs_Version = mf_Version manifest, rs_TransactionID = [],
                            rs_Status = ''planned''\<rparr>
              in case apply_checks lib options manifest inspection w of
                   (Inl e, w) \<Rightarrow> ((result, ApplyErrors [e]), w)
                 | (Inr None, w) \<Rightarrow> ((result, ApplyOK), w)
                 | (Inr (Some bootstrapToken), w) \<Rightarrow>
                     (case beginTransaction (al_tx lib) (ao_Root options) (mf_Version manifest) (al_Now lib 0) w of
                        (Inl e, w) \<Rightarrow> ((result, ApplyErrors [e]), w)
                      | (Inr transaction, w) \<Rightarrow>
                          (let result = result\<lparr>rs_TransactionID := tr_ID (ft_record transaction)\<rparr>
                           in case installation lib runner options polls bootstrapToken publicKey manifest inspection transaction w of
                                (Inr _, _, w) \<Rightarrow> ((result\<lparr>rs_Status := ''complete''\<rparr>, ApplyOK), w)
                              | (Inl Panicked, _, w) \<Rightarrow> ((result, ApplyPanic), w)
                              | (Inl (Failed cause), ft, w) \<Rightarrow>
                                  (case rollbackInstallation (al_tx lib) (ao_Root options) (apply_runner runner)
                                          (ft_record ft) (ft_journalPath ft) w of
                                     (es, w) \<Rightarrow> ((result\<lparr>rs_Status := ''rolled_back''\<rparr>, ApplyErrors (cause # es)), w))))))"

end
