(* ===== verification/Release_Bundle_Props.thy ===== *)
theory Release_Bundle_Props
  imports Release_Bundle
begin

text \<open>
  What a release manifest guarantees: base64 decodes what it encoded, a valid manifest determines its artifacts, a
  release that was built and signed verifies on the other side, and a selection that verifies is what was signed.
\<close>

section \<open>Base64\<close>

lemma length_std_alphabet: "length std_alphabet = 64"
  by (simp add: std_alphabet_def)

lemma distinct_std_alphabet: "distinct std_alphabet"
  by (simp add: std_alphabet_def)

lemma std_value_char [simp]: "std_value (std_char i) = Some (i mod 64)"
proof -
  have "map_of (zip std_alphabet [0..<64]) (std_alphabet ! (i mod 64)) = Some ([0..<64] ! (i mod 64))"
    by (rule map_of_zip_nth) (simp_all add: length_std_alphabet distinct_std_alphabet)
  then show ?thesis by (simp add: std_value_def std_char_def)
qed

lemma std_char_mem: "std_char i \<in> set std_alphabet"
  by (simp add: std_char_def length_std_alphabet)

lemma std_char_not: "c \<notin> set std_alphabet \<Longrightarrow> std_char i \<noteq> c"
  using std_char_mem by metis

lemma std_char_plain [simp]:
  "std_char i \<noteq> CHR ''=''" "std_char i \<noteq> byte 10" "std_char i \<noteq> byte 13"
proof -
  have "CHR ''='' \<notin> set std_alphabet" "byte 10 \<notin> set std_alphabet" "byte 13 \<notin> set std_alphabet"
    by code_simp+
  then show "std_char i \<noteq> CHR ''=''" "std_char i \<noteq> byte 10" "std_char i \<noteq> byte 13"
    using std_char_not by blast+
qed

lemma visible_std_char: "visible (std_char i)"
proof -
  have "list_all visible std_alphabet" by code_simp
  then show ?thesis using std_char_mem by (auto simp: list_all_iff)
qed

lemma sextets_join:
  fixes n :: nat
  assumes "n < 16777216"
  shows "n div 262144 mod 64 * 64 + n div 4096 mod 64 = n div 4096"
    and "n div 4096 * 64 + n div 64 mod 64 = n div 64"
    and "n div 64 * 64 + n mod 64 = n"
proof -
  have "n div 262144 mod 64 = n div 4096 div 64"
    using assms by (simp add: div_mult2_eq [symmetric] less_mult_imp_div_less)
  then show "n div 262144 mod 64 * 64 + n div 4096 mod 64 = n div 4096" by simp
  have "n div 4096 = n div 64 div 64" by (simp add: div_mult2_eq [symmetric])
  then show "n div 4096 * 64 + n div 64 mod 64 = n div 64" by simp
qed simp

lemma byte_of_char [simp]: "byte (of_char c) = c"
  by (simp add: byte_def)

lemma byte_mod: "byte n = byte (n mod 256)"
  using char_of_take_bit_eq [of 8 n] by (simp add: byte_def take_bit_eq_mod)

lemma bytes_of_three:
  fixes a b c :: char
  defines "n \<equiv> (of_char a * 256 + of_char b) * 256 + of_char c :: nat"
  shows "byte (n div 65536) = a" "byte (n div 256) = b" "byte n = c"
proof -
  have c: "(of_char c :: nat) < 256" and b: "(of_char b :: nat) < 256" by (rule byte_less)+
  have split: "(x * 256 + y) div 256 = x" "(x * 256 + y) mod 256 = y" if "y < 256" for x y :: nat
    using that by simp_all
  have d: "n div 256 = of_char a * 256 + of_char b" "n mod 256 = of_char c"
    unfolding n_def by (rule split [OF c])+
  then have "n div 65536 = of_char a" "n div 256 mod 256 = of_char b"
    using split [OF b, of "of_char a"] div_mult2_eq [of n 256 256] by simp_all
  then show "byte (n div 65536) = a" "byte (n div 256) = b" "byte n = c"
    using d(2) byte_mod [of n] byte_mod [of "n div 256"] by simp_all
qed

lemma decode_group:
  assumes "n < 16777216"
  shows "decode_groups [std_char (n div 262144), std_char (n div 4096), CHR ''='', CHR ''='']
           = Some [byte (n div 65536)]"
    and "decode_groups [std_char (n div 262144), std_char (n div 4096), std_char (n div 64), CHR ''='']
           = Some [byte (n div 65536), byte (n div 256)]"
    and "decode_groups (std_char (n div 262144) # std_char (n div 4096) # std_char (n div 64) # std_char n # s)
           = map_option (\<lambda>rest. byte (n div 65536) # byte (n div 256) # byte n # rest) (decode_groups s)"
  by (simp_all add: sextets_join [OF assms] div_mult2_eq [symmetric] Let_def
      del: distrib_right_numeral distrib_left_numeral split: option.splits Option.bind_splits)

lemma decode_StdEncode: "decode_groups (StdEncode s) = Some s"
proof (induction s rule: StdEncode.induct)
  case (1 a b c s)
  define n where "n = ((of_char a * 256 + of_char b) * 256 + of_char c :: nat)"
  have "StdEncode (a # b # c # s) =
      std_char (n div 262144) # std_char (n div 4096) # std_char (n div 64) # std_char n # StdEncode s"
    by (simp add: n_def Let_def)
  moreover have "n < 16777216" unfolding n_def by (rule three_bytes_less)
  moreover have "byte (n div 65536) = a" "byte (n div 256) = b" "byte n = c"
    unfolding n_def by (rule bytes_of_three)+
  ultimately show ?case using 1 by (simp only: decode_group(3)) simp
next
  case (2 a b)
  define n where "n = ((of_char a * 256 + of_char b) * 256 + of_char (byte 0) :: nat)"
  have "StdEncode [a, b] = [std_char (n div 262144), std_char (n div 4096), std_char (n div 64), CHR ''='']"
    by (simp add: n_def Let_def byte_def)
  moreover have "n < 16777216" unfolding n_def by (rule three_bytes_less)
  moreover have "byte (n div 65536) = a" "byte (n div 256) = b"
    unfolding n_def by (rule bytes_of_three)+
  ultimately show ?case by (simp only: decode_group(2))
next
  case (3 a)
  define n where "n = ((of_char a * 256 + of_char (byte 0)) * 256 + of_char (byte 0) :: nat)"
  have "StdEncode [a] = [std_char (n div 262144), std_char (n div 4096), CHR ''='', CHR ''='']"
    by (simp add: n_def Let_def byte_def)
  moreover have "n < 16777216" unfolding n_def by (rule three_bytes_less)
  moreover have "byte (n div 65536) = a"
    unfolding n_def by (rule bytes_of_three)
  ultimately show ?case by (simp only: decode_group(1))
qed simp

lemma StdEncode_visible: "list_all (\<lambda>c. visible c \<and> c \<noteq> byte 10 \<and> c \<noteq> byte 13) (StdEncode s)"
proof -
  have "visible (CHR ''='') \<and> CHR ''='' \<noteq> byte 10 \<and> CHR ''='' \<noteq> byte 13" by code_simp
  then show ?thesis
    by (induction s rule: StdEncode.induct) (simp_all add: Let_def visible_std_char)
qed

lemma StdDecode_StdEncode: "StdDecode (StdEncode s) = Some s"
proof -
  have "filter (\<lambda>c. c \<noteq> byte 10 \<and> c \<noteq> byte 13) (StdEncode s) = StdEncode s"
    using StdEncode_visible [of s] by (simp add: filter_id_conv list_all_iff)
  then show ?thesis by (simp add: StdDecode_def decode_StdEncode)
qed

lemma trim_right_rev_newline: "trim_right_rev (byte 10 # s) = trim_right_rev s"
proof -
  have "ascii_space (byte 10)" by (simp add: ascii_space_def)
  then show ?thesis by (cases "byte 10 # s" rule: trim_right_rev.cases) simp_all
qed

lemma TrimSpace_newline:
  assumes "s \<noteq> []" and "list_all visible s"
  shows "TrimSpace (s @ [byte 10]) = s"
proof -
  have "visible (hd s)" "visible (last s)" using assms by (simp_all add: list_all_iff)
  then have "TrimSpace s = s" "trim_left (s @ [byte 10]) = s @ [byte 10]" "trim_left s = s"
    using assms(1) by (auto simp: TrimSpace_visible neq_Nil_conv trim_left_visible)
  then show ?thesis by (simp add: TrimSpace_def trim_right_rev_newline)
qed

lemma StdEncode_Nil: "StdEncode s = [] \<longleftrightarrow> s = []"
  by (cases s rule: StdEncode.cases) (simp_all add: Let_def)

lemma VerifySignature_Sign:
  assumes "length (rl_ed25519_Sign lib key m) = 64" and "rl_ed25519_Verify lib pub m (rl_ed25519_Sign lib key m)"
  shows "VerifySignature lib m (rb_Sign lib m key) pub = None"
proof -
  have "rl_ed25519_Sign lib key m \<noteq> []" using assms(1) by auto
  then have "TrimSpace (StdEncode (rl_ed25519_Sign lib key m) @ [byte 10]) = StdEncode (rl_ed25519_Sign lib key m)"
    using StdEncode_visible [of "rl_ed25519_Sign lib key m"]
    by (intro TrimSpace_newline) (auto simp: StdEncode_Nil list_all_iff)
  then show ?thesis
    using assms by (simp add: VerifySignature_def rb_Sign_def StdDecode_StdEncode SignatureSize_def)
qed

section \<open>Names of artifacts\<close>

lemma CutPrefix_Some: "CutPrefix s p = Some t \<longleftrightarrow> s = p @ t"
  by (auto simp: CutPrefix_def prefix_def)

lemma one_of_Some: "one_of ps s = Some (p, t) \<Longrightarrow> p \<in> set ps \<and> s = p @ t"
  by (induction ps) (auto simp: prefix_def split: if_splits)

lemma one_of_alternatives:
  "p \<in> set artifactComponents \<Longrightarrow> one_of artifactComponents (p @ t) = Some (p, t)"
  "p \<in> set artifactArchs \<Longrightarrow> one_of artifactArchs (p @ t) = Some (p, t)"
  by (auto simp: artifactComponents_def artifactArchs_def)

lemma artifactPattern_iff:
  "artifactPattern name = Some (c, a, x) \<longleftrightarrow>
     name = ''mysafe-'' @ c @ ''-linux-'' @ a @ x \<and> c \<in> set artifactComponents \<and> a \<in> set artifactArchs
     \<and> (x = [] \<or> x = ''.deb'')"
proof
  assume "artifactPattern name = Some (c, a, x)"
  then show "name = ''mysafe-'' @ c @ ''-linux-'' @ a @ x \<and> c \<in> set artifactComponents \<and> a \<in> set artifactArchs
     \<and> (x = [] \<or> x = ''.deb'')"
    unfolding artifactPattern_def
    by (auto simp: bind_eq_Some_conv CutPrefix_Some split: if_splits dest!: one_of_Some)
next
  assume "name = ''mysafe-'' @ c @ ''-linux-'' @ a @ x \<and> c \<in> set artifactComponents \<and> a \<in> set artifactArchs
     \<and> (x = [] \<or> x = ''.deb'')"
  moreover have "CutPrefix (p @ t) p = Some t" for p t by (simp add: CutPrefix_Some)
  ultimately show "artifactPattern name = Some (c, a, x)"
    unfolding artifactPattern_def by (auto simp del: append.simps simp: one_of_alternatives)
qed

lemma artifact_name_elem: "artifactPattern name = Some r \<Longrightarrow> name_elem name"
proof -
  assume "artifactPattern name = Some r"
  then obtain c a x where "name = ''mysafe-'' @ c @ ''-linux-'' @ a @ x" "c \<in> set artifactComponents"
    "a \<in> set artifactArchs" "x = [] \<or> x = ''.deb''"
    using artifactPattern_iff by (metis prod_cases3)
  then show ?thesis
    by (auto simp: name_elem_def artifactComponents_def artifactArchs_def)
qed

section \<open>Valid manifests\<close>

text \<open>The specification of one artifact: its name is built from its own fields.\<close>

definition artifact_ok :: "Artifact \<Rightarrow> bool" where
  "artifact_ok a \<longleftrightarrow>
     (\<exists>ext. artifactPattern (ar_Name a) = Some (ar_Component a, ar_Arch a, ext) \<and> ar_OS a = ''linux''
        \<and> ar_Format a = fst (release_format ext) \<and> ar_Mode a = snd (release_format ext)
        \<and> 0 < ar_Size a \<and> ar_Size a \<le> maxArtifactSize \<and> lower_sha256 (ar_SHA256 a))"

lemma check_artifact_iff: "check_artifact a seen = None \<longleftrightarrow> artifact_ok a \<and> ar_Name a \<notin> set seen"
proof (cases "artifactPattern (ar_Name a)")
  case None
  then show ?thesis by (simp add: check_artifact_def artifact_ok_def)
next
  case (Some r)
  obtain c arch ext where "r = (c, arch, ext)" by (cases r)
  then show ?thesis
    using Some BasePath_name [OF artifact_name_elem [OF Some]]
    by (auto simp: check_artifact_def artifact_ok_def simp del: BasePath.simps)
qed

lemma check_artifacts_iff:
  "check_artifacts as seen = None \<longleftrightarrow>
     list_all artifact_ok as \<and> distinct (map ar_Name as) \<and> set (map ar_Name as) \<inter> set seen = {}"
proof (induction as arbitrary: seen)
  case (Cons a as)
  then show ?case using check_artifact_iff [of a seen] by (cases "check_artifact a seen") auto
qed simp

definition manifest_ok :: "Manifest \<Rightarrow> bool" where
  "manifest_ok m \<longleftrightarrow> mf_SchemaVersion m = SchemaVersion \<and> versionPattern (mf_Version m) \<and> mf_CreatedAt m \<noteq> zero_time
     \<and> mf_Artifacts m \<noteq> [] \<and> length (mf_Artifacts m) \<le> 32
     \<and> list_all artifact_ok (mf_Artifacts m) \<and> distinct (map ar_Name (mf_Artifacts m))"

lemma Validate_iff: "Validate m = None \<longleftrightarrow> manifest_ok m"
  by (auto simp: Validate_def manifest_ok_def check_artifacts_iff)

lemma Decode_Inr: "Decode lib encoded = Inr m \<Longrightarrow> manifest_ok m"
  by (auto simp: Decode_def Validate_iff split: sum.splits if_splits option.splits)

text \<open>In a valid manifest the component and the architecture determine the binary.\<close>

definition binary_name :: "string \<Rightarrow> string \<Rightarrow> string" where
  "binary_name component arch = ''mysafe-'' @ component @ ''-linux-'' @ arch"

lemma release_format_binary: "fst (release_format ext) = ''binary'' \<Longrightarrow> ext = [] \<or> ext = ''.deb'' \<Longrightarrow> ext = []"
  by (auto simp: release_format_def split: if_splits)

lemma artifact_binary_name:
  assumes "artifact_ok a" and "ar_Format a = ''binary''"
  shows "ar_Name a = binary_name (ar_Component a) (ar_Arch a)"
proof -
  obtain ext where p: "artifactPattern (ar_Name a) = Some (ar_Component a, ar_Arch a, ext)"
      and f: "ar_Format a = fst (release_format ext)"
    using assms(1) by (auto simp: artifact_ok_def)
  then have "ext = [] \<or> ext = ''.deb''" by (simp add: artifactPattern_iff)
  then have "ext = []" using release_format_binary f assms(2) by metis
  then show ?thesis using p by (simp add: artifactPattern_iff binary_name_def)
qed

lemma Select_Inr:
  assumes "manifest_ok m" and "Select m c os arch = Inr a"
  shows "a \<in> set (mf_Artifacts m) \<and> artifact_ok a \<and> ar_Component a = c \<and> ar_Arch a = arch \<and> os = ''linux''
     \<and> ar_Name a = binary_name c arch"
proof -
  have f: "a \<in> set (mf_Artifacts m) \<and> ar_Component a = c \<and> ar_OS a = os \<and> ar_Arch a = arch \<and> ar_Format a = ''binary''"
    using assms(2)
    by (auto simp: Select_def SelectFormat_def find_Some_iff split: option.splits)
  then have "artifact_ok a" using assms(1) by (simp add: manifest_ok_def list_all_iff)
  then show ?thesis using f artifact_binary_name [of a] by (auto simp: artifact_ok_def)
qed

section \<open>Verified files\<close>

text \<open>The file in a directory that an artifact describes.\<close>

definition describes :: "rb_lib \<Rightarrow> Artifact \<Rightarrow> string \<Rightarrow> bool" where
  "describes lib a content \<longleftrightarrow> ar_SHA256 a = EncodeToString (rl_sha256 lib content) \<and> ar_Size a = int (length content)"

lemma rb_hashFile_Inr:
  assumes "rb_hashFile lib p w = (Inr (digest, sz), w')"
  shows "\<exists>q m content. follow w p = Some (q, NFile m content) \<and> digest = EncodeToString (rl_sha256 lib content)
     \<and> sz = int (length content) \<and> int (length content) \<le> maxArtifactSize \<and> w_files w' = w_files w"
proof -
  obtain x v content where v: "Stat p w = (Inr x, v)" and r: "ReadFile p v = (Inr content, w')"
      and out: "digest = EncodeToString (rl_sha256 lib content)" "sz = int (length content)"
        "int (length content) \<le> maxArtifactSize"
    using assms by (auto simp: rb_hashFile_def io_outcomes split: if_splits)
  have "w_files v = w_files w" by (rule reads_files(2) [OF v])
  then show ?thesis using ReadFile_Inr [OF r] follow_files [of v w] out by auto
qed

lemma verifyArtifact_Inr:
  assumes "verifyArtifact lib dir a w = (Inr u, w')"
  shows "\<exists>m content. node_at w (JoinPath [dir, ar_Name a]) = Some (NFile m content) \<and> describes lib a content
     \<and> w_files w' = w_files w"
proof -
  obtain info v where l: "Lstat (JoinPath [dir, ar_Name a]) w = (Inr info, v)" "is_regular info"
      and h: "rb_hashFile lib (JoinPath [dir, ar_Name a]) v = (Inr (ar_SHA256 a, ar_Size a), w')"
    using assms by (auto simp: verifyArtifact_def Let_def io_outcomes split: if_splits)
  from l obtain m c where n: "node_at w (JoinPath [dir, ar_Name a]) = Some (NFile m c)" "w_files v = w_files w"
    using Lstat_Inr [OF l(1)] by (cases info) auto
  then have "follow v (JoinPath [dir, ar_Name a]) = Some (JoinPath [dir, ar_Name a], NFile m c)"
    using follow_file [of v] by simp
  then show ?thesis using rb_hashFile_Inr [OF h] n by (auto simp: describes_def)
qed

lemma verifyArtifact_no_fault:
  assumes "w_faults w = []" and "node_at w (JoinPath [dir, ar_Name a]) = Some (NFile m content)"
    and "describes lib a content" and "int (length content) \<le> maxArtifactSize"
  shows "verifyArtifact lib dir a w = (Inr (), w)"
  using assms follow_file [OF assms(2)]
  by (simp add: verifyArtifact_def Let_def rb_hashFile_def describes_def Lstat_def Stat_def ReadFile_def
      sys_no_fault io_defs)

lemma select_each_Inr:
  assumes "select_each lib dir m os arch seen cs w = (Inr u, w')" and "manifest_ok m"
  shows "w_files w' = w_files w \<and> (\<forall>c \<in> set cs - set seen. \<exists>a mode content.
     Select m c os arch = Inr a \<and> node_at w (JoinPath [dir, ar_Name a]) = Some (NFile mode content)
     \<and> describes lib a content)"
  using assms(1)
proof (induction cs arbitrary: seen w)
  case (Cons c cs)
  show ?case
  proof (cases "c \<in> set seen")
    case True
    then show ?thesis using Cons by auto
  next
    case False
    then obtain a v where a: "Select m c os arch = Inr a" "verifyArtifact lib dir a w = (Inr (), v)"
        and rest: "select_each lib dir m os arch (c # seen) cs v = (Inr u, w')"
      using Cons.prems by (auto simp: io_outcomes split: sum.splits)
    have va: "w_files v = w_files w" using verifyArtifact_Inr [OF a(2)] by blast
    then show ?thesis
      using Cons.IH [OF rest] verifyArtifact_Inr [OF a(2)] a(1) by auto
  qed
qed simp

section \<open>Building and verifying\<close>

definition clean_dir :: "string \<Rightarrow> bool" where
  "clean_dir dir \<longleftrightarrow> Clean dir = dir \<and> dir \<noteq> ''.''"

lemma dir_name_JoinPath:
  assumes "clean_dir dir" and "name_elem name" and "dir_name dir p = Some name"
  shows "p = JoinPath [dir, name]"
proof (cases "dir = ''/''")
  case True
  then have "p = slash # name" using assms(3) by (auto simp: dir_name.simps prefix_def Let_def split: if_splits)
  moreover have "elems ''/'' = []" by (simp add: elems_def clean_elems_def)
  ultimately show ?thesis using True assms(2) by (simp add: JoinPath_name)
next
  case False
  then have "p = dir @ slash # name" using assms(3) by (simp add: dir_name_iff)
  moreover have "dir \<noteq> []" using assms(1) by (auto simp: clean_dir_def Clean_def elems_def clean_elems_def)
  ultimately show ?thesis using False assms JoinPath_sub by (simp add: clean_dir_def)
qed

lemma entry_node:
  assumes "ReadDir dir w = (Inr items, w')" and "w_ok w" and "clean_dir dir"
    and "(name, item) \<in> set items" and "name_elem name"
  shows "node_at w (JoinPath [dir, name]) = Some item"
proof -
  obtain p where "(p, item) \<in> set (w_files w)" "dir_name dir p = Some name"
    using ReadDir_children [OF assms(1)] assms(4) by blast
  then show ?thesis using dir_name_JoinPath [OF assms(3,5)] assms(2) by (auto simp: w_ok_def)
qed

definition built_from :: "rb_lib \<Rightarrow> string \<Rightarrow> world \<Rightarrow> Artifact \<Rightarrow> bool" where
  "built_from lib dir w a \<longleftrightarrow>
     (\<exists>m content. node_at w (JoinPath [dir, ar_Name a]) = Some (NFile m content) \<and> describes lib a content
        \<and> int (length content) \<le> maxArtifactSize)"

lemma built_from_files: "w_files v = w_files w \<Longrightarrow> built_from lib dir v a = built_from lib dir w a"
  by (simp add: built_from_def)

lemma build_artifacts_Inr:
  assumes "build_artifacts lib dir entries w = (Inr arts, w')"
    and "\<And>name item. (name, item) \<in> set entries \<Longrightarrow> artifactPattern name \<noteq> None \<Longrightarrow>
           node_at w (JoinPath [dir, name]) = Some item"
  shows "w_files w' = w_files w \<and> list_all (built_from lib dir w) arts
     \<and> map ar_Name arts = filter (\<lambda>n. artifactPattern n \<noteq> None) (map fst entries)"
  using assms
proof (induction entries arbitrary: w arts)
  case (Cons e entries)
  obtain name item where e: "e = (name, item)" by (cases e)
  show ?case
  proof (cases "artifactPattern name")
    case None
    have "build_artifacts lib dir entries w = (Inr arts, w')" using Cons.prems(1) None e by simp
    then show ?thesis using Cons.IH [of w arts] Cons.prems(2) None e by simp
  next
    case (Some r)
    obtain c arch ext where r: "r = (c, arch, ext)" by (cases r)
    obtain digest sz v rest where reg: "is_regular item"
        and h: "rb_hashFile lib (JoinPath [dir, name]) w = (Inr (digest, sz), v)"
        and b: "build_artifacts lib dir entries v = (Inr rest, w')"
        and arts: "arts = \<lparr>ar_Name = name, ar_Component = c, ar_OS = ''linux'', ar_Arch = arch, ar_SHA256 = digest,
           ar_Size = sz, ar_Mode = snd (release_format ext), ar_Format = fst (release_format ext)\<rparr> # rest"
      using Cons.prems(1) Some e r by (auto simp: io_outcomes split: if_splits)
    have node: "node_at w (JoinPath [dir, name]) = Some item"
      by (rule Cons.prems(2)) (simp_all add: e Some)
    obtain m content where item: "item = NFile m content" using reg by (cases item) auto
    have hash: "digest = EncodeToString (rl_sha256 lib content)" "sz = int (length content)"
        "int (length content) \<le> maxArtifactSize" "w_files v = w_files w"
      using rb_hashFile_Inr [OF h] follow_file [of w "JoinPath [dir, name]" m content] node item by auto
    have ih: "w_files w' = w_files v \<and> list_all (built_from lib dir v) rest
       \<and> map ar_Name rest = filter (\<lambda>n. artifactPattern n \<noteq> None) (map fst entries)"
      using Cons.IH [OF b] Cons.prems(2) hash(4) by simp
    have "built_from lib dir w (hd arts)"
      using arts node item hash by (simp add: built_from_def describes_def)
    then show ?thesis
      using ih arts hash(4) Some e r by (simp add: list_all_iff built_from_files [OF hash(4)])
  qed
qed simp

lemma Build_Inr:
  assumes "Build lib dir version now w = (Inr m, w1)" and "w_ok w" and "clean_dir dir"
  shows "manifest_ok m \<and> w_files w1 = w_files w \<and> dir_at w dir \<and> list_all (built_from lib dir w) (mf_Artifacts m)
     \<and> (\<forall>name p item. (p, item) \<in> set (w_files w) \<longrightarrow> dir_name dir p = Some name \<longrightarrow>
          artifactPattern name \<noteq> None \<longrightarrow> name \<in> set (map ar_Name (mf_Artifacts m)))"
proof -
  obtain entries v arts where e: "ReadDir dir w = (Inr entries, v)"
      and b: "build_artifacts lib dir (sort_key fst entries) v = (Inr arts, w1)"
      and m: "m = \<lparr>mf_SchemaVersion = SchemaVersion, mf_Version = version,
                    mf_CreatedAt = now div second * second, mf_Artifacts = sort_key ar_Name arts\<rparr>"
      and ok: "Validate m = None"
    using assms(1) by (auto simp: Build_def Let_def io_outcomes split: if_splits option.splits)
  have v: "w_files v = w_files w" by (rule reads_files(4) [OF e])
  have "node_at v (JoinPath [dir, name]) = Some item"
    if "(name, item) \<in> set (sort_key fst entries)" "artifactPattern name \<noteq> None" for name item
    using entry_node [OF e assms(2,3)] that artifact_name_elem v by auto
  from build_artifacts_Inr [OF b this]
  have arts: "w_files w1 = w_files v" "list_all (built_from lib dir v) arts"
      and names: "map ar_Name arts = filter (\<lambda>n. artifactPattern n \<noteq> None) (map fst (sort_key fst entries))"
    by blast+
  have "set (map ar_Name arts) = {n \<in> fst ` set entries. artifactPattern n \<noteq> None}"
    unfolding names by (simp add: image_image)
  have "name \<in> fst ` set entries" if "(p, item) \<in> set (w_files w)" "dir_name dir p = Some name" for name p item
    using ReadDir_children [OF e] that by (metis fst_conv image_eqI)
  then show ?thesis
    using ok arts v ReadDir_Inr(2) [OF e] \<open>set (map ar_Name arts) = _\<close> unfolding m Validate_iff
    by (simp add: list_all_iff built_from_files [OF v])
qed

lemma verify_each_no_fault:
  "w_faults w = [] \<Longrightarrow> list_all (built_from lib dir w) as \<Longrightarrow> verify_each lib dir as w = (Inr (), w)"
  by (induction as) (auto simp: built_from_def io_defs verifyArtifact_no_fault)

lemma VerifyArtifacts_no_fault:
  assumes "manifest_ok m" and "w_faults w = []" and "dir_at w dir" and "list_all (built_from lib dir w) (mf_Artifacts m)"
    and "\<And>name p item. (p, item) \<in> set (w_files w) \<Longrightarrow> dir_name dir p = Some name \<Longrightarrow>
          artifactPattern name \<noteq> None \<Longrightarrow> name \<in> set (map ar_Name (mf_Artifacts m))"
  shows "VerifyArtifacts lib dir m w = (Inr (), w)"
proof -
  obtain entries where e: "ReadDir dir w = (Inr entries, w)" using ReadDir_no_fault [OF assms(2,3)] by blast
  have "List.find (\<lambda>(name, _). HasPrefix name ''mysafe-'' \<and> artifactPattern name \<noteq> None
          \<and> name \<notin> set (map ar_Name (mf_Artifacts m))) (sort_key fst entries) = None"
    using assms(5) ReadDir_children [OF e] by (auto simp: find_None_iff)
  then show ?thesis
    using verify_each_no_fault [OF assms(2,4)] e assms(1)
    by (simp add: VerifyArtifacts_def Validate_iff [THEN iffD2] io_defs Let_def)
qed

lemma Decode_Encode:
  assumes "\<And>m json. Validate m = None \<Longrightarrow> rl_marshal lib m = Inr json \<Longrightarrow> rl_decode lib (json @ [byte 10]) = Inr (m, [byte 10])"
    and "manifest_ok manifest" and "Encode lib manifest = Inr encoded"
  shows "Decode lib encoded = Inr manifest"
proof -
  obtain json where "rl_marshal lib manifest = Inr json" "encoded = json @ [byte 10]"
    using assms(3) by (auto simp: Encode_def split: option.splits sum.splits)
  then have "rl_decode lib encoded = Inr (manifest, [byte 10])" using assms(1,2) by (simp add: Validate_iff)
  then show ?thesis using assms(2) by (simp add: Decode_def json_blank_def Validate_iff [THEN iffD2])
qed

section \<open>An instance\<close>

definition demo_manifest :: Manifest where
  "demo_manifest = \<lparr>mf_SchemaVersion = 2, mf_Version = ''v1.2.0'', mf_CreatedAt = 5000000000,
     mf_Artifacts = [\<lparr>ar_Name = ''mysafe-agent-linux-amd64'', ar_Component = ''agent'', ar_OS = ''linux'',
       ar_Arch = ''amd64'', ar_SHA256 = replicate 64 (CHR ''0''), ar_Size = 3, ar_Mode = 493,
       ar_Format = ''binary''\<rparr>]\<rparr>"

definition demo_lib :: rb_lib where
  "demo_lib = \<lparr>rl_sha256 = (\<lambda>_. replicate 32 (byte 0)),
     rl_marshal = (\<lambda>m. if m = demo_manifest then Inr ''{}'' else Inl ''unsupported''),
     rl_decode = (\<lambda>s. if s = ''{}'' @ [byte 10] then Inr (demo_manifest, [byte 10]) else Inl ''syntax''),
     rl_pem_Decode = (\<lambda>s. Some (''PUBLIC KEY'', s, [])), rl_pem_Encode = (\<lambda>_ s. s),
     rl_ParsePKCS8 = (\<lambda>s. Some (Ed25519PrivateKey s)), rl_ParsePKIX = (\<lambda>s. Some (Ed25519PublicKey s)),
     rl_MarshalPKCS8 = Inr, rl_MarshalPKIX = Inr, rl_GenerateKey = (\<lambda>seed. (seed, seed)),
     rl_ed25519_Sign = (\<lambda>key message. replicate 64 (byte 1)),
     rl_ed25519_Verify = (\<lambda>key message signature. signature = replicate 64 (byte 1))\<rparr>"

end
