(* ===== verification/Plan_Props.thy ===== *)
theory Plan_Props
  imports Plan
begin

text \<open>
  What a plan promises: the gateway is only planned where it can listen, a demanded gateway is never dropped in
  silence, and Nginx is only touched where the inspection left no doubt. The inspection changes nothing and ends.
\<close>

section \<open>The gateway's port\<close>

lemma firstFreePort_free:
  "firstFreePort used start stop \<noteq> 0 \<Longrightarrow>
     start \<le> firstFreePort used start stop \<and> firstFreePort used start stop \<le> stop
     \<and> firstFreePort used start stop \<notin> set used"
proof -
  assume nz: "firstFreePort used start stop \<noteq> 0"
  then obtain port where f: "List.find (\<lambda>port. port \<notin> set used) [start..stop] = Some port"
    by (auto simp: firstFreePort_def split: option.splits)
  then have "port \<in> set [start..stop]" "port \<notin> set used" using find_mem by fastforce+
  then show ?thesis using f by (auto simp: firstFreePort_def)
qed

lemma gateway_port_free:
  assumes "po_GatewayPort options = 0" and "gateway_port env options = port" and "port \<noteq> 0"
  shows "18081 \<le> port \<and> port \<le> 18180 \<and> port \<notin> set (env_ListeningPorts env)
     \<and> port \<notin> pc_Port ` set (env_ProxyCandidates env)"
  using assms firstFreePort_free [of "env_ListeningPorts env @ map pc_Port (env_ProxyCandidates env)" 18081 18180]
  by (simp add: gateway_port_def)

section \<open>The branches of a plan\<close>

lemma gateway_plan_fields:
  "\<not> pl_GatewayEnabled plan \<Longrightarrow> pl_GatewayEnabled (gateway_plan gateway port up conf plan) \<longleftrightarrow> port \<noteq> 0"
  "port \<noteq> 0 \<Longrightarrow> pl_GatewayListen (gateway_plan gateway port up conf plan) = ''127.0.0.1:'' @ FormatInt port
     \<and> pl_Upstream (gateway_plan gateway port up conf plan) = up
     \<and> pl_NginxConfig (gateway_plan gateway port up conf plan) = conf
     \<and> pl_Installable (gateway_plan gateway port up conf plan) = pl_Installable plan"
  "port = 0 \<Longrightarrow> pl_NginxConfig (gateway_plan gateway port up conf plan) = pl_NginxConfig plan
     \<and> pl_Installable (gateway_plan gateway port up conf plan) = (pl_Installable plan \<and> gateway \<noteq> GatewayEnabled)"
  by (simp_all add: gateway_plan_def require_gateway_def add_notice_def Let_def)

lemma base_plan_fields [simp]:
  "pl_Installable (base_plan env)" "\<not> pl_GatewayEnabled (base_plan env)" "pl_NginxConfig (base_plan env) = []"
  by (simp_all add: base_plan_def)

lemma sensor_fields [simp]:
  "pl_GatewayEnabled (add_notice t plan) = pl_GatewayEnabled plan" "pl_Installable (add_notice t plan) = pl_Installable plan"
  "pl_NginxConfig (add_notice t plan) = pl_NginxConfig plan"
  "pl_GatewayEnabled (require_gateway gateway t plan) = pl_GatewayEnabled plan"
  "pl_Installable (require_gateway gateway t plan) = (pl_Installable plan \<and> gateway \<noteq> GatewayEnabled)"
  "pl_NginxConfig (require_gateway gateway t plan) = pl_NginxConfig plan"
  by (auto simp: add_notice_def require_gateway_def)

text \<open>A plan is one of these: blocked by the host, a sensor, a sensor or a blocked plan where no gateway was possible,
  or the gateway before an explicit or a unique upstream.\<close>

lemma BuildPlan_cases:
  fixes parse env options
  defines "plan \<equiv> BuildPlan parse env options"
    and "gateway \<equiv> (if po_Gateway options = [] then GatewayAuto else po_Gateway options)"
  obtains (blocked) "plan_blockers env \<noteq> []" "\<not> pl_Installable plan" "\<not> pl_GatewayEnabled plan" "pl_NginxConfig plan = []"
  | (sensor) "plan_blockers env = []" "\<not> pl_GatewayEnabled plan" "pl_NginxConfig plan = []"
      "pl_Installable plan \<longleftrightarrow> gateway \<noteq> GatewayEnabled"
  | (explicit) "plan_blockers env = []" "gateway \<noteq> GatewayDisabled" "gateway_port env options \<noteq> 0"
      "validateUpstream parse (TrimSpace (po_Upstream options)) = None"
      "plan = gateway_plan gateway (gateway_port env options) (TrimSpace (po_Upstream options)) [] (base_plan env)"
  | (unique) c where "plan_blockers env = []" "gateway \<noteq> GatewayDisabled" "gateway_port env options \<noteq> 0"
      "TrimSpace (po_Upstream options) = []" "env_ProxyCandidates env = [c]"
      "plan = gateway_plan gateway (gateway_port env options) (pc_Upstream c) (pc_ConfigPath c) (base_plan env)"
proof (cases "plan_blockers env \<noteq> []")
  case True
  then have "\<not> pl_Installable plan" "\<not> pl_GatewayEnabled plan" "pl_NginxConfig plan = []"
    by (simp_all add: plan_def BuildPlan_def Let_def base_plan_def)
  then show ?thesis using blocked True by blast
next
  case False
  note nb = this
  have disabled: "GatewayDisabled \<noteq> GatewayEnabled" by (simp add: GatewayDisabled_def GatewayEnabled_def)
  show ?thesis
  proof (cases "gateway = GatewayDisabled")
    case True
    then have "plan = add_notice ''Gateway disabled by operator; Sensor protection remains active'' (base_plan env)"
      using nb by (simp add: plan_def BuildPlan_def gateway_def Let_def)
    then show ?thesis using sensor nb True disabled by simp
  next
    case False
    note nd = this
    show ?thesis
    proof (cases "TrimSpace (po_Upstream options) = []")
      case True
      show ?thesis
      proof (cases "\<exists>c. env_ProxyCandidates env = [c]")
        case True
        then obtain c where c: "env_ProxyCandidates env = [c]" by blast
        have p: "plan = gateway_plan gateway (gateway_port env options) (pc_Upstream c) (pc_ConfigPath c) (base_plan env)"
          using nb nd c \<open>TrimSpace _ = []\<close> by (simp add: plan_def BuildPlan_def gateway_def Let_def)
        show ?thesis
        proof (cases "gateway_port env options = 0")
          case True
          then show ?thesis using sensor nb p gateway_plan_fields by simp
        next
          case False
          then show ?thesis using unique nb nd c p \<open>TrimSpace _ = []\<close> by blast
        qed
      next
        case False
        then obtain t where "plan = require_gateway gateway ''Gateway was required but no unambiguous upstream is available''
            (add_notice t (base_plan env))"
          using nb nd \<open>TrimSpace _ = []\<close>
          by (cases "env_ProxyCandidates env"; cases "tl (env_ProxyCandidates env)")
            (auto simp: plan_def BuildPlan_def gateway_def Let_def)
        then show ?thesis using sensor nb by simp
      qed
    next
      case False
      show ?thesis
      proof (cases "validateUpstream parse (TrimSpace (po_Upstream options))")
        case None
        have p: "plan = gateway_plan gateway (gateway_port env options) (TrimSpace (po_Upstream options)) [] (base_plan env)"
          using nb nd False None by (simp add: plan_def BuildPlan_def gateway_def Let_def)
        show ?thesis
        proof (cases "gateway_port env options = 0")
          case True
          then show ?thesis using sensor nb p gateway_plan_fields by simp
        next
          case False
          then show ?thesis using explicit nb nd None p by blast
        qed
      next
        case (Some e)
        have "plan = (base_plan env)\<lparr>pl_Blockers := [e], pl_Installable := (gateway \<noteq> GatewayEnabled)\<rparr>"
          using nb nd False Some by (simp add: plan_def BuildPlan_def gateway_def Let_def)
        then show ?thesis using sensor nb by simp
      qed
    qed
  qed
qed

text \<open>C32: A plan keeps its promises. It is installable only on a supported platform with systemd. Where the operator demanded the
  gateway, an installable plan has it. A planned gateway listens on the loopback address, on the port the operator
  chose or on a port between 18081 and 18180 that nothing listens on and no proxy of the host forwards to. And the
  Nginx configuration is to be changed only if the operator named no upstream and the inspection found exactly one,
  which then is the upstream of the gateway.\<close>

theorem BuildPlan_sound:
  "(let plan = BuildPlan parse env options
    in (pl_Installable plan \<longrightarrow> env_Support env \<noteq> SupportUnsupported \<and> tool_Available (env_Systemd env))
     \<and> (pl_Installable plan \<and> po_Gateway options = GatewayEnabled \<longrightarrow> pl_GatewayEnabled plan)
     \<and> (pl_GatewayEnabled plan \<longrightarrow> po_Gateway options \<noteq> GatewayDisabled \<and> pl_Installable plan
          \<and> (\<exists>port \<noteq> 0. pl_GatewayListen plan = ''127.0.0.1:'' @ FormatInt port
               \<and> (if po_GatewayPort options \<noteq> 0 then port = po_GatewayPort options
                  else 18081 \<le> port \<and> port \<le> 18180 \<and> port \<notin> set (env_ListeningPorts env)
                       \<and> port \<notin> pc_Port ` set (env_ProxyCandidates env))))
     \<and> (pl_NginxConfig plan \<noteq> [] \<longrightarrow> TrimSpace (po_Upstream options) = []
          \<and> (\<exists>c. env_ProxyCandidates env = [c] \<and> pl_NginxConfig plan = pc_ConfigPath c \<and> pl_Upstream plan = pc_Upstream c)))"
proof -
  define gateway where "gateway = (if po_Gateway options = [] then GatewayAuto else po_Gateway options)"
  have names: "GatewayEnabled \<noteq> []" "GatewayDisabled \<noteq> []" "GatewayAuto \<noteq> GatewayEnabled"
    by (simp_all add: GatewayEnabled_def GatewayDisabled_def GatewayAuto_def)
  have gate: "po_Gateway options = GatewayEnabled \<longleftrightarrow> gateway = GatewayEnabled"
      "po_Gateway options = GatewayDisabled \<Longrightarrow> gateway = GatewayDisabled"
    using names by (auto simp: gateway_def)
  have host: "plan_blockers env = [] \<longleftrightarrow> env_Support env \<noteq> SupportUnsupported \<and> tool_Available (env_Systemd env)"
    by (simp add: plan_blockers_def)
  have port: "\<exists>port \<noteq> 0. x = ''127.0.0.1:'' @ FormatInt port
      \<and> (if po_GatewayPort options \<noteq> 0 then port = po_GatewayPort options
         else 18081 \<le> port \<and> port \<le> 18180 \<and> port \<notin> set (env_ListeningPorts env)
              \<and> port \<notin> pc_Port ` set (env_ProxyCandidates env))"
    if "gateway_port env options \<noteq> 0" "x = ''127.0.0.1:'' @ FormatInt (gateway_port env options)" for x
  proof (intro exI [of _ "gateway_port env options"] conjI that)
    show "if po_GatewayPort options \<noteq> 0 then gateway_port env options = po_GatewayPort options
       else 18081 \<le> gateway_port env options \<and> gateway_port env options \<le> 18180
         \<and> gateway_port env options \<notin> set (env_ListeningPorts env)
         \<and> gateway_port env options \<notin> pc_Port ` set (env_ProxyCandidates env)"
    proof (cases "po_GatewayPort options = 0")
      case True
      then show ?thesis using gateway_port_free [OF True refl] that(1) by simp
    qed (simp add: gateway_port_def)
  qed
  show ?thesis
  proof (cases rule: BuildPlan_cases [of env parse options])
    case blocked
    then show ?thesis by (simp add: Let_def)
  next
    case sensor
    then show ?thesis using host gate unfolding gateway_def [symmetric] by (simp add: Let_def)
  next
    case explicit
    note e = this [folded gateway_def]
    show ?thesis using e(1-4) host gate port gateway_plan_fields(1,2) unfolding Let_def e(5) by auto
  next
    case (unique c)
    note e = this [folded gateway_def]
    show ?thesis using e(1-5) host gate port gateway_plan_fields(1,2) unfolding Let_def e(6) by auto
  qed
qed

definition sample_env :: Environment where
  "sample_env = \<lparr>env_OSID = ''debian'', env_OSVersion = ''12'', env_OSCodename = [], env_Architecture = ''amd64'',
     env_Support = SupportStable, env_Systemd = \<lparr>tool_Available = True, tool_Version = ''systemd 252''\<rparr>,
     env_Nginx = \<lparr>tool_Available = True, tool_Version = []\<rparr>, env_Docker = \<lparr>tool_Available = False, tool_Version = []\<rparr>,
     env_DockerCompose = \<lparr>tool_Available = False, tool_Version = []\<rparr>, env_ListeningPorts = [80, 18081],
     env_ProxyCandidates = [\<lparr>pc_ConfigPath = ''/etc/nginx/app.conf'', pc_Upstream = ''http://127.0.0.1:3000'',
       pc_Port = 3000, pc_Directive = ''proxy_pass http://127.0.0.1:3000;''\<rparr>], env_Warnings = []\<rparr>"

definition sample_options :: PlanOptions where
  "sample_options = \<lparr>po_Gateway = ''enabled'', po_Upstream = [], po_GatewayPort = 0\<rparr>"

theorem BuildPlan_sound_witness:
  "(let plan = BuildPlan (\<lambda>_. None) sample_env sample_options
    in pl_Installable plan \<and> pl_GatewayEnabled plan
     \<and> (\<exists>port. pl_GatewayListen plan = ''127.0.0.1:'' @ FormatInt port \<and> 18081 \<le> port \<and> port \<le> 18180 \<and> port \<notin> {80, 18081, 3000})
     \<and> pl_NginxConfig plan = ''/etc/nginx/app.conf'' \<and> pl_Upstream plan = ''http://127.0.0.1:3000'')"
proof -
  let ?plan = "BuildPlan (\<lambda>_. None) sample_env sample_options"
  have "gateway_port sample_env sample_options = 18082"
    by (simp add: gateway_port_def sample_env_def sample_options_def firstFreePort_def upto_rec1)
  moreover have "plan_blockers sample_env = []" "TrimSpace (po_Upstream sample_options) = []"
      "po_Gateway sample_options \<noteq> []" "po_Gateway sample_options \<noteq> GatewayDisabled"
    by code_simp+
  ultimately have "pl_Installable ?plan" "pl_NginxConfig ?plan \<noteq> []"
    by (simp_all add: BuildPlan_def Let_def gateway_plan_fields(2) sample_env_def)
  moreover have "po_Gateway sample_options = GatewayEnabled" "po_GatewayPort sample_options = 0"
      "env_ListeningPorts sample_env = [80, 18081]"
      "env_ProxyCandidates sample_env = [\<lparr>pc_ConfigPath = ''/etc/nginx/app.conf'', pc_Upstream = ''http://127.0.0.1:3000'',
       pc_Port = 3000, pc_Directive = ''proxy_pass http://127.0.0.1:3000;''\<rparr>]"
    by (simp_all add: sample_options_def sample_env_def GatewayEnabled_def)
  ultimately show ?thesis
    using BuildPlan_sound [of "\<lambda>_. None" sample_env sample_options] unfolding Let_def by auto
qed

section \<open>The inspection reads\<close>

lemma EvalSymlinks_files: "EvalSymlinks p w = (r, w') \<Longrightarrow> w_files w' = w_files w"
  by (auto simp: EvalSymlinks_def sys_def split: prod.splits option.splits dest: next_fault_files)

lemma readConfigFile_files: "readConfigFile root path item w = (r, w') \<Longrightarrow> w_files w' = w_files w"
  by (cases r) (auto simp: readConfigFile_def io_outcomes split: if_splits dest!: reads_files EvalSymlinks_files)

lemma nginx_visit_reading: "reading (nginx_visit root)"
  unfolding reading_def
  by (auto simp: nginx_visit_def Let_def split: if_splits prod.splits sum.splits dest!: readConfigFile_files)

lemma ports_of_files_reads: "ports_of_files paths w = (ports, w') \<Longrightarrow> w_files w' = w_files w"
  by (induction paths arbitrary: w ports) (fastforce split: prod.splits sum.splits dest!: reads_files)+

lemma inspectNginx_files: "inspectNginx root w = (r, w') \<Longrightarrow> w_files w' = w_files w"
  unfolding inspectNginx_def by (auto split: prod.splits dest!: WalkDir_files [OF _ nginx_visit_reading])

lemma Inspect_files:
  assumes "Inspect parse goarch root arch runner options w = (r, w')"
  shows "w_files w' = w_files w"
proof -
  let ?root = "if root = [] then ''/'' else root"
  obtain a where a: "AbsPath ?root w = (Inr a, w)" by (cases "IsAbs ?root") (simp_all add: AbsPath_def)
  obtain x v where x: "ReadFile (rootPath a ''/etc/os-release'') w = (x, v)" by fastforce
  have v: "w_files v = w_files w" using reads_files(3) [OF x] by simp
  show ?thesis
  proof (cases x)
    case (Inl e)
    then show ?thesis using assms a x v by (simp add: Inspect_def io_bind_def io_wrap_def)
  next
    case (Inr osRelease)
    obtain ports v1 where p: "ports_of_files [rootPath a ''/proc/net/tcp'', rootPath a ''/proc/net/tcp6''] v = (ports, v1)"
      by fastforce
    obtain found v2 where n: "inspectNginx a v1 = (found, v2)" by fastforce
    have "w' = v2"
      using assms a x Inr p n
      by (cases found) (simp add: Inspect_def inspectListeningPorts_def io_bind_def io_wrap_def Let_def)
    then show ?thesis using ports_of_files_reads [OF p] inspectNginx_files [OF n] v by simp
  qed
qed

text \<open>The walk through the Nginx configuration is complete: it never runs out of fuel.\<close>

lemma inspectNginx_walk_ends:
  assumes "clean_world w" and "IsAbs root"
    and "WalkDir (nginx_visit root) failed (rootPath root ''/etc/nginx'') s w = ((e, s'), w')"
  shows "e \<noteq> WalkNoFuel"
proof -
  have "\<not> IsAbs []" by (simp add: IsAbs_def HasPrefix_def)
  then have "rootPath root ''/etc/nginx'' \<noteq> []" using IsAbs_rootPath [OF assms(2), of "''/etc/nginx''"] by auto
  then show ?thesis using WalkDir_ends [OF assms(3) nginx_visit_reading assms(1)] by blast
qed

end
