(* ===== verification/Apply_Props.thy ===== *)
theory Apply_Props
  imports Apply Transaction_Props Release_Bundle_Props Plan_Props
begin

text \<open>
  What an installation guarantees: a completed one has put in place exactly the binary that the signed manifest
  describes, and a failed one whose rollback reports no error has left every file of its plan as it was. Both are proved
  with one notion of a triple over the steps of the installation.
\<close>

section \<open>Triples\<close>

text \<open>\<open>Q\<close> holds after a step that succeeds, \<open>E\<close> after one that stops the installation.\<close>

definition triple ::
  "(fileTransaction \<Rightarrow> world \<Rightarrow> bool) \<Rightarrow> 'a tx \<Rightarrow> ('a \<Rightarrow> fileTransaction \<Rightarrow> world \<Rightarrow> bool) \<Rightarrow> (fileTransaction \<Rightarrow> world \<Rightarrow> bool) \<Rightarrow> bool" where
  "triple I m Q E \<longleftrightarrow> (\<forall>ft w r ft' w'. I ft w \<longrightarrow> m ft w = (r, ft', w') \<longrightarrow>
     (case r of Inl _ \<Rightarrow> E ft' w' | Inr x \<Rightarrow> Q x ft' w'))"

lemma tripleI:
  "(\<And>ft w r ft' w'. I ft w \<Longrightarrow> m ft w = (r, ft', w') \<Longrightarrow> (case r of Inl _ \<Rightarrow> E ft' w' | Inr x \<Rightarrow> Q x ft' w')) \<Longrightarrow> triple I m Q E"
  unfolding triple_def by blast

lemma tripleD_Inr: "triple I m Q E \<Longrightarrow> I ft w \<Longrightarrow> m ft w = (Inr x, ft', w') \<Longrightarrow> Q x ft' w'"
  unfolding triple_def by fastforce

lemma tripleD_Inl: "triple I m Q E \<Longrightarrow> I ft w \<Longrightarrow> m ft w = (Inl e, ft', w') \<Longrightarrow> E ft' w'"
  unfolding triple_def by fastforce

lemma triple_return: "triple (Q x) (tx_return x) Q E"
  by (rule tripleI) (auto simp: tx_return_def)

lemma triple_bind: "triple I m Q E \<Longrightarrow> (\<And>x. triple (Q x) (k x) R E) \<Longrightarrow> triple I (tx_bind m k) R E"
proof (rule tripleI)
  fix ft w r ft' w'
  assume m: "triple I m Q E" and k: "\<And>x. triple (Q x) (k x) R E" and I: "I ft w" and run: "tx_bind m k ft w = (r, ft', w')"
  obtain r1 ft1 w1 where r1: "m ft w = (r1, ft1, w1)" by (metis prod.collapse)
  show "case r of Inl _ \<Rightarrow> E ft' w' | Inr x \<Rightarrow> R x ft' w'"
  proof (cases r1)
    case (Inl e)
    then show ?thesis using run r1 tripleD_Inl [OF m I] by (auto simp: tx_bind_def)
  next
    case (Inr x)
    have "Q x ft1 w1" using tripleD_Inr [OF m I] r1 Inr by blast
    moreover have "k x ft1 w1 = (r, ft', w')" using run r1 Inr by (simp add: tx_bind_def)
    ultimately show ?thesis using k [of x] unfolding triple_def by blast
  qed
qed

lemma triple_weaken:
  "triple I m Q E \<Longrightarrow> (\<And>ft w. J ft w \<Longrightarrow> I ft w) \<Longrightarrow> (\<And>x ft w. Q x ft w \<Longrightarrow> R x ft w) \<Longrightarrow> triple J m R E"
  unfolding triple_def by (fastforce split: sum.splits)

lemma triple_returnI: "(\<And>ft w. I ft w \<Longrightarrow> Q x ft w) \<Longrightarrow> triple I (tx_return x) Q E"
  by (rule triple_weaken [OF triple_return])

lemma triple_pure: "(P \<Longrightarrow> triple I m Q E) \<Longrightarrow> triple (\<lambda>ft w. I ft w \<and> P) m Q E"
  unfolding triple_def by blast

lemma triple_each: "list_all (\<lambda>m. triple I m (\<lambda>_. I) E) ms \<Longrightarrow> triple I (tx_each ms) (\<lambda>_. I) E"
proof (induction ms)
  case Nil
  show ?case using triple_return [of "\<lambda>_. I" "()" E] by simp
next
  case (Cons m ms)
  then show ?case by (auto intro: triple_bind [where Q = "\<lambda>_. I"])
qed

lemma triple_when: "(b \<Longrightarrow> triple I m (\<lambda>_. I) E) \<Longrightarrow> triple I (tx_when b m) (\<lambda>_. I) E"
  using triple_return [of "\<lambda>_. I" "()" E] by (simp add: tx_when_def)

lemma triple_io:
  assumes "\<And>ft w r w'. I ft w \<Longrightarrow> m w = (r, w') \<Longrightarrow> (case r of Inl _ \<Rightarrow> E ft w' | Inr x \<Rightarrow> Q x ft w')"
  shows "triple I (tx_io m) Q E"
proof (rule tripleI)
  fix ft w r ft' w'
  assume I: "I ft w" and run: "tx_io m ft w = (r, ft', w')"
  obtain r1 w1 where r1: "m w = (r1, w1)" by fastforce
  show "case r of Inl _ \<Rightarrow> E ft' w' | Inr x \<Rightarrow> Q x ft' w'"
    using assms [OF I r1] run r1 by (cases r1) (auto simp: tx_io_def)
qed

lemma triple_of: "(\<And>ft w. I ft w \<Longrightarrow> E ft w) \<Longrightarrow> (\<And>x ft w. c = Inr x \<Longrightarrow> I ft w \<Longrightarrow> Q x ft w) \<Longrightarrow> triple I (tx_of c) Q E"
  unfolding tx_of_def by (rule triple_io) (auto split: sum.splits)

lemma triple_command:
  "(\<And>ft w. I ft w \<Longrightarrow> E ft w) \<Longrightarrow> triple I (tx_command runner cmd) (\<lambda>_. I) E"
  "(\<And>ft w. I ft w \<Longrightarrow> E ft w) \<Longrightarrow> triple I (labelled_command label runner cmd) (\<lambda>_. I) E"
  "(\<And>ft w. I ft w \<Longrightarrow> E ft w) \<Longrightarrow> triple I (register_with run options token) (\<lambda>_. I) E"
  unfolding tx_command_def labelled_command_def register_with_def by (rule triple_of; blast)+

lemma triple_step:
  assumes "\<And>ft w r ft' w'. I ft w \<Longrightarrow> step ft w = (r, ft', w') \<Longrightarrow> (case r of Inl _ \<Rightarrow> E ft' w' | Inr x \<Rightarrow> Q x ft' w')"
  shows "triple I (tx_run_step step) Q E"
proof (rule tripleI)
  fix ft w r ft' w'
  assume I: "I ft w" and run: "tx_run_step step ft w = (r, ft', w')"
  obtain r1 ft1 w1 where r1: "step ft w = (r1, ft1, w1)" by (metis prod.collapse)
  show "case r of Inl _ \<Rightarrow> E ft' w' | Inr x \<Rightarrow> Q x ft' w'"
    using assms [OF I r1] run r1 by (cases r1) (auto simp: tx_run_step_def)
qed

section \<open>The steps common to both proofs\<close>

text \<open>An invariant that each kind of step of an installation keeps, apart from the installation of files: it survives a step that
  leaves the files alone, a change of the other fields of the record, and the creation of the installer's directories.\<close>

definition stable :: "string \<Rightarrow> tx_lib \<Rightarrow> (fileTransaction \<Rightarrow> world \<Rightarrow> bool) \<Rightarrow> bool" where
  "stable root lib I \<longleftrightarrow>
     (\<forall>ft w w'. I ft w \<longrightarrow> w_files w' = w_files w \<longrightarrow> I ft w')
     \<and> (\<forall>f ft w r ft' w'. I ft w \<longrightarrow> tr_ID (f (ft_record ft)) = tr_ID (ft_record ft) \<longrightarrow>
          tr_Changes (f (ft_record ft)) = tr_Changes (ft_record ft) \<longrightarrow> record_and_persist lib f ft w = (r, ft', w') \<longrightarrow> I ft' w')
     \<and> (\<forall>d mode ft w r w'. d \<in> {''/etc/my-safe'', ''/var/lib/my-safe''} \<longrightarrow> I ft w \<longrightarrow>
          ensureDirectory root d mode w = (r, w') \<longrightarrow> I ft w')"

lemma stable_reads: "stable root lib I \<Longrightarrow> I ft w \<Longrightarrow> w_files w' = w_files w \<Longrightarrow> I ft w'"
  unfolding stable_def by blast

lemma stable_record:
  "stable root lib I \<Longrightarrow> I ft w \<Longrightarrow> record_and_persist lib f ft w = (r, ft', w') \<Longrightarrow>
     tr_ID (f (ft_record ft)) = tr_ID (ft_record ft) \<Longrightarrow> tr_Changes (f (ft_record ft)) = tr_Changes (ft_record ft) \<Longrightarrow> I ft' w'"
  unfolding stable_def by blast

lemma triple_io_reads:
  assumes "stable root lib I" and "\<And>ft w. I ft w \<Longrightarrow> E ft w" and "\<And>w r w'. m w = (r, w') \<Longrightarrow> w_files w' = w_files w"
  shows "triple I (tx_io m) (\<lambda>_. I) E"
proof (rule triple_io)
  fix ft w r w'
  assume "I ft w" and "m w = (r, w')"
  then have "I ft w'" using stable_reads [OF assms(1)] assms(3) by blast
  then show "case r of Inl _ \<Rightarrow> E ft w' | Inr x \<Rightarrow> I ft w'" using assms(2) by (cases r) auto
qed

lemma triple_record:
  assumes "stable root lib I" and "\<And>ft w. I ft w \<Longrightarrow> E ft w" and "step = record_and_persist lib f"
    and "\<And>r. tr_ID (f r) = tr_ID r \<and> tr_Changes (f r) = tr_Changes r"
  shows "triple I (tx_run_step step) (\<lambda>_. I) E"
  unfolding assms(3) using stable_record [OF assms(1)] assms(2,4) by (intro triple_step) (auto split: sum.splits)

lemma triple_records:
  assumes "stable root lib I" and "\<And>ft w. I ft w \<Longrightarrow> E ft w"
  shows "triple I (tx_run_step (RecordService lib s)) (\<lambda>_. I) E"
    "triple I (tx_run_step (RecordNginxChange lib)) (\<lambda>_. I) E"
    "triple I (tx_run_step (tx_Commit lib)) (\<lambda>_. I) E"
proof -
  show "triple I (tx_run_step (RecordService lib s)) (\<lambda>_. I) E"
    by (rule triple_record [OF assms, OF _ RecordService_def]) simp_all
  show "triple I (tx_run_step (RecordNginxChange lib)) (\<lambda>_. I) E"
    by (rule triple_record [OF assms, OF _ RecordNginxChange_def]) simp_all
  show "triple I (tx_run_step (tx_Commit lib)) (\<lambda>_. I) E"
    by (rule triple_record [OF assms, OF _ tx_Commit_def]) simp_all
qed

lemma add_account_keeps:
  assumes "stable root lib I" and "I ft w" and "add_account runner cmd (record_and_persist lib f) ft w = (r, ft', w')"
    and "\<And>r. tr_ID (f r) = tr_ID r \<and> tr_Changes (f r) = tr_Changes r"
  shows "I ft' w'"
  using assms stable_record [OF assms(1,2)] by (auto simp: add_account_def split: list.splits)

lemma triple_account:
  assumes "stable root lib I" and "\<And>ft w. I ft w \<Longrightarrow> E ft w"
  shows "triple I (tx_run_step (ensureAccount lib runner name home)) (\<lambda>_. I) E"
proof (rule triple_step)
  fix ft w r ft' w'
  assume I: "I ft w" and run: "ensureAccount lib runner name home ft w = (r, ft', w')"
  let ?first = "if runner [''getent'', ''group'', name] = None then (Inr (), ft, w)
     else add_account runner [''groupadd'', ''--system'', name] (RecordCreatedGroup lib name) ft w"
  obtain r1 ft1 w1 where r1: "?first = (r1, ft1, w1)" by (metis prod.collapse)
  have I1: "I ft1 w1"
    using r1 I add_account_keeps [OF assms(1) I, of runner _ "\<lambda>r. r\<lparr>tr_CreatedGroups := tr_CreatedGroups r @ [name]\<rparr>"]
    by (auto simp: RecordCreatedGroup_def split: if_splits)
  have "I ft' w'"
  proof (cases r1)
    case (Inl e)
    then show ?thesis using run r1 I1 by (simp add: ensureAccount_def)
  next
    case (Inr u)
    then show ?thesis
      using run r1 I1 add_account_keeps [OF assms(1) I1, of runner _ "\<lambda>r. r\<lparr>tr_CreatedUsers := tr_CreatedUsers r @ [name]\<rparr>"]
      by (auto simp: ensureAccount_def RecordCreatedUser_def split: if_splits)
  qed
  then show "case r of Inl _ \<Rightarrow> E ft' w' | Inr x \<Rightarrow> I ft' w'" using assms(2) by (cases r) auto
qed

lemma triple_directory:
  assumes "stable root lib I" and "\<And>ft w. I ft w \<Longrightarrow> E ft w" and "d = ''/etc/my-safe'' \<or> d = ''/var/lib/my-safe''"
  shows "triple I (tx_io (ensureDirectory root d mode)) (\<lambda>_. I) E"
proof (rule triple_io)
  fix ft w r w'
  assume "I ft w" and "ensureDirectory root d mode w = (r, w')"
  then have "I ft w'" using assms(1,3) unfolding stable_def by blast
  then show "case r of Inl _ \<Rightarrow> E ft w' | Inr x \<Rightarrow> I ft w'" using assms(2) by (cases r) auto
qed

lemma triple_prepare_host:
  assumes "stable (ao_Root options) (al_tx lib) I" and "\<And>ft w. I ft w \<Longrightarrow> E ft w"
  shows "triple I (prepare_host lib options runner gateway) (\<lambda>_. I) E"
  unfolding prepare_host_def
proof (rule triple_each, unfold list.pred_inject, intro conjI TrueI)
  show "triple I (tx_io (ensureDirectory (ao_Root options) ''/etc/my-safe'' 488)) (\<lambda>_. I) E"
    by (rule triple_directory [OF assms]) simp_all
  show "triple I (tx_io (ensureDirectory (ao_Root options) ''/var/lib/my-safe'' 448)) (\<lambda>_. I) E"
    by (rule triple_directory [OF assms]) simp_all
qed (intro list.pred_inject(1) triple_when triple_records [OF assms] triple_account [OF assms]; assumption)+

lemma read_artifact_files: "read_artifact lib options manifest component arch w = (r, w') \<Longrightarrow> w_files w' = w_files w"
  by (cases r) (auto simp: read_artifact_def io_outcomes split: sum.splits dest: reads_files)

section \<open>Existing files are kept\<close>

definition kept :: "string \<Rightarrow> string \<Rightarrow> string \<Rightarrow> node \<Rightarrow> fileTransaction \<Rightarrow> world \<Rightarrow> bool" where
  "kept root j q x ft w \<longleftrightarrow> ft_root ft = root \<and> ft_journalPath ft = j \<and> node_at w q = Some x"

lemma persist_keeps:
  assumes "persist lib ft w = (r, w')" and "node_at w q \<noteq> None" and "q \<noteq> ft_journalPath ft"
  shows "node_at w' q = node_at w q"
  using assms by (auto simp: persist_def io_wrap_def split: sum.splits prod.splits dest: writeAtomic_keeps)

lemma record_and_persist_fields:
  assumes "record_and_persist lib f ft w = (r, ft', w')"
  shows "ft_root ft' = ft_root ft" "ft_journalPath ft' = ft_journalPath ft" "ft_record ft' = f (ft_record ft)"
    "persist lib (with_record f ft) w = (r, w')"
  using assms by (auto simp: record_and_persist_def with_record_def split: prod.splits)

lemma record_and_persist_keeps:
  assumes "record_and_persist lib f ft w = (r, ft', w')" and "node_at w q \<noteq> None" and "q \<noteq> ft_journalPath ft"
  shows "node_at w' q = node_at w q"
  using persist_keeps [OF record_and_persist_fields(4) [OF assms(1)] assms(2)] assms(3) by (simp add: with_record_def)

lemma ensureDirectory_cases:
  assumes "ensureDirectory root d mode w = (r, w')"
  obtains "w' = w"
  | r1 where "MkdirAll (rootPath root d) mode w = (r1, w')"
  | v r2 where "MkdirAll (rootPath root d) mode w = (Inr (), v)" "ChmodFile (rootPath root d) mode v = (r2, w')"
proof -
  have "ensureDirectory root d mode = (if \<not> withinRoot root (rootPath root d) then io_fail (''directory escapes root: '' @ d)
      else io_then (os_label (''create '' @ d @ '': '') (MkdirAll (rootPath root d) mode))
           (os_label (''chmod '' @ d @ '': '') (ChmodFile (rootPath root d) mode)))"
    by (simp only: ensureDirectory_def Let_def)
  then show ?thesis using assms that by (cases r) (auto simp: io_outcomes split: if_splits)
qed

lemma ensureDirectory_keeps:
  assumes "ensureDirectory root d mode w = (r, w')" and "node_at w q \<noteq> None" and "q \<noteq> rootPath root d"
  shows "node_at w' q = node_at w q"
  using assms(1)
proof (cases rule: ensureDirectory_cases)
  case (2 r1)
  then show ?thesis using MkdirAll_keeps assms(2) by blast
next
  case (3 v r2)
  then show ?thesis using MkdirAll_keeps [OF 3(1) assms(2)] touchesD [OF touches_ChmodFile _ 3(2)] assms(3) by metis
qed simp

lemma kept_stable:
  assumes "q \<noteq> j" and "q \<noteq> rootPath root ''/etc/my-safe''" and "q \<noteq> rootPath root ''/var/lib/my-safe''"
  shows "stable root lib (kept root j q x)"
  unfolding stable_def
proof (intro conjI allI impI)
  fix ft and w w' :: world
  assume "kept root j q x ft w" and "w_files w' = w_files w"
  then show "kept root j q x ft w'" by (simp add: kept_def)
next
  fix f ft w r ft' w'
  assume k: "kept root j q x ft w" and run: "record_and_persist lib f ft w = (r, ft', w')"
  have "node_at w' q = node_at w q"
    using record_and_persist_keeps [OF run] k assms(1) by (simp add: kept_def)
  then show "kept root j q x ft' w'" using record_and_persist_fields [OF run] k by (simp add: kept_def)
next
  fix d mode ft w r w'
  assume d: "d \<in> {''/etc/my-safe'', ''/var/lib/my-safe''}" and k: "kept root j q x ft w"
    and run: "ensureDirectory root d mode w = (r, w')"
  have "q \<noteq> rootPath root d" using d assms(2,3) by blast
  then show "kept root j q x ft w'" using ensureDirectory_keeps [OF run] k by (simp add: kept_def)
qed

lemma prepare_change_keeps:
  assumes "prepare_change lib ft p content w = (r, w')" and "node_at w q \<noteq> None"
  shows "node_at w' q = node_at w q"
  using assms(1)
proof (cases rule: prepare_cases)
  case (2 e v)
  then show ?thesis using MkdirAll_keeps assms(2) by blast
next
  case (3 v e)
  then show ?thesis using MkdirAll_keeps [OF 3(1) assms(2)] by simp
next
  case (4 v)
  then show ?thesis using MkdirAll_keeps [OF 4(1) assms(2)] by simp
next
  case (5 v u e d)
  have u: "node_at u q = node_at w q" using MkdirAll_keeps [OF 5(1) assms(2)] 5(2) by simp
  then show ?thesis using MkdirAll_keeps [OF 5(3), of q] assms(2) by simp
next
  case (6 v u x m c y)
  have u: "node_at u q = node_at w q" using MkdirAll_keeps [OF 6(1) assms(2)] 6(2) by simp
  then have x: "node_at x q = node_at w q" using MkdirAll_keeps [OF 6(4), of q] assms(2) by simp
  then show ?thesis using copyExclusive_other [OF 6(5), of q] assms(2) by simp
qed simp

lemma InstallBytes_cases:
  assumes "InstallBytes lib p content mode ft w = (r, ft', w')"
  obtains e where "r = Inl e" "ft' = ft" "prepare_change lib ft p content w = (Inl e, w')"
  | ch e w1 where "r = Inl e" "prepare_change lib ft p content w = (Inr ch, w1)"
      "record_and_persist lib (add_change ch) ft w1 = (Inl e, ft', w')"
  | ch w1 w2 r3 where "prepare_change lib ft p content w = (Inr ch, w1)"
      "record_and_persist lib (add_change ch) ft w1 = (Inr (), ft', w2)"
      "tx_writeAtomic (rootPath (ft_root ft) p) content mode w2 = (r3, w')" "(\<exists>u. r = Inr u) \<longleftrightarrow> (\<exists>u. r3 = Inr u)"
proof -
  obtain pr w1 where pr: "prepare_change lib ft p content w = (pr, w1)" by fastforce
  show ?thesis
  proof (cases pr)
    case (Inl e)
    then show ?thesis using assms pr that(1) by (auto simp: InstallBytes_def)
  next
    case (Inr ch)
    obtain r2 ft2 w2 where rp: "record_and_persist lib (add_change ch) ft w1 = (r2, ft2, w2)" by (metis prod.collapse)
    have root: "ft_root ft2 = ft_root ft" using record_and_persist_fields(1) [OF rp] .
    show ?thesis
    proof (cases r2)
      case (Inl e)
      then show ?thesis using assms pr Inr rp \<open>pr = Inr ch\<close> that(2) by (auto simp: InstallBytes_def)
    next
      case ok: (Inr u)
      obtain r3 w3 where wr: "tx_writeAtomic (rootPath (ft_root ft) p) content mode w2 = (r3, w3)" by fastforce
      have "ft' = ft2" "w' = w3" "(\<exists>u. r = Inr u) \<longleftrightarrow> (\<exists>u. r3 = Inr u)"
        using assms pr Inr rp ok wr root by (auto simp: InstallBytes_def io_wrap_def split: sum.splits)
      then show ?thesis using that(3) [OF pr [unfolded Inr]] rp ok wr by simp
    qed
  qed
qed

lemma InstallBytes_keeps:
  assumes "InstallBytes lib p content mode ft w = (r, ft', w')" and "kept root j q x ft w" and "q \<noteq> j"
    and "q \<noteq> rootPath root p"
  shows "kept root j q x ft' w'"
  using assms(1)
proof (cases rule: InstallBytes_cases)
  case (1 e)
  then show ?thesis using prepare_change_keeps [OF 1(3), of q] assms(2) by (simp add: kept_def)
next
  case (2 ch e w1)
  have "node_at w1 q = Some x" using prepare_change_keeps [OF 2(2), of q] assms(2) by (simp add: kept_def)
  then show ?thesis
    using record_and_persist_keeps [OF 2(3), of q] record_and_persist_fields [OF 2(3)] assms(2,3) by (simp add: kept_def)
next
  case (3 ch w1 w2 r3)
  have "node_at w1 q = Some x" using prepare_change_keeps [OF 3(1), of q] assms(2) by (simp add: kept_def)
  then have "node_at w2 q = Some x"
    using record_and_persist_keeps [OF 3(2), of q] assms(2,3) by (simp add: kept_def)
  then show ?thesis
    using writeAtomic_keeps [OF 3(3), of q] record_and_persist_fields [OF 3(2)] assms(2,4) by (simp add: kept_def)
qed

lemma InstallBytes_installs:
  assumes "InstallBytes lib p content mode ft w = (Inr u, ft', w')"
  shows "kept (ft_root ft) (ft_journalPath ft) (rootPath (ft_root ft) p) (NFile mode content) ft' w'"
  using assms
proof (cases rule: InstallBytes_cases)
  case (3 ch w1 w2 r3)
  then show ?thesis
    using writeAtomic_Inr record_and_persist_fields [OF 3(2)] by (auto simp: kept_def)
qed simp_all

lemma triple_install_keeps:
  "q \<noteq> j \<Longrightarrow> q \<noteq> rootPath root p \<Longrightarrow>
     triple (kept root j q x) (tx_run_step (InstallBytes lib p c m)) (\<lambda>_. kept root j q x) (\<lambda>_ _. True)"
  using InstallBytes_keeps by (intro triple_step) (auto split: sum.splits)

lemma triple_install_all_keeps:
  assumes "q \<noteq> j" and "\<forall>p \<in> set (map fst files). q \<noteq> rootPath root p"
  shows "triple (kept root j q x) (install_all lib files) (\<lambda>_. kept root j q x) (\<lambda>_ _. True)"
  unfolding install_all_def
  by (rule triple_each) (use assms in \<open>fastforce simp: list_all_iff intro: triple_install_keeps\<close>)

section \<open>Nginx and the activation\<close>

text \<open>A triple for the installation of the Nginx configuration gives one for the steps after the installation.\<close>

lemma nginx_read_files: "nginx_read root plan w = (r, w') \<Longrightarrow> w_files w' = w_files w"
  by (cases r) (auto simp: nginx_read_def Let_def io_outcomes split: if_splits dest!: reads_files)

lemma triple_nginx:
  assumes "stable root lib I" and "\<And>ft w. I ft w \<Longrightarrow> E ft w" and "\<And>ft w. J ft w \<Longrightarrow> E ft w"
    and "\<And>c m. pl_NginxConfig plan \<noteq> [] \<Longrightarrow> triple I (tx_run_step (InstallBytes lib (pl_NginxConfig plan) c m)) (\<lambda>_. J) E"
    and "\<And>ft w. pl_NginxConfig plan = [] \<or> pl_Upstream plan = [] \<or> pl_NginxReplacement plan = [] \<Longrightarrow> I ft w \<Longrightarrow> J ft w"
  shows "triple I (applyNginxGateway lib root runner plan) (\<lambda>_. J) E"
proof (cases "pl_NginxConfig plan = [] \<or> pl_Upstream plan = [] \<or> pl_NginxReplacement plan = []")
  case True
  then show ?thesis
    using triple_weaken [OF triple_return [of "\<lambda>_. J" "()" E], of I "\<lambda>_. J"] assms(5) by (simp add: applyNginxGateway_def)
next
  case False
  have panic: "triple I (\<lambda>ft w. (Inl Panicked, ft, w)) (\<lambda>_. J) E" using assms(2) by (auto intro: tripleI)
  have stop: "triple I (tx_of (Inl e)) (\<lambda>_. J) E" for e by (rule triple_of) (use assms(2) in auto)
  have change: "triple I (tx_each [tx_run_step (RecordNginxChange lib),
      tx_run_step (InstallBytes lib (pl_NginxConfig plan) c m), labelled_command l1 runner c1, labelled_command l2 runner c2]) (\<lambda>_. J) E"
    for c m l1 c1 l2 c2
    unfolding tx_each.simps
    by (rule triple_bind [OF triple_records(2) [OF assms(1,2)]], assumption,
        rule triple_bind [OF assms(4)], use False in blast,
        rule triple_bind [OF triple_command(2) [OF assms(3)]], assumption,
        rule triple_bind [OF triple_command(2) [OF assms(3)]], assumption, rule triple_return)
  have "triple I (nginx_rewrite lib runner plan info content) (\<lambda>_. J) E" for info content
    unfolding nginx_rewrite_def using panic stop change by (auto split: list.splits simp del: tx_each.simps)
  then have "triple I (case x of (info, content) \<Rightarrow> nginx_rewrite lib runner plan info content) (\<lambda>_. J) E" for x
    by (cases x) simp
  note rewrite = this
  show ?thesis
    unfolding applyNginxGateway_def if_not_P [OF False]
    by (rule triple_bind [OF triple_io_reads [OF assms(1,2)] rewrite]) (use nginx_read_files in auto)
qed

lemma triple_activate:
  assumes "stable (ao_Root options) (al_tx lib) I" and "\<And>ft w. I ft w \<Longrightarrow> E ft w" and "\<And>ft w. J ft w \<Longrightarrow> E ft w"
    and "\<And>c m. pl_NginxConfig plan \<noteq> [] \<Longrightarrow> triple I (tx_run_step (InstallBytes (al_tx lib) (pl_NginxConfig plan) c m)) (\<lambda>_. J) E"
    and "\<And>ft w. I ft w \<Longrightarrow> J ft w"
  shows "triple I (activate lib runner options polls token plan) (\<lambda>_. J) E"
proof -
  let ?nginx = "tx_when (pl_GatewayEnabled plan) (applyNginxGateway (al_tx lib) (ao_Root options) (apply_runner runner) plan)"
  have nginx: "triple I ?nginx (\<lambda>_. J) E"
  proof (cases "pl_GatewayEnabled plan")
    case True
    then show ?thesis using triple_nginx [OF assms(1-4)] assms(5) by (simp add: tx_when_def)
  next
    case False
    then show ?thesis
      using triple_weaken [OF triple_return [of "\<lambda>_. J" "()" E], of I "\<lambda>_. J"] assms(5) by (simp add: tx_when_def)
  qed
  note cmd = triple_command(1) [OF assms(2)] triple_command(3) [OF assms(2)]
  show ?thesis
    unfolding activate_def Let_def tx_each.simps
    by (rule triple_bind [OF cmd(1)], assumption, rule triple_bind [OF cmd(1)], assumption,
        rule triple_bind [OF triple_when [OF cmd(1)]], assumption, rule triple_bind [OF cmd(1)], assumption,
        rule triple_bind [OF triple_when [OF cmd(2)]], assumption, rule triple_bind [OF cmd(1)], assumption,
        rule triple_bind [OF triple_when [OF cmd(1)]], assumption,
        rule triple_bind [OF triple_when [OF triple_of [OF assms(2)]]], assumption, assumption,
        rule triple_bind [OF nginx], rule triple_return)
qed

text \<open>The files of an installation: every path at most once, the agent's binary among them.\<close>

definition standard_paths :: "Plan \<Rightarrow> string list" where
  "standard_paths plan =
     [''/usr/local/bin/mysafe-agent'', ''/etc/systemd/system/my-safe-agent.service'', ''/etc/my-safe/agent.env'',
      installedReleasePath, ''/etc/my-safe/release-public-key.pem'']
     @ (if pl_GatewayEnabled plan
        then [''/usr/local/bin/mysafe-gateway'', ''/etc/systemd/system/my-safe-gateway.service'', ''/etc/my-safe/gateway.env'']
        else [])"

definition files_ok :: "Plan \<Rightarrow> install_file list \<Rightarrow> bool" where
  "files_ok plan files \<longleftrightarrow> distinct (map fst files) \<and> set (map fst files) \<subseteq> set (standard_paths plan)"

lemma triple_get:
  assumes "\<And>ft0. triple (\<lambda>ft w. ft = ft0 \<and> I ft w) (m ft0) Q E"
  shows "triple I (\<lambda>ft. m ft ft) Q E"
proof (rule tripleI)
  fix ft w r ft' w'
  assume "I ft w" and "m ft ft w = (r, ft', w')"
  then show "case r of Inl _ \<Rightarrow> E ft' w' | Inr x \<Rightarrow> Q x ft' w'"
    using assms [of ft] unfolding triple_def by blast
qed

text \<open>\<open>B\<close> is what is known of the agent's binary once it has been read.\<close>

lemma triple_collect_files:
  assumes "stable (ao_Root options) (al_tx lib) I" and "\<And>ft w. I ft w \<Longrightarrow> E ft w"
    and "\<And>ft w c w'. I ft w \<Longrightarrow>
      read_artifact lib options manifest ''agent'' (env_Architecture (insp_Environment inspection)) w = (Inr c, w') \<Longrightarrow> B c"
  shows "triple I (collect_files lib options publicKey manifest inspection)
     (\<lambda>files ft w. I ft w \<and> files_ok (insp_Plan inspection) files
        \<and> (\<exists>c rest. files = (''/usr/local/bin/mysafe-agent'', c, 493) # rest \<and> B c)) E"
proof -
  let ?arch = "env_Architecture (insp_Environment inspection)"
  let ?plan = "insp_Plan inspection"
  have gateway: "triple I (gateway_files lib options manifest inspection)
      (\<lambda>gs ft w. I ft w \<and> (gs = [] \<or> pl_GatewayEnabled ?plan \<and> map fst gs = [''/usr/local/bin/mysafe-gateway'',
        ''/etc/systemd/system/my-safe-gateway.service'', ''/etc/my-safe/gateway.env''])) E" (is "triple I _ ?G E")
  proof (cases "pl_GatewayEnabled ?plan")
    case False
    then show ?thesis by (auto simp: gateway_files_def intro: triple_returnI)
  next
    case True
    show ?thesis
      unfolding gateway_files_def if_not_P [OF iffD2 [OF not_not True]]
      by (rule triple_bind [OF triple_io_reads [OF assms(1,2)]], assumption, rule read_artifact_files, assumption,
          rule triple_bind [OF triple_of [where Q = "\<lambda>_. I"]], rule assms(2), assumption, assumption,
          rule triple_returnI) (simp add: True)
  qed
  have read: "triple I (tx_io (read_artifact lib options manifest ''agent'' ?arch)) (\<lambda>c ft w. I ft w \<and> B c) E"
  proof (rule triple_io)
    fix ft w r w'
    assume I: "I ft w" and run: "read_artifact lib options manifest ''agent'' ?arch w = (r, w')"
    have "I ft w'" using stable_reads [OF assms(1) I] read_artifact_files [OF run] by simp
    then show "case r of Inl _ \<Rightarrow> E ft w' | Inr c \<Rightarrow> I ft w' \<and> B c"
      using assms(2) assms(3) [OF I] run by (cases r) auto
  qed
  have key: "triple I (tx_of (pinned_key lib publicKey))
      (\<lambda>ks ft w. I ft w \<and> (ks = [] \<or> map fst ks = [''/etc/my-safe/release-public-key.pem''])) E"
    by (rule triple_of) (use assms(2) in \<open>auto simp: pinned_key_def split: sum.splits if_splits\<close>)
  let ?Q = "\<lambda>files ft w. I ft w \<and> files_ok ?plan files \<and> (\<exists>c rest. files = (''/usr/local/bin/mysafe-agent'', c, 493) # rest \<and> B c)"
  have last: "triple I (tx_bind (gateway_files lib options manifest inspection) (\<lambda>gs. tx_return
       ([(''/usr/local/bin/mysafe-agent'', c, 493), (''/etc/systemd/system/my-safe-agent.service'', unit, 420),
         (''/etc/my-safe/agent.env'', agentEnvironment (ao_ControlURL options), 416), (installedReleasePath, state, 384)]
        @ ks @ gs))) ?Q E"
    if "B c" "ks = [] \<or> map fst ks = [''/etc/my-safe/release-public-key.pem'']" for c unit state and ks :: "install_file list"
  proof (rule triple_bind [OF gateway], rule triple_pure, rule triple_returnI)
    fix gs :: "install_file list" and ft and w :: world
    assume gs: "gs = [] \<or> pl_GatewayEnabled ?plan \<and> map fst gs = [''/usr/local/bin/mysafe-gateway'',
        ''/etc/systemd/system/my-safe-gateway.service'', ''/etc/my-safe/gateway.env'']" and I: "I ft w"
    let ?files = "[(''/usr/local/bin/mysafe-agent'', c, 493), (''/etc/systemd/system/my-safe-agent.service'', unit, 420),
         (''/etc/my-safe/agent.env'', agentEnvironment (ao_ControlURL options), 416), (installedReleasePath, state, 384)] @ ks @ gs"
    have "files_ok ?plan ?files"
      using that(2) gs
      by (elim disjE conjE) (simp_all add: files_ok_def standard_paths_def installedReleasePath_def)
    then show "I ft w \<and> files_ok ?plan ?files \<and> (\<exists>c rest. ?files = (''/usr/local/bin/mysafe-agent'', c, 493) # rest \<and> B c)"
      using I that(1) by simp
  qed
  show ?thesis
    unfolding collect_files_def
  proof (rule triple_bind [OF read], rule triple_pure)
    fix c
    assume B: "B c"
    show "triple I (tx_bind (tx_of (AgentUnit lib)) (\<lambda>agentUnit. tx_bind (tx_of (pinned_key lib publicKey)) (\<lambda>keyFiles ft.
       tx_bind (tx_of (installed_state lib manifest (tr_ID (ft_record ft)))) (\<lambda>installedState.
       tx_bind (gateway_files lib options manifest inspection) (\<lambda>gatewayFiles. tx_return
         ([(''/usr/local/bin/mysafe-agent'', c, 493), (''/etc/systemd/system/my-safe-agent.service'', agentUnit, 420),
           (''/etc/my-safe/agent.env'', agentEnvironment (ao_ControlURL options), 416), (installedReleasePath, installedState, 384)]
          @ keyFiles @ gatewayFiles))) ft))) ?Q E"
      by (rule triple_bind [OF triple_of [where Q = "\<lambda>_. I"]], rule assms(2), assumption, assumption,
          rule triple_bind [OF key], rule triple_pure, rule triple_get,
          rule triple_bind [OF triple_of [where Q = "\<lambda>_. I"]], use assms(2) in blast, blast, rule last [OF B], assumption)
  qed
qed

section \<open>Beginning a transaction\<close>

definition journal_path :: "string \<Rightarrow> string \<Rightarrow> string" where
  "journal_path root txID = JoinPath [rootPath root transactionDirectory, txID @ ''.json'']"

lemma RandomIO_files: "RandomIO pre sz w = (r, w') \<Longrightarrow> w_files w' = w_files w"
  by (auto simp: RandomIO_def io_try_def split: prod.splits dest: reads_files(5))

lemma RandomIO_name:
  assumes "RandomIO [] n w = (Inr s, w')"
  shows "slash \<notin> set s"
proof -
  obtain b where "s = RawURLEncoding b"
    using assms by (auto simp: RandomIO_def io_try_def Random_def split: prod.splits sum.splits)
  moreover have "\<not> url_safe slash" by code_simp
  ultimately show ?thesis using RawURLEncoding_safe [of b] by (auto simp: list_all_iff)
qed

lemma beginTransaction_Inr:
  assumes "beginTransaction lib root version now w = (Inr ft, w')"
  obtains a u v where "w_files a = w_files w" "MkdirAll (rootPath root transactionDirectory) 448 a = (Inr (), u)"
    "MkdirAll (rootPath root (backupDirectory @ tr_ID (ft_record ft))) 448 u = (Inr (), v)" "persist lib ft v = (Inr (), w')"
    "ft_root ft = root" "ft_journalPath ft = journal_path root (tr_ID (ft_record ft))"
    "slash \<notin> set (tr_ID (ft_record ft))" "tr_ID (ft_record ft) \<noteq> []"
proof -
  obtain r a where r: "RandomIO [] 8 w = (Inr r, a)"
    using assms by (auto simp: beginTransaction_def io_outcomes)
  define txID where "txID = twenty_digits (wrap64 now) @ ''_'' @ r"
  have "slash \<notin> set txID" "txID \<noteq> []"
    using RandomIO_name [OF r] twenty_digits_no_slash by (auto simp: txID_def)
  moreover obtain u v where "MkdirAll (rootPath root transactionDirectory) 448 a = (Inr (), u)"
    "MkdirAll (rootPath root (backupDirectory @ txID)) 448 u = (Inr (), v)" "persist lib ft v = (Inr (), w')"
    "ft_root ft = root" "ft_journalPath ft = journal_path root txID" "tr_ID (ft_record ft) = txID"
    using assms r by (auto simp: beginTransaction_def io_outcomes Let_def journal_path_def txID_def)
  ultimately show ?thesis using that [OF RandomIO_files [OF r]] by simp
qed

lemma beginTransaction_kept:
  assumes "beginTransaction lib root version now w = (Inr ft, w')" and "node_at w q = Some x"
    and "q \<noteq> journal_path root (tr_ID (ft_record ft))"
  shows "kept root (journal_path root (tr_ID (ft_record ft))) q x ft w'"
  using assms(1)
proof (cases rule: beginTransaction_Inr)
  case (1 a u v)
  have "node_at u q = Some x" using MkdirAll_keeps [OF 1(2), of q] 1(1) assms(2) by simp
  then have "node_at v q = Some x" using MkdirAll_keeps [OF 1(3), of q] by simp
  then show ?thesis using persist_keeps [OF 1(4), of q] 1(5,6) assms(3) by (simp add: kept_def)
qed

section \<open>Paths of the installer\<close>

lemma IsAbs_nonempty: "IsAbs p \<Longrightarrow> p \<noteq> []"
  by (auto simp: IsAbs_def HasPrefix_def)

lemma IsAbs_abs_in: "IsAbs cwd \<Longrightarrow> IsAbs (abs_in cwd p)"
  using IsAbs_nonempty [of cwd] by (cases "p = []") (auto simp: abs_in_def JoinPath_def IsAbs_append)

text \<open>The elements of the paths below the root that an installation uses.\<close>

lemma root_elems:
  assumes "root \<noteq> []"
  shows "elems (rootPath root ''/usr/local/bin/mysafe-agent'') = elems root @ [''usr'', ''local'', ''bin'', ''mysafe-agent'']"
    "elems (rootPath root ''/etc/systemd/system/my-safe-agent.service'') = elems root @ [''etc'', ''systemd'', ''system'', ''my-safe-agent.service'']"
    "elems (rootPath root ''/etc/my-safe/agent.env'') = elems root @ [''etc'', ''my-safe'', ''agent.env'']"
    "elems (rootPath root installedReleasePath) = elems root @ [''var'', ''lib'', ''my-safe'', ''installed-release.json'']"
    "elems (rootPath root ''/etc/my-safe/release-public-key.pem'') = elems root @ [''etc'', ''my-safe'', ''release-public-key.pem'']"
    "elems (rootPath root ''/usr/local/bin/mysafe-gateway'') = elems root @ [''usr'', ''local'', ''bin'', ''mysafe-gateway'']"
    "elems (rootPath root ''/etc/systemd/system/my-safe-gateway.service'') = elems root @ [''etc'', ''systemd'', ''system'', ''my-safe-gateway.service'']"
    "elems (rootPath root ''/etc/my-safe/gateway.env'') = elems root @ [''etc'', ''my-safe'', ''gateway.env'']"
    "elems (rootPath root ''/etc/my-safe'') = elems root @ [''etc'', ''my-safe'']"
    "elems (rootPath root ''/var/lib/my-safe'') = elems root @ [''var'', ''lib'', ''my-safe'']"
    "elems (rootPath root transactionDirectory) = elems root @ [''var'', ''lib'', ''my-safe-installer'', ''transactions'']"
  unfolding installedReleasePath_def transactionDirectory_def
  by (subst elems_rootPath [OF assms]; simp add: name_elem_def)+

lemma journal_elems:
  assumes "IsAbs root" and "slash \<notin> set txID" and "txID \<noteq> []"
  shows "elems (journal_path root txID) = elems root @ [''var'', ''lib'', ''my-safe-installer'', ''transactions'', txID @ ''.json'']"
proof -
  have "name_elem (txID @ ''.json'')" using assms(2,3) by (auto simp: name_elem_def append_eq_Cons_conv)
  then show ?thesis
    unfolding journal_path_def
    using elems_JoinPath [of "txID @ ''.json''" "rootPath root transactionDirectory"] IsAbs_rootPath [OF assms(1)]
      IsAbs_nonempty root_elems(11) [OF IsAbs_nonempty [OF assms(1)]] by simp
qed

lemma standard_path_inj:
  assumes "root \<noteq> []" and "p \<in> set (standard_paths plan)" and "p \<noteq> ''/usr/local/bin/mysafe-agent''"
  shows "rootPath root p \<noteq> rootPath root ''/usr/local/bin/mysafe-agent''"
proof -
  note names = root_elems [OF assms(1)]
  have "last (elems (rootPath root p)) \<noteq> ''mysafe-agent''"
    using assms(2,3) unfolding standard_paths_def set_append set_simps if_distrib [of set]
    by (elim UnE insertE emptyE; (simp only: names)?) (simp_all split: if_splits, (elim disjE; simp add: names)?)
  then show ?thesis using names(1) by (metis last_appendR last.simps list.distinct(1))
qed

section \<open>What has been verified before the transaction\<close>

lemma io_check_nil:
  "(case x of Some e \<Rightarrow> io_fail (g e) | None \<Rightarrow> m) w = (Inr r, w') \<longleftrightarrow> x = None \<and> m w = (Inr r, w')"
  by (cases x) auto

lemma verifyRelease_Inr:
  assumes "verifyRelease lib options w = (Inr (bytes, signature, key, manifest), w')"
  shows "release_key lib options = Inr key \<and> VerifySignature (al_rb lib) bytes signature key = None
     \<and> Decode (al_rb lib) bytes = Inr manifest \<and> w_files w' = w_files w"
  using assms by (auto simp: verifyRelease_def io_bind_Inr io_wrap_Inr io_check_Inr io_check_nil dest!: reads_files)

lemma loadInstalledRelease_files: "loadInstalledRelease decode root w = (r, w') \<Longrightarrow> w_files w' = w_files w"
  by (auto simp: loadInstalledRelease_def Let_def io_try_def io_bind_def io_wrap_def
      split: prod.splits sum.splits os_error.splits if_splits dest!: reads_files)

lemma apply_verify_Inr:
  assumes "apply_verify lib runner options w = (Inr (key, manifest, inspection), w')"
  obtains bytes signature where "release_key lib options = Inr key"
    "VerifySignature (al_rb lib) bytes signature key = None" "Decode (al_rb lib) bytes = Inr manifest" "w_files w' = w_files w"
proof -
  obtain bytes signature a installed b where
      v: "verifyRelease lib options w = (Inr (bytes, signature, key, manifest), a)"
      and l: "loadInstalledRelease (al_decode lib) (ao_Root options) a = (Inr installed, b)"
      and i: "Inspect (nl_url_Parse (al_net lib)) (al_GOARCH lib) (ao_Root options) (ao_Architecture options) runner
                \<lparr>po_Gateway = ao_Gateway options, po_Upstream = ao_Upstream options, po_GatewayPort = ao_GatewayPort options\<rparr> b
              = (Inr inspection, w')"
    using assms by (auto simp: apply_verify_def io_bind_Inr split: if_splits)
  then show ?thesis
    using that verifyRelease_Inr [OF v] loadInstalledRelease_files [OF l] Inspect_files [OF i] by auto
qed

lemma readBootstrapToken_files: "readBootstrapToken path w = (r, w') \<Longrightarrow> w_files w' = w_files w"
  by (cases r) (auto simp: readBootstrapToken_def Let_def io_outcomes split: if_splits dest!: reads_files)

lemma apply_checks_Inr:
  assumes "apply_checks lib options manifest inspection w = (Inr token, w')" and "manifest_ok manifest"
  obtains a mode content where "Select manifest ''agent'' ''linux'' (env_Architecture (insp_Environment inspection)) = Inr a"
    "node_at w (JoinPath [ao_BundleDirectory options, ar_Name a]) = Some (NFile mode content)"
    "describes (al_rb lib) a content" "w_files w' = w_files w"
proof -
  let ?arch = "env_Architecture (insp_Environment inspection)"
  let ?cs = "''agent'' # (if pl_GatewayEnabled (insp_Plan inspection) then [''gateway''] else [])"
  obtain u v where sel: "VerifySelection (al_rb lib) (ao_BundleDirectory options) manifest ''linux'' ?arch ?cs w = (Inr u, v)"
      and v: "w_files w' = w_files v"
    using assms(1) by (auto simp: apply_checks_def io_bind_Inr split: if_splits option.splits dest!: readBootstrapToken_files)
  have "select_each (al_rb lib) (ao_BundleDirectory options) manifest ''linux'' ?arch [] ?cs w = (Inr u, v)"
    using sel assms(2) by (auto simp: VerifySelection_def Validate_iff [THEN iffD2] simp del: select_each.simps split: option.splits)
  from select_each_Inr [OF this assms(2)] show ?thesis using that v by auto
qed

lemma artifact_path_elems:
  assumes "manifest_ok manifest" and "Select manifest c ''linux'' arch = Inr a" and "IsAbs dir"
  shows "elems (JoinPath [dir, ar_Name a]) = elems dir @ [ar_Name a]"
    and "\<exists>b. ar_Name a = b @ ''64''"
proof -
  have ok: "artifact_ok a" "ar_Name a = binary_name c arch" "ar_Arch a = arch"
    using Select_Inr [OF assms(1,2)] by auto
  then obtain ext where p: "artifactPattern (ar_Name a) = Some (ar_Component a, arch, ext)" by (auto simp: artifact_ok_def)
  then show "elems (JoinPath [dir, ar_Name a]) = elems dir @ [ar_Name a]"
    using elems_JoinPath [OF artifact_name_elem IsAbs_nonempty [OF assms(3)]] by blast
  have "arch \<in> set artifactArchs" using p by (simp add: artifactPattern_iff)
  then have "\<exists>b. arch = b @ ''64''" by (auto simp: artifactArchs_def)
  then show "\<exists>b. ar_Name a = b @ ''64''" using ok(2) unfolding binary_name_def by (metis append.assoc)
qed

section \<open>A completed installation\<close>

lemma last_elem_neq: "elems p = a @ [x] \<Longrightarrow> elems q = b @ [y] \<Longrightarrow> last x \<noteq> last y \<Longrightarrow> p \<noteq> q"
  by (metis last_snoc)

definition agent_path :: "string \<Rightarrow> string" where
  "agent_path root = rootPath root ''/usr/local/bin/mysafe-agent''"

lemma installation_installs:
  assumes "installation lib runner options polls token key manifest inspection ft w = (Inr u, ft', w')"
    and "kept root j q (NFile m content) ft w" and "root = ao_Root options" and "root \<noteq> []"
    and "Select manifest ''agent'' ''linux'' (env_Architecture (insp_Environment inspection)) = Inr a"
    and "q = JoinPath [ao_BundleDirectory options, ar_Name a]"
    and "q \<noteq> j" and "q \<noteq> rootPath root ''/etc/my-safe''" and "q \<noteq> rootPath root ''/var/lib/my-safe''"
    and "agent_path root \<noteq> j" and "agent_path root \<noteq> rootPath root ''/etc/my-safe''"
    and "agent_path root \<noteq> rootPath root ''/var/lib/my-safe''"
    and "rootPath root (pl_NginxConfig (insp_Plan inspection)) \<noteq> agent_path root"
  shows "node_at w' (agent_path root) = Some (NFile 493 content)"
proof -
  let ?I = "kept root j q (NFile m content)"
  let ?J = "kept root j (agent_path root) (NFile 493 content)"
  have I: "stable (ao_Root options) (al_tx lib) ?I" using kept_stable [of q j root] assms(3,7-9) by simp
  have J: "stable (ao_Root options) (al_tx lib) ?J" using kept_stable [of "agent_path root" j root] assms(3,10-12) by simp
  have collect: "triple ?I (collect_files lib options key manifest inspection) (\<lambda>files ft w. ?I ft w
      \<and> files_ok (insp_Plan inspection) files \<and> (\<exists>c rest. files = (''/usr/local/bin/mysafe-agent'', c, 493) # rest \<and> c = content))
      (\<lambda>_ _. True)"
  proof (rule triple_collect_files [OF I], simp)
    fix ft w c w'
    assume I: "?I ft w"
      and run: "read_artifact lib options manifest ''agent'' (env_Architecture (insp_Environment inspection)) w = (Inr c, w')"
    have "follow w q = Some (q, NFile m content)" using I by (simp add: kept_def follow_file)
    moreover have "ReadFile q w = (Inr c, w')" using run assms(5,6) by (simp add: read_artifact_def io_wrap_Inr)
    ultimately show "c = content" using ReadFile_Inr by fastforce
  qed
  have install: "triple (\<lambda>ft w. ?I ft w \<and> files_ok (insp_Plan inspection) files
      \<and> (\<exists>c rest. files = (''/usr/local/bin/mysafe-agent'', c, 493) # rest \<and> c = content))
      (install_all (al_tx lib) files) (\<lambda>_. ?J) (\<lambda>_ _. True)" for files
  proof (rule triple_pure)
    assume f: "files_ok (insp_Plan inspection) files
      \<and> (\<exists>c rest. files = (''/usr/local/bin/mysafe-agent'', c, 493) # rest \<and> c = content)"
    then obtain rest where files: "files = (''/usr/local/bin/mysafe-agent'', content, 493) # rest" by blast
    have first: "triple ?I (tx_run_step (InstallBytes (al_tx lib) ''/usr/local/bin/mysafe-agent'' content 493)) (\<lambda>_. ?J) (\<lambda>_ _. True)"
    proof (rule triple_step)
      fix ft w r ft' w'
      assume "?I ft w" and run: "InstallBytes (al_tx lib) ''/usr/local/bin/mysafe-agent'' content 493 ft w = (r, ft', w')"
      then show "case r of Inl _ \<Rightarrow> True | Inr x \<Rightarrow> ?J ft' w'"
        using InstallBytes_installs [of "al_tx lib" "''/usr/local/bin/mysafe-agent''" content 493 ft w _ ft' w']
        by (cases r) (auto simp: kept_def agent_path_def)
    qed
    have "\<forall>p \<in> set (map fst rest). agent_path root \<noteq> rootPath root p"
    proof
      fix p
      assume p: "p \<in> set (map fst rest)"
      have "''/usr/local/bin/mysafe-agent'' \<notin> set (map fst rest)" "set (map fst rest) \<subseteq> set (standard_paths (insp_Plan inspection))"
        using f files by (simp_all add: files_ok_def)
      with p have "p \<in> set (standard_paths (insp_Plan inspection))" "p \<noteq> ''/usr/local/bin/mysafe-agent''" by blast+
      then show "agent_path root \<noteq> rootPath root p"
        using standard_path_inj [OF assms(4)] unfolding agent_path_def by metis
    qed
    from triple_install_all_keeps [OF assms(10) this, of "NFile 493 content" "al_tx lib"]
    show "triple ?I (install_all (al_tx lib) files) (\<lambda>_. ?J) (\<lambda>_ _. True)"
      unfolding files install_all_def list.map prod.case tx_each.simps by (rule triple_bind [OF first])
  qed
  have "triple ?I (installation lib runner options polls token key manifest inspection) (\<lambda>_. ?J) (\<lambda>_ _. True)"
    unfolding installation_def
  proof (rule triple_bind [OF triple_prepare_host [OF I TrueI]], rule triple_bind [OF collect], rule triple_bind [OF install],
      rule triple_bind [OF triple_activate [OF J TrueI TrueI]])
    show "triple ?J (tx_run_step (InstallBytes (al_tx lib) (pl_NginxConfig (insp_Plan inspection)) c m)) (\<lambda>_. ?J) (\<lambda>_ _. True)"
      for c m using triple_install_keeps [OF assms(10)] assms(13) by metis
    show "triple ?J (tx_run_step (tx_Commit (al_tx lib))) (\<lambda>_. ?J) (\<lambda>_ _. True)"
      by (rule triple_records(3) [OF J]) simp
  qed
  from tripleD_Inr [OF this assms(2,1)] show ?thesis by (simp add: kept_def)
qed

text \<open>The course of \<open>Apply\<close> once the transaction has begun.\<close>

lemma Apply_transaction:
  assumes "Apply lib runner opts polls w = ((result, ending), w')" and "rs_Status result \<noteq> []" and "rs_Status result \<noteq> ''planned''"
  defines "options \<equiv> normalizeApplyOptions lib (w_cwd w) opts"
  obtains key manifest inspection token ft w1 w2 w3 where
    "apply_verify lib runner options w = (Inr (key, manifest, inspection), w1)"
    "apply_checks lib options manifest inspection w1 = (Inr (Some token), w2)"
    "beginTransaction (al_tx lib) (ao_Root options) (mf_Version manifest) (al_Now lib 0) w2 = (Inr ft, w3)"
    "rs_Inspection result = Some inspection" "rs_Version result = mf_Version manifest" "rs_TransactionID result = tr_ID (ft_record ft)"
    "case installation lib runner options polls token key manifest inspection ft w3 of
       (Inr _, _, w4) \<Rightarrow> rs_Status result = ''complete'' \<and> ending = ApplyOK \<and> w' = w4
     | (Inl Panicked, _, w4) \<Rightarrow> False
     | (Inl (Failed cause), ft', w4) \<Rightarrow>
         rs_Status result = ''rolled_back'' \<and> (\<exists>es. ending = ApplyErrors (cause # es)
           \<and> rollbackInstallation (al_tx lib) (ao_Root options) (apply_runner runner) (ft_record ft') (ft_journalPath ft') w4 = (es, w'))"
proof -
  obtain r1 w1 where v: "apply_verify lib runner options w = (r1, w1)" by fastforce
  show ?thesis
  proof (cases r1)
    case (Inl e)
    then show ?thesis using assms(1,2) v unfolding Apply_def options_def [symmetric] Let_def by (auto simp: empty_result_def)
  next
    case (Inr x)
    obtain key manifest inspection where x: "x = (key, manifest, inspection)" by (cases x)
    obtain r2 w2 where c: "apply_checks lib options manifest inspection w1 = (r2, w2)" by fastforce
    note run = assms(1) [unfolded Apply_def options_def [symmetric] Let_def v Inr x c prod.case sum.case]
    show ?thesis
    proof (cases "\<exists>token. r2 = Inr (Some token)")
      case False
      then show ?thesis using run assms(3) by (auto split: sum.splits option.splits)
    next
      case True
      then obtain token where r2: "r2 = Inr (Some token)" by blast
      obtain r3 w3 where b: "beginTransaction (al_tx lib) (ao_Root options) (mf_Version manifest) (al_Now lib 0) w2 = (r3, w3)" by fastforce
      show ?thesis
      proof (cases r3)
        case (Inl e)
        then show ?thesis using run r2 b assms(3) by auto
      next
        case ok: (Inr ft)
        obtain r4 ft4 w4 where i: "installation lib runner options polls token key manifest inspection ft w3 = (r4, ft4, w4)"
          by (metis prod.collapse)
        note run = run [unfolded r2 b ok i prod.case sum.case option.case]
        have "case (r4, ft4, w4) of
             (Inr _, _, w4) \<Rightarrow> rs_Status result = ''complete'' \<and> ending = ApplyOK \<and> w' = w4
           | (Inl Panicked, _, w4) \<Rightarrow> False
           | (Inl (Failed cause), ft', w4) \<Rightarrow>
               rs_Status result = ''rolled_back'' \<and> (\<exists>es. ending = ApplyErrors (cause # es)
                 \<and> rollbackInstallation (al_tx lib) (ao_Root options) (apply_runner runner) (ft_record ft') (ft_journalPath ft') w4 = (es, w'))"
          and "rs_Inspection result = Some inspection" "rs_Version result = mf_Version manifest" "rs_TransactionID result = tr_ID (ft_record ft)"
          using run assms(3) by (auto split: sum.splits tx_stop.splits prod.splits)
        note facts = this
        show ?thesis
          by (rule that [OF v [unfolded Inr x] c [unfolded r2] b [unfolded ok] facts(2-4)]) (use facts(1) i in simp)
      qed
    qed
  qed
qed

text \<open>C2: A completed installation has put the signed agent in place. When \<open>Apply\<close> reports \<open>complete\<close>, there are a manifest file and
  a signature that the release key (the embedded one, unless the caller gave another) accepts, the manifest decodes and
  is valid, and the file \<open>/usr/local/bin/mysafe-agent\<close> below the root has mode 0755 and exactly the contents whose SHA-256
  and size the manifest lists for the agent of this architecture. This holds whatever system calls failed on the way.\<close>

theorem completed_installation_is_signed:
  assumes "Apply lib runner opts polls w = ((result, ApplyOK), w')" and "rs_Status result = ''complete''"
    and "rs_Inspection result = Some inspection" and "IsAbs (w_cwd w)"
    and "root = ao_Root (normalizeApplyOptions lib (w_cwd w) opts)"
    and "rootPath root (pl_NginxConfig (insp_Plan inspection)) \<noteq> rootPath root ''/usr/local/bin/mysafe-agent''"
  shows "\<exists>bytes signature key manifest a content.
     release_key lib (normalizeApplyOptions lib (w_cwd w) opts) = Inr key
     \<and> VerifySignature (al_rb lib) bytes signature key = None \<and> Decode (al_rb lib) bytes = Inr manifest
     \<and> rs_Version result = mf_Version manifest
     \<and> a \<in> set (mf_Artifacts manifest) \<and> ar_Name a = binary_name ''agent'' (env_Architecture (insp_Environment inspection))
     \<and> ar_SHA256 a = EncodeToString (rl_sha256 (al_rb lib) content) \<and> ar_Size a = int (length content)
     \<and> node_at w' (rootPath root ''/usr/local/bin/mysafe-agent'') = Some (NFile 493 content)"
proof -
  define options where "options = normalizeApplyOptions lib (w_cwd w) opts"
  have root: "root = ao_Root options" using assms(5) by (simp add: options_def)
  have dirs: "IsAbs root" "IsAbs (ao_BundleDirectory options)"
    using IsAbs_abs_in [OF assms(4)] by (simp_all add: root options_def normalizeApplyOptions_def Let_def)
  have status: "rs_Status result \<noteq> []" "rs_Status result \<noteq> ''planned''" "rs_Status result \<noteq> ''rolled_back''" using assms(2) by simp_all
  obtain key manifest insp token ft w1 w2 w3 where
      v: "apply_verify lib runner options w = (Inr (key, manifest, insp), w1)"
      and c: "apply_checks lib options manifest insp w1 = (Inr (Some token), w2)"
      and b: "beginTransaction (al_tx lib) root (mf_Version manifest) (al_Now lib 0) w2 = (Inr ft, w3)"
      and i: "rs_Inspection result = Some insp" "rs_Version result = mf_Version manifest"
      and fin: "case installation lib runner options polls token key manifest insp ft w3 of
         (Inr _, _, w4) \<Rightarrow> rs_Status result = ''complete'' \<and> ApplyOK = ApplyOK \<and> w' = w4
       | (Inl Panicked, _, w4) \<Rightarrow> False
       | (Inl (Failed cause), ft', w4) \<Rightarrow>
           rs_Status result = ''rolled_back'' \<and> (\<exists>es. ApplyOK = ApplyErrors (cause # es)
             \<and> rollbackInstallation (al_tx lib) (ao_Root options) (apply_runner runner) (ft_record ft') (ft_journalPath ft') w4 = (es, w'))"
    unfolding root by (rule Apply_transaction [OF assms(1) status(1,2), folded options_def])
  obtain u ft4 where run: "installation lib runner options polls token key manifest insp ft w3 = (Inr u, ft4, w')"
    using fin by (auto split: prod.splits sum.splits tx_stop.splits)
  have insp: "insp = inspection" using i(1) assms(3) by simp
  obtain bytes signature where ver: "release_key lib options = Inr key" "VerifySignature (al_rb lib) bytes signature key = None"
      "Decode (al_rb lib) bytes = Inr manifest" "w_files w1 = w_files w"
    using apply_verify_Inr [OF v] by blast
  have ok: "manifest_ok manifest" using Decode_Inr [OF ver(3)] .
  obtain a mode content where a: "Select manifest ''agent'' ''linux'' (env_Architecture (insp_Environment insp)) = Inr a"
      "node_at w1 (JoinPath [ao_BundleDirectory options, ar_Name a]) = Some (NFile mode content)"
      "describes (al_rb lib) a content" "w_files w2 = w_files w1"
    using apply_checks_Inr [OF c ok] by blast
  define q where "q = JoinPath [ao_BundleDirectory options, ar_Name a]"
  define j where "j = journal_path root (tr_ID (ft_record ft))"
  obtain x where q: "elems q = elems (ao_BundleDirectory options) @ [x @ ''64'']"
    using artifact_path_elems [OF ok a(1) dirs(2)] unfolding q_def by metis
  have "slash \<notin> set (tr_ID (ft_record ft))" "tr_ID (ft_record ft) \<noteq> []" using b by (auto elim: beginTransaction_Inr)
  note j = journal_elems [OF dirs(1) this, folded j_def]
  note re = root_elems [OF IsAbs_nonempty [OF dirs(1)]]
  have distinct: "q \<noteq> j" "q \<noteq> rootPath root ''/etc/my-safe''" "q \<noteq> rootPath root ''/var/lib/my-safe''"
    "agent_path root \<noteq> j" "agent_path root \<noteq> rootPath root ''/etc/my-safe''" "agent_path root \<noteq> rootPath root ''/var/lib/my-safe''"
    using q j re(1,9,10) unfolding agent_path_def by (auto dest!: arg_cong [of _ _ elems] dest: arg_cong [of _ _ last])
  have "kept root j q (NFile mode content) ft w3"
    using beginTransaction_kept [OF b] a(2,4) distinct(1) by (simp add: q_def j_def)
  from installation_installs [OF run this root IsAbs_nonempty [OF dirs(1)] a(1) q_def distinct] assms(6) insp
  have "node_at w' (agent_path root) = Some (NFile 493 content)" by (simp add: agent_path_def)
  then show ?thesis
    using ver(1-3) i(2) Select_Inr [OF ok a(1)] a(3) insp unfolding describes_def agent_path_def options_def by blast
qed

section \<open>A failed installation\<close>

definition install_paths :: "Plan \<Rightarrow> string list" where
  "install_paths plan = standard_paths plan @ (if pl_NginxConfig plan = [] then [] else [pl_NginxConfig plan])"

text \<open>The paths of the plan are distinct, fit a transaction, and are none of the directories that the installer makes.\<close>

definition apply_plan_ok :: "string \<Rightarrow> string \<Rightarrow> string list \<Rightarrow> bool" where
  "apply_plan_ok root txID P \<longleftrightarrow> distinct P \<and> plan_ok root txID (journal_path root txID) P
     \<and> list_all (\<lambda>d. journal_path root txID \<noteq> rootPath root d
         \<and> list_all (\<lambda>p. rootPath root p \<notin> set (dir_chain (rootPath root d)) \<and> rootPath root p \<noteq> rootPath root d
             \<and> bkp root txID p \<noteq> rootPath root d) P) [''/etc/my-safe'', ''/var/lib/my-safe'']
     \<and> list_all (\<lambda>p. rootPath root p \<notin> set (dir_chain (rootPath root transactionDirectory))
         \<and> rootPath root p \<notin> set (dir_chain (rootPath root (backupDirectory @ txID)))) P"

lemma apply_plan_okD:
  assumes "apply_plan_ok root txID P"
  shows "distinct P" "plan_ok root txID (journal_path root txID) P"
  using assms unfolding apply_plan_ok_def by blast+

lemma ensureDirectory_calm:
  assumes "apply_plan_ok root txID P" and "d \<in> {''/etc/my-safe'', ''/var/lib/my-safe''}"
    and "ensureDirectory root d mode w = (r, w')"
  shows "calm root txID (journal_path root txID) P w w'"
proof -
  have d: "journal_path root txID \<noteq> rootPath root d"
      "\<And>p. p \<in> set P \<Longrightarrow> rootPath root p \<notin> set (dir_chain (rootPath root d)) \<and> rootPath root p \<noteq> rootPath root d
             \<and> bkp root txID p \<noteq> rootPath root d"
    using assms(1,2) by (auto simp: apply_plan_ok_def list_all_iff)
  have keeps: "node_at w' q = node_at w q" if "node_at w q \<noteq> None" "q \<noteq> rootPath root d" for q
    using ensureDirectory_keeps [OF assms(3)] that by blast
  have "node_at w' q = node_at w q" if "q \<notin> set (dir_chain (rootPath root d))" "q \<noteq> rootPath root d" for q
    using assms(3)
  proof (cases rule: ensureDirectory_cases)
    case (2 r1)
    then show ?thesis using touchesD [OF touches_MkdirAll that(1)] by blast
  next
    case (3 v r2)
    then show ?thesis using touchesD [OF touches_MkdirAll that(1) 3(1)] touchesD [OF touches_ChmodFile that(2) 3(2)] by simp
  qed simp
  then show ?thesis unfolding calm_def using d keeps by metis
qed

definition inv_upto :: "tx_lib \<Rightarrow> string \<Rightarrow> string \<Rightarrow> string list \<Rightarrow> world \<Rightarrow> string set \<Rightarrow> fileTransaction \<Rightarrow> world \<Rightarrow> bool" where
  "inv_upto lib root txID P w0 S ft w \<longleftrightarrow> tx_inv lib root txID (journal_path root txID) P w0 ft w
     \<and> ch_Path ` set (tr_Changes (ft_record ft)) \<subseteq> S"

lemma inv_upto_stable:
  assumes "apply_plan_ok root txID P" and "tx_codec_ok lib"
  shows "stable root lib (inv_upto lib root txID P w0 S)"
  unfolding stable_def
proof (intro conjI allI impI)
  fix ft and w w' :: world
  assume "inv_upto lib root txID P w0 S ft w" and "w_files w' = w_files w"
  then show "inv_upto lib root txID P w0 S ft w'" using tx_inv_calm calm_files by (auto simp: inv_upto_def)
next
  fix f ft w r ft' w'
  assume i: "inv_upto lib root txID P w0 S ft w" and f: "tr_ID (f (ft_record ft)) = tr_ID (ft_record ft)"
    "tr_Changes (f (ft_record ft)) = tr_Changes (ft_record ft)" and run: "record_and_persist lib f ft w = (r, ft', w')"
  have "covered root txID P w0 (f (ft_record ft)) w" "tx_inv lib root txID (journal_path root txID) P w0 ft w"
    using i f by (simp_all add: inv_upto_def tx_inv_def covered_def)
  from note_effect [OF apply_plan_okD(2) [OF assms(1)] assms(2) this(2,1) run]
  show "inv_upto lib root txID P w0 S ft' w'" using i f(2) by (simp add: inv_upto_def)
next
  fix d mode ft w r w'
  assume d: "d \<in> {''/etc/my-safe'', ''/var/lib/my-safe''}" and i: "inv_upto lib root txID P w0 S ft w"
    and run: "ensureDirectory root d mode w = (r, w')"
  from ensureDirectory_calm [OF assms(1) d run]
  show "inv_upto lib root txID P w0 S ft w'"
    using tx_inv_calm [of lib root txID "journal_path root txID" P w0 ft w w'] i by (simp add: inv_upto_def)
qed

lemma InstallBytes_changes:
  assumes "InstallBytes lib q content mode ft w = (r, ft', w')"
  shows "ch_Path ` set (tr_Changes (ft_record ft')) \<subseteq> insert q (ch_Path ` set (tr_Changes (ft_record ft)))"
proof -
  have ch: "ch_Path ch = q" if "prepare_change lib ft q content w = (Inr ch, w1)" for ch w1
    using that by (cases rule: prepare_cases) (auto split: sum.splits)
  show ?thesis
    using assms
  proof (cases rule: InstallBytes_cases)
    case (2 ch e w1)
    then show ?thesis using record_and_persist_fields(3) [OF 2(3)] ch [OF 2(2)] by (auto simp: add_change_def)
  next
    case (3 ch w1 w2 r3)
    then show ?thesis using record_and_persist_fields(3) [OF 3(2)] ch [OF 3(1)] by (auto simp: add_change_def)
  qed auto
qed

lemma triple_install_inv:
  assumes "apply_plan_ok root txID P" and "tx_codec_ok lib" and "q \<in> set P" and "q \<notin> S"
  shows "triple (inv_upto lib root txID P w0 S) (tx_run_step (InstallBytes lib q c m)) (\<lambda>_. inv_upto lib root txID P w0 (insert q S))
     (inv_upto lib root txID P w0 UNIV)"
proof (rule triple_step)
  fix ft w r ft' w'
  assume i: "inv_upto lib root txID P w0 S ft w" and run: "InstallBytes lib q c m ft w = (r, ft', w')"
  have "tx_inv lib root txID (journal_path root txID) P w0 ft' w'"
    by (rule install_effect [OF apply_plan_okD(2) [OF assms(1)] assms(2) _ assms(3) _ run])
      (use i assms(4) in \<open>auto simp: inv_upto_def\<close>)
  then show "case r of Inl _ \<Rightarrow> inv_upto lib root txID P w0 UNIV ft' w' | Inr x \<Rightarrow> inv_upto lib root txID P w0 (insert q S) ft' w'"
    using InstallBytes_changes [OF run] i by (cases r) (auto simp: inv_upto_def)
qed

lemma triple_install_all_inv:
  assumes "apply_plan_ok root txID P" and "tx_codec_ok lib"
    and "distinct (map fst files)" and "set (map fst files) \<subseteq> set P" and "S \<inter> set (map fst files) = {}"
  shows "triple (inv_upto lib root txID P w0 S) (install_all lib files)
     (\<lambda>_. inv_upto lib root txID P w0 (S \<union> set (map fst files))) (inv_upto lib root txID P w0 UNIV)"
  using assms(3-5)
proof (induction files arbitrary: S)
  case Nil
  show ?case unfolding install_all_def by (auto intro: triple_returnI)
next
  case (Cons f files)
  obtain q c m where f: "f = (q, c, m)" by (cases f)
  have "triple (inv_upto lib root txID P w0 (insert q S)) (install_all lib files)
      (\<lambda>_. inv_upto lib root txID P w0 (insert q S \<union> set (map fst files))) (inv_upto lib root txID P w0 UNIV)"
    by (rule Cons.IH) (use Cons.prems f in auto)
  moreover have "triple (inv_upto lib root txID P w0 S) (tx_run_step (InstallBytes lib q c m))
      (\<lambda>_. inv_upto lib root txID P w0 (insert q S)) (inv_upto lib root txID P w0 UNIV)"
    using triple_install_inv [OF assms(1,2)] Cons.prems f by auto
  moreover have "install_all lib (f # files) = tx_then (tx_run_step (InstallBytes lib q c m)) (install_all lib files)"
    by (simp add: install_all_def f)
  moreover have "insert q S \<union> set (map fst files) = S \<union> set (map fst (f # files))" by (auto simp: f)
  ultimately show ?case using triple_bind by metis
qed

lemma installation_inv:
  assumes "apply_plan_ok (ao_Root options) txID (install_paths (insp_Plan inspection))" and "tx_codec_ok (al_tx lib)"
  shows "triple (inv_upto (al_tx lib) (ao_Root options) txID (install_paths (insp_Plan inspection)) w0 {})
     (installation lib runner options polls token key manifest inspection)
     (\<lambda>_. inv_upto (al_tx lib) (ao_Root options) txID (install_paths (insp_Plan inspection)) w0 UNIV)
     (inv_upto (al_tx lib) (ao_Root options) txID (install_paths (insp_Plan inspection)) w0 UNIV)"
proof -
  let ?plan = "insp_Plan inspection"
  let ?I = "inv_upto (al_tx lib) (ao_Root options) txID (install_paths ?plan) w0"
  let ?S = "set (standard_paths ?plan)"
  note stable = inv_upto_stable [OF assms]
  have mono: "?I S ft w \<Longrightarrow> S \<subseteq> T \<Longrightarrow> ?I T ft w" for S T ft w by (auto simp: inv_upto_def)
  have up: "?I S ft w \<Longrightarrow> ?I UNIV ft w" for S ft w using mono by blast
  have install: "triple (\<lambda>ft w. ?I {} ft w \<and> files_ok ?plan files
      \<and> (\<exists>c rest. files = (''/usr/local/bin/mysafe-agent'', c, 493) # rest \<and> True)) (install_all (al_tx lib) files) (\<lambda>_. ?I ?S) (?I UNIV)" for files
  proof (rule triple_pure)
    assume f: "files_ok ?plan files \<and> (\<exists>c rest. files = (''/usr/local/bin/mysafe-agent'', c, 493) # rest \<and> True)"
    have "triple (?I {}) (install_all (al_tx lib) files) (\<lambda>_. ?I ({} \<union> set (map fst files))) (?I UNIV)"
      by (rule triple_install_all_inv [OF assms]) (use f in \<open>auto simp: files_ok_def install_paths_def\<close>)
    then show "triple (?I {}) (install_all (al_tx lib) files) (\<lambda>_. ?I ?S) (?I UNIV)"
      by (rule triple_weaken) (use f mono in \<open>auto simp: files_ok_def\<close>)
  qed
  have nginx: "triple (?I ?S) (tx_run_step (InstallBytes (al_tx lib) (pl_NginxConfig ?plan) c m)) (\<lambda>_. ?I UNIV) (?I UNIV)"
    if "pl_NginxConfig ?plan \<noteq> []" for c m
  proof -
    have "pl_NginxConfig ?plan \<notin> ?S" using apply_plan_okD(1) [OF assms(1)] that by (simp add: install_paths_def)
    then show ?thesis
      by (intro triple_weaken [OF triple_install_inv [OF assms]]) (use that up in \<open>auto simp: install_paths_def\<close>)
  qed
  show ?thesis
    unfolding installation_def
    by (rule triple_bind [OF triple_prepare_host [OF stable up]], assumption,
        rule triple_bind [OF triple_collect_files [OF stable up TrueI]], assumption, rule triple_bind [OF install],
        rule triple_bind [OF triple_activate [OF stable up up nginx up]], assumption+, rule triple_records(3) [OF stable up], assumption)
qed

lemma beginTransaction_other:
  assumes "beginTransaction lib root version now w = (Inr ft, w')" and "apply_plan_ok root (tr_ID (ft_record ft)) P" and "p \<in> set P"
  shows "node_at w' (rootPath root p) = node_at w (rootPath root p)"
  using assms(1)
proof (cases rule: beginTransaction_Inr)
  case (1 a u v)
  let ?q = "rootPath root p"
  note path = plan_paths [OF apply_plan_okD(2) [OF assms(2)] assms(3,3)]
  have c: "?q \<notin> set (dir_chain (rootPath root transactionDirectory))"
      "?q \<notin> set (dir_chain (rootPath root (backupDirectory @ tr_ID (ft_record ft))))"
    using assms(2,3) unfolding apply_plan_ok_def list_all_iff by blast+
  have v: "node_at v ?q = node_at w ?q"
    using touchesD [OF touches_MkdirAll c(1) 1(2)] touchesD [OF touches_MkdirAll c(2) 1(3)] 1(1) by simp
  obtain json where "tx_writeAtomic (ft_journalPath ft) json 384 v = (Inr (), w')"
    using 1(4) by (auto simp: persist_def io_wrap_Inr split: sum.splits)
  then show ?thesis using writeAtomic_other [of "ft_journalPath ft" json 384 v _ w' ?q] path(1,2,4) v 1(6) by auto
qed

lemma rollbackInstallation_restores:
  assumes "rollbackInstallation lib root runner rec journal w = ([], w')" and "plan_ok root txID journal P"
    and "covered root txID P w0 rec w" and "p \<in> set P"
  shows "node_at w' (rootPath root p) = node_at w0 (rootPath root p)"
proof -
  obtain es v where v: "rollbackChanges root rec w = (es, v)" by fastforce
  have "es = []" and "\<exists>json r. tx_writeAtomic journal json 384 v = (r, w')"
    using assms(1) v by (auto simp: rollbackInstallation_def Let_def split: sum.splits prod.splits)
  then obtain json r where wr: "tx_writeAtomic journal json 384 v = (r, w')" by blast
  note path = plan_paths [OF assms(2,4,4)]
  have "node_at w' (rootPath root p) = node_at v (rootPath root p)"
    using writeAtomic_other [OF wr, of "rootPath root p"] path(1,2,4) by blast
  then show ?thesis using covered_rollback [OF assms(2,3) _ assms(4)] v \<open>es = []\<close> by simp
qed

text \<open>C3: An installation that failed and was rolled back without further errors has left no trace in the files it was to install. Whatever
  step failed (a system call, a command, the health check, the change of Nginx) and wherever system calls failed
  before it, every file of the plan, the Nginx configuration included, is again what it was before \<open>Apply\<close> ran: the same
  contents and permissions, or absent.\<close>

theorem failed_installation_restored:
  assumes "tx_codec_ok (al_tx lib)"
    and "Apply lib runner opts polls w = ((result, ApplyErrors [cause]), w')" and "rs_Status result = ''rolled_back''"
    and "rs_Inspection result = Some inspection" and "root = ao_Root (normalizeApplyOptions lib (w_cwd w) opts)"
    and "apply_plan_ok root (rs_TransactionID result) (install_paths (insp_Plan inspection))"
    and "p \<in> set (install_paths (insp_Plan inspection))"
  shows "node_at w' (rootPath root p) = node_at w (rootPath root p)"
proof -
  define options where "options = normalizeApplyOptions lib (w_cwd w) opts"
  have root: "root = ao_Root options" using assms(5) by (simp add: options_def)
  have status: "rs_Status result \<noteq> []" "rs_Status result \<noteq> ''planned''" "rs_Status result \<noteq> ''complete''" using assms(3) by simp_all
  obtain key manifest insp token ft w1 w2 w3 where
      v: "apply_verify lib runner options w = (Inr (key, manifest, insp), w1)"
      and c: "apply_checks lib options manifest insp w1 = (Inr (Some token), w2)"
      and b: "beginTransaction (al_tx lib) root (mf_Version manifest) (al_Now lib 0) w2 = (Inr ft, w3)"
      and i: "rs_Inspection result = Some insp" "rs_TransactionID result = tr_ID (ft_record ft)"
      and fin: "case installation lib runner options polls token key manifest insp ft w3 of
         (Inr _, _, w4) \<Rightarrow> rs_Status result = ''complete'' \<and> ApplyErrors [cause] = ApplyOK \<and> w' = w4
       | (Inl Panicked, _, w4) \<Rightarrow> False
       | (Inl (Failed c), ft', w4) \<Rightarrow>
           rs_Status result = ''rolled_back'' \<and> (\<exists>es. ApplyErrors [cause] = ApplyErrors (c # es)
             \<and> rollbackInstallation (al_tx lib) (ao_Root options) (apply_runner runner) (ft_record ft') (ft_journalPath ft') w4 = (es, w'))"
    unfolding root by (rule Apply_transaction [OF assms(2) status(1,2), folded options_def])
  obtain ft4 w4 where run: "installation lib runner options polls token key manifest insp ft w3 = (Inl (Failed cause), ft4, w4)"
      and undone: "rollbackInstallation (al_tx lib) root (apply_runner runner) (ft_record ft4) (ft_journalPath ft4) w4 = ([], w')"
    using fin root by (auto split: prod.splits sum.splits tx_stop.splits)
  have insp: "insp = inspection" using i(1) assms(4) by simp
  define txID where "txID = tr_ID (ft_record ft)"
  let ?P = "install_paths (insp_Plan inspection)"
  have plan: "apply_plan_ok root txID ?P" using assms(6) i(2) by (simp add: txID_def)
  have "ft_journalPath ft = journal_path root txID" "ft_root ft = root" "tr_Changes (ft_record ft) = []"
    using b beginTransaction_started [OF assms(1) b] by (auto simp: txID_def tx_started_def elim: beginTransaction_Inr)
  then have start: "inv_upto (al_tx lib) root txID ?P w3 {} ft w3"
    using tx_inv_started [of "al_tx lib" ft w3 ?P] beginTransaction_started [OF assms(1) b] by (simp add: inv_upto_def txID_def)
  have triple: "triple (inv_upto (al_tx lib) root txID ?P w3 {}) (installation lib runner options polls token key manifest inspection)
      (\<lambda>_. inv_upto (al_tx lib) root txID ?P w3 UNIV) (inv_upto (al_tx lib) root txID ?P w3 UNIV)"
    unfolding root by (rule installation_inv [OF plan [unfolded root] assms(1)])
  from tripleD_Inl [OF triple start run [unfolded insp]]
  have inv: "ft_journalPath ft4 = journal_path root txID" "covered root txID ?P w3 (ft_record ft4) w4"
    by (simp_all add: inv_upto_def tx_inv_def)
  have "node_at w' (rootPath root p) = node_at w3 (rootPath root p)"
    using rollbackInstallation_restores [OF undone _ inv(2) assms(7)] inv(1) apply_plan_okD(2) [OF plan] by simp
  also have "\<dots> = node_at w2 (rootPath root p)" using beginTransaction_other [OF b plan [unfolded txID_def] assms(7)] .
  also have "\<dots> = node_at w (rootPath root p)"
  proof -
    have "w_files w1 = w_files w" "manifest_ok manifest" using apply_verify_Inr [OF v] Decode_Inr by metis+
    then show ?thesis using apply_checks_Inr [OF c] by metis
  qed
  finally show ?thesis .
qed

end
