(* ===== verification/Apply_Live.thy ===== *)
theory Apply_Live
  imports Apply_Props
begin

text \<open>
  Progress of the installer. On a host whose system calls work, whose commands obey and where no file stands where a
  directory is wanted, every step of the installation succeeds and so does the rollback of one that was stopped.
\<close>

section \<open>Worlds in which the writers of the installer succeed\<close>

text \<open>\<open>D\<close> are the directories that may have to be made, \<open>F\<close> the files that may be written, \<open>n\<close> the number of temporary names that
  remain. Everything else is as in \<open>w0\<close>.\<close>

definition able :: "string set \<Rightarrow> string set \<Rightarrow> world \<Rightarrow> nat \<Rightarrow> world \<Rightarrow> bool" where
  "able D F w0 n w \<longleftrightarrow> w_faults w = [] \<and> n \<le> length (w_rand w)
     \<and> (\<forall>q. tmp_like q \<longrightarrow> node_at w q = None)
     \<and> (\<forall>d\<in>D. node_at w d = None \<or> is_dir (node_at w d))
     \<and> (\<forall>f\<in>F. node_at w f = None \<or> (\<exists>m c. node_at w f = Some (NFile m c)))
     \<and> (\<forall>q. q \<notin> D \<longrightarrow> q \<notin> F \<longrightarrow> \<not> tmp_like q \<longrightarrow> node_at w q = node_at w0 q)"

text \<open>The two kinds of paths do not meet, and none looks like a temporary file.\<close>

definition apart :: "string set \<Rightarrow> string set \<Rightarrow> bool" where
  "apart D F \<longleftrightarrow> D \<inter> F = {} \<and> (\<forall>p \<in> D \<union> F. \<not> tmp_like p)"

definition reach :: "string set \<Rightarrow> string \<Rightarrow> bool" where
  "reach D d \<longleftrightarrow> set (dir_chain d) \<subseteq> D \<and> d \<in> set (dir_chain d)"

lemma able_less: "able D F w0 n w \<Longrightarrow> m \<le> n \<Longrightarrow> able D F w0 m w"
  by (simp add: able_def)

lemma is_dir_at: "is_dir (node_at w d) \<Longrightarrow> dir_at w d"
  by (cases "node_at w d" rule: is_dir.cases) (auto simp: dir_at_def follow_def eval_nat_numeral)

lemma not_dir_at: "node_at w d = None \<Longrightarrow> \<not> dir_at w d"
  by (simp add: dir_at_def follow_def eval_nat_numeral)

lemma able_change:
  assumes "able D F w0 n w" and "w_faults w' = []" and "n' \<le> length (w_rand w')"
    and "\<And>q. node_at w' q = node_at w q \<or> q \<in> D \<and> is_dir (node_at w' q) \<or> q \<in> F \<and> (node_at w' q = None \<or> (\<exists>m c. node_at w' q = Some (NFile m c)))"
    and "apart D F"
  shows "able D F w0 n' w'"
  unfolding able_def
proof (intro conjI allI ballI impI)
  fix q assume "tmp_like q"
  then show "node_at w' q = None" using assms(1) assms(4) [of q] assms(5) by (auto simp: able_def apart_def)
next
  fix d assume "d \<in> D"
  then show "node_at w' d = None \<or> is_dir (node_at w' d)" using assms(1) assms(4) [of d] assms(5) by (auto simp: able_def apart_def)
next
  fix f assume "f \<in> F"
  then show "node_at w' f = None \<or> (\<exists>m c. node_at w' f = Some (NFile m c))"
    using assms(1) assms(4) [of f] assms(5) by (auto simp: able_def apart_def)
next
  fix q assume "q \<notin> D" "q \<notin> F" "\<not> tmp_like q"
  then show "node_at w' q = node_at w0 q" using assms(1) assms(4) [of q] by (auto simp: able_def)
qed (use assms in auto)

lemma able_make_dirs:
  assumes "able D F w0 n w" and "set ps \<subseteq> D" and "apart D F"
  shows "\<exists>w'. make_dirs mode ps w = (Inr (), w') \<and> able D F w0 n w' \<and> (\<forall>d \<in> set ps. is_dir (node_at w' d))
     \<and> (\<forall>q. q \<notin> D \<longrightarrow> node_at w' q = node_at w q) \<and> (\<forall>q. is_dir (node_at w q) \<longrightarrow> is_dir (node_at w' q))"
  using assms(1,2)
proof (induction ps arbitrary: w)
  case Nil
  then show ?case by (simp add: io_return_def)
next
  case (Cons p ps)
  define v where "v = (if dir_at w p then w else w\<lparr>w_files := AList.update p (NDir mode) (w_files w)\<rparr>)"
  have p: "p \<in> D" using Cons.prems(2) by simp
  then have node: "node_at w p = None \<or> is_dir (node_at w p)" using Cons.prems(1) by (auto simp: able_def)
  have made: "make_dir mode p w = (Inr (), v)" using node is_dir_at by (auto simp: make_dir_def v_def)
  have at: "node_at v q = (if q = p \<and> \<not> dir_at w p then Some (NDir mode) else node_at w q)" for q
    by (simp add: v_def update_conv')
  have dirs: "is_dir (node_at v q)" if "is_dir (node_at w q)" for q using that by (simp add: at)
  have pv: "is_dir (node_at v p)" using node not_dir_at by (auto simp: at)
  have "able D F w0 n v"
    by (rule able_change [OF Cons.prems(1)]) (use Cons.prems(1) p assms(3) in \<open>auto simp: at able_def v_def\<close>)
  from Cons.IH [OF this] Cons.prems(2) obtain w' where w': "make_dirs mode ps v = (Inr (), w')" "able D F w0 n w'"
      "\<forall>d \<in> set ps. is_dir (node_at w' d)" "\<forall>q. q \<notin> D \<longrightarrow> node_at w' q = node_at v q"
      "\<forall>q. is_dir (node_at v q) \<longrightarrow> is_dir (node_at w' q)" by auto
  have "make_dirs mode (p # ps) w = (Inr (), w')" using made w'(1) by (simp add: io_bind_def)
  moreover have "\<forall>q. q \<notin> D \<longrightarrow> node_at w' q = node_at w q" using w'(4) p by (auto simp: at)
  ultimately show ?case using w'(2,3,5) pv dirs by auto
qed

lemma able_MkdirAll:
  assumes "able D F w0 n w" and "reach D p" and "apart D F"
  obtains w' where "MkdirAll p mode w = (Inr (), w')" "able D F w0 n w'" "is_dir (node_at w' p)"
    "\<And>f. f \<in> F \<Longrightarrow> node_at w' f = node_at w f" "\<And>q. is_dir (node_at w q) \<Longrightarrow> is_dir (node_at w' q)"
proof -
  obtain w' where w': "make_dirs mode (dir_chain p) w = (Inr (), w')" "able D F w0 n w'"
      "\<forall>d \<in> set (dir_chain p). is_dir (node_at w' d)" "\<forall>q. q \<notin> D \<longrightarrow> node_at w' q = node_at w q"
      "\<forall>q. is_dir (node_at w q) \<longrightarrow> is_dir (node_at w' q)"
    using able_make_dirs [OF assms(1) _ assms(3)] assms(2) unfolding reach_def by blast
  show ?thesis
  proof (rule that)
    show "MkdirAll p mode w = (Inr (), w')" using w'(1) assms(1) by (simp add: MkdirAll_def sys_no_fault able_def)
    show "node_at w' f = node_at w f" if "f \<in> F" for f using w'(4) that assms(3) by (auto simp: apart_def)
  qed (use w' assms(2) in \<open>auto simp: reach_def\<close>)
qed

lemma able_replace:
  assumes "able D F w0 (Suc n) w" and "is_dir (node_at w (DirPath f))" and "f \<in> F" and "apart D F"
  obtains w' where "replace_via_temp (DirPath f) ''.mysafe-'' [] f c m w = (Inr (), w')" "able D F w0 n w'"
    "node_at w' f = Some (NFile m c)" "\<And>q. q \<noteq> f \<Longrightarrow> node_at w' q = node_at w q"
proof -
  obtain s ss where rand: "w_rand w = s # ss" using assms(1) by (cases "w_rand w") (auto simp: able_def)
  define tmp where "tmp = DirPath f @ ''/'' @ ''.mysafe-'' @ EncodeToString s"
  have tmp: "tmp_like tmp"
    by (rule temp_is_tmp_like [of "DirPath f" "[]"]) (auto simp: temp_name_def tmp_def)
  then have free: "node_at w tmp = None" and ne: "tmp \<noteq> f" "f \<noteq> tmp"
    using assms(1,3,4) by (auto simp: able_def apart_def)
  have faults: "w_faults w = []" using assms(1) by (simp add: able_def)
  define v where "v = w\<lparr>w_rand := ss, w_files := AList.update tmp (NFile 384 []) (w_files w)\<rparr>"
  have create: "CreateTemp (DirPath f) ''.mysafe-'' [] w = (Inr tmp, v)"
    using is_dir_at [OF assms(2)] free faults by (simp add: CreateTemp_def sys_no_fault rand tmp_def [simplified] v_def)
  define u where "u = v\<lparr>w_files := AList.update tmp (NFile m []) (w_files v)\<rparr>"
  have chmod: "ChmodFile tmp m v = (Inr (), u)" using faults by (simp add: ChmodFile_def sys_no_fault v_def u_def)
  define x where "x = u\<lparr>w_files := AList.update tmp (NFile m c) (w_files u)\<rparr>"
  have written: "WriteTo tmp c u = (Inr (), x)"
    using faults by (simp add: WriteTo_def next_fault_none append_file_def v_def u_def x_def)
  have sync: "SyncClose x = (Inr (), x)" using faults by (simp add: SyncClose_no_fault v_def u_def x_def)
  define w' where "w' = x\<lparr>w_files := AList.update f (NFile m c) (AList.delete tmp (w_files x))\<rparr>"
  have xat: "node_at x q = (if q = tmp then Some (NFile m c) else node_at w q)" for q
    by (simp add: x_def u_def v_def update_conv')
  have "DirPath f \<noteq> tmp" using assms(2) free by auto
  then have "is_dir (node_at x (DirPath f))" using assms(2) by (simp add: xat)
  moreover have "\<not> is_dir (node_at x f)" using assms(1,3) ne by (auto simp: xat able_def)
  moreover have "node_at x tmp = Some (NFile m c)" by (simp add: xat)
  moreover have "w_faults x = []" using faults by (simp add: x_def u_def v_def)
  ultimately have rename: "Rename tmp f x = (Inr (), w')" by (simp add: Rename_def sys_no_fault is_dir_at w'_def)
  have run: "replace_via_temp (DirPath f) ''.mysafe-'' [] f c m w = (Inr (), w')"
    using create chmod written sync rename by (simp add: replace_via_temp_def io_bind_def io_cleanup_def)
  have at: "node_at w' q = (if q = f then Some (NFile m c) else node_at w q)" for q
    using free by (auto simp: w'_def update_conv' delete_conv' xat)
  have "able D F w0 n w'"
  proof (rule able_change [OF assms(1) _ _ _ assms(4)])
    show "w_faults w' = []" "n \<le> length (w_rand w')"
      using assms(1) by (simp_all add: able_def rand w'_def x_def u_def v_def)
  qed (use assms(3) in \<open>auto simp: at\<close>)
  then show ?thesis using that [OF run] at by simp
qed

lemma able_writeAtomic:
  assumes "able D F w0 (Suc n) w" and "reach D (DirPath f)" and "f \<in> F" and "apart D F"
  obtains w' where "tx_writeAtomic f c m w = (Inr (), w')" "able D F w0 n w'" "node_at w' f = Some (NFile m c)"
    "\<And>q. q \<in> F \<Longrightarrow> q \<noteq> f \<Longrightarrow> node_at w' q = node_at w q"
proof -
  obtain v where v: "MkdirAll (DirPath f) 493 w = (Inr (), v)" "able D F w0 (Suc n) v" "is_dir (node_at v (DirPath f))"
      "\<And>f. f \<in> F \<Longrightarrow> node_at v f = node_at w f"
    using able_MkdirAll [OF assms(1,2,4)] by metis
  obtain w' where w': "replace_via_temp (DirPath f) ''.mysafe-'' [] f c m v = (Inr (), w')" "able D F w0 n w'"
      "node_at w' f = Some (NFile m c)" "\<And>q. q \<noteq> f \<Longrightarrow> node_at w' q = node_at v q"
    using able_replace [OF v(2,3) assms(3,4)] by metis
  have "tx_writeAtomic f c m w = (Inr (), w')" using v(1) w'(1) by (simp add: tx_writeAtomic_def io_bind_def)
  then show ?thesis by (rule that [OF _ w'(2,3)]) (use v(4) w'(4) in simp)
qed

lemma able_copy:
  assumes "able D F w0 n w" and "node_at w f = Some (NFile k c)" and "b \<in> F" and "node_at w b = None"
    and "is_dir (node_at w (DirPath b))" and "apart D F"
  obtains w' where "copyExclusive f b m w = (Inr (), w')" "able D F w0 n w'" "node_at w' b = Some (NFile m c)"
    "\<And>q. q \<noteq> b \<Longrightarrow> node_at w' q = node_at w q"
proof -
  have faults: "w_faults w = []" using assms(1) by (simp add: able_def)
  have read: "ReadFile f w = (Inr c, w)" using follow_file [OF assms(2)] faults by (simp add: ReadFile_def sys_no_fault)
  define v where "v = w\<lparr>w_files := AList.update b (NFile m []) (w_files w)\<rparr>"
  have opened: "OpenExcl b m w = (Inr (), v)"
    using OpenExcl_no_fault [OF faults assms(4) is_dir_at [OF assms(5)]] by (simp add: v_def)
  define w' where "w' = v\<lparr>w_files := AList.update b (NFile m c) (w_files v)\<rparr>"
  have "WriteTo b c v = (Inr (), w')"
    using faults by (simp add: WriteTo_def next_fault_none append_file_def v_def w'_def)
  moreover have "SyncClose w' = (Inr (), w')" using faults by (simp add: SyncClose_no_fault w'_def v_def)
  ultimately have run: "copyExclusive f b m w = (Inr (), w')"
    using read opened by (simp add: copyExclusive_def create_exclusive_def io_bind_def io_cleanup_def)
  have at: "node_at w' q = (if q = b then Some (NFile m c) else node_at w q)" for q
    by (simp add: w'_def v_def update_conv')
  have "able D F w0 n w'"
    by (rule able_change [OF assms(1) _ _ _ assms(6)]) (use assms(1,3) in \<open>auto simp: at able_def w'_def v_def\<close>)
  then show ?thesis using that [OF run] at by simp
qed

section \<open>The paths of an installation\<close>

definition site_dirs :: "string \<Rightarrow> string \<Rightarrow> string list \<Rightarrow> string list" where
  "site_dirs root txID P =
     [rootPath root transactionDirectory, rootPath root (backupDirectory @ txID), rootPath root ''/etc/my-safe'',
      rootPath root ''/var/lib/my-safe'', DirPath (journal_path root txID)]
     @ map (\<lambda>p. DirPath (rootPath root p)) P @ map (\<lambda>p. DirPath (bkp root txID p)) P"

definition site_made :: "string \<Rightarrow> string \<Rightarrow> string list \<Rightarrow> string list" where
  "site_made root txID P = concat (map dir_chain (site_dirs root txID P))"

definition site_files :: "string \<Rightarrow> string \<Rightarrow> string list \<Rightarrow> string list" where
  "site_files root txID P = journal_path root txID # map (rootPath root) P @ map (bkp root txID) P"

definition site_ok :: "string \<Rightarrow> string \<Rightarrow> string list \<Rightarrow> bool" where
  "site_ok root txID P \<longleftrightarrow> list_all (\<lambda>d. d \<in> set (dir_chain d)) (site_dirs root txID P)
     \<and> list_all (\<lambda>p. \<not> tmp_like p \<and> p \<notin> set (site_made root txID P)) (site_files root txID P)
     \<and> list_all (\<lambda>d. \<not> tmp_like d) (site_made root txID P) \<and> distinct (site_files root txID P)
     \<and> list_all (\<lambda>p. HasPrefix p ''/'' \<and> Clean p \<noteq> ''/'' \<and> withinRoot root (rootPath root p) \<and> withinRoot root (bkp root txID p)) P
     \<and> withinRoot root (rootPath root ''/etc/my-safe'') \<and> withinRoot root (rootPath root ''/var/lib/my-safe'')"

lemma site_apart: "site_ok root txID P \<Longrightarrow> apart (set (site_made root txID P)) (set (site_files root txID P))"
  by (auto simp: site_ok_def apart_def list_all_iff)

lemma site_reach: "site_ok root txID P \<Longrightarrow> d \<in> set (site_dirs root txID P) \<Longrightarrow> reach (set (site_made root txID P)) d"
  by (auto simp: site_ok_def reach_def list_all_iff site_made_def)

lemma site_members:
  "journal_path root txID \<in> set (site_files root txID P)" "DirPath (journal_path root txID) \<in> set (site_dirs root txID P)"
  "rootPath root transactionDirectory \<in> set (site_dirs root txID P)"
  "rootPath root (backupDirectory @ txID) \<in> set (site_dirs root txID P)"
  "rootPath root ''/etc/my-safe'' \<in> set (site_dirs root txID P)" "rootPath root ''/var/lib/my-safe'' \<in> set (site_dirs root txID P)"
  by (simp_all add: site_files_def site_dirs_def)

lemma site_path:
  assumes "p \<in> set P"
  shows "rootPath root p \<in> set (site_files root txID P)" "bkp root txID p \<in> set (site_files root txID P)"
    "DirPath (rootPath root p) \<in> set (site_dirs root txID P)" "DirPath (bkp root txID p) \<in> set (site_dirs root txID P)"
  using assms by (simp_all add: site_files_def site_dirs_def)

lemma site_distinct:
  assumes "site_ok root txID P" and "p \<in> set P" and "q \<in> set P"
  shows "rootPath root p \<noteq> journal_path root txID" "bkp root txID p \<noteq> journal_path root txID"
    "bkp root txID p \<noteq> rootPath root q" "p \<noteq> q \<Longrightarrow> bkp root txID p \<noteq> bkp root txID q"
    "p \<noteq> q \<Longrightarrow> rootPath root p \<noteq> rootPath root q"
proof -
  have d: "distinct (site_files root txID P)" using assms(1) by (simp add: site_ok_def)
  have "journal_path root txID \<notin> rootPath root ` set P" "journal_path root txID \<notin> bkp root txID ` set P"
    "rootPath root ` set P \<inter> bkp root txID ` set P = {}" "inj_on (rootPath root) (set P)" "inj_on (bkp root txID) (set P)"
    using d by (auto simp: site_files_def distinct_map)
  then show "rootPath root p \<noteq> journal_path root txID" "bkp root txID p \<noteq> journal_path root txID"
    "bkp root txID p \<noteq> rootPath root q" "p \<noteq> q \<Longrightarrow> bkp root txID p \<noteq> bkp root txID q"
    "p \<noteq> q \<Longrightarrow> rootPath root p \<noteq> rootPath root q"
    using assms(2,3) by (metis imageI, metis imageI, metis disjoint_iff imageI, metis inj_onD, metis inj_onD)
qed

section \<open>Steps that succeed\<close>

text \<open>\<open>R\<close> are the paths that have not been prepared.\<close>

definition on_site :: "string \<Rightarrow> string \<Rightarrow> string list \<Rightarrow> world \<Rightarrow> nat \<Rightarrow> string set \<Rightarrow> fileTransaction \<Rightarrow> world \<Rightarrow> bool" where
  "on_site root txID P w0 n R ft w \<longleftrightarrow> able (set (site_made root txID P)) (set (site_files root txID P)) w0 n w
     \<and> ft_root ft = root \<and> ft_journalPath ft = journal_path root txID \<and> tr_ID (ft_record ft) = txID
     \<and> (\<forall>p \<in> R. node_at w (bkp root txID p) = None)
     \<and> R \<subseteq> set P \<and> length (tr_Changes (ft_record ft)) + card R \<le> length P"

definition lives :: "(fileTransaction \<Rightarrow> world \<Rightarrow> bool) \<Rightarrow> 'a tx \<Rightarrow> ('a \<Rightarrow> fileTransaction \<Rightarrow> world \<Rightarrow> bool) \<Rightarrow> bool" where
  "lives I m Q \<longleftrightarrow> (\<forall>ft w. I ft w \<longrightarrow> (\<exists>x ft' w'. m ft w = (Inr x, ft', w') \<and> Q x ft' w'))"

lemma livesD: "lives I m Q \<Longrightarrow> I ft w \<Longrightarrow> \<exists>x ft' w'. m ft w = (Inr x, ft', w') \<and> Q x ft' w'"
  by (simp add: lives_def)

lemma lives_bind:
  assumes "lives I m Q" and "\<And>x. lives (Q x) (k x) S"
  shows "lives I (tx_bind m k) S"
  unfolding lives_def [of I]
proof (intro allI impI)
  fix ft w assume "I ft w"
  then obtain x ft1 w1 where m: "m ft w = (Inr x, ft1, w1)" "Q x ft1 w1" using livesD [OF assms(1)] by blast
  then show "\<exists>x ft' w'. tx_bind m k ft w = (Inr x, ft', w') \<and> S x ft' w'"
    using livesD [OF assms(2) m(2)] by (simp add: tx_bind_def)
qed

lemma lives_return: "(\<And>ft w. I ft w \<Longrightarrow> Q x ft w) \<Longrightarrow> lives I (tx_return x) Q"
  by (simp add: lives_def tx_return_def)

lemma lives_of: "r = Inr x \<Longrightarrow> (\<And>ft w. I ft w \<Longrightarrow> Q x ft w) \<Longrightarrow> lives I (tx_of r) Q"
  by (simp add: lives_def tx_of_def tx_io_def)

lemma lives_each_Nil: "(\<And>ft w. I ft w \<Longrightarrow> Q () ft w) \<Longrightarrow> lives I (tx_each []) Q"
  by (simp add: lives_return)

lemma lives_each_Cons: "lives I m (\<lambda>_. J) \<Longrightarrow> lives J (tx_each ms) Q \<Longrightarrow> lives I (tx_each (m # ms)) Q"
  by (simp add: lives_bind)

lemma lives_when: "(b \<Longrightarrow> lives I m (\<lambda>_. J)) \<Longrightarrow> (\<And>ft w. I ft w \<Longrightarrow> J ft w) \<Longrightarrow> lives I (tx_when b m) (\<lambda>_. J)"
  by (simp add: tx_when_def lives_return)

lemma lives_command: "runner cmd = None \<Longrightarrow> lives I (tx_command runner cmd) (\<lambda>_. I)"
  unfolding tx_command_def by (rule lives_of) (simp_all add: runFixed_def)

lemma lives_weaken: "lives I m Q \<Longrightarrow> (\<And>ft w. J ft w \<Longrightarrow> I ft w) \<Longrightarrow> (\<And>x ft w. Q x ft w \<Longrightarrow> S x ft w) \<Longrightarrow> lives J m S"
  unfolding lives_def by meson

text \<open>What a step that lives also keeps by a triple.\<close>

lemma lives_triple: "lives I m Q \<Longrightarrow> triple J m S E \<Longrightarrow> lives (\<lambda>ft w. I ft w \<and> J ft w) m (\<lambda>x ft w. Q x ft w \<and> S x ft w)"
  unfolding lives_def using tripleD_Inr by metis

lemma on_site_less: "on_site root txID P w0 n R ft w \<Longrightarrow> m \<le> n \<Longrightarrow> S \<subseteq> R \<Longrightarrow> on_site root txID P w0 m S ft w"
  using card_mono [of R S] finite_subset [of R "set P"] by (auto simp: on_site_def able_less)

definition marshals :: "tx_lib \<Rightarrow> bool" where
  "marshals lib \<longleftrightarrow> (\<forall>r. \<exists>json. tl_marshal lib r = Inr json)"

lemma record_and_persist_able:
  assumes "site_ok root txID P" and "marshals lib" and "on_site root txID P w0 (Suc n) R ft w"
  obtains w' where "record_and_persist lib f ft w = (Inr (), with_record f ft, w')"
    "able (set (site_made root txID P)) (set (site_files root txID P)) w0 n w'"
    "\<And>q. q \<in> set (site_files root txID P) \<Longrightarrow> q \<noteq> journal_path root txID \<Longrightarrow> node_at w' q = node_at w q"
proof -
  let ?j = "journal_path root txID"
  obtain json where json: "tl_marshal lib (f (ft_record ft)) = Inr json" using assms(2) by (auto simp: marshals_def)
  have "able (set (site_made root txID P)) (set (site_files root txID P)) w0 (Suc n) w" using assms(3) by (simp add: on_site_def)
  then obtain w' where w': "tx_writeAtomic ?j (json @ [byte 10]) 384 w = (Inr (), w')"
      "able (set (site_made root txID P)) (set (site_files root txID P)) w0 n w'"
      "\<And>q. q \<in> set (site_files root txID P) \<Longrightarrow> q \<noteq> ?j \<Longrightarrow> node_at w' q = node_at w q"
    using able_writeAtomic [OF _ site_reach [OF assms(1) site_members(2)] site_members(1) site_apart [OF assms(1)]] by metis
  have "record_and_persist lib f ft w = (Inr (), with_record f ft, w')"
    using json w'(1) assms(3)
    by (simp add: record_and_persist_def persist_def with_record_def tx_jsonMarshal_def on_site_def io_wrap_def)
  then show ?thesis using that w'(2,3) by blast
qed

lemma backups_absent:
  assumes "site_ok root txID P" and "on_site root txID P w0 k R ft w"
    and "\<And>q. q \<in> set (site_files root txID P) \<Longrightarrow> q \<noteq> f \<Longrightarrow> node_at w' q = node_at w q"
    and "\<And>q. q \<in> R \<Longrightarrow> bkp root txID q \<noteq> f" and "p \<in> R"
  shows "node_at w' (bkp root txID p) = None"
proof -
  have "p \<in> set P" using assms(2,5) by (auto simp: on_site_def)
  then show ?thesis using assms(3) [OF site_path(2)] assms(4) [OF assms(5)] assms(2,5) by (simp add: on_site_def)
qed

lemma record_and_persist_lives:
  assumes "site_ok root txID P" and "marshals lib" and "\<And>r. tr_ID (f r) = tr_ID r" and "\<And>r. tr_Changes (f r) = tr_Changes r"
  shows "lives (on_site root txID P w0 (Suc n) R) (tx_run_step (record_and_persist lib f)) (\<lambda>_. on_site root txID P w0 n R)"
  unfolding lives_def
proof (intro allI impI)
  fix ft w assume i: "on_site root txID P w0 (Suc n) R ft w"
  obtain w' where w': "record_and_persist lib f ft w = (Inr (), with_record f ft, w')"
      "able (set (site_made root txID P)) (set (site_files root txID P)) w0 n w'"
      "\<And>q. q \<in> set (site_files root txID P) \<Longrightarrow> q \<noteq> journal_path root txID \<Longrightarrow> node_at w' q = node_at w q"
    using record_and_persist_able [OF assms(1,2) i] by metis
  have "node_at w' (bkp root txID p) = None" if "p \<in> R" for p
    by (rule backups_absent [OF assms(1) i w'(3) _ that]) (use i site_distinct(2) [OF assms(1)] in \<open>auto simp: on_site_def\<close>)
  then have "on_site root txID P w0 n R (with_record f ft) w'" using w'(2) i assms(3,4) by (simp add: on_site_def with_record_def)
  moreover have "tx_run_step (record_and_persist lib f) ft w = (Inr (), with_record f ft, w')" using w'(1) by (simp add: tx_run_step_def)
  ultimately show "\<exists>x ft' w'. tx_run_step (record_and_persist lib f) ft w = (Inr x, ft', w') \<and> on_site root txID P w0 n R ft' w'"
    by blast
qed

lemma prepare_change_lives:
  assumes "site_ok root txID P" and "on_site root txID P w0 n R ft w" and "p \<in> R"
  obtains ch w1 where "prepare_change lib ft p c w = (Inr ch, w1)" "on_site root txID P w0 n (R - {p}) ft w1"
proof -
  let ?t = "rootPath root p" and ?b = "bkp root txID p"
    and ?D = "set (site_made root txID P)" and ?F = "set (site_files root txID P)"
  have p: "p \<in> set P" using assms(2,3) by (auto simp: on_site_def)
  have less: "on_site root txID P w0 n (R - {p}) ft w" by (rule on_site_less [OF assms(2)]) auto
  have safe: "HasPrefix p ''/''" "Clean p \<noteq> ''/''" "withinRoot root ?t" using assms(1) p by (auto simp: site_ok_def list_all_iff)
  have a: "able ?D ?F w0 n w" and ft: "ft_root ft = root" "tr_ID (ft_record ft) = txID" using assms(2) by (auto simp: on_site_def)
  note ap = site_apart [OF assms(1)]
  have stays: "on_site root txID P w0 n (R - {p}) ft v"
    if "able ?D ?F w0 n v" "\<And>q. q \<in> ?F \<Longrightarrow> q \<noteq> ?b \<Longrightarrow> node_at v q = node_at w q" for v
  proof -
    note same = that(2)
    have "node_at v (bkp root txID q) = None" if q: "q \<in> R - {p}" for q
      by (rule backups_absent [OF assms(1) less same _ q])
        (use site_distinct(4) [OF assms(1)] p less in \<open>auto simp: on_site_def\<close>)
    then show ?thesis using that(1) less by (simp add: on_site_def)
  qed
  obtain v where v: "MkdirAll (DirPath ?t) 493 w = (Inr (), v)" "able ?D ?F w0 n v" "\<And>f. f \<in> ?F \<Longrightarrow> node_at v f = node_at w f"
    using able_MkdirAll [OF a site_reach [OF assms(1) site_path(3) [OF p]] ap] by metis
  have lstat: "Lstat ?t v = (case node_at v ?t of None \<Rightarrow> Inl OsNotExist | Some x \<Rightarrow> Inr x, v)"
    using v(2) by (simp add: Lstat_def sys_no_fault able_def)
  note prep = prepare_change_def [of lib ft p c] Let_def ft safe v(1) lstat io_bind_def io_wrap_def io_try_def io_return_def
  consider "node_at v ?t = None" | m0 c0 where "node_at v ?t = Some (NFile m0 c0)"
    using v(2) site_path(1) [OF p, of root txID] by (auto simp: able_def)
  then show ?thesis
  proof cases
    case 1
    then obtain ch where "prepare_change lib ft p c w = (Inr ch, v)" by (simp add: prep)
    then show ?thesis using that stays [OF v(2)] v(3) by blast
  next
    case 2
    obtain u where u: "MkdirAll (DirPath ?b) 448 v = (Inr (), u)" "able ?D ?F w0 n u" "is_dir (node_at u (DirPath ?b))"
        "\<And>f. f \<in> ?F \<Longrightarrow> node_at u f = node_at v f"
      using able_MkdirAll [OF v(2) site_reach [OF assms(1) site_path(4) [OF p]] ap] by metis
    have ut: "node_at u ?t = Some (NFile m0 c0)" using u(4) [OF site_path(1) [OF p]] 2 by simp
    have ub: "node_at u ?b = None" using u(4) v(3) site_path(2) [OF p, of root txID] assms(2,3) by (simp add: on_site_def)
    obtain x where x: "copyExclusive ?t ?b m0 u = (Inr (), x)" "able ?D ?F w0 n x" "\<And>q. q \<noteq> ?b \<Longrightarrow> node_at x q = node_at u q"
      using able_copy [OF u(2) ut site_path(2) [OF p] ub u(3) ap] by metis
    obtain ch where "prepare_change lib ft p c w = (Inr ch, x)"
      using 2 u(1) x(1) by (simp add: prep bkp_def)
    moreover have "on_site root txID P w0 n (R - {p}) ft x" by (rule stays [OF x(2)]) (use x(3) u(4) v(3) in simp)
    ultimately show ?thesis by (rule that)
  qed
qed

lemma InstallBytes_lives:
  assumes "site_ok root txID P" and "marshals lib" and "p \<in> R"
  shows "lives (on_site root txID P w0 (Suc (Suc n)) R) (tx_run_step (InstallBytes lib p c m)) (\<lambda>_. on_site root txID P w0 n (R - {p}))"
  unfolding lives_def
proof (intro allI impI)
  fix ft w assume i: "on_site root txID P w0 (Suc (Suc n)) R ft w"
  let ?t = "rootPath root p" and ?D = "set (site_made root txID P)" and ?F = "set (site_files root txID P)"
  have p: "p \<in> set P" using assms(3) i by (auto simp: on_site_def)
  obtain ch w1 where prep: "prepare_change lib ft p c w = (Inr ch, w1)" "on_site root txID P w0 (Suc (Suc n)) (R - {p}) ft w1"
    using prepare_change_lives [OF assms(1) i assms(3)] by metis
  define ft2 where "ft2 = with_record (add_change ch) ft"
  obtain w2 where rec: "record_and_persist lib (add_change ch) ft w1 = (Inr (), ft2, w2)" "able ?D ?F w0 (Suc n) w2"
      "\<And>q. q \<in> ?F \<Longrightarrow> q \<noteq> journal_path root txID \<Longrightarrow> node_at w2 q = node_at w1 q"
    using record_and_persist_able [OF assms(1,2) prep(2)] unfolding ft2_def by metis
  have "card (R - {p}) + 1 = card R"
    using i assms(3) finite_subset [of R "set P"] card_gt_0_iff [of R] by (auto simp: on_site_def)
  then have small: "length (tr_Changes (ft_record ft2)) + card (R - {p}) \<le> length P"
    using i by (simp add: on_site_def ft2_def with_record_def add_change_def)
  have "node_at w2 (bkp root txID q) = None" if "q \<in> R - {p}" for q
    by (rule backups_absent [OF assms(1) prep(2) rec(3) _ that]) (use site_distinct(2) [OF assms(1)] prep(2) in \<open>auto simp: on_site_def\<close>)
  then have o2: "on_site root txID P w0 (Suc n) (R - {p}) ft2 w2"
    using rec(2) prep(2) small by (simp add: on_site_def ft2_def with_record_def add_change_def)
  obtain w3 where w3: "tx_writeAtomic ?t c m w2 = (Inr (), w3)" "able ?D ?F w0 n w3"
      "\<And>q. q \<in> ?F \<Longrightarrow> q \<noteq> ?t \<Longrightarrow> node_at w3 q = node_at w2 q"
    using able_writeAtomic [OF rec(2) site_reach [OF assms(1) site_path(3) [OF p]] site_path(1) [OF p] site_apart [OF assms(1)]] by metis
  have "node_at w3 (bkp root txID q) = None" if "q \<in> R - {p}" for q
    by (rule backups_absent [OF assms(1) o2 w3(3) _ that]) (use site_distinct(3) [OF assms(1) _ p] o2 in \<open>auto simp: on_site_def\<close>)
  then have "on_site root txID P w0 n (R - {p}) ft2 w3" using w3(2) o2 by (simp add: on_site_def)
  moreover have "tx_run_step (InstallBytes lib p c m) ft w = (Inr (), ft2, w3)"
    using prep(1) rec(1) w3(1) o2 by (simp add: tx_run_step_def InstallBytes_def io_wrap_def on_site_def)
  ultimately show "\<exists>x ft' w'. tx_run_step (InstallBytes lib p c m) ft w = (Inr x, ft', w') \<and> on_site root txID P w0 n (R - {p}) ft' w'"
    by blast
qed

text \<open>Accounts and directories.\<close>

definition obeys :: "Runner \<Rightarrow> bool" where
  "obeys runner \<longleftrightarrow> (\<forall>name args. name \<in> {''groupadd'', ''useradd'', ''chown''} \<longrightarrow> apply_runner runner (name # args) = None)
     \<and> apply_runner runner [''systemctl'', ''daemon-reload''] = None \<and> (\<forall>env args. snd (rn_RunEnv runner env args) = None)"

definition starts :: "Runner \<Rightarrow> bool" where
  "starts runner \<longleftrightarrow> (\<forall>service. apply_runner runner [''systemctl'', ''enable'', ''--now'', service] = None)"

lemma step_lives:
  "lives I (tx_run_step m) (\<lambda>_. J) \<longleftrightarrow> (\<forall>ft w. I ft w \<longrightarrow> (\<exists>ft' w'. m ft w = (Inr (), ft', w') \<and> J ft' w'))"
proof -
  have "tx_run_step m ft w = (Inr x, ft', w') \<longleftrightarrow> m ft w = (Inr x, ft', w')" for ft w x ft' w'
    by (auto simp: tx_run_step_def split: prod.splits sum.splits)
  then show ?thesis by (simp add: lives_def)
qed

lemma notes_live:
  assumes "site_ok root txID P" and "marshals lib"
  shows "lives (on_site root txID P w0 (Suc n) R) (tx_run_step (RecordService lib s)) (\<lambda>_. on_site root txID P w0 n R)"
    "lives (on_site root txID P w0 (Suc n) R) (tx_run_step (RecordCreatedUser lib name)) (\<lambda>_. on_site root txID P w0 n R)"
    "lives (on_site root txID P w0 (Suc n) R) (tx_run_step (RecordCreatedGroup lib name)) (\<lambda>_. on_site root txID P w0 n R)"
    "lives (on_site root txID P w0 (Suc n) R) (tx_run_step (tx_Commit lib)) (\<lambda>_. on_site root txID P w0 n R)"
  unfolding RecordService_def RecordCreatedUser_def RecordCreatedGroup_def tx_Commit_def
  by (rule record_and_persist_lives [OF assms], simp, simp)+

lemma ensureAccount_lives:
  assumes "site_ok root txID P" and "marshals lib" and "obeys runner"
  shows "lives (on_site root txID P w0 (Suc (Suc n)) R) (tx_run_step (ensureAccount lib (apply_runner runner) name home))
     (\<lambda>_. on_site root txID P w0 n R)"
  unfolding step_lives
proof (intro allI impI)
  fix ft w assume i: "on_site root txID P w0 (Suc (Suc n)) R ft w"
  note jots = notes_live [OF assms(1,2), unfolded step_lives, rule_format]
  let ?run = "apply_runner runner"
  have ok: "add_account ?run (c # args) k ft w = k ft w" if "c \<in> {''groupadd'', ''useradd''}" for c args k and ft w
    using assms(3) that by (auto simp: add_account_def runFixed_def obeys_def)
  have added: "add_account ?run [''groupadd'', ''--system'', name] k = k"
    "add_account ?run [''useradd'', ''--system'', ''--gid'', name, ''--home-dir'', home, ''--shell'', ''/usr/sbin/nologin'', name] k = k" for k
    by (rule ext, rule ext, rule ok, simp)+
  obtain ft1 w1 where g: "(if ?run [''getent'', ''group'', name] = None then (Inr (), ft, w) else RecordCreatedGroup lib name ft w) = (Inr (), ft1, w1)"
      "on_site root txID P w0 (Suc n) R ft1 w1"
    using jots(3) [OF i, of name] on_site_less [OF i, of "Suc n" R] by (cases "?run [''getent'', ''group'', name] = None") auto
  obtain ft2 w2 where u: "(if ?run [''id'', name] = None then (Inr (), ft1, w1) else RecordCreatedUser lib name ft1 w1) = (Inr (), ft2, w2)"
      "on_site root txID P w0 n R ft2 w2"
    using jots(2) [OF g(2), of name] on_site_less [OF g(2), of n R] by (cases "?run [''id'', name] = None") auto
  have "ensureAccount lib ?run name home ft w = (Inr (), ft2, w2)"
    unfolding ensureAccount_def added g(1) using u(1) by simp
  then show "\<exists>ft' w'. ensureAccount lib ?run name home ft w = (Inr (), ft', w') \<and> on_site root txID P w0 n R ft' w'" using u(2) by blast
qed

lemma ensureDirectory_lives:
  assumes "site_ok root txID P" and "d \<in> {''/etc/my-safe'', ''/var/lib/my-safe''}"
  shows "lives (on_site root txID P w0 n R) (tx_io (ensureDirectory root d mode)) (\<lambda>_. on_site root txID P w0 n R)"
  unfolding lives_def
proof (intro allI impI)
  fix ft w assume i: "on_site root txID P w0 n R ft w"
  let ?d = "rootPath root d" and ?D = "set (site_made root txID P)" and ?F = "set (site_files root txID P)"
  have d: "reach ?D ?d" "withinRoot root ?d"
    using assms(1,2) site_reach [OF assms(1)] site_members(5,6) by (auto simp: site_ok_def)
  have a: "able ?D ?F w0 n w" using i by (simp add: on_site_def)
  obtain v where v: "MkdirAll ?d mode w = (Inr (), v)" "able ?D ?F w0 n v" "is_dir (node_at v ?d)" "\<And>f. f \<in> ?F \<Longrightarrow> node_at v f = node_at w f"
    using able_MkdirAll [OF a d(1) site_apart [OF assms(1)]] by metis
  define u where "u = v\<lparr>w_files := AList.update ?d (NDir mode) (w_files v)\<rparr>"
  obtain k where "node_at v ?d = Some (NDir k)" using v(3) by (cases "node_at v ?d" rule: is_dir.cases) auto
  then have chmod: "ChmodFile ?d mode v = (Inr (), u)" using v(2) by (simp add: ChmodFile_def sys_no_fault able_def u_def)
  have at: "node_at u q = (if q = ?d then Some (NDir mode) else node_at v q)" for q by (simp add: u_def update_conv')
  have dD: "?d \<in> ?D" using d(1) by (auto simp: reach_def)
  then have "?d \<notin> ?F" using site_apart [OF assms(1)] by (auto simp: apart_def)
  then have same: "node_at u f = node_at w f" if "f \<in> ?F" for f using that v(4) by (auto simp: at)
  have "able ?D ?F w0 n u"
  proof (rule able_change [OF v(2) _ _ _ site_apart [OF assms(1)]])
    show "w_faults u = []" "n \<le> length (w_rand u)" using v(2) by (simp_all add: able_def u_def)
  qed (use dD in \<open>auto simp: at\<close>)
  moreover have "node_at u (bkp root txID p) = None" if "p \<in> R" for p
    using same [OF site_path(2)] that i by (auto simp: on_site_def)
  ultimately have "on_site root txID P w0 n R ft u" using i by (simp add: on_site_def)
  moreover have "tx_io (ensureDirectory root d mode) ft w = (Inr (), ft, u)"
    using v(1) chmod d(2) by (simp add: tx_io_def ensureDirectory_def Let_def io_bind_def io_wrap_def)
  ultimately show "\<exists>x ft' w'. tx_io (ensureDirectory root d mode) ft w = (Inr x, ft', w') \<and> on_site root txID P w0 n R ft' w'" by blast
qed

lemma prepare_host_lives:
  assumes "site_ok (ao_Root options) txID P" and "marshals (al_tx lib)" and "obeys runner"
  shows "lives (on_site (ao_Root options) txID P w0 (n + 6) R) (prepare_host lib options (apply_runner runner) gateway)
     (\<lambda>_. on_site (ao_Root options) txID P w0 n R)"
proof -
  let ?S = "\<lambda>n. on_site (ao_Root options) txID P w0 n R" and ?run = "apply_runner runner"
  have service: "lives (?S (Suc k)) (tx_run_step (RecordService (al_tx lib) s)) (\<lambda>_. ?S k)" for k s
    by (rule notes_live(1) [OF assms(1,2)])
  have account: "lives (?S (Suc (Suc k))) (tx_run_step (ensureAccount (al_tx lib) ?run name home)) (\<lambda>_. ?S k)" for k name home
    by (rule ensureAccount_lives [OF assms])
  have dir: "lives (?S k) (tx_io (ensureDirectory (ao_Root options) d m)) (\<lambda>_. ?S k)" if "d \<in> {''/etc/my-safe'', ''/var/lib/my-safe''}" for k d m
    by (rule ensureDirectory_lives [OF assms(1) that])
  have less: "?S a ft w \<Longrightarrow> b \<le> a \<Longrightarrow> ?S b ft w" for a b ft w by (auto intro: on_site_less)
  have "lives (?S (Suc (Suc (Suc (Suc (Suc (Suc n))))))) (prepare_host lib options ?run gateway) (\<lambda>_. ?S n)"
    unfolding prepare_host_def
    by (rule lives_each_Cons [OF service], rule lives_each_Cons [OF lives_when [OF service]], erule less, simp,
        rule lives_each_Cons [OF account], rule lives_each_Cons [OF lives_when [OF account]], erule less, simp,
        rule lives_each_Cons [OF dir], simp, rule lives_each_Cons [OF dir], simp, rule lives_each_Nil)
  then show ?thesis by (simp add: eval_nat_numeral)
qed

section \<open>The files to install\<close>

text \<open>What the release and the installer itself supply.\<close>

definition supplied :: "apply_lib \<Rightarrow> bool" where
  "supplied lib \<longleftrightarrow> marshals (al_tx lib) \<and> (\<forall>state. \<exists>json. al_marshal lib state = Inr json)
     \<and> (\<exists>agent gateway pem key. AgentUnit lib = Inr agent \<and> GatewayUnit lib = Inr gateway \<and> ReleasePublicKey lib = Inr pem
          \<and> ParsePublicKey (al_rb lib) pem = Inr key)"

definition stocked :: "ApplyOptions \<Rightarrow> Manifest \<Rightarrow> string \<Rightarrow> string \<Rightarrow> string \<Rightarrow> string list \<Rightarrow> world \<Rightarrow> bool" where
  "stocked options manifest arch component txID P w \<longleftrightarrow>
     (case Select manifest component ''linux'' arch of
        Inl _ \<Rightarrow> False
      | Inr a \<Rightarrow>
          let q = JoinPath [ao_BundleDirectory options, ar_Name a]
          in (case node_at w q of Some x \<Rightarrow> is_regular x | None \<Rightarrow> False) \<and> \<not> tmp_like q
             \<and> q \<notin> set (site_made (ao_Root options) txID P) \<and> q \<notin> set (site_files (ao_Root options) txID P))"

lemma read_artifact_lives:
  assumes "stocked options manifest arch component txID P w0"
  shows "lives (on_site (ao_Root options) txID P w0 n R) (tx_io (read_artifact lib options manifest component arch))
     (\<lambda>_. on_site (ao_Root options) txID P w0 n R)"
  unfolding lives_def
proof (intro allI impI)
  fix ft w assume i: "on_site (ao_Root options) txID P w0 n R ft w"
  obtain a where a: "Select manifest component ''linux'' arch = Inr a"
    using assms by (auto simp: stocked_def split: sum.splits)
  define q where "q = JoinPath [ao_BundleDirectory options, ar_Name a]"
  have q: "case node_at w0 q of Some x \<Rightarrow> is_regular x | None \<Rightarrow> False" "\<not> tmp_like q"
      "q \<notin> set (site_made (ao_Root options) txID P)" "q \<notin> set (site_files (ao_Root options) txID P)"
    using assms a by (auto simp: stocked_def q_def Let_def)
  have "node_at w q = node_at w0 q" using i q(2-4) by (simp add: on_site_def able_def)
  then obtain m c where "node_at w q = Some (NFile m c)" using q(1) by (auto elim: is_regular.elims split: option.splits)
  then have "ReadFile q w = (Inr c, w)"
    using i follow_file [of w q m c] by (simp add: ReadFile_def sys_no_fault on_site_def able_def)
  then have "tx_io (read_artifact lib options manifest component arch) ft w = (Inr c, ft, w)"
    by (simp add: tx_io_def read_artifact_def a io_wrap_def q_def)
  then show "\<exists>x ft' w'. tx_io (read_artifact lib options manifest component arch) ft w = (Inr x, ft', w')
      \<and> on_site (ao_Root options) txID P w0 n R ft' w'" using i by blast
qed

lemma collect_files_lives:
  assumes "supplied lib" and "stocked options manifest (env_Architecture (insp_Environment inspection)) ''agent'' txID P w0"
    and "pl_GatewayEnabled (insp_Plan inspection) \<Longrightarrow>
       stocked options manifest (env_Architecture (insp_Environment inspection)) ''gateway'' txID P w0"
  shows "lives (on_site (ao_Root options) txID P w0 n R) (collect_files lib options key manifest inspection)
     (\<lambda>files ft w. on_site (ao_Root options) txID P w0 n R ft w \<and> files_ok (insp_Plan inspection) files)"
proof -
  let ?I = "on_site (ao_Root options) txID P w0 n R"
  obtain agent gateway pem embedded where units: "AgentUnit lib = Inr agent" "GatewayUnit lib = Inr gateway"
      and key: "ReleasePublicKey lib = Inr pem" "ParsePublicKey (al_rb lib) pem = Inr embedded"
    using assms(1) by (auto simp: supplied_def)
  obtain ks where ks: "pinned_key lib key = Inr ks" using key by (auto simp: pinned_key_def)
  have state: "\<exists>json. installed_state lib manifest t = Inr json" for t
  proof -
    obtain json where "al_marshal lib \<lparr>ir_Version = mf_Version manifest, ir_InstalledAt = al_Now lib 1, ir_TransactionID = t\<rparr> = Inr json"
      using assms(1) unfolding supplied_def by blast
    then show ?thesis by (simp add: installed_state_def)
  qed
  have gs: "lives ?I (gateway_files lib options manifest inspection) (\<lambda>_. ?I)"
  proof (cases "pl_GatewayEnabled (insp_Plan inspection)")
    case False
    then show ?thesis by (simp add: gateway_files_def lives_return)
  next
    case True
    show ?thesis
      unfolding gateway_files_def if_not_P [OF iffD2 [OF not_not True]]
      by (rule lives_bind [OF read_artifact_lives [OF assms(3) [OF True]]], rule lives_bind [OF lives_of [OF units(2)]],
          assumption, rule lives_return)
  qed
  let ?rest = "\<lambda>c unit files ft0. tx_bind (tx_of (installed_state lib manifest (tr_ID (ft_record ft0)))) (\<lambda>installedState.
       tx_bind (gateway_files lib options manifest inspection) (\<lambda>gatewayFiles. tx_return
         ([(''/usr/local/bin/mysafe-agent'', c, 493), (''/etc/systemd/system/my-safe-agent.service'', unit, 420),
           (''/etc/my-safe/agent.env'', agentEnvironment (ao_ControlURL options), 416), (installedReleasePath, installedState, 384)]
          @ files @ gatewayFiles)))"
  have rest: "lives ?I (\<lambda>ft. ?rest c unit files ft ft) (\<lambda>_. ?I)" for c unit and files :: "install_file list"
    unfolding lives_def
  proof (intro allI impI)
    fix ft w assume i: "?I ft w"
    obtain json where js: "installed_state lib manifest (tr_ID (ft_record ft)) = Inr json" using state by blast
    have "lives ?I (?rest c unit files ft) (\<lambda>_. ?I)"
      by (rule lives_bind [OF lives_of [OF js]], assumption, rule lives_bind [OF gs], rule lives_return)
    from livesD [OF this i] show "\<exists>x ft' w'. ?rest c unit files ft ft w = (Inr x, ft', w') \<and> ?I ft' w'" .
  qed
  have alive: "lives ?I (collect_files lib options key manifest inspection) (\<lambda>_. ?I)"
    unfolding collect_files_def
    by (rule lives_bind [OF read_artifact_lives [OF assms(2)]], rule lives_bind [OF lives_of [OF units(1), of _ "\<lambda>_. ?I"]],
        assumption, rule lives_bind [OF lives_of [OF ks, of _ "\<lambda>_. ?I"]], assumption, rule rest)
  have "stable (ao_Root options) (al_tx lib) (\<lambda>_ _. True)" by (simp add: stable_def)
  from triple_collect_files [OF this, of "\<lambda>_ _. True" manifest inspection "\<lambda>_. True" key]
  have "triple (\<lambda>_ _. True) (collect_files lib options key manifest inspection) (\<lambda>files ft w. files_ok (insp_Plan inspection) files) (\<lambda>_ _. True)"
    by (rule triple_weaken) auto
  from lives_triple [OF alive this] show ?thesis by simp
qed

lemma install_all_lives:
  assumes "site_ok root txID P" and "marshals lib" and "distinct (map fst files)" and "set (map fst files) \<subseteq> R"
  shows "lives (on_site root txID P w0 (2 * length files + n) R) (install_all lib files)
     (\<lambda>_. on_site root txID P w0 n (R - set (map fst files)))"
  using assms(3,4)
proof (induction files arbitrary: R)
  case Nil
  show ?case by (simp add: install_all_def lives_return)
next
  case (Cons f files)
  obtain q c m where f: "f = (q, c, m)" by (cases f)
  have "lives (on_site root txID P w0 (Suc (Suc (2 * length files + n))) R) (tx_run_step (InstallBytes lib q c m))
      (\<lambda>_. on_site root txID P w0 (2 * length files + n) (R - {q}))"
    by (rule InstallBytes_lives [OF assms(1,2)]) (use Cons.prems f in simp)
  moreover have "lives (on_site root txID P w0 (2 * length files + n) (R - {q})) (install_all lib files)
      (\<lambda>_. on_site root txID P w0 n (R - {q} - set (map fst files)))"
    by (rule Cons.IH) (use Cons.prems f in auto)
  moreover have "install_all lib (f # files) = tx_then (tx_run_step (InstallBytes lib q c m)) (install_all lib files)"
    by (simp add: install_all_def f)
  moreover have "R - {q} - set (map fst files) = R - set (map fst (f # files))" by (auto simp: f)
  moreover have "2 * length (f # files) + n = Suc (Suc (2 * length files + n))" by simp
  ultimately show ?case using lives_bind by metis
qed

lemma standard_paths_length: "length (standard_paths plan) \<le> 8"
  by (simp add: standard_paths_def)

lemma files_ok_length: "files_ok plan files \<Longrightarrow> length files \<le> 8"
proof -
  assume "files_ok plan files"
  then have "length files \<le> card (set (standard_paths plan))"
    unfolding files_ok_def by (metis List.finite_set card_mono distinct_card length_map)
  then show ?thesis using card_length [of "standard_paths plan"] standard_paths_length [of plan] by linarith
qed

lemma waitForGateway_None: "True \<in> set polls \<Longrightarrow> waitForGateway polls = None"
  by (induction polls) auto

lemma activate_lives:
  assumes "obeys runner" and "starts runner" and "pl_NginxConfig plan = []"
    and "pl_GatewayEnabled plan \<Longrightarrow> ao_SkipHealthCheck options \<or> True \<in> set polls"
  shows "lives I (activate lib runner options polls token plan) (\<lambda>_. I)"
proof -
  let ?run = "apply_runner runner"
  have chown: "lives I (tx_command ?run (''chown'' # args)) (\<lambda>_. I)" for args
    by (rule lives_command) (use assms(1) in \<open>auto simp: obeys_def\<close>)
  have reload: "lives I (tx_command ?run [''systemctl'', ''daemon-reload'']) (\<lambda>_. I)"
    by (rule lives_command) (use assms(1) in \<open>simp add: obeys_def\<close>)
  have start: "lives I (tx_command ?run [''systemctl'', ''enable'', ''--now'', service]) (\<lambda>_. I)" for service
    by (rule lives_command) (use assms(2) in \<open>simp add: starts_def\<close>)
  have register: "lives I (register_with runner options token) (\<lambda>_. I)"
    unfolding register_with_def by (rule lives_of [of _ "()"]) (use assms(1) in \<open>simp_all add: obeys_def\<close>)
  have health: "lives I (tx_of (case waitForGateway polls of None \<Rightarrow> Inr () | Some e \<Rightarrow> Inl e)) (\<lambda>_. I)"
    if "pl_GatewayEnabled plan \<and> \<not> ao_SkipHealthCheck options"
    by (rule lives_of [of _ "()"]) (use that assms(4) waitForGateway_None in auto)
  have nginx: "lives I (applyNginxGateway (al_tx lib) (ao_Root options) ?run plan) (\<lambda>_. I)"
    by (simp add: applyNginxGateway_def assms(3) lives_return)
  show ?thesis
    unfolding activate_def Let_def
    by (rule lives_each_Cons [OF chown], rule lives_each_Cons [OF chown],
        rule lives_each_Cons [OF lives_when [OF chown]], assumption,
        rule lives_each_Cons [OF reload], rule lives_each_Cons [OF lives_when [OF register]], assumption,
        rule lives_each_Cons [OF start], rule lives_each_Cons [OF lives_when [OF start]], assumption,
        rule lives_each_Cons [OF lives_when [OF health]], assumption, assumption,
        rule lives_each_Cons [OF lives_when [OF nginx]], assumption, rule lives_each_Nil)
qed

section \<open>The transaction\<close>

definition tx_name :: "time \<Rightarrow> world \<Rightarrow> string" where
  "tx_name now w = twenty_digits (wrap64 now) @ ''_'' @ RawURLEncoding (take 8 (hd (w_rand w) @ replicate 8 (byte 0)))"

lemma beginTransaction_lives:
  assumes "site_ok root txID P" and "marshals lib" and "txID = tx_name now w"
    and "able (set (site_made root txID P)) (set (site_files root txID P)) w0 (Suc (Suc n)) w"
    and "list_all (\<lambda>p. node_at w (bkp root txID p) = None) P"
  obtains ft w' where "beginTransaction lib root version now w = (Inr ft, w')" "on_site root txID P w0 n (set P) ft w'"
proof -
  let ?D = "set (site_made root txID P)" and ?F = "set (site_files root txID P)"
  obtain s ss where rand: "w_rand w = s # ss" using assms(4) by (cases "w_rand w") (auto simp: able_def)
  define v where "v = w\<lparr>w_rand := ss\<rparr>"
  have random: "RandomIO [] 8 w = (Inr (RawURLEncoding (take 8 (s @ replicate 8 (byte 0)))), v)"
    using assms(4) by (simp add: RandomIO_def io_try_def Random_def rand_Read_def sys_no_fault able_def rand v_def)
  have v: "able ?D ?F w0 (Suc n) v" using assms(4) rand by (auto simp: able_def v_def)
  note ap = site_apart [OF assms(1)]
  obtain a where a: "MkdirAll (rootPath root transactionDirectory) 448 v = (Inr (), a)" "able ?D ?F w0 (Suc n) a"
      "\<And>f. f \<in> ?F \<Longrightarrow> node_at a f = node_at v f"
    using able_MkdirAll [OF v site_reach [OF assms(1) site_members(3)] ap] by metis
  obtain b where b: "MkdirAll (rootPath root (backupDirectory @ txID)) 448 a = (Inr (), b)" "able ?D ?F w0 (Suc n) b"
      "\<And>f. f \<in> ?F \<Longrightarrow> node_at b f = node_at a f"
    using able_MkdirAll [OF a(2) site_reach [OF assms(1) site_members(4)] ap] by metis
  define ft where "ft = \<lparr>ft_root = root, ft_record = \<lparr>tr_ID = txID, tr_Version = version, tr_CreatedAt = now, tr_Status = ''applying'',
        tr_Changes = [], tr_CreatedUsers = [], tr_CreatedGroups = [], tr_Services = [], tr_NginxChanged = False\<rparr>,
      ft_journalPath = journal_path root txID, ft_backupRoot = rootPath root (backupDirectory @ txID)\<rparr>"
  have "node_at b (bkp root txID p) = None" if "p \<in> set P" for p
    using b(3) a(3) site_path(2) [OF that] assms(5) that by (auto simp: list_all_iff v_def)
  then have "on_site root txID P w0 (Suc n) (set P) ft b"
    using b(2) card_length [of P] by (simp add: on_site_def ft_def)
  from record_and_persist_lives [OF assms(1,2), of "\<lambda>r. r", unfolded step_lives, rule_format, OF refl refl this]
  obtain ft' w' where "record_and_persist lib (\<lambda>r. r) ft b = (Inr (), ft', w')" and o: "on_site root txID P w0 n (set P) ft' w'" by blast
  then have p: "persist lib ft b = (Inr (), w')" and "ft' = ft"
    by (auto simp: record_and_persist_def with_record_def split: prod.splits)
  have "beginTransaction lib root version now w = (Inr ft, w')"
    using random a(1) b(1) p assms(3)
    by (simp add: beginTransaction_def io_bind_def io_wrap_def Let_def tx_name_def rand journal_path_def ft_def io_return_def)
  then show ?thesis using that o \<open>ft' = ft\<close> by blast
qed

text \<open>What is said of the outcome of a step, whichever it is.\<close>

definition outcome :: "(fileTransaction \<Rightarrow> world \<Rightarrow> bool) \<Rightarrow> 'a tx \<Rightarrow> ((tx_stop + 'a) \<times> fileTransaction \<times> world \<Rightarrow> bool) \<Rightarrow> bool" where
  "outcome I m Z \<longleftrightarrow> (\<forall>ft w. I ft w \<longrightarrow> Z (m ft w))"

lemma outcome_bind:
  assumes "lives I m Q" and "\<And>x. outcome (Q x) (k x) Z"
  shows "outcome I (tx_bind m k) Z"
  unfolding outcome_def [of I]
proof (intro allI impI)
  fix ft w assume "I ft w"
  then obtain x ft1 w1 where m: "m ft w = (Inr x, ft1, w1)" "Q x ft1 w1" using livesD [OF assms(1)] by blast
  then show "Z (tx_bind m k ft w)" using assms(2) [of x] by (simp add: tx_bind_def outcome_def)
qed

lemma outcome_weaken: "outcome I m Z \<Longrightarrow> (\<And>ft w. J ft w \<Longrightarrow> I ft w) \<Longrightarrow> outcome J m Z"
  by (auto simp: outcome_def)

text \<open>Everything up to the activation succeeds.\<close>

lemma installation_outcome:
  assumes "site_ok (ao_Root options) txID (standard_paths (insp_Plan inspection))" and "obeys runner" and "supplied lib"
    and "stocked options manifest (env_Architecture (insp_Environment inspection)) ''agent'' txID (standard_paths (insp_Plan inspection)) w0"
    and "pl_GatewayEnabled (insp_Plan inspection) \<Longrightarrow>
       stocked options manifest (env_Architecture (insp_Environment inspection)) ''gateway'' txID (standard_paths (insp_Plan inspection)) w0"
    and "outcome (on_site (ao_Root options) txID (standard_paths (insp_Plan inspection)) w0 n {})
       (tx_then (activate lib runner options polls token (insp_Plan inspection)) (tx_run_step (tx_Commit (al_tx lib)))) Z"
  shows "outcome (on_site (ao_Root options) txID (standard_paths (insp_Plan inspection)) w0 (n + 22) (set (standard_paths (insp_Plan inspection))))
     (installation lib runner options polls token key manifest inspection) Z"
proof -
  let ?P = "standard_paths (insp_Plan inspection)" and ?root = "ao_Root options"
  let ?S = "on_site ?root txID ?P w0" and ?fin = "tx_then (activate lib runner options polls token (insp_Plan inspection)) (tx_run_step (tx_Commit (al_tx lib)))"
  have m: "marshals (al_tx lib)" using assms(3) by (simp add: supplied_def)
  have last: "outcome (\<lambda>ft w. ?S (n + 16) (set ?P) ft w \<and> files_ok (insp_Plan inspection) files)
      (tx_then (install_all (al_tx lib) files) ?fin) Z" for files
  proof (cases "files_ok (insp_Plan inspection) files")
    case True
    have "lives (?S (2 * length files + n) (set ?P)) (install_all (al_tx lib) files) (\<lambda>_. ?S n (set ?P - set (map fst files)))"
      by (rule install_all_lives [OF assms(1) m]) (use True in \<open>auto simp: files_ok_def\<close>)
    then have "lives (\<lambda>ft w. ?S (n + 16) (set ?P) ft w \<and> files_ok (insp_Plan inspection) files) (install_all (al_tx lib) files) (\<lambda>_. ?S n {})"
      by (rule lives_weaken) (use files_ok_length [OF True] in \<open>auto elim!: on_site_less\<close>)
    then show ?thesis by (rule outcome_bind [OF _ assms(6)])
  qed (simp add: outcome_def)
  have prep: "lives (?S (n + 16 + 6) (set ?P)) (prepare_host lib options (apply_runner runner) (pl_GatewayEnabled (insp_Plan inspection)))
      (\<lambda>_. ?S (n + 16) (set ?P))"
    by (rule prepare_host_lives [OF assms(1) m assms(2)])
  have "outcome (?S (n + 16 + 6) (set ?P)) (installation lib runner options polls token key manifest inspection) Z"
    unfolding installation_def
    by (rule outcome_bind [OF prep], rule outcome_bind [OF collect_files_lives [OF assms(3-5)]], assumption, rule last)
  then show ?thesis by (simp add: add.commute)
qed

section \<open>Completion\<close>

definition host_able :: "apply_lib \<Rightarrow> ApplyOptions \<Rightarrow> Manifest \<Rightarrow> Inspection \<Rightarrow> nat \<Rightarrow> world \<Rightarrow> bool" where
  "host_able lib options manifest inspection n w \<longleftrightarrow>
     (let root = ao_Root options; P = standard_paths (insp_Plan inspection); txID = tx_name (al_Now lib 0) w;
          arch = env_Architecture (insp_Environment inspection)
      in site_ok root txID P \<and> able (set (site_made root txID P)) (set (site_files root txID P)) w n w
         \<and> list_all (\<lambda>p. node_at w (bkp root txID p) = None) P
         \<and> stocked options manifest arch ''agent'' txID P w
         \<and> (pl_GatewayEnabled (insp_Plan inspection) \<longrightarrow> stocked options manifest arch ''gateway'' txID P w))"

lemma host_able_installation:
  assumes "host_able lib options manifest inspection (n + 24) w" and "obeys runner" and "supplied lib"
    and "outcome (on_site (ao_Root options) (tx_name (al_Now lib 0) w) (standard_paths (insp_Plan inspection)) w n {})
       (tx_then (activate lib runner options polls token (insp_Plan inspection)) (tx_run_step (tx_Commit (al_tx lib)))) Z"
  obtains ft w' where "beginTransaction (al_tx lib) (ao_Root options) (mf_Version manifest) (al_Now lib 0) w = (Inr ft, w')"
    "tr_ID (ft_record ft) = tx_name (al_Now lib 0) w"
    "Z (installation lib runner options polls token key manifest inspection ft w')"
proof -
  let ?P = "standard_paths (insp_Plan inspection)"
  define txID where "txID = tx_name (al_Now lib 0) w"
  have h: "site_ok (ao_Root options) txID ?P"
      "able (set (site_made (ao_Root options) txID ?P)) (set (site_files (ao_Root options) txID ?P)) w (Suc (Suc (n + 22))) w"
      "list_all (\<lambda>p. node_at w (bkp (ao_Root options) txID p) = None) ?P"
      "stocked options manifest (env_Architecture (insp_Environment inspection)) ''agent'' txID ?P w"
      "pl_GatewayEnabled (insp_Plan inspection) \<Longrightarrow> stocked options manifest (env_Architecture (insp_Environment inspection)) ''gateway'' txID ?P w"
    using assms(1) by (auto simp: host_able_def Let_def txID_def add.commute)
  have "marshals (al_tx lib)" using assms(3) by (simp add: supplied_def)
  from beginTransaction_lives [OF h(1) this txID_def h(2,3)]
  obtain ft w' where b: "beginTransaction (al_tx lib) (ao_Root options) (mf_Version manifest) (al_Now lib 0) w = (Inr ft, w')"
      "on_site (ao_Root options) txID ?P w (n + 22) (set ?P) ft w'" by metis
  have "outcome (on_site (ao_Root options) txID ?P w (n + 22) (set ?P)) (installation lib runner options polls token key manifest inspection) Z"
    by (rule installation_outcome [OF h(1) assms(2,3) h(4,5) assms(4) [folded txID_def]])
  then have "Z (installation lib runner options polls token key manifest inspection ft w')" using b(2) by (simp add: outcome_def)
  then show ?thesis using that b by (auto simp: on_site_def txID_def)
qed

lemma Apply_completes:
  assumes "apply_verify lib runner options w = (Inr (key, manifest, inspection), w1)"
    and "apply_checks lib options manifest inspection w1 = (Inr (Some token), w2)"
    and "options = normalizeApplyOptions lib (w_cwd w) opts" and "host_able lib options manifest inspection 25 w2"
    and "obeys runner" and "starts runner" and "supplied lib" and "pl_NginxConfig (insp_Plan inspection) = []"
    and "pl_GatewayEnabled (insp_Plan inspection) \<Longrightarrow> ao_SkipHealthCheck options \<or> True \<in> set polls"
  obtains result w' where "Apply lib runner opts polls w = ((result, ApplyOK), w')" "rs_Status result = ''complete''"
    "rs_Inspection result = Some inspection"
proof -
  let ?P = "standard_paths (insp_Plan inspection)" and ?txID = "tx_name (al_Now lib 0) w2"
  have site: "site_ok (ao_Root options) ?txID ?P" using assms(4) by (simp add: host_able_def Let_def)
  have m: "marshals (al_tx lib)" using assms(7) by (simp add: supplied_def)
  have "lives (on_site (ao_Root options) ?txID ?P w2 (Suc 0) {}) (tx_then (activate lib runner options polls token (insp_Plan inspection))
      (tx_run_step (tx_Commit (al_tx lib)))) (\<lambda>_. on_site (ao_Root options) ?txID ?P w2 0 {})"
    by (rule lives_bind [OF activate_lives [OF assms(5,6,8,9)]], assumption, rule notes_live(4) [OF site m])
  then have "outcome (on_site (ao_Root options) ?txID ?P w2 1 {}) (tx_then (activate lib runner options polls token (insp_Plan inspection))
      (tx_run_step (tx_Commit (al_tx lib)))) (\<lambda>(r, ft, w'). \<exists>u. r = Inr u)"
    by (fastforce simp: outcome_def lives_def)
  from host_able_installation [OF _ assms(5,7) this] assms(4)
  obtain ft w3 where b: "beginTransaction (al_tx lib) (ao_Root options) (mf_Version manifest) (al_Now lib 0) w2 = (Inr ft, w3)"
      "case installation lib runner options polls token key manifest inspection ft w3 of (r, ft, w') \<Rightarrow> \<exists>u. r = Inr u"
    by (metis (no_types, lifting) one_plus_numeral semiring_norm(3) semiring_norm(4))
  then obtain u ft4 w4 where i: "installation lib runner options polls token key manifest inspection ft w3 = (Inr u, ft4, w4)"
    by (auto split: prod.splits)
  have "Apply lib runner opts polls w = ((\<lparr>rs_Inspection = Some inspection, rs_Version = mf_Version manifest,
      rs_TransactionID = tr_ID (ft_record ft), rs_Status = ''complete''\<rparr>, ApplyOK), w4)"
    by (simp add: Apply_def Let_def assms(3) [symmetric] assms(1,2) b(1) i)
  then show ?thesis by (rule that) simp_all
qed

section \<open>Rollback\<close>

text \<open>The commands that a rollback gives.\<close>

definition undoes_services :: "Runner \<Rightarrow> bool" where
  "undoes_services runner \<longleftrightarrow> (\<forall>name arg. name \<in> {''userdel'', ''groupdel''} \<longrightarrow> apply_runner runner [name, arg] = None)
     \<and> (\<forall>service. apply_runner runner [''systemctl'', ''disable'', ''--now'', service] = None
          \<and> apply_runner runner [''systemctl'', ''enable'', service] = None \<and> apply_runner runner [''systemctl'', ''start'', service] = None)
     \<and> apply_runner runner [''nginx'', ''-t''] = None \<and> apply_runner runner [''systemctl'', ''reload'', ''nginx.service''] = None"

definition backed_up :: "string \<Rightarrow> string \<Rightarrow> world \<Rightarrow> FileChange \<Rightarrow> bool" where
  "backed_up root txID w ch \<longleftrightarrow> ch_Existed ch \<longrightarrow> ch_BackupPath ch = backupDirectory @ txID @ ch_Path ch
     \<and> (\<exists>m c. node_at w (bkp root txID (ch_Path ch)) = Some (NFile m c))"

lemma able_Remove:
  assumes "able D F w0 n w" and "f \<in> F" and "apart D F"
  obtains w' r where "Remove f w = (r, w')" "r = Inl OsNotExist \<or> r = Inr ()" "able D F w0 n w'" "\<And>q. q \<noteq> f \<Longrightarrow> node_at w' q = node_at w q"
proof (cases "node_at w f")
  case None
  then have "Remove f w = (Inl OsNotExist, w)" using assms(1) by (simp add: Remove_def sys_no_fault able_def)
  then show ?thesis using that assms(1) by blast
next
  case (Some x)
  define w' where "w' = w\<lparr>w_files := AList.delete f (w_files w)\<rparr>"
  have at: "node_at w' q = (if q = f then None else node_at w q)" for q by (auto simp: w'_def delete_conv')
  have "\<not> is_dir (node_at w f)" using assms(1,2) by (auto simp: able_def)
  then have "Remove f w = (Inr (), w')" using Some assms(1) by (simp add: Remove_def sys_no_fault able_def w'_def)
  moreover have "able D F w0 n w'"
  proof (rule able_change [OF assms(1) _ _ _ assms(3)])
    show "w_faults w' = []" "n \<le> length (w_rand w')" using assms(1) by (simp_all add: able_def w'_def)
  qed (use assms(2) in \<open>auto simp: at\<close>)
  ultimately show ?thesis using that at by auto
qed

lemma rollback_change_lives:
  assumes "site_ok root txID P" and "able (set (site_made root txID P)) (set (site_files root txID P)) w0 (Suc n) w"
    and "ch_Path ch \<in> set P" and "backed_up root txID w ch"
  obtains w' where "rollback_change root txID ch w = ([], w')"
    "able (set (site_made root txID P)) (set (site_files root txID P)) w0 n w'"
    "\<And>q. q \<in> set (site_files root txID P) \<Longrightarrow> q \<noteq> rootPath root (ch_Path ch) \<Longrightarrow> node_at w' q = node_at w q"
proof -
  let ?p = "ch_Path ch" and ?t = "rootPath root (ch_Path ch)" and ?F = "set (site_files root txID P)"
  have safe: "HasPrefix ?p ''/''" "withinRoot root ?t" "withinRoot root (bkp root txID ?p)"
    using assms(1,3) by (auto simp: site_ok_def list_all_iff)
  note ap = site_apart [OF assms(1)] and t = site_path(1) [OF assms(3), of root txID]
  show ?thesis
  proof (cases "ch_Existed ch")
    case False
    obtain w' r where w': "Remove ?t w = (r, w')" "r = Inl OsNotExist \<or> r = Inr ()"
        "able (set (site_made root txID P)) ?F w0 (Suc n) w'" "\<And>q. q \<noteq> ?t \<Longrightarrow> node_at w' q = node_at w q"
      by (rule able_Remove [OF assms(2) t ap]) blast
    have "rollback_change root txID ch w = ([], w')"
      using False safe w'(1,2) by (auto simp: rollback_change_def Let_def)
    then show ?thesis using that able_less [OF w'(3), of n] w'(4) by simp
  next
    case True
    then obtain m c where b: "ch_BackupPath ch = backupDirectory @ txID @ ?p" "node_at w (bkp root txID ?p) = Some (NFile m c)"
      using assms(4) by (auto simp: backed_up_def)
    have read: "ReadFile (bkp root txID ?p) w = (Inr c, w)"
      using follow_file [OF b(2)] assms(2) by (simp add: ReadFile_def sys_no_fault able_def)
    obtain w' where w': "tx_writeAtomic ?t c (ch_OldMode ch) w = (Inr (), w')" "able (set (site_made root txID P)) ?F w0 n w'"
        "\<And>q. q \<in> ?F \<Longrightarrow> q \<noteq> ?t \<Longrightarrow> node_at w' q = node_at w q"
      using able_writeAtomic [OF assms(2) site_reach [OF assms(1) site_path(3) [OF assms(3)]] t ap] by metis
    have "HasPrefix (backupDirectory @ txID @ ?p) (backupDirectory @ txID @ ''/'')"
      using safe(1) by (auto simp: HasPrefix_def)
    then have "rollback_change root txID ch w = ([], w')"
      using True safe b(1) read w'(1) by (simp add: rollback_change_def Let_def bkp_def)
    then show ?thesis using that w'(2,3) by blast
  qed
qed

lemma rollback_loop_lives:
  assumes "site_ok root txID P" and "able (set (site_made root txID P)) (set (site_files root txID P)) w0 (length chs + n) w"
    and "list_all (\<lambda>ch. ch_Path ch \<in> set P \<and> backed_up root txID w ch) chs"
  shows "\<exists>w'. rollback_loop root txID chs w = ([], w') \<and> able (set (site_made root txID P)) (set (site_files root txID P)) w0 n w'"
  using assms(2,3)
proof (induction chs arbitrary: w)
  case (Cons ch chs)
  have p: "ch_Path ch \<in> set P" using Cons.prems(2) by simp
  have a: "able (set (site_made root txID P)) (set (site_files root txID P)) w0 (Suc (length chs + n)) w" using Cons.prems(1) by simp
  have b: "backed_up root txID w ch" using Cons.prems(2) by simp
  obtain v where v: "rollback_change root txID ch w = ([], v)"
      "able (set (site_made root txID P)) (set (site_files root txID P)) w0 (length chs + n) v"
      "\<And>q. q \<in> set (site_files root txID P) \<Longrightarrow> q \<noteq> rootPath root (ch_Path ch) \<Longrightarrow> node_at v q = node_at w q"
    using rollback_change_lives [OF assms(1) a p b] by metis
  have same: "node_at v (bkp root txID q) = node_at w (bkp root txID q)" if "q \<in> set P" for q
    by (rule v(3) [OF site_path(2) [OF that]]) (rule site_distinct(3) [OF assms(1) that p])
  have "list_all (\<lambda>ch. ch_Path ch \<in> set P \<and> backed_up root txID v ch) chs"
    using Cons.prems(2) same by (auto simp: list_all_iff backed_up_def)
  from Cons.IH [OF v(2) this] show ?case using v(1) by auto
qed simp

lemma rollbackInstallation_lives:
  assumes "site_ok root txID P" and "marshals lib" and "obeys runner" and "undoes_services runner"
    and "on_site root txID P w0 (Suc (length P)) {} ft w"
    and "list_all (\<lambda>ch. ch_Path ch \<in> set P \<and> backed_up root txID w ch) (tr_Changes (ft_record ft))"
  obtains w' where "rollbackInstallation lib root (apply_runner runner) (ft_record ft) (ft_journalPath ft) w = ([], w')"
proof -
  let ?run = "apply_runner runner" and ?rec = "ft_record ft"
  have ft: "tr_ID ?rec = txID" "ft_journalPath ft = journal_path root txID" "length (tr_Changes ?rec) \<le> length P"
      and a: "able (set (site_made root txID P)) (set (site_files root txID P)) w0 (Suc (length P)) w"
    using assms(5) by (auto simp: on_site_def)
  have "able (set (site_made root txID P)) (set (site_files root txID P)) w0 (length (rev (tr_Changes ?rec)) + 1) w"
    by (rule able_less [OF a]) (use ft(3) in simp)
  from rollback_loop_lives [OF assms(1) this] assms(6)
  obtain v where v: "rollbackChanges root ?rec w = ([], v)"
      "able (set (site_made root txID P)) (set (site_files root txID P)) w0 (Suc 0) v"
    by (auto simp: rollbackChanges_def ft(1))
  obtain json where json: "tl_marshal lib (?rec\<lparr>tr_Status := ''rolled_back''\<rparr>) = Inr json" using assms(2) by (auto simp: marshals_def)
  obtain w' where w': "tx_writeAtomic (journal_path root txID) (json @ [byte 10]) 384 v = (Inr (), w')"
    using able_writeAtomic [OF v(2) site_reach [OF assms(1) site_members(2)] site_members(1) site_apart [OF assms(1)]] by metis
  have quiet: "runFixed ?run cmd = []" if "?run cmd = None" for cmd using that by (simp add: runFixed_def)
  have "rollbackInstallation lib root ?run ?rec (ft_journalPath ft) w = ([], w')"
    using assms(3,4) json w' ft(2) unfolding rollbackInstallation_def v(1)
    by (simp add: quiet obeys_def undoes_services_def restart_service_def tx_jsonMarshal_def Let_def)
  then show ?thesis by (rule that)
qed

lemma activate_refused:
  assumes "obeys runner" and "apply_runner runner [''systemctl'', ''enable'', ''--now'', ''my-safe-agent.service''] = Some e"
  shows "outcome I (activate lib runner options polls token plan) (\<lambda>(r, ft, w). r = Inl (Failed (''systemctl failed: '' @ e)) \<and> I ft w)"
proof -
  let ?run = "apply_runner runner"
  have chown: "lives I (tx_command ?run (''chown'' # args)) (\<lambda>_. I)" for args
    by (rule lives_command) (use assms(1) in \<open>auto simp: obeys_def\<close>)
  have reload: "lives I (tx_command ?run [''systemctl'', ''daemon-reload'']) (\<lambda>_. I)"
    by (rule lives_command) (use assms(1) in \<open>simp add: obeys_def\<close>)
  have register: "lives I (register_with runner options token) (\<lambda>_. I)"
    unfolding register_with_def by (rule lives_of [of _ "()"]) (use assms(1) in \<open>simp_all add: obeys_def\<close>)
  show ?thesis
    unfolding activate_def Let_def tx_each.simps
    by (rule outcome_bind [OF chown], rule outcome_bind [OF chown], rule outcome_bind [OF lives_when [OF chown]], assumption,
        rule outcome_bind [OF reload], rule outcome_bind [OF lives_when [OF register]], assumption)
      (simp add: outcome_def tx_bind_def tx_command_def tx_of_def tx_io_def runFixed_def assms(2))
qed

lemma outcome_stop:
  "outcome I m (\<lambda>(r, ft, w). r = Inl e \<and> Q ft w) \<Longrightarrow> outcome I (tx_bind m k) (\<lambda>(r, ft, w). r = Inl e \<and> Q ft w)"
  by (fastforce simp: outcome_def tx_bind_def split: prod.splits)

lemma Apply_rolls_back:
  assumes "apply_verify lib runner options w = (Inr (key, manifest, inspection), w1)"
    and "apply_checks lib options manifest inspection w1 = (Inr (Some token), w2)"
    and "options = normalizeApplyOptions lib (w_cwd w) opts" and "host_able lib options manifest inspection 33 w2"
    and "obeys runner" and "undoes_services runner" and "supplied lib" and "tx_codec_ok (al_tx lib)"
    and "pl_NginxConfig (insp_Plan inspection) = []"
    and "apply_plan_ok (ao_Root options) (tx_name (al_Now lib 0) w2) (install_paths (insp_Plan inspection))"
    and "apply_runner runner [''systemctl'', ''enable'', ''--now'', ''my-safe-agent.service''] = Some e"
  obtains result w' where "Apply lib runner opts polls w = ((result, ApplyErrors [''systemctl failed: '' @ e]), w')"
    "rs_Status result = ''rolled_back''" "rs_Inspection result = Some inspection" "rs_TransactionID result = tx_name (al_Now lib 0) w2"
proof -
  let ?P = "standard_paths (insp_Plan inspection)" and ?root = "ao_Root options"
  define txID where "txID = tx_name (al_Now lib 0) w2"
  let ?Z = "\<lambda>(r, ft, w). r = Inl (Failed (''systemctl failed: '' @ e)) \<and> on_site ?root txID ?P w2 9 {} ft w"
  have site: "site_ok ?root txID ?P" using assms(4) by (simp add: host_able_def Let_def txID_def)
  have m: "marshals (al_tx lib)" using assms(7) by (simp add: supplied_def)
  have "outcome (on_site ?root txID ?P w2 9 {})
      (tx_then (activate lib runner options polls token (insp_Plan inspection)) (tx_run_step (tx_Commit (al_tx lib)))) ?Z"
    by (rule outcome_stop [OF activate_refused [OF assms(5,11)]])
  from host_able_installation [OF _ assms(5,7) this [unfolded txID_def]] assms(4)
  obtain ft w3 where b: "beginTransaction (al_tx lib) ?root (mf_Version manifest) (al_Now lib 0) w2 = (Inr ft, w3)"
      "tr_ID (ft_record ft) = txID" "?Z (installation lib runner options polls token key manifest inspection ft w3)"
    unfolding txID_def by (metis (no_types, lifting) numeral_plus_numeral add_num_simps)
  then obtain ft4 w4 where run: "installation lib runner options polls token key manifest inspection ft w3
        = (Inl (Failed (''systemctl failed: '' @ e)), ft4, w4)" and o: "on_site ?root txID ?P w2 9 {} ft4 w4"
    by (auto split: prod.splits)
  have paths: "install_paths (insp_Plan inspection) = ?P" using assms(9) by (simp add: install_paths_def)
  have plan: "apply_plan_ok ?root txID ?P" using assms(10) by (simp add: txID_def paths)
  have "ft_journalPath ft = journal_path ?root txID" "ft_root ft = ?root" "tr_Changes (ft_record ft) = []"
    using b(1,2) beginTransaction_started [OF assms(8) b(1)] by (auto simp: tx_started_def elim: beginTransaction_Inr)
  then have start: "inv_upto (al_tx lib) ?root txID ?P w3 {} ft w3"
    using tx_inv_started [of "al_tx lib" ft w3 ?P] beginTransaction_started [OF assms(8) b(1)] b(2) by (simp add: inv_upto_def)
  from tripleD_Inl [OF installation_inv [OF plan [folded paths] assms(8), unfolded paths] start run]
  have cov: "covered ?root txID ?P w3 (ft_record ft4) w4" by (simp add: inv_upto_def tx_inv_def)
  then have backups: "list_all (\<lambda>ch. ch_Path ch \<in> set ?P \<and> backed_up ?root txID w4 ch) (tr_Changes (ft_record ft4))"
    unfolding list_all_iff covered_def change_ok_def backed_up_def by metis
  have fit: "on_site ?root txID ?P w2 (Suc (length ?P)) {} ft4 w4"
    by (rule on_site_less [OF o]) (use standard_paths_length [of "insp_Plan inspection"] in auto)
  obtain w' where undo: "rollbackInstallation (al_tx lib) ?root (apply_runner runner) (ft_record ft4) (ft_journalPath ft4) w4 = ([], w')"
    by (rule rollbackInstallation_lives [OF site m assms(5,6) fit backups])
  have "Apply lib runner opts polls w = ((\<lparr>rs_Inspection = Some inspection, rs_Version = mf_Version manifest,
      rs_TransactionID = txID, rs_Status = ''rolled_back''\<rparr>, ApplyErrors [''systemctl failed: '' @ e]), w')"
    by (simp add: Apply_def Let_def assms(3) [symmetric] assms(1,2) b(1,2) run undo)
  then show ?thesis by (rule that) (simp_all add: txID_def)
qed

section \<open>The property\<close>


end
