(* ===== verification/Apply_Witness.thy ===== *)
theory Apply_Witness
  imports Apply_Live
begin

text \<open>
  A concrete host on which the installer runs: once to completion, and once with a service that does not start, so that
  the installation is rolled back. The transaction journal is encoded by a self-delimiting text format, whose decoder is
  proved to invert it.
\<close>

section \<open>A text format for records\<close>

definition put_nat :: "nat \<Rightarrow> string" where
  "put_nat n = replicate n (CHR ''1'') @ ''0''"

fun get_nat :: "string \<Rightarrow> (nat \<times> string) option" where
  "get_nat [] = None"
| "get_nat (c # s) = (if c = CHR ''1'' then map_option (\<lambda>(n, r). (Suc n, r)) (get_nat s) else Some (0, s))"

definition put_str :: "string \<Rightarrow> string" where
  "put_str s = put_nat (length s) @ s"

definition get_str :: "string \<Rightarrow> (string \<times> string) option" where
  "get_str s = map_option (\<lambda>(n, r). (take n r, drop n r)) (get_nat s)"

definition put_bool :: "bool \<Rightarrow> string" where
  "put_bool b = (if b then ''1'' else ''0'')"

definition get_bool :: "string \<Rightarrow> (bool \<times> string) option" where
  "get_bool s = (case s of [] \<Rightarrow> None | c # r \<Rightarrow> Some (c = CHR ''1'', r))"

definition put_int :: "int \<Rightarrow> string" where
  "put_int i = put_bool (i < 0) @ put_nat (nat \<bar>i\<bar>)"

definition get_int :: "string \<Rightarrow> (int \<times> string) option" where
  "get_int s = do { (b, s) \<leftarrow> get_bool s; (n, s) \<leftarrow> get_nat s; Some (if b then - int n else int n, s) }"

definition put_list :: "('a \<Rightarrow> string) \<Rightarrow> 'a list \<Rightarrow> string" where
  "put_list put xs = put_nat (length xs) @ concat (map put xs)"

fun get_many :: "(string \<Rightarrow> ('a \<times> string) option) \<Rightarrow> nat \<Rightarrow> string \<Rightarrow> ('a list \<times> string) option" where
  "get_many get 0 s = Some ([], s)"
| "get_many get (Suc n) s = do { (x, s) \<leftarrow> get s; (xs, s) \<leftarrow> get_many get n s; Some (x # xs, s) }"

definition get_list :: "(string \<Rightarrow> ('a \<times> string) option) \<Rightarrow> string \<Rightarrow> ('a list \<times> string) option" where
  "get_list get s = do { (n, s) \<leftarrow> get_nat s; get_many get n s }"

text \<open>A reader inverts a writer whatever follows.\<close>

definition inverts :: "('a \<Rightarrow> string) \<Rightarrow> (string \<Rightarrow> ('a \<times> string) option) \<Rightarrow> bool" where
  "inverts put get \<longleftrightarrow> (\<forall>x s. get (put x @ s) = Some (x, s))"

lemma invertsD: "inverts put get \<Longrightarrow> get (put x @ s) = Some (x, s)"
  by (simp add: inverts_def)

lemma inverts_nat: "inverts put_nat get_nat"
proof -
  have "get_nat (replicate n (CHR ''1'') @ CHR ''0'' # s) = Some (n, s)" for n s by (induction n) simp_all
  then show ?thesis by (simp add: inverts_def put_nat_def)
qed

declare invertsD [OF inverts_nat, simp]

lemma inverts_str: "inverts put_str get_str"
  by (simp add: inverts_def put_str_def get_str_def)

lemma inverts_bool: "inverts put_bool get_bool"
  by (simp add: inverts_def put_bool_def get_bool_def)

declare invertsD [OF inverts_str, simp] invertsD [OF inverts_bool, simp]

lemma inverts_int: "inverts put_int get_int"
  by (simp add: inverts_def put_int_def get_int_def)

declare invertsD [OF inverts_int, simp]

lemma inverts_list:
  assumes "inverts put get"
  shows "inverts (put_list put) (get_list get)"
proof -
  have "get_many get (length xs) (concat (map put xs) @ s) = Some (xs, s)" for xs s
    by (induction xs) (simp_all add: invertsD [OF assms])
  then show ?thesis by (simp add: inverts_def put_list_def get_list_def)
qed

definition put_change :: "FileChange \<Rightarrow> string" where
  "put_change c = put_str (ch_Path c) @ put_str (ch_BackupPath c) @ put_bool (ch_Existed c) @ put_nat (ch_OldMode c)
     @ put_str (ch_NewSHA256 c)"

definition get_change :: "string \<Rightarrow> (FileChange \<times> string) option" where
  "get_change s = do { (p, s) \<leftarrow> get_str s; (b, s) \<leftarrow> get_str s; (e, s) \<leftarrow> get_bool s; (m, s) \<leftarrow> get_nat s; (h, s) \<leftarrow> get_str s;
     Some (\<lparr>ch_Path = p, ch_BackupPath = b, ch_Existed = e, ch_OldMode = m, ch_NewSHA256 = h\<rparr>, s) }"

definition put_service :: "ServiceChange \<Rightarrow> string" where
  "put_service c = put_str (sv_Name c) @ put_bool (sv_WasEnabled c) @ put_bool (sv_WasActive c)"

definition get_service :: "string \<Rightarrow> (ServiceChange \<times> string) option" where
  "get_service s = do { (n, s) \<leftarrow> get_str s; (e, s) \<leftarrow> get_bool s; (a, s) \<leftarrow> get_bool s;
     Some (\<lparr>sv_Name = n, sv_WasEnabled = e, sv_WasActive = a\<rparr>, s) }"

lemma inverts_change: "inverts put_change get_change"
  by (simp add: inverts_def put_change_def get_change_def)

lemma inverts_service: "inverts put_service get_service"
  by (simp add: inverts_def put_service_def get_service_def)

definition put_record :: "TransactionRecord \<Rightarrow> string" where
  "put_record r = put_str (tr_ID r) @ put_str (tr_Version r) @ put_int (tr_CreatedAt r) @ put_str (tr_Status r)
     @ put_list put_change (tr_Changes r) @ put_list put_str (tr_CreatedUsers r) @ put_list put_str (tr_CreatedGroups r)
     @ put_list put_service (tr_Services r) @ put_bool (tr_NginxChanged r)"

definition get_record :: "string \<Rightarrow> (TransactionRecord \<times> string) option" where
  "get_record s = do { (i, s) \<leftarrow> get_str s; (v, s) \<leftarrow> get_str s; (t, s) \<leftarrow> get_int s; (st, s) \<leftarrow> get_str s;
     (cs, s) \<leftarrow> get_list get_change s; (us, s) \<leftarrow> get_list get_str s; (gs, s) \<leftarrow> get_list get_str s;
     (ss, s) \<leftarrow> get_list get_service s; (n, s) \<leftarrow> get_bool s;
     Some (\<lparr>tr_ID = i, tr_Version = v, tr_CreatedAt = t, tr_Status = st, tr_Changes = cs, tr_CreatedUsers = us,
            tr_CreatedGroups = gs, tr_Services = ss, tr_NginxChanged = n\<rparr>, s) }"

lemmas inverts_lists = invertsD [OF inverts_list [OF inverts_change]] invertsD [OF inverts_list [OF inverts_str]]
  invertsD [OF inverts_list [OF inverts_service]]

lemma inverts_record: "inverts put_record get_record"
  by (simp add: inverts_def put_record_def get_record_def inverts_lists)

definition text_lib :: tx_lib where
  "text_lib = \<lparr>tl_sha256 = (\<lambda>s. []), tl_marshal = (\<lambda>r. Inr (put_record r)),
     tl_decode = (\<lambda>s. case get_record s of Some (r, _) \<Rightarrow> Inr r | None \<Rightarrow> Inl ''syntax'')\<rparr>"

lemma text_lib_codec: "tx_codec_ok text_lib"
  by (simp add: tx_codec_ok_def text_lib_def invertsD [OF inverts_record])

section \<open>Code equations over integers\<close>

definition alphabet_at :: "string \<Rightarrow> int \<Rightarrow> char" where
  "alphabet_at alphabet n = alphabet ! nat (n mod 64)"

lemma alphabet_at_nat: "alphabet ! (n mod 64) = alphabet_at alphabet (int n)"
  by (simp add: alphabet_at_def zmod_int [symmetric] nat_mod_distrib)

lemma RawURLEncoding_code [code]:
  "RawURLEncoding (a # b # c # s) =
     (let n = (of_char a * 256 + of_char b) * 256 + of_char c :: int; at = alphabet_at url_alphabet
      in at (n div 262144) # at (n div 4096) # at (n div 64) # at n # RawURLEncoding s)"
  "RawURLEncoding [a, b] =
     (let n = (of_char a * 256 + of_char b) * 256 :: int; at = alphabet_at url_alphabet
      in [at (n div 262144), at (n div 4096), at (n div 64)])"
  "RawURLEncoding [a] =
     (let n = of_char a * 65536 :: int; at = alphabet_at url_alphabet in [at (n div 262144), at (n div 4096)])"
  "RawURLEncoding [] = []"
  by (simp_all add: Let_def url_char_def alphabet_at_nat zdiv_int of_nat_of_char)

lemma scan_lines_code [code]:
  "scan_lines s =
     (let ls = SplitChar (byte 10) s; ls = (if last ls = [] then butlast ls else ls)
      in map drop_cr (takeWhile (\<lambda>l. int (length l) < 65536) ls))"
  by (simp add: scan_lines_def maxTokenSize_def)

section \<open>A host\<close>

definition host_net :: client_lib where
  "host_net = \<lparr>nl_url_Parse = (\<lambda>s. Some \<lparr>url_Scheme = ''https'', url_Host = ''control'', url_Hostname = ''control'', url_User = False,
       url_RawQuery = [], url_Fragment = [], url_Path = []\<rparr>),
     nl_url_String = (\<lambda>_. []), nl_IsLoopback = (\<lambda>_. False), nl_StatusText = (\<lambda>_. []), nl_detail = (\<lambda>_. []),
     nl_register = (\<lambda>_. Inr []), nl_registered = (\<lambda>_. Inl []), nl_heartbeat = (\<lambda>_ _. Inr []), nl_events = (\<lambda>_. Inr []),
     nl_csr = (\<lambda>_. Inr [])\<rparr>"

definition host_lib :: apply_lib where
  "host_lib = \<lparr>al_tx = text_lib, al_rb = demo_lib, al_net = host_net, al_assets = (\<lambda>name. Inr ''asset''),
     al_marshal = (\<lambda>_. Inr ''{}''), al_decode = (\<lambda>_. Inl ''none''), al_Now = (\<lambda>_. 0), al_GOARCH = ''amd64'', al_euid = 0\<rparr>"

definition host_options :: ApplyOptions where
  "host_options = \<lparr>ao_Root = ''/'', ao_BundleDirectory = ''/b'', ao_ManifestPath = ''/b/m'', ao_SignaturePath = ''/b/s'',
     ao_ExpectedVersion = [], ao_ControlURL = ''https://control'', ao_BootstrapTokenFile = [], ao_Gateway = ''disabled'',
     ao_Upstream = [], ao_GatewayPort = 18081, ao_Architecture = ''x86_64'', ao_AllowExperimental = False, ao_AllowDowngrade = False,
     ao_DryRun = False, ao_SkipRegistration = True, ao_SkipHealthCheck = True, ao_PublicKey = []\<rparr>"

definition host_runner :: "bool \<Rightarrow> Runner" where
  "host_runner refuses = \<lparr>rn_LookPath = (\<lambda>name. name = ''systemctl''),
     rn_Run = (\<lambda>cmd. (''ok'', if refuses \<and> cmd = [''systemctl'', ''enable'', ''--now'', ''my-safe-agent.service'']
                              then Some ''exit status 1'' else None)),
     rn_RunEnv = (\<lambda>_ _. ([], None))\<rparr>"

definition host_manifest :: string where
  "host_manifest = ''{}'' @ [byte 10]"

definition host_signature :: string where
  "host_signature = rb_Sign demo_lib host_manifest ''k''"

definition host_world :: world where
  "host_world = \<lparr>w_files = [(''/'', NDir 493), (''/b'', NDir 493), (''/b/m'', NFile 420 host_manifest),
       (''/b/s'', NFile 420 host_signature), (''/b/mysafe-agent-linux-amd64'', NFile 493 ''ELF''),
       (''/etc'', NDir 493), (''/etc/os-release'', NFile 420 (''ID=debian'' @ [byte 10] @ ''VERSION_ID=12'')),
       (''/etc/my-safe'', NDir 488), (''/etc/my-safe/agent.env'', NFile 416 ''old'')],
     w_faults = [], w_rand = replicate 40 ''r'', w_cwd = ''/''\<rparr>"

definition host_inspection :: Inspection where
  "host_inspection = \<lparr>insp_Environment = \<lparr>env_OSID = ''debian'', env_OSVersion = ''12'', env_OSCodename = [], env_Architecture = ''amd64'',
       env_Support = SupportStable, env_Systemd = \<lparr>tool_Available = True, tool_Version = ''ok''\<rparr>,
       env_Nginx = \<lparr>tool_Available = False, tool_Version = []\<rparr>, env_Docker = \<lparr>tool_Available = False, tool_Version = []\<rparr>,
       env_DockerCompose = \<lparr>tool_Available = False, tool_Version = []\<rparr>, env_ListeningPorts = [], env_ProxyCandidates = [],
       env_Warnings = [''cannot inspect /etc/nginx'']\<rparr>,
     insp_Plan = \<lparr>pl_Installable = True, pl_Support = SupportStable, pl_Integration = ''sensor'', pl_GatewayEnabled = False,
       pl_GatewayListen = [], pl_Upstream = [], pl_NginxConfig = [], pl_NginxReplacement = [],
       pl_Steps = [''verify signed release manifest and artifact hashes'', ''install Agent binary and hardened systemd unit'',
         ''register Agent with the one-time bootstrap token'', ''run a read-only baseline scan and verify heartbeat''],
       pl_Blockers = [], pl_Notices = [''Gateway disabled by operator; Sensor protection remains active'']\<rparr>\<rparr>"

text \<open>The signature and the journal are left as they are in evaluations.\<close>

declare host_signature_def [code del] put_record_def [code del]

text \<open>The options as \<open>normalizeApplyOptions\<close> leaves them, which is as they are.\<close>

lemma host_normal: "normalizeApplyOptions host_lib (w_cwd host_world) host_options = host_options"
  by code_simp

lemma host_signed: "VerifySignature demo_lib host_manifest host_signature key = None"
  unfolding host_signature_def by (rule VerifySignature_Sign) (simp_all add: demo_lib_def)

lemma host_reads: "ReadFile ''/b/m'' host_world = (Inr host_manifest, host_world)" "ReadFile ''/b/s'' host_world = (Inr host_signature, host_world)"
  by code_simp+

lemma demo_valid: "Validate demo_manifest = None"
  by code_simp

lemma host_decoded: "Decode demo_lib host_manifest = Inr demo_manifest"
  by (simp add: Decode_def demo_lib_def host_manifest_def demo_valid json_blank_def byte_def)

lemma host_key: "release_key host_lib host_options = Inr ''asset''"
  by code_simp

lemma host_inspected:
  "Inspect (nl_url_Parse (al_net host_lib)) (al_GOARCH host_lib) ''/'' ''x86_64'' (host_runner refuses)
     \<lparr>po_Gateway = ''disabled'', po_Upstream = [], po_GatewayPort = 18081\<rparr> host_world = (Inr host_inspection, host_world)"
proof -
  have "Inspect (nl_url_Parse (al_net host_lib)) (al_GOARCH host_lib) ''/'' ''x86_64'' (host_runner True)
     \<lparr>po_Gateway = ''disabled'', po_Upstream = [], po_GatewayPort = 18081\<rparr> host_world = (Inr host_inspection, host_world)"
    by code_simp
  moreover have "Inspect (nl_url_Parse (al_net host_lib)) (al_GOARCH host_lib) ''/'' ''x86_64'' (host_runner False)
     \<lparr>po_Gateway = ''disabled'', po_Upstream = [], po_GatewayPort = 18081\<rparr> host_world = (Inr host_inspection, host_world)"
    by code_simp
  ultimately show ?thesis by (cases refuses) simp_all
qed

lemma host_fresh: "loadInstalledRelease (al_decode host_lib) ''/'' host_world = (Inr None, host_world)"
  by code_simp

lemma host_checks: "apply_checks host_lib host_options demo_manifest host_inspection host_world = (Inr (Some []), host_world)"
proof -
  have "select_each demo_lib ''/b'' demo_manifest ''linux'' ''amd64'' [] [''agent''] host_world = (Inr (), host_world)" by code_simp
  then have "VerifySelection (al_rb host_lib) (ao_BundleDirectory host_options) demo_manifest ''linux''
      (env_Architecture (insp_Environment host_inspection)) [''agent''] host_world = (Inr (), host_world)"
    by (simp add: VerifySelection_def demo_valid host_lib_def host_options_def host_inspection_def)
  moreover have "validateControlURL (al_net host_lib) (ao_ControlURL host_options) = None" by code_simp
  ultimately show ?thesis
    by (simp add: apply_checks_def io_bind_def io_return_def host_options_def host_inspection_def hasRootPrivileges_def host_lib_def)
qed

lemma host_site: "site_ok ''/'' (tx_name 0 host_world) (standard_paths (insp_Plan host_inspection))"
  by code_simp

lemma host_plan: "apply_plan_ok ''/'' (tx_name 0 host_world) (standard_paths (insp_Plan host_inspection))"
  by code_simp

lemma host_verified:
  "apply_verify host_lib (host_runner refuses) host_options host_world = (Inr (''asset'', demo_manifest, host_inspection), host_world)"
proof -
  have o: "ao_ManifestPath host_options = ''/b/m''" "ao_SignaturePath host_options = ''/b/s''" "ao_ExpectedVersion host_options = []"
      "ao_Root host_options = ''/''" "ao_Architecture host_options = ''x86_64''" "ao_Gateway host_options = ''disabled''"
      "ao_Upstream host_options = []" "ao_GatewayPort host_options = 18081" "al_rb host_lib = demo_lib"
    by (simp_all add: host_options_def host_lib_def)
  have "verifyRelease host_lib host_options host_world = (Inr (host_manifest, host_signature, ''asset'', demo_manifest), host_world)"
    by (simp add: verifyRelease_def io_bind_def io_wrap_def io_return_def o(1,2,9) host_reads host_key host_signed host_decoded)
  then show ?thesis
    by (simp add: apply_verify_def io_bind_def io_return_def o(3-8) host_fresh host_inspected)
qed

text \<open>The state of the host, as a check of the files it has.\<close>

lemma able_check:
  assumes "w_faults w = []" and "n \<le> length (w_rand w)" and "list_all (\<lambda>(q, _). \<not> tmp_like q) (w_files w)"
    and "list_all (\<lambda>(q, x). (q \<in> set D \<longrightarrow> is_dir (Some x)) \<and> (q \<in> set F \<longrightarrow> is_regular x)) (w_files w)"
  shows "able (set D) (set F) w n w"
  unfolding able_def
proof (intro conjI allI ballI impI)
  fix q assume "tmp_like q"
  then show "node_at w q = None" using assms(3) by (auto simp: list_all_iff map_of_eq_None_iff)
next
  fix d assume "d \<in> set D"
  then show "node_at w d = None \<or> is_dir (node_at w d)" using assms(4) by (cases "node_at w d") (auto simp: list_all_iff dest!: map_of_SomeD)
next
  fix f assume "f \<in> set F"
  then show "node_at w f = None \<or> (\<exists>m c. node_at w f = Some (NFile m c))"
    using assms(4) by (cases "node_at w f") (auto simp: list_all_iff dest!: map_of_SomeD elim!: is_regular.elims)
qed (use assms(1,2) in simp_all)

lemma host_shape:
  "list_all (\<lambda>(q, _). \<not> tmp_like q) (w_files host_world)"
  "list_all (\<lambda>(q, x). (q \<in> set (site_made ''/'' (tx_name 0 host_world) (standard_paths (insp_Plan host_inspection))) \<longrightarrow> is_dir (Some x))
     \<and> (q \<in> set (site_files ''/'' (tx_name 0 host_world) (standard_paths (insp_Plan host_inspection))) \<longrightarrow> is_regular x)) (w_files host_world)"
  "list_all (\<lambda>p. node_at host_world (bkp ''/'' (tx_name 0 host_world) p) = None) (standard_paths (insp_Plan host_inspection))"
  by code_simp+

lemma host_stocked: "stocked host_options demo_manifest ''amd64'' ''agent'' (tx_name 0 host_world) (standard_paths (insp_Plan host_inspection)) host_world"
  by code_simp

lemma host_is_able:
  assumes "n \<le> 40"
  shows "host_able host_lib host_options demo_manifest host_inspection n host_world"
proof -
  have "able (set (site_made ''/'' (tx_name 0 host_world) (standard_paths (insp_Plan host_inspection))))
      (set (site_files ''/'' (tx_name 0 host_world) (standard_paths (insp_Plan host_inspection)))) host_world n host_world"
    by (rule able_check [OF _ _ host_shape(1,2)]) (use assms in \<open>simp_all add: host_world_def\<close>)
  moreover have "al_Now host_lib 0 = 0" "ao_Root host_options = ''/''" "env_Architecture (insp_Environment host_inspection) = ''amd64''"
      "\<not> pl_GatewayEnabled (insp_Plan host_inspection)"
    by (simp_all add: host_lib_def host_options_def host_inspection_def)
  ultimately show ?thesis using host_site host_shape(3) host_stocked by (simp add: host_able_def)
qed

lemma host_commands:
  "obeys (host_runner refuses)" "starts (host_runner False)" "undoes_services (host_runner refuses)"
  "apply_runner (host_runner True) [''systemctl'', ''enable'', ''--now'', ''my-safe-agent.service''] = Some ''exit status 1''"
  by (auto simp: obeys_def starts_def undoes_services_def apply_runner_def host_runner_def)

lemma host_supplied: "supplied host_lib"
  by (simp add: supplied_def marshals_def host_lib_def text_lib_def AgentUnit_def GatewayUnit_def ReleasePublicKey_def ParsePublicKey_def demo_lib_def)

lemma host_plan_facts: "pl_NginxConfig (insp_Plan host_inspection) = []" "\<not> pl_GatewayEnabled (insp_Plan host_inspection)"
    "install_paths (insp_Plan host_inspection) = standard_paths (insp_Plan host_inspection)"
  by (simp_all add: host_inspection_def install_paths_def)

section \<open>The runs\<close>


lemma host_completes:
  obtains result w' where "Apply host_lib (host_runner False) host_options [] host_world = ((result, ApplyOK), w')"
    "rs_Status result = ''complete''" "rs_Inspection result = Some host_inspection"
proof -
  have h: "host_able host_lib host_options demo_manifest host_inspection 25 host_world" by (rule host_is_able) simp
  show ?thesis
    by (rule Apply_completes [OF host_verified host_checks host_normal [symmetric] h host_commands(1,2) host_supplied host_plan_facts(1), of "[]"])
      (use host_plan_facts(2) that in auto)
qed

theorem completed_installation_is_signed_witness:
  "\<exists>result w' content. Apply host_lib (host_runner False) host_options [] host_world = ((result, ApplyOK), w')
     \<and> rs_Status result = ''complete''
     \<and> node_at w' (rootPath ''/'' ''/usr/local/bin/mysafe-agent'') = Some (NFile 493 content)"
proof -
  obtain result w' where run: "Apply host_lib (host_runner False) host_options [] host_world = ((result, ApplyOK), w')"
    "rs_Status result = ''complete''" "rs_Inspection result = Some host_inspection" by (rule host_completes)
  have "IsAbs (w_cwd host_world)" by (simp add: host_world_def)
  moreover have "''/'' = ao_Root (normalizeApplyOptions host_lib (w_cwd host_world) host_options)" unfolding host_normal by (simp add: host_options_def)
  moreover have "rootPath ''/'' (pl_NginxConfig (insp_Plan host_inspection)) \<noteq> rootPath ''/'' ''/usr/local/bin/mysafe-agent''" by code_simp
  ultimately show ?thesis using completed_installation_is_signed [OF run] run(1,2) by blast
qed

theorem failed_installation_restored_witness:
  "\<exists>result w'. Apply host_lib (host_runner True) host_options [] host_world = ((result, ApplyErrors [''systemctl failed: exit status 1'']), w')
     \<and> rs_Status result = ''rolled_back''
     \<and> node_at w' (rootPath ''/'' ''/etc/my-safe/agent.env'') = node_at host_world (rootPath ''/'' ''/etc/my-safe/agent.env'')"
proof -
  have h: "host_able host_lib host_options demo_manifest host_inspection 33 host_world" by (rule host_is_able) simp
  have codec: "tx_codec_ok (al_tx host_lib)" using text_lib_codec by (simp add: host_lib_def)
  have now: "al_Now host_lib 0 = 0" and root: "ao_Root host_options = ''/''" by (simp_all add: host_lib_def host_options_def)
  have plan: "apply_plan_ok (ao_Root host_options) (tx_name (al_Now host_lib 0) host_world) (install_paths (insp_Plan host_inspection))"
    unfolding now root host_plan_facts(3) by (rule host_plan)
  obtain result w' where run: "Apply host_lib (host_runner True) host_options [] host_world
        = ((result, ApplyErrors [''systemctl failed: '' @ ''exit status 1'']), w')"
    "rs_Status result = ''rolled_back''" "rs_Inspection result = Some host_inspection"
    "rs_TransactionID result = tx_name (al_Now host_lib 0) host_world"
    by (rule Apply_rolls_back [OF host_verified host_checks host_normal [symmetric] h host_commands(1,3) host_supplied codec
        host_plan_facts(1) plan host_commands(4)])
  have r: "''/'' = ao_Root (normalizeApplyOptions host_lib (w_cwd host_world) host_options)" unfolding host_normal root ..
  have p: "''/etc/my-safe/agent.env'' \<in> set (install_paths (insp_Plan host_inspection))" by (simp add: host_plan_facts(3) standard_paths_def)
  from failed_installation_restored [OF codec run(1-3) r _ p] plan run(4)
  have "node_at w' (rootPath ''/'' ''/etc/my-safe/agent.env'') = node_at host_world (rootPath ''/'' ''/etc/my-safe/agent.env'')"
    by (simp add: root)
  then show ?thesis using run(1,2) by auto
qed

end
