(* ===== verification/Local_Feed.thy ===== *)
theory Local_Feed
  imports Go_Files Domain
begin

text \<open>
  internal/localfeed/localfeed.go: the Unix datagram socket over which the gateway hands events to the Agent. The JSON
  codec of events is in \<open>feed_lib\<close>; \<open>fl_decode\<close> gives the value and the text after it. The socket itself is an argument:
  what dialing and writing report, and the datagrams that the listener reads. Which special files are sockets is the
  argument \<open>socket\<close>.
\<close>

record feed_lib =
  fl_marshal :: "Event \<Rightarrow> error + string"
  fl_decode :: "string \<Rightarrow> error + (Event \<times> string)"
  fl_evidence :: "evidence \<Rightarrow> error + string"

definition MaxDatagramBytes :: nat where "MaxDatagramBytes = 65536"

section \<open>Events\<close>

definition feed_Validate :: "feed_lib \<Rightarrow> Event \<Rightarrow> time \<Rightarrow> error option" where
  "feed_Validate lib event now =
     (if event_AgentID event \<noteq> [] \<or> event_ReceivedAt event \<noteq> zero_time then Some ''local event must not set server-owned fields''
      else if \<not> HasPrefix (event_Kind event) ''gateway.'' then Some ''local event kind must use the gateway namespace''
      else case ValidateEvent (fl_evidence lib) event now of
        Some e \<Rightarrow> Some (''validate local event: '' @ e)
      | None \<Rightarrow> None)"

definition feed_Decode :: "feed_lib \<Rightarrow> string \<Rightarrow> time \<Rightarrow> error + Event" where
  "feed_Decode lib encoded now =
     (if encoded = [] \<or> MaxDatagramBytes < length encoded then Inl ''local event has invalid size''
      else case fl_decode lib encoded of
        Inl e \<Rightarrow> Inl (''decode local event: '' @ e)
      | Inr (event, after) \<Rightarrow>
          if \<not> list_all json_blank after then Inl ''local event contains trailing JSON''
          else case feed_Validate lib event now of Some e \<Rightarrow> Inl e | None \<Rightarrow> Inr event)"

section \<open>The socket path\<close>

definition validateSocketPath :: "string \<Rightarrow> (error, string) io" where
  "validateSocketPath path =
     (if TrimSpace path = [] \<or> ContainsAny path [byte 0, byte 13, byte 10] then io_fail ''local event socket path is required''
      else io_bind (os_label ''resolve local event socket path: '' (AbsPath path)) (\<lambda>absolute.
        if 100 < length (Clean absolute) then io_fail ''local event socket path is too long''
        else io_return (Clean absolute)))"

definition is_socket :: "(string \<Rightarrow> bool) \<Rightarrow> string \<Rightarrow> node \<Rightarrow> bool" where
  "is_socket socket path info \<longleftrightarrow> info = NSpecial \<and> socket path"

definition prepareSocketPath :: "(string \<Rightarrow> bool) \<Rightarrow> string \<Rightarrow> (error, unit) io" where
  "prepareSocketPath socket path =
     io_bind (os_label ''stat local event directory: '' (Lstat (DirPath path))) (\<lambda>info.
       if \<not> is_dir (Some info) then io_fail ''local event directory must be a real directory''
       else io_try (Lstat path) (\<lambda>r.
         case r of
           Inl OsNotExist \<Rightarrow> io_return ()
         | Inl e \<Rightarrow> io_fail (''stat local event socket: '' @ os_text e)
         | Inr info \<Rightarrow>
             if \<not> is_socket socket path info then io_fail ''refusing to replace a non-socket local event path''
             else os_label ''remove stale local event socket: '' (Remove path)))"

section \<open>Sending\<close>

text \<open>\<open>dial\<close> and \<open>write\<close> are the outcomes of connecting and of writing one datagram.\<close>

definition feed_Send ::
  "feed_lib \<Rightarrow> (string \<Rightarrow> error option) \<Rightarrow> (string \<Rightarrow> string \<Rightarrow> error + nat) \<Rightarrow> time \<Rightarrow> string \<Rightarrow> Event \<Rightarrow> (error, unit) io" where
  "feed_Send lib dial put now path event =
     io_bind (validateSocketPath path) (\<lambda>path.
       case feed_Validate lib event now of
         Some e \<Rightarrow> io_fail e
       | None \<Rightarrow>
           (case fl_marshal lib event of
              Inl e \<Rightarrow> io_fail (''encode local event: '' @ e)
            | Inr encoded \<Rightarrow>
                if MaxDatagramBytes < length encoded then io_fail ''local event exceeds datagram size limit''
                else case dial path of
                  Some e \<Rightarrow> io_fail (''connect local event socket: '' @ e)
                | None \<Rightarrow>
                    (case put path encoded of
                       Inl e \<Rightarrow> io_fail (''write local event socket: '' @ e)
                     | Inr written \<Rightarrow> if written \<noteq> length encoded then io_fail ''short write'' else io_return ())))"

section \<open>Listening\<close>

text \<open>What a read of the socket gives: a datagram, with the time at which it is decoded, or an error. The end of the list is the
  closing of the socket, which ends the loop without an error. The handler gets the time with the event.\<close>

datatype feed_read = Datagram time string | ReadFailed error

fun listen_loop :: "feed_lib \<Rightarrow> (time \<Rightarrow> Event \<Rightarrow> (error, unit) io) \<Rightarrow> feed_read list \<Rightarrow> (error, unit) io" where
  "listen_loop lib handler [] = io_return ()"
| "listen_loop lib handler (ReadFailed e # _) = io_fail (''read local event socket: '' @ e)"
| "listen_loop lib handler (Datagram now bytes # reads) =
     (if bytes = [] \<or> MaxDatagramBytes < length bytes then listen_loop lib handler reads
      else case feed_Decode lib bytes now of
        Inl _ \<Rightarrow> listen_loop lib handler reads
      | Inr event \<Rightarrow>
          io_then (io_wrap (\<lambda>e. ''persist local event: '' @ e) (handler now event)) (listen_loop lib handler reads))"

text \<open>Binding the socket makes a special file.\<close>

definition bind_socket :: "string \<Rightarrow> (os_error, unit) io" where
  "bind_socket path = sys (\<lambda>w.
     if node_at w path \<noteq> None then (Inl (OsOther ''address already in use''), w)
     else if \<not> dir_at w (DirPath path) then (Inl OsNotExist, w)
     else (Inr (), w\<lparr>w_files := AList.update path NSpecial (w_files w)\<rparr>))"

definition unlink_socket :: "(string \<Rightarrow> bool) \<Rightarrow> string \<Rightarrow> (os_error, unit) io" where
  "unlink_socket socket path =
     io_bind (Lstat path) (\<lambda>info. if is_socket socket path info then Remove path else io_return ())"

text \<open>The deferred call removes the socket whatever ended the loop.\<close>

definition Listen :: "feed_lib \<Rightarrow> (string \<Rightarrow> bool) \<Rightarrow> string \<Rightarrow> (time \<Rightarrow> Event \<Rightarrow> (error, unit) io) \<Rightarrow> feed_read list \<Rightarrow> (error, unit) io" where
  "Listen lib socket path handler reads =
     io_bind (validateSocketPath path) (\<lambda>path.
       io_then (prepareSocketPath socket path)
       (io_then (os_label ''listen on local event socket: '' (bind_socket path))
         (\<lambda>w. case io_then (os_label ''protect local event socket: '' (ChmodFile path 432)) (listen_loop lib handler reads) w of
            (r, w) \<Rightarrow> (r, snd (unlink_socket socket path w)))))"

section \<open>What is accepted\<close>

lemma feed_Validate_None:
  "feed_Validate lib event now = None \<longleftrightarrow> event_AgentID event = [] \<and> event_ReceivedAt event = zero_time
     \<and> HasPrefix (event_Kind event) ''gateway.'' \<and> ValidateEvent (fl_evidence lib) event now = None"
  by (auto simp: feed_Validate_def split: option.splits)

text \<open>An event stays acceptable as time goes on.\<close>

lemma feed_Validate_later: "feed_Validate lib event now = None \<Longrightarrow> now \<le> later \<Longrightarrow> feed_Validate lib event later = None"
  by (auto simp: feed_Validate_None ValidateEvent_None)

lemma feed_Decode_Inr:
  "feed_Decode lib encoded now = Inr event \<longleftrightarrow> encoded \<noteq> [] \<and> length encoded \<le> MaxDatagramBytes
     \<and> (\<exists>after. fl_decode lib encoded = Inr (event, after) \<and> list_all json_blank after) \<and> feed_Validate lib event now = None"
  by (auto simp: feed_Decode_def split: sum.splits option.splits if_splits)

text \<open>The documented round trip of the codec; an encoding is never empty.\<close>

definition feed_codec_ok :: "feed_lib \<Rightarrow> bool" where
  "feed_codec_ok lib \<longleftrightarrow> (\<forall>event encoded. fl_marshal lib event = Inr encoded \<longrightarrow>
     encoded \<noteq> [] \<and> (\<exists>after. fl_decode lib encoded = Inr (event, after) \<and> list_all json_blank after))"

lemma encoded_event_decodes:
  assumes "feed_codec_ok lib" and "fl_marshal lib event = Inr encoded" and "length encoded \<le> MaxDatagramBytes"
    and "feed_Validate lib event now = None" and "now \<le> later"
  shows "feed_Decode lib encoded later = Inr event"
  using assms feed_Validate_later [OF assms(4,5)] unfolding feed_codec_ok_def feed_Decode_Inr by blast

text \<open>The events that the listener hands on, in the order of their datagrams.\<close>

fun accepted :: "feed_lib \<Rightarrow> feed_read list \<Rightarrow> (time \<times> Event) list" where
  "accepted lib [] = []"
| "accepted lib (ReadFailed e # _) = []"
| "accepted lib (Datagram now bytes # reads) =
     (case feed_Decode lib bytes now of Inl _ \<Rightarrow> accepted lib reads | Inr event \<Rightarrow> (now, event) # accepted lib reads)"

fun handle_all :: "(time \<Rightarrow> Event \<Rightarrow> (error, unit) io) \<Rightarrow> (time \<times> Event) list \<Rightarrow> (error, unit) io" where
  "handle_all handler [] = io_return ()"
| "handle_all handler ((now, event) # events) =
     io_then (io_wrap (\<lambda>e. ''persist local event: '' @ e) (handler now event)) (handle_all handler events)"

fun read_error :: "feed_read list \<Rightarrow> error option" where
  "read_error [] = None"
| "read_error (ReadFailed e # _) = Some (''read local event socket: '' @ e)"
| "read_error (Datagram _ _ # reads) = read_error reads"

lemma listen_loop_outcome:
  "listen_loop lib handler reads w =
     io_then (handle_all handler (accepted lib reads))
       (case read_error reads of None \<Rightarrow> io_return () | Some e \<Rightarrow> io_fail e) w"
proof (induction lib handler reads arbitrary: w rule: listen_loop.induct)
  case (3 lib handler now bytes reads)
  have bind: "io_bind (io_bind m f) g w = io_bind m (\<lambda>x. io_bind (f x) g) w"
    for m :: "(error, 'a) io" and f :: "'a \<Rightarrow> (error, 'b) io" and g :: "'b \<Rightarrow> (error, 'c) io" and w
    by (simp add: io_bind_def split: prod.splits sum.splits)
  show ?case
  proof (cases "bytes = [] \<or> MaxDatagramBytes < length bytes")
    case True
    then have "feed_Decode lib bytes now = Inl ''local event has invalid size''" by (auto simp: feed_Decode_def)
    then show ?thesis using 3(1) [OF True] True by simp
  next
    case False
    show ?thesis
    proof (cases "feed_Decode lib bytes now")
      case (Inl e)
      then show ?thesis using 3(2) [OF False Inl] False by simp
    next
      case (Inr event)
      have "listen_loop lib handler reads = io_then (handle_all handler (accepted lib reads))
          (case read_error reads of None \<Rightarrow> io_return () | Some e \<Rightarrow> io_fail e)"
        using 3(3) [OF False Inr] by (rule ext)
      then show ?thesis using Inr False by (simp add: bind)
    qed
  qed
qed (simp_all add: io_bind_def io_return_def)

text \<open>The listener hands to its handler exactly the datagrams that decode to valid gateway events, each once and in order; it ends with
  the first error of the handler, else with the error of the socket. A malformed, oversized, empty or foreign
  datagram changes nothing.\<close>

theorem listen_loop_hands_on:
  "listen_loop lib handler reads w =
     io_then (handle_all handler (accepted lib reads))
       (case read_error reads of None \<Rightarrow> io_return () | Some e \<Rightarrow> io_fail e) w"
  by (rule listen_loop_outcome)

end
