(* ===== verification/Outbox.thy ===== *)
theory Outbox
  imports Local_Feed
begin

text \<open>
  internal/gatewayevents/outbox.go: the gateway's store of events that the Agent's socket did not take. Every event is one
  file of the directory \<open>outbox\<close>, named by time. The sender is an argument, the outcome of its \<open>n\<close>-th call; a \<open>feed_net\<close> counts
  the calls and lists what they handed over. The mutex makes each operation one step. Clocks are arguments.
\<close>

record Outbox =
  ob_directory :: string
  ob_socketPath :: string
  ob_maxEvents :: int

record feed_net =
  net_attempts :: nat
  net_delivered :: "Event list"

type_synonym Sender = "nat \<Rightarrow> string \<Rightarrow> Event \<Rightarrow> error option"

definition outbox_fileSuffix :: string where "outbox_fileSuffix = ''.gateway-event''"

definition outbox_maxFileBytes :: nat where "outbox_maxFileBytes = MaxDatagramBytes"

section \<open>Opening\<close>

definition outbox_ensurePrivateDirectory :: "string \<Rightarrow> (error, unit) io" where
  "outbox_ensurePrivateDirectory path =
     io_then (io_wrap os_text (MkdirAll path 448))
     (io_bind (io_wrap os_text (Lstat path)) (\<lambda>info.
       if \<not> is_dir (Some info) then io_fail ''Gateway event outbox must be a real directory''
       else io_wrap os_text (ChmodFile path 448)))"

definition outbox_New :: "string \<Rightarrow> string \<Rightarrow> int \<Rightarrow> (error, Outbox) io" where
  "outbox_New stateDir socketPath maxEvents =
     (if TrimSpace stateDir = [] \<or> TrimSpace socketPath = []
      then io_fail ''Gateway event state directory and socket path are required''
      else io_bind (io_wrap os_text (AbsPath stateDir)) (\<lambda>stateDir.
        let maxEvents = (if maxEvents = 0 then 10000 else maxEvents);
            directory = JoinPath [stateDir, ''outbox'']
        in if maxEvents < 1 \<or> 100000 < maxEvents then io_fail ''Gateway event outbox limit must be between 1 and 100000''
           else io_then (outbox_ensurePrivateDirectory directory)
             (io_return \<lparr>ob_directory = directory, ob_socketPath = socketPath, ob_maxEvents = maxEvents\<rparr>)))"

section \<open>Operations\<close>

definition outboxFiles :: "string \<Rightarrow> (error, string list) io" where
  "outboxFiles directory =
     io_bind (io_wrap os_text (ReadDir directory)) (\<lambda>entries.
       io_return (sort (map fst (filter (\<lambda>(name, x). is_regular x \<and> HasSuffix name outbox_fileSuffix) entries))))"

definition outbox_name :: "time \<Rightarrow> string \<Rightarrow> string" where
  "outbox_name now random = twenty_digits (wrap64 now) @ ''-'' @ EncodeToString random @ outbox_fileSuffix"

definition outbox_persist :: "feed_lib \<Rightarrow> Outbox \<Rightarrow> time \<Rightarrow> Event \<Rightarrow> (error, unit) io" where
  "outbox_persist lib outbox now event =
     (case fl_marshal lib event of
        Inl e \<Rightarrow> io_fail e
      | Inr encoded \<Rightarrow>
          if encoded = [] \<or> MaxDatagramBytes < length encoded then io_fail ''Gateway event exceeds outbox size limit''
          else io_bind (outboxFiles (ob_directory outbox)) (\<lambda>files.
            if ob_maxEvents outbox \<le> int (length files)
            then io_fail (''Gateway event outbox reached its '' @ FormatInt (ob_maxEvents outbox) @ '' event limit'')
            else io_bind (io_wrap os_text (rand_Read 8)) (\<lambda>random.
              io_wrap os_text (create_exclusive (JoinPath [ob_directory outbox, outbox_name now random]) encoded 384))))"

text \<open>One call of the sender.\<close>

definition transmit :: "Sender \<Rightarrow> string \<Rightarrow> Event \<Rightarrow> feed_net \<Rightarrow> error option \<times> feed_net" where
  "transmit send path event net =
     (case send (net_attempts net) path event of
        Some e \<Rightarrow> (Some e, net\<lparr>net_attempts := Suc (net_attempts net)\<rparr>)
      | None \<Rightarrow> (None, net\<lparr>net_attempts := Suc (net_attempts net), net_delivered := net_delivered net @ [event]\<rparr>))"

text \<open>\<open>now\<close> is the clock at validation, \<open>later\<close> when the file is named.\<close>

definition Emit :: "feed_lib \<Rightarrow> Sender \<Rightarrow> Outbox \<Rightarrow> time \<Rightarrow> time \<Rightarrow> Event \<Rightarrow> feed_net \<Rightarrow> world \<Rightarrow> error option \<times> feed_net \<times> world" where
  "Emit lib send outbox now later event net w =
     (case feed_Validate lib event now of
        Some e \<Rightarrow> (Some e, net, w)
      | None \<Rightarrow>
          (case transmit send (ob_socketPath outbox) event net of
             (None, net) \<Rightarrow> (None, net, w)
           | (Some _, net) \<Rightarrow>
               (case outbox_persist lib outbox later event w of
                  (Inl e, w) \<Rightarrow> (Some e, net, w)
                | (Inr _, w) \<Rightarrow> (None, net, w))))"

definition outbox_read :: "feed_lib \<Rightarrow> Outbox \<Rightarrow> string \<Rightarrow> time \<Rightarrow> (error, Event) io" where
  "outbox_read lib outbox name now =
     (let path = JoinPath [ob_directory outbox, name]
      in io_bind (io_wrap os_text (Lstat path)) (\<lambda>info.
        if \<not> is_regular info \<or> node_size info = 0 \<or> outbox_maxFileBytes < node_size info
        then io_fail (''unsafe Gateway outbox file '' @ Quote name)
        else io_bind (io_wrap os_text (ReadFile path)) (\<lambda>encoded.
          case feed_Decode lib encoded now of
            Inl e \<Rightarrow> io_fail (''decode Gateway outbox event: '' @ e)
          | Inr event \<Rightarrow> io_return event)))"

text \<open>The loop of \<open>Flush\<close>: the number of events flushed and the error. \<open>ctx n\<close> and \<open>clock n\<close> are the error of the context and the
  time when the \<open>n\<close>-th file is taken up.\<close>

fun flush_files ::
  "feed_lib \<Rightarrow> Sender \<Rightarrow> Outbox \<Rightarrow> (nat \<Rightarrow> error option) \<Rightarrow> (nat \<Rightarrow> time) \<Rightarrow> string list \<Rightarrow> nat \<Rightarrow> feed_net \<Rightarrow> world \<Rightarrow>
   (nat \<times> error option) \<times> feed_net \<times> world" where
  "flush_files lib send outbox ctx clock [] flushed net w = ((flushed, None), net, w)"
| "flush_files lib send outbox ctx clock (name # names) flushed net w =
     (case ctx flushed of
        Some e \<Rightarrow> ((flushed, Some e), net, w)
      | None \<Rightarrow>
        (case outbox_read lib outbox name (clock flushed) w of
           (Inl e, w) \<Rightarrow> ((flushed, Some e), net, w)
         | (Inr event, w) \<Rightarrow>
             (case transmit send (ob_socketPath outbox) event net of
                (Some _, net) \<Rightarrow> ((flushed, None), net, w)
              | (None, net) \<Rightarrow>
                  (case Remove (JoinPath [ob_directory outbox, name]) w of
                     (Inl e, w) \<Rightarrow> ((flushed, Some (os_text e)), net, w)
                   | (Inr _, w) \<Rightarrow> flush_files lib send outbox ctx clock names (Suc flushed) net w))))"

definition outbox_Flush ::
  "feed_lib \<Rightarrow> Sender \<Rightarrow> Outbox \<Rightarrow> (nat \<Rightarrow> error option) \<Rightarrow> (nat \<Rightarrow> time) \<Rightarrow> int \<Rightarrow> feed_net \<Rightarrow> world \<Rightarrow>
   (nat \<times> error option) \<times> feed_net \<times> world" where
  "outbox_Flush lib send outbox ctx clock limit net w =
     (if limit < 1 \<or> 1000 < limit then ((0, Some ''Gateway event flush limit must be between 1 and 1000''), net, w)
      else case outboxFiles (ob_directory outbox) w of
        (Inl e, w) \<Rightarrow> ((0, Some e), net, w)
      | (Inr files, w) \<Rightarrow> flush_files lib send outbox ctx clock (take (nat limit) files) 0 net w)"

text \<open>\<open>Run\<close>: one element per turn of its loop, with what the turn meets; \<open>turn_ended\<close> tells whether the context has ended when \<open>Flush\<close>
  returns. The end of the list is the turn on which the loop takes the end of the context.\<close>

record outbox_turn =
  turn_ctx :: "nat \<Rightarrow> error option"
  turn_clock :: "nat \<Rightarrow> time"
  turn_ended :: bool

fun outbox_Run :: "feed_lib \<Rightarrow> Sender \<Rightarrow> Outbox \<Rightarrow> outbox_turn list \<Rightarrow> feed_net \<Rightarrow> world \<Rightarrow> error option \<times> feed_net \<times> world" where
  "outbox_Run lib send outbox [] net w = (None, net, w)"
| "outbox_Run lib send outbox (turn # turns) net w =
     (case outbox_Flush lib send outbox (turn_ctx turn) (turn_clock turn) 100 net w of
        ((_, err), net, w) \<Rightarrow>
          if err \<noteq> None \<and> \<not> turn_ended turn then (err, net, w)
          else outbox_Run lib send outbox turns net w)"

section \<open>What each operation leaves\<close>

lemma outboxFiles_files: "outboxFiles d w = (r, w') \<Longrightarrow> w_files w' = w_files w"
  by (auto simp: outboxFiles_def io_bind_def io_wrap_def io_return_def split: prod.splits sum.splits dest!: reads_files)

lemma outbox_persist_Inr:
  assumes "outbox_persist lib outbox now event w = (Inr u, w')"
  obtains encoded name where "fl_marshal lib event = Inr encoded"
    "node_at w' (JoinPath [ob_directory outbox, name]) = Some (NFile 384 encoded)"
proof -
  obtain encoded name v where m: "fl_marshal lib event = Inr encoded"
      and c: "create_exclusive (JoinPath [ob_directory outbox, name]) encoded 384 v = (Inr u, w')"
    using assms by (auto simp: outbox_persist_def io_outcomes split: sum.splits if_splits)
  then show ?thesis using that create_exclusive_Inr [OF c] by blast
qed

text \<open>Storing an event, successfully or not, leaves every existing file alone.\<close>

lemma outbox_persist_keeps:
  assumes "outbox_persist lib outbox now event w = (r, w')" and "node_at w p = Some x"
  shows "node_at w' p = Some x"
proof -
  have "w_files w' = w_files w \<or> (\<exists>q encoded v r2. w_files v = w_files w \<and> create_exclusive q encoded 384 v = (r2, w'))"
    using assms(1)
    by (auto simp: outbox_persist_def io_bind_def io_wrap_def io_fail_def split: sum.splits if_splits prod.splits
        dest!: outboxFiles_files reads_files)
  then consider "w_files w' = w_files w" | q encoded v r2 where "w_files v = w_files w" "create_exclusive q encoded 384 v = (r2, w')"
    by blast
  then show ?thesis
  proof cases
    case 2
    show ?thesis
    proof (cases "p = q")
      case True
      then show ?thesis using create_exclusive_existing [of v q encoded 384] 2 assms(2) by auto
    next
      case False
      then show ?thesis using touchesD [OF touches_create_exclusive _ 2(2), of p] 2(1) assms(2) by simp
    qed
  qed (use assms(2) in simp)
qed

lemma outbox_read_Inr:
  assumes "outbox_read lib outbox name now w = (Inr event, w')"
  obtains mode encoded where "node_at w (JoinPath [ob_directory outbox, name]) = Some (NFile mode encoded)"
    "feed_Decode lib encoded now = Inr event" "w_files w' = w_files w"
proof -
  let ?p = "JoinPath [ob_directory outbox, name]"
  obtain info v encoded where l: "Lstat ?p w = (Inr info, v)" and reg: "is_regular info"
      and r: "ReadFile ?p v = (Inr encoded, w')" and d: "feed_Decode lib encoded now = Inr event"
    using assms by (auto simp: outbox_read_def Let_def io_outcomes split: if_splits sum.splits)
  have v: "w_files v = w_files w" using reads_files(1) [OF l] .
  have "node_at w ?p = Some info" using sys_Inr [OF l [unfolded Lstat_def]] by (auto split: option.splits)
  then obtain mode content where n: "node_at w ?p = Some (NFile mode content)" using reg by (auto elim: is_regular.elims)
  then have "follow v ?p = Some (?p, NFile mode content)" using follow_file v by simp
  then have "content = encoded" "w_files w' = w_files v" using ReadFile_Inr [OF r] by auto
  then show ?thesis using that n d v by simp
qed

lemma outbox_read_files: "outbox_read lib outbox name now w = (r, w') \<Longrightarrow> w_files w' = w_files w"
  by (auto simp: outbox_read_def Let_def io_bind_def io_wrap_def io_fail_def io_return_def split: prod.splits sum.splits if_splits
      dest!: reads_files)

end
