(* ===== verification/Gateway.thy ===== *)
theory Gateway
  imports Outbox Client
begin

text \<open>
  internal/gateway/gateway.go and the wiring of cmd/mysafe-gateway/main.go: the reverse proxy in front of the protected
  application.

  \<^item> A handler gets a request and gives the calls it makes on its \<open>ResponseWriter\<close>, and the request as it leaves it (its body is
    read). \<open>served\<close> is what the server of \<open>net/http\<close> sends for a list of calls: interim answers (1xx) leave the header open.
  \<^item> The Coraza engine and its rule files are the fields \<open>gl_NewWAF\<close> and \<open>gl_rules\<close> of \<open>gateway_lib\<close>: \<open>gl_NewWAF\<close> gives
    the handler that \<open>WrapHandler\<close> makes of the proxy. The upstream is the argument \<open>transport\<close>.
  \<^item> URL parsing, the removal of hop-by-hop headers, the cleaning of a query and the page of a redirect are fields too.
  \<^item> Header names are in canonical form; a path is its escaped form.
\<close>

section \<open>Configuration\<close>

type_synonym Mode = string

definition ModeBypass :: Mode where "ModeBypass = ''bypass''"
definition ModeObserve :: Mode where "ModeObserve = ''observe''"
definition ModeBlock :: Mode where "ModeBlock = ''block''"

definition Mode_Valid :: "Mode \<Rightarrow> bool" where
  "Mode_Valid mode \<longleftrightarrow> mode \<in> {ModeBypass, ModeObserve, ModeBlock}"

type_synonym FailurePolicy = string

definition FailOpen :: FailurePolicy where "FailOpen = ''fail_open''"
definition FailClosed :: FailurePolicy where "FailClosed = ''fail_closed''"

definition FailurePolicy_Valid :: "FailurePolicy \<Rightarrow> bool" where
  "FailurePolicy_Valid policy \<longleftrightarrow> policy = FailOpen \<or> policy = FailClosed"

lemmas gateway_modes = ModeBypass_def ModeObserve_def ModeBlock_def FailOpen_def FailClosed_def

text \<open>A value of the interface \<open>EventSink\<close>: \<open>nil\<close>, or a pointer to an outbox, which may itself be nil.\<close>

datatype EventSink = NilSink | OutboxSink "Outbox option"

record gw_config =
  gc_Mode :: Mode
  gc_FailurePolicy :: FailurePolicy
  gc_Upstream :: string
  gc_RequestBodyLimitBytes :: int
  gc_RequestMemoryLimitBytes :: int
  gc_EventSink :: EventSink

definition parseUpstream :: "(string \<Rightarrow> URL option) \<Rightarrow> string \<Rightarrow> error + URL" where
  "parseUpstream parse raw =
     (case parse (TrimSpace raw) of
        None \<Rightarrow> Inl ''upstream must be an absolute HTTP(S) URL''
      | Some upstream \<Rightarrow>
          if url_Scheme upstream = [] \<or> url_Host upstream = [] then Inl ''upstream must be an absolute HTTP(S) URL''
          else if url_Scheme upstream \<noteq> ''http'' \<and> url_Scheme upstream \<noteq> ''https'' then Inl ''upstream scheme must be http or https''
          else if url_User upstream \<or> url_RawQuery upstream \<noteq> [] \<or> url_Fragment upstream \<noteq> []
          then Inl ''upstream must not contain credentials, query, or fragment''
          else Inr upstream)"

section \<open>HTTP\<close>

type_synonym headers = "(string, string list) gomap"

record gw_request =
  gq_Method :: string
  gq_Host :: string
  gq_Peer :: "string option"
  gq_TLS :: bool
  gq_URL :: URL
  gq_Header :: headers
  gq_Body :: string

datatype w_call = HSet string string | HDel string | HClear | WriteHeader nat | WriteBody string

type_synonym gw_handler = "gw_request \<Rightarrow> w_call list \<times> gw_request"

text \<open>The writer of the server. \<open>ga_Status\<close> is 0 until the header is sent.\<close>

record gw_answer =
  ga_Header :: "(string, string) gomap"
  ga_Interim :: "nat list"
  ga_Status :: nat
  ga_Sent :: "(string, string) gomap"
  ga_Body :: string

definition interim :: "nat \<Rightarrow> bool" where
  "interim code \<longleftrightarrow> 100 \<le> code \<and> code \<le> 199 \<and> code \<noteq> 101"

definition bodyAllowed :: "nat \<Rightarrow> bool" where
  "bodyAllowed status \<longleftrightarrow> \<not> (100 \<le> status \<and> status \<le> 199) \<and> status \<noteq> 204 \<and> status \<noteq> 304"

definition send_header :: "nat \<Rightarrow> gw_answer \<Rightarrow> gw_answer" where
  "send_header code a =
     (if ga_Status a \<noteq> 0 then a
      else if interim code then a\<lparr>ga_Interim := ga_Interim a @ [code]\<rparr>
      else a\<lparr>ga_Status := code, ga_Sent := ga_Header a\<rparr>)"

fun server_call :: "w_call \<Rightarrow> gw_answer \<Rightarrow> gw_answer" where
  "server_call (HSet k v) a = a\<lparr>ga_Header := AList.update k v (ga_Header a)\<rparr>"
| "server_call (HDel k) a = a\<lparr>ga_Header := AList.delete k (ga_Header a)\<rparr>"
| "server_call HClear a = a\<lparr>ga_Header := []\<rparr>"
| "server_call (WriteHeader code) a = send_header code a"
| "server_call (WriteBody content) a =
     (let a = (if ga_Status a = 0 then send_header 200 a else a)
      in if bodyAllowed (ga_Status a) then a\<lparr>ga_Body := ga_Body a @ content\<rparr> else a)"

definition empty_answer :: gw_answer where
  "empty_answer = \<lparr>ga_Header = [], ga_Interim = [], ga_Status = 0, ga_Sent = [], ga_Body = []\<rparr>"

definition served :: "w_call list \<Rightarrow> gw_answer" where
  "served calls =
     (let a = fold server_call calls empty_answer in if ga_Status a = 0 then send_header 200 a else a)"

definition http_Error :: "string \<Rightarrow> nat \<Rightarrow> w_call list" where
  "http_Error message code =
     [HDel ''Content-Length'', HSet ''Content-Type'' ''text/plain; charset=utf-8'', HSet ''X-Content-Type-Options'' ''nosniff'',
      WriteHeader code, WriteBody (message @ [byte 10])]"

section \<open>The writer that records a status\<close>

fun responseStatus_call :: "nat \<Rightarrow> w_call \<Rightarrow> nat \<times> w_call list" where
  "responseStatus_call status (WriteHeader code) = (if status \<noteq> 0 then (status, []) else (code, [WriteHeader code]))"
| "responseStatus_call status (WriteBody content) =
     (if status = 0 then (200, [WriteHeader 200, WriteBody content]) else (status, [WriteBody content]))"
| "responseStatus_call status call = (status, [call])"

fun responseStatus :: "nat \<Rightarrow> w_call list \<Rightarrow> nat \<times> w_call list" where
  "responseStatus status [] = (status, [])"
| "responseStatus status (call # calls) =
     (let (status, out) = responseStatus_call status call; (status, rest) = responseStatus status calls
      in (status, out @ rest))"

section \<open>The proxy\<close>

record waf_config =
  wc_BodyLimit :: int
  wc_InMemoryLimit :: int
  wc_Directives :: string

record gateway_lib =
  gl_Parse :: "string \<Rightarrow> URL option"
  gl_hop :: "headers \<Rightarrow> headers"
  gl_query :: "string \<Rightarrow> string"
  gl_redirect :: "gw_request \<Rightarrow> string \<Rightarrow> w_call list"
  gl_rules :: "error + string list"
  gl_NewWAF :: "waf_config \<Rightarrow> error + (gw_handler \<Rightarrow> gw_handler)"

record upstream_reply =
  up_Interim :: "nat list"
  up_Result :: "error + (nat \<times> (string \<times> string) list \<times> string)"

text \<open>\<open>ProxyRequest.SetURL\<close> and \<open>SetXForwarded\<close>.\<close>

definition singleJoiningSlash :: "string \<Rightarrow> string \<Rightarrow> string" where
  "singleJoiningSlash a b =
     (if HasSuffix a ''/'' \<and> HasPrefix b ''/'' then a @ tl b
      else if \<not> HasSuffix a ''/'' \<and> \<not> HasPrefix b ''/'' then a @ ''/'' @ b
      else a @ b)"

definition SetURL :: "URL \<Rightarrow> gw_request \<Rightarrow> gw_request" where
  "SetURL targ out =
     (let url = gq_URL out
      in out\<lparr>gq_URL := url\<lparr>url_Scheme := url_Scheme targ, url_Host := url_Host targ,
            url_Path := singleJoiningSlash (url_Path targ) (url_Path url),
            url_RawQuery := (if url_RawQuery targ = [] \<or> url_RawQuery url = [] then url_RawQuery targ @ url_RawQuery url
                             else url_RawQuery targ @ ''&'' @ url_RawQuery url)\<rparr>,
          gq_Host := []\<rparr>)"

definition forwarding_headers :: "string list" where
  "forwarding_headers = [''Forwarded'', ''X-Forwarded-For'', ''X-Forwarded-Host'', ''X-Forwarded-Proto'']"

definition SetXForwarded :: "gw_request \<Rightarrow> headers \<Rightarrow> headers" where
  "SetXForwarded inbound h =
     (let h = (case gq_Peer inbound of
                 Some ip \<Rightarrow>
                   (case map_of h ''X-Forwarded-For'' of
                      Some (p # prior) \<Rightarrow> AList.update ''X-Forwarded-For'' [concat (map (\<lambda>v. v @ '', '') (p # prior)) @ ip] h
                    | _ \<Rightarrow> AList.update ''X-Forwarded-For'' [ip] h)
               | None \<Rightarrow> AList.delete ''X-Forwarded-For'' h)
      in AList.update ''X-Forwarded-Proto'' [if gq_TLS inbound then ''https'' else ''http'']
           (AList.update ''X-Forwarded-Host'' [gq_Host inbound] h))"

definition gateway_Rewrite :: "URL \<Rightarrow> gw_request \<Rightarrow> gw_request \<Rightarrow> gw_request" where
  "gateway_Rewrite upstream inbound out =
     (let out = SetURL upstream out in out\<lparr>gq_Header := SetXForwarded inbound (gq_Header out)\<rparr>)"

text \<open>What the reverse proxy sends upstream: it drops the forwarding headers of the client before \<open>Rewrite\<close>.\<close>

definition outbound :: "gateway_lib \<Rightarrow> URL \<Rightarrow> gw_request \<Rightarrow> gw_request" where
  "outbound lib upstream rq =
     gateway_Rewrite upstream rq
       (rq\<lparr>gq_Header := fold AList.delete forwarding_headers (gl_hop lib (gq_Header rq)),
           gq_URL := (gq_URL rq)\<lparr>url_RawQuery := gl_query lib (url_RawQuery (gq_URL rq))\<rparr>\<rparr>)"

definition proxy_ServeHTTP :: "gateway_lib \<Rightarrow> (gw_request \<Rightarrow> upstream_reply) \<Rightarrow> URL \<Rightarrow> gw_handler" where
  "proxy_ServeHTTP lib transport upstream rq =
     (let reply = transport (outbound lib upstream rq)
      in (concat (map (\<lambda>code. [WriteHeader code, HClear]) (up_Interim reply))
          @ (case up_Result reply of
               Inl _ \<Rightarrow> http_Error ''upstream unavailable'' 502
             | Inr (status, hdr, content) \<Rightarrow>
                 map (\<lambda>(k, v). HSet k v) hdr @ [WriteHeader status] @ (if content = [] then [] else [WriteBody content])),
          rq\<lparr>gq_Body := []\<rparr>))"

section \<open>The firewall\<close>

definition waf_directives :: "gw_config \<Rightarrow> string list \<Rightarrow> string" where
  "waf_directives config rulePaths =
     (let nl = [byte 10]; engineMode = (if gc_Mode config = ModeObserve then ''DetectionOnly'' else ''On'');
          body = FormatInt (gc_RequestBodyLimitBytes config); memory = FormatInt (gc_RequestMemoryLimitBytes config)
      in nl @ ''Include @coraza.conf-recommended'' @ nl
         @ ''SecRuleEngine '' @ engineMode @ nl
         @ ''SecRequestBodyAccess On'' @ nl
         @ ''SecRequestBodyLimit '' @ body @ nl
         @ ''SecRequestBodyNoFilesLimit '' @ memory @ nl
         @ ''SecRequestBodyInMemoryLimit '' @ memory @ nl
         @ ''SecRequestBodyLimitAction Reject'' @ nl
         @ ''SecResponseBodyAccess Off'' @ nl
         @ ''Include @crs-setup.conf.example'' @ nl
         @ concat (map (\<lambda>rulePath. ''Include '' @ rulePath @ nl) rulePaths))"

definition newWAF :: "gateway_lib \<Rightarrow> gw_config \<Rightarrow> error + (gw_handler \<Rightarrow> gw_handler)" where
  "newWAF lib config =
     (case gl_rules lib of
        Inl e \<Rightarrow> Inl (''enumerate embedded OWASP CRS rules: '' @ e)
      | Inr rulePaths \<Rightarrow>
          if rulePaths = [] then Inl ''embedded OWASP CRS contains no rule files''
          else case gl_NewWAF lib \<lparr>wc_BodyLimit = gc_RequestBodyLimitBytes config,
                 wc_InMemoryLimit = gc_RequestMemoryLimitBytes config, wc_Directives = waf_directives config rulePaths\<rparr> of
            Inl e \<Rightarrow> Inl (''initialize Coraza/OWASP CRS: '' @ e)
          | Inr wrap \<Rightarrow> Inr wrap)"

text \<open>The name under which \<open>portableRuleFS\<close> opens a rule file.\<close>

definition portable_name :: "string \<Rightarrow> string" where
  "portable_name name = ReplaceChar (CHR 0x5C) (CHR ''/'') name"

definition waf_protected :: "FailurePolicy \<Rightarrow> gw_handler \<Rightarrow> gw_handler \<Rightarrow> gw_handler" where
  "waf_protected policy wafHandler proxy rq =
     (let (calls, rq) = wafHandler rq; (status, out) = responseStatus 0 calls
      in if status \<noteq> 0 then (out, rq)
         else if policy = FailOpen then (let (calls, rq) = proxy rq in (out @ calls, rq))
         else (out @ http_Error ''gateway inspection unavailable'' 503, rq))"

section \<open>The gateway\<close>

definition healthPath :: string where "healthPath = ''/__mysafe/healthz''"

definition gateway_health :: "w_call list" where
  "gateway_health =
     [HSet ''Content-Type'' ''application/json; charset=utf-8'', HSet ''Cache-Control'' ''no-store'', WriteHeader 200,
      WriteBody ([CHR ''{'', CHR 0x22] @ ''status'' @ [CHR 0x22, CHR '':'', CHR 0x22] @ ''ok'' @ [CHR 0x22, CHR ''}'', byte 10])]"

text \<open>\<open>http.ServeMux\<close> with its two routes.\<close>

definition cleanPath :: "string \<Rightarrow> string" where
  "cleanPath p =
     (if p = [] then ''/''
      else let p = (if hd p = CHR ''/'' then p else CHR ''/'' # p); np = Clean p
           in if last p = CHR ''/'' \<and> np \<noteq> ''/'' then np @ ''/'' else np)"

definition gateway_mux :: "gateway_lib \<Rightarrow> gw_handler \<Rightarrow> gw_handler" where
  "gateway_mux lib protected rq =
     (let path = url_Path (gq_URL rq)
      in if path = ''*'' then ([HSet ''Connection'' ''close'', WriteHeader 400], rq)
         else if gq_Method rq = ''CONNECT''
         then (if HasPrefix path ''/'' then protected rq else (http_Error ''404 page not found'' 404, rq))
         else if cleanPath path \<noteq> path then (gl_redirect lib rq (cleanPath path), rq)
         else if (gq_Method rq = ''GET'' \<or> gq_Method rq = ''HEAD'') \<and> path = healthPath then (gateway_health, rq)
         else protected rq)"

text \<open>\<open>requestLog\<close>: the calls that reach the server, and the status in the log.\<close>

definition requestLog :: "gw_handler \<Rightarrow> gw_request \<Rightarrow> w_call list \<times> nat" where
  "requestLog next rq =
     (let (status, out) = responseStatus 0 (fst (next rq)) in (out, if status = 0 then 200 else status))"

record Gateway =
  gw_mode :: Mode
  gw_handle :: "gw_request \<Rightarrow> w_call list \<times> nat"

definition config_defaults :: "gw_config \<Rightarrow> gw_config" where
  "config_defaults config = config\<lparr>
     gc_FailurePolicy := (if gc_FailurePolicy config = [] then FailOpen else gc_FailurePolicy config),
     gc_RequestBodyLimitBytes := (if gc_RequestBodyLimitBytes config = 0 then 1048576 else gc_RequestBodyLimitBytes config),
     gc_RequestMemoryLimitBytes := (if gc_RequestMemoryLimitBytes config = 0 then 262144 else gc_RequestMemoryLimitBytes config)\<rparr>"

definition gateway_New :: "gateway_lib \<Rightarrow> (gw_request \<Rightarrow> upstream_reply) \<Rightarrow> gw_config \<Rightarrow> error + Gateway" where
  "gateway_New lib transport given =
     (let config = config_defaults given; body = gc_RequestBodyLimitBytes config; memory = gc_RequestMemoryLimitBytes config
      in if \<not> Mode_Valid (gc_Mode config) then Inl (''invalid gateway mode '' @ Quote (gc_Mode config))
         else if \<not> FailurePolicy_Valid (gc_FailurePolicy config)
         then Inl (''invalid gateway failure policy '' @ Quote (gc_FailurePolicy config))
         else case parseUpstream (gl_Parse lib) (gc_Upstream config) of
           Inl e \<Rightarrow> Inl e
         | Inr upstream \<Rightarrow>
             if body < 1024 \<or> 67108864 < body then Inl ''request body limit must be between 1 KiB and 64 MiB''
             else if memory < 1024 \<or> body < memory
             then Inl ''request memory limit must be between 1 KiB and the request body limit''
             else let proxy = proxy_ServeHTTP lib transport upstream;
                      gateway = (\<lambda>protected. \<lparr>gw_mode = gc_Mode config, gw_handle = requestLog (gateway_mux lib protected)\<rparr>)
                  in if gc_Mode config = ModeBypass then Inr (gateway proxy)
                     else case newWAF lib config of
                       Inl e \<Rightarrow> Inl e
                     | Inr wrap \<Rightarrow> Inr (gateway (waf_protected (gc_FailurePolicy config) (wrap proxy) proxy)))"

definition gateway_ServeHTTP :: "Gateway \<Rightarrow> gw_request \<Rightarrow> w_call list" where
  "gateway_ServeHTTP gateway rq = fst (gw_handle gateway rq)"

section \<open>Rule matches\<close>

record matched_rule =
  mr_ID :: int
  mr_Severity :: string
  mr_Disruptive :: bool
  mr_TransactionID :: string

definition gatewaySeverity :: "string \<Rightarrow> Severity" where
  "gatewaySeverity ruleSeverity =
     (let s = ToLower ruleSeverity
      in if s \<in> {''emergency'', ''alert'', ''critical''} then SeverityCritical
         else if s = ''error'' then SeverityHigh
         else if s \<in> {''warning'', ''warn''} then SeverityMedium
         else if s = ''notice'' then SeverityLow
         else if s \<in> {''info'', ''debug''} then SeverityInfo
         else SeverityMedium)"

definition line_breaks :: string where "line_breaks = [byte 0, byte 13, byte 10]"

definition rule_event :: "gw_config \<Rightarrow> matched_rule \<Rightarrow> string \<Rightarrow> time \<Rightarrow> Event" where
  "rule_event config matched eventID now =
     (let ruleSeverity = (if 64 < length (mr_Severity matched) \<or> ContainsAny (mr_Severity matched) line_breaks
                          then ''unknown'' else mr_Severity matched);
          transactionID = mr_TransactionID matched;
          evidence = [(''rule_id'', AInt (mr_ID matched)), (''rule_severity'', AStr ruleSeverity),
            (''disruptive'', ABool (mr_Disruptive matched)), (''mode'', AStr (gc_Mode config)), (''request_data_included'', ABool False)]
            @ (if transactionID \<noteq> [] \<and> length transactionID \<le> 128 \<and> \<not> ContainsAny transactionID line_breaks
               then [(''transaction_id'', AStr transactionID)] else [])
      in \<lparr>event_ID = eventID, event_AgentID = [], event_Kind = ''gateway.waf.rule_match'',
          event_Severity = gatewaySeverity ruleSeverity, event_Summary = ''OWASP CRS rule matched an inspected request'',
          event_OccurredAt = now, event_ReceivedAt = zero_time, event_Evidence = Some evidence\<rparr>)"

text \<open>A call of a method of a nil outbox reads a field of it and panics.\<close>

datatype emit_outcome = Returned | Panicked

definition emitRuleMatch ::
  "feed_lib \<Rightarrow> Sender \<Rightarrow> gw_config \<Rightarrow> matched_rule \<Rightarrow> time \<Rightarrow> time \<Rightarrow> time \<Rightarrow> feed_net \<Rightarrow> world \<Rightarrow> emit_outcome \<times> feed_net \<times> world" where
  "emitRuleMatch lib send config matched now validated later net w =
     (case gc_EventSink config of
        NilSink \<Rightarrow> (Returned, net, w)
      | OutboxSink sink \<Rightarrow>
          (case RandomIO ''evt_gateway_'' 18 w of
             (Inl _, w) \<Rightarrow> (Returned, net, w)
           | (Inr eventID, w) \<Rightarrow>
               (case sink of
                  None \<Rightarrow> (Panicked, net, w)
                | Some outbox \<Rightarrow>
                    (Returned, snd (Emit lib send outbox validated later (rule_event config matched eventID now) net w)))))"

section \<open>The command\<close>

record gateway_flags =
  gf_Mode :: string
  gf_FailurePolicy :: string
  gf_Upstream :: string
  gf_BodyLimit :: int
  gf_MemoryLimit :: int
  gf_TLSCert :: string
  gf_TLSKey :: string
  gf_EventSocket :: string
  gf_EventStateDir :: string

text \<open>\<open>run\<close> up to the configuration of the gateway. The variable \<open>eventOutbox\<close> has the type \<open>*Outbox\<close>, so the sink
  is never the nil interface.\<close>

definition gateway_run_config :: "gateway_flags \<Rightarrow> (error, gw_config) io" where
  "gateway_run_config flags =
     (if TrimSpace (gf_Upstream flags) = [] then io_fail ''-upstream is required''
      else if (gf_TLSCert flags = []) \<noteq> (gf_TLSKey flags = []) then io_fail ''-tls-cert and -tls-key must be configured together''
      else io_bind (if TrimSpace (gf_EventSocket flags) = [] then io_return None
                    else io_bind (outbox_New (gf_EventStateDir flags) (gf_EventSocket flags) 0) (\<lambda>outbox. io_return (Some outbox)))
        (\<lambda>eventOutbox. io_return \<lparr>gc_Mode = ToLower (TrimSpace (gf_Mode flags)),
           gc_FailurePolicy = ToLower (TrimSpace (gf_FailurePolicy flags)), gc_Upstream = gf_Upstream flags,
           gc_RequestBodyLimitBytes = gf_BodyLimit flags, gc_RequestMemoryLimitBytes = gf_MemoryLimit flags,
           gc_EventSink = OutboxSink eventOutbox\<rparr>))"

definition gateway_envOr :: "(string \<Rightarrow> string) \<Rightarrow> string \<Rightarrow> string \<Rightarrow> string" where
  "gateway_envOr env name fallback = (if TrimSpace (env name) \<noteq> [] then TrimSpace (env name) else fallback)"

definition defaultEventSocket :: "string \<Rightarrow> string" where
  "defaultEventSocket os = (if os = ''linux'' then ''/run/my-safe/gateway-events.sock'' else [])"

definition defaultEventStateDir :: "string \<Rightarrow> string" where
  "defaultEventStateDir os = (if os = ''linux'' then ''/var/lib/my-safe-gateway'' else ''.local/gateway'')"

text \<open>The flags that no argument sets.\<close>

definition gateway_default_flags :: "(string \<Rightarrow> string) \<Rightarrow> string \<Rightarrow> gateway_flags" where
  "gateway_default_flags env os = \<lparr>gf_Mode = gateway_envOr env ''MYSAFE_GATEWAY_MODE'' ''observe'',
     gf_FailurePolicy = gateway_envOr env ''MYSAFE_GATEWAY_FAILURE_POLICY'' ''fail_open'',
     gf_Upstream = env ''MYSAFE_GATEWAY_UPSTREAM'', gf_BodyLimit = 1048576, gf_MemoryLimit = 262144,
     gf_TLSCert = env ''MYSAFE_GATEWAY_TLS_CERT'', gf_TLSKey = env ''MYSAFE_GATEWAY_TLS_KEY'',
     gf_EventSocket = gateway_envOr env ''MYSAFE_GATEWAY_EVENT_SOCKET'' (defaultEventSocket os),
     gf_EventStateDir = gateway_envOr env ''MYSAFE_GATEWAY_STATE_DIR'' (defaultEventStateDir os)\<rparr>"

end
