(* ===== verification/Outbox_Props.thy ===== *)
theory Outbox_Props
  imports Outbox Queue_Props
begin

text \<open>
  What the outbox guarantees: an event that \<open>Emit\<close> has taken is delivered or in a file, whatever fails; a flush on a working host
  delivers everything in the order of the names; one damaged file stops the outbox. And the path to the Agent: what
  the sender writes is what the listener hands to the Agent's spool.
\<close>

section \<open>Nothing is lost\<close>

definition stored :: "feed_lib \<Rightarrow> Outbox \<Rightarrow> world \<Rightarrow> Event \<Rightarrow> bool" where
  "stored lib outbox w event \<longleftrightarrow> (\<exists>name mode encoded. fl_marshal lib event = Inr encoded
     \<and> node_at w (JoinPath [ob_directory outbox, name]) = Some (NFile mode encoded))"

definition held :: "feed_lib \<Rightarrow> Outbox \<Rightarrow> feed_net \<Rightarrow> world \<Rightarrow> Event \<Rightarrow> bool" where
  "held lib outbox net w event \<longleftrightarrow> event \<in> set (net_delivered net) \<or> stored lib outbox w event"

lemma held_files: "w_files w' = w_files w \<Longrightarrow> held lib outbox net w' event = held lib outbox net w event"
  by (simp add: held_def stored_def)

lemma transmit_delivered:
  "transmit send path event net = (r, net') \<Longrightarrow> net_delivered net' = net_delivered net @ (if r = None then [event] else [])"
  by (auto simp: transmit_def split: option.splits)

lemma held_sent: "transmit send path event net = (r, net') \<Longrightarrow> held lib outbox net w e \<Longrightarrow> held lib outbox net' w e"
  by (auto simp: held_def dest!: transmit_delivered)

text \<open>A file goes only after its event has been handed over.\<close>

lemma held_removed:
  assumes "feed_codec_ok lib" and "held lib outbox net w e" and "Remove p w = (r, w')"
    and "node_at w p = Some (NFile mode encoded)" and "feed_Decode lib encoded now = Inr event" and "event \<in> set (net_delivered net)"
  shows "held lib outbox net w' e"
proof (cases "e \<in> set (net_delivered net)")
  case False
  then obtain name k c where s: "fl_marshal lib e = Inr c" "node_at w (JoinPath [ob_directory outbox, name]) = Some (NFile k c)"
    using assms(2) by (auto simp: held_def stored_def)
  show ?thesis
  proof (cases "JoinPath [ob_directory outbox, name] = p")
    case True
    then have "c = encoded" using s(2) assms(4) by simp
    then have "e = event" using assms(1,5) s(1) unfolding feed_codec_ok_def feed_Decode_Inr by fastforce
    then show ?thesis using False assms(6) by simp
  next
    case ne: False
    then show ?thesis using touchesD [OF touches_Remove ne assms(3)] s by (auto simp: held_def stored_def)
  qed
qed (simp add: held_def)

lemma flush_files_held:
  assumes "feed_codec_ok lib"
  shows "flush_files lib send outbox ctx clock names flushed net w = (r, net', w') \<Longrightarrow> held lib outbox net w e \<Longrightarrow> held lib outbox net' w' e"
proof (induction names arbitrary: flushed net w)
  case (Cons name names)
  let ?p = "JoinPath [ob_directory outbox, name]"
  obtain x a where x: "outbox_read lib outbox name (clock flushed) w = (x, a)" by fastforce
  have a: "held lib outbox net a e" using held_files [OF outbox_read_files [OF x]] Cons.prems(2) by simp
  show ?case
  proof (cases x)
    case (Inl d)
    then show ?thesis using Cons.prems x a by (auto split: option.splits)
  next
    case (Inr event)
    obtain mode encoded where n: "node_at a ?p = Some (NFile mode encoded)" "feed_Decode lib encoded (clock flushed) = Inr event"
      using outbox_read_Inr [OF x [unfolded Inr]] outbox_read_files [OF x] by metis
    obtain t net1 where t: "transmit send (ob_socketPath outbox) event net = (t, net1)" by fastforce
    have h1: "held lib outbox net1 a e" using held_sent [OF t a] .
    show ?thesis
    proof (cases t)
      case (Some d)
      then show ?thesis using Cons.prems x Inr t h1 by (auto split: option.splits)
    next
      case None
      obtain y b where y: "Remove ?p a = (y, b)" by fastforce
      have "event \<in> set (net_delivered net1)" using transmit_delivered [OF t] None by simp
      then have b: "held lib outbox net1 b e" using held_removed [OF assms h1 y n] by blast
      then show ?thesis using Cons.prems x Inr t None y b Cons.IH [OF _ b] by (cases y) (auto split: option.splits)
    qed
  qed
qed simp

lemma Flush_held:
  assumes "feed_codec_ok lib" and "outbox_Flush lib send outbox ctx clock limit net w = (r, net', w')" and "held lib outbox net w e"
  shows "held lib outbox net' w' e"
proof -
  obtain x a where x: "outboxFiles (ob_directory outbox) w = (x, a)" by fastforce
  have "held lib outbox net a e" using held_files [OF outboxFiles_files [OF x]] assms(3) by simp
  then show ?thesis
    using assms(2,3) x flush_files_held [OF assms(1)] by (cases x) (auto simp: outbox_Flush_def split: if_splits)
qed

lemma persist_held: "outbox_persist lib outbox now event w = (r, w') \<Longrightarrow> held lib outbox net w e \<Longrightarrow> held lib outbox net w' e"
  unfolding held_def stored_def using outbox_persist_keeps by metis

lemma Emit_held:
  assumes "Emit lib send outbox now later event net w = (r, net', w')"
  shows "held lib outbox net w e \<Longrightarrow> held lib outbox net' w' e" and "r = None \<Longrightarrow> held lib outbox net' w' event"
proof -
  obtain t net1 where t: "transmit send (ob_socketPath outbox) event net = (t, net1)" by fastforce
  obtain x a where x: "outbox_persist lib outbox later event w = (x, a)" by fastforce
  have keep: "held lib outbox net1 w e" if h: "held lib outbox net w e" using held_sent [OF t h] .
  have put: "held lib outbox net1 a event" if "x = Inr u" for u
    using outbox_persist_Inr x that by (metis held_def stored_def)
  have sent: "held lib outbox net1 w event" if "t = None" using transmit_delivered [OF t] that by (simp add: held_def)
  show "held lib outbox net' w' e" if h: "held lib outbox net w e"
    using assms t x h keep [OF h] persist_held [OF x keep [OF h]]
    by (cases "feed_Validate lib event now"; cases t; cases x) (auto simp: Emit_def)
  show "held lib outbox net' w' event" if "r = None"
    using assms t x that put sent
    by (cases "feed_Validate lib event now"; cases t; cases x) (auto simp: Emit_def)
qed

text \<open>The life of an outbox: events are emitted and flushed in any order, and between two operations the process may end and start
  again, which changes what the next system calls meet and not the files. \<open>taken\<close> are the events for which \<open>Emit\<close> returned nil.\<close>

inductive outbox_run :: "feed_lib \<Rightarrow> Sender \<Rightarrow> Outbox \<Rightarrow> Event list \<Rightarrow> feed_net \<Rightarrow> world \<Rightarrow> bool"
  for lib send outbox where
  Start: "outbox_run lib send outbox [] net w"
| Emitted: "outbox_run lib send outbox taken net w \<Longrightarrow> Emit lib send outbox now later event net w = (None, net', w') \<Longrightarrow>
     outbox_run lib send outbox (event # taken) net' w'"
| Refused: "outbox_run lib send outbox taken net w \<Longrightarrow> Emit lib send outbox now later event net w = (Some e, net', w') \<Longrightarrow>
     outbox_run lib send outbox taken net' w'"
| Flushed: "outbox_run lib send outbox taken net w \<Longrightarrow> outbox_Flush lib send outbox ctx clock limit net w = (r, net', w') \<Longrightarrow>
     outbox_run lib send outbox taken net' w'"
| Restarted: "outbox_run lib send outbox taken net w \<Longrightarrow> w_files w' = w_files w \<Longrightarrow> outbox_run lib send outbox taken net w'"


section \<open>A working host delivers everything\<close>

definition outbox_ok :: "Outbox \<Rightarrow> bool" where
  "outbox_ok outbox \<longleftrightarrow> (\<exists>stateDir. ob_directory outbox = JoinPath [stateDir, ''outbox''])"

lemma outbox_New_ok: "outbox_New stateDir path limit w = (Inr outbox, w') \<Longrightarrow> outbox_ok outbox"
  by (auto simp: outbox_New_def outbox_ok_def Let_def io_outcomes split: if_splits)

lemma outbox_dir_name: "name_elem ''outbox''"
  by (simp add: name_elem_def)

lemma outbox_path: "outbox_ok outbox \<Longrightarrow> name_elem n \<Longrightarrow> JoinPath [ob_directory outbox, n] = ob_directory outbox @ slash # n"
  unfolding outbox_ok_def using JoinPath_in_subdir [OF outbox_dir_name] by auto

lemma outbox_dir_not_root: "outbox_ok outbox \<Longrightarrow> ob_directory outbox \<noteq> ''/''"
proof
  assume "outbox_ok outbox" and "ob_directory outbox = ''/''"
  then obtain s where "JoinPath [s, ''outbox''] = ''/''" by (auto simp: outbox_ok_def)
  moreover obtain a where "JoinPath [s, ''outbox''] = a @ ''outbox''" using JoinPath_name_suffix [OF outbox_dir_name] by blast
  ultimately show False by (auto simp: append_eq_Cons_conv)
qed

lemma outboxFiles_Inr:
  assumes "outboxFiles (ob_directory outbox) w = (Inr names, w')" and "outbox_ok outbox" and "w_ok w"
  shows "distinct names" and "\<And>name. name \<in> set names \<Longrightarrow> name_elem name"
proof -
  let ?d = "ob_directory outbox"
  obtain items where r: "ReadDir ?d w = (Inr items, w')"
      and names: "names = sort (map fst (filter (\<lambda>(name, x). is_regular x \<and> HasSuffix name outbox_fileSuffix) items))"
    using assms(1) by (auto simp: outboxFiles_def io_outcomes)
  show "distinct names"
    using children_distinct [OF outbox_dir_not_root [OF assms(2)], of "w_files w"] assms(3) ReadDir_Inr(1) [OF r]
    by (simp add: names w_ok_def distinct_map_filter)
  show "name_elem name" if listed: "name \<in> set names" for name
  proof -
    obtain x where "(name, x) \<in> set items" "HasSuffix name outbox_fileSuffix" using listed by (auto simp: names)
    then obtain p where "dir_name ?d p = Some name" using ReadDir_children [OF r] by blast
    then have "slash \<notin> set name" using dir_name_iff [OF outbox_dir_not_root [OF assms(2)]] by blast
    then show ?thesis using \<open>HasSuffix name outbox_fileSuffix\<close>
      by (auto simp: name_elem_def HasSuffix_def outbox_fileSuffix_def suffix_def append_eq_Cons_conv)
  qed
qed

lemma outbox_name_elem: "name_elem (outbox_name now random)"
  using twenty_digits_no_slash EncodeToString_no_slash
  by (auto simp: outbox_name_def name_elem_def outbox_fileSuffix_def append_eq_Cons_conv)

lemma outbox_dir_clean: "outbox_ok outbox \<Longrightarrow> Clean (ob_directory outbox @ [slash]) = ob_directory outbox"
proof -
  assume "outbox_ok outbox"
  then obtain s where s: "ob_directory outbox = JoinPath [s, ''outbox'']" by (auto simp: outbox_ok_def)
  moreover obtain a where "JoinPath [s, ''outbox''] = a @ ''outbox''" using JoinPath_name_suffix [OF outbox_dir_name] by blast
  ultimately have "ob_directory outbox \<noteq> []" by simp
  then show ?thesis using JoinPath_clean [of s "''outbox''"] s Clean_trailing_slash by simp
qed

text \<open>With the Agent away, an event is stored as long as nothing fails and the outbox has room.\<close>

lemma outbox_persist_succeeds:
  assumes "outbox_ok outbox" and "fl_marshal lib event = Inr encoded" and "encoded \<noteq> []" and "length encoded \<le> MaxDatagramBytes"
    and "w_faults w = []" and "outboxFiles (ob_directory outbox) w = (Inr names, w)" and "int (length names) < ob_maxEvents outbox"
    and "dir_at w (ob_directory outbox)" and "\<And>random. node_at w (ob_directory outbox @ slash # outbox_name now random) = None"
  shows "\<exists>w'. outbox_persist lib outbox now event w = (Inr (), w')"
proof -
  obtain random v where v: "rand_Read 8 w = (Inr random, v)" "w_files v = w_files w" "w_faults v = []"
    using rand_Read_no_fault [OF assms(5)] by blast
  let ?p = "ob_directory outbox @ slash # outbox_name now random"
  have p: "JoinPath [ob_directory outbox, outbox_name now random] = ?p" by (rule outbox_path [OF assms(1) outbox_name_elem])
  have "slash \<notin> set (outbox_name now random)" using outbox_name_elem by (simp add: name_elem_def)
  then have "dir_at v (DirPath ?p)"
    using assms(8) dir_at_files [OF v(2)] outbox_dir_clean [OF assms(1)] by (simp add: DirPath_sub)
  then obtain w' where "create_exclusive ?p encoded 384 v = (Inr (), w')"
    using create_exclusive_no_fault [OF v(3)] assms(9) v(2) by fastforce
  then show ?thesis using assms(2-4,6,7) v(1) p by (simp add: outbox_persist_def io_outcomes)
qed

lemma Emit_stores:
  assumes "outbox_persist lib outbox later event w = (Inr (), w')" and "feed_Validate lib event now = None"
    and "send (net_attempts net) (ob_socketPath outbox) event = Some e"
  shows "Emit lib send outbox now later event net w = (None, net\<lparr>net_attempts := Suc (net_attempts net)\<rparr>, w')"
  using assms by (simp add: Emit_def transmit_def)

text \<open>The file \<open>name\<close> holds the event, which was acceptable at the time \<open>since\<close>.\<close>

definition waiting :: "feed_lib \<Rightarrow> Outbox \<Rightarrow> time \<Rightarrow> world \<Rightarrow> string \<Rightarrow> Event \<Rightarrow> bool" where
  "waiting lib outbox since w name event \<longleftrightarrow> feed_Validate lib event since = None
     \<and> (\<exists>mode encoded. fl_marshal lib event = Inr encoded \<and> length encoded \<le> outbox_maxFileBytes
          \<and> node_at w (JoinPath [ob_directory outbox, name]) = Some (NFile mode encoded))"

lemma outbox_read_waiting:
  assumes "feed_codec_ok lib" and "waiting lib outbox since w name event" and "since \<le> now" and "w_faults w = []"
  shows "outbox_read lib outbox name now w = (Inr event, w)"
proof -
  obtain mode encoded where e: "fl_marshal lib event = Inr encoded" "length encoded \<le> MaxDatagramBytes"
      "node_at w (JoinPath [ob_directory outbox, name]) = Some (NFile mode encoded)" "feed_Validate lib event since = None"
    using assms(2) by (auto simp: waiting_def outbox_maxFileBytes_def)
  have "encoded \<noteq> []" using assms(1) e(1) by (auto simp: feed_codec_ok_def)
  then show ?thesis
    using e assms(4) encoded_event_decodes [OF assms(1) e(1,2,4) assms(3)] follow_file [OF e(3)]
    by (simp add: outbox_read_def Let_def io_bind_def io_wrap_def Lstat_def ReadFile_def sys_no_fault outbox_maxFileBytes_def io_return_def)
qed

lemma flush_files_drains:
  assumes "feed_codec_ok lib" and "outbox_ok outbox" and "\<And>n. ctx n = None" and "\<And>n. since \<le> clock n"
    and "\<And>n event. send n (ob_socketPath outbox) event = None"
  shows "list_all2 (waiting lib outbox since w) names events \<Longrightarrow> distinct names \<Longrightarrow> \<forall>n \<in> set names. name_elem n \<Longrightarrow> w_faults w = [] \<Longrightarrow>
    \<exists>net' w'. flush_files lib send outbox ctx clock names flushed net w = ((flushed + length names, None), net', w')
      \<and> net_delivered net' = net_delivered net @ events
      \<and> (\<forall>p. node_at w' p = (if p \<in> (\<lambda>n. JoinPath [ob_directory outbox, n]) ` set names then None else node_at w p))"
proof (induction names arbitrary: events flushed net w)
  case (Cons name names)
  let ?path = "\<lambda>n. JoinPath [ob_directory outbox, n]"
  obtain event rest where events: "events = event # rest" "waiting lib outbox since w name event"
      "list_all2 (waiting lib outbox since w) names rest"
    using Cons.prems(1) by (auto simp: list_all2_Cons1)
  define v where "v = w\<lparr>w_files := AList.delete (?path name) (w_files w)\<rparr>"
  define net1 where "net1 = net\<lparr>net_attempts := Suc (net_attempts net), net_delivered := net_delivered net @ [event]\<rparr>"
  have "transmit send (ob_socketPath outbox) event net = (None, net1)" using assms(5) by (simp add: transmit_def net1_def)
  moreover have "Remove (?path name) w = (Inr (), v)"
    using events(2) Cons.prems(4) by (auto simp: Remove_def sys_no_fault v_def waiting_def)
  moreover have "outbox_read lib outbox name (clock flushed) w = (Inr event, w)"
    by (rule outbox_read_waiting [OF assms(1) events(2) assms(4) Cons.prems(4)])
  ultimately have step: "flush_files lib send outbox ctx clock (name # names) flushed net w
      = flush_files lib send outbox ctx clock names (Suc flushed) net1 v"
    using assms(3) by simp
  have other: "?path n \<noteq> ?path name" if "n \<in> set names" for n
    using Cons.prems(2,3) that outbox_path [OF assms(2)] by auto
  have at: "node_at v p = (if p = ?path name then None else node_at w p)" for p by (simp add: v_def delete_conv)
  have "list_all2 (waiting lib outbox since v) names rest"
    using events(3) by (rule list.rel_mono_strong) (auto simp: waiting_def at other)
  then obtain net' w' where "flush_files lib send outbox ctx clock names (Suc flushed) net1 v = ((Suc flushed + length names, None), net', w')"
      "net_delivered net' = net_delivered net1 @ rest"
      "\<And>p. node_at w' p = (if p \<in> ?path ` set names then None else node_at v p)"
    using Cons.IH [of v rest "Suc flushed" net1] Cons.prems(2,3,4) by (auto simp: v_def)
  then show ?case unfolding step by (intro exI [of _ net'] exI [of _ w']) (simp add: events(1) net1_def at)
qed simp


text \<open>One empty file stops the outbox. A file of size zero that comes first, such as a process that ended while storing an event
  leaves, makes the next turn of \<open>Run\<close> return an error and hand over nothing, although the socket would take every event;
  the gateway does not start \<open>Run\<close> again.\<close>

theorem empty_file_stops_outbox:
  assumes "w_faults w = []" and "outboxFiles (ob_directory outbox) w = (Inr (name # names), w)"
    and "node_at w (JoinPath [ob_directory outbox, name]) = Some (NFile mode [])"
    and "turn_ctx turn 0 = None" and "\<not> turn_ended turn"
  shows "outbox_Run lib send outbox (turn # turns) net w = (Some (''unsafe Gateway outbox file '' @ Quote name), net, w)"
proof -
  have "outbox_read lib outbox name (turn_clock turn 0) w = (Inl (''unsafe Gateway outbox file '' @ Quote name), w)"
    using assms(1,3) by (simp add: outbox_read_def Let_def io_bind_def io_wrap_def Lstat_def sys_no_fault io_fail_def)
  then show ?thesis using assms(2,4,5) by (simp add: outbox_Flush_def)
qed

section \<open>From the gateway to the Agent's spool\<close>

lemma feed_Send_Inr:
  assumes "feed_Send lib dial put now path event w = (Inr u, w')"
  obtains encoded absolute where "feed_Validate lib event now = None" "fl_marshal lib event = Inr encoded"
    "length encoded \<le> MaxDatagramBytes" "dial absolute = None" "put absolute encoded = Inr (length encoded)"
  using assms by (auto simp: feed_Send_def io_outcomes split: option.splits sum.splits if_splits)

lemma entry_kept:
  "queue_ok q \<Longrightarrow> Enqueue qlib q now e w = (r, w') \<Longrightarrow> entry qlib q w name = Some event \<Longrightarrow> entry qlib q w' name = Some event"
  using Enqueue_keeps [of q w name _ qlib now e] by (auto simp: entry_def bind_eq_Some_conv)

lemma handle_all_keeps:
  assumes "queue_ok q"
  shows "handle_all (Enqueue qlib q) events w = (r, w') \<Longrightarrow> entry qlib q w name = Some event \<Longrightarrow> entry qlib q w' name = Some event"
proof (induction events arbitrary: w)
  case (Cons a events)
  obtain now e where a: "a = (now, e)" by fastforce
  obtain x v where x: "Enqueue qlib q now e w = (x, v)" by fastforce
  show ?case using Cons entry_kept [OF assms x] a x by (cases x) (auto simp: io_bind_def io_wrap_def)
qed simp

lemma handle_all_stores:
  assumes "queue_lib_ok qlib" and "queue_ok q" and "ql_marshal qlib event = Inr plain" and "ql_unmarshal qlib plain = Inr event"
    and "ql_NonceSize qlib + length plain + 16 \<le> maxQueueFileSize"
  shows "handle_all (Enqueue qlib q) events w = (Inr u, w') \<Longrightarrow> (now, event) \<in> set events \<Longrightarrow> \<exists>name. entry qlib q w' name = Some event"
proof (induction events arbitrary: w)
  case (Cons a events)
  obtain later e where a: "a = (later, e)" by fastforce
  obtain x v where x: "Enqueue qlib q later e w = (Inr x, v)" "handle_all (Enqueue qlib q) events v = (Inr u, w')"
    using Cons.prems(1) a by (auto simp: io_outcomes)
  show ?case
  proof (cases "a = (now, event)")
    case True
    then obtain name where "entry qlib q v name = Some event"
      using Enqueue_adds_entry [OF assms(1,2) x(1)] assms(3-5) a by fastforce
    then show ?thesis using handle_all_keeps [OF assms(2) x(2)] by blast
  qed (use Cons x(2) in auto)
qed simp


section \<open>Witnesses\<close>

definition feed_event :: Event where
  "feed_event = \<lparr>event_ID = ''e'', event_AgentID = [], event_Kind = ''gateway.waf'',
     event_Severity = SeverityHigh, event_Summary = ''s'', event_OccurredAt = 1000, event_ReceivedAt = zero_time, event_Evidence = None\<rparr>"

definition sample_feed_lib :: feed_lib where
  "sample_feed_lib = \<lparr>fl_marshal = (\<lambda>e. if e = feed_event then Inr ''g'' else Inl ''unsupported''),
     fl_decode = (\<lambda>_. Inr (feed_event, [])), fl_evidence = (\<lambda>_. Inr ''{}'')\<rparr>"

definition sample_outbox :: Outbox where
  "sample_outbox = \<lparr>ob_directory = ''/g/outbox'', ob_socketPath = ''/run/a.sock'', ob_maxEvents = 10\<rparr>"

definition outbox_world :: "(string \<times> node) list \<Rightarrow> fault list \<Rightarrow> world" where
  "outbox_world files faults = \<lparr>w_files = (''/g/outbox'', NDir 448) # files, w_faults = faults, w_rand = [], w_cwd = ''/''\<rparr>"

lemma sample_feed_lib_ok: "feed_codec_ok sample_feed_lib"
  by (auto simp: feed_codec_ok_def sample_feed_lib_def)

lemma feed_event_valid: "feed_Validate sample_feed_lib feed_event 1000 = None"
proof -
  have "TrimSpace ''e'' \<noteq> []" "TrimSpace ''gateway.waf'' \<noteq> []" "TrimSpace ''s'' \<noteq> []" by code_simp+
  then show ?thesis
    by (simp add: feed_Validate_None ValidateEvent_None feed_event_def sample_feed_lib_def HasPrefix_def Severity_Valid_def
        SeverityHigh_def zero_time_def maxEvidenceBytes_def minute_def second_def)
qed

lemma sample_outbox_ok: "outbox_ok sample_outbox"
  unfolding outbox_ok_def by (rule exI [of _ "''/g''"]) code_simp

lemma sample_outbox_dir: "dir_at (outbox_world files []) ''/g/outbox''"
  by (simp add: outbox_world_def dir_at_def follow_def eval_nat_numeral)

lemma sample_outboxFiles:
  "outboxFiles ''/g/outbox'' (outbox_world [] []) = (Inr [], outbox_world [] [])"
  "outboxFiles ''/g/outbox'' (outbox_world [(''/g/outbox/1.gateway-event'', NFile 384 c)] [])
     = (Inr [''1.gateway-event''], outbox_world [(''/g/outbox/1.gateway-event'', NFile 384 c)] [])"
  using sample_outbox_dir
  by (simp_all add: outboxFiles_def io_bind_def io_wrap_def io_return_def ReadDir_def sys_no_fault outbox_world_def map_filter_simps
      dir_name.simps HasSuffix_def outbox_fileSuffix_def suffix_def)

lemma sample_Emit:
  "\<exists>net' w'. Emit sample_feed_lib (\<lambda>_ _ _. Some ''refused'') sample_outbox 1000 1000 feed_event
     \<lparr>net_attempts = 0, net_delivered = []\<rparr> (outbox_world [] []) = (None, net', w')"
proof -
  have "\<exists>w'. outbox_persist sample_feed_lib sample_outbox 1000 feed_event (outbox_world [] []) = (Inr (), w')"
    by (rule outbox_persist_succeeds [where encoded = "''g''" and names = "[]", OF sample_outbox_ok])
      (use sample_outboxFiles(1) sample_outbox_dir in
        \<open>simp_all add: sample_feed_lib_def MaxDatagramBytes_def sample_outbox_def, simp_all add: outbox_world_def\<close>)
  then show ?thesis using Emit_stores [OF _ feed_event_valid] by fastforce
qed



theorem empty_file_stops_outbox_witness:
  "outbox_Run sample_feed_lib (\<lambda>_ _ _. None) sample_outbox
     [\<lparr>turn_ctx = (\<lambda>_. None), turn_clock = (\<lambda>_. 1000), turn_ended = False\<rparr>] \<lparr>net_attempts = 0, net_delivered = []\<rparr>
     (outbox_world [(''/g/outbox/1.gateway-event'', NFile 384 [])] [])
   = (Some (''unsafe Gateway outbox file '' @ Quote ''1.gateway-event''), \<lparr>net_attempts = 0, net_delivered = []\<rparr>,
      outbox_world [(''/g/outbox/1.gateway-event'', NFile 384 [])] [])"
proof (rule empty_file_stops_outbox)
  have p: "JoinPath [ob_directory sample_outbox, ''1.gateway-event''] = ''/g/outbox/1.gateway-event''" by code_simp
  show "node_at (outbox_world [(''/g/outbox/1.gateway-event'', NFile 384 [])] []) (JoinPath [ob_directory sample_outbox, ''1.gateway-event''])
      = Some (NFile 384 [])" unfolding p by (simp add: outbox_world_def)
  show "outboxFiles (ob_directory sample_outbox) (outbox_world [(''/g/outbox/1.gateway-event'', NFile 384 [])] [])
      = (Inr [''1.gateway-event''], outbox_world [(''/g/outbox/1.gateway-event'', NFile 384 [])] [])"
    using sample_outboxFiles(2) by (simp add: sample_outbox_def)
qed (simp_all add: outbox_world_def)

definition feed_queue_lib :: queue_lib where
  "feed_queue_lib = sample_queue_lib\<lparr>ql_marshal := (\<lambda>_. Inr ''g''), ql_unmarshal := (\<lambda>_. Inr feed_event)\<rparr>"

lemma feed_queue_lib_ok: "queue_lib_ok feed_queue_lib"
  using sample_queue_lib_ok by (simp add: queue_lib_ok_def feed_queue_lib_def)

lemma sample_feed_Send:
  "feed_Send sample_feed_lib (\<lambda>_. None) (\<lambda>_ d. Inr (length d)) 1000 ''/run/a.sock'' feed_event (spool_world []) = (Inr (), spool_world [])"
proof -
  have "validateSocketPath ''/run/a.sock'' (spool_world []) = (Inr ''/run/a.sock'', spool_world [])" by code_simp
  then show ?thesis using feed_event_valid
    by (simp add: feed_Send_def io_bind_def, simp add: sample_feed_lib_def MaxDatagramBytes_def io_return_def)
qed

lemma sample_feed_listen:
  "\<exists>w'. listen_loop sample_feed_lib (Enqueue feed_queue_lib sample_spool) ([] @ Datagram 1000 ''g'' # []) (spool_world []) = (Inr (), w')"
proof -
  have "feed_Decode sample_feed_lib ''g'' 1000 = Inr feed_event"
    by (rule encoded_event_decodes [OF sample_feed_lib_ok _ _ feed_event_valid]) (simp_all add: sample_feed_lib_def MaxDatagramBytes_def)
  moreover have "fst (Enqueue feed_queue_lib sample_spool 1000 feed_event (spool_world [])) = Inr ()"
    by (rule Enqueue_succeeds [OF sample_spool_ok])
      (use sample_enqueue_world in \<open>simp_all add: feed_queue_lib_def maxQueueEntries_def\<close>, simp add: spool_world_def)
  ultimately show ?thesis by (auto simp: MaxDatagramBytes_def io_bind_def io_wrap_def io_return_def split: prod.splits sum.splits)
qed


end
