(* ===== verification/Gateway_Props.thy ===== *)
theory Gateway_Props
  imports Gateway Outbox_Props
begin

text \<open>
  What the gateway promises: the two writers that record a status change nothing that the client sees, so that the answer is
  the one of the firewall, or of the upstream, or of the failure policy; the upstream gets forwarding headers that the client
  cannot forge; the event of a rule match is one that the Agent accepts. And two defects: an interim answer of the upstream turns its
  status into 200, and a gateway without an event socket panics on every match.
\<close>

section \<open>The recording writer\<close>

fun plain_call :: "w_call \<Rightarrow> bool" where
  "plain_call (WriteHeader code) \<longleftrightarrow> code \<noteq> 0 \<and> \<not> interim code"
| "plain_call call \<longleftrightarrow> True"

fun answers :: "w_call \<Rightarrow> bool" where
  "answers (WriteHeader code) \<longleftrightarrow> True"
| "answers (WriteBody content) \<longleftrightarrow> True"
| "answers call \<longleftrightarrow> False"

lemma not_interim_200 [simp]: "\<not> interim 200"
  by (simp add: interim_def)

lemma send_header_idem: "ga_Status a \<noteq> 0 \<Longrightarrow> send_header code a = a"
  by (simp add: send_header_def)

lemma responseStatus_call_same:
  assumes "plain_call call" and "responseStatus_call (ga_Status a) call = (status, out)"
  shows "fold server_call out a = server_call call a" and "status = ga_Status (server_call call a)"
  using assms by (cases call; auto simp: send_header_def Let_def split: if_splits)+

lemma responseStatus_same:
  "list_all plain_call calls \<Longrightarrow> responseStatus (ga_Status a) calls = (status, out) \<Longrightarrow>
     fold server_call out a = fold server_call calls a \<and> status = ga_Status (fold server_call calls a)"
proof (induction calls arbitrary: a status out)
  case (Cons call calls)
  obtain s1 out1 where c: "responseStatus_call (ga_Status a) call = (s1, out1)" by fastforce
  obtain s2 out2 where r: "responseStatus s1 calls = (s2, out2)" by fastforce
  have "plain_call call" using Cons.prems(1) by simp
  note same = responseStatus_call_same [OF this c]
  have "status = s2" "out = out1 @ out2" using Cons.prems(2) c r by auto
  then show ?case using Cons.IH [of "server_call call a" s2 out2] Cons.prems(1) r same by simp
qed simp

lemma empty_status [simp]: "ga_Status empty_answer = 0"
  by (simp add: empty_answer_def)

lemma responseStatus_served:
  assumes "list_all plain_call calls"
  shows "served (snd (responseStatus 0 calls) @ more_calls) = served (calls @ more_calls)"
proof (cases "responseStatus 0 calls")
  case (Pair status out)
  then show ?thesis using responseStatus_same [OF assms, of empty_answer] by (simp add: served_def)
qed

lemma responseStatus_answered: "list_all plain_call calls \<Longrightarrow> fst (responseStatus 0 calls) \<noteq> 0 \<longleftrightarrow> list_ex answers calls"
proof -
  have later: "status \<noteq> 0 \<Longrightarrow> fst (responseStatus status calls) \<noteq> 0" for status and calls :: "w_call list"
  proof (induction calls)
    case (Cons call calls)
    have "fst (responseStatus_call status call) = status" using Cons.prems by (cases call) auto
    then show ?case using Cons by (auto split: prod.splits)
  qed simp
  show "list_all plain_call calls \<Longrightarrow> ?thesis"
  proof (induction calls)
    case (Cons call calls)
    show ?case
    proof (cases "answers call")
      case True
      then have "fst (responseStatus_call 0 call) \<noteq> 0" using Cons.prems by (cases call) auto
      then show ?thesis using True later [of "fst (responseStatus_call 0 call)" calls] by (auto split: prod.splits)
    next
      case False
      then have "responseStatus_call 0 call = (0, [call])" by (cases call) auto
      then show ?thesis using False Cons by (auto split: prod.splits)
    qed
  qed simp
qed

lemma responseStatus_plain: "list_all plain_call calls \<Longrightarrow> list_all plain_call (snd (responseStatus status calls))"
proof (induction calls arbitrary: status)
  case (Cons call calls)
  have "list_all plain_call (snd (responseStatus_call status call))" using Cons.prems by (cases call) auto
  then show ?case using Cons.IH [of "fst (responseStatus_call status call)"] Cons.prems by (simp add: split_beta)
qed simp

section \<open>The answer of the gateway\<close>

text \<open>The request goes to the application: it is neither for the gateway itself nor redirected.\<close>

definition for_application :: "gw_request \<Rightarrow> bool" where
  "for_application rq \<longleftrightarrow> (let path = url_Path (gq_URL rq) in path \<noteq> ''*'' \<and> gq_Method rq \<noteq> ''CONNECT'' \<and> cleanPath path = path
     \<and> \<not> ((gq_Method rq = ''GET'' \<or> gq_Method rq = ''HEAD'') \<and> path = healthPath))"

lemma gateway_mux_application: "for_application rq \<Longrightarrow> gateway_mux lib protected rq = protected rq"
  by (auto simp: for_application_def gateway_mux_def Let_def)

text \<open>What is promised, without any recording writer.\<close>

definition gateway_spec :: "FailurePolicy \<Rightarrow> gw_handler \<Rightarrow> gw_handler \<Rightarrow> gw_request \<Rightarrow> gw_answer" where
  "gateway_spec policy waf proxy rq =
     (let (calls, rq') = waf rq
      in if list_ex answers calls then served calls
         else if policy = FailOpen then served (calls @ fst (proxy rq'))
         else served (calls @ http_Error ''gateway inspection unavailable'' 503))"

lemma http_Error_plain: "code \<noteq> 0 \<Longrightarrow> \<not> interim code \<Longrightarrow> list_all plain_call (http_Error message code)"
  by (simp add: http_Error_def)

lemma waf_protected_served:
  assumes "\<And>rq. list_all plain_call (fst (waf rq))" and "\<And>rq. list_all plain_call (fst (proxy rq))"
  shows "list_all plain_call (fst (waf_protected policy waf proxy rq))"
    and "served (fst (waf_protected policy waf proxy rq)) = gateway_spec policy waf proxy rq"
proof -
  obtain calls rq' where w: "waf rq = (calls, rq')" by fastforce
  obtain status out where r: "responseStatus 0 calls = (status, out)" by fastforce
  have p: "list_all plain_call calls" using assms(1) [of rq] w by simp
  have out: "list_all plain_call out" using responseStatus_plain [OF p, of 0] r by simp
  have 503: "list_all plain_call (http_Error ''gateway inspection unavailable'' 503)" by (rule http_Error_plain) (simp_all add: interim_def)
  show "list_all plain_call (fst (waf_protected policy waf proxy rq))"
    using w r out 503 assms(2) [of rq'] by (auto simp: waf_protected_def split: prod.splits)
  show "served (fst (waf_protected policy waf proxy rq)) = gateway_spec policy waf proxy rq"
    using w r responseStatus_served [OF p] responseStatus_answered [OF p] responseStatus_served [OF p, of "[]"]
    by (auto simp: waf_protected_def gateway_spec_def split: prod.splits)
qed

lemma requestLog_served: "list_all plain_call (fst (next rq)) \<Longrightarrow> served (fst (requestLog next rq)) = served (fst (next rq))"
  using responseStatus_served [of "fst (next rq)" "[]"] by (simp add: requestLog_def split_beta)

lemma gateway_New_Inr:
  assumes "gateway_New lib transport given = Inr gateway"
  obtains upstream protected where "parseUpstream (gl_Parse lib) (gc_Upstream given) = Inr upstream"
    "gw_handle gateway = requestLog (gateway_mux lib protected)" "gw_mode gateway = gc_Mode given"
    "gc_Mode given = ModeBypass \<and> protected = proxy_ServeHTTP lib transport upstream
     \<or> gc_Mode given \<noteq> ModeBypass \<and> (\<exists>wrap. newWAF lib (config_defaults given) = Inr wrap
         \<and> protected = waf_protected (gc_FailurePolicy (config_defaults given)) (wrap (proxy_ServeHTTP lib transport upstream))
             (proxy_ServeHTTP lib transport upstream))"
proof -
  have same: "gc_Mode (config_defaults given) = gc_Mode given" "gc_Upstream (config_defaults given) = gc_Upstream given"
    by (simp_all add: config_defaults_def)
  show ?thesis using assms that by (auto simp: gateway_New_def Let_def same split: if_splits sum.splits)
qed


section \<open>Interim answers\<close>

lemma responseStatus_sent:
  "status \<noteq> 0 \<Longrightarrow> \<forall>code. WriteHeader code \<notin> set (snd (responseStatus status calls))"
proof (induction calls)
  case (Cons call calls)
  have "fst (responseStatus_call status call) = status" "\<forall>code. WriteHeader code \<notin> set (snd (responseStatus_call status call))"
    using Cons.prems by (cases call; auto)+
  then show ?case using Cons by (auto split: prod.splits)
qed simp

lemma server_status_200:
  "\<forall>code. WriteHeader code \<notin> set calls \<Longrightarrow> ga_Status a \<in> {0, 200} \<Longrightarrow> ga_Status (fold server_call calls a) \<in> {0, 200}"
proof (induction calls arbitrary: a)
  case (Cons call calls)
  have "ga_Status (server_call call a) \<in> {0, 200}" using Cons.prems by (cases call) (auto simp: send_header_def Let_def)
  then show ?case using Cons by simp
qed simp

text \<open>C27: An interim answer of the upstream loses its status. When the upstream sends a status such as 103 before its answer,
  the client of a gateway in bypass mode gets the status 200, whatever the answer is: the recording writer takes the interim status
  for the final one and drops the next.\<close>

theorem interim_answer_loses_status:
  assumes "gateway_New lib transport config = Inr gateway" and "gc_Mode config = ModeBypass"
    and "parseUpstream (gl_Parse lib) (gc_Upstream config) = Inr upstream" and "for_application rq"
    and "transport (outbound lib upstream rq) = \<lparr>up_Interim = early # codes, up_Result = Inr (status, hdr, content)\<rparr>" and "interim early"
  shows "ga_Status (served (gateway_ServeHTTP gateway rq)) = 200"
proof -
  have h: "gw_handle gateway = requestLog (gateway_mux lib (proxy_ServeHTTP lib transport upstream))"
    using gateway_New_Inr [OF assms(1)] assms(2,3) by (metis Inr_inject)
  obtain rest where calls: "fst (proxy_ServeHTTP lib transport upstream rq) = WriteHeader early # rest"
    using assms(5) by (simp add: proxy_ServeHTTP_def)
  have "early \<noteq> 0" using assms(6) by (auto simp: interim_def)
  then have "\<exists>out. gateway_ServeHTTP gateway rq = WriteHeader early # out \<and> (\<forall>code. WriteHeader code \<notin> set out)"
    using responseStatus_sent [of early rest]
    by (auto simp: gateway_ServeHTTP_def h requestLog_def gateway_mux_application [OF assms(4)] calls split: prod.splits)
  then obtain out where out: "gateway_ServeHTTP gateway rq = WriteHeader early # out" "\<forall>code. WriteHeader code \<notin> set out" by blast
  have "ga_Status (server_call (WriteHeader early) empty_answer) \<in> {0, 200}" using assms(6) by (simp add: send_header_def)
  from server_status_200 [OF out(2) this] show ?thesis
    by (auto simp: out(1) served_def Let_def send_header_def)
qed

section \<open>What the upstream sees\<close>

text \<open>C26: The forwarding headers cannot be forged. Whatever headers the client sends, also when it names them in \<open>Connection\<close>, the request
  to the upstream goes to the configured host and carries the address of the socket peer as its only forwarded address, the host that
  the client asked for and the scheme of its connection, and no \<open>Forwarded\<close> header.\<close>

theorem forwarding_not_forged:
  "url_Host (gq_URL (outbound lib upstream rq)) = url_Host upstream \<and> url_Scheme (gq_URL (outbound lib upstream rq)) = url_Scheme upstream
   \<and> map_of (gq_Header (outbound lib upstream rq)) ''X-Forwarded-For'' = map_option (\<lambda>ip. [ip]) (gq_Peer rq)
   \<and> map_of (gq_Header (outbound lib upstream rq)) ''X-Forwarded-Host'' = Some [gq_Host rq]
   \<and> map_of (gq_Header (outbound lib upstream rq)) ''X-Forwarded-Proto'' = Some [if gq_TLS rq then ''https'' else ''http'']
   \<and> map_of (gq_Header (outbound lib upstream rq)) ''Forwarded'' = None"
  by (cases "gq_Peer rq")
    (simp_all add: outbound_def gateway_Rewrite_def SetURL_def SetXForwarded_def Let_def forwarding_headers_def update_conv' delete_conv)

section \<open>Rule matches\<close>

text \<open>The documented size of JSON: a small object has a small encoding.\<close>

fun small_value :: "goany \<Rightarrow> bool" where
  "small_value (ABool b) = True"
| "small_value (AInt i) = (wrap64 i = i)"
| "small_value (AStr s) = (length s \<le> 128)"
| "small_value _ = False"

definition small_evidence :: "feed_lib \<Rightarrow> bool" where
  "small_evidence lib \<longleftrightarrow> (\<forall>m. length m \<le> 6 \<and> list_all (\<lambda>(k, v). length k \<le> 32 \<and> small_value v) m \<longrightarrow>
     (\<exists>enc. fl_evidence lib (Some m) = Inr enc \<and> length enc \<le> maxEvidenceBytes))"

lemma Severity_Valid_gateway: "Severity_Valid (gatewaySeverity s)"
  by (simp add: gatewaySeverity_def Severity_Valid_def Let_def)

lemma RandomIO_id:
  assumes "RandomIO ''evt_gateway_'' 18 w = (Inr eventID, w')"
  shows "TrimSpace eventID \<noteq> []" and "length eventID \<le> 128"
proof -
  obtain buffer where b: "rand_Read 18 w = (Inr buffer, w')" "eventID = ''evt_gateway_'' @ RawURLEncoding buffer"
    using assms by (auto simp: RandomIO_def io_try_def Random_def split: prod.splits sum.splits)
  then show "TrimSpace eventID \<noteq> []" and "length eventID \<le> 128"
    using random_id_valid [of buffer "''evt_gateway_''"] rand_Read_length by (auto simp: visible_def)
qed

lemma rule_event_valid:
  assumes "small_evidence lib" and "Mode_Valid (gc_Mode config)" and "wrap64 (mr_ID matched) = mr_ID matched"
    and "TrimSpace eventID \<noteq> []" and "length eventID \<le> 128" and "now \<noteq> zero_time" and "now \<le> validated + 5 * minute"
  shows "feed_Validate lib (rule_event config matched eventID now) validated = None"
proof -
  let ?e = "rule_event config matched eventID now"
  obtain m where m: "event_Evidence ?e = Some m" "length m \<le> 6" "list_all (\<lambda>(k, v). length k \<le> 32 \<and> small_value v) m"
    using assms(2,3) by (auto simp: rule_event_def Let_def Mode_Valid_def gateway_modes)
  then have "\<exists>enc. fl_evidence lib (event_Evidence ?e) = Inr enc \<and> length enc \<le> maxEvidenceBytes"
    using assms(1) by (simp add: small_evidence_def)
  moreover have "TrimSpace ''gateway.waf.rule_match'' \<noteq> []" "TrimSpace ''OWASP CRS rule matched an inspected request'' \<noteq> []"
    by (subst TrimSpace_visible; simp add: visible_def)+
  ultimately show ?thesis
    using assms(4-7) by (auto simp: feed_Validate_None ValidateEvent_None rule_event_def Let_def HasPrefix_def Severity_Valid_gateway)
qed


text \<open>C28: A gateway without an event socket panics on every match. The flag is documented to disable forwarding; but the command
  hands a nil pointer to the gateway as its sink, which is not the nil interface that \<open>emitRuleMatch\<close> tests for.\<close>

theorem disabled_forwarding_panics:
  assumes "gateway_run_config flags w = (Inr config, w')" and "TrimSpace (gf_EventSocket flags) = []"
    and "RandomIO ''evt_gateway_'' 18 v = (Inr eventID, v')"
  shows "emitRuleMatch lib send config matched now validated later net v = (Panicked, net, v')"
proof -
  have "gc_EventSink config = OutboxSink None"
    using assms(1,2) by (auto simp: gateway_run_config_def io_outcomes split: if_splits)
  then show ?thesis using assms(3) by (simp add: emitRuleMatch_def)
qed

section \<open>Witnesses\<close>

definition sample_upstream :: URL where
  "sample_upstream = \<lparr>url_Scheme = ''http'', url_Host = ''app'', url_Hostname = ''app'', url_User = False, url_RawQuery = [],
     url_Fragment = [], url_Path = []\<rparr>"

text \<open>A firewall that never answers.\<close>

definition broken_waf :: "gw_handler \<Rightarrow> gw_handler" where "broken_waf proxy rq = ([], rq)"

definition sample_gateway_lib :: gateway_lib where
  "sample_gateway_lib = \<lparr>gl_Parse = (\<lambda>_. Some sample_upstream), gl_hop = (\<lambda>h. h), gl_query = (\<lambda>q. q),
     gl_redirect = (\<lambda>_ _. [WriteHeader 301]), gl_rules = Inr [''@owasp_crs/a.conf''], gl_NewWAF = (\<lambda>_. Inr broken_waf)\<rparr>"

definition sample_reply :: "nat list \<Rightarrow> gw_request \<Rightarrow> upstream_reply" where
  "sample_reply codes _ = \<lparr>up_Interim = codes, up_Result = Inr (404, [], ''n'')\<rparr>"

definition sample_gateway_config :: "Mode \<Rightarrow> FailurePolicy \<Rightarrow> gw_config" where
  "sample_gateway_config mode policy = \<lparr>gc_Mode = mode, gc_FailurePolicy = policy, gc_Upstream = ''http://app'',
     gc_RequestBodyLimitBytes = 0, gc_RequestMemoryLimitBytes = 0, gc_EventSink = OutboxSink (Some sample_outbox)\<rparr>"

definition sample_gw_request :: gw_request where
  "sample_gw_request = \<lparr>gq_Method = ''GET'', gq_Host = ''site'', gq_Peer = Some ''10.0.0.9'', gq_TLS = False,
     gq_URL = sample_upstream\<lparr>url_Scheme := [], url_Host := [], url_Hostname := [], url_Path := ''/a''\<rparr>, gq_Header = [], gq_Body = []\<rparr>"

definition sample_gateway :: "nat list \<Rightarrow> Mode \<Rightarrow> FailurePolicy \<Rightarrow> Gateway" where
  "sample_gateway codes mode policy = projr (gateway_New sample_gateway_lib (sample_reply codes) (sample_gateway_config mode policy))"

lemma sample_parse: "parseUpstream (gl_Parse sample_gateway_lib) (gc_Upstream (sample_gateway_config mode policy)) = Inr sample_upstream"
  by (simp add: parseUpstream_def sample_gateway_lib_def sample_upstream_def)

lemma sample_waf: "newWAF sample_gateway_lib config = Inr broken_waf"
  by (simp add: newWAF_def sample_gateway_lib_def)

lemma sample_gateway_New:
  assumes "Mode_Valid mode" and "FailurePolicy_Valid policy"
  shows "gateway_New sample_gateway_lib (sample_reply codes) (sample_gateway_config mode policy) = Inr (sample_gateway codes mode policy)"
proof -
  have "policy \<noteq> []" using assms(2) by (auto simp: FailurePolicy_Valid_def gateway_modes)
  then show ?thesis
    unfolding sample_gateway_def using assms sample_parse [of mode policy]
    by (simp add: gateway_New_def Let_def sample_waf config_defaults_def sample_gateway_config_def)
qed

lemma sample_for_application: "for_application sample_gw_request"
proof -
  have "cleanPath ''/a'' = ''/a''" by code_simp
  then show ?thesis by (simp add: for_application_def sample_gw_request_def sample_upstream_def healthPath_def)
qed


theorem interim_answer_loses_status_witness:
  "ga_Status (served (gateway_ServeHTTP (sample_gateway [103] ModeBypass FailOpen) sample_gw_request)) = 200"
  by (rule interim_answer_loses_status [OF sample_gateway_New _ sample_parse sample_for_application,
        where early = 103 and codes = "[]" and status = 404 and hdr = "[]" and content = "''n''"])
    (simp_all add: Mode_Valid_def FailurePolicy_Valid_def sample_gateway_config_def sample_reply_def interim_def)

definition sample_match :: matched_rule where
  "sample_match = \<lparr>mr_ID = 942100, mr_Severity = ''critical'', mr_Disruptive = True, mr_TransactionID = ''t''\<rparr>"

lemma sample_RandomIO: "\<exists>eventID v. RandomIO ''evt_gateway_'' 18 (outbox_world [] []) = (Inr eventID, v)"
proof -
  obtain s v where "rand_Read 18 (outbox_world [] []) = (Inr s, v)"
    using rand_Read_no_fault [of "outbox_world [] []" 18] by (auto simp: outbox_world_def)
  then show ?thesis by (simp add: RandomIO_def io_try_def Random_def)
qed


definition sample_flags :: gateway_flags where
  "sample_flags = (gateway_default_flags (\<lambda>_. []) ''linux'')\<lparr>gf_Upstream := ''http://app'', gf_EventSocket := []\<rparr>"

theorem disabled_forwarding_panics_witness:
  "\<exists>config. fst (gateway_run_config sample_flags (outbox_world [] [])) = Inr config
     \<and> fst (emitRuleMatch sample_feed_lib (\<lambda>_ _ _. None) config sample_match 1000 1000 1000
         \<lparr>net_attempts = 0, net_delivered = []\<rparr> (outbox_world [] [])) = Panicked"
proof -
  obtain eventID v where r: "RandomIO ''evt_gateway_'' 18 (outbox_world [] []) = (Inr eventID, v)" using sample_RandomIO by blast
  have "TrimSpace ''http://app'' \<noteq> []" by code_simp
  then obtain config where c: "gateway_run_config sample_flags (outbox_world [] []) = (Inr config, outbox_world [] [])"
    by (simp add: gateway_run_config_def sample_flags_def gateway_default_flags_def io_bind_def io_return_def)
  have "TrimSpace (gf_EventSocket sample_flags) = []" by (simp add: sample_flags_def)
  from disabled_forwarding_panics [OF c this r] show ?thesis using c by simp
qed

end
