(* ===== verification/Sql_Store.thy ===== *)
theory Sql_Store
  imports Store_Memory
begin

text \<open>
  internal/store/sqlstore/sqlstore.go: the store on a PostgreSQL or MySQL database. The definitions build the text and the arguments of
  every statement as the code does and hand them to the database, which is the argument \<open>sql_db\<close>: what a statement
  returns and the contents after it. An operation runs as one step; a failed transaction leaves the contents as they were.
  The JSON codecs are the fields of \<open>sql_codec\<close>. \<open>Open\<close> and \<open>Close\<close> only configure the driver.
\<close>

datatype sql_value = VStr string | VInt int | VBool bool | VTime time | VBytes string

text \<open>An error of a driver: the number of a MySQL error, the SQLSTATE of a PostgreSQL error.\<close>

record sql_error =
  se_Number :: "nat option"
  se_State :: "string option"
  se_Text :: string

record 's sql_db =
  db_exec :: "'s \<Rightarrow> string \<Rightarrow> sql_value list \<Rightarrow> sql_error + (nat \<times> 's)"
  db_query :: "'s \<Rightarrow> string \<Rightarrow> sql_value list \<Rightarrow> sql_error + sql_value list list"
  db_begin :: "'s \<Rightarrow> error option"
  db_commit :: "'s \<Rightarrow> error option"

record sql_codec =
  sj_map :: "evidence \<Rightarrow> error + string"
  sj_map_of :: "string \<Rightarrow> error + evidence"
  sj_paths :: "string list \<Rightarrow> error + string"
  sj_paths_of :: "string \<Rightarrow> error + string list"

type_synonym Dialect = string

definition Postgres :: Dialect where "Postgres = ''postgres''"
definition MySQL :: Dialect where "MySQL = ''mysql''"

record 's SQLStore =
  sq_db :: "'s sql_db"
  sq_dialect :: Dialect
  sq_codec :: sql_codec

definition duplicateError :: "Dialect \<Rightarrow> sql_error \<Rightarrow> bool" where
  "duplicateError dialect err \<longleftrightarrow> (if dialect = MySQL then se_Number err = Some 1062 else se_State err = Some ''23505'')"

section \<open>Statements\<close>

definition placeholder :: "Dialect \<Rightarrow> nat \<Rightarrow> string" where
  "placeholder dialect index = (if dialect = Postgres then ''$'' @ FormatNat index else ''?'')"

fun comma_list :: "string list \<Rightarrow> string" where
  "comma_list [] = []"
| "comma_list [x] = x"
| "comma_list (x # xs) = x @ '', '' @ comma_list xs"

definition placeholders :: "Dialect \<Rightarrow> nat \<Rightarrow> nat \<Rightarrow> string" where
  "placeholders dialect start n = comma_list (map (\<lambda>index. placeholder dialect (start + index)) [0..<n])"

definition line8 :: string where "line8 = byte 10 # replicate 8 (CHR '' '')"
definition line12 :: string where "line12 = byte 10 # replicate 12 (CHR '' '')"

definition agent_columns :: string where
  "agent_columns = ''id, machine_id, hostname, version, platform, architecture, credential_hash, registered_at, last_seen_at''"

definition insert_agent_sql :: "Dialect \<Rightarrow> string" where
  "insert_agent_sql d = ''INSERT INTO agents'' @ line8 @ ''('' @ agent_columns @ '')'' @ line8 @ ''VALUES ('' @ placeholders d 1 9 @ '')''"

definition agent_by_id_sql :: "Dialect \<Rightarrow> string" where
  "agent_by_id_sql d = ''SELECT '' @ agent_columns @ line8 @ ''FROM agents WHERE id = '' @ placeholder d 1"

definition agent_by_machine_sql :: "Dialect \<Rightarrow> string" where
  "agent_by_machine_sql d = ''SELECT '' @ agent_columns @ line8 @ ''FROM agents WHERE machine_id = '' @ placeholder d 1"

definition heartbeat_sql :: "Dialect \<Rightarrow> string" where
  "heartbeat_sql d = ''UPDATE agents SET last_seen_at = '' @ placeholder d 1 @ '', version = CASE WHEN '' @ placeholder d 2
     @ '' = '' @ [CHR 0x27, CHR 0x27] @ '' THEN version ELSE '' @ placeholder d 3 @ '' END WHERE id = '' @ placeholder d 4"

definition list_agents_sql :: "Dialect \<Rightarrow> string" where
  "list_agents_sql d = ''SELECT id, machine_id, hostname, version, platform, architecture, registered_at, last_seen_at'' @ line8
     @ ''FROM agents ORDER BY registered_at DESC LIMIT '' @ placeholder d 1"

definition insert_event_sql :: "Dialect \<Rightarrow> string" where
  "insert_event_sql d = ''INSERT INTO security_events'' @ line12 @ ''(id, agent_id, kind, severity, summary, occurred_at, received_at, evidence)''
     @ line12 @ ''VALUES ('' @ placeholders d 1 8 @ '')''
     @ (if d = Postgres then '' ON CONFLICT (id) DO NOTHING'' else '' ON DUPLICATE KEY UPDATE id = security_events.id'')"

definition list_alerts_sql :: "Dialect \<Rightarrow> bool \<Rightarrow> string" where
  "list_alerts_sql d filtered = ''SELECT id, agent_id, kind, severity, summary, occurred_at, received_at, evidence FROM security_events''
     @ (if filtered then '' WHERE severity = '' @ placeholder d 1 @ '' ORDER BY received_at DESC LIMIT '' @ placeholder d 2
        else '' ORDER BY received_at DESC LIMIT '' @ placeholder d 1)"

definition policy_sql :: "Dialect \<Rightarrow> string" where
  "policy_sql d = ''SELECT id, agent_id, revision, file_integrity_enabled, file_watch_paths,'' @ line8
     @ ''ssh_auth_enabled, ssh_threshold, ssh_window_seconds, runtime_watch_enabled, updated_at'' @ line8
     @ ''FROM agent_policies WHERE agent_id = '' @ placeholder d 1"

definition lock_policy_sql :: "Dialect \<Rightarrow> string" where
  "lock_policy_sql d = ''SELECT revision FROM agent_policies WHERE agent_id = '' @ placeholder d 1 @ '' FOR UPDATE''"

definition insert_policy_sql :: "Dialect \<Rightarrow> string" where
  "insert_policy_sql d = ''INSERT INTO agent_policies'' @ line12
     @ ''(id, agent_id, revision, file_integrity_enabled, file_watch_paths, ssh_auth_enabled,'' @ line12
     @ '' ssh_threshold, ssh_window_seconds, runtime_watch_enabled, updated_at)'' @ line12 @ ''VALUES ('' @ placeholders d 1 10 @ '')''"

definition update_policy_sql :: "Dialect \<Rightarrow> string" where
  "update_policy_sql d = ''UPDATE agent_policies SET revision = '' @ placeholder d 1 @ '', file_integrity_enabled = '' @ placeholder d 2
     @ '', file_watch_paths = '' @ placeholder d 3 @ '', ssh_auth_enabled = '' @ placeholder d 4 @ '', ssh_threshold = '' @ placeholder d 5
     @ '', ssh_window_seconds = '' @ placeholder d 6 @ '', runtime_watch_enabled = '' @ placeholder d 7 @ '', updated_at = '' @ placeholder d 8
     @ '' WHERE agent_id = '' @ placeholder d 9 @ '' AND revision = '' @ placeholder d 10"

definition insert_audit_sql :: "Dialect \<Rightarrow> string" where
  "insert_audit_sql d = ''INSERT INTO audit_logs (id, actor, action, resource, occurred_at, details) VALUES ('' @ placeholders d 1 6 @ '')''"

definition list_audits_sql :: "Dialect \<Rightarrow> string" where
  "list_audits_sql d =
     ''SELECT id, actor, action, resource, occurred_at, details FROM audit_logs ORDER BY occurred_at DESC LIMIT '' @ placeholder d 1"

section \<open>Rows\<close>

definition agent_row :: "Agent \<Rightarrow> sql_value list" where
  "agent_row a = [VStr (agent_ID a), VStr (agent_MachineID a), VStr (agent_Hostname a), VStr (agent_Version a), VStr (agent_Platform a),
     VStr (agent_Architecture a), VBytes (agent_CredentialHash a), VTime (agent_RegisteredAt a), VTime (agent_LastSeenAt a)]"

definition event_row :: "Event \<Rightarrow> string \<Rightarrow> sql_value list" where
  "event_row e evidence = [VStr (event_ID e), VStr (event_AgentID e), VStr (event_Kind e), VStr (event_Severity e), VStr (event_Summary e),
     VTime (event_OccurredAt e), VTime (event_ReceivedAt e), VBytes evidence]"

definition policy_row :: "Policy \<Rightarrow> string \<Rightarrow> sql_value list" where
  "policy_row p paths = [VStr (policy_ID p), VStr (policy_AgentID p), VInt (policy_Revision p), VBool (policy_FileIntegrityEnabled p),
     VBytes paths, VBool (policy_SSHAuthEnabled p), VInt (policy_SSHThreshold p), VInt (policy_SSHWindowSeconds p),
     VBool (policy_RuntimeWatchEnabled p), VTime (policy_UpdatedAt p)]"

definition audit_row :: "AuditLog \<Rightarrow> string \<Rightarrow> sql_value list" where
  "audit_row a details = [VStr (audit_ID a), VStr (audit_Actor a), VStr (audit_Action a), VStr (audit_Resource a),
     VTime (audit_OccurredAt a), VBytes details]"

text \<open>\<open>Scan\<close> converts the columns one by one.\<close>

definition scan_error :: error where "scan_error = ''sql: Scan error''"

fun col_str :: "sql_value \<Rightarrow> error + string" where
  "col_str (VStr s) = Inr s" | "col_str _ = Inl scan_error"
fun col_int :: "sql_value \<Rightarrow> error + int" where
  "col_int (VInt i) = Inr i" | "col_int _ = Inl scan_error"
fun col_bool :: "sql_value \<Rightarrow> error + bool" where
  "col_bool (VBool b) = Inr b" | "col_bool _ = Inl scan_error"
fun col_time :: "sql_value \<Rightarrow> error + time" where
  "col_time (VTime t) = Inr t" | "col_time _ = Inl scan_error"
fun col_bytes :: "sql_value \<Rightarrow> error + string" where
  "col_bytes (VBytes s) = Inr s" | "col_bytes _ = Inl scan_error"

definition try_then :: "'e + 'a \<Rightarrow> ('a \<Rightarrow> 'e + 'b) \<Rightarrow> 'e + 'b" where
  "try_then x f = (case x of Inl e \<Rightarrow> Inl e | Inr y \<Rightarrow> f y)"

lemma try_then_simps [simp]: "try_then (Inl e) f = Inl e" "try_then (Inr y) f = f y"
  by (simp_all add: try_then_def)

definition scan_agent_row :: "sql_value list \<Rightarrow> error + Agent" where
  "scan_agent_row r =
     (if length r \<noteq> 9 then Inl scan_error
      else try_then (col_str (r ! 0)) (\<lambda>i. try_then (col_str (r ! 1)) (\<lambda>mid. try_then (col_str (r ! 2)) (\<lambda>h.
        try_then (col_str (r ! 3)) (\<lambda>v. try_then (col_str (r ! 4)) (\<lambda>p. try_then (col_str (r ! 5)) (\<lambda>a.
        try_then (col_bytes (r ! 6)) (\<lambda>c. try_then (col_time (r ! 7)) (\<lambda>t. try_then (col_time (r ! 8)) (\<lambda>l.
          Inr \<lparr>agent_ID = i, agent_MachineID = mid, agent_Hostname = h, agent_Version = v, agent_Platform = p, agent_Architecture = a,
            agent_CredentialHash = c, agent_RegisteredAt = t, agent_LastSeenAt = l\<rparr>))))))))))"

definition scanAgent :: "sql_error + sql_value list list \<Rightarrow> store_error + Agent" where
  "scanAgent result =
     (case result of
        Inl e \<Rightarrow> Inl (ErrOther (''scan agent: '' @ se_Text e))
      | Inr [] \<Rightarrow> Inl ErrNotFound
      | Inr (r # _) \<Rightarrow> (case scan_agent_row r of Inl e \<Rightarrow> Inl (ErrOther (''scan agent: '' @ e)) | Inr agent \<Rightarrow> Inr agent))"

definition scan_listed_agent :: "sql_value list \<Rightarrow> error + Agent" where
  "scan_listed_agent r =
     (if length r \<noteq> 8 then Inl (''scan agent list: '' @ scan_error)
      else case scan_agent_row (take 6 r @ VBytes [] # drop 6 r) of
        Inl e \<Rightarrow> Inl (''scan agent list: '' @ e) | Inr agent \<Rightarrow> Inr agent)"

definition scan_event_row :: "sql_codec \<Rightarrow> sql_value list \<Rightarrow> error + Event" where
  "scan_event_row codec r =
     (if length r \<noteq> 8 then Inl (''scan security event: '' @ scan_error)
      else case try_then (col_str (r ! 0)) (\<lambda>i. try_then (col_str (r ! 1)) (\<lambda>a. try_then (col_str (r ! 2)) (\<lambda>k.
             try_then (col_str (r ! 3)) (\<lambda>s. try_then (col_str (r ! 4)) (\<lambda>u. try_then (col_time (r ! 5)) (\<lambda>t.
             try_then (col_time (r ! 6)) (\<lambda>l. try_then (col_bytes (r ! 7)) (\<lambda>x.
               Inr (\<lparr>event_ID = i, event_AgentID = a, event_Kind = k, event_Severity = s, event_Summary = u, event_OccurredAt = t,
                 event_ReceivedAt = l, event_Evidence = None\<rparr>, x))))))))) of
        Inl e \<Rightarrow> Inl (''scan security event: '' @ e)
      | Inr (event, evidence) \<Rightarrow>
          (case sj_map_of codec evidence of
             Inl e \<Rightarrow> Inl (''decode event evidence: '' @ e)
           | Inr m \<Rightarrow> Inr (event\<lparr>event_Evidence := m\<rparr>)))"

definition scan_policy_row :: "sql_codec \<Rightarrow> sql_value list \<Rightarrow> error + Policy" where
  "scan_policy_row codec r =
     (if length r \<noteq> 10 then Inl (''read Agent policy: '' @ scan_error)
      else case try_then (col_str (r ! 0)) (\<lambda>i. try_then (col_str (r ! 1)) (\<lambda>a. try_then (col_int (r ! 2)) (\<lambda>v.
             try_then (col_bool (r ! 3)) (\<lambda>f. try_then (col_bytes (r ! 4)) (\<lambda>x. try_then (col_bool (r ! 5)) (\<lambda>s.
             try_then (col_int (r ! 6)) (\<lambda>n. try_then (col_int (r ! 7)) (\<lambda>d. try_then (col_bool (r ! 8)) (\<lambda>w.
             try_then (col_time (r ! 9)) (\<lambda>t.
               Inr (\<lparr>policy_ID = i, policy_AgentID = a, policy_Revision = v, policy_FileIntegrityEnabled = f, policy_FileWatchPaths = [],
                 policy_SSHAuthEnabled = s, policy_SSHThreshold = n, policy_SSHWindowSeconds = d, policy_RuntimeWatchEnabled = w,
                 policy_UpdatedAt = t\<rparr>, x))))))))))) of
        Inl e \<Rightarrow> Inl (''read Agent policy: '' @ e)
      | Inr (policy, paths) \<Rightarrow>
          (case sj_paths_of codec paths of
             Inl e \<Rightarrow> Inl (''decode policy file paths: '' @ e)
           | Inr ps \<Rightarrow> Inr (policy\<lparr>policy_FileWatchPaths := ps\<rparr>)))"

definition scan_audit_row :: "sql_codec \<Rightarrow> sql_value list \<Rightarrow> error + AuditLog" where
  "scan_audit_row codec r =
     (if length r \<noteq> 6 then Inl (''scan audit log: '' @ scan_error)
      else case try_then (col_str (r ! 0)) (\<lambda>i. try_then (col_str (r ! 1)) (\<lambda>a. try_then (col_str (r ! 2)) (\<lambda>c.
             try_then (col_str (r ! 3)) (\<lambda>s. try_then (col_time (r ! 4)) (\<lambda>t. try_then (col_bytes (r ! 5)) (\<lambda>x.
               Inr (\<lparr>audit_ID = i, audit_Actor = a, audit_Action = c, audit_Resource = s, audit_OccurredAt = t, audit_Details = None\<rparr>, x))))))) of
        Inl e \<Rightarrow> Inl (''scan audit log: '' @ e)
      | Inr (audit, details) \<Rightarrow>
          (case sj_map_of codec details of
             Inl e \<Rightarrow> Inl (''decode audit log details: '' @ e)
           | Inr m \<Rightarrow> Inr (audit\<lparr>audit_Details := m\<rparr>)))"

text \<open>The loop over the rows of a listing.\<close>

fun scan_rows :: "(sql_value list \<Rightarrow> error + 'a) \<Rightarrow> sql_value list list \<Rightarrow> store_error + 'a list" where
  "scan_rows scan [] = Inr []"
| "scan_rows scan (r # rs) =
     (case scan r of
        Inl e \<Rightarrow> Inl (ErrOther e)
      | Inr x \<Rightarrow> (case scan_rows scan rs of Inl e \<Rightarrow> Inl e | Inr xs \<Rightarrow> Inr (x # xs)))"

section \<open>Operations\<close>

definition sql_CreateAgent :: "'s SQLStore \<Rightarrow> 's \<Rightarrow> Agent \<Rightarrow> store_error + 's" where
  "sql_CreateAgent database s agent =
     (case db_exec (sq_db database) s (insert_agent_sql (sq_dialect database)) (agent_row agent) of
        Inl e \<Rightarrow> if duplicateError (sq_dialect database) e then Inl ErrConflict else Inl (ErrOther (''insert agent: '' @ se_Text e))
      | Inr (_, s') \<Rightarrow> Inr s')"

definition sql_AgentByID :: "'s SQLStore \<Rightarrow> 's \<Rightarrow> string \<Rightarrow> store_error + Agent" where
  "sql_AgentByID database s aid = scanAgent (db_query (sq_db database) s (agent_by_id_sql (sq_dialect database)) [VStr aid])"

definition sql_AgentByMachineID :: "'s SQLStore \<Rightarrow> 's \<Rightarrow> string \<Rightarrow> store_error + Agent" where
  "sql_AgentByMachineID database s machineID =
     scanAgent (db_query (sq_db database) s (agent_by_machine_sql (sq_dialect database)) [VStr machineID])"

definition sql_UpdateHeartbeat :: "'s SQLStore \<Rightarrow> 's \<Rightarrow> string \<Rightarrow> Heartbeat \<Rightarrow> store_error + 's" where
  "sql_UpdateHeartbeat database s aid heartbeat =
     (case db_exec (sq_db database) s (heartbeat_sql (sq_dialect database))
             [VTime (hb_SentAt heartbeat), VStr (hb_AgentVersion heartbeat), VStr (hb_AgentVersion heartbeat), VStr aid] of
        Inl e \<Rightarrow> Inl (ErrOther (''update heartbeat: '' @ se_Text e))
      | Inr (affected, s') \<Rightarrow>
          if affected = 0
          then (case sql_AgentByID database s' aid of Inl lookupErr \<Rightarrow> Inl lookupErr | Inr _ \<Rightarrow> Inr s')
          else Inr s')"

definition sql_ListAgents :: "'s SQLStore \<Rightarrow> 's \<Rightarrow> int \<Rightarrow> store_error + Agent list" where
  "sql_ListAgents database s limit =
     (case db_query (sq_db database) s (list_agents_sql (sq_dialect database)) [VInt (int (normalizeLimit limit))] of
        Inl e \<Rightarrow> Inl (ErrOther (''list agents: '' @ se_Text e))
      | Inr rs \<Rightarrow> scan_rows scan_listed_agent rs)"

text \<open>A transaction: the contents of its last statement, or, after an error, those before it.\<close>

definition transaction :: "string \<Rightarrow> 's SQLStore \<Rightarrow> 's \<Rightarrow> ('s \<Rightarrow> store_error + ('a \<times> 's)) \<Rightarrow> store_error + ('a \<times> 's)" where
  "transaction what database s body =
     (case db_begin (sq_db database) s of
        Some e \<Rightarrow> Inl (ErrOther (''begin '' @ what @ '' transaction: '' @ e))
      | None \<Rightarrow>
          (case body s of
             Inl e \<Rightarrow> Inl e
           | Inr (x, s') \<Rightarrow>
               (case db_commit (sq_db database) s' of
                  Some e \<Rightarrow> Inl (ErrOther (''commit '' @ what @ '' transaction: '' @ e))
                | None \<Rightarrow> Inr (x, s'))))"

fun insert_events :: "'s SQLStore \<Rightarrow> nat \<Rightarrow> Event list \<Rightarrow> 's \<Rightarrow> store_error + (nat \<times> 's)" where
  "insert_events database inserted [] s = Inr (inserted, s)"
| "insert_events database inserted (event # events) s =
     (case sj_map (sq_codec database) (event_Evidence event) of
        Inl e \<Rightarrow> Inl (ErrOther (''encode event evidence: '' @ e))
      | Inr evidence \<Rightarrow>
          (case db_exec (sq_db database) s (insert_event_sql (sq_dialect database)) (event_row event evidence) of
             Inl e \<Rightarrow> Inl (ErrOther (''insert security event: '' @ se_Text e))
           | Inr (affected, s') \<Rightarrow> insert_events database (if affected = 1 then Suc inserted else inserted) events s'))"

definition sql_SaveEvents :: "'s SQLStore \<Rightarrow> 's \<Rightarrow> Event list \<Rightarrow> store_error + (nat \<times> 's)" where
  "sql_SaveEvents database s events = transaction ''event'' database s (insert_events database 0 events)"

definition sql_ListAlerts :: "'s SQLStore \<Rightarrow> 's \<Rightarrow> AlertFilter \<Rightarrow> store_error + Event list" where
  "sql_ListAlerts database s f =
     (let limit = VInt (int (normalizeLimit (filter_Limit f)));
          arguments = (if filter_Severity f \<noteq> [] then [VStr (filter_Severity f), limit] else [limit])
      in case db_query (sq_db database) s (list_alerts_sql (sq_dialect database) (filter_Severity f \<noteq> [])) arguments of
           Inl e \<Rightarrow> Inl (ErrOther (''list security events: '' @ se_Text e))
         | Inr rs \<Rightarrow> scan_rows (scan_event_row (sq_codec database)) rs)"

definition sql_PolicyForAgent :: "'s SQLStore \<Rightarrow> 's \<Rightarrow> string \<Rightarrow> store_error + Policy" where
  "sql_PolicyForAgent database s agentID =
     (case db_query (sq_db database) s (policy_sql (sq_dialect database)) [VStr agentID] of
        Inl e \<Rightarrow> Inl (ErrOther (''read Agent policy: '' @ se_Text e))
      | Inr [] \<Rightarrow> Inl ErrNotFound
      | Inr (r # _) \<Rightarrow> (case scan_policy_row (sq_codec database) r of Inl e \<Rightarrow> Inl (ErrOther e) | Inr policy \<Rightarrow> Inr policy))"

text \<open>The revision that the row of the Agent has, read under a lock.\<close>

definition lock_revision :: "'s SQLStore \<Rightarrow> 's \<Rightarrow> string \<Rightarrow> error + int option" where
  "lock_revision database s agentID =
     (case db_query (sq_db database) s (lock_policy_sql (sq_dialect database)) [VStr agentID] of
        Inl e \<Rightarrow> Inl (se_Text e)
      | Inr [] \<Rightarrow> Inr None
      | Inr (r # _) \<Rightarrow> (case r of [VInt revision] \<Rightarrow> Inr (Some revision) | _ \<Rightarrow> Inl scan_error))"

definition write_policy :: "'s SQLStore \<Rightarrow> 's \<Rightarrow> Policy \<Rightarrow> int \<Rightarrow> string \<Rightarrow> store_error + 's" where
  "write_policy database s policy expectedRevision paths =
     (let db = sq_db database; d = sq_dialect database
      in case lock_revision database s (policy_AgentID policy) of
           Inl e \<Rightarrow> Inl (ErrOther (''lock Agent policy: '' @ e))
         | Inr None \<Rightarrow>
             if expectedRevision = 0
             then (case db_exec db s (insert_policy_sql d) (policy_row policy paths) of
                     Inl e \<Rightarrow> if duplicateError d e then Inl ErrConflict else Inl (ErrOther (''insert Agent policy: '' @ se_Text e))
                   | Inr (_, s') \<Rightarrow> Inr s')
             else Inl ErrConflict
         | Inr (Some currentRevision) \<Rightarrow>
             if currentRevision = expectedRevision
             then (case db_exec db s (update_policy_sql d)
                          [VInt (policy_Revision policy), VBool (policy_FileIntegrityEnabled policy), VBytes paths,
                           VBool (policy_SSHAuthEnabled policy), VInt (policy_SSHThreshold policy), VInt (policy_SSHWindowSeconds policy),
                           VBool (policy_RuntimeWatchEnabled policy), VTime (policy_UpdatedAt policy), VStr (policy_AgentID policy),
                           VInt expectedRevision] of
                     Inl e \<Rightarrow> Inl (ErrOther (''update Agent policy: '' @ se_Text e))
                   | Inr (affected, s') \<Rightarrow> if affected \<noteq> 1 then Inl ErrConflict else Inr s')
             else Inl ErrConflict)"

definition write_audit :: "'s SQLStore \<Rightarrow> 's \<Rightarrow> AuditLog \<Rightarrow> string \<Rightarrow> store_error + 's" where
  "write_audit database s audit details =
     (case db_exec (sq_db database) s (insert_audit_sql (sq_dialect database)) (audit_row audit details) of
        Inl e \<Rightarrow> Inl (ErrOther (''insert policy audit log: '' @ se_Text e))
      | Inr (_, s') \<Rightarrow> Inr s')"

definition sql_SavePolicyAndAudit :: "'s SQLStore \<Rightarrow> 's \<Rightarrow> Policy \<Rightarrow> int \<Rightarrow> AuditLog \<Rightarrow> store_error + 's" where
  "sql_SavePolicyAndAudit database s policy expectedRevision audit =
     (if expectedRevision < 0 \<or> policy_Revision policy \<noteq> wrap64 (expectedRevision + 1) then Inl ErrConflict
      else case sj_paths (sq_codec database) (policy_FileWatchPaths policy) of
        Inl e \<Rightarrow> Inl (ErrOther (''encode policy paths: '' @ e))
      | Inr paths \<Rightarrow>
          (case sj_map (sq_codec database) (audit_Details audit) of
             Inl e \<Rightarrow> Inl (ErrOther (''encode audit details: '' @ e))
           | Inr details \<Rightarrow>
               map_sum id snd (transaction ''policy'' database s (\<lambda>s.
                 try_then (write_policy database s policy expectedRevision paths) (\<lambda>s.
                   map_sum id (\<lambda>s. ((), s)) (write_audit database s audit details))))))"

definition sql_ListAuditLogs :: "'s SQLStore \<Rightarrow> 's \<Rightarrow> int \<Rightarrow> store_error + AuditLog list" where
  "sql_ListAuditLogs database s limit =
     (case db_query (sq_db database) s (list_audits_sql (sq_dialect database)) [VInt (int (normalizeLimit limit))] of
        Inl e \<Rightarrow> Inl (ErrOther (''list audit logs: '' @ se_Text e))
      | Inr rs \<Rightarrow> scan_rows (scan_audit_row (sq_codec database)) rs)"

text \<open>The interface \<open>Store\<close>.\<close>

definition sql_store :: "'s SQLStore \<Rightarrow> 's Store" where
  "sql_store database =
     \<lparr>st_CreateAgent = sql_CreateAgent database, st_AgentByID = sql_AgentByID database,
      st_AgentByMachineID = sql_AgentByMachineID database, st_UpdateHeartbeat = sql_UpdateHeartbeat database,
      st_ListAgents = sql_ListAgents database, st_SaveEvents = sql_SaveEvents database, st_ListAlerts = sql_ListAlerts database,
      st_PolicyForAgent = sql_PolicyForAgent database, st_SavePolicyAndAudit = sql_SavePolicyAndAudit database,
      st_ListAuditLogs = sql_ListAuditLogs database\<rparr>"

end
