(* ===== verification/Sql_Store_Props.thy ===== *)
theory Sql_Store_Props
  imports Sql_Store
begin

text \<open>
  The SQL store keeps the contract of theory Store_Spec. What the proof needs of the database is the meaning of each statement on a schema
  with the keys of the migrations (\<open>sql_ok\<close>), for contents that are seen as a \<open>repo\<close>. A column keeps a time up to its
  resolution (\<open>sv_tick\<close>; identifiers are compared exactly), and JSON what its decoder makes of it, so the contract holds for the stored form of a value.
\<close>

section \<open>The database\<close>

record 's sql_view =
  sv_invar :: "'s \<Rightarrow> bool"
  sv_repo :: "'s \<Rightarrow> repo"
  sv_tick :: "time \<Rightarrow> time"

definition kept_agent :: "(time \<Rightarrow> time) \<Rightarrow> Agent \<Rightarrow> Agent" where
  "kept_agent tick a = a\<lparr>agent_RegisteredAt := tick (agent_RegisteredAt a), agent_LastSeenAt := tick (agent_LastSeenAt a)\<rparr>"

definition kept_event :: "(time \<Rightarrow> time) \<Rightarrow> evidence \<Rightarrow> Event \<Rightarrow> Event" where
  "kept_event tick m e = e\<lparr>event_OccurredAt := tick (event_OccurredAt e), event_ReceivedAt := tick (event_ReceivedAt e), event_Evidence := m\<rparr>"

definition kept_policy :: "(time \<Rightarrow> time) \<Rightarrow> string list \<Rightarrow> Policy \<Rightarrow> Policy" where
  "kept_policy tick ps p = p\<lparr>policy_UpdatedAt := tick (policy_UpdatedAt p), policy_FileWatchPaths := ps\<rparr>"

definition kept_audit :: "(time \<Rightarrow> time) \<Rightarrow> evidence \<Rightarrow> AuditLog \<Rightarrow> AuditLog" where
  "kept_audit tick m a = a\<lparr>audit_OccurredAt := tick (audit_OccurredAt a), audit_Details := m\<rparr>"

lemma kept_keys [simp]:
  "agent_ID (kept_agent tick a) = agent_ID a" "agent_MachineID (kept_agent tick a) = agent_MachineID a"
  "event_ID (kept_event tick m e) = event_ID e" "policy_AgentID (kept_policy tick ps p) = policy_AgentID p"
  "policy_Revision (kept_policy tick ps p) = policy_Revision p" "audit_ID (kept_audit tick m au) = audit_ID au"
  "policy_ID (kept_policy tick ps p) = policy_ID p"
  by (simp_all add: kept_agent_def kept_event_def kept_policy_def kept_audit_def)

text \<open>\<open>INSERT\<close>, \<open>SELECT\<close> and \<open>UPDATE\<close> on the table of Agents, with the primary key \<open>id\<close> and the unique column \<open>machine_id\<close>. A database may count
  an update that changes nothing as no row.\<close>

definition agent_statements :: "'s SQLStore \<Rightarrow> 's sql_view \<Rightarrow> bool" where
  "agent_statements database v \<longleftrightarrow>
     (let db = sq_db database; d = sq_dialect database; tick = sv_tick v; agents = (\<lambda>s. repo_agents (sv_repo v s)) in
      (\<forall>s a n s'. sv_invar v s \<longrightarrow> db_exec db s (insert_agent_sql d) (agent_row a) = Inr (n, s') \<longrightarrow>
         sv_invar v s' \<and> agents s (agent_ID a) = None \<and> (\<forall>b \<in> ran (agents s). agent_MachineID b \<noteq> agent_MachineID a)
         \<and> sv_repo v s' = (sv_repo v s)\<lparr>repo_agents := (agents s)(agent_ID a \<mapsto> kept_agent tick a)\<rparr>)
      \<and> (\<forall>s a e. sv_invar v s \<longrightarrow> db_exec db s (insert_agent_sql d) (agent_row a) = Inl e \<longrightarrow> duplicateError d e \<longrightarrow>
         agents s (agent_ID a) \<noteq> None \<or> (\<exists>b \<in> ran (agents s). agent_MachineID b = agent_MachineID a))
      \<and> (\<forall>s aid rs. sv_invar v s \<longrightarrow> db_query db s (agent_by_id_sql d) [VStr aid] = Inr rs \<longrightarrow>
         rs = (case agents s aid of None \<Rightarrow> [] | Some a \<Rightarrow> [agent_row a]))
      \<and> (\<forall>s mid rs. sv_invar v s \<longrightarrow> db_query db s (agent_by_machine_sql d) [VStr mid] = Inr rs \<longrightarrow>
         (\<exists>as. rs = map agent_row as \<and> set as = {a \<in> ran (agents s). agent_MachineID a = mid}))
      \<and> (\<forall>s aid t ver n s'. sv_invar v s \<longrightarrow> db_exec db s (heartbeat_sql d) [VTime t, VStr ver, VStr ver, VStr aid] = Inr (n, s') \<longrightarrow>
         sv_invar v s' \<and> (case agents s aid of
            None \<Rightarrow> n = 0 \<and> sv_repo v s' = sv_repo v s
          | Some a \<Rightarrow> sv_repo v s' = (sv_repo v s)\<lparr>repo_agents := (agents s)(aid \<mapsto>
              a\<lparr>agent_LastSeenAt := tick t, agent_Version := (if ver = [] then agent_Version a else ver)\<rparr>)\<rparr>))
      \<and> (\<forall>s k rs. sv_invar v s \<longrightarrow> db_query db s (list_agents_sql d) [VInt (int k)] = Inr rs \<longrightarrow>
         (\<exists>as. rs = map (\<lambda>a. take 6 (agent_row a) @ drop 7 (agent_row a)) as
            \<and> newest_first agent_RegisteredAt k ((\<lambda>a. a\<lparr>agent_CredentialHash := []\<rparr>) ` ran (agents s))
                (map (\<lambda>a. a\<lparr>agent_CredentialHash := []\<rparr>) as))))"

text \<open>The table of events: an insertion whose key exists does nothing and does not count as one row.\<close>

definition event_statements :: "'s SQLStore \<Rightarrow> 's sql_view \<Rightarrow> bool" where
  "event_statements database v \<longleftrightarrow>
     (let db = sq_db database; d = sq_dialect database; codec = sq_codec database; events = (\<lambda>s. repo_events (sv_repo v s)) in
      (\<forall>s e x m n s'. sv_invar v s \<longrightarrow> sj_map_of codec x = Inr m \<longrightarrow>
         db_exec db s (insert_event_sql d) (event_row e x) = Inr (n, s') \<longrightarrow>
         sv_invar v s' \<and> (if events s (event_ID e) \<noteq> None then n \<noteq> 1 \<and> sv_repo v s' = sv_repo v s
           else n = 1 \<and> sv_repo v s' = (sv_repo v s)\<lparr>repo_events := (events s)(event_ID e \<mapsto> kept_event (sv_tick v) m e)\<rparr>))
      \<and> (\<forall>s sev k rs. sv_invar v s \<longrightarrow> db_query db s (list_alerts_sql d (sev \<noteq> []))
           (if sev \<noteq> [] then [VStr sev, VInt (int k)] else [VInt (int k)]) = Inr rs \<longrightarrow>
         (\<exists>es. list_all2 (\<lambda>r e. \<exists>x. r = event_row e x \<and> sj_map_of codec x = Inr (event_Evidence e)) rs es
            \<and> newest_first event_ReceivedAt k {e \<in> ran (events s). sev = [] \<or> event_Severity e = sev} es)))"

text \<open>The table of policies, with the primary key \<open>id\<close>, the unique column \<open>agent_id\<close> and the check on the revision. An update does not
  change \<open>id\<close>.\<close>

definition policy_statements :: "'s SQLStore \<Rightarrow> 's sql_view \<Rightarrow> bool" where
  "policy_statements database v \<longleftrightarrow>
     (let db = sq_db database; d = sq_dialect database; codec = sq_codec database; tick = sv_tick v;
          policies = (\<lambda>s. repo_policies (sv_repo v s)) in
      (\<forall>s p. sv_invar v s \<longrightarrow> p \<in> ran (policies s) \<longrightarrow> 0 < policy_Revision p)
      \<and> (\<forall>s aid rs. sv_invar v s \<longrightarrow> db_query db s (policy_sql d) [VStr aid] = Inr rs \<longrightarrow>
         (case policies s aid of None \<Rightarrow> rs = []
          | Some p \<Rightarrow> \<exists>x. rs = [policy_row p x] \<and> sj_paths_of codec x = Inr (policy_FileWatchPaths p)))
      \<and> (\<forall>s aid rs. sv_invar v s \<longrightarrow> db_query db s (lock_policy_sql d) [VStr aid] = Inr rs \<longrightarrow>
         rs = (case policies s aid of None \<Rightarrow> [] | Some p \<Rightarrow> [[VInt (policy_Revision p)]]))
      \<and> (\<forall>s p x ps n s'. sv_invar v s \<longrightarrow> sj_paths_of codec x = Inr ps \<longrightarrow>
         db_exec db s (insert_policy_sql d) (policy_row p x) = Inr (n, s') \<longrightarrow>
         sv_invar v s' \<and> sv_repo v s' = (sv_repo v s)\<lparr>repo_policies := (policies s)(policy_AgentID p \<mapsto> kept_policy tick ps p)\<rparr>)
      \<and> (\<forall>s p x e. sv_invar v s \<longrightarrow> db_exec db s (insert_policy_sql d) (policy_row p x) = Inl e \<longrightarrow> duplicateError d e \<longrightarrow>
         policies s (policy_AgentID p) \<noteq> None \<or> (\<exists>q \<in> ran (policies s). policy_ID q = policy_ID p))
      \<and> (\<forall>s p x ps q n s'. sv_invar v s \<longrightarrow> sj_paths_of codec x = Inr ps \<longrightarrow> policies s (policy_AgentID p) = Some q \<longrightarrow>
         policy_Revision p \<noteq> policy_Revision q \<longrightarrow>
         db_exec db s (update_policy_sql d)
           [VInt (policy_Revision p), VBool (policy_FileIntegrityEnabled p), VBytes x, VBool (policy_SSHAuthEnabled p),
            VInt (policy_SSHThreshold p), VInt (policy_SSHWindowSeconds p), VBool (policy_RuntimeWatchEnabled p), VTime (policy_UpdatedAt p),
            VStr (policy_AgentID p), VInt (policy_Revision q)] = Inr (n, s') \<longrightarrow>
         n = 1 \<and> sv_invar v s' \<and> sv_repo v s' = (sv_repo v s)\<lparr>repo_policies := (policies s)(policy_AgentID p \<mapsto>
           (kept_policy tick ps p)\<lparr>policy_ID := policy_ID q\<rparr>)\<rparr>))"

definition audit_statements :: "'s SQLStore \<Rightarrow> 's sql_view \<Rightarrow> bool" where
  "audit_statements database v \<longleftrightarrow>
     (let db = sq_db database; d = sq_dialect database; codec = sq_codec database; audits = (\<lambda>s. repo_audits (sv_repo v s)) in
      (\<forall>s a x m n s'. sv_invar v s \<longrightarrow> sj_map_of codec x = Inr m \<longrightarrow>
         db_exec db s (insert_audit_sql d) (audit_row a x) = Inr (n, s') \<longrightarrow>
         sv_invar v s' \<and> audits s (audit_ID a) = None
         \<and> sv_repo v s' = (sv_repo v s)\<lparr>repo_audits := (audits s)(audit_ID a \<mapsto> kept_audit (sv_tick v) m a)\<rparr>)
      \<and> (\<forall>s k rs. sv_invar v s \<longrightarrow> db_query db s (list_audits_sql d) [VInt (int k)] = Inr rs \<longrightarrow>
         (\<exists>as. list_all2 (\<lambda>r a. \<exists>x. r = audit_row a x \<and> sj_map_of codec x = Inr (audit_Details a)) rs as
            \<and> newest_first audit_OccurredAt k (ran (audits s)) as)))"

text \<open>What was encoded decodes.\<close>

definition sql_codec_ok :: "sql_codec \<Rightarrow> bool" where
  "sql_codec_ok codec \<longleftrightarrow> (\<forall>m x. sj_map codec m = Inr x \<longrightarrow> (\<exists>m'. sj_map_of codec x = Inr m'))
     \<and> (\<forall>ps x. sj_paths codec ps = Inr x \<longrightarrow> (\<exists>ps'. sj_paths_of codec x = Inr ps'))"

definition sql_ok :: "'s SQLStore \<Rightarrow> 's sql_view \<Rightarrow> bool" where
  "sql_ok database v \<longleftrightarrow> sql_codec_ok (sq_codec database) \<and> agent_statements database v \<and> event_statements database v
     \<and> policy_statements database v \<and> audit_statements database v"

lemma sql_okD:
  assumes "sql_ok database v"
  shows "sql_codec_ok (sq_codec database)" "agent_statements database v" "event_statements database v"
    "policy_statements database v" "audit_statements database v"
  using assms by (simp_all add: sql_ok_def)

section \<open>The stored form of a value\<close>

definition json_map :: "sql_codec \<Rightarrow> evidence \<Rightarrow> evidence" where
  "json_map codec m = projr (sj_map_of codec (projr (sj_map codec m)))"

definition json_paths :: "sql_codec \<Rightarrow> string list \<Rightarrow> string list" where
  "json_paths codec ps = projr (sj_paths_of codec (projr (sj_paths codec ps)))"

lemma json_map_decodes: "sql_codec_ok codec \<Longrightarrow> sj_map codec m = Inr x \<Longrightarrow> sj_map_of codec x = Inr (json_map codec m)"
  by (auto simp: sql_codec_ok_def json_map_def dest!: spec)

lemma json_paths_decodes: "sql_codec_ok codec \<Longrightarrow> sj_paths codec ps = Inr x \<Longrightarrow> sj_paths_of codec x = Inr (json_paths codec ps)"
  by (auto simp: sql_codec_ok_def json_paths_def dest!: spec)

definition db_event :: "sql_codec \<Rightarrow> (time \<Rightarrow> time) \<Rightarrow> Event \<Rightarrow> Event" where
  "db_event codec tick e = kept_event tick (json_map codec (event_Evidence e)) e"

definition db_policy :: "sql_codec \<Rightarrow> (time \<Rightarrow> time) \<Rightarrow> Policy \<Rightarrow> Policy" where
  "db_policy codec tick p = kept_policy tick (json_paths codec (policy_FileWatchPaths p)) p"

definition db_audit :: "sql_codec \<Rightarrow> (time \<Rightarrow> time) \<Rightarrow> AuditLog \<Rightarrow> AuditLog" where
  "db_audit codec tick a = kept_audit tick (json_map codec (audit_Details a)) a"

section \<open>Rows are read back\<close>

lemma scan_agent_row_inv [simp]: "scan_agent_row (agent_row a) = Inr a"
  by (simp add: scan_agent_row_def agent_row_def)

lemma scan_listed_agent_row: "scan_listed_agent (take 6 (agent_row a) @ drop 7 (agent_row a)) = Inr (a\<lparr>agent_CredentialHash := []\<rparr>)"
  by (simp add: scan_listed_agent_def agent_row_def scan_agent_row_def)

lemma scan_event_row_inv: "sj_map_of codec x = Inr (event_Evidence e) \<Longrightarrow> scan_event_row codec (event_row e x) = Inr e"
  by (simp add: scan_event_row_def event_row_def)

lemma scan_policy_row_inv: "sj_paths_of codec x = Inr (policy_FileWatchPaths p) \<Longrightarrow> scan_policy_row codec (policy_row p x) = Inr p"
  by (simp add: scan_policy_row_def policy_row_def)

lemma scan_audit_row_inv: "sj_map_of codec x = Inr (audit_Details a) \<Longrightarrow> scan_audit_row codec (audit_row a x) = Inr a"
  by (simp add: scan_audit_row_def audit_row_def)

lemma scan_rows_all: "list_all2 (\<lambda>r x. scan r = Inr x) rs xs \<Longrightarrow> scan_rows scan rs = Inr xs"
  by (induction rule: list_all2_induct) auto

lemma scan_rows_map: "(\<And>x. scan (f x) = Inr (g x)) \<Longrightarrow> scan_rows scan (map f xs) = Inr (map g xs)"
  by (induction xs) auto

section \<open>The operations keep the contract\<close>

lemma insert_agent_law:
  assumes "sql_ok database v" and "sv_invar v s"
  shows "db_exec (sq_db database) s (insert_agent_sql (sq_dialect database)) (agent_row a) = Inr (n, s') \<Longrightarrow>
      sv_invar v s' \<and> repo_create_agent (sv_repo v s) (kept_agent (sv_tick v) a) = Inr (sv_repo v s')"
    and "db_exec (sq_db database) s (insert_agent_sql (sq_dialect database)) (agent_row a) = Inl e \<Longrightarrow> duplicateError (sq_dialect database) e \<Longrightarrow>
      repo_create_agent (sv_repo v s) (kept_agent (sv_tick v) a) = Inl ErrConflict"
proof -
  note law = sql_okD(2) [OF assms(1), unfolded agent_statements_def Let_def]
  show "sv_invar v s' \<and> repo_create_agent (sv_repo v s) (kept_agent (sv_tick v) a) = Inr (sv_repo v s')"
    if x: "db_exec (sq_db database) s (insert_agent_sql (sq_dialect database)) (agent_row a) = Inr (n, s')"
  proof -
    have "sv_invar v s' \<and> repo_agents (sv_repo v s) (agent_ID a) = None
        \<and> (\<forall>b \<in> ran (repo_agents (sv_repo v s)). agent_MachineID b \<noteq> agent_MachineID a)
        \<and> sv_repo v s' = (sv_repo v s)\<lparr>repo_agents := (repo_agents (sv_repo v s))(agent_ID a \<mapsto> kept_agent (sv_tick v) a)\<rparr>"
      using law [THEN conjunct1, rule_format, OF assms(2) x] .
    then show ?thesis by (simp add: repo_create_agent_def domIff)
  qed
  show "repo_create_agent (sv_repo v s) (kept_agent (sv_tick v) a) = Inl ErrConflict"
    if x: "db_exec (sq_db database) s (insert_agent_sql (sq_dialect database)) (agent_row a) = Inl e" "duplicateError (sq_dialect database) e"
  proof -
    have "repo_agents (sv_repo v s) (agent_ID a) \<noteq> None \<or> (\<exists>b \<in> ran (repo_agents (sv_repo v s)). agent_MachineID b = agent_MachineID a)"
      using law [THEN conjunct2, THEN conjunct1, rule_format, OF assms(2) x] .
    then show ?thesis by (simp add: repo_create_agent_def domIff)
  qed
qed

lemma sql_CreateAgent_sim:
  assumes "sql_ok database v" and "sv_invar v s"
  shows "sim (sv_repo v) (sql_CreateAgent database s a) (repo_create_agent (sv_repo v s) (kept_agent (sv_tick v) a))"
    and "sql_CreateAgent database s a = Inr s' \<Longrightarrow> sv_invar v s'"
  using insert_agent_law [OF assms, of a]
  by (auto simp: sql_CreateAgent_def sim_def split: sum.splits if_splits)

lemma sql_AgentByID_sim:
  assumes "sql_ok database v" and "sv_invar v s"
  shows "sim id (sql_AgentByID database s aid)
    (case repo_agents (sv_repo v s) aid of None \<Rightarrow> Inl ErrNotFound | Some a \<Rightarrow> Inr a)"
proof (cases "db_query (sq_db database) s (agent_by_id_sql (sq_dialect database)) [VStr aid]")
  case (Inr rs)
  then have "rs = (case repo_agents (sv_repo v s) aid of None \<Rightarrow> [] | Some a \<Rightarrow> [agent_row a])"
    using sql_okD(2) [OF assms(1), unfolded agent_statements_def Let_def] assms(2) by blast
  then show ?thesis using Inr by (auto simp: sql_AgentByID_def scanAgent_def sim_def split: option.splits)
qed (auto simp: sql_AgentByID_def scanAgent_def sim_def)

lemma sql_AgentByMachineID_sim:
  assumes "sql_ok database v" and "sv_invar v s"
  shows "case sql_AgentByMachineID database s mid of
      Inr a \<Rightarrow> a \<in> ran (repo_agents (sv_repo v s)) \<and> agent_MachineID a = mid
    | Inl err \<Rightarrow> err \<noteq> ErrConflict \<and> (err = ErrNotFound \<longrightarrow> (\<forall>a \<in> ran (repo_agents (sv_repo v s)). agent_MachineID a \<noteq> mid))"
proof (cases "db_query (sq_db database) s (agent_by_machine_sql (sq_dialect database)) [VStr mid]")
  case (Inr rs)
  then obtain as where as: "rs = map agent_row as" "set as = {a \<in> ran (repo_agents (sv_repo v s)). agent_MachineID a = mid}"
    using sql_okD(2) [OF assms(1), unfolded agent_statements_def Let_def] assms(2) by blast
  then show ?thesis using Inr by (cases as) (auto simp: sql_AgentByMachineID_def scanAgent_def)
qed (auto simp: sql_AgentByMachineID_def scanAgent_def)

lemma sql_UpdateHeartbeat_sim:
  assumes "sql_ok database v" and "sv_invar v s"
  shows "sim (sv_repo v) (sql_UpdateHeartbeat database s aid hb)
      (repo_heartbeat (sv_repo v s) aid (hb\<lparr>hb_SentAt := sv_tick v (hb_SentAt hb)\<rparr>))"
    and "sql_UpdateHeartbeat database s aid hb = Inr s' \<Longrightarrow> sv_invar v s'"
proof -
  let ?x = "db_exec (sq_db database) s (heartbeat_sql (sq_dialect database))
      [VTime (hb_SentAt hb), VStr (hb_AgentVersion hb), VStr (hb_AgentVersion hb), VStr aid]"
  have law: "sv_invar v s1 \<and> (case repo_agents (sv_repo v s) aid of
      None \<Rightarrow> n = 0 \<and> sv_repo v s1 = sv_repo v s
    | Some a \<Rightarrow> repo_heartbeat (sv_repo v s) aid (hb\<lparr>hb_SentAt := sv_tick v (hb_SentAt hb)\<rparr>) = Inr (sv_repo v s1))"
    if x: "?x = Inr (n, s1)" for n s1
  proof -
    have "sv_invar v s1 \<and> (case repo_agents (sv_repo v s) aid of
        None \<Rightarrow> n = 0 \<and> sv_repo v s1 = sv_repo v s
      | Some a \<Rightarrow> sv_repo v s1 = (sv_repo v s)\<lparr>repo_agents := (repo_agents (sv_repo v s))(aid \<mapsto>
          a\<lparr>agent_LastSeenAt := sv_tick v (hb_SentAt hb), agent_Version := (if hb_AgentVersion hb = [] then agent_Version a else hb_AgentVersion hb)\<rparr>)\<rparr>)"
      using sql_okD(2) [OF assms(1), unfolded agent_statements_def Let_def] assms(2) x by blast
    then show ?thesis by (auto simp: repo_heartbeat_def split: option.splits)
  qed
  show "sim (sv_repo v) (sql_UpdateHeartbeat database s aid hb)
      (repo_heartbeat (sv_repo v s) aid (hb\<lparr>hb_SentAt := sv_tick v (hb_SentAt hb)\<rparr>))"
  proof (cases ?x)
    case (Inr r)
    obtain n s1 where x: "?x = Inr (n, s1)" using Inr by (cases r) auto
    note l = law [OF x]
    have by_id: "sim id (sql_AgentByID database s1 aid) (case repo_agents (sv_repo v s1) aid of None \<Rightarrow> Inl ErrNotFound | Some a \<Rightarrow> Inr a)"
      by (rule sql_AgentByID_sim [OF assms(1)]) (use l in blast)
    show ?thesis
    proof (cases "repo_agents (sv_repo v s) aid")
      case None
      then have "n = 0" "repo_agents (sv_repo v s1) aid = None" "repo_heartbeat (sv_repo v s) aid h = Inl ErrNotFound" for h
        using l by (auto simp: repo_heartbeat_def)
      then show ?thesis using by_id x by (cases "sql_AgentByID database s1 aid") (auto simp: sql_UpdateHeartbeat_def sim_def)
    next
      case (Some a)
      then have h: "repo_heartbeat (sv_repo v s) aid (hb\<lparr>hb_SentAt := sv_tick v (hb_SentAt hb)\<rparr>) = Inr (sv_repo v s1)" using l by simp
      then have "repo_agents (sv_repo v s1) aid \<noteq> None" using Some by (auto simp: repo_heartbeat_def dest!: sym [of "_ \<lparr>repo_agents := _\<rparr>"])
      then show ?thesis using by_id x h by (cases "sql_AgentByID database s1 aid") (auto simp: sql_UpdateHeartbeat_def sim_def)
    qed
  qed (simp add: sql_UpdateHeartbeat_def sim_def)
  show "sql_UpdateHeartbeat database s aid hb = Inr s' \<Longrightarrow> sv_invar v s'"
    using law by (fastforce simp: sql_UpdateHeartbeat_def split: sum.splits if_splits prod.splits)
qed

lemma sql_ListAgents_newest:
  assumes "sql_ok database v" and "sv_invar v s" and "sql_ListAgents database s limit = Inr agents"
  shows "newest_first agent_RegisteredAt (normalizeLimit limit)
    ((\<lambda>a. a\<lparr>agent_CredentialHash := []\<rparr>) ` ran (repo_agents (sv_repo v s))) agents"
proof -
  obtain rs where rs: "db_query (sq_db database) s (list_agents_sql (sq_dialect database)) [VInt (int (normalizeLimit limit))] = Inr rs"
      "scan_rows scan_listed_agent rs = Inr agents"
    using assms(3) by (auto simp: sql_ListAgents_def split: sum.splits)
  then obtain as where as: "rs = map (\<lambda>a. take 6 (agent_row a) @ drop 7 (agent_row a)) as"
      "newest_first agent_RegisteredAt (normalizeLimit limit) ((\<lambda>a. a\<lparr>agent_CredentialHash := []\<rparr>) ` ran (repo_agents (sv_repo v s)))
         (map (\<lambda>a. a\<lparr>agent_CredentialHash := []\<rparr>) as)"
    using sql_okD(2) [OF assms(1), unfolded agent_statements_def Let_def] assms(2) by blast
  have "scan_rows scan_listed_agent rs = Inr (map (\<lambda>a. a\<lparr>agent_CredentialHash := []\<rparr>) as)"
    unfolding as(1) by (rule scan_rows_map) (rule scan_listed_agent_row)
  then show ?thesis using rs(2) as(2) by simp
qed

text \<open>The loop of \<open>SaveEvents\<close>: it counts the rows that were inserted.\<close>

lemma insert_events_sim:
  assumes "sql_ok database v"
  shows "sv_invar v s \<Longrightarrow> insert_events database inserted es s = Inr (n, s') \<Longrightarrow> sv_invar v s'
    \<and> map_prod (\<lambda>k. inserted + k) (\<lambda>m. (sv_repo v s)\<lparr>repo_events := m\<rparr>)
        (add_events (repo_events (sv_repo v s)) (map (db_event (sq_codec database) (sv_tick v)) es)) = (n, sv_repo v s')"
proof (induction es arbitrary: inserted s)
  case (Cons e es)
  let ?f = "db_event (sq_codec database) (sv_tick v)"
  obtain x k s1 where x: "sj_map (sq_codec database) (event_Evidence e) = Inr x"
      "db_exec (sq_db database) s (insert_event_sql (sq_dialect database)) (event_row e x) = Inr (k, s1)"
      "insert_events database (if k = 1 then Suc inserted else inserted) es s1 = Inr (n, s')"
    using Cons.prems(2) by (auto split: sum.splits)
  have m: "sj_map_of (sq_codec database) x = Inr (json_map (sq_codec database) (event_Evidence e))"
    by (rule json_map_decodes [OF sql_okD(1) [OF assms] x(1)])
  have l: "sv_invar v s1 \<and> (if repo_events (sv_repo v s) (event_ID e) \<noteq> None then k \<noteq> 1 \<and> sv_repo v s1 = sv_repo v s
      else k = 1 \<and> sv_repo v s1 = (sv_repo v s)\<lparr>repo_events := (repo_events (sv_repo v s))(event_ID e \<mapsto> ?f e)\<rparr>)"
    using sql_okD(3) [OF assms, unfolded event_statements_def Let_def] Cons.prems(1) m x(2) unfolding db_event_def by blast
  have i: "event_ID (?f e) = event_ID e" by (simp add: db_event_def)
  have IH: "sv_invar v s' \<and> map_prod (\<lambda>j. (if k = 1 then Suc inserted else inserted) + j) (\<lambda>m. (sv_repo v s1)\<lparr>repo_events := m\<rparr>)
        (add_events (repo_events (sv_repo v s1)) (map ?f es)) = (n, sv_repo v s')"
    using Cons.IH [OF _ x(3)] l by blast
  show ?case
  proof (cases "repo_events (sv_repo v s) (event_ID e) = None")
    case True
    then show ?thesis using IH l i by (auto simp: domIff map_prod_def split_beta)
  next
    case False
    then show ?thesis using IH l i by (auto simp: domIff)
  qed
qed (auto simp: map_prod_def)

lemma sql_SaveEvents_sim:
  assumes "sql_ok database v" and "sv_invar v s"
  shows "sim (map_prod id (sv_repo v)) (sql_SaveEvents database s es)
      (Inr (repo_save_events (sv_repo v s) (map (db_event (sq_codec database) (sv_tick v)) es)))"
    and "sql_SaveEvents database s es = Inr (n, s') \<Longrightarrow> sv_invar v s'"
proof -
  have other: "insert_events database k es s = Inl err \<Longrightarrow> \<exists>e. err = ErrOther e" for k err and s :: 'a
    by (induction es arbitrary: k s) (auto split: sum.splits)
  have ok: "insert_events database 0 es s = Inr (k, s1) \<Longrightarrow>
      (k, sv_repo v s1) = repo_save_events (sv_repo v s) (map (db_event (sq_codec database) (sv_tick v)) es) \<and> sv_invar v s1" for k s1
    using insert_events_sim [OF assms, of 0 es k s1] by (auto simp: repo_save_events_def map_prod_def split_beta)
  show "sim (map_prod id (sv_repo v)) (sql_SaveEvents database s es)
      (Inr (repo_save_events (sv_repo v s) (map (db_event (sq_codec database) (sv_tick v)) es)))"
    using other ok by (cases "insert_events database 0 es s")
      (auto simp: sql_SaveEvents_def transaction_def sim_def split: option.splits)
  show "sql_SaveEvents database s es = Inr (n, s') \<Longrightarrow> sv_invar v s'"
    using ok by (auto simp: sql_SaveEvents_def transaction_def split: option.splits sum.splits)
qed

lemma sql_ListAlerts_newest:
  assumes "sql_ok database v" and "sv_invar v s" and "sql_ListAlerts database s f = Inr alerts"
  shows "newest_first event_ReceivedAt (normalizeLimit (filter_Limit f))
    {e \<in> ran (repo_events (sv_repo v s)). filter_Severity f = [] \<or> event_Severity e = filter_Severity f} alerts"
proof -
  let ?k = "normalizeLimit (filter_Limit f)" and ?sev = "filter_Severity f"
  obtain rs where rs: "db_query (sq_db database) s (list_alerts_sql (sq_dialect database) (?sev \<noteq> []))
      (if ?sev \<noteq> [] then [VStr ?sev, VInt (int ?k)] else [VInt (int ?k)]) = Inr rs"
      "scan_rows (scan_event_row (sq_codec database)) rs = Inr alerts"
    using assms(3) by (auto simp: sql_ListAlerts_def Let_def split: sum.splits)
  obtain es where es: "list_all2 (\<lambda>r e. \<exists>x. r = event_row e x \<and> sj_map_of (sq_codec database) x = Inr (event_Evidence e)) rs es"
      "newest_first event_ReceivedAt ?k {e \<in> ran (repo_events (sv_repo v s)). ?sev = [] \<or> event_Severity e = ?sev} es"
    using sql_okD(3) [OF assms(1), unfolded event_statements_def Let_def, THEN conjunct2, rule_format, OF assms(2) rs(1)] by blast
  have "scan_rows (scan_event_row (sq_codec database)) rs = Inr es"
    by (rule scan_rows_all, rule list.rel_mono_strong [OF es(1)]) (auto simp: scan_event_row_inv)
  then show ?thesis using rs(2) es(2) by simp
qed

lemma sql_ListAuditLogs_newest:
  assumes "sql_ok database v" and "sv_invar v s" and "sql_ListAuditLogs database s limit = Inr logs"
  shows "newest_first audit_OccurredAt (normalizeLimit limit) (ran (repo_audits (sv_repo v s))) logs"
proof -
  obtain rs where rs: "db_query (sq_db database) s (list_audits_sql (sq_dialect database)) [VInt (int (normalizeLimit limit))] = Inr rs"
      "scan_rows (scan_audit_row (sq_codec database)) rs = Inr logs"
    using assms(3) by (auto simp: sql_ListAuditLogs_def split: sum.splits)
  obtain as where as: "list_all2 (\<lambda>r a. \<exists>x. r = audit_row a x \<and> sj_map_of (sq_codec database) x = Inr (audit_Details a)) rs as"
      "newest_first audit_OccurredAt (normalizeLimit limit) (ran (repo_audits (sv_repo v s))) as"
    using sql_okD(5) [OF assms(1), unfolded audit_statements_def Let_def, THEN conjunct2, rule_format, OF assms(2) rs(1)] by blast
  have "scan_rows (scan_audit_row (sq_codec database)) rs = Inr as"
    by (rule scan_rows_all, rule list.rel_mono_strong [OF as(1)]) (auto simp: scan_audit_row_inv)
  then show ?thesis using rs(2) as(2) by simp
qed

lemma policy_laws:
  assumes "sql_ok database v" and "sv_invar v s"
  shows "\<And>p. p \<in> ran (repo_policies (sv_repo v s)) \<Longrightarrow> 0 < policy_Revision p"
    and "\<And>aid rs. db_query (sq_db database) s (policy_sql (sq_dialect database)) [VStr aid] = Inr rs \<Longrightarrow>
      case repo_policies (sv_repo v s) aid of None \<Rightarrow> rs = []
      | Some p \<Rightarrow> \<exists>x. rs = [policy_row p x] \<and> sj_paths_of (sq_codec database) x = Inr (policy_FileWatchPaths p)"
    and "\<And>aid rs. db_query (sq_db database) s (lock_policy_sql (sq_dialect database)) [VStr aid] = Inr rs \<Longrightarrow>
      rs = (case repo_policies (sv_repo v s) aid of None \<Rightarrow> [] | Some p \<Rightarrow> [[VInt (policy_Revision p)]])"
proof -
  note law = sql_okD(4) [OF assms(1), unfolded policy_statements_def Let_def]
  show "\<And>p. p \<in> ran (repo_policies (sv_repo v s)) \<Longrightarrow> 0 < policy_Revision p"
    using law [THEN conjunct1, rule_format, OF assms(2)] .
  show "\<And>aid rs. db_query (sq_db database) s (policy_sql (sq_dialect database)) [VStr aid] = Inr rs \<Longrightarrow>
      case repo_policies (sv_repo v s) aid of None \<Rightarrow> rs = []
      | Some p \<Rightarrow> \<exists>x. rs = [policy_row p x] \<and> sj_paths_of (sq_codec database) x = Inr (policy_FileWatchPaths p)"
    using law [THEN conjunct2, THEN conjunct1, rule_format, OF assms(2)] .
  show "\<And>aid rs. db_query (sq_db database) s (lock_policy_sql (sq_dialect database)) [VStr aid] = Inr rs \<Longrightarrow>
      rs = (case repo_policies (sv_repo v s) aid of None \<Rightarrow> [] | Some p \<Rightarrow> [[VInt (policy_Revision p)]])"
    using law [THEN conjunct2, THEN conjunct2, THEN conjunct1, rule_format, OF assms(2)] .
qed

lemma sql_PolicyForAgent_sim:
  assumes "sql_ok database v" and "sv_invar v s"
  shows "sim id (sql_PolicyForAgent database s aid)
    (case repo_policies (sv_repo v s) aid of None \<Rightarrow> Inl ErrNotFound | Some p \<Rightarrow> Inr p)"
proof (cases "db_query (sq_db database) s (policy_sql (sq_dialect database)) [VStr aid]")
  case (Inr rs)
  show ?thesis
    using policy_laws(2) [OF assms Inr] Inr
    by (auto simp: sql_PolicyForAgent_def sim_def scan_policy_row_inv split: option.splits)
qed (simp add: sql_PolicyForAgent_def sim_def)

text \<open>The identifier of the policy is the one the Agent's policy has, or a new one; the control plane sees to that.\<close>

definition policy_id_fits :: "repo \<Rightarrow> Policy \<Rightarrow> bool" where
  "policy_id_fits r p \<longleftrightarrow> (case repo_policies r (policy_AgentID p) of
     None \<Rightarrow> (\<forall>q \<in> ran (repo_policies r). policy_ID q \<noteq> policy_ID p) | Some q \<Rightarrow> policy_ID q = policy_ID p)"

definition expected_matches :: "repo \<Rightarrow> Policy \<Rightarrow> int \<Rightarrow> bool" where
  "expected_matches r p expected \<longleftrightarrow> (case repo_policies r (policy_AgentID p) of None \<Rightarrow> expected = 0 | Some q \<Rightarrow> policy_Revision q = expected)"

lemma lock_revision_Inr:
  assumes "sql_ok database v" and "sv_invar v s" and "lock_revision database s aid = Inr revision"
  shows "revision = map_option policy_Revision (repo_policies (sv_repo v s) aid)"
proof (cases "db_query (sq_db database) s (lock_policy_sql (sq_dialect database)) [VStr aid]")
  case (Inr rs)
  then show ?thesis
    using assms(3) policy_laws(3) [OF assms(1,2) Inr] by (cases "repo_policies (sv_repo v s) aid") (auto simp: lock_revision_def)
qed (use assms(3) in \<open>simp add: lock_revision_def\<close>)

lemma write_policy_sim:
  assumes "sql_ok database v" and "sv_invar v s" and "sj_paths (sq_codec database) (policy_FileWatchPaths p) = Inr x"
    and "policy_id_fits (sv_repo v s) p" and "policy_Revision p \<noteq> expected"
  shows "case write_policy database s p expected x of
      Inl err \<Rightarrow> (\<exists>e. err = ErrOther e) \<or> err = ErrConflict \<and> \<not> expected_matches (sv_repo v s) p expected
    | Inr s' \<Rightarrow> sv_invar v s' \<and> expected_matches (sv_repo v s) p expected
        \<and> sv_repo v s' = (sv_repo v s)\<lparr>repo_policies := (repo_policies (sv_repo v s))(policy_AgentID p \<mapsto> db_policy (sq_codec database) (sv_tick v) p)\<rparr>"
proof -
  let ?db = "sq_db database" and ?d = "sq_dialect database" and ?r = "sv_repo v s" and ?aid = "policy_AgentID p"
  note law = sql_okD(4) [OF assms(1), unfolded policy_statements_def Let_def, THEN conjunct2, THEN conjunct2, THEN conjunct2]
  have dec: "sj_paths_of (sq_codec database) x = Inr (json_paths (sq_codec database) (policy_FileWatchPaths p))"
    by (rule json_paths_decodes [OF sql_okD(1) [OF assms(1)] assms(3)])
  consider e where "lock_revision database s ?aid = Inl e"
    | "lock_revision database s ?aid = Inr (map_option policy_Revision (repo_policies ?r ?aid))"
    using lock_revision_Inr [OF assms(1,2), of ?aid] by (cases "lock_revision database s ?aid") auto
  then show ?thesis
  proof cases
    case 2
    show ?thesis
    proof (cases "repo_policies ?r ?aid")
      case None
      have dup: "\<not> duplicateError ?d e" if "db_exec ?db s (insert_policy_sql ?d) (policy_row p x) = Inl e" for e
        using law [THEN conjunct2, THEN conjunct1, rule_format, OF assms(2) that] None assms(4) by (auto simp: policy_id_fits_def)
      have put: "sv_invar v s' \<and> sv_repo v s' = ?r\<lparr>repo_policies := (repo_policies ?r)(?aid \<mapsto> db_policy (sq_codec database) (sv_tick v) p)\<rparr>"
        if "db_exec ?db s (insert_policy_sql ?d) (policy_row p x) = Inr (n, s')" for n s'
        using law [THEN conjunct1, rule_format, OF assms(2) dec that] by (simp add: db_policy_def)
      show ?thesis
        using 2 None dup put
        by (cases "db_exec ?db s (insert_policy_sql ?d) (policy_row p x)") (auto simp: write_policy_def Let_def expected_matches_def)
    next
      case (Some q)
      let ?args = "[VInt (policy_Revision p), VBool (policy_FileIntegrityEnabled p), VBytes x, VBool (policy_SSHAuthEnabled p),
        VInt (policy_SSHThreshold p), VInt (policy_SSHWindowSeconds p), VBool (policy_RuntimeWatchEnabled p), VTime (policy_UpdatedAt p),
        VStr ?aid, VInt (policy_Revision q)]"
      have same: "policy_ID q = policy_ID p" using assms(4) Some by (simp add: policy_id_fits_def)
      have put: "n = 1 \<and> sv_invar v s' \<and> sv_repo v s' = ?r\<lparr>repo_policies := (repo_policies ?r)(?aid \<mapsto> db_policy (sq_codec database) (sv_tick v) p)\<rparr>"
        if "policy_Revision q = expected" "db_exec ?db s (update_policy_sql ?d) ?args = Inr (n, s')" for n s'
        using law [THEN conjunct2, THEN conjunct2, rule_format, OF assms(2) dec Some _ that(2)] that(1) assms(5) same
        by (simp add: db_policy_def kept_policy_def)
      show ?thesis
      proof (cases "policy_Revision q = expected")
        case True
        then show ?thesis
          using 2 Some put by (cases "db_exec ?db s (update_policy_sql ?d) ?args") (auto simp: write_policy_def Let_def expected_matches_def)
      qed (use 2 Some in \<open>auto simp: write_policy_def Let_def expected_matches_def\<close>)
    qed
  qed (simp add: write_policy_def Let_def)
qed

lemma write_audit_sim:
  assumes "sql_ok database v" and "sv_invar v s" and "sj_map (sq_codec database) (audit_Details a) = Inr x"
  shows "case write_audit database s a x of
      Inl err \<Rightarrow> (\<exists>e. err = ErrOther e)
    | Inr s' \<Rightarrow> sv_invar v s' \<and> repo_audits (sv_repo v s) (audit_ID a) = None
        \<and> sv_repo v s' = (sv_repo v s)\<lparr>repo_audits := (repo_audits (sv_repo v s))(audit_ID a \<mapsto> db_audit (sq_codec database) (sv_tick v) a)\<rparr>"
proof (cases "db_exec (sq_db database) s (insert_audit_sql (sq_dialect database)) (audit_row a x)")
  case (Inr r)
  obtain n s' where r: "r = (n, s')" by fastforce
  have "sv_invar v s' \<and> repo_audits (sv_repo v s) (audit_ID a) = None
      \<and> sv_repo v s' = (sv_repo v s)\<lparr>repo_audits := (repo_audits (sv_repo v s))(audit_ID a \<mapsto>
          kept_audit (sv_tick v) (json_map (sq_codec database) (audit_Details a)) a)\<rparr>"
    using sql_okD(5) [OF assms(1), unfolded audit_statements_def Let_def, THEN conjunct1, rule_format, OF assms(2)
        json_map_decodes [OF sql_okD(1) [OF assms(1)] assms(3)] Inr [unfolded r]] .
  then show ?thesis using Inr r by (simp add: write_audit_def db_audit_def)
qed (simp add: write_audit_def)

lemma sql_SavePolicyAndAudit_sim:
  assumes "sql_ok database v" and "sv_invar v s" and "policy_id_fits (sv_repo v s) p" and "expected < 2 ^ 63"
  shows "sim (sv_repo v) (sql_SavePolicyAndAudit database s p expected au)
      (repo_save_policy (sv_repo v s) (db_policy (sq_codec database) (sv_tick v) p) expected (db_audit (sq_codec database) (sv_tick v) au))"
    and "sql_SavePolicyAndAudit database s p expected au = Inr s' \<Longrightarrow> sv_invar v s'"
proof -
  let ?save = "repo_save_policy (sv_repo v s) (db_policy (sq_codec database) (sv_tick v) p) expected (db_audit (sq_codec database) (sv_tick v) au)"
  have keys: "policy_AgentID (db_policy (sq_codec database) (sv_tick v) p) = policy_AgentID p"
      "policy_Revision (db_policy (sq_codec database) (sv_tick v) p) = policy_Revision p" "audit_ID (db_audit (sq_codec database) (sv_tick v) au) = audit_ID au"
    by (simp_all add: db_policy_def db_audit_def)
  have save: "?save = (if \<not> expected_matches (sv_repo v s) p expected \<or> policy_Revision p \<noteq> wrap64 (expected + 1)
        \<or> audit_ID au \<in> dom (repo_audits (sv_repo v s)) then Inl ErrConflict
      else Inr ((sv_repo v s)\<lparr>repo_policies := (repo_policies (sv_repo v s))(policy_AgentID p \<mapsto> db_policy (sq_codec database) (sv_tick v) p),
        repo_audits := (repo_audits (sv_repo v s))(audit_ID au \<mapsto> db_audit (sq_codec database) (sv_tick v) au)\<rparr>))"
    by (auto simp: repo_save_policy_def Let_def keys expected_matches_def split: option.splits)
  have "sim (sv_repo v) (sql_SavePolicyAndAudit database s p expected au) ?save
      \<and> (\<forall>s'. sql_SavePolicyAndAudit database s p expected au = Inr s' \<longrightarrow> sv_invar v s')"
  proof (cases "expected < 0 \<or> policy_Revision p \<noteq> wrap64 (expected + 1)")
    case True
    have "0 < policy_Revision q" if "repo_policies (sv_repo v s) (policy_AgentID p) = Some q" for q
      using policy_laws(1) [OF assms(1,2)] that by (simp add: ranI)
    then have "?save = Inl ErrConflict" using True by (fastforce simp: save expected_matches_def split: option.splits)
    then show ?thesis using True by (auto simp: sql_SavePolicyAndAudit_def sim_def)
  next
    case False
    then have ne: "policy_Revision p \<noteq> expected" using assms(4) by (cases "expected = 2 ^ 63 - 1") (simp_all add: wrap64_def)
    show ?thesis
    proof (cases "\<exists>paths details. sj_paths (sq_codec database) (policy_FileWatchPaths p) = Inr paths
        \<and> sj_map (sq_codec database) (audit_Details au) = Inr details")
      case True
      then obtain paths details where enc: "sj_paths (sq_codec database) (policy_FileWatchPaths p) = Inr paths"
          "sj_map (sq_codec database) (audit_Details au) = Inr details" by blast
      note w = write_policy_sim [OF assms(1,2) enc(1) assms(3) ne]
      show ?thesis
      proof (cases "write_policy database s p expected paths")
        case (Inl err)
        then show ?thesis
          using w False enc
          by (auto simp: sql_SavePolicyAndAudit_def transaction_def sim_def save split: option.splits)
      next
        case (Inr s1)
        then have s1: "sv_invar v s1" "expected_matches (sv_repo v s) p expected"
            "sv_repo v s1 = (sv_repo v s)\<lparr>repo_policies := (repo_policies (sv_repo v s))(policy_AgentID p \<mapsto> db_policy (sq_codec database) (sv_tick v) p)\<rparr>"
          using w by auto
        show ?thesis
          using write_audit_sim [OF assms(1) s1(1) enc(2)] Inr False enc s1
          by (cases "write_audit database s1 au details")
            (auto simp: sql_SavePolicyAndAudit_def transaction_def sim_def save domIff split: option.splits)
      qed
    qed (use False in \<open>auto simp: sql_SavePolicyAndAudit_def sim_def split: sum.splits\<close>)
  qed
  then show "sim (sv_repo v) (sql_SavePolicyAndAudit database s p expected au) ?save"
    and "sql_SavePolicyAndAudit database s p expected au = Inr s' \<Longrightarrow> sv_invar v s'" by blast+
qed

section \<open>A database that takes the statements\<close>

text \<open>What a call needs of the database in order not to fail: that it starts and commits transactions, answers the queries of the call and
  takes the values it is given (their sizes, the Agent they refer to).\<close>

definition ready :: "'s SQLStore \<Rightarrow> 's sql_view \<Rightarrow> bool" where
  "ready database v \<longleftrightarrow> (\<forall>s. sv_invar v s \<longrightarrow> db_begin (sq_db database) s = None \<and> db_commit (sq_db database) s = None)"

definition takes_agent :: "'s SQLStore \<Rightarrow> 's \<Rightarrow> Agent \<Rightarrow> bool" where
  "takes_agent database s a \<longleftrightarrow>
     (\<forall>e. db_exec (sq_db database) s (insert_agent_sql (sq_dialect database)) (agent_row a) = Inl e \<longrightarrow> duplicateError (sq_dialect database) e)"

definition takes_heartbeat :: "'s SQLStore \<Rightarrow> 's sql_view \<Rightarrow> 's \<Rightarrow> string \<Rightarrow> Heartbeat \<Rightarrow> bool" where
  "takes_heartbeat database v s aid hb \<longleftrightarrow>
     (\<exists>r. db_exec (sq_db database) s (heartbeat_sql (sq_dialect database))
        [VTime (hb_SentAt hb), VStr (hb_AgentVersion hb), VStr (hb_AgentVersion hb), VStr aid] = Inr r)
     \<and> (\<forall>s'. sv_invar v s' \<longrightarrow> (\<exists>rs. db_query (sq_db database) s' (agent_by_id_sql (sq_dialect database)) [VStr aid] = Inr rs))"

definition takes_events :: "'s SQLStore \<Rightarrow> 's sql_view \<Rightarrow> 's \<Rightarrow> Event list \<Rightarrow> bool" where
  "takes_events database v s es \<longleftrightarrow>
     (\<forall>s' e. sv_invar v s' \<longrightarrow> repo_agents (sv_repo v s') = repo_agents (sv_repo v s) \<longrightarrow> e \<in> set es \<longrightarrow>
        (\<exists>x r. sj_map (sq_codec database) (event_Evidence e) = Inr x
           \<and> db_exec (sq_db database) s' (insert_event_sql (sq_dialect database)) (event_row e x) = Inr r))"

definition takes_policy :: "'s SQLStore \<Rightarrow> 's sql_view \<Rightarrow> 's \<Rightarrow> Policy \<Rightarrow> AuditLog \<Rightarrow> bool" where
  "takes_policy database v s p au \<longleftrightarrow>
     (let db = sq_db database; d = sq_dialect database in
      (\<exists>rs. db_query db s (lock_policy_sql d) [VStr (policy_AgentID p)] = Inr rs)
      \<and> (\<exists>x y. sj_paths (sq_codec database) (policy_FileWatchPaths p) = Inr x \<and> sj_map (sq_codec database) (audit_Details au) = Inr y
         \<and> (\<forall>e. db_exec db s (insert_policy_sql d) (policy_row p x) = Inl e \<longrightarrow> duplicateError d e)
         \<and> (\<forall>old. \<exists>r. db_exec db s (update_policy_sql d)
              [VInt (policy_Revision p), VBool (policy_FileIntegrityEnabled p), VBytes x, VBool (policy_SSHAuthEnabled p),
               VInt (policy_SSHThreshold p), VInt (policy_SSHWindowSeconds p), VBool (policy_RuntimeWatchEnabled p),
               VTime (policy_UpdatedAt p), VStr (policy_AgentID p), VInt old] = Inr r)
         \<and> (\<forall>s'. sv_invar v s' \<longrightarrow> repo_audits (sv_repo v s') = repo_audits (sv_repo v s) \<longrightarrow>
              (\<exists>r. db_exec db s' (insert_audit_sql d) (audit_row au y) = Inr r))))"

lemma sim_exact: "sim f x y \<Longrightarrow> (\<And>e. x \<noteq> Inl (ErrOther e)) \<Longrightarrow> map_sum id f x = y"
  by (auto simp: sim_def)

lemma sql_CreateAgent_answers: "takes_agent database s a \<Longrightarrow> sql_CreateAgent database s a \<noteq> Inl (ErrOther e)"
  by (auto simp: sql_CreateAgent_def takes_agent_def split: sum.splits)

lemma sql_UpdateHeartbeat_answers:
  assumes "sql_ok database v" and "sv_invar v s" and "takes_heartbeat database v s aid hb"
  shows "sql_UpdateHeartbeat database s aid hb \<noteq> Inl (ErrOther e)"
proof -
  obtain n s1 where x: "db_exec (sq_db database) s (heartbeat_sql (sq_dialect database))
      [VTime (hb_SentAt hb), VStr (hb_AgentVersion hb), VStr (hb_AgentVersion hb), VStr aid] = Inr (n, s1)"
    using assms(3) by (auto simp: takes_heartbeat_def)
  have s1: "sv_invar v s1" using sql_okD(2) [OF assms(1), unfolded agent_statements_def Let_def] assms(2) x by blast
  then obtain rs where rs: "db_query (sq_db database) s1 (agent_by_id_sql (sq_dialect database)) [VStr aid] = Inr rs"
    using assms(3) by (auto simp: takes_heartbeat_def)
  then have "rs = (case repo_agents (sv_repo v s1) aid of None \<Rightarrow> [] | Some a \<Rightarrow> [agent_row a])"
    using sql_okD(2) [OF assms(1), unfolded agent_statements_def Let_def] s1 by blast
  then have "sql_AgentByID database s1 aid \<noteq> Inl (ErrOther e)"
    using rs by (auto simp: sql_AgentByID_def scanAgent_def split: option.splits)
  then show ?thesis using x by (auto simp: sql_UpdateHeartbeat_def split: sum.splits)
qed

lemma insert_events_answers:
  assumes "sql_ok database v"
  shows "sv_invar v s \<Longrightarrow> takes_events database v s es \<Longrightarrow> \<exists>n s'. insert_events database inserted es s = Inr (n, s') \<and> sv_invar v s'"
proof (induction es arbitrary: inserted s)
  case (Cons e es)
  obtain x n s1 where x: "sj_map (sq_codec database) (event_Evidence e) = Inr x"
      "db_exec (sq_db database) s (insert_event_sql (sq_dialect database)) (event_row e x) = Inr (n, s1)"
    using Cons.prems by (fastforce simp: takes_events_def)
  have one: "insert_events database 0 [e] s = Inr (if n = 1 then 1 else 0, s1)" using x by simp
  note l = insert_events_sim [OF assms Cons.prems(1) one]
  then have "repo_agents (sv_repo v s1) = repo_agents (sv_repo v s)"
    by (auto dest!: sym [of "_ \<lparr>repo_events := _\<rparr>"] split: if_splits)
  then have "takes_events database v s1 es" using Cons.prems(2) by (simp add: takes_events_def)
  then show ?case using Cons.IH [of s1] l x by simp
qed simp

lemma sql_SaveEvents_answers:
  assumes "sql_ok database v" and "sv_invar v s" and "ready database v" and "takes_events database v s es"
  shows "sql_SaveEvents database s es \<noteq> Inl (ErrOther e)"
  using insert_events_answers [OF assms(1,2,4), of 0] assms(2,3)
  by (auto simp: sql_SaveEvents_def transaction_def ready_def)

lemma lock_revision_answers:
  assumes "sql_ok database v" and "sv_invar v s"
    and "db_query (sq_db database) s (lock_policy_sql (sq_dialect database)) [VStr aid] = Inr rs"
  shows "\<exists>revision. lock_revision database s aid = Inr revision"
  using policy_laws(3) [OF assms(1,2,3)] assms(3) by (auto simp: lock_revision_def split: option.splits)

lemma sql_SavePolicyAndAudit_answers:
  assumes "sql_ok database v" and "sv_invar v s" and "ready database v" and "takes_policy database v s p au"
    and "policy_id_fits (sv_repo v s) p" and "expected < 2 ^ 63"
  shows "sql_SavePolicyAndAudit database s p expected au \<noteq> Inl (ErrOther e)"
proof (cases "expected < 0 \<or> policy_Revision p \<noteq> wrap64 (expected + 1)")
  case False
  then have ne: "policy_Revision p \<noteq> expected" using assms(6) by (cases "expected = 2 ^ 63 - 1") (simp_all add: wrap64_def)
  obtain rs x y where t: "db_query (sq_db database) s (lock_policy_sql (sq_dialect database)) [VStr (policy_AgentID p)] = Inr rs"
      "sj_paths (sq_codec database) (policy_FileWatchPaths p) = Inr x" "sj_map (sq_codec database) (audit_Details au) = Inr y"
      "\<And>e. db_exec (sq_db database) s (insert_policy_sql (sq_dialect database)) (policy_row p x) = Inl e \<Longrightarrow> duplicateError (sq_dialect database) e"
      "\<And>old. \<exists>r. db_exec (sq_db database) s (update_policy_sql (sq_dialect database))
        [VInt (policy_Revision p), VBool (policy_FileIntegrityEnabled p), VBytes x, VBool (policy_SSHAuthEnabled p),
         VInt (policy_SSHThreshold p), VInt (policy_SSHWindowSeconds p), VBool (policy_RuntimeWatchEnabled p),
         VTime (policy_UpdatedAt p), VStr (policy_AgentID p), VInt old] = Inr r"
      "\<And>s'. sv_invar v s' \<Longrightarrow> repo_audits (sv_repo v s') = repo_audits (sv_repo v s) \<Longrightarrow>
        \<exists>r. db_exec (sq_db database) s' (insert_audit_sql (sq_dialect database)) (audit_row au y) = Inr r"
    using assms(4) unfolding takes_policy_def Let_def by blast
  obtain revision where lock: "lock_revision database s (policy_AgentID p) = Inr revision"
    using lock_revision_answers [OF assms(1,2) t(1)] by blast
  have written: "write_policy database s p expected x \<noteq> Inl (ErrOther e')" for e'
    using lock t(4) t(5) [of expected] by (auto simp: write_policy_def Let_def split: sum.splits option.splits)
  show ?thesis
  proof (cases "write_policy database s p expected x")
    case (Inl err)
    then show ?thesis using written t(2,3) assms(2,3) by (auto simp: sql_SavePolicyAndAudit_def transaction_def ready_def)
  next
    case (Inr s1)
    then have s1: "sv_invar v s1" "repo_audits (sv_repo v s1) = repo_audits (sv_repo v s)"
      using write_policy_sim [OF assms(1,2) t(2) assms(5) ne] by auto
    then obtain r where "db_exec (sq_db database) s1 (insert_audit_sql (sq_dialect database)) (audit_row au y) = Inr r" using t(6) by blast
    then obtain s2 where s2: "write_audit database s1 au y = Inr s2" by (cases r) (simp add: write_audit_def)
    then have "sv_invar v s2" using write_audit_sim [OF assms(1) s1(1) t(3)] by simp
    then show ?thesis using Inr s2 t(2,3) assms(2,3) by (simp add: sql_SavePolicyAndAudit_def transaction_def ready_def)
  qed
qed (simp add: sql_SavePolicyAndAudit_def)


end
