(* ===== verification/Sql_Witness.thy ===== *)
theory Sql_Witness
  imports Sql_Store_Props
begin

text \<open>
  A database in memory that executes the statements of the SQL store with their meaning on the schema of the migrations,
  with times kept to the microsecond. It shows that the hypotheses of \<open>sql_store_refines\<close> can hold.
\<close>

definition null_codec :: sql_codec where
  "null_codec = \<lparr>sj_map = (\<lambda>m. if m = None then Inr ''null'' else Inl ''unsupported''), sj_map_of = (\<lambda>_. Inr None),
     sj_paths = (\<lambda>ps. if ps = [] then Inr ''[]'' else Inl ''unsupported''), sj_paths_of = (\<lambda>_. Inr [])\<rparr>"

definition micro :: "time \<Rightarrow> time" where "micro t = t div 1000 * 1000"

definition pg_error :: "string \<Rightarrow> sql_error" where
  "pg_error state = \<lparr>se_Number = None, se_State = Some state, se_Text = state\<rparr>"

abbreviation pg_duplicate :: sql_error where "pg_duplicate \<equiv> pg_error ''23505''"
abbreviation pg_failure :: sql_error where "pg_failure \<equiv> pg_error ''XX000''"

definition exec_insert_agent :: "Memory \<Rightarrow> sql_value list \<Rightarrow> sql_error + (nat \<times> Memory)" where
  "exec_insert_agent m args =
     (case scan_agent_row args of
        Inl _ \<Rightarrow> Inl pg_failure
      | Inr a \<Rightarrow> (case CreateAgent m (kept_agent micro a) of Inl _ \<Rightarrow> Inl pg_duplicate | Inr m' \<Rightarrow> Inr (1, m')))"

definition exec_heartbeat :: "Memory \<Rightarrow> sql_value list \<Rightarrow> sql_error + (nat \<times> Memory)" where
  "exec_heartbeat m args =
     (case args of
        [VTime t, VStr ver, _, VStr aid] \<Rightarrow>
          (case UpdateHeartbeat m aid \<lparr>hb_AgentVersion = ver, hb_QueueDepth = 0, hb_SentAt = micro t\<rparr> of
             Inl _ \<Rightarrow> Inr (0, m) | Inr m' \<Rightarrow> Inr (1, m'))
      | _ \<Rightarrow> Inl pg_failure)"

definition exec_insert_event :: "Memory \<Rightarrow> sql_value list \<Rightarrow> sql_error + (nat \<times> Memory)" where
  "exec_insert_event m args =
     (case scan_event_row null_codec args of Inl _ \<Rightarrow> Inl pg_failure | Inr e \<Rightarrow> Inr (SaveEvents m [kept_event micro None e]))"

definition exec_insert_policy :: "Memory \<Rightarrow> sql_value list \<Rightarrow> sql_error + (nat \<times> Memory)" where
  "exec_insert_policy m args =
     (case scan_policy_row null_codec args of
        Inl _ \<Rightarrow> Inl pg_failure
      | Inr p \<Rightarrow>
          if map_of (mem_policies m) (policy_AgentID p) \<noteq> None then Inl pg_duplicate
          else if policy_Revision p \<le> 0 then Inl pg_failure
          else Inr (1, m\<lparr>mem_policies := AList.update (policy_AgentID p) (kept_policy micro [] p) (mem_policies m)\<rparr>))"

definition exec_update_policy :: "Memory \<Rightarrow> sql_value list \<Rightarrow> sql_error + (nat \<times> Memory)" where
  "exec_update_policy m args =
     (case args of
        [VInt revision, VBool fim, VBytes x, VBool ssh, VInt threshold, VInt window, VBool rt, VTime t, VStr aid, VInt old] \<Rightarrow>
          (case map_of (mem_policies m) aid of
             None \<Rightarrow> Inr (0, m)
           | Some q \<Rightarrow>
               if policy_Revision q \<noteq> old then Inr (0, m)
               else if revision \<le> 0 then Inl pg_failure
               else Inr (1, m\<lparr>mem_policies := AList.update aid \<lparr>policy_ID = policy_ID q, policy_AgentID = aid, policy_Revision = revision,
                 policy_FileIntegrityEnabled = fim, policy_FileWatchPaths = [], policy_SSHAuthEnabled = ssh, policy_SSHThreshold = threshold,
                 policy_SSHWindowSeconds = window, policy_RuntimeWatchEnabled = rt, policy_UpdatedAt = micro t\<rparr> (mem_policies m)\<rparr>))
      | _ \<Rightarrow> Inl pg_failure)"

definition exec_insert_audit :: "Memory \<Rightarrow> sql_value list \<Rightarrow> sql_error + (nat \<times> Memory)" where
  "exec_insert_audit m args =
     (case scan_audit_row null_codec args of
        Inl _ \<Rightarrow> Inl pg_failure
      | Inr a \<Rightarrow>
          if map_of (mem_audits m) (audit_ID a) \<noteq> None then Inl pg_duplicate
          else Inr (1, m\<lparr>mem_audits := AList.update (audit_ID a) (kept_audit micro None a) (mem_audits m)\<rparr>))"

definition pg_exec :: "Memory \<Rightarrow> string \<Rightarrow> sql_value list \<Rightarrow> sql_error + (nat \<times> Memory)" where
  "pg_exec m q args =
     (if q = insert_agent_sql Postgres then exec_insert_agent m args
      else if q = heartbeat_sql Postgres then exec_heartbeat m args
      else if q = insert_event_sql Postgres then exec_insert_event m args
      else if q = insert_policy_sql Postgres then exec_insert_policy m args
      else if q = update_policy_sql Postgres then exec_update_policy m args
      else if q = insert_audit_sql Postgres then exec_insert_audit m args
      else Inl pg_failure)"

definition newest :: "('a \<Rightarrow> time) \<Rightarrow> int \<Rightarrow> 'a list \<Rightarrow> 'a list" where
  "newest f k xs = take (nat k) (sort_desc f xs)"

definition pg_query :: "Memory \<Rightarrow> string \<Rightarrow> sql_value list \<Rightarrow> sql_error + sql_value list list" where
  "pg_query m q args =
     (case args of
        [VStr key] \<Rightarrow>
          if q = agent_by_id_sql Postgres
          then Inr (case map_of (mem_agents m) key of None \<Rightarrow> [] | Some a \<Rightarrow> [agent_row a])
          else if q = agent_by_machine_sql Postgres
          then Inr (map agent_row (filter (\<lambda>a. agent_MachineID a = key) (map snd (mem_agents m))))
          else if q = policy_sql Postgres
          then Inr (case map_of (mem_policies m) key of None \<Rightarrow> [] | Some p \<Rightarrow> [policy_row p ''[]''])
          else if q = lock_policy_sql Postgres
          then Inr (case map_of (mem_policies m) key of None \<Rightarrow> [] | Some p \<Rightarrow> [[VInt (policy_Revision p)]])
          else Inl pg_failure
      | [VInt k] \<Rightarrow>
          if q = list_agents_sql Postgres
          then Inr (map (\<lambda>a. take 6 (agent_row a) @ drop 7 (agent_row a))
                 (newest agent_RegisteredAt k (map (\<lambda>(_, a). a\<lparr>agent_CredentialHash := []\<rparr>) (mem_agents m))))
          else if q = list_alerts_sql Postgres False
          then Inr (map (\<lambda>e. event_row e ''null'') (newest event_ReceivedAt k (map snd (mem_events m))))
          else if q = list_audits_sql Postgres
          then Inr (map (\<lambda>a. audit_row a ''null'') (newest audit_OccurredAt k (map snd (mem_audits m))))
          else Inl pg_failure
      | [VStr sev, VInt k] \<Rightarrow>
          if q = list_alerts_sql Postgres True
          then Inr (map (\<lambda>e. event_row e ''null'')
                 (newest event_ReceivedAt k (map snd (filter (\<lambda>(_, e). event_Severity e = sev) (mem_events m)))))
          else Inl pg_failure
      | _ \<Rightarrow> Inl pg_failure)"

definition pg_store :: "Memory SQLStore" where
  "pg_store = \<lparr>sq_db = \<lparr>db_exec = pg_exec, db_query = pg_query, db_begin = (\<lambda>_. None), db_commit = (\<lambda>_. None)\<rparr>,
     sq_dialect = Postgres, sq_codec = null_codec\<rparr>"

definition pg_inv :: "Memory \<Rightarrow> bool" where
  "pg_inv m \<longleftrightarrow> mem_inv m \<and> list_all (\<lambda>(_, e). event_Evidence e = None) (mem_events m)
     \<and> list_all (\<lambda>(_, p). 0 < policy_Revision p \<and> policy_FileWatchPaths p = []) (mem_policies m)
     \<and> list_all (\<lambda>(_, a). audit_Details a = None) (mem_audits m)"

definition pg_view :: "Memory sql_view" where
  "pg_view = \<lparr>sv_invar = pg_inv, sv_repo = mem_abs, sv_tick = micro\<rparr>"

lemma pg_sel [simp]:
  "db_exec (sq_db pg_store) = pg_exec" "db_query (sq_db pg_store) = pg_query" "sq_dialect pg_store = Postgres"
  "sq_codec pg_store = null_codec" "sv_invar pg_view = pg_inv" "sv_repo pg_view = mem_abs" "sv_tick pg_view = micro"
  by (simp_all add: pg_store_def pg_view_def)

lemma exec_texts:
  "distinct [insert_agent_sql Postgres, heartbeat_sql Postgres, insert_event_sql Postgres, insert_policy_sql Postgres,
     update_policy_sql Postgres, insert_audit_sql Postgres]"
  by code_simp

lemma query_texts:
  "distinct [agent_by_id_sql Postgres, agent_by_machine_sql Postgres, policy_sql Postgres, lock_policy_sql Postgres]"
  "distinct [list_agents_sql Postgres, list_alerts_sql Postgres False, list_audits_sql Postgres]"
  by code_simp+

lemma pg_exec_simps [simp]:
  "pg_exec m (insert_agent_sql Postgres) args = exec_insert_agent m args"
  "pg_exec m (heartbeat_sql Postgres) args = exec_heartbeat m args"
  "pg_exec m (insert_event_sql Postgres) args = exec_insert_event m args"
  "pg_exec m (insert_policy_sql Postgres) args = exec_insert_policy m args"
  "pg_exec m (update_policy_sql Postgres) args = exec_update_policy m args"
  "pg_exec m (insert_audit_sql Postgres) args = exec_insert_audit m args"
  using exec_texts by (auto simp: pg_exec_def)

lemma pg_query_simps [simp]:
  "pg_query m (agent_by_id_sql Postgres) [VStr key] = Inr (case map_of (mem_agents m) key of None \<Rightarrow> [] | Some a \<Rightarrow> [agent_row a])"
  "pg_query m (agent_by_machine_sql Postgres) [VStr key]
     = Inr (map agent_row (filter (\<lambda>a. agent_MachineID a = key) (map snd (mem_agents m))))"
  "pg_query m (policy_sql Postgres) [VStr key] = Inr (case map_of (mem_policies m) key of None \<Rightarrow> [] | Some p \<Rightarrow> [policy_row p ''[]''])"
  "pg_query m (lock_policy_sql Postgres) [VStr key]
     = Inr (case map_of (mem_policies m) key of None \<Rightarrow> [] | Some p \<Rightarrow> [[VInt (policy_Revision p)]])"
  "pg_query m (list_agents_sql Postgres) [VInt k] = Inr (map (\<lambda>a. take 6 (agent_row a) @ drop 7 (agent_row a))
     (newest agent_RegisteredAt k (map (\<lambda>(_, a). a\<lparr>agent_CredentialHash := []\<rparr>) (mem_agents m))))"
  "pg_query m (list_alerts_sql Postgres False) [VInt k] = Inr (map (\<lambda>e. event_row e ''null'') (newest event_ReceivedAt k (map snd (mem_events m))))"
  "pg_query m (list_audits_sql Postgres) [VInt k] = Inr (map (\<lambda>a. audit_row a ''null'') (newest audit_OccurredAt k (map snd (mem_audits m))))"
  "pg_query m (list_alerts_sql Postgres True) [VStr sev, VInt k] = Inr (map (\<lambda>e. event_row e ''null'')
     (newest event_ReceivedAt k (map snd (filter (\<lambda>(_, e). event_Severity e = sev) (mem_events m)))))"
  using query_texts by (auto simp: pg_query_def)

section \<open>The statements have their meaning\<close>

lemma null_codec_sel [simp]: "sj_map_of null_codec x = Inr None" "sj_paths_of null_codec x = Inr []"
  by (simp_all add: null_codec_def)

lemma null_codec_ok: "sql_codec_ok null_codec"
  by (simp add: sql_codec_ok_def)

lemma not_duplicate [simp]: "duplicateError Postgres pg_duplicate" "\<not> duplicateError Postgres pg_failure"
  by (simp_all add: duplicateError_def pg_error_def Postgres_def MySQL_def)

lemma all_update: "list_all (\<lambda>(_, x). P x) m \<Longrightarrow> P v \<Longrightarrow> list_all (\<lambda>(_, x). P x) (AList.update k v m)"
  unfolding list_all_iff by (auto dest!: mem_update_cases)

lemma map_values: "map (\<lambda>(_, x). x) t = map snd t"
  by (rule map_cong) auto

lemma newest_table:
  assumes "distinct (keys t)" and "list_all (\<lambda>(k, x). f x = k) t" and "\<And>x. f (g x) = f x"
  shows "newest_first h n (g ` ran (map_of t)) (newest h (int n) (map (\<lambda>(_, x). g x) t))"
  unfolding newest_def nat_int
  by (rule newest_first_take_sort [OF distinct_values [OF assms]]) (force simp: ran_map_of_distinct [OF assms(1)])

lemma pg_agents: "agent_statements pg_store pg_view"
  unfolding agent_statements_def Let_def pg_sel
proof (intro conjI allI impI)
  fix m :: Memory
  assume inv: "pg_inv m"
  then have mem: "mem_inv m" by (simp add: pg_inv_def)
  show "pg_inv m'" if "pg_exec m (insert_agent_sql Postgres) (agent_row a) = Inr (n, m')" for a n m'
  proof -
    have c: "CreateAgent m (kept_agent micro a) = Inr m'" using that by (auto simp: exec_insert_agent_def split: sum.splits)
    then have "mem_events m' = mem_events m" "mem_policies m' = mem_policies m" "mem_audits m' = mem_audits m"
      by (auto simp: CreateAgent_def split: if_splits)
    then show ?thesis using CreateAgent_inv [OF mem c] inv by (simp add: pg_inv_def)
  qed
  have create: "repo_create_agent (mem_abs m) (kept_agent micro a) = map_sum id mem_abs (CreateAgent m (kept_agent micro a))" for a
    using CreateAgent_sim [OF mem] by simp
  show "repo_agents (mem_abs m) (agent_ID a) = None"
    and "\<forall>b \<in> ran (repo_agents (mem_abs m)). agent_MachineID b \<noteq> agent_MachineID a"
    and "mem_abs m' = (mem_abs m)\<lparr>repo_agents := (repo_agents (mem_abs m))(agent_ID a \<mapsto> kept_agent micro a)\<rparr>"
    if "pg_exec m (insert_agent_sql Postgres) (agent_row a) = Inr (n, m')" for a n m'
  proof -
    have "repo_create_agent (mem_abs m) (kept_agent micro a) = Inr (mem_abs m')"
      using that by (auto simp: create exec_insert_agent_def split: sum.splits)
    then show "repo_agents (mem_abs m) (agent_ID a) = None"
      and "\<forall>b \<in> ran (repo_agents (mem_abs m)). agent_MachineID b \<noteq> agent_MachineID a"
      and "mem_abs m' = (mem_abs m)\<lparr>repo_agents := (repo_agents (mem_abs m))(agent_ID a \<mapsto> kept_agent micro a)\<rparr>"
      by (auto simp: repo_create_agent_def domIff split: if_splits)
  qed
  show "repo_agents (mem_abs m) (agent_ID a) \<noteq> None \<or> (\<exists>b \<in> ran (repo_agents (mem_abs m)). agent_MachineID b = agent_MachineID a)"
    if x: "pg_exec m (insert_agent_sql Postgres) (agent_row a) = Inl e" for a e
  proof -
    obtain err where "CreateAgent m (kept_agent micro a) = Inl err" using x by (auto simp: exec_insert_agent_def split: sum.splits)
    then have "repo_create_agent (mem_abs m) (kept_agent micro a) = Inl err" by (simp add: create)
    then show ?thesis by (auto simp: repo_create_agent_def domIff split: if_splits)
  qed
  show "rs = (case repo_agents (mem_abs m) aid of None \<Rightarrow> [] | Some a \<Rightarrow> [agent_row a])"
    if "pg_query m (agent_by_id_sql Postgres) [VStr aid] = Inr rs" for aid rs
    using that by simp
  show "\<exists>as. rs = map agent_row as \<and> set as = {a \<in> ran (repo_agents (mem_abs m)). agent_MachineID a = mid}"
    if "pg_query m (agent_by_machine_sql Postgres) [VStr mid] = Inr rs" for mid rs
  proof -
    have "distinct (keys (mem_agents m))" using mem by (simp add: mem_inv_def)
    then have "set (filter (\<lambda>a. agent_MachineID a = mid) (map snd (mem_agents m))) = {a \<in> ran (map_of (mem_agents m)). agent_MachineID a = mid}"
      by (auto simp: ran_map_of_distinct)
    then show ?thesis using that by (intro exI [of _ "filter (\<lambda>a. agent_MachineID a = mid) (map snd (mem_agents m))"]) simp
  qed
  fix aid t ver n m'
  assume x: "pg_exec m (heartbeat_sql Postgres) [VTime t, VStr ver, VStr ver, VStr aid] = Inr (n, m')"
  let ?hb = "\<lparr>hb_AgentVersion = ver, hb_QueueDepth = 0, hb_SentAt = micro t\<rparr>"
  have u: "case UpdateHeartbeat m aid ?hb of Inl _ \<Rightarrow> n = 0 \<and> m' = m | Inr m1 \<Rightarrow> m' = m1"
    using x by (auto simp: exec_heartbeat_def split: sum.splits)
  show "pg_inv m'"
  proof (cases "UpdateHeartbeat m aid ?hb")
    case (Inr m1)
    then have "mem_events m1 = mem_events m" "mem_policies m1 = mem_policies m" "mem_audits m1 = mem_audits m"
      by (auto simp: UpdateHeartbeat_def Let_def split: option.splits)
    then show ?thesis using UpdateHeartbeat_inv [OF mem Inr] inv u Inr by (simp add: pg_inv_def)
  qed (use u inv in simp)
  show "case repo_agents (mem_abs m) aid of
      None \<Rightarrow> n = 0 \<and> mem_abs m' = mem_abs m
    | Some a \<Rightarrow> mem_abs m' = (mem_abs m)\<lparr>repo_agents := (repo_agents (mem_abs m))(aid \<mapsto>
        a\<lparr>agent_LastSeenAt := micro t, agent_Version := (if ver = [] then agent_Version a else ver)\<rparr>)\<rparr>"
    using u UpdateHeartbeat_sim [of m aid ?hb]
    by (cases "UpdateHeartbeat m aid ?hb") (auto simp: repo_heartbeat_def split: option.splits)
next
  fix m k rs
  assume inv: "pg_inv m" and q: "pg_query m (list_agents_sql Postgres) [VInt (int k)] = Inr rs"
  let ?strip = "\<lambda>a. a\<lparr>agent_CredentialHash := []\<rparr>"
  let ?as = "newest agent_RegisteredAt (int k) (map (\<lambda>(_, a). ?strip a) (mem_agents m))"
  have "set ?as \<subseteq> set (map (\<lambda>(_, a). ?strip a) (mem_agents m))" by (auto simp: newest_def dest!: in_set_takeD)
  then have "map ?strip ?as = ?as" by (intro map_idI) force
  moreover have "newest_first agent_RegisteredAt k (?strip ` ran (map_of (mem_agents m))) ?as"
    by (rule newest_table [where f = agent_ID]) (use inv in \<open>auto simp: pg_inv_def mem_inv_def list_all_iff\<close>)
  ultimately show "\<exists>as. rs = map (\<lambda>a. take 6 (agent_row a) @ drop 7 (agent_row a)) as
      \<and> newest_first agent_RegisteredAt k (?strip ` ran (repo_agents (mem_abs m))) (map ?strip as)"
    using q by (intro exI [of _ ?as]) simp
qed

lemma pg_inv_values:
  assumes "pg_inv m"
  shows "e \<in> snd ` set (mem_events m) \<Longrightarrow> event_Evidence e = None" "a \<in> snd ` set (mem_audits m) \<Longrightarrow> audit_Details a = None"
    "map_of (mem_policies m) k = Some p \<Longrightarrow> 0 < policy_Revision p \<and> policy_FileWatchPaths p = []"
  using assms unfolding pg_inv_def list_all_iff by (auto dest!: map_of_SomeD)

lemma pg_events: "event_statements pg_store pg_view"
  unfolding event_statements_def Let_def pg_sel
proof (intro conjI allI impI)
  fix m e x ev n m'
  assume inv: "pg_inv m" and ev: "sj_map_of null_codec x = Inr ev"
    and q: "pg_exec m (insert_event_sql Postgres) (event_row e x) = Inr (n, m')"
  have "scan_event_row null_codec (event_row e x) = Inr (e\<lparr>event_Evidence := None\<rparr>)" by (simp add: scan_event_row_def event_row_def)
  moreover have "kept_event micro None (e\<lparr>event_Evidence := None\<rparr>) = kept_event micro ev e" using ev by (simp add: kept_event_def)
  ultimately have s: "SaveEvents m [kept_event micro ev e] = (n, m')" using q by (simp add: exec_insert_event_def)
  have none: "event_Evidence (kept_event micro ev e) = None" using ev by (simp add: kept_event_def)
  show "pg_inv m'"
    using SaveEvents_inv [of m "[kept_event micro ev e]"] inv s none
    by (auto simp: pg_inv_def SaveEvents_def intro!: all_update [where P = "\<lambda>e. event_Evidence e = None"] split: if_splits)
  show "if repo_events (mem_abs m) (event_ID e) \<noteq> None then n \<noteq> 1 \<and> mem_abs m' = mem_abs m
      else n = 1 \<and> mem_abs m' = (mem_abs m)\<lparr>repo_events := (repo_events (mem_abs m))(event_ID e \<mapsto> kept_event micro ev e)\<rparr>"
    using SaveEvents_sim [of m "[kept_event micro ev e]"] s by (auto simp: repo_save_events_def domIff)
next
  fix m sev k rs
  assume inv: "pg_inv m" and q: "pg_query m (list_alerts_sql Postgres (sev \<noteq> []))
      (if sev \<noteq> [] then [VStr sev, VInt (int k)] else [VInt (int k)]) = Inr rs"
  let ?t = "filter (\<lambda>(_, e). sev = [] \<or> event_Severity e = sev) (mem_events m)"
  let ?es = "newest event_ReceivedAt (int k) (map snd ?t)"
  have rs: "rs = map (\<lambda>e. event_row e ''null'') ?es" using q by (cases "sev = []") auto
  have sub: "set ?es \<subseteq> snd ` set (mem_events m)" by (auto simp: newest_def dest!: in_set_takeD)
  have none: "event_Evidence e = None" if "e \<in> set ?es" for e
    by (rule pg_inv_values(1) [OF inv subsetD [OF sub that]])
  have d: "distinct (keys (mem_events m))" "distinct (keys ?t)" "list_all (\<lambda>(k, e). event_ID e = k) ?t"
    using inv by (auto simp: pg_inv_def mem_inv_def list_all_iff distinct_map_filter)
  have "newest_first event_ReceivedAt k ((\<lambda>e. e) ` ran (map_of ?t)) (newest event_ReceivedAt (int k) (map (\<lambda>(_, e). e) ?t))"
    by (rule newest_table [OF d(2,3)]) simp
  moreover have "ran (map_of ?t) = {e \<in> ran (map_of (mem_events m)). sev = [] \<or> event_Severity e = sev}"
    unfolding ran_map_of_distinct [OF d(1)] ran_map_of_distinct [OF d(2)] by force
  ultimately have "newest_first event_ReceivedAt k {e \<in> ran (map_of (mem_events m)). sev = [] \<or> event_Severity e = sev} ?es" by (simp add: map_values)
  then show "\<exists>es. list_all2 (\<lambda>r e. \<exists>x. r = event_row e x \<and> sj_map_of null_codec x = Inr (event_Evidence e)) rs es
      \<and> newest_first event_ReceivedAt k {e \<in> ran (repo_events (mem_abs m)). sev = [] \<or> event_Severity e = sev} es"
    using none by (intro exI [of _ ?es]) (auto simp: rs list_all2_map1 intro!: list.rel_refl_strong)
qed

lemma pg_audits: "audit_statements pg_store pg_view"
  unfolding audit_statements_def Let_def pg_sel
proof (intro conjI allI impI)
  fix m a x d n m'
  assume inv: "pg_inv m" and d: "sj_map_of null_codec x = Inr d"
    and q: "pg_exec m (insert_audit_sql Postgres) (audit_row a x) = Inr (n, m')"
  have "scan_audit_row null_codec (audit_row a x) = Inr (a\<lparr>audit_Details := None\<rparr>)" by (simp add: scan_audit_row_def audit_row_def)
  moreover have "kept_audit micro None (a\<lparr>audit_Details := None\<rparr>) = kept_audit micro d a" using d by (simp add: kept_audit_def)
  ultimately have fresh: "map_of (mem_audits m) (audit_ID a) = None"
      and m': "m' = m\<lparr>mem_audits := AList.update (audit_ID a) (kept_audit micro d a) (mem_audits m)\<rparr>"
    using q by (auto simp: exec_insert_audit_def split: if_splits)
  have none: "audit_Details (kept_audit micro d a) = None" using d by (simp add: kept_audit_def)
  show "pg_inv m'"
    using inv none by (auto simp: m' pg_inv_def mem_inv_def intro!: keyed_update all_update [where P = "\<lambda>a. audit_Details a = None"])
  show "repo_audits (mem_abs m) (audit_ID a) = None" using fresh by simp
  show "mem_abs m' = (mem_abs m)\<lparr>repo_audits := (repo_audits (mem_abs m))(audit_ID a \<mapsto> kept_audit micro d a)\<rparr>"
    by (simp add: m' mem_abs_def update_conv')
next
  fix m k rs
  assume inv: "pg_inv m" and q: "pg_query m (list_audits_sql Postgres) [VInt (int k)] = Inr rs"
  let ?as = "newest audit_OccurredAt (int k) (map snd (mem_audits m))"
  have sub: "set ?as \<subseteq> snd ` set (mem_audits m)" by (auto simp: newest_def dest!: in_set_takeD)
  have none: "audit_Details a = None" if "a \<in> set ?as" for a
    by (rule pg_inv_values(2) [OF inv subsetD [OF sub that]])
  have "newest_first audit_OccurredAt k ((\<lambda>a. a) ` ran (map_of (mem_audits m))) (newest audit_OccurredAt (int k) (map (\<lambda>(_, a). a) (mem_audits m)))"
    by (rule newest_table [where f = audit_ID]) (use inv in \<open>auto simp: pg_inv_def mem_inv_def\<close>)
  then have "newest_first audit_OccurredAt k (ran (map_of (mem_audits m))) ?as" by (simp add: map_values)
  then show "\<exists>as. list_all2 (\<lambda>r a. \<exists>x. r = audit_row a x \<and> sj_map_of null_codec x = Inr (audit_Details a)) rs as
      \<and> newest_first audit_OccurredAt k (ran (repo_audits (mem_abs m))) as"
    using none q by (intro exI [of _ ?as]) (auto simp: list_all2_map1 intro!: list.rel_refl_strong)
qed

lemma pg_inv_put_policy:
  assumes "pg_inv m" and "0 < policy_Revision p" and "policy_FileWatchPaths p = []"
  shows "pg_inv (m\<lparr>mem_policies := AList.update (policy_AgentID p) p (mem_policies m)\<rparr>)"
  using assms
  by (auto simp: pg_inv_def mem_inv_def intro!: keyed_update all_update [where P = "\<lambda>p. 0 < policy_Revision p \<and> policy_FileWatchPaths p = []"])

lemma pg_policies: "policy_statements pg_store pg_view"
  unfolding policy_statements_def Let_def pg_sel
proof (intro conjI allI impI)
  fix m :: Memory
  assume inv: "pg_inv m"
  show "0 < policy_Revision p" if "p \<in> ran (repo_policies (mem_abs m))" for p
    using that pg_inv_values(3) [OF inv] by (auto simp: ran_def)
  show "case repo_policies (mem_abs m) aid of None \<Rightarrow> rs = []
      | Some p \<Rightarrow> \<exists>x. rs = [policy_row p x] \<and> sj_paths_of null_codec x = Inr (policy_FileWatchPaths p)"
    if "pg_query m (policy_sql Postgres) [VStr aid] = Inr rs" for aid rs
    using that pg_inv_values(3) [OF inv, of aid] by (auto split: option.splits)
  show "rs = (case repo_policies (mem_abs m) aid of None \<Rightarrow> [] | Some p \<Rightarrow> [[VInt (policy_Revision p)]])"
    if "pg_query m (lock_policy_sql Postgres) [VStr aid] = Inr rs" for aid rs
    using that by simp
  have scan: "scan_policy_row null_codec (policy_row p x) = Inr (p\<lparr>policy_FileWatchPaths := []\<rparr>)" for p x
    by (simp add: scan_policy_row_def policy_row_def)
  show "repo_policies (mem_abs m) (policy_AgentID p) \<noteq> None \<or> (\<exists>q \<in> ran (repo_policies (mem_abs m)). policy_ID q = policy_ID p)"
    if "pg_exec m (insert_policy_sql Postgres) (policy_row p x) = Inl e" "duplicateError Postgres e" for p x e
    using that by (auto simp: exec_insert_policy_def scan split: if_splits)
  fix p x ps
  assume dec: "sj_paths_of null_codec x = Inr ps"
  have ps: "kept_policy micro [] (p\<lparr>policy_FileWatchPaths := []\<rparr>) = kept_policy micro ps p" "policy_FileWatchPaths (kept_policy micro ps p) = []"
    using dec by (simp_all add: kept_policy_def)
  show "pg_inv m'" and "mem_abs m' = (mem_abs m)\<lparr>repo_policies := (repo_policies (mem_abs m))(policy_AgentID p \<mapsto> kept_policy micro ps p)\<rparr>"
    if "pg_exec m (insert_policy_sql Postgres) (policy_row p x) = Inr (n, m')" for n m'
  proof -
    have m': "0 < policy_Revision p" "m' = m\<lparr>mem_policies := AList.update (policy_AgentID p) (kept_policy micro ps p) (mem_policies m)\<rparr>"
      using that ps by (auto simp: exec_insert_policy_def scan split: if_splits)
    then show "pg_inv m'" using pg_inv_put_policy [OF inv, of "kept_policy micro ps p"] ps(2) by simp
    show "mem_abs m' = (mem_abs m)\<lparr>repo_policies := (repo_policies (mem_abs m))(policy_AgentID p \<mapsto> kept_policy micro ps p)\<rparr>"
      by (simp add: m' mem_abs_def update_conv')
  qed
  fix q n m'
  assume old: "repo_policies (mem_abs m) (policy_AgentID p) = Some q"
    and x: "pg_exec m (update_policy_sql Postgres) [VInt (policy_Revision p), VBool (policy_FileIntegrityEnabled p), VBytes x,
      VBool (policy_SSHAuthEnabled p), VInt (policy_SSHThreshold p), VInt (policy_SSHWindowSeconds p), VBool (policy_RuntimeWatchEnabled p),
      VTime (policy_UpdatedAt p), VStr (policy_AgentID p), VInt (policy_Revision q)] = Inr (n, m')"
  let ?new = "(kept_policy micro ps p)\<lparr>policy_ID := policy_ID q\<rparr>"
  have m': "n = 1" "0 < policy_Revision p" "m' = m\<lparr>mem_policies := AList.update (policy_AgentID p) ?new (mem_policies m)\<rparr>"
    using x old dec by (cases p; auto simp: exec_update_policy_def kept_policy_def split: if_splits)+
  show "n = 1" by (rule m'(1))
  show "pg_inv m'" using pg_inv_put_policy [OF inv, of ?new] m'(2,3) ps(2) by simp
  show "mem_abs m' = (mem_abs m)\<lparr>repo_policies := (repo_policies (mem_abs m))(policy_AgentID p \<mapsto> ?new)\<rparr>"
    by (simp add: m'(3) mem_abs_def update_conv')
qed

lemma pg_ok: "sql_ok pg_store pg_view"
  using null_codec_ok pg_agents pg_events pg_policies pg_audits by (simp add: sql_ok_def)

lemma pg_empty: "pg_inv NewMemory"
  using mem_inv_NewMemory by (simp add: pg_inv_def NewMemory_def)

text \<open>The engine takes what the sample calls write.\<close>

definition sample_batch :: "Event list" where
  "sample_batch = [stored_event ''x'' 1999, stored_event ''x'' 2000]"

definition sample_policy :: Policy where
  "sample_policy = \<lparr>policy_ID = ''p'', policy_AgentID = ''a'', policy_Revision = 1, policy_FileIntegrityEnabled = True, policy_FileWatchPaths = [],
     policy_SSHAuthEnabled = True, policy_SSHThreshold = 5, policy_SSHWindowSeconds = 60, policy_RuntimeWatchEnabled = False, policy_UpdatedAt = 1999\<rparr>"

definition sample_audit :: AuditLog where
  "sample_audit = \<lparr>audit_ID = ''u'', audit_Actor = ''admin'', audit_Action = ''put'', audit_Resource = ''a'', audit_OccurredAt = 1999, audit_Details = None\<rparr>"

lemma pg_ready: "ready pg_store pg_view"
  by (simp add: ready_def pg_store_def)

lemma pg_takes_events: "takes_events pg_store pg_view s sample_batch"
  by (auto simp: takes_events_def sample_batch_def stored_event_def null_codec_def exec_insert_event_def scan_event_row_def event_row_def)

lemma pg_takes_policy: "takes_policy pg_store pg_view NewMemory sample_policy sample_audit"
proof -
  have "scan_audit_row null_codec (audit_row sample_audit ''null'') = Inr sample_audit"
    "scan_policy_row null_codec (policy_row sample_policy ''[]'') = Inr sample_policy"
    by (simp_all add: scan_audit_row_def audit_row_def scan_policy_row_def policy_row_def sample_audit_def sample_policy_def)
  moreover have "sj_map null_codec (audit_Details sample_audit) = Inr ''null''" "sj_paths null_codec (policy_FileWatchPaths sample_policy) = Inr ''[]''"
    "policy_Revision sample_policy = 1"
    by (simp_all add: null_codec_def sample_audit_def sample_policy_def)
  moreover have "map_of (mem_audits m) k = None" if "repo_audits (mem_abs m) = repo_audits (mem_abs NewMemory)" for m k
    using that by (simp add: NewMemory_def)
  ultimately show ?thesis
    unfolding takes_policy_def Let_def pg_sel
    by (auto simp: exec_insert_policy_def exec_update_policy_def exec_insert_audit_def NewMemory_def)
qed

lemma sample_policy_fits: "policy_id_fits (mem_abs NewMemory) sample_policy"
  by (simp add: policy_id_fits_def NewMemory_def)


end
