(* ===== verification/Sql_Migrate.thy ===== *)
theory Sql_Migrate
  imports Sql_Store Go_Text
begin

text \<open>
  internal/store/sqlstore/migrate.go: the migrations of the schema. The embedded files are an argument, a list of paths and contents. A
  migration is not one transaction, so an error leaves what was done before it; the theorem says what is then recorded.
\<close>

section \<open>The code\<close>

text \<open>\<open>strings.Split\<close> with a separator that is not empty.\<close>

fun split_at :: "string \<Rightarrow> string \<Rightarrow> string \<Rightarrow> string list" where
  "split_at sep part [] = [part]"
| "split_at sep part (c # s) =
     (if prefix sep (c # s) then part # split_at sep [] (drop (length sep - 1) s) else split_at sep (part @ [c]) s)"

definition statementDelimiter :: string where "statementDelimiter = ''-- mysafe:statement''"

definition splitStatements :: "string \<Rightarrow> string list" where
  "splitStatements content = filter (\<lambda>statement. statement \<noteq> []) (map TrimSpace (split_at statementDelimiter [] content))"

definition migrationTableDDL :: "Dialect \<Rightarrow> string" where
  "migrationTableDDL d =
     (if d = Postgres
      then ''CREATE TABLE IF NOT EXISTS schema_migrations ('' @ line12 @ ''version VARCHAR(255) PRIMARY KEY,'' @ line12
        @ ''applied_at TIMESTAMPTZ NOT NULL DEFAULT CURRENT_TIMESTAMP'' @ line8 @ '')''
      else ''CREATE TABLE IF NOT EXISTS schema_migrations ('' @ line8 @ ''version VARCHAR(255) PRIMARY KEY,'' @ line8
        @ ''applied_at TIMESTAMP(6) NOT NULL DEFAULT CURRENT_TIMESTAMP(6)'' @ byte 10 # ''    ) ENGINE=InnoDB'')"

definition count_migration_sql :: "Dialect \<Rightarrow> string" where
  "count_migration_sql d = ''SELECT COUNT(*) FROM schema_migrations WHERE version = '' @ placeholder d 1"

definition record_migration_sql :: "Dialect \<Rightarrow> string" where
  "record_migration_sql d = ''INSERT INTO schema_migrations (version) VALUES ('' @ placeholder d 1 @ '')''
     @ (if d = Postgres then '' ON CONFLICT (version) DO NOTHING'' else '' ON DUPLICATE KEY UPDATE version = schema_migrations.version'')"

definition migrationApplied :: "'s SQLStore \<Rightarrow> 's \<Rightarrow> string \<Rightarrow> error + bool" where
  "migrationApplied database s version =
     (case db_query (sq_db database) s (count_migration_sql (sq_dialect database)) [VStr version] of
        Inl e \<Rightarrow> Inl (''check migration '' @ version @ '': '' @ se_Text e)
      | Inr [[VInt n]] \<Rightarrow> Inr (0 < n)
      | Inr _ \<Rightarrow> Inl (''check migration '' @ version @ '': '' @ scan_error))"

text \<open>\<open>fs.Glob\<close> of the files of the dialect, sorted by path.\<close>

definition migration_paths :: "string \<Rightarrow> (string \<times> string) list \<Rightarrow> (string \<times> string) list" where
  "migration_paths directory files =
     sort_key fst (filter (\<lambda>(path, _). case CutPrefix path (directory @ ''/'') of
        None \<Rightarrow> False | Some name \<Rightarrow> CHR ''/'' \<notin> set name \<and> HasSuffix name ''.sql'') files)"

fun run_statements :: "'s SQLStore \<Rightarrow> string \<Rightarrow> string list \<Rightarrow> 's \<Rightarrow> error option \<times> 's" where
  "run_statements database version [] s = (None, s)"
| "run_statements database version (statement # statements) s =
     (case db_exec (sq_db database) s statement [] of
        Inl e \<Rightarrow> (Some (''apply migration '' @ version @ '': '' @ se_Text e), s)
      | Inr (_, s) \<Rightarrow> run_statements database version statements s)"

definition apply_migration :: "'s SQLStore \<Rightarrow> string \<Rightarrow> string \<Rightarrow> 's \<Rightarrow> error option \<times> 's" where
  "apply_migration database version content s =
     (case migrationApplied database s version of
        Inl e \<Rightarrow> (Some e, s)
      | Inr True \<Rightarrow> (None, s)
      | Inr False \<Rightarrow>
          (case run_statements database version (splitStatements content) s of
             (Some e, s) \<Rightarrow> (Some e, s)
           | (None, s) \<Rightarrow>
               (case db_exec (sq_db database) s (record_migration_sql (sq_dialect database)) [VStr version] of
                  Inl e \<Rightarrow> (Some (''record migration '' @ version @ '': '' @ se_Text e), s)
                | Inr (_, s) \<Rightarrow> (None, s))))"

fun apply_migrations :: "'s SQLStore \<Rightarrow> string \<Rightarrow> (string \<times> string) list \<Rightarrow> 's \<Rightarrow> error option \<times> 's" where
  "apply_migrations database directory [] s = (None, s)"
| "apply_migrations database directory ((path, content) # files) s =
     (case apply_migration database (TrimPrefix path (directory @ ''/'')) content s of
        (Some e, s) \<Rightarrow> (Some e, s)
      | (None, s) \<Rightarrow> apply_migrations database directory files s)"

definition Migrate :: "'s SQLStore \<Rightarrow> (string \<times> string) list \<Rightarrow> 's \<Rightarrow> error option \<times> 's" where
  "Migrate database files s =
     (case db_exec (sq_db database) s (migrationTableDDL (sq_dialect database)) [] of
        Inl e \<Rightarrow> (Some (''create schema migration table: '' @ se_Text e), s)
      | Inr (_, s) \<Rightarrow>
          (let directory = ''migrations/'' @ sq_dialect database
           in apply_migrations database directory (migration_paths directory files) s))"

section \<open>What is recorded was run\<close>

text \<open>How the contents of a database are seen: the versions recorded and the statements that were run.\<close>

record 's migration_view =
  mv_recorded :: "'s \<Rightarrow> string set"
  mv_run :: "'s \<Rightarrow> string set"

abbreviation migration_dir :: "'s SQLStore \<Rightarrow> string" where
  "migration_dir database \<equiv> ''migrations/'' @ sq_dialect database"

definition version_of :: "'s SQLStore \<Rightarrow> string \<Rightarrow> string" where
  "version_of database path = TrimPrefix path (migration_dir database @ ''/'')"

definition migrations_ok :: "'s SQLStore \<Rightarrow> 's migration_view \<Rightarrow> (string \<times> string) list \<Rightarrow> bool" where
  "migrations_ok database v files \<longleftrightarrow>
     (let db = sq_db database; d = sq_dialect database in
      (\<forall>s n s'. db_exec db s (migrationTableDDL d) [] = Inr (n, s') \<longrightarrow> mv_recorded v s' = mv_recorded v s \<and> mv_run v s \<subseteq> mv_run v s')
      \<and> (\<forall>s version rs. db_query db s (count_migration_sql d) [VStr version] = Inr rs \<longrightarrow>
          (\<exists>n. rs = [[VInt n]] \<and> (0 < n \<longleftrightarrow> version \<in> mv_recorded v s)))
      \<and> (\<forall>s version n s'. db_exec db s (record_migration_sql d) [VStr version] = Inr (n, s') \<longrightarrow>
          mv_recorded v s' = insert version (mv_recorded v s) \<and> mv_run v s' = mv_run v s)
      \<and> (\<forall>s path content statement n s'. (path, content) \<in> set files \<longrightarrow> statement \<in> set (splitStatements content) \<longrightarrow>
          db_exec db s statement [] = Inr (n, s') \<longrightarrow> mv_recorded v s' = mv_recorded v s \<and> mv_run v s' = insert statement (mv_run v s)))"

definition recorded_were_run :: "'s SQLStore \<Rightarrow> 's migration_view \<Rightarrow> (string \<times> string) list \<Rightarrow> 's \<Rightarrow> bool" where
  "recorded_were_run database v files s \<longleftrightarrow>
     (\<forall>(path, content) \<in> set (migration_paths (migration_dir database) files).
        version_of database path \<in> mv_recorded v s \<longrightarrow> set (splitStatements content) \<subseteq> mv_run v s)"

text \<open>A database that answers: no statement of the migrations fails.\<close>

definition migrations_taken :: "'s SQLStore \<Rightarrow> (string \<times> string) list \<Rightarrow> bool" where
  "migrations_taken database files \<longleftrightarrow>
     (let db = sq_db database; d = sq_dialect database in
      \<forall>s. (\<exists>r. db_exec db s (migrationTableDDL d) [] = Inr r) \<and> (\<forall>version. \<exists>rs. db_query db s (count_migration_sql d) [VStr version] = Inr rs)
        \<and> (\<forall>version. \<exists>r. db_exec db s (record_migration_sql d) [VStr version] = Inr r)
        \<and> (\<forall>(path, content) \<in> set files. \<forall>statement \<in> set (splitStatements content). \<exists>r. db_exec db s statement [] = Inr r))"

lemma migration_laws:
  assumes "migrations_ok database v files"
  shows "db_exec (sq_db database) s (migrationTableDDL (sq_dialect database)) [] = Inr (n, s') \<Longrightarrow>
      mv_recorded v s' = mv_recorded v s \<and> mv_run v s \<subseteq> mv_run v s'"
    and "migrationApplied database s version = Inr b \<Longrightarrow> b \<longleftrightarrow> version \<in> mv_recorded v s"
    and "db_exec (sq_db database) s (record_migration_sql (sq_dialect database)) [VStr version] = Inr (n, s') \<Longrightarrow>
      mv_recorded v s' = insert version (mv_recorded v s) \<and> mv_run v s' = mv_run v s"
    and "(path, content) \<in> set files \<Longrightarrow> statement \<in> set (splitStatements content) \<Longrightarrow>
      db_exec (sq_db database) s statement [] = Inr (n, s') \<Longrightarrow> mv_recorded v s' = mv_recorded v s \<and> mv_run v s' = insert statement (mv_run v s)"
proof -
  note law = assms [unfolded migrations_ok_def Let_def]
  show "db_exec (sq_db database) s (migrationTableDDL (sq_dialect database)) [] = Inr (n, s') \<Longrightarrow>
      mv_recorded v s' = mv_recorded v s \<and> mv_run v s \<subseteq> mv_run v s'"
    using law [THEN conjunct1, rule_format] .
  show "migrationApplied database s version = Inr b \<Longrightarrow> b \<longleftrightarrow> version \<in> mv_recorded v s"
    using law [THEN conjunct2, THEN conjunct1, rule_format, of s version]
    by (cases "db_query (sq_db database) s (count_migration_sql (sq_dialect database)) [VStr version]") (auto simp: migrationApplied_def)
  show "db_exec (sq_db database) s (record_migration_sql (sq_dialect database)) [VStr version] = Inr (n, s') \<Longrightarrow>
      mv_recorded v s' = insert version (mv_recorded v s) \<and> mv_run v s' = mv_run v s"
    using law [THEN conjunct2, THEN conjunct2, THEN conjunct1, rule_format] .
  show "(path, content) \<in> set files \<Longrightarrow> statement \<in> set (splitStatements content) \<Longrightarrow>
      db_exec (sq_db database) s statement [] = Inr (n, s') \<Longrightarrow> mv_recorded v s' = mv_recorded v s \<and> mv_run v s' = insert statement (mv_run v s)"
    using law [THEN conjunct2, THEN conjunct2, THEN conjunct2, rule_format] .
qed

lemma run_statements_result:
  assumes "migrations_ok database v files" and "(path, content) \<in> set files"
  shows "set statements \<subseteq> set (splitStatements content) \<Longrightarrow> run_statements database version statements s = (r, s') \<Longrightarrow>
    mv_recorded v s' = mv_recorded v s \<and> mv_run v s \<subseteq> mv_run v s' \<and> (r = None \<longrightarrow> set statements \<subseteq> mv_run v s')"
proof (induction statements arbitrary: s)
  case (Cons statement statements)
  show ?case
  proof (cases "db_exec (sq_db database) s statement []")
    case (Inr x)
    obtain n s1 where x: "x = (n, s1)" by fastforce
    have s1: "mv_recorded v s1 = mv_recorded v s" "mv_run v s1 = insert statement (mv_run v s)"
      using migration_laws(4) [OF assms, of statement s n s1] Cons.prems(1) Inr x by auto
    have "run_statements database version statements s1 = (r, s')" using Cons.prems(2) Inr x by simp
    from Cons.IH [OF _ this] Cons.prems(1) s1 show ?thesis by auto
  qed (use Cons.prems(2) in auto)
qed simp

lemma apply_migration_result:
  assumes "migrations_ok database v files" and "(path, content) \<in> set files" and "apply_migration database version content s = (r, s')"
  shows "mv_run v s \<subseteq> mv_run v s' \<and> (r = None \<longrightarrow> version \<in> mv_recorded v s')
    \<and> (mv_recorded v s' = mv_recorded v s
       \<or> mv_recorded v s' = insert version (mv_recorded v s) \<and> set (splitStatements content) \<subseteq> mv_run v s')"
proof (cases "migrationApplied database s version")
  case (Inr b)
  show ?thesis
  proof (cases b)
    case True
    then show ?thesis using assms(3) Inr migration_laws(2) [OF assms(1) Inr] by (simp add: apply_migration_def)
  next
    case False
    obtain x s1 where x: "run_statements database version (splitStatements content) s = (x, s1)" by fastforce
    note l = run_statements_result [OF assms(1,2) subset_refl x]
    show ?thesis
    proof (cases x)
      case None
      show ?thesis
      proof (cases "db_exec (sq_db database) s1 (record_migration_sql (sq_dialect database)) [VStr version]")
        case (Inr y)
        obtain n s2 where y: "y = (n, s2)" by fastforce
        have "mv_recorded v s2 = insert version (mv_recorded v s1) \<and> mv_run v s2 = mv_run v s1"
          by (rule migration_laws(3) [OF assms(1), of s1 version n]) (simp add: Inr y)
        then show ?thesis using assms(3) \<open>migrationApplied database s version = Inr b\<close> False x None Inr y l by (auto simp: apply_migration_def)
      qed (use assms(3) Inr False x None l in \<open>auto simp: apply_migration_def\<close>)
    qed (use assms(3) Inr False x l in \<open>auto simp: apply_migration_def\<close>)
  qed
qed (use assms(3) in \<open>auto simp: apply_migration_def\<close>)

lemma migration_paths_set:
  "(path, content) \<in> set (migration_paths directory files) \<Longrightarrow> (path, content) \<in> set files \<and> prefix (directory @ ''/'') path"
  by (auto simp: migration_paths_def CutPrefix_def split: if_splits)

lemma same_version:
  assumes "distinct (map fst files)"
    and "(p, c) \<in> set (migration_paths (migration_dir database) files)" and "(q, d) \<in> set (migration_paths (migration_dir database) files)"
    and "version_of database p = version_of database q"
  shows "c = d"
proof -
  have "p = q"
    using migration_paths_set [OF assms(2)] migration_paths_set [OF assms(3)] assms(4)
    by (auto simp: version_of_def TrimPrefix_def prefix_def)
  then show ?thesis
    using assms(1) migration_paths_set [OF assms(2)] migration_paths_set [OF assms(3)] eq_key_imp_eq_value by metis
qed

lemma apply_migration_keeps:
  assumes "migrations_ok database v files" and "distinct (map fst files)" and "recorded_were_run database v files s"
    and "(path, content) \<in> set (migration_paths (migration_dir database) files)"
    and "apply_migration database (version_of database path) content s = (r, s')"
  shows "recorded_were_run database v files s' \<and> mv_recorded v s \<subseteq> mv_recorded v s' \<and> (r = None \<longrightarrow> version_of database path \<in> mv_recorded v s')"
proof -
  note l = apply_migration_result [OF assms(1) conjunct1 [OF migration_paths_set [OF assms(4)]] assms(5)]
  have "set (splitStatements d) \<subseteq> mv_run v s'"
    if q: "(q, d) \<in> set (migration_paths (migration_dir database) files)" "version_of database q \<in> mv_recorded v s'" for q d
  proof (cases "version_of database q \<in> mv_recorded v s")
    case True
    then show ?thesis using assms(3) q(1) l by (fastforce simp: recorded_were_run_def)
  next
    case False
    then have "version_of database q = version_of database path" and run: "set (splitStatements content) \<subseteq> mv_run v s'"
      using l q(2) by auto
    then have "d = content" using same_version [OF assms(2) q(1) assms(4)] by simp
    then show ?thesis using run by simp
  qed
  then show ?thesis using l by (auto simp: recorded_were_run_def)
qed

lemma apply_migrations_keeps:
  assumes "migrations_ok database v files" and "distinct (map fst files)"
  shows "set fs \<subseteq> set (migration_paths (migration_dir database) files) \<Longrightarrow> recorded_were_run database v files s \<Longrightarrow>
    apply_migrations database (migration_dir database) fs s = (r, s') \<Longrightarrow>
    recorded_were_run database v files s' \<and> mv_recorded v s \<subseteq> mv_recorded v s'
    \<and> (r = None \<longrightarrow> version_of database ` fst ` set fs \<subseteq> mv_recorded v s')"
proof (induction fs arbitrary: s)
  case (Cons f fs)
  obtain path content where f: "f = (path, content)" by fastforce
  obtain x s1 where x: "apply_migration database (version_of database path) content s = (x, s1)" by fastforce
  have "(path, content) \<in> set (migration_paths (migration_dir database) files)" using Cons.prems(1) f by simp
  note l = apply_migration_keeps [OF assms Cons.prems(2) this x]
  show ?case
  proof (cases x)
    case None
    then have "apply_migrations database (migration_dir database) fs s1 = (r, s')"
      using Cons.prems(3) x f by (simp add: version_of_def)
    from Cons.IH [OF _ _ this] Cons.prems(1) l f None show ?thesis by auto
  qed (use Cons.prems(3) x f l in \<open>auto simp: version_of_def\<close>)
qed simp

lemma migrations_takenD:
  assumes "migrations_taken database files"
  shows "\<exists>n s'. db_exec (sq_db database) s (migrationTableDDL (sq_dialect database)) [] = Inr (n, s')"
    and "\<exists>rs. db_query (sq_db database) s (count_migration_sql (sq_dialect database)) [VStr version] = Inr rs"
    and "\<exists>x. db_exec (sq_db database) s (record_migration_sql (sq_dialect database)) [VStr version] = Inr x"
    and "(path, content) \<in> set files \<Longrightarrow> statement \<in> set (splitStatements content) \<Longrightarrow> \<exists>x. db_exec (sq_db database) s statement [] = Inr x"
proof -
  note law = assms [unfolded migrations_taken_def Let_def, rule_format, of s]
  show "\<exists>n s'. db_exec (sq_db database) s (migrationTableDDL (sq_dialect database)) [] = Inr (n, s')" using law [THEN conjunct1] by auto
  show "\<exists>rs. db_query (sq_db database) s (count_migration_sql (sq_dialect database)) [VStr version] = Inr rs"
    using law [THEN conjunct2, THEN conjunct1] by blast
  show "\<exists>x. db_exec (sq_db database) s (record_migration_sql (sq_dialect database)) [VStr version] = Inr x"
    using law [THEN conjunct2, THEN conjunct2, THEN conjunct1] by blast
  show "(path, content) \<in> set files \<Longrightarrow> statement \<in> set (splitStatements content) \<Longrightarrow> \<exists>x. db_exec (sq_db database) s statement [] = Inr x"
    using law [THEN conjunct2, THEN conjunct2, THEN conjunct2] by blast
qed

lemma run_statements_taken:
  assumes "migrations_taken database files" and "(path, content) \<in> set files"
  shows "set statements \<subseteq> set (splitStatements content) \<Longrightarrow> fst (run_statements database version statements s) = None"
proof (induction statements arbitrary: s)
  case (Cons statement statements)
  obtain x where "db_exec (sq_db database) s statement [] = Inr x"
    using migrations_takenD(4) [OF assms(1,2)] Cons.prems by (meson list.set_intros(1) subsetD)
  then show ?case using Cons by (cases x) simp
qed simp

lemma apply_migrations_taken:
  assumes "migrations_ok database v files" and "migrations_taken database files"
  shows "set fs \<subseteq> set files \<Longrightarrow> fst (apply_migrations database directory fs s) = None"
proof (induction fs arbitrary: s)
  case (Cons f fs)
  obtain path content where f: "f = (path, content)" by fastforce
  let ?version = "TrimPrefix path (directory @ ''/'')"
  obtain rs where rs: "db_query (sq_db database) s (count_migration_sql (sq_dialect database)) [VStr ?version] = Inr rs"
    using migrations_takenD(2) [OF assms(2)] by blast
  obtain n where n: "rs = [[VInt n]]"
    using assms(1) [unfolded migrations_ok_def Let_def, THEN conjunct2, THEN conjunct1, rule_format, OF rs] by blast
  obtain s1 where s1: "run_statements database ?version (splitStatements content) s = (None, s1)"
    using run_statements_taken [OF assms(2) _ subset_refl, of path content ?version s] Cons.prems f
    by (cases "run_statements database ?version (splitStatements content) s") auto
  obtain x where x: "db_exec (sq_db database) s1 (record_migration_sql (sq_dialect database)) [VStr ?version] = Inr x"
    using migrations_takenD(3) [OF assms(2)] by blast
  have "fst (apply_migration database ?version content s) = None"
    using rs n s1 x by (cases x) (auto simp: apply_migration_def migrationApplied_def split: bool.splits)
  then show ?case
    using Cons f by (cases "apply_migration database ?version content s") auto
qed simp

lemma apply_migrations_again:
  assumes "migrations_ok database v files" and "migrations_taken database files"
  shows "\<forall>(path, content) \<in> set fs. TrimPrefix path (directory @ ''/'') \<in> mv_recorded v s \<Longrightarrow> apply_migrations database directory fs s = (None, s)"
proof (induction fs)
  case (Cons f fs)
  obtain path content where f: "f = (path, content)" by fastforce
  let ?version = "TrimPrefix path (directory @ ''/'')"
  obtain rs where rs: "db_query (sq_db database) s (count_migration_sql (sq_dialect database)) [VStr ?version] = Inr rs"
    using migrations_takenD(2) [OF assms(2)] by blast
  obtain n where "rs = [[VInt n]]" "0 < n \<longleftrightarrow> ?version \<in> mv_recorded v s"
    using assms(1) [unfolded migrations_ok_def Let_def, THEN conjunct2, THEN conjunct1, rule_format, OF rs] by blast
  then show ?case using Cons rs f by (simp add: apply_migration_def migrationApplied_def)
qed simp

text \<open>C15: Migrating can be interrupted and repeated. Whatever fails on the way, a version is recorded only after all statements of its
  file were run. A migration that reports success has recorded every file of the dialect, and on a database that takes the statements it does report
  success; migrating again then runs no statement of any file: it leaves the contents as the creation of the table of versions leaves them.\<close>

theorem migration_recorded_after_run:
  assumes "migrations_ok database v files" and "distinct (map fst files)" and "recorded_were_run database v files s"
    and "Migrate database files s = (r, s')"
  shows "recorded_were_run database v files s'
   \<and> (r = None \<longrightarrow> (\<forall>(path, content) \<in> set (migration_paths (migration_dir database) files).
        version_of database path \<in> mv_recorded v s' \<and> set (splitStatements content) \<subseteq> mv_run v s'))
   \<and> (migrations_taken database files \<longrightarrow> r = None
       \<and> (\<exists>n s2. db_exec (sq_db database) s' (migrationTableDDL (sq_dialect database)) [] = Inr (n, s2) \<and> Migrate database files s' = (None, s2)))"
proof (cases "db_exec (sq_db database) s (migrationTableDDL (sq_dialect database)) []")
  case (Inl e)
  then have "\<not> migrations_taken database files" using migrations_takenD(1) [of database files s] by auto
  then show ?thesis using assms(3,4) Inl by (auto simp: Migrate_def)
next
  case (Inr x)
  let ?fs = "migration_paths (migration_dir database) files"
  obtain n s1 where x: "x = (n, s1)" by fastforce
  have run: "apply_migrations database (migration_dir database) ?fs s1 = (r, s')" using assms(4) Inr x by (simp add: Migrate_def Let_def)
  have s1: "mv_recorded v s1 = mv_recorded v s \<and> mv_run v s \<subseteq> mv_run v s1"
    by (rule migration_laws(1) [OF assms(1), of s n]) (simp add: Inr x)
  then have "recorded_were_run database v files s1" using assms(3) by (fastforce simp: recorded_were_run_def)
  note k = apply_migrations_keeps [OF assms(1,2) subset_refl this run]
  have sub: "set ?fs \<subseteq> set files" using migration_paths_set by fastforce
  have again: "r = None \<and> (\<exists>n s2. db_exec (sq_db database) s' (migrationTableDDL (sq_dialect database)) [] = Inr (n, s2) \<and> Migrate database files s' = (None, s2))"
    if t: "migrations_taken database files"
  proof -
    have r: "r = None" using apply_migrations_taken [OF assms(1) t sub, of "migration_dir database" s1] run by simp
    obtain n' s2 where d: "db_exec (sq_db database) s' (migrationTableDDL (sq_dialect database)) [] = Inr (n', s2)"
      using migrations_takenD(1) [OF t] by blast
    have "mv_recorded v s2 = mv_recorded v s'" using migration_laws(1) [OF assms(1) d] by simp
    then have "apply_migrations database (migration_dir database) ?fs s2 = (None, s2)"
      using k r by (intro apply_migrations_again [OF assms(1) t]) (force simp: version_of_def)
    then show ?thesis using r d by (simp add: Migrate_def Let_def)
  qed
  have all_done: "version_of database path \<in> mv_recorded v s' \<and> set (splitStatements content) \<subseteq> mv_run v s'"
    if "r = None" "(path, content) \<in> set ?fs" for path content
    using k that by (force simp: recorded_were_run_def)
  show ?thesis using k all_done again by auto
qed

section \<open>An instance\<close>

text \<open>A database that remembers the versions and the statements.\<close>

definition log_exec :: "string list \<times> string list \<Rightarrow> string \<Rightarrow> sql_value list \<Rightarrow> sql_error + (nat \<times> string list \<times> string list)" where
  "log_exec s q args =
     (case args of
        [VStr version] \<Rightarrow> Inr (1, version # fst s, snd s)
      | _ \<Rightarrow> Inr (0, fst s, q # snd s))"

definition log_query :: "string list \<times> string list \<Rightarrow> string \<Rightarrow> sql_value list \<Rightarrow> sql_error + sql_value list list" where
  "log_query s q args = (case args of [VStr version] \<Rightarrow> Inr [[VInt (if version \<in> set (fst s) then 1 else 0)]] | _ \<Rightarrow> Inr [])"

definition log_store :: "(string list \<times> string list) SQLStore" where
  "log_store = \<lparr>sq_db = \<lparr>db_exec = log_exec, db_query = log_query, db_begin = (\<lambda>_. None), db_commit = (\<lambda>_. None)\<rparr>, sq_dialect = Postgres,
     sq_codec = \<lparr>sj_map = (\<lambda>_. Inr []), sj_map_of = (\<lambda>_. Inr None), sj_paths = (\<lambda>_. Inr []), sj_paths_of = (\<lambda>_. Inr [])\<rparr>\<rparr>"

definition log_view :: "(string list \<times> string list) migration_view" where
  "log_view = \<lparr>mv_recorded = (\<lambda>s. set (fst s)), mv_run = (\<lambda>s. set (snd s))\<rparr>"

definition log_files :: "(string \<times> string) list" where
  "log_files = [(''migrations/postgres/002.sql'', ''CREATE TABLE c''), (''migrations/mysql/001.sql'', ''CREATE TABLE m''),
     (''migrations/postgres/001.sql'', ''CREATE TABLE a; -- mysafe:statement CREATE TABLE b'')]"

lemma log_ok: "migrations_ok log_store log_view files" "migrations_taken log_store files"
  by (auto simp: migrations_ok_def migrations_taken_def log_store_def log_view_def log_exec_def log_query_def Let_def)

lemma log_Migrate:
  "Migrate log_store log_files ([], []) = (None, [''002.sql'', ''001.sql''],
     [''CREATE TABLE c'', ''CREATE TABLE b'', ''CREATE TABLE a;'', migrationTableDDL Postgres])"
  by code_simp

theorem migration_recorded_after_run_witness:
  "Migrate log_store log_files ([], []) = (None, [''002.sql'', ''001.sql''],
     [''CREATE TABLE c'', ''CREATE TABLE b'', ''CREATE TABLE a;'', migrationTableDDL Postgres])
   \<and> recorded_were_run log_store log_view log_files ([''002.sql'', ''001.sql''],
     [''CREATE TABLE c'', ''CREATE TABLE b'', ''CREATE TABLE a;'', migrationTableDDL Postgres])"
proof -
  have d: "distinct (map fst log_files)" by code_simp
  have e: "recorded_were_run log_store log_view log_files ([], [])" by (simp add: recorded_were_run_def log_view_def)
  show ?thesis using migration_recorded_after_run [OF log_ok(1) d e log_Migrate] log_Migrate by blast
qed

end
