(* ===== verification/Host_Scanner.thy ===== *)
theory Host_Scanner
  imports Ident Domain Go_Text
begin

text \<open>
  internal/scanner: the inventory of the host that every cycle of the Agent reports. It reads the release files, the tables of TCP
  sockets and the presence of two configuration files, and changes nothing. \<open>goos\<close> and \<open>goarch\<close> are the constants of
  the build; the platform file is chosen by the build tag.
\<close>

section \<open>scanner.go\<close>

definition scan_allowed :: "string list" where
  "scan_allowed = [''ID'', ''NAME'', ''VERSION_ID'', ''VERSION_CODENAME'']"

definition scan_os_line :: "string \<Rightarrow> (string, string) gomap \<Rightarrow> (string, string) gomap" where
  "scan_os_line line result =
     (case CutChar (CHR ''='') line of
        None \<Rightarrow> result
      | Some (key, v) \<Rightarrow>
          if key \<notin> set scan_allowed then result
          else let v = Trim (TrimSpace v) [CHR 0x22] in if length v \<le> 128 then AList.update key v result else result)"

definition scan_parseOSRelease :: "string \<Rightarrow> (string, string) gomap" where
  "scan_parseOSRelease content = fold scan_os_line (scan_lines content) []"

definition scan_port :: "string \<Rightarrow> int option" where
  "scan_port line =
     (case Fields line of
        _ # local # _ # state # _ \<Rightarrow>
          if state \<noteq> ''0A'' then None
          else (case CutChar (CHR '':'') local of
                  None \<Rightarrow> None
                | Some (_, rawPort) \<Rightarrow>
                    (case ParseUint rawPort 16 16 of Some port \<Rightarrow> if 0 < port then Some (int port) else None | None \<Rightarrow> None))
      | _ \<Rightarrow> None)"

definition scan_parseListeningPorts :: "string \<Rightarrow> int list" where
  "scan_parseListeningPorts content = sort (remdups (List.map_filter scan_port (scan_lines content)))"

section \<open>platform_linux.go\<close>

text \<open>\<open>sortInts\<close>: the inner loop moves the value at \<open>j\<close> down, the outer one runs over the positions.\<close>

fun sink :: "nat \<Rightarrow> int list \<Rightarrow> int list" where
  "sink 0 values = values"
| "sink (Suc j) values =
     (if values ! Suc j < values ! j then sink j (values[Suc j := values ! j, j := values ! Suc j]) else values)"

definition sortInts :: "int list \<Rightarrow> int list" where
  "sortInts values = fold sink [1..<length values] values"

text \<open>The ports of one table of sockets, added to the set.\<close>

definition add_ports :: "string \<Rightarrow> int list \<Rightarrow> world \<Rightarrow> int list \<times> world" where
  "add_ports path ports w =
     (case ReadFile path w of
        (Inl _, w) \<Rightarrow> (ports, w)
      | (Inr content, w) \<Rightarrow> (fold List.insert (scan_parseListeningPorts content) ports, w))"

text \<open>\<open>FileMode.String\<close> of permission bits.\<close>

definition perm_text :: "nat \<Rightarrow> string" where
  "perm_text mode = CHR ''-'' # map (\<lambda>(i, c). if odd (mode div 2 ^ (8 - i)) then c else CHR ''-'') (List.enumerate 0 ''rwxrwxrwx'')"

definition config_file :: "string \<Rightarrow> world \<Rightarrow> goany \<times> world" where
  "config_file path w =
     (case Stat path w of
        (Inr info, w) \<Rightarrow> (AMap [(''exists'', ABool True), (''mode'', AStr (perm_text (node_perm info)))], w)
      | (Inl OsNotExist, w) \<Rightarrow> (AMap [(''exists'', ABool False)], w)
      | (Inl _, w) \<Rightarrow> (AMap [(''exists'', ABool True), (''readable'', ABool False)], w))"

definition release_evidence :: "world \<Rightarrow> (string \<times> goany) list \<times> world" where
  "release_evidence w =
     (case ReadFile ''/etc/os-release'' w of
        (Inr content, w) \<Rightarrow> ([(''os_release'', AMap (map (\<lambda>(k, v). (k, AStr v)) (scan_parseOSRelease content)))], w)
      | (Inl _, w) \<Rightarrow> ([(''os_release_available'', ABool False)], w))"

definition kernel_evidence :: "world \<Rightarrow> (string \<times> goany) list \<times> world" where
  "kernel_evidence w =
     (case ReadFile ''/proc/sys/kernel/osrelease'' w of
        (Inr content, w) \<Rightarrow> ([(''kernel_release'', AStr (TrimSpace content))], w)
      | (Inl _, w) \<Rightarrow> ([], w))"

definition platformEvidence :: "world \<Rightarrow> (string \<times> goany) list \<times> world" where
  "platformEvidence w =
     (case release_evidence w of (release, w) \<Rightarrow>
      case kernel_evidence w of (booted, w) \<Rightarrow>
      case add_ports ''/proc/net/tcp'' [] w of (ports, w) \<Rightarrow>
      case add_ports ''/proc/net/tcp6'' ports w of (ports, w) \<Rightarrow>
      case config_file ''/etc/nginx/nginx.conf'' w of (nginx, w) \<Rightarrow>
      case config_file ''/etc/ssh/sshd_config'' w of (sshd, w) \<Rightarrow>
        (release @ booted @ (if ports = [] then [] else [(''listening_tcp_ports'', AArr (map AInt (sortInts ports)))])
         @ [(''config_files'', AMap [(''/etc/nginx/nginx.conf'', nginx), (''/etc/ssh/sshd_config'', sshd)])], w))"

section \<open>The event\<close>

definition platform_other :: "(string \<times> goany) list" where
  "platform_other = [(''scan_scope'', AStr ''limited_non_linux_development_host'')]"

definition host_Scan :: "string \<Rightarrow> string \<Rightarrow> time \<Rightarrow> (error, Event) io" where
  "host_Scan goos goarch now =
     io_bind (io_wrap (\<lambda>e. ''generate scan event id: '' @ os_text e) (RandomIO ''evt_'' 18)) (\<lambda>eventID w.
       let evidence = [(''platform'', AStr goos), (''architecture'', AStr goarch), (''read_only'', ABool True)];
           (extra, w) = (if goos = ''linux'' then platformEvidence w else (platform_other, w))
       in (Inr \<lparr>event_ID = eventID, event_AgentID = [], event_Kind = ''host.inventory'', event_Severity = SeverityInfo,
             event_Summary = ''Read-only host inventory scan completed'', event_OccurredAt = now, event_ReceivedAt = zero_time,
             event_Evidence = Some (fold (\<lambda>(k, v) m. AList.update k v m) extra evidence)\<rparr>, w))"

section \<open>The insertion sort\<close>

lemma sink_sorts: "sorted xs \<Longrightarrow> sink (length xs) (xs @ x # rest) = sort (xs @ [x]) @ rest"
proof (induction xs arbitrary: rest rule: rev_induct)
  case (snoc y ys)
  have s: "sorted ys" "\<forall>z \<in> set ys. z \<le> y" using snoc.prems by (auto simp: sorted_append)
  show ?case
  proof (cases "x < y")
    case True
    have "sink (length (ys @ [y])) ((ys @ [y]) @ x # rest) = sink (length ys) (ys @ x # y # rest)"
      using True by (simp add: nth_append list_update_append)
    also have "\<dots> = sort (ys @ [x]) @ y # rest" by (rule snoc.IH [OF s(1)])
    also have "sort (ys @ [x]) @ [y] = sort ((ys @ [y]) @ [x])"
      by (rule properties_for_sort [symmetric]) (use True s(2) in \<open>auto simp: sorted_append\<close>)
    then have "sort (ys @ [x]) @ y # rest = sort ((ys @ [y]) @ [x]) @ rest" by (metis append.assoc append_Cons append_Nil)
    finally show ?thesis .
  next
    case False
    have "sort ((ys @ [y]) @ [x]) = (ys @ [y]) @ [x]"
      by (rule properties_for_sort) (use False snoc.prems s in \<open>auto simp: sorted_append\<close>)
    then show ?thesis using False by (simp add: nth_append)
  qed
qed simp

text \<open>The hand-written sort is the sort.\<close>

lemma sortInts_sort: "sortInts values = sort values"
proof -
  have "i \<le> length values \<Longrightarrow> 1 \<le> i \<Longrightarrow> fold sink [1..<i] values = sort (take i values) @ drop i values" for i
  proof (induction i)
    case (Suc i)
    show ?case
    proof (cases "i = 0")
      case False
      have "drop i values = values ! i # drop (Suc i) values" using Suc.prems(1) by (simp add: Cons_nth_drop_Suc)
      then have "fold sink [1..<Suc i] values = sink i (sort (take i values) @ values ! i # drop (Suc i) values)"
        using Suc False by simp
      also have "\<dots> = sort (sort (take i values) @ [values ! i]) @ drop (Suc i) values"
        using sink_sorts [of "sort (take i values)" "values ! i" "drop (Suc i) values"] Suc.prems(1) by simp
      also have "sort (sort (take i values) @ [values ! i]) = sort (take (Suc i) values)"
        by (rule properties_for_sort) (use Suc.prems(1) in \<open>simp_all add: take_Suc_conv_app_nth\<close>)
      finally show ?thesis .
    qed (cases "values"; simp)
  qed simp
  then show ?thesis by (cases "values = []") (auto simp: sortInts_def Suc_le_eq)
qed

section \<open>What the inventory holds\<close>

lemma scan_port_range: "scan_port line = Some p \<Longrightarrow> 1 \<le> p \<and> p \<le> 65535"
  by (auto simp: scan_port_def ParseUint_def split: list.splits if_splits option.splits)

lemma scan_ports_range: "set (scan_parseListeningPorts content) \<subseteq> {1..65535}"
  using scan_port_range by (fastforce simp: scan_parseListeningPorts_def List.map_filter_def)

lemma fold_insert_set: "set (fold List.insert xs ys) = set xs \<union> set ys" "distinct ys \<Longrightarrow> distinct (fold List.insert xs ys)"
  by (induction xs arbitrary: ys) auto

lemma add_ports_result:
  assumes "add_ports path ports w = (ports', w')" and "distinct ports" and "set ports \<subseteq> {1..65535}"
  shows "w_files w' = w_files w \<and> distinct ports' \<and> set ports' \<subseteq> {1..65535}"
proof (cases "ReadFile path w")
  case (Pair x v)
  then have "w_files v = w_files w" using reads_files(3) by blast
  moreover have "ports' = (case x of Inl _ \<Rightarrow> ports | Inr content \<Rightarrow> fold List.insert (scan_parseListeningPorts content) ports)" "w' = v"
    using assms(1) Pair by (cases x; simp add: add_ports_def)+
  ultimately show ?thesis using assms(2,3) scan_ports_range by (cases x) (simp_all add: fold_insert_set)
qed

lemma config_file_files: "config_file path w = (v, w') \<Longrightarrow> w_files w' = w_files w"
  by (auto simp: config_file_def split: prod.splits sum.splits os_error.splits dest: reads_files(2))

lemma release_evidence_files: "release_evidence w = (m, w') \<Longrightarrow> w_files w' = w_files w \<and> (\<forall>v. (''listening_tcp_ports'', v) \<notin> set m) \<and> (\<forall>v. (''read_only'', v) \<notin> set m)"
  by (auto simp: release_evidence_def split: prod.splits sum.splits dest: reads_files(3))

lemma kernel_evidence_files: "kernel_evidence w = (m, w') \<Longrightarrow> w_files w' = w_files w \<and> (\<forall>v. (''listening_tcp_ports'', v) \<notin> set m) \<and> (\<forall>v. (''read_only'', v) \<notin> set m)"
  by (auto simp: kernel_evidence_def split: prod.splits sum.splits dest: reads_files(3))

definition ports_value :: "goany \<Rightarrow> bool" where
  "ports_value v \<longleftrightarrow> (\<exists>ports. v = AArr (map AInt ports) \<and> sorted ports \<and> distinct ports \<and> set ports \<subseteq> {1..65535})"

lemma platformEvidence_result:
  assumes "platformEvidence w = (m, w')"
  shows "w_files w' = w_files w \<and> (\<forall>v. (''read_only'', v) \<notin> set m) \<and> (\<forall>v. (''listening_tcp_ports'', v) \<in> set m \<longrightarrow> ports_value v)"
proof -
  obtain r a where r: "release_evidence w = (r, a)" by fastforce
  obtain k b where k: "kernel_evidence a = (k, b)" by fastforce
  obtain p c where p: "add_ports ''/proc/net/tcp'' [] b = (p, c)" by fastforce
  obtain q d where q: "add_ports ''/proc/net/tcp6'' p c = (q, d)" by fastforce
  obtain x e where x: "config_file ''/etc/nginx/nginx.conf'' d = (x, e)" by fastforce
  obtain y g where y: "config_file ''/etc/ssh/sshd_config'' e = (y, g)" by fastforce
  have p': "w_files c = w_files b \<and> distinct p \<and> set p \<subseteq> {1..65535}" using add_ports_result [OF p] by simp
  then have q': "w_files d = w_files c \<and> distinct q \<and> set q \<subseteq> {1..65535}" using add_ports_result [OF q] by simp
  have "ports_value (AArr (map AInt (sortInts q)))"
    unfolding ports_value_def using q' by (intro exI [of _ "sortInts q"]) (simp add: sortInts_sort)
  then show ?thesis
    using assms r k p q x y release_evidence_files [OF r] kernel_evidence_files [OF k] p' q' config_file_files [OF x] config_file_files [OF y]
    by (auto simp: platformEvidence_def split: if_splits)
qed

lemma overlay_lookup:
  "map_of (fold (\<lambda>(k, v) m. AList.update k v m) xs m) key = Some v \<Longrightarrow> map_of m key = Some v \<or> (key, v) \<in> set xs"
  "key \<notin> set (keys xs) \<Longrightarrow> map_of (fold (\<lambda>(k, v) m. AList.update k v m) xs m) key = map_of m key"
proof -
  show "map_of (fold (\<lambda>(k, v) m. AList.update k v m) xs m) key = Some v \<Longrightarrow> map_of m key = Some v \<or> (key, v) \<in> set xs"
  proof (induction xs arbitrary: m)
    case (Cons a xs)
    obtain k u where a: "a = (k, u)" by fastforce
    show ?case using Cons.IH [of "AList.update k u m"] Cons.prems a by (auto simp: update_conv' split: if_splits)
  qed simp
  show "key \<notin> set (keys xs) \<Longrightarrow> map_of (fold (\<lambda>(k, v) m. AList.update k v m) xs m) key = map_of m key"
    by (induction xs arbitrary: m) (auto simp: update_conv')
qed


definition scan_world :: world where
  "scan_world = \<lparr>w_files = [(''/etc/os-release'', NFile 420 (''ID=debian'' @ [byte 10]))], w_faults = [], w_rand = [], w_cwd = ''/''\<rparr>"


end
