(* ===== verification/Go_Flag.thy ===== *)
theory Go_Flag
  imports Domain
begin

text \<open>
  Package flag: the arguments of a command. A flag set is the list of its flags with their values; the constructor of the default says which
  kind of flag it is. \<open>flag_Parse\<close> gives the values after the arguments, or the error.
\<close>

datatype flag_value = FStr string | FBool bool | FInt int

type_synonym flag_set = "(string \<times> flag_value) list"

text \<open>\<open>strconv.ParseBool\<close>.\<close>

definition ParseBool :: "string \<Rightarrow> bool option" where
  "ParseBool s =
     (if s \<in> {''1'', ''t'', ''T'', ''true'', ''TRUE'', ''True''} then Some True
      else if s \<in> {''0'', ''f'', ''F'', ''false'', ''FALSE'', ''False''} then Some False
      else None)"

text \<open>\<open>strconv.ParseInt\<close> with base 0 and 64 bits: the prefix gives the base, and underscores may stand between digits.\<close>

datatype number_error = SyntaxError | RangeError

definition number_base :: "string \<Rightarrow> nat \<times> string" where
  "number_base s =
     (if HasPrefix s ''0''
      then (if 3 \<le> length s \<and> s ! 1 \<in> {CHR ''b'', CHR ''B''} then (2, drop 2 s)
            else if 3 \<le> length s \<and> s ! 1 \<in> {CHR ''o'', CHR ''O''} then (8, drop 2 s)
            else if 3 \<le> length s \<and> s ! 1 \<in> {CHR ''x'', CHR ''X''} then (16, drop 2 s)
            else (8, drop 1 s))
      else (10, s))"

fun underscores_between :: "bool \<Rightarrow> char \<Rightarrow> string \<Rightarrow> bool" where
  "underscores_between hex before [] \<longleftrightarrow> before \<noteq> CHR ''_''"
| "underscores_between hex before (c # s) \<longleftrightarrow>
     (if digit_value c < (if hex then 16 else 10) then underscores_between hex (CHR ''0'') s
      else if c = CHR ''_'' then before = CHR ''0'' \<and> underscores_between hex (CHR ''_'') s
      else before \<noteq> CHR ''_'' \<and> underscores_between hex (CHR ''!'') s)"

definition underscoreOK :: "string \<Rightarrow> bool" where
  "underscoreOK s =
     (if 2 \<le> length s \<and> s ! 0 = CHR ''0'' \<and> s ! 1 \<in> {CHR ''b'', CHR ''B'', CHR ''o'', CHR ''O'', CHR ''x'', CHR ''X''}
      then underscores_between (s ! 1 \<in> {CHR ''x'', CHR ''X''}) (CHR ''0'') (drop 2 s)
      else underscores_between False (CHR ''^'') s)"

definition ParseUint0 :: "string \<Rightarrow> number_error + nat" where
  "ParseUint0 s =
     (let (base, digits) = number_base s; value = number_value base (filter (\<lambda>c. c \<noteq> CHR ''_'') digits)
      in if s = [] \<or> \<not> list_all (\<lambda>c. c = CHR ''_'' \<or> digit_value c < base) digits then Inl SyntaxError
         else if 2 ^ 64 \<le> value then Inl RangeError
         else if CHR ''_'' \<in> set digits \<and> \<not> underscoreOK s then Inl SyntaxError
         else Inr value)"

definition ParseInt0 :: "string \<Rightarrow> number_error + int" where
  "ParseInt0 s =
     (let negative = HasPrefix s ''-''; rest = (if HasPrefix s ''-'' \<or> HasPrefix s ''+'' then drop 1 s else s)
      in case ParseUint0 rest of
           Inl e \<Rightarrow> Inl e
         | Inr n \<Rightarrow>
             if \<not> negative \<and> 2 ^ 63 \<le> n then Inl RangeError
             else if negative \<and> 2 ^ 63 < n then Inl RangeError
             else Inr (if negative then - int n else int n))"

definition set_flag :: "string \<Rightarrow> string \<Rightarrow> flag_value \<Rightarrow> error + flag_value" where
  "set_flag name value old =
     (case old of
        FStr _ \<Rightarrow> Inr (FStr value)
      | FBool _ \<Rightarrow>
          (case ParseBool value of
             Some b \<Rightarrow> Inr (FBool b)
           | None \<Rightarrow> Inl (''invalid boolean value '' @ Quote value @ '' for -'' @ name @ '': parse error''))
      | FInt _ \<Rightarrow>
          (case ParseInt0 value of
             Inr n \<Rightarrow> Inr (FInt n)
           | Inl SyntaxError \<Rightarrow> Inl (''invalid value '' @ Quote value @ '' for flag -'' @ name @ '': parse error'')
           | Inl RangeError \<Rightarrow> Inl (''invalid value '' @ Quote value @ '' for flag -'' @ name @ '': value out of range'')))"

text \<open>The name and the value after the equals sign, which is not the first character.\<close>

definition flag_name :: "string \<Rightarrow> string \<times> string option" where
  "flag_name s =
     (case s of [] \<Rightarrow> ([], None)
      | c # rest \<Rightarrow> (case CutChar (CHR ''='') rest of None \<Rightarrow> (s, None) | Some (a, b) \<Rightarrow> (c # a, Some b)))"

text \<open>One argument: the flags after it and whether it took the next argument as its value, or nothing where the flags end.\<close>

definition parse_one :: "flag_set \<Rightarrow> string \<Rightarrow> string list \<Rightarrow> error + (flag_set \<times> bool) option" where
  "parse_one flags s args =
     (if length s < 2 \<or> s ! 0 \<noteq> CHR ''-'' \<or> s = ''--'' then Inr None
      else let body = drop (if s ! 1 = CHR ''-'' then 2 else 1) s
           in if body = [] \<or> body ! 0 = CHR ''-'' \<or> body ! 0 = CHR ''='' then Inl (''bad flag syntax: '' @ s)
              else let (name, given) = flag_name body;
                       put = (\<lambda>v old took. case set_flag name v old of
                                Inl e \<Rightarrow> Inl e | Inr new \<Rightarrow> Inr (Some (AList.update name new flags, took)))
                   in case map_of flags name of
                        None \<Rightarrow> if name = ''help'' \<or> name = ''h'' then Inl ''flag: help requested''
                                else Inl (''flag provided but not defined: -'' @ name)
                      | Some old \<Rightarrow>
                          (case (given, old) of
                             (Some v, _) \<Rightarrow> put v old False
                           | (None, FBool _) \<Rightarrow> put ''true'' old False
                           | (None, _) \<Rightarrow>
                               (case args of [] \<Rightarrow> Inl (''flag needs an argument: -'' @ name) | v # _ \<Rightarrow> put v old True)))"

fun flag_Parse :: "flag_set \<Rightarrow> string list \<Rightarrow> error + flag_set" where
  "flag_Parse flags [] = Inr flags"
| "flag_Parse flags (s # args) =
     (case parse_one flags s args of
        Inl e \<Rightarrow> Inl e
      | Inr None \<Rightarrow> Inr flags
      | Inr (Some (flags', took)) \<Rightarrow> flag_Parse flags' (if took then tl args else args))"

text \<open>Reading a flag.\<close>

definition str_flag :: "flag_set \<Rightarrow> string \<Rightarrow> string" where
  "str_flag flags name = (case map_of flags name of Some (FStr s) \<Rightarrow> s | _ \<Rightarrow> [])"

definition bool_flag :: "flag_set \<Rightarrow> string \<Rightarrow> bool" where
  "bool_flag flags name = (case map_of flags name of Some (FBool b) \<Rightarrow> b | _ \<Rightarrow> False)"

definition int_flag :: "flag_set \<Rightarrow> string \<Rightarrow> int" where
  "int_flag flags name = (case map_of flags name of Some (FInt n) \<Rightarrow> n | _ \<Rightarrow> 0)"

section \<open>A flag keeps its kind\<close>

fun same_kind :: "flag_value \<Rightarrow> flag_value \<Rightarrow> bool" where
  "same_kind (FStr _) (FStr _) = True"
| "same_kind (FBool _) (FBool _) = True"
| "same_kind (FInt _) (FInt _) = True"
| "same_kind _ _ = False"

definition same_flags :: "flag_set \<Rightarrow> flag_set \<Rightarrow> bool" where
  "same_flags a b \<longleftrightarrow> (\<forall>name. rel_option same_kind (map_of a name) (map_of b name))"

lemma same_kind_refl [simp]: "same_kind v v"
  by (cases v) auto

lemma same_kind_trans: "same_kind a b \<Longrightarrow> same_kind b c \<Longrightarrow> same_kind a c"
  by (cases a; cases b; cases c) auto

lemma same_flags_refl [simp]: "same_flags a a"
  by (simp add: same_flags_def option.rel_refl)

lemma same_flags_update: "map_of a name = Some old \<Longrightarrow> same_kind old v \<Longrightarrow> same_flags a (AList.update name v a)"
  by (auto simp: same_flags_def update_conv' option.rel_refl)

lemma same_flags_trans: "same_flags a b \<Longrightarrow> same_flags b c \<Longrightarrow> same_flags a c"
proof -
  assume ab: "same_flags a b" and bc: "same_flags b c"
  have "rel_option same_kind (map_of a name) (map_of c name)" for name
    using ab [unfolded same_flags_def, rule_format, of name] bc [unfolded same_flags_def, rule_format, of name]
    by (cases "map_of a name"; cases "map_of b name"; cases "map_of c name") (auto intro: same_kind_trans)
  then show ?thesis by (simp add: same_flags_def)
qed

lemma set_flag_kind: "set_flag name v old = Inr new \<Longrightarrow> same_kind old new"
  by (cases old) (auto simp: set_flag_def split: option.splits sum.splits number_error.splits)

lemma parse_one_kinds:
  assumes "parse_one flags s args = Inr (Some (flags', took))"
  shows "same_flags flags flags'"
proof -
  obtain name old v new where "map_of flags name = Some old" "set_flag name v old = Inr new" "flags' = AList.update name new flags"
    using assms by (auto simp: parse_one_def Let_def split: if_splits prod.splits option.splits sum.splits flag_value.splits list.splits)
  then show ?thesis using same_flags_update set_flag_kind by blast
qed

text \<open>Parsing defines no flag and changes the kind of none.\<close>

lemma flag_Parse_kinds: "flag_Parse flags args = Inr flags' \<Longrightarrow> same_flags flags flags'"
proof (induction flags args rule: flag_Parse.induct)
  case (2 flags s args)
  show ?case
  proof (cases "parse_one flags s args")
    case (Inr r)
    then show ?thesis
      using 2 by (cases r) (fastforce dest: parse_one_kinds intro: same_flags_trans)+
  qed (use 2 in simp)
qed simp

end
