(* ===== verification/Release_Command.thy ===== *)
theory Release_Command
  imports Release_Bundle_Props Go_Flag
begin

text \<open>
  cmd/mysafe-release: the command that makes keys, signs the manifest of a release and verifies it. A command is a function of its arguments
  and gives the line it prints. The theorem composes it with the package below: what \<open>manifest\<close> signed, \<open>verify\<close> accepts.
\<close>

section \<open>The code\<close>

abbreviation os_plain :: "(os_error, 'a) io \<Rightarrow> (error, 'a) io" where
  "os_plain m \<equiv> io_wrap os_text m"

definition io_of :: "error + 'a \<Rightarrow> (error, 'a) io" where
  "io_of r = (case r of Inl e \<Rightarrow> io_fail e | Inr x \<Rightarrow> io_return x)"

definition io_check :: "error option \<Rightarrow> (error, unit) io" where
  "io_check r = (case r of Some e \<Rightarrow> io_fail e | None \<Rightarrow> io_return ())"

definition release_writeNew :: "string \<Rightarrow> string \<Rightarrow> nat \<Rightarrow> (error, unit) io" where
  "release_writeNew path content mode = os_plain (create_exclusive path content mode)"

definition release_keygen :: "rb_lib \<Rightarrow> string list \<Rightarrow> (error, string) io" where
  "release_keygen lib arguments =
     io_bind (io_of (flag_Parse [(''private-key'', FStr []), (''public-key'', FStr [])] arguments)) (\<lambda>flags.
       let privatePath = str_flag flags ''private-key''; publicPath = str_flag flags ''public-key''
       in if privatePath = [] \<or> publicPath = [] then io_fail ''-private-key and -public-key are required''
          else io_then (os_plain (MkdirAll (DirPath privatePath) 448))
               (io_then (os_plain (MkdirAll (DirPath publicPath) 493))
               (io_bind (GenerateKeyFiles lib privatePath publicPath) (\<lambda>fingerprint.
                 io_return (''release public key fingerprint: '' @ fingerprint)))))"

definition manifest_flags :: flag_set where
  "manifest_flags = [(''bundle'', FStr ''dist''), (''version'', FStr []), (''private-key'', FStr []),
     (''output'', FStr ''release-manifest.json''), (''signature'', FStr ''release-manifest.sig'')]"

definition release_manifest :: "rb_lib \<Rightarrow> time \<Rightarrow> string list \<Rightarrow> (error, string) io" where
  "release_manifest lib now arguments =
     io_bind (io_of (flag_Parse manifest_flags arguments)) (\<lambda>flags.
       let version = str_flag flags ''version''; privatePath = str_flag flags ''private-key''; manifestPath = str_flag flags ''output''
       in if version = [] \<or> privatePath = [] then io_fail ''-version and -private-key are required''
          else io_bind (Build lib (str_flag flags ''bundle'') version now) (\<lambda>m.
               io_bind (io_of (Encode lib m)) (\<lambda>encoded.
               io_bind (LoadPrivateKey lib privatePath) (\<lambda>privateKey.
               io_then (release_writeNew manifestPath encoded 420)
               (io_then (io_cleanup (release_writeNew (str_flag flags ''signature'') (rb_Sign lib encoded privateKey) 420) (Remove manifestPath))
                 (io_return (''signed '' @ FormatNat (length (mf_Artifacts m)) @ '' artifacts for '' @ mf_Version m)))))))"

text \<open>What \<open>verify\<close> here and \<open>verify-bundle\<close> of the installer have in common.\<close>

definition check_release :: "rb_lib \<Rightarrow> flag_set \<Rightarrow> (error, Manifest) io" where
  "check_release lib flags =
     (if str_flag flags ''public-key'' = [] then io_fail ''-public-key is required''
      else io_bind (os_plain (ReadFile (str_flag flags ''manifest''))) (\<lambda>encoded.
           io_bind (os_plain (ReadFile (str_flag flags ''signature''))) (\<lambda>signature.
           io_bind (LoadPublicKey lib (str_flag flags ''public-key'')) (\<lambda>publicKey.
           io_then (io_check (VerifySignature lib encoded signature publicKey))
           (io_bind (io_of (Decode lib encoded)) (\<lambda>m.
            io_then (VerifyArtifacts lib (str_flag flags ''bundle'') m) (io_return m)))))))"

definition verify_flags :: "string \<Rightarrow> flag_set" where
  "verify_flags bundle = [(''bundle'', FStr bundle), (''manifest'', FStr ''release-manifest.json''),
     (''signature'', FStr ''release-manifest.sig''), (''public-key'', FStr [])]"

definition release_verify :: "rb_lib \<Rightarrow> string list \<Rightarrow> (error, string) io" where
  "release_verify lib arguments =
     io_bind (io_of (flag_Parse (verify_flags ''dist'') arguments)) (\<lambda>flags.
       io_bind (check_release lib flags) (\<lambda>m.
         io_return (''verified '' @ mf_Version m @ '' ('' @ FormatNat (length (mf_Artifacts m)) @ '' artifacts)'')))"

definition release_run :: "rb_lib \<Rightarrow> time \<Rightarrow> string list \<Rightarrow> (error, string) io" where
  "release_run lib now arguments =
     (case arguments of
        [] \<Rightarrow> io_fail ''usage: mysafe-release keygen|manifest|verify [options]''
      | command # rest \<Rightarrow>
          if command = ''keygen'' then release_keygen lib rest
          else if command = ''manifest'' then release_manifest lib now rest
          else if command = ''verify'' then release_verify lib rest
          else io_fail (''unknown command '' @ Quote command))"

section \<open>Files that are only added\<close>

definition only_added :: "world \<Rightarrow> world \<Rightarrow> bool" where
  "only_added w v \<longleftrightarrow> (\<forall>p x. node_at w p = Some x \<longrightarrow> node_at v p = Some x)"

lemma only_added_resolve: "only_added w v \<Longrightarrow> resolve n w p = Some r \<Longrightarrow> resolve n v p = Some r"
  by (induction n w p rule: resolve.induct) (auto simp: only_added_def split: option.splits node.splits)

lemma only_added_follow: "only_added w v \<Longrightarrow> follow w p = Some r \<Longrightarrow> follow v p = Some r"
  by (simp add: follow_def only_added_resolve)

lemma only_added_dir: "only_added w v \<Longrightarrow> dir_at w p \<Longrightarrow> dir_at v p"
  by (cases "follow w p") (auto simp: dir_at_def dest: only_added_follow)

lemma only_added_built: "only_added w v \<Longrightarrow> built_from lib dir w a \<Longrightarrow> built_from lib dir v a"
  by (auto simp: only_added_def built_from_def)

lemma only_added_trans: "only_added u v \<Longrightarrow> only_added v w \<Longrightarrow> only_added u w"
  by (auto simp: only_added_def)

lemma only_added_files: "w_files v = w_files w \<Longrightarrow> only_added w v"
  by (simp add: only_added_def)

lemma writeNew_result:
  assumes "release_writeNew p c m w = (Inr u, v)"
  shows "only_added w v \<and> node_at v p = Some (NFile m c) \<and> (\<forall>q. q \<noteq> p \<longrightarrow> node_at v q = node_at w q)"
proof -
  have x: "create_exclusive p c m w = (Inr u, v)"
    using assms by (cases "create_exclusive p c m w") (auto simp: release_writeNew_def io_wrap_def split: sum.splits)
  have "node_at v q = node_at w q" if "q \<noteq> p" for q by (rule touchesD [OF touches_create_exclusive that x])
  moreover have "node_at w p = None" "node_at v p = Some (NFile m c)" using create_exclusive_Inr [OF x] by blast+
  ultimately show ?thesis by (metis only_added_def option.distinct(1))
qed

lemma LoadPrivateKey_files: "LoadPrivateKey lib p w = (r, v) \<Longrightarrow> w_files v = w_files w"
  by (auto simp: LoadPrivateKey_def io_defs split: prod.splits sum.splits option.splits if_splits PrivateKey.splits dest: reads_files(3))

lemma LoadPublicKey_files: "LoadPublicKey lib p w = (r, v) \<Longrightarrow> w_files v = w_files w"
  by (auto simp: LoadPublicKey_def io_defs split: prod.splits sum.splits dest: reads_files(3))

section \<open>What is signed verifies\<close>

lemma manifest_parse:
  "flag_Parse manifest_flags [''-bundle'', dir, ''-version'', version, ''-private-key'', priv, ''-output'', mpath, ''-signature'', spath]
     = Inr [(''bundle'', FStr dir), (''version'', FStr version), (''private-key'', FStr priv), (''output'', FStr mpath), (''signature'', FStr spath)]"
  by (simp add: manifest_flags_def parse_one_def flag_name_def set_flag_def)

lemma verify_parse:
  "flag_Parse (verify_flags bundle) [''-bundle'', dir, ''-manifest'', mpath, ''-signature'', spath, ''-public-key'', pubp]
     = Inr [(''bundle'', FStr dir), (''manifest'', FStr mpath), (''signature'', FStr spath), (''public-key'', FStr pubp)]"
  by (simp add: verify_flags_def parse_one_def flag_name_def set_flag_def)

lemma manifest_steps:
  assumes "release_run lib now [''manifest'', ''-bundle'', dir, ''-version'', version, ''-private-key'', priv, ''-output'', mpath, ''-signature'', spath] w
      = (Inr line, w1)"
  obtains m encoded key a b c where
    "Build lib dir version now w = (Inr m, a)" "Encode lib m = Inr encoded" "LoadPrivateKey lib priv a = (Inr key, b)"
    "release_writeNew mpath encoded 420 b = (Inr (), c)" "release_writeNew spath (rb_Sign lib encoded key) 420 c = (Inr (), w1)"
proof -
  have x: "release_manifest lib now [''-bundle'', dir, ''-version'', version, ''-private-key'', priv, ''-output'', mpath, ''-signature'', spath] w
      = (Inr line, w1)"
    using assms by (simp add: release_run_def)
  show ?thesis
    using x [unfolded release_manifest_def manifest_parse io_of_def sum.case] that
    by (auto simp: str_flag_def Let_def io_defs split: prod.splits sum.splits if_splits)
qed

text \<open>C23: What the release command signed, it accepts. When \<open>mysafe-release manifest\<close> has signed a directory, and its public key file holds
  the key that belongs to the private key, \<open>mysafe-release verify\<close> on the same directory succeeds, although the manifest
  and the signature may lie in that directory themselves. It rests on the documented behaviour of the libraries: the JSON decoder inverts the
  encoder on valid manifests and stops after the value, and an Ed25519 signature has 64 bytes and is accepted by the public key.\<close>

theorem signed_release_accepted:
  assumes "\<And>m json. Validate m = None \<Longrightarrow> rl_marshal lib m = Inr json \<Longrightarrow>
             rl_decode lib (json @ [byte 10]) = Inr (m, [byte 10])"
    and "\<And>u u' key message. w_files u = w_files w \<Longrightarrow> LoadPrivateKey lib priv u = (Inr key, u') \<Longrightarrow>
             length (rl_ed25519_Sign lib key message) = 64 \<and> rl_ed25519_Verify lib pub message (rl_ed25519_Sign lib key message)"
    and "w_ok w" and "clean_dir dir"
    and "\<And>name. dir_name dir mpath = Some name \<or> dir_name dir spath = Some name \<Longrightarrow> artifactPattern name = None"
    and "release_run lib now [''manifest'', ''-bundle'', dir, ''-version'', version, ''-private-key'', priv,
           ''-output'', mpath, ''-signature'', spath] w = (Inr line, w1)"
    and "w_files w2 = w_files w1" and "w_faults w2 = []"
    and "LoadPublicKey lib pubp w2 = (Inr pub, w2)" and "pubp \<noteq> []"
  shows "\<exists>said. release_run lib later [''verify'', ''-bundle'', dir, ''-manifest'', mpath, ''-signature'', spath, ''-public-key'', pubp] w2
    = (Inr said, w2)"
proof -
  obtain m encoded key a b c where s: "Build lib dir version now w = (Inr m, a)" "Encode lib m = Inr encoded"
      "LoadPrivateKey lib priv a = (Inr key, b)" "release_writeNew mpath encoded 420 b = (Inr (), c)"
      "release_writeNew spath (rb_Sign lib encoded key) 420 c = (Inr (), w1)"
    by (rule manifest_steps [OF assms(6)])
  note built = Build_Inr [OF s(1) assms(3,4)]
  have b: "w_files b = w_files w" using built LoadPrivateKey_files [OF s(3)] by simp
  note mw = writeNew_result [OF s(4)] and sw = writeNew_result [OF s(5)]
  have added: "only_added w w2"
    using only_added_trans [OF only_added_files [OF b] only_added_trans [OF mw [THEN conjunct1] sw [THEN conjunct1]]] assms(7)
    by (simp add: only_added_def)
  have "node_at w2 mpath = Some (NFile 420 encoded)" "node_at w2 spath = Some (NFile 420 (rb_Sign lib encoded key))"
    using mw sw assms(7) by (auto simp: only_added_def)
  then have reads: "ReadFile mpath w2 = (Inr encoded, w2)" "ReadFile spath w2 = (Inr (rb_Sign lib encoded key), w2)"
    using assms(8) by (simp_all add: ReadFile_def sys_no_fault follow_file)
  have sig: "VerifySignature lib encoded (rb_Sign lib encoded key) pub = None"
    using assms(2) [OF _ s(3)] built by (intro VerifySignature_Sign) simp_all
  have dec: "Decode lib encoded = Inr m" by (rule Decode_Encode [OF assms(1) conjunct1 [OF built] s(2)])
  have "VerifyArtifacts lib dir m w2 = (Inr (), w2)"
  proof (rule VerifyArtifacts_no_fault [OF conjunct1 [OF built] assms(8)])
    show "dir_at w2 dir" using only_added_dir [OF added] built by blast
    show "list_all (built_from lib dir w2) (mf_Artifacts m)" using built only_added_built [OF added] by (auto simp: list_all_iff)
    show "name \<in> set (map ar_Name (mf_Artifacts m))"
      if item: "(p, item) \<in> set (w_files w2)" "dir_name dir p = Some name" "artifactPattern name \<noteq> None" for name p item
    proof -
      have "p \<noteq> mpath" "p \<noteq> spath" using item assms(5) by auto
      then have "node_at w2 p = node_at w p" using mw sw b assms(7) by simp
      moreover have "node_at w2 p \<noteq> None" using item(1) by (metis map_of_eq_None_iff fst_conv image_eqI)
      ultimately obtain x where "(p, x) \<in> set (w_files w)" by (metis map_of_SomeD option.exhaust)
      then show ?thesis using built item(2,3) by blast
    qed
  qed
  then show ?thesis
    using reads sig dec assms(9,10)
    by (simp add: release_run_def release_verify_def check_release_def io_of_def io_check_def str_flag_def io_defs
        verify_flags_def parse_one_def flag_name_def set_flag_def)
qed

section \<open>An instance\<close>

definition key_lib :: rb_lib where
  "key_lib = demo_lib\<lparr>rl_pem_Decode := (\<lambda>s. Some (if s = ''k'' then ''PRIVATE KEY'' else ''PUBLIC KEY'', s, []))\<rparr>"

definition demo_bundle :: world where
  "demo_bundle = \<lparr>w_files = [(''/r'', NDir 493), (''/r/mysafe-agent-linux-amd64'', NFile 493 ''ELF''),
       (''/r/k'', NFile 384 ''k''), (''/r/p'', NFile 420 ''p'')],
     w_faults = [], w_rand = [], w_cwd = ''/''\<rparr>"

lemma writeNew_no_fault:
  assumes "w_faults w = []" and "node_at w p = None" and "dir_at w (DirPath p)"
  shows "release_writeNew p c m w = (Inr (), w\<lparr>w_files := AList.update p (NFile m c) (w_files w)\<rparr>)"
  using OpenExcl_no_fault [OF assms] assms(1)
  by (simp add: release_writeNew_def create_exclusive_def io_defs WriteTo_def next_fault_none append_file_def SyncClose_no_fault update_conv')

abbreviation demo_encoded :: string where "demo_encoded \<equiv> ''{}'' @ [byte 10]"

definition demo_written :: world where
  "demo_written = demo_bundle\<lparr>w_files := AList.update ''/r/m'' (NFile 420 demo_encoded) (w_files demo_bundle)\<rparr>"

definition demo_signed :: world where
  "demo_signed = demo_written\<lparr>w_files := AList.update ''/r/s'' (NFile 420 (rb_Sign key_lib demo_encoded ''k'')) (w_files demo_written)\<rparr>"

lemma demo_Build: "Build key_lib ''/r'' ''v1.2.0'' 5000000007 demo_bundle = (Inr demo_manifest, demo_bundle)"
  by code_simp

lemma demo_Encode: "Encode key_lib demo_manifest = Inr demo_encoded"
  by code_simp

lemma demo_private: "LoadPrivateKey key_lib ''/r/k'' demo_bundle = (Inr ''k'', demo_bundle)"
  by code_simp

lemma demo_manifest_written: "release_writeNew ''/r/m'' demo_encoded 420 demo_bundle = (Inr (), demo_written)"
  unfolding demo_written_def by (rule writeNew_no_fault) code_simp+

lemma demo_signature_written: "release_writeNew ''/r/s'' (rb_Sign key_lib demo_encoded ''k'') 420 demo_written = (Inr (), demo_signed)"
  unfolding demo_signed_def by (rule writeNew_no_fault) code_simp+

lemma demo_run:
  "release_run key_lib 5000000007 [''manifest'', ''-bundle'', ''/r'', ''-version'', ''v1.2.0'', ''-private-key'', ''/r/k'',
     ''-output'', ''/r/m'', ''-signature'', ''/r/s''] demo_bundle
   = (Inr (''signed '' @ FormatNat (length (mf_Artifacts demo_manifest)) @ '' artifacts for '' @ mf_Version demo_manifest), demo_signed)"
proof -
  have "release_manifest key_lib 5000000007 [''-bundle'', ''/r'', ''-version'', ''v1.2.0'', ''-private-key'', ''/r/k'',
      ''-output'', ''/r/m'', ''-signature'', ''/r/s''] demo_bundle
    = (Inr (''signed '' @ FormatNat (length (mf_Artifacts demo_manifest)) @ '' artifacts for '' @ mf_Version demo_manifest), demo_signed)"
    unfolding release_manifest_def manifest_parse io_of_def sum.case
    using demo_Build demo_Encode demo_private demo_manifest_written demo_signature_written by (simp add: str_flag_def Let_def io_defs)
  then show ?thesis by (simp add: release_run_def)
qed

lemma demo_public: "LoadPublicKey key_lib ''/r/p'' demo_signed = (Inr ''p'', demo_signed)"
proof -
  have "node_at demo_signed ''/r/p'' = Some (NFile 420 ''p'')" by (simp add: demo_signed_def demo_written_def demo_bundle_def update_conv')
  then have "ReadFile ''/r/p'' demo_signed = (Inr ''p'', demo_signed)"
    by (simp add: ReadFile_def sys_no_fault follow_file demo_signed_def demo_written_def demo_bundle_def)
  then show ?thesis by (simp add: LoadPublicKey_def ParsePublicKey_def key_lib_def demo_lib_def io_defs TrimSpace_def)
qed

theorem signed_release_accepted_witness:
  "fst (release_run key_lib 5000000007 [''manifest'', ''-bundle'', ''/r'', ''-version'', ''v1.2.0'', ''-private-key'', ''/r/k'',
     ''-output'', ''/r/m'', ''-signature'', ''/r/s''] demo_bundle)
     = Inr (''signed '' @ FormatNat (length (mf_Artifacts demo_manifest)) @ '' artifacts for '' @ mf_Version demo_manifest)
   \<and> (\<exists>said. release_run key_lib 0 [''verify'', ''-bundle'', ''/r'', ''-manifest'', ''/r/m'', ''-signature'', ''/r/s'',
     ''-public-key'', ''/r/p''] demo_signed = (Inr said, demo_signed))"
proof -
  have codec: "rl_decode key_lib (json @ [byte 10]) = Inr (m, [byte 10])" if "rl_marshal key_lib m = Inr json" for m json
    using that by (simp add: key_lib_def demo_lib_def split: if_splits)
  have keys: "length (rl_ed25519_Sign key_lib k x) = 64 \<and> rl_ed25519_Verify key_lib ''p'' x (rl_ed25519_Sign key_lib k x)" for k x
    by (simp add: key_lib_def demo_lib_def)
  have ok: "w_ok demo_bundle" "clean_dir ''/r''" by code_simp+
  have names: "artifactPattern name = None" if "dir_name ''/r'' ''/r/m'' = Some name \<or> dir_name ''/r'' ''/r/s'' = Some name" for name
  proof -
    have "dir_name ''/r'' ''/r/m'' = Some ''m''" "dir_name ''/r'' ''/r/s'' = Some ''s''" by code_simp+
    then have "name = ''m'' \<or> name = ''s''" using that by auto
    moreover have "artifactPattern ''m'' = None" "artifactPattern ''s'' = None" by code_simp+
    ultimately show ?thesis by auto
  qed
  have quiet: "w_faults demo_signed = []" by (simp add: demo_signed_def demo_written_def demo_bundle_def)
  have "\<exists>said. release_run key_lib 0 [''verify'', ''-bundle'', ''/r'', ''-manifest'', ''/r/m'', ''-signature'', ''/r/s'',
      ''-public-key'', ''/r/p''] demo_signed = (Inr said, demo_signed)"
    by (rule signed_release_accepted [OF codec keys ok names demo_run refl quiet demo_public]) simp_all
  then show ?thesis using demo_run by simp
qed

end
