(* ===== verification/Spec2Isabelle.thy ===== *)
theory Spec2Isabelle
  imports Control_Witness Runner_Props File_Integrity_Props Runtime_Watch_Props Ssh_Auth_Valid Transaction_Props
    Apply_Witness Gateway_Props Sql_Witness Sql_Migrate Host_Scanner Release_Command
begin

text \<open>
  A verification development of My Safe: a control plane that collects security events, an Agent that observes
  a host and delivers events to it, a gateway that inspects the traffic of an application, and an installer. The theories follow the
  packages of the repository; definitions keep the names of the Go functions, with a prefix where two packages use the same name.

  \<^bold>\<open>How the parts interact.\<close> The Agent's cycle (internal/agent/runner.go) loads its identity and policy, lets its
  detectors (internal/detector) observe the host, queues their events in an encrypted spool and only then lets the
  detectors commit what they have seen; it registers with the control plane or renews its certificate, fetches the
  policy, and flushes the spool. The control plane (internal/control/server.go) authenticates each request,
  validates and redacts events and keeps agents, events, policies and audit entries in a store
  (internal/store). The gateway (internal/gateway) forwards requests to the application through a firewall; the event of a rule match goes
  through an outbox (internal/gatewayevents) and a local socket (internal/localfeed) to the Agent, which queues it in the same spool.
  The installer (internal/installer) verifies a signed release (internal/releasebundle), inspects the host, makes a plan and replaces files
  under a journalled transaction, which it undoes when a step fails.

  \<^bold>\<open>The layer below.\<close>
  \<^item> Go_Base, Go_Text, Go_Path: package strings, maps as association lists (any order of the list stands for Go's open
    iteration order), sorting, numbers, time as nanoseconds, bufio.Scanner, strings.Fields, runes, filepath.
  \<^item> Go_Files: package os as an explicit state. A world holds the nodes of the file system, the faults that the next
    calls meet and the random bytes. A fault makes a call fail, cuts a write short, or ends the process, so a theorem about
    every world covers every failure and every crash point. The lemmas say what the two ways of writing a file
    (temporary file and rename; exclusive creation) leave behind in each case.
  \<^item> Ident: identifiers (internal/id). Domain: records and validation (internal/domain). Redact: redaction of evidence
    (internal/security).

  \<^bold>\<open>The control plane.\<close>
  \<^item> Store_Spec: the store interface (internal/store/store.go) as the locale \<open>store_impl\<close>, with an abstract repository that its
    operations refine. Store_Memory: the in-memory store (internal/store/memory.go), interpreted.
  \<^item> Sql_Store: the store on PostgreSQL or MySQL (internal/store/sqlstore/sqlstore.go). Every statement is built as text with its arguments and
    handed to the database, an argument of the definitions. Sql_Store_Props: on a database that gives the statements their meaning
    (\<open>sql_ok\<close>) the operations refine the same abstract repository. Sql_Witness: such a database. Sql_Migrate: the migrations of the schema
    (internal/store/sqlstore/migrate.go) can be interrupted and repeated.
  \<^item> Mtls: certificates, keys and their files (internal/mtls/mtls.go). X.509, PEM and Ed25519 are parameters.
  \<^item> Control: every handler of internal/control/server.go and middleware.go on a state with the store. Control_Props,
    Control_Witness: who may change state, what each handler stores, the invariant of the server, errors.

  \<^bold>\<open>The Agent.\<close>
  \<^item> Agent_State: identity and policy files. Queue, Queue_Props: the encrypted spool (internal/agent/queue.go) and its contract, the
    locale \<open>event_spool\<close>: nothing is lost, order is kept, an acknowledgement removes what was read.
  \<^item> Client: the HTTP client. The transport is an argument. Runner, Runner_Props: the cycle.
  \<^item> Host_Scanner: the inventory of the host that a cycle starts with (internal/scanner): it changes nothing and is well-formed.
  \<^item> Detector_Base: what the detectors share, reading and replacing one JSON state file, and the locale \<open>change_detector\<close> on which
    the cycle relies (observing changes nothing; a commit changes the detector's own file or nothing), interpreted on
    all three detectors.
  \<^item> File_Integrity, File_Integrity_Props: internal/detector/fileintegrity. Exactly the changes are reported, a commit makes
    the next scan quiet, repeated scans repeat their identifiers, limits hold.
  \<^item> Runtime_Watch, Runtime_Watch_Props: internal/detector/runtimewatch. Every state prepared from any process file system passes
    the detector's own validation, old processes are forgotten oldest first, the number of events is bounded.
  \<^item> Ssh_Auth, Ssh_Auth_Props, Ssh_Auth_Valid: internal/detector/sshauth. Each line is read once, a burst of failures raises one
    alert, every prepared state is valid while at most sixteen paths have been watched. The journal source is the locale
    \<open>journal_source\<close>, interpreted on the systemd implementation.

  \<^bold>\<open>The gateway.\<close>
  \<^item> Local_Feed: the socket between gateway and Agent (internal/localfeed/localfeed.go). Outbox, Outbox_Props: the outbox
    (internal/gatewayevents/outbox.go). Its life is the inductive relation \<open>outbox_run\<close>: an event that was taken is delivered or in a
    file. A flush on a working host empties the outbox; what was sent reaches the Agent's spool.
  \<^item> Gateway, Gateway_Props: internal/gateway/gateway.go and the wiring of cmd/mysafe-gateway. A handler is the list of calls it makes on
    its response writer. The answer is the one of the firewall, the upstream or the failure policy; forwarding headers cannot be
    forged; the events of rule matches are acceptable.

  \<^bold>\<open>The installer.\<close>
  \<^item> Version: release versions (internal/installer/version.go) compare as Semantic Versioning prescribes.
  \<^item> Release_Bundle, Release_Bundle_Props: internal/releasebundle. Go_Flag: package flag. Release_Command: the command
    cmd/mysafe-release; a release that it signed verifies.
  \<^item> Go_Walk: filepath.WalkDir. Plan, Plan_Props: the inspection of the host and the plan (internal/installer/inspect.go).
  \<^item> Transaction, Transaction_Props: the journalled transaction (internal/installer/transaction.go) and the rollback of
    internal/installer/apply.go. The steps of an installation, with failures, crashes and restarts, are the inductive relation
    \<open>tx_run\<close>; its invariant is that the journal on disk describes how to undo what was done.
  \<^item> Apply: \<open>Apply\<close> with all its steps (internal/installer/apply.go, nginx.go). Apply_Props: what a completed installation put in place was
    signed; a failed one is undone. Apply_Live: on a host that meets the plan and on which no call fails, the installation completes.
    Apply_Witness: a concrete host.

  \<^bold>\<open>Bounds and fuel.\<close> The walk of the file integrity detector takes fuel, two more than the length of the longest path, which
    \<open>capture_total_bounded\<close> shows to suffice; so does the walk of the inspection (\<open>walk_fuel_enough\<close>). The recursions of \<open>loadOrCreateClientKey\<close> and \<open>loadOrCreateQueueKey\<close>, which need not
    end, are partial functions into options; theorems say when they return and when they do not. All other loops are
    structural. Integers keep their Go width where the code can reach it (64-bit clocks and counters); limits such as file
    sizes are the numbers of the source.

  \<^bold>\<open>Library parameters.\<close> Hash functions, AES-GCM, JSON encoders and decoders, X.509, \<open>net.ParseIP\<close>, the HTTP transport, the journalctl and
    other commands are arguments of the definitions. What a theorem needs of them (a decoder inverts its encoder, a hash
    has 32 bytes) is a named hypothesis, and its witness gives an instance.

  \<^bold>\<open>Not modelled.\<close> Of the SQL store, opening and closing the connection; the commands that parse
    flags and wire the parts, except for the release command and the wiring of the gateway. In the modelled parts: cancellation of contexts (except in the outbox),
    logging, file ownership, handlers that flush or hijack a connection, and the timer loop of the Agent.
\<close>

end
